(* ===== verification/Prelude.thy ===== *)
theory Prelude
  imports Main
begin

text \<open>
  Shared vocabulary of the development.

  Every fallible Rust function is modelled as a function into \<open>'e + 'a\<close> (\<open>Inl\<close> is the
  \<open>Err\<close> branch); a function that also changes the state of a service is a function
  \<open>'s \<Rightarrow> ('e + 'a) \<times> 's\<close>, so that what an earlier call has already written stays written
  when a later call fails, as it does in the program. The combinator \<open>and_then\<close> is the
  \<open>?\<close> operator: it stops at the first error. The theory also holds the named theorem
  collections the component theories fill, and generic facts on lists and bounded channels.
\<close>

named_theorems cache_defs "definitions of the Redis cache operations"
named_theorems pg_defs "definitions of the PostgreSQL repository operations"
named_theorems box_defs "definitions of the message box operations"
named_theorems hub_defs "definitions of the websocket gateway operations"
named_theorems consumer_defs "definitions of the consumer operations"

section \<open>Results that carry a state\<close>

type_synonym ('s, 'e, 'a) stres = "'s \<Rightarrow> ('e + 'a) \<times> 's"

definition ok :: "'a \<Rightarrow> ('s, 'e, 'a) stres" where
  "ok a s = (Inr a, s)"

definition fail :: "'e \<Rightarrow> ('s, 'e, 'a) stres" where
  "fail e s = (Inl e, s)"

definition and_then ::
  "('s, 'e, 'a) stres \<Rightarrow> ('a \<Rightarrow> ('s, 'e, 'b) stres) \<Rightarrow> ('s, 'e, 'b) stres" where
  "and_then m f s = (case m s of (Inl e, t) \<Rightarrow> (Inl e, t) | (Inr a, t) \<Rightarrow> f a t)"

text \<open>A remote call that does not reach its service fails and changes nothing. A call that takes effect and whose
  answer is then lost is not among the failures.\<close>

definition remote :: "'e option \<Rightarrow> ('s, 'e, 'a) stres \<Rightarrow> ('s, 'e, 'a) stres" where
  "remote outage m = (case outage of Some e \<Rightarrow> fail e | None \<Rightarrow> m)"

text \<open>An operation on one part of a larger state.\<close>

definition on_part ::
  "('w \<Rightarrow> 'c) \<Rightarrow> ('c \<Rightarrow> 'w \<Rightarrow> 'w) \<Rightarrow> ('c, 'e, 'a) stres \<Rightarrow> ('w, 'e, 'a) stres" where
  "on_part get put m w = (case m (get w) of (r, c) \<Rightarrow> (r, put c w))"

lemma ok_apply [simp]: "ok a s = (Inr a, s)"
  by (simp add: ok_def)

lemma fail_apply [simp]: "fail e s = (Inl e, s)"
  by (simp add: fail_def)

lemma remote_None [simp]: "remote None m = m"
  by (simp add: remote_def)

lemma remote_Some [simp]: "remote (Some e) m s = (Inl e, s)"
  by (simp add: remote_def)

lemma and_then_ok [simp]: "and_then (ok a) f = f a"
  by (simp add: and_then_def fun_eq_iff)

lemma and_then_fail [simp]: "and_then (fail e) f = fail e"
  by (simp add: and_then_def fun_eq_iff)

lemma and_then_assoc: "and_then (and_then m f) g = and_then m (\<lambda>a. and_then (f a) g)"
  by (auto simp: and_then_def fun_eq_iff split: prod.split sum.split)

lemma and_then_Inr: "m s = (Inr a, t) \<Longrightarrow> and_then m f s = f a t"
  by (simp add: and_then_def)

lemma and_then_Inl: "m s = (Inl e, t) \<Longrightarrow> and_then m f s = (Inl e, t)"
  by (simp add: and_then_def)

lemma and_then_eq_InrE:
  assumes "and_then m f s = (Inr b, u)"
  obtains a t where "m s = (Inr a, t)" and "f a t = (Inr b, u)"
  using assms by (auto simp: and_then_def split: prod.splits sum.splits)

subsection \<open>Invariants of stateful operations\<close>

definition preserves :: "('s \<Rightarrow> bool) \<Rightarrow> ('s, 'e, 'a) stres \<Rightarrow> bool" where
  "preserves I m \<longleftrightarrow> (\<forall>s. I s \<longrightarrow> I (snd (m s)))"

lemma preservesI: "(\<And>s. I s \<Longrightarrow> I (snd (m s))) \<Longrightarrow> preserves I m"
  by (simp add: preserves_def)

lemma preservesD: "preserves I m \<Longrightarrow> I s \<Longrightarrow> I (snd (m s))"
  by (simp add: preserves_def)

lemma preserves_ok [intro!, simp]: "preserves I (ok a)"
  by (simp add: preserves_def)

lemma preserves_fail [intro!, simp]: "preserves I (fail e)"
  by (simp add: preserves_def)

lemma preserves_remote [intro]: "preserves I m \<Longrightarrow> preserves I (remote outage m)"
  by (auto simp: preserves_def split: option.split)
     (cases outage; simp add: preserves_def)

lemma preserves_and_then [intro]:
  assumes "preserves I m" and "\<And>a. preserves I (f a)"
  shows "preserves I (and_then m f)"
proof (rule preservesI)
  fix s assume "I s"
  with assms(1) have "I (snd (m s))" by (rule preservesD)
  then show "I (snd (and_then m f s))"
    using assms(2) by (auto simp: and_then_def preserves_def split: prod.split sum.split)
qed

lemma preserves_if [intro]:
  "preserves I m \<Longrightarrow> preserves I n \<Longrightarrow> preserves I (if b then m else n)"
  by simp

lemma preserves_on_part [intro]:
  assumes "\<And>w. I w \<Longrightarrow> J (get w)" and "preserves J m"
    and "\<And>w c. I w \<Longrightarrow> J c \<Longrightarrow> I (put c w)"
  shows "preserves I (on_part get put m)"
proof (rule preservesI)
  fix w assume w: "I w"
  with assms(1,2) have "J (snd (m (get w)))" by (blast intro: preservesD)
  with w assms(3) show "I (snd (on_part get put m w))"
    by (simp add: on_part_def split: prod.split)
       (metis snd_conv)
qed

section \<open>Bounded channels without a receiver\<close>

text \<open>
  \<open>tx.send(x).await\<close> on a bounded \<open>tokio\<close> channel waits while the buffer is full. A
  producer loop that runs to its end before anything receives returns only if the buffer
  never fills: \<open>None\<close> is the loop that waits forever.
\<close>

fun send_unreceived :: "nat \<Rightarrow> 'a list \<Rightarrow> 'a list \<Rightarrow> 'a list option" where
  "send_unreceived cap buf [] = Some buf"
| "send_unreceived cap buf (x # xs) =
     (if length buf < cap then send_unreceived cap (buf @ [x]) xs else None)"

lemma send_unreceived_eq:
  "length buf \<le> cap \<Longrightarrow>
   send_unreceived cap buf xs =
     (if length buf + length xs \<le> cap then Some (buf @ xs) else None)"
  by (induction xs arbitrary: buf) auto

corollary send_unreceived_Nil:
  "send_unreceived cap [] xs = (if length xs \<le> cap then Some xs else None)"
  by (simp add: send_unreceived_eq)

section \<open>Lists\<close>

text \<open>Elements of different classes differ: it is enough to look at one class at a time.\<close>

lemma distinct_by_class:
  "(\<And>c. distinct (filter (\<lambda>x. f x = c) xs)) \<Longrightarrow> distinct xs"
proof (induction xs)
  case Nil
  then show ?case by simp
next
  case (Cons x xs)
  have "distinct (filter (\<lambda>y. f y = c) xs)" for c
    using Cons.prems [of c] by (auto split: if_splits)
  moreover have "x \<notin> set xs"
    using Cons.prems [of "f x"] by auto
  ultimately show ?case using Cons.IH by simp
qed

lemma find_SomeD: "find P xs = Some x \<Longrightarrow> x \<in> set xs \<and> P x"
  by (auto simp: find_Some_iff)

lemma distinct_set_single:
  assumes "distinct xs" and "set xs = {x}"
  shows "xs = [x]"
proof -
  from assms have "length xs = 1" by (metis distinct_card card_1_singleton_iff One_nat_def)
  then obtain y where "xs = [y]" by (metis length_Suc_conv length_0_conv One_nat_def)
  with assms show ?thesis by simp
qed

lemma sum_case_id [simp]: "(case r of Inl e \<Rightarrow> Inl e | Inr a \<Rightarrow> Inr a) = r"
  by (cases r) simp_all

end
