(* ===== verification/Errors.thy ===== *)
theory Errors
  imports Prelude
begin

text \<open>
  The error type shared by all services (\<open>abi/src/errors/mod.rs\<close>): its kinds, its
  constructors, its conversion to and from a gRPC status and to an HTTP status code.
  A Rust \<open>String\<close> is its UTF-8 byte sequence, a \<open>string\<close>; whether a byte sequence is
  valid UTF-8 (\<open>String::from_utf8\<close>) is the parameter \<open>utf8\<close>. The boxed source of an
  error is represented by its display text.
\<close>

section \<open>Kinds, errors, failures\<close>

datatype ErrorKind =
    UnknownError | DbError | ConfigReadError | ConfigParseError | NotFound
  | BroadCastError | InternalServer | BodyParsing | PathParsing | UnAuthorized
  | ParseError | TonicError | MongoDbValueAccessError | MongoDbBsonSerError
  | MongoDbOperateError | RedisError | IOError | ReqwestError | ServiceNotFound
  | BadRequest | AccountOrPassword | OSSError | CodeIsExpired | CodeIsInvalid | BinCode

record Error =
  kind :: ErrorKind
  details :: "string option"
  err_source :: "string option"

text \<open>What ends a call early: an \<open>Err\<close> value, or a panic (its message).\<close>

datatype failure = Failed Error | Panicked string

type_synonym 'a res = "failure + 'a"
type_synonym ('s, 'a) act = "('s, failure, 'a) stres"

section \<open>Constructors\<close>

definition error_new :: "ErrorKind \<Rightarrow> string \<Rightarrow> string \<Rightarrow> Error" where
  "error_new k d src = \<lparr>kind = k, details = Some d, err_source = Some src\<rparr>"

definition with_kind :: "ErrorKind \<Rightarrow> Error" where
  "with_kind k = \<lparr>kind = k, details = None, err_source = None\<rparr>"

definition with_details :: "ErrorKind \<Rightarrow> string \<Rightarrow> Error" where
  "with_details k d = \<lparr>kind = k, details = Some d, err_source = None\<rparr>"

definition internal :: "string \<Rightarrow> Error" where
  "internal e = \<lparr>kind = InternalServer, details = Some e, err_source = Some e\<rparr>"

definition broadcast_error :: "string \<Rightarrow> Error" where
  "broadcast_error e = \<lparr>kind = BroadCastError, details = Some e, err_source = Some e\<rparr>"

definition internal_with_details :: "string \<Rightarrow> Error" where
  "internal_with_details d = with_details InternalServer d"

definition service_not_found :: "string \<Rightarrow> Error" where
  "service_not_found name = with_details ServiceNotFound name"

definition unauthorized :: "string \<Rightarrow> string \<Rightarrow> Error" where
  "unauthorized e d = error_new UnAuthorized d e"

definition unauthorized_with_details :: "string \<Rightarrow> Error" where
  "unauthorized_with_details d = with_details UnAuthorized d"

definition bad_request :: "string \<Rightarrow> Error" where
  "bad_request d = with_details BadRequest d"

definition code_invalid :: "string \<Rightarrow> Error" where
  "code_invalid d = with_details CodeIsInvalid d"

definition code_expired :: "string \<Rightarrow> Error" where
  "code_expired d = with_details CodeIsExpired d"

definition not_found :: Error where
  "not_found = with_kind NotFound"

definition internal_box :: "string \<Rightarrow> Error" where
  "internal_box e = \<lparr>kind = InternalServer, details = Some e, err_source = Some e\<rparr>"

definition db_not_found :: "string \<Rightarrow> Error" where
  "db_not_found d = with_details DbError d"

definition not_found_with_details :: "string \<Rightarrow> Error" where
  "not_found_with_details d = with_details NotFound d"

definition account_or_pwd :: Error where
  "account_or_pwd = with_kind AccountOrPassword"

text \<open>The errors of the libraries that \<open>?\<close> converts, each with its text.\<close>

datatype library_error =
    IoError string | RedisLibError string | YamlError string | ReqwestLibError string | ValueAccessError string
  | BsonSerError string | MongoError string | SqlxError string | JsonError string | TransportError string
  | SdkError string | BincodeDecode string | BincodeEncode string

fun error_of_library :: "library_error \<Rightarrow> Error" where
  "error_of_library (IoError t) = error_new IOError t t"
| "error_of_library (RedisLibError t) = error_new RedisError t t"
| "error_of_library (YamlError t) = error_new ConfigParseError t t"
| "error_of_library (ReqwestLibError t) = error_new ReqwestError t t"
| "error_of_library (ValueAccessError t) = error_new MongoDbValueAccessError t t"
| "error_of_library (BsonSerError t) = error_new MongoDbBsonSerError t t"
| "error_of_library (MongoError t) = error_new MongoDbOperateError t t"
| "error_of_library (SqlxError t) = error_new DbError t t"
| "error_of_library (JsonError t) = error_new ParseError t t"
| "error_of_library (TransportError t) = error_new TonicError t t"
| "error_of_library (SdkError t) = with_details OSSError t"
| "error_of_library (BincodeDecode t) = error_new BinCode t t"
| "error_of_library (BincodeEncode t) = error_new BinCode t t"

lemmas error_ctor_defs =
  error_new_def with_kind_def with_details_def internal_def broadcast_error_def
  internal_with_details_def service_not_found_def unauthorized_def
  unauthorized_with_details_def bad_request_def code_invalid_def code_expired_def not_found_def

section \<open>Display\<close>

text \<open>The derived \<open>Debug\<close> of a field-less enum prints the name of the variant.\<close>

fun kind_debug :: "ErrorKind \<Rightarrow> string" where
  "kind_debug UnknownError = ''UnknownError''"
| "kind_debug DbError = ''DbError''"
| "kind_debug ConfigReadError = ''ConfigReadError''"
| "kind_debug ConfigParseError = ''ConfigParseError''"
| "kind_debug NotFound = ''NotFound''"
| "kind_debug BroadCastError = ''BroadCastError''"
| "kind_debug InternalServer = ''InternalServer''"
| "kind_debug BodyParsing = ''BodyParsing''"
| "kind_debug PathParsing = ''PathParsing''"
| "kind_debug UnAuthorized = ''UnAuthorized''"
| "kind_debug ParseError = ''ParseError''"
| "kind_debug TonicError = ''TonicError''"
| "kind_debug MongoDbValueAccessError = ''MongoDbValueAccessError''"
| "kind_debug MongoDbBsonSerError = ''MongoDbBsonSerError''"
| "kind_debug MongoDbOperateError = ''MongoDbOperateError''"
| "kind_debug RedisError = ''RedisError''"
| "kind_debug IOError = ''IOError''"
| "kind_debug ReqwestError = ''ReqwestError''"
| "kind_debug ServiceNotFound = ''ServiceNotFound''"
| "kind_debug BadRequest = ''BadRequest''"
| "kind_debug AccountOrPassword = ''AccountOrPassword''"
| "kind_debug OSSError = ''OSSError''"
| "kind_debug CodeIsExpired = ''CodeIsExpired''"
| "kind_debug CodeIsInvalid = ''CodeIsInvalid''"
| "kind_debug BinCode = ''BinCode''"

definition error_display :: "Error \<Rightarrow> string" where
  "error_display e =
     (case details e of
        Some d \<Rightarrow> kind_debug (kind e) @ '': '' @ d
      | None \<Rightarrow> kind_debug (kind e))"

section \<open>gRPC status\<close>

datatype Code = Unknown | NotFoundCode | Unauthenticated | InvalidArgument | Internal

record Status =
  status_code :: Code
  status_message :: string
  status_details :: string

fun grpc_code :: "ErrorKind \<Rightarrow> Code" where
  "grpc_code UnknownError = Unknown"
| "grpc_code NotFound = NotFoundCode"
| "grpc_code AccountOrPassword = Unauthenticated"
| "grpc_code BodyParsing = InvalidArgument"
| "grpc_code PathParsing = InvalidArgument"
| "grpc_code UnAuthorized = InvalidArgument"
| "grpc_code BadRequest = InvalidArgument"
| "grpc_code CodeIsExpired = InvalidArgument"
| "grpc_code CodeIsInvalid = InvalidArgument"
| "grpc_code _ = Internal"

definition status_of_error :: "Error \<Rightarrow> Status" where
  "status_of_error e =
     \<lparr>status_code = grpc_code (kind e), status_message = kind_debug (kind e),
      status_details = (case details e of Some d \<Rightarrow> d | None \<Rightarrow> '''')\<rparr>"

definition kind_of_message :: "string \<Rightarrow> ErrorKind" where
  "kind_of_message m =
     (if m = ''UnknownError'' then UnknownError
      else if m = ''DbError'' then DbError
      else if m = ''ConfigReadError'' then ConfigReadError
      else if m = ''ConfigParseError'' then ConfigParseError
      else if m = ''NotFound'' then NotFound
      else if m = ''BroadCastError'' then BroadCastError
      else if m = ''InternalServer'' then InternalServer
      else if m = ''BodyParsing'' then BodyParsing
      else if m = ''PathParsing'' then PathParsing
      else if m = ''UnAuthorized'' then UnAuthorized
      else if m = ''ParseError'' then ParseError
      else if m = ''TonicError'' then TonicError
      else if m = ''MongoDbValueAccessError'' then MongoDbValueAccessError
      else if m = ''MongoDbOperateError'' then MongoDbOperateError
      else if m = ''MongoDbBsonSerError'' then MongoDbBsonSerError
      else if m = ''RedisError'' then RedisError
      else if m = ''IOError'' then IOError
      else if m = ''ReqwestError'' then ReqwestError
      else if m = ''ServiceNotFound'' then ServiceNotFound
      else if m = ''BadRequest'' then BadRequest
      else if m = ''AccountOrPassword'' then AccountOrPassword
      else if m = ''OSSError'' then OSSError
      else if m = ''CodeIsExpired'' then CodeIsExpired
      else if m = ''CodeIsInvalid'' then CodeIsInvalid
      else if m = ''BinCode'' then BinCode
      else UnknownError)"

definition error_of_status :: "(string \<Rightarrow> bool) \<Rightarrow> Status \<Rightarrow> Error" where
  "error_of_status utf8 st =
     \<lparr>kind = kind_of_message (status_message st),
      details = (if utf8 (status_details st) then Some (status_details st) else None),
      err_source = None\<rparr>"

section \<open>HTTP status\<close>

datatype StatusCode = BAD_REQUEST | UNAUTHORIZED | NOT_FOUND | INTERNAL_SERVER_ERROR

fun http_status :: "ErrorKind \<Rightarrow> StatusCode" where
  "http_status BodyParsing = BAD_REQUEST"
| "http_status PathParsing = BAD_REQUEST"
| "http_status BadRequest = BAD_REQUEST"
| "http_status CodeIsExpired = BAD_REQUEST"
| "http_status CodeIsInvalid = BAD_REQUEST"
| "http_status AccountOrPassword = UNAUTHORIZED"
| "http_status UnAuthorized = UNAUTHORIZED"
| "http_status NotFound = NOT_FOUND"
| "http_status _ = INTERNAL_SERVER_ERROR"

section \<open>Errors survive the gRPC hop\<close>

lemma kind_of_message_debug [simp]: "kind_of_message (kind_debug k) = k"
  by (cases k) (simp_all add: kind_of_message_def)

lemma kind_debug_inj: "kind_debug k = kind_debug l \<longleftrightarrow> k = l"
  by (metis kind_of_message_debug)

lemma error_of_status_of_error:
  "error_of_status utf8 (status_of_error e) =
     \<lparr>kind = kind e,
      details = (let d = (case details e of Some d \<Rightarrow> d | None \<Rightarrow> '''') in
                 if utf8 d then Some d else None),
      err_source = None\<rparr>"
  by (simp add: error_of_status_def status_of_error_def Let_def)

lemma http_status_client_error_iff:
  "http_status k \<noteq> INTERNAL_SERVER_ERROR \<longleftrightarrow>
   grpc_code k \<in> {NotFoundCode, Unauthenticated, InvalidArgument}"
  by (cases k) simp_all

text \<open>
  C40. An error that crosses a gRPC boundary (\<open>From<Error> for Status\<close>, then
  \<open>From<Status> for Error\<close>) keeps its kind, so the HTTP answer that the API finally gives is
  the one of the original error. Details that are there arrive unchanged whenever the text is UTF-8, which every Rust
  string is; an error without details arrives with the empty text as its details, so their absence is not kept.
\<close>

theorem error_survives_grpc:
  assumes "\<And>d. details e = Some d \<Longrightarrow> utf8 d" and "utf8 ''''"
  shows "kind (error_of_status utf8 (status_of_error e)) = kind e
    \<and> http_status (kind (error_of_status utf8 (status_of_error e))) = http_status (kind e)
    \<and> details (error_of_status utf8 (status_of_error e)) =
        Some (case details e of Some d \<Rightarrow> d | None \<Rightarrow> '''')
    \<and> (http_status (kind e) = INTERNAL_SERVER_ERROR \<longleftrightarrow>
        status_code (status_of_error e) \<in> {Internal, Unknown})"
proof -
  have "http_status (kind e) = INTERNAL_SERVER_ERROR \<longleftrightarrow> grpc_code (kind e) \<in> {Internal, Unknown}"
    by (cases "kind e") simp_all
  with assms show ?thesis
    by (simp add: error_of_status_def status_of_error_def split: option.split)
qed

theorem error_survives_grpc_witness:
  "details (error_of_status (\<lambda>_. True) (status_of_error (bad_request ''user_id is empty''))) =
     Some ''user_id is empty''
   \<and> http_status (kind (error_of_status (\<lambda>_. True) (status_of_error (bad_request ''x'')))) = BAD_REQUEST"
  using error_survives_grpc [of "bad_request ''user_id is empty''" "\<lambda>_. True"]
    error_survives_grpc [of "bad_request ''x''" "\<lambda>_. True"]
  by (simp add: bad_request_def with_details_def)

text \<open>
  What a library reports is never blamed on the client and its text reaches the client: converted, and even
  after a gRPC hop, the error is answered with the status 500 and the library's own text.
\<close>

theorem library_errors_answered_500:
  assumes "\<And>t. utf8 t"
  shows "http_status (kind (error_of_library l)) = INTERNAL_SERVER_ERROR
    \<and> details (error_of_status utf8 (status_of_error (error_of_library l))) = details (error_of_library l)
    \<and> details (error_of_library l) \<noteq> None"
  using assms by (cases l) (simp_all add: error_of_status_def status_of_error_def error_new_def with_details_def)

theorem library_errors_answered_500_witness:
  "http_status (kind (error_of_library (SqlxError ''x''))) = INTERNAL_SERVER_ERROR"
  using library_errors_answered_500 [of "\<lambda>_. True" "SqlxError ''x''"] by simp

text \<open>
  A status that was not made from an error loses its message: its text is no kind, so the error it
  becomes is an unknown one without the text, answered with 500 even if the status blamed the
  request.
\<close>

theorem plain_status_loses_message:
  assumes "\<And>k. m \<noteq> kind_debug k" and "utf8 ''''"
  shows "error_of_status utf8 \<lparr>status_code = c, status_message = m, status_details = ''''\<rparr> =
      \<lparr>kind = UnknownError, details = Some '''', err_source = None\<rparr>
    \<and> http_status (kind (error_of_status utf8 \<lparr>status_code = c, status_message = m, status_details = ''''\<rparr>))
      = INTERNAL_SERVER_ERROR"
proof -
  have "kind_of_message m = UnknownError"
    using assms(1) [of DbError] assms(1) [of ConfigReadError] assms(1) [of ConfigParseError] assms(1) [of NotFound]
      assms(1) [of BroadCastError] assms(1) [of InternalServer] assms(1) [of BodyParsing] assms(1) [of PathParsing]
      assms(1) [of UnAuthorized] assms(1) [of ParseError] assms(1) [of TonicError] assms(1) [of MongoDbValueAccessError]
      assms(1) [of MongoDbBsonSerError] assms(1) [of MongoDbOperateError] assms(1) [of RedisError] assms(1) [of IOError]
      assms(1) [of ReqwestError] assms(1) [of ServiceNotFound] assms(1) [of BadRequest] assms(1) [of AccountOrPassword]
      assms(1) [of OSSError] assms(1) [of CodeIsExpired] assms(1) [of CodeIsInvalid] assms(1) [of BinCode]
    by (simp add: kind_of_message_def)
  with assms(2) show ?thesis by (simp add: error_of_status_def)
qed

theorem plain_status_loses_message_witness:
  "http_status (kind (error_of_status (\<lambda>_. True)
     \<lparr>status_code = InvalidArgument, status_message = ''message is empty'', status_details = ''''\<rparr>)) = INTERNAL_SERVER_ERROR"
proof -
  have "''message is empty'' \<noteq> kind_debug k" for k by (cases k) simp_all
  from plain_status_loses_message [OF this, of "\<lambda>_. True"] show ?thesis by simp
qed

end
