(* ===== verification/Messages.thy ===== *)
theory Messages
  imports Errors
begin

text \<open>
  The message types of \<open>abi\<close>: the protobuf enums and structs of \<open>abi/src/pb/message.rs\<close>
  that the services exchange, and the functions of \<open>abi/src/types/msg.rs\<close> over them: the
  request constructors, the request validation, and the conversion of a message from a
  MongoDB document; the conversion to a document is \<open>db/src/mongodb/utils.rs\<close>.

  Rust strings and byte vectors are \<open>string\<close>; \<open>i32\<close> and \<open>i64\<close> fields are \<open>int\<close>. The
  clock (\<open>chrono::Utc::now().timestamp_millis()\<close>) is the parameter \<open>now\<close>.
\<close>

section \<open>Enums\<close>

datatype PlatformType = Desktop | Mobile

fun platform_code :: "PlatformType \<Rightarrow> int" where
  "platform_code Desktop = 0"
| "platform_code Mobile = 1"

text \<open>\<open>PlatformType::try_from(i32)\<close>, with \<open>unwrap_or_default()\<close> as the gateway uses it.\<close>

definition platform_of :: "int \<Rightarrow> PlatformType" where
  "platform_of n = (if n = 1 then Mobile else Desktop)"

datatype ContentType =
    DefaultContent | Text | Image | Video | Audio | File | Emoji | VideoCall | AudioCall | ErrorContent

fun content_type_code :: "ContentType \<Rightarrow> int" where
  "content_type_code DefaultContent = 0"
| "content_type_code Text = 1"
| "content_type_code Image = 2"
| "content_type_code Video = 3"
| "content_type_code Audio = 4"
| "content_type_code File = 5"
| "content_type_code Emoji = 6"
| "content_type_code VideoCall = 7"
| "content_type_code AudioCall = 8"
| "content_type_code ErrorContent = 9"

datatype MsgType =
    SingleMsg | GroupMsg | GroupInvitation | GroupInviteNew
  | GroupMemberExit | GroupRemoveMember | GroupDismiss | GroupDismissOrExitReceived
  | GroupInvitationReceived | GroupUpdate | GroupFile | GroupPoll
  | GroupMute | GroupAnnouncement | FriendApplyReq | FriendApplyResp
  | FriendBlack | FriendDelete | SingleCallInvite | RejectSingleCall
  | AgreeSingleCall | SingleCallInviteNotAnswer | SingleCallInviteCancel | SingleCallOffer
  | Hangup | ConnectSingleCall | Candidate | Read
  | MsgRecResp | Notification | Service | FriendshipReceived

fun msg_type_code :: "MsgType \<Rightarrow> int" where
  "msg_type_code SingleMsg = 0"
| "msg_type_code GroupMsg = 1"
| "msg_type_code GroupInvitation = 2"
| "msg_type_code GroupInviteNew = 3"
| "msg_type_code GroupMemberExit = 4"
| "msg_type_code GroupRemoveMember = 5"
| "msg_type_code GroupDismiss = 6"
| "msg_type_code GroupDismissOrExitReceived = 7"
| "msg_type_code GroupInvitationReceived = 8"
| "msg_type_code GroupUpdate = 9"
| "msg_type_code GroupFile = 10"
| "msg_type_code GroupPoll = 11"
| "msg_type_code GroupMute = 12"
| "msg_type_code GroupAnnouncement = 13"
| "msg_type_code FriendApplyReq = 14"
| "msg_type_code FriendApplyResp = 15"
| "msg_type_code FriendBlack = 16"
| "msg_type_code FriendDelete = 17"
| "msg_type_code SingleCallInvite = 18"
| "msg_type_code RejectSingleCall = 19"
| "msg_type_code AgreeSingleCall = 20"
| "msg_type_code SingleCallInviteNotAnswer = 21"
| "msg_type_code SingleCallInviteCancel = 22"
| "msg_type_code SingleCallOffer = 23"
| "msg_type_code Hangup = 24"
| "msg_type_code ConnectSingleCall = 25"
| "msg_type_code Candidate = 26"
| "msg_type_code Read = 27"
| "msg_type_code MsgRecResp = 28"
| "msg_type_code Notification = 29"
| "msg_type_code Service = 30"
| "msg_type_code FriendshipReceived = 31"

text \<open>\<open>MsgType::try_from(i32)\<close>.\<close>

definition msg_type_of :: "int \<Rightarrow> MsgType option" where
  "msg_type_of n =
     (if n = 0 then Some SingleMsg
      else if n = 1 then Some GroupMsg
      else if n = 2 then Some GroupInvitation
      else if n = 3 then Some GroupInviteNew
      else if n = 4 then Some GroupMemberExit
      else if n = 5 then Some GroupRemoveMember
      else if n = 6 then Some GroupDismiss
      else if n = 7 then Some GroupDismissOrExitReceived
      else if n = 8 then Some GroupInvitationReceived
      else if n = 9 then Some GroupUpdate
      else if n = 10 then Some GroupFile
      else if n = 11 then Some GroupPoll
      else if n = 12 then Some GroupMute
      else if n = 13 then Some GroupAnnouncement
      else if n = 14 then Some FriendApplyReq
      else if n = 15 then Some FriendApplyResp
      else if n = 16 then Some FriendBlack
      else if n = 17 then Some FriendDelete
      else if n = 18 then Some SingleCallInvite
      else if n = 19 then Some RejectSingleCall
      else if n = 20 then Some AgreeSingleCall
      else if n = 21 then Some SingleCallInviteNotAnswer
      else if n = 22 then Some SingleCallInviteCancel
      else if n = 23 then Some SingleCallOffer
      else if n = 24 then Some Hangup
      else if n = 25 then Some ConnectSingleCall
      else if n = 26 then Some Candidate
      else if n = 27 then Some Read
      else if n = 28 then Some MsgRecResp
      else if n = 29 then Some Notification
      else if n = 30 then Some Service
      else if n = 31 then Some FriendshipReceived
      else None)"

fun as_str_name :: "MsgType \<Rightarrow> string" where
  "as_str_name SingleMsg = ''MsgTypeSingleMsg''"
| "as_str_name GroupMsg = ''MsgTypeGroupMsg''"
| "as_str_name GroupInvitation = ''MsgTypeGroupInvitation''"
| "as_str_name GroupInviteNew = ''MsgTypeGroupInviteNew''"
| "as_str_name GroupMemberExit = ''MsgTypeGroupMemberExit''"
| "as_str_name GroupRemoveMember = ''MsgTypeGroupRemoveMember''"
| "as_str_name GroupDismiss = ''MsgTypeGroupDismiss''"
| "as_str_name GroupDismissOrExitReceived = ''MsgTypeGroupDismissOrExitReceived''"
| "as_str_name GroupInvitationReceived = ''MsgTypeGroupInvitationReceived''"
| "as_str_name GroupUpdate = ''MsgTypeGroupUpdate''"
| "as_str_name GroupFile = ''MsgTypeGroupFile''"
| "as_str_name GroupPoll = ''MsgTypeGroupPoll''"
| "as_str_name GroupMute = ''MsgTypeGroupMute''"
| "as_str_name GroupAnnouncement = ''MsgTypeGroupAnnouncement''"
| "as_str_name FriendApplyReq = ''MsgTypeFriendApplyReq''"
| "as_str_name FriendApplyResp = ''MsgTypeFriendApplyResp''"
| "as_str_name FriendBlack = ''MsgTypeFriendBlack''"
| "as_str_name FriendDelete = ''MsgTypeFriendDelete''"
| "as_str_name SingleCallInvite = ''MsgTypeSingleCallInvite''"
| "as_str_name RejectSingleCall = ''MsgTypeRejectSingleCall''"
| "as_str_name AgreeSingleCall = ''MsgTypeAgreeSingleCall''"
| "as_str_name SingleCallInviteNotAnswer = ''MsgTypeSingleCallInviteNotAnswer''"
| "as_str_name SingleCallInviteCancel = ''MsgTypeSingleCallInviteCancel''"
| "as_str_name SingleCallOffer = ''MsgTypeSingleCallOffer''"
| "as_str_name Hangup = ''MsgTypeHangup''"
| "as_str_name ConnectSingleCall = ''MsgTypeConnectSingleCall''"
| "as_str_name Candidate = ''MsgTypeCandidate''"
| "as_str_name Read = ''MsgTypeRead''"
| "as_str_name MsgRecResp = ''MsgTypeMsgRecResp''"
| "as_str_name Notification = ''MsgTypeNotification''"
| "as_str_name Service = ''MsgTypeService''"
| "as_str_name FriendshipReceived = ''MsgTypeFriendshipReceived''"

definition from_str_name :: "string \<Rightarrow> MsgType option" where
  "from_str_name v =
     (if v = ''MsgTypeSingleMsg'' then Some SingleMsg
      else if v = ''MsgTypeGroupMsg'' then Some GroupMsg
      else if v = ''MsgTypeGroupInvitation'' then Some GroupInvitation
      else if v = ''MsgTypeGroupInviteNew'' then Some GroupInviteNew
      else if v = ''MsgTypeGroupMemberExit'' then Some GroupMemberExit
      else if v = ''MsgTypeGroupRemoveMember'' then Some GroupRemoveMember
      else if v = ''MsgTypeGroupDismiss'' then Some GroupDismiss
      else if v = ''MsgTypeGroupDismissOrExitReceived'' then Some GroupDismissOrExitReceived
      else if v = ''MsgTypeGroupInvitationReceived'' then Some GroupInvitationReceived
      else if v = ''MsgTypeGroupUpdate'' then Some GroupUpdate
      else if v = ''MsgTypeGroupFile'' then Some GroupFile
      else if v = ''MsgTypeGroupPoll'' then Some GroupPoll
      else if v = ''MsgTypeGroupMute'' then Some GroupMute
      else if v = ''MsgTypeGroupAnnouncement'' then Some GroupAnnouncement
      else if v = ''MsgTypeFriendApplyReq'' then Some FriendApplyReq
      else if v = ''MsgTypeFriendApplyResp'' then Some FriendApplyResp
      else if v = ''MsgTypeFriendBlack'' then Some FriendBlack
      else if v = ''MsgTypeFriendDelete'' then Some FriendDelete
      else if v = ''MsgTypeSingleCallInvite'' then Some SingleCallInvite
      else if v = ''MsgTypeRejectSingleCall'' then Some RejectSingleCall
      else if v = ''MsgTypeAgreeSingleCall'' then Some AgreeSingleCall
      else if v = ''MsgTypeSingleCallInviteNotAnswer'' then Some SingleCallInviteNotAnswer
      else if v = ''MsgTypeSingleCallInviteCancel'' then Some SingleCallInviteCancel
      else if v = ''MsgTypeSingleCallOffer'' then Some SingleCallOffer
      else if v = ''MsgTypeHangup'' then Some Hangup
      else if v = ''MsgTypeConnectSingleCall'' then Some ConnectSingleCall
      else if v = ''MsgTypeCandidate'' then Some Candidate
      else if v = ''MsgTypeRead'' then Some Read
      else if v = ''MsgTypeMsgRecResp'' then Some MsgRecResp
      else if v = ''MsgTypeNotification'' then Some Notification
      else if v = ''MsgTypeService'' then Some Service
      else if v = ''MsgTypeFriendshipReceived'' then Some FriendshipReceived
      else None)"

section \<open>Messages and requests\<close>

record Msg =
  sender_id :: string
  receiver_id :: string
  client_id :: string
  server_id :: string
  create_time :: int
  send_time :: int
  seq :: int
  msg_type :: int
  content_type :: int
  content :: string
  is_read :: bool
  group_id :: string
  platform :: int
  avatar :: string
  nickname :: string
  related_msg_id :: "string option"
  send_seq :: int

text \<open>\<open>Default::default()\<close> of a prost message.\<close>

definition msg_default :: Msg where
  "msg_default =
     \<lparr>sender_id = '''', receiver_id = '''', client_id = '''', server_id = '''',
      create_time = 0, send_time = 0, seq = 0, msg_type = 0, content_type = 0,
      content = '''', is_read = False, group_id = '''', platform = 0, avatar = '''',
      nickname = '''', related_msg_id = None, send_seq = 0\<rparr>"

record MsgRead =
  read_msg_seq :: "int list"
  read_user_id :: string

record MsgResponse =
  resp_client_id :: string
  resp_server_id :: string
  resp_send_time :: int
  resp_err :: string

record GroupMemSeq =
  mem_id :: string
  cur_seq :: int
  max_seq :: int
  need_update :: bool

definition group_mem_seq_new :: "string \<Rightarrow> int \<Rightarrow> int \<Rightarrow> bool \<Rightarrow> GroupMemSeq" where
  "group_mem_seq_new m c x u = \<lparr>mem_id = m, cur_seq = c, max_seq = x, need_update = u\<rparr>"

text \<open>\<open>SendMsgRequest\<close> and \<open>SendGroupMsgRequest\<close>: the message field is optional.\<close>

record SendMsgRequest =
  message :: "Msg option"

record SendGroupMsgRequest =
  group_message :: "Msg option"
  members :: "GroupMemSeq list"

section \<open>Request constructors\<close>

definition new_with_friend_del :: "int \<Rightarrow> string \<Rightarrow> string \<Rightarrow> SendMsgRequest" where
  "new_with_friend_del now sid rid =
     \<lparr>message = Some (msg_default\<lparr>sender_id := sid, receiver_id := rid, send_time := now,
        msg_type := msg_type_code FriendDelete\<rparr>)\<rparr>"

definition new_with_friend_ship_req ::
  "int \<Rightarrow> string \<Rightarrow> string \<Rightarrow> string \<Rightarrow> int \<Rightarrow> SendMsgRequest" where
  "new_with_friend_ship_req now sid rid fs sseq =
     \<lparr>message = Some (msg_default\<lparr>send_seq := sseq, sender_id := sid, receiver_id := rid,
        send_time := now, content := fs, msg_type := msg_type_code FriendApplyReq\<rparr>)\<rparr>"

definition new_with_friend_ship_resp :: "int \<Rightarrow> string \<Rightarrow> string \<Rightarrow> int \<Rightarrow> SendMsgRequest" where
  "new_with_friend_ship_resp now rid fs sseq =
     \<lparr>message = Some (msg_default\<lparr>send_seq := sseq, receiver_id := rid, content := fs,
        msg_type := msg_type_code FriendApplyResp, send_time := now\<rparr>)\<rparr>"

definition new_with_group_operation ::
  "int \<Rightarrow> string \<Rightarrow> string \<Rightarrow> MsgType \<Rightarrow> int \<Rightarrow> SendMsgRequest" where
  "new_with_group_operation now sid rid mt sseq =
     \<lparr>message = Some (msg_default\<lparr>sender_id := sid, group_id := rid, receiver_id := rid,
        send_time := now, msg_type := msg_type_code mt, send_seq := sseq\<rparr>)\<rparr>"

definition new_with_group_invitation ::
  "int \<Rightarrow> string \<Rightarrow> string \<Rightarrow> int \<Rightarrow> string \<Rightarrow> SendMsgRequest" where
  "new_with_group_invitation now sid rid sseq invitation =
     \<lparr>message = Some (msg_default\<lparr>sender_id := sid, group_id := rid, receiver_id := rid,
        send_time := now, msg_type := msg_type_code GroupInvitation, content := invitation,
        send_seq := sseq\<rparr>)\<rparr>"

definition new_with_group_invite_new ::
  "int \<Rightarrow> string \<Rightarrow> string \<Rightarrow> int \<Rightarrow> string \<Rightarrow> SendMsgRequest" where
  "new_with_group_invite_new now sid rid sseq invitation =
     \<lparr>message = Some (msg_default\<lparr>sender_id := sid, group_id := rid, receiver_id := rid,
        send_time := now, msg_type := msg_type_code GroupInviteNew, content := invitation,
        send_seq := sseq\<rparr>)\<rparr>"

definition new_with_group_remove_mem ::
  "int \<Rightarrow> string \<Rightarrow> string \<Rightarrow> int \<Rightarrow> string \<Rightarrow> SendMsgRequest" where
  "new_with_group_remove_mem now sid gid sseq invitation =
     \<lparr>message = Some (msg_default\<lparr>sender_id := sid, receiver_id := gid, group_id := gid,
        send_time := now, msg_type := msg_type_code GroupRemoveMember, content := invitation,
        send_seq := sseq\<rparr>)\<rparr>"

definition new_with_group_update ::
  "int \<Rightarrow> string \<Rightarrow> string \<Rightarrow> int \<Rightarrow> string \<Rightarrow> SendMsgRequest" where
  "new_with_group_update now sid rid sseq m =
     \<lparr>message = Some (msg_default\<lparr>sender_id := sid, group_id := rid, receiver_id := rid,
        send_time := now, msg_type := msg_type_code GroupUpdate, content := m,
        send_seq := sseq\<rparr>)\<rparr>"

text \<open>
  The four constructors for files, polls, mutes and announcements set neither
  \<open>receiver_id\<close> nor \<open>send_seq\<close>: the sequence number goes into \<open>seq\<close>.
\<close>

definition new_with_group_file :: "string \<Rightarrow> string \<Rightarrow> int \<Rightarrow> string \<Rightarrow> SendMsgRequest" where
  "new_with_group_file sender gid n c =
     \<lparr>message = Some (msg_default\<lparr>sender_id := sender, group_id := gid, seq := n, content := c,
        msg_type := msg_type_code GroupFile\<rparr>)\<rparr>"

definition new_with_group_poll :: "string \<Rightarrow> string \<Rightarrow> int \<Rightarrow> string \<Rightarrow> SendMsgRequest" where
  "new_with_group_poll sender gid n c =
     \<lparr>message = Some (msg_default\<lparr>sender_id := sender, group_id := gid, seq := n, content := c,
        msg_type := msg_type_code GroupPoll\<rparr>)\<rparr>"

definition new_with_group_mute :: "string \<Rightarrow> string \<Rightarrow> int \<Rightarrow> string \<Rightarrow> SendMsgRequest" where
  "new_with_group_mute sender gid n c =
     \<lparr>message = Some (msg_default\<lparr>sender_id := sender, group_id := gid, seq := n, content := c,
        msg_type := msg_type_code GroupMute\<rparr>)\<rparr>"

definition new_with_group_announcement ::
  "string \<Rightarrow> string \<Rightarrow> int \<Rightarrow> string \<Rightarrow> SendMsgRequest" where
  "new_with_group_announcement sender gid n c =
     \<lparr>message = Some (msg_default\<lparr>sender_id := sender, group_id := gid, seq := n, content := c,
        msg_type := msg_type_code GroupAnnouncement\<rparr>)\<rparr>"

section \<open>Validation\<close>

record GetDbMsgRequest =
  gm_user_id :: string
  gm_start :: int
  gm_end :: int

definition get_db_msg_validate :: "GetDbMsgRequest \<Rightarrow> unit res" where
  "get_db_msg_validate r =
     (if gm_user_id r = '''' then Inl (Failed (bad_request ''user_id is empty''))
      else if gm_start r < 0 then Inl (Failed (bad_request ''start is invalid''))
      else if gm_end r < 0 then Inl (Failed (bad_request ''end is invalid''))
      else if gm_end r < gm_start r then Inl (Failed (bad_request ''start is greater than end''))
      else Inr ())"

record GetDbMessagesRequest =
  gms_user_id :: string
  gms_send_start :: int
  gms_send_end :: int
  gms_start :: int
  gms_end :: int

definition get_db_messages_validate :: "GetDbMessagesRequest \<Rightarrow> unit res" where
  "get_db_messages_validate r =
     (if gms_user_id r = '''' then Inl (Failed (bad_request ''user_id is empty''))
      else if gms_start r < 0 then Inl (Failed (bad_request ''start is invalid''))
      else if gms_end r < 0 then Inl (Failed (bad_request ''end is invalid''))
      else if gms_end r < gms_start r then Inl (Failed (bad_request ''start is greater than end''))
      else Inr ())"

section \<open>Documents\<close>

text \<open>A BSON document is an ordered list of fields; a getter fails on a missing field and on
  a field of another type.\<close>

datatype Bson = BString string | BInt64 int | BInt32 int | BBool bool | BBinary string

type_synonym Document = "(string \<times> Bson) list"

definition get_str :: "Document \<Rightarrow> string \<Rightarrow> string option" where
  "get_str d k = (case map_of d k of Some (BString s) \<Rightarrow> Some s | _ \<Rightarrow> None)"

definition get_i64 :: "Document \<Rightarrow> string \<Rightarrow> int option" where
  "get_i64 d k = (case map_of d k of Some (BInt64 i) \<Rightarrow> Some i | _ \<Rightarrow> None)"

definition get_i32 :: "Document \<Rightarrow> string \<Rightarrow> int option" where
  "get_i32 d k = (case map_of d k of Some (BInt32 i) \<Rightarrow> Some i | _ \<Rightarrow> None)"

definition get_bool :: "Document \<Rightarrow> string \<Rightarrow> bool option" where
  "get_bool d k = (case map_of d k of Some (BBool b) \<Rightarrow> Some b | _ \<Rightarrow> None)"

definition get_binary_generic :: "Document \<Rightarrow> string \<Rightarrow> string option" where
  "get_binary_generic d k = (case map_of d k of Some (BBinary b) \<Rightarrow> Some b | _ \<Rightarrow> None)"

lemmas bson_getter_defs =
  get_str_def get_i64_def get_i32_def get_bool_def get_binary_generic_def

definition unwrap_or :: "'a \<Rightarrow> 'a option \<Rightarrow> 'a" where
  "unwrap_or d x = (case x of Some v \<Rightarrow> v | None \<Rightarrow> d)"

lemma unwrap_or_simps [simp]: "unwrap_or d (Some v) = v" "unwrap_or d None = d"
  by (simp_all add: unwrap_or_def)

definition to_doc :: "Msg \<Rightarrow> Document" where
  "to_doc m =
     [(''client_id'', BString (client_id m)),
      (''server_id'', BString (server_id m)),
      (''create_time'', BInt64 (create_time m)),
      (''send_time'', BInt64 (send_time m)),
      (''content_type'', BInt32 (content_type m)),
      (''content'', BBinary (content m)),
      (''sender_id'', BString (sender_id m)),
      (''receiver_id'', BString (receiver_id m)),
      (''seq'', BInt64 (seq m)),
      (''send_seq'', BInt64 (send_seq m)),
      (''msg_type'', BInt32 (msg_type m)),
      (''is_read'', BBool (is_read m)),
      (''group_id'', BString (group_id m))]"

text \<open>\<open>TryFrom<Document> for Msg\<close>: every missing or ill-typed field is defaulted, so the
  conversion never fails.\<close>

definition msg_of_doc :: "Document \<Rightarrow> Msg" where
  "msg_of_doc d =
     \<lparr>sender_id = unwrap_or '''' (get_str d ''sender_id''),
      receiver_id = unwrap_or '''' (get_str d ''receiver_id''),
      client_id = unwrap_or '''' (get_str d ''client_id''),
      server_id = unwrap_or '''' (get_str d ''server_id''),
      create_time = unwrap_or 0 (get_i64 d ''create_time''),
      send_time = unwrap_or 0 (get_i64 d ''send_time''),
      seq = unwrap_or 0 (get_i64 d ''seq''),
      msg_type = unwrap_or 0 (get_i32 d ''msg_type''),
      content_type = unwrap_or 0 (get_i32 d ''content_type''),
      content = unwrap_or '''' (get_binary_generic d ''content''),
      is_read = unwrap_or False (get_bool d ''is_read''),
      group_id = unwrap_or '''' (get_str d ''group_id''),
      platform = unwrap_or 0 (get_i32 d ''platform''),
      avatar = unwrap_or '''' (get_str d ''avatar''),
      nickname = unwrap_or '''' (get_str d ''nickname''),
      related_msg_id = get_str d ''related_msg_id'',
      send_seq = unwrap_or 0 (get_i64 d ''send_seq'')\<rparr>"

text \<open>What a stored message reads back as.\<close>

definition stored_view :: "Msg \<Rightarrow> Msg" where
  "stored_view m = m\<lparr>platform := 0, avatar := '''', nickname := '''', related_msg_id := None\<rparr>"

section \<open>Facts\<close>

lemma platform_of_code [simp]: "platform_of (platform_code p) = p"
  by (cases p) (simp_all add: platform_of_def)

lemma msg_type_of_code [simp]: "msg_type_of (msg_type_code t) = Some t"
  by (cases t) (simp_all add: msg_type_of_def)

lemma msg_type_code_inj [simp]: "msg_type_code s = msg_type_code t \<longleftrightarrow> s = t"
  by (metis msg_type_of_code option.inject)

lemma msg_type_of_Some: "msg_type_of n = Some t \<Longrightarrow> n = msg_type_code t"
  by (simp add: msg_type_of_def split: if_splits)

lemma msg_type_of_Some_iff: "msg_type_of n = Some t \<longleftrightarrow> n = msg_type_code t"
  using msg_type_of_Some by auto

lemma from_as_str_name [simp]: "from_str_name (as_str_name t) = Some t"
  by (cases t) (simp_all add: from_str_name_def)

lemma from_str_name_Some: "from_str_name v = Some t \<Longrightarrow> v = as_str_name t"
  by (simp add: from_str_name_def split: if_splits)

lemma map_of_to_doc [simp]:
  "map_of (to_doc m) ''client_id'' = Some (BString (client_id m))"
  "map_of (to_doc m) ''server_id'' = Some (BString (server_id m))"
  "map_of (to_doc m) ''create_time'' = Some (BInt64 (create_time m))"
  "map_of (to_doc m) ''send_time'' = Some (BInt64 (send_time m))"
  "map_of (to_doc m) ''content_type'' = Some (BInt32 (content_type m))"
  "map_of (to_doc m) ''content'' = Some (BBinary (content m))"
  "map_of (to_doc m) ''sender_id'' = Some (BString (sender_id m))"
  "map_of (to_doc m) ''receiver_id'' = Some (BString (receiver_id m))"
  "map_of (to_doc m) ''seq'' = Some (BInt64 (seq m))"
  "map_of (to_doc m) ''send_seq'' = Some (BInt64 (send_seq m))"
  "map_of (to_doc m) ''msg_type'' = Some (BInt32 (msg_type m))"
  "map_of (to_doc m) ''is_read'' = Some (BBool (is_read m))"
  "map_of (to_doc m) ''group_id'' = Some (BString (group_id m))"
  "map_of (to_doc m) ''platform'' = None"
  "map_of (to_doc m) ''avatar'' = None"
  "map_of (to_doc m) ''nickname'' = None"
  "map_of (to_doc m) ''related_msg_id'' = None"
  by (simp_all add: to_doc_def)

lemma msg_of_to_doc [simp]: "msg_of_doc (to_doc m) = stored_view m"
  by (simp add: msg_of_doc_def bson_getter_defs stored_view_def)

lemma stored_view_sel [simp]:
  "sender_id (stored_view m) = sender_id m" "receiver_id (stored_view m) = receiver_id m"
  "client_id (stored_view m) = client_id m" "server_id (stored_view m) = server_id m"
  "send_time (stored_view m) = send_time m" "seq (stored_view m) = seq m"
  "msg_type (stored_view m) = msg_type m" "content (stored_view m) = content m"
  "is_read (stored_view m) = is_read m" "group_id (stored_view m) = group_id m"
  "send_seq (stored_view m) = send_seq m" "create_time (stored_view m) = create_time m"
  "content_type (stored_view m) = content_type m"
  by (simp_all add: stored_view_def)

lemma to_doc_eq_iff: "to_doc m = to_doc n \<longleftrightarrow> stored_view m = stored_view n"
  by (cases m, cases n) (auto simp: to_doc_def stored_view_def)

text \<open>
  A message stored in MongoDB and read back (\<open>to_doc\<close>, then \<open>TryFrom<Document>\<close>) is the
  original except for its platform, avatar, nickname and related message id, which the
  document does not carry: they read back as their defaults. It is read back unchanged
  exactly when they had their defaults.
\<close>

theorem doc_round_trip:
  "msg_of_doc (to_doc m) =
     m\<lparr>platform := 0, avatar := '''', nickname := '''', related_msg_id := None\<rparr>
   \<and> (msg_of_doc (to_doc m) = m \<longleftrightarrow>
       platform m = 0 \<and> avatar m = '''' \<and> nickname m = '''' \<and> related_msg_id m = None)"
  by (cases m) (auto simp: stored_view_def)

text \<open>
  The protobuf codec of the message types is exact: \<open>try_from\<close> inverts the
  discriminant and accepts no other number, and \<open>from_str_name\<close> inverts \<open>as_str_name\<close> and
  accepts no other name (the cleaner's \<open>except_types\<close> are read through it).
\<close>

theorem msg_type_codec:
  "(msg_type_of n = Some t \<longleftrightarrow> n = msg_type_code t)
   \<and> (from_str_name v = Some t \<longleftrightarrow> v = as_str_name t)
   \<and> (msg_type_of n = None \<longleftrightarrow> n < 0 \<or> 31 < n)"
proof -
  have "msg_type_of n = None \<longleftrightarrow> n < 0 \<or> 31 < n"
    unfolding msg_type_of_def by (simp, presburger)
  then show ?thesis
    using msg_type_of_Some_iff [of n t] from_str_name_Some [of v t] by auto
qed

end
