(* ===== verification/Cache.thy ===== *)
theory Cache
  imports Messages
begin

text \<open>
  The Redis cache (\<open>cache/src/redis/mod.rs\<close>): sequence numbers, group member sets, register
  codes, the online set. The Redis keyspace is explicit state; the commands used by the
  code act on it as documented (\<open>HINCRBY\<close> refuses to leave the 64-bit range, a set holds a
  member once, \<open>EXPIRE\<close> puts a deadline on a whole key). The two Lua scripts that assign
  sequence numbers are translated line by line. Lua numbers are doubles: the model's exact
  integers agree with them up to \<open>2 ^ 53\<close>. The reply order of \<open>SMEMBERS\<close> is the stored
  order, and no theorem depends on it.

  Whether a call reaches Redis is the parameter \<open>outage\<close>: \<open>Some e\<close> is a connection or
  query that failed with \<open>e\<close>.
\<close>

section \<open>The keyspace and its commands\<close>

text \<open>Hashes with integer fields, hashes with text fields, sets, strings, and deadlines.\<close>

record redis =
  r_hash :: "string \<Rightarrow> string \<rightharpoonup> int"
  r_text :: "string \<Rightarrow> string \<rightharpoonup> string"
  r_set :: "string \<Rightarrow> string list"
  r_str :: "string \<rightharpoonup> string"
  r_expire :: "string \<rightharpoonup> int"

definition redis_empty :: redis where
  "redis_empty = \<lparr>r_hash = (\<lambda>_. Map.empty), r_text = (\<lambda>_. Map.empty), r_set = (\<lambda>_. []),
     r_str = Map.empty, r_expire = Map.empty\<rparr>"

definition i64_ok :: "int \<Rightarrow> bool" where
  "i64_ok n \<longleftrightarrow> - (2 ^ 63) \<le> n \<and> n < 2 ^ 63"

definition hget :: "string \<Rightarrow> string \<Rightarrow> redis \<Rightarrow> int option" where
  "hget k f r = r_hash r k f"

definition hset :: "string \<Rightarrow> string \<Rightarrow> int \<Rightarrow> redis \<Rightarrow> redis" where
  "hset k f v r = r\<lparr>r_hash := (r_hash r)(k := (r_hash r k)(f \<mapsto> v))\<rparr>"

definition hincrby :: "string \<Rightarrow> string \<Rightarrow> int \<Rightarrow> (redis, int) act" where
  "hincrby k f d r =
     (let n = unwrap_or 0 (hget k f r) + d in
      if i64_ok n then (Inr n, hset k f n r)
      else (Inl (Failed (error_new RedisError ''increment or decrement would overflow''
                   ''increment or decrement would overflow'')), r))"

definition sadd :: "string \<Rightarrow> string \<Rightarrow> redis \<Rightarrow> redis" where
  "sadd k x r = (if x \<in> set (r_set r k) then r
     else r\<lparr>r_set := (r_set r)(k := r_set r k @ [x])\<rparr>)"

definition srem :: "string \<Rightarrow> string list \<Rightarrow> redis \<Rightarrow> redis" where
  "srem k xs r = r\<lparr>r_set := (r_set r)(k := filter (\<lambda>x. x \<notin> set xs) (r_set r k))\<rparr>"

definition del_set :: "string \<Rightarrow> redis \<Rightarrow> redis" where
  "del_set k r = r\<lparr>r_set := (r_set r)(k := [])\<rparr>"

lemmas redis_command_defs = hget_def hset_def sadd_def srem_def del_set_def

section \<open>Keys\<close>

definition CUR_SEQ_KEY :: string where "CUR_SEQ_KEY = ''cur_seq''"
definition MAX_SEQ_KEY :: string where "MAX_SEQ_KEY = ''max_seq''"
definition IS_LOADED :: string where "IS_LOADED = ''seq_need_load''"
definition SEQ_NO_NEED_LOAD :: string where "SEQ_NO_NEED_LOAD = ''false''"
definition REGISTER_CODE_KEY :: string where "REGISTER_CODE_KEY = ''register_code''"
definition REGISTER_CODE_EXPIRE :: int where "REGISTER_CODE_EXPIRE = 300"
definition USER_ONLINE_SET :: string where "USER_ONLINE_SET = ''user_online_set''"
definition GROUP_MEMBERS_ID_PREFIX :: string where "GROUP_MEMBERS_ID_PREFIX = ''group_members_id''"
definition DEFAULT_SEQ_STEP :: int where "DEFAULT_SEQ_STEP = 5000"

definition seq_key :: "string \<Rightarrow> string" where "seq_key u = ''seq:'' @ u"
definition send_seq_key :: "string \<Rightarrow> string" where "send_seq_key u = ''send_seq:'' @ u"
definition group_key :: "string \<Rightarrow> string" where "group_key g = GROUP_MEMBERS_ID_PREFIX @ '':'' @ g"

lemma seq_keys_distinct [simp]:
  "CUR_SEQ_KEY \<noteq> MAX_SEQ_KEY" "MAX_SEQ_KEY \<noteq> CUR_SEQ_KEY"
  "seq_key u = seq_key v \<longleftrightarrow> u = v" "send_seq_key u = send_seq_key v \<longleftrightarrow> u = v"
  "seq_key u \<noteq> send_seq_key v" "send_seq_key v \<noteq> seq_key u"
  "group_key g = group_key h \<longleftrightarrow> g = h" "group_key g \<noteq> USER_ONLINE_SET"
  by (simp_all add: CUR_SEQ_KEY_def MAX_SEQ_KEY_def seq_key_def send_seq_key_def group_key_def
      GROUP_MEMBERS_ID_PREFIX_def USER_ONLINE_SET_def)

section \<open>Configuration\<close>

text \<open>\<open>RedisCache::from_config\<close>: a configured step of 0 stands for the default.\<close>

definition cache_seq_step :: "int \<Rightarrow> int" where
  "cache_seq_step config_step = (if config_step \<noteq> 0 then config_step else DEFAULT_SEQ_STEP)"

section \<open>The sequence scripts\<close>

text \<open>\<open>single_script_load\<close>: the script run by \<open>increase_seq\<close> and \<open>incr_send_seq\<close>.\<close>

definition single_script :: "int \<Rightarrow> string \<Rightarrow> (redis, int \<times> int \<times> bool) act" where
  "single_script step k =
     and_then (hincrby k CUR_SEQ_KEY 1) (\<lambda>cur r.
       (let (mx, r1) = (case hget k MAX_SEQ_KEY r of
                          None \<Rightarrow> (step, hset k MAX_SEQ_KEY step r)
                        | Some m \<Rightarrow> (m, r))
        in if mx < cur then (Inr (cur, mx + step, True), hset k MAX_SEQ_KEY (mx + step) r1)
           else (Inr (cur, mx, False), r1)))"

text \<open>The replies of a script, as the client library hands them over.\<close>

datatype redis_value = VInt int | VBulk "redis_value list" | VNil

text \<open>\<open>group_script_load\<close>: one pass over the members, one triple each.\<close>

fun group_script :: "int \<Rightarrow> string list \<Rightarrow> (redis, redis_value list) act" where
  "group_script step [] = ok []"
| "group_script step (m # ms) =
     and_then (hincrby (seq_key m) CUR_SEQ_KEY 1) (\<lambda>cur r.
       (let (mx, r1) = (case hget (seq_key m) MAX_SEQ_KEY r of
                          None \<Rightarrow> (step, hset (seq_key m) MAX_SEQ_KEY step r)
                        | Some x \<Rightarrow> (x, r));
            (mx2, r2, updated) = (if mx < cur
                          then (mx + step, hset (seq_key m) MAX_SEQ_KEY (mx + step) r1, 1)
                          else (mx, r1, 0))
        in and_then (group_script step ms)
             (\<lambda>rest. ok (VBulk [VInt cur, VInt mx2, VInt updated] # rest)) r2))"

text \<open>The reply loop of \<open>incr_group_seq\<close>: \<open>members.remove(0)\<close> panics on an empty vector.\<close>

fun parse_group_reply :: "string list \<Rightarrow> redis_value list \<Rightarrow> GroupMemSeq list res" where
  "parse_group_reply ms [] = Inr []"
| "parse_group_reply ms (VBulk [VInt c, VInt x, VInt u] # vs) =
     (case ms of
        [] \<Rightarrow> Inl (Panicked ''removal index (is 0) should be < len (is 0)'')
      | m # ms' \<Rightarrow>
          (case parse_group_reply ms' vs of
             Inl e \<Rightarrow> Inl e
           | Inr rest \<Rightarrow> Inr (group_mem_seq_new m c x (u \<noteq> 0) # rest)))"
| "parse_group_reply ms (_ # vs) = parse_group_reply ms vs"

section \<open>Operations of the cache\<close>

text \<open>\<open>got\<close> is whether the \<open>GET\<close> itself was answered: a failed one counts as "not loaded".\<close>

definition check_seq_loaded :: "failure option \<Rightarrow> bool \<Rightarrow> (redis, bool) act" where
  "check_seq_loaded outage got =
     remote outage (\<lambda>r. (Inr (\<not> (got \<and> r_str r IS_LOADED = Some SEQ_NO_NEED_LOAD)), r))"

definition set_seq_loaded :: "failure option \<Rightarrow> (redis, unit) act" where
  "set_seq_loaded outage =
     remote outage (\<lambda>r. (Inr (), r\<lparr>r_str := (r_str r)(IS_LOADED \<mapsto> SEQ_NO_NEED_LOAD)\<rparr>))"

definition set_seq_one :: "string \<times> int \<times> int \<Rightarrow> redis \<Rightarrow> redis" where
  "set_seq_one x r = (case x of (u, send_max, rec_max) \<Rightarrow>
     hset (seq_key u) MAX_SEQ_KEY rec_max (hset (seq_key u) CUR_SEQ_KEY rec_max
       (hset (send_seq_key u) MAX_SEQ_KEY send_max (hset (send_seq_key u) CUR_SEQ_KEY send_max r))))"

definition set_seq :: "failure option \<Rightarrow> (string \<times> int \<times> int) list \<Rightarrow> (redis, unit) act" where
  "set_seq outage xs = remote outage (\<lambda>r. (Inr (), fold set_seq_one xs r))"

definition set_send_seq :: "failure option \<Rightarrow> (string \<times> int) list \<Rightarrow> (redis, unit) act" where
  "set_send_seq outage xs = remote outage (\<lambda>r. (Inr (),
     fold (\<lambda>(u, m) r. hset (send_seq_key u) MAX_SEQ_KEY m (hset (send_seq_key u) CUR_SEQ_KEY m r)) xs r))"

text \<open>\<open>conn.hget(..).await.unwrap_or_default()\<close>: an unanswered \<open>HGET\<close> reads as 0.\<close>

definition get_seq :: "failure option \<Rightarrow> bool \<Rightarrow> string \<Rightarrow> (redis, int) act" where
  "get_seq outage got u = remote outage (\<lambda>r.
     (Inr (if got then unwrap_or 0 (hget (seq_key u) CUR_SEQ_KEY r) else 0), r))"

text \<open>\<open>get_cur_seq\<close> decodes both replies as \<open>i64\<close>, which fails on a missing field.\<close>

definition get_cur_seq :: "failure option \<Rightarrow> string \<Rightarrow> (redis, int \<times> int) act" where
  "get_cur_seq outage u = remote outage (\<lambda>r.
     (case (hget (seq_key u) CUR_SEQ_KEY r, hget (send_seq_key u) CUR_SEQ_KEY r) of
        (Some a, Some b) \<Rightarrow> (Inr (a, b), r)
      | _ \<Rightarrow> (Inl (Failed (error_new RedisError ''response was nil'' ''response was nil'')), r)))"

definition get_send_seq :: "failure option \<Rightarrow> string \<Rightarrow> (redis, int \<times> int) act" where
  "get_send_seq outage u = remote outage (\<lambda>r.
     (Inr (unwrap_or 0 (hget (send_seq_key u) CUR_SEQ_KEY r),
           unwrap_or 0 (hget (send_seq_key u) MAX_SEQ_KEY r)), r))"

definition increase_seq :: "int \<Rightarrow> failure option \<Rightarrow> string \<Rightarrow> (redis, int \<times> int \<times> bool) act" where
  "increase_seq step outage u = remote outage (single_script step (seq_key u))"

definition incr_send_seq :: "int \<Rightarrow> failure option \<Rightarrow> string \<Rightarrow> (redis, int \<times> int \<times> bool) act" where
  "incr_send_seq step outage u = remote outage (single_script step (send_seq_key u))"

definition incr_group_seq ::
  "int \<Rightarrow> failure option \<Rightarrow> string list \<Rightarrow> (redis, GroupMemSeq list) act" where
  "incr_group_seq step outage ms =
     remote outage (and_then (group_script step ms) (\<lambda>reply r. (parse_group_reply ms reply, r)))"

definition query_group_members_id_cache :: "failure option \<Rightarrow> string \<Rightarrow> (redis, string list) act" where
  "query_group_members_id_cache outage g = remote outage (\<lambda>r. (Inr (r_set r (group_key g)), r))"

definition save_group_members_id :: "failure option \<Rightarrow> string \<Rightarrow> string list \<Rightarrow> (redis, unit) act" where
  "save_group_members_id outage g ms =
     remote outage (\<lambda>r. (Inr (), fold (sadd (group_key g)) ms r))"

definition add_group_member_id :: "failure option \<Rightarrow> string \<Rightarrow> string \<Rightarrow> (redis, unit) act" where
  "add_group_member_id outage m g = remote outage (\<lambda>r. (Inr (), sadd (group_key g) m r))"

definition remove_group_member_id :: "failure option \<Rightarrow> string \<Rightarrow> string \<Rightarrow> (redis, unit) act" where
  "remove_group_member_id outage g m = remote outage (\<lambda>r. (Inr (), srem (group_key g) [m] r))"

definition remove_group_member_batch :: "failure option \<Rightarrow> string \<Rightarrow> string list \<Rightarrow> (redis, unit) act" where
  "remove_group_member_batch outage g ms =
     remote outage (\<lambda>r.
       if ms = [] then (Inl (Failed (error_new RedisError ''wrong number of arguments for srem''
                               ''wrong number of arguments for srem'')), r)
       else (Inr (), srem (group_key g) ms r))"

definition del_group_members :: "failure option \<Rightarrow> string \<Rightarrow> (redis, unit) act" where
  "del_group_members outage g = remote outage (\<lambda>r. (Inr (), del_set (group_key g) r))"

text \<open>Register codes live in one hash; its deadline is the deadline of every code in it.\<close>

definition save_register_code :: "failure option \<Rightarrow> int \<Rightarrow> string \<Rightarrow> string \<Rightarrow> (redis, unit) act" where
  "save_register_code outage now email code = remote outage (\<lambda>r. (Inr (),
     (let old = (case r_expire r REGISTER_CODE_KEY of
                   Some t \<Rightarrow> if t \<le> now then Map.empty else r_text r REGISTER_CODE_KEY
                 | None \<Rightarrow> r_text r REGISTER_CODE_KEY)
      in r\<lparr>r_text := (r_text r)(REGISTER_CODE_KEY := old(email \<mapsto> code)),
           r_expire := (r_expire r)(REGISTER_CODE_KEY \<mapsto> now + REGISTER_CODE_EXPIRE)\<rparr>)))"

definition get_register_code :: "failure option \<Rightarrow> int \<Rightarrow> string \<Rightarrow> (redis, string option) act" where
  "get_register_code outage now email = remote outage (\<lambda>r. (Inr
     (case r_expire r REGISTER_CODE_KEY of
        Some t \<Rightarrow> if t \<le> now then None else r_text r REGISTER_CODE_KEY email
      | None \<Rightarrow> r_text r REGISTER_CODE_KEY email), r))"

definition del_register_code :: "failure option \<Rightarrow> string \<Rightarrow> (redis, unit) act" where
  "del_register_code outage email = remote outage (\<lambda>r. (Inr (),
     r\<lparr>r_text := (r_text r)(REGISTER_CODE_KEY := (r_text r REGISTER_CODE_KEY)(email := None))\<rparr>))"

definition user_login :: "failure option \<Rightarrow> string \<Rightarrow> (redis, unit) act" where
  "user_login outage u = remote outage (\<lambda>r. (Inr (), sadd USER_ONLINE_SET u r))"

definition user_logout :: "failure option \<Rightarrow> string \<Rightarrow> (redis, unit) act" where
  "user_logout outage u = remote outage (\<lambda>r. (Inr (), srem USER_ONLINE_SET [u] r))"

definition online_count :: "failure option \<Rightarrow> (redis, int) act" where
  "online_count outage = remote outage (\<lambda>r. (Inr (int (length (r_set r USER_ONLINE_SET))), r))"

declare check_seq_loaded_def [cache_defs] set_seq_loaded_def [cache_defs] set_seq_def [cache_defs]
  set_send_seq_def [cache_defs] get_seq_def [cache_defs] get_cur_seq_def [cache_defs]
  get_send_seq_def [cache_defs] increase_seq_def [cache_defs] incr_send_seq_def [cache_defs]
  incr_group_seq_def [cache_defs] query_group_members_id_cache_def [cache_defs]
  save_group_members_id_def [cache_defs] add_group_member_id_def [cache_defs]
  remove_group_member_id_def [cache_defs] remove_group_member_batch_def [cache_defs]
  del_group_members_def [cache_defs] save_register_code_def [cache_defs]
  get_register_code_def [cache_defs] del_register_code_def [cache_defs]
  user_login_def [cache_defs] user_logout_def [cache_defs] online_count_def [cache_defs]

end
