(* ===== verification/Sequences.thy ===== *)
theory Sequences
  imports Cache
begin

text \<open>
  Sequence numbers. The contract of a sequence issuer is the locale \<open>seq_issuer\<close>: every
  successful call hands out the successor of the user's current number, moves the user's
  limit by one step exactly when the number passes it, and touches no other user. The
  locale's lemmas give consecutive and therefore unique numbers over any sequence of calls
  by any users, whatever calls fail in between. Both uses of the Redis script
  (\<open>increase_seq\<close> for the receiver, \<open>incr_send_seq\<close> for the sender) are instances. The
  batched script of group messages is proved equal to one \<open>increase_seq\<close> per member.
\<close>

section \<open>What a key says\<close>

definition cur_of :: "string \<Rightarrow> redis \<Rightarrow> int" where
  "cur_of k r = unwrap_or 0 (hget k CUR_SEQ_KEY r)"

definition lim_of :: "int \<Rightarrow> string \<Rightarrow> redis \<Rightarrow> int" where
  "lim_of step k r = unwrap_or step (hget k MAX_SEQ_KEY r)"

text \<open>A key is either absent or holds a current number inside the reserved window below its
  maximum.\<close>

definition seq_window :: "int \<Rightarrow> string \<Rightarrow> redis \<Rightarrow> bool" where
  "seq_window step k r \<longleftrightarrow>
     (case hget k CUR_SEQ_KEY r of
        None \<Rightarrow> hget k MAX_SEQ_KEY r = None
      | Some c \<Rightarrow> (case hget k MAX_SEQ_KEY r of
                     None \<Rightarrow> False
                   | Some m \<Rightarrow> m - step < c \<and> c \<le> m))"

definition seq_wf :: "int \<Rightarrow> redis \<Rightarrow> bool" where
  "seq_wf step r \<longleftrightarrow> 0 < step \<and>
     (\<forall>u. seq_window step (seq_key u) r \<and> seq_window step (send_seq_key u) r)"

section \<open>The script on one key\<close>

lemma hget_hset [simp]:
  "hget k f (hset k' f' v r) = (if k = k' \<and> f = f' then Some v else hget k f r)"
  by (simp add: hget_def hset_def)

lemma r_set_hset [simp]: "r_set (hset k f v r) = r_set r"
  by (simp add: hset_def)

text \<open>The script's effect in closed form.\<close>

definition script_result :: "int \<Rightarrow> string \<Rightarrow> redis \<Rightarrow> int \<times> int \<times> bool" where
  "script_result step k r =
     (let c = cur_of k r + 1; m = lim_of step k r in
      if m < c then (c, m + step, True) else (c, m, False))"

definition script_state :: "int \<Rightarrow> string \<Rightarrow> redis \<Rightarrow> redis" where
  "script_state step k r =
     (let c = cur_of k r + 1; m = lim_of step k r;
          r1 = hset k CUR_SEQ_KEY c r;
          r2 = (if hget k MAX_SEQ_KEY r = None then hset k MAX_SEQ_KEY step r1 else r1)
      in if m < c then hset k MAX_SEQ_KEY (m + step) r2 else r2)"

lemma single_script_eq:
  "single_script step k r =
     (if i64_ok (cur_of k r + 1) then (Inr (script_result step k r), script_state step k r)
      else (Inl (Failed (error_new RedisError ''increment or decrement would overflow''
              ''increment or decrement would overflow'')), r))"
  by (auto simp: single_script_def and_then_def hincrby_def Let_def script_result_def
      script_state_def cur_of_def lim_of_def split: option.splits)

lemma hget_script_state:
  "hget k' f (script_state step k r) =
     (if k' = k \<and> f = CUR_SEQ_KEY then Some (cur_of k r + 1)
      else if k' = k \<and> f = MAX_SEQ_KEY
        then Some (if lim_of step k r < cur_of k r + 1 then lim_of step k r + step
                   else lim_of step k r)
      else hget k' f r)"
  by (auto simp: script_state_def Let_def lim_of_def)

lemma cur_of_script_state: "cur_of k' (script_state step k r) =
    (if k' = k then cur_of k r + 1 else cur_of k' r)"
  by (simp add: cur_of_def hget_script_state)

lemma lim_of_script_state: "lim_of step k' (script_state step k r) =
    (if k' = k then (if lim_of step k r < cur_of k r + 1 then lim_of step k r + step
                     else lim_of step k r)
     else lim_of step k' r)"
  by (auto simp: lim_of_def hget_script_state)

lemma seq_window_bounds:
  assumes "seq_window step k r" and "0 < step"
  shows "lim_of step k r - step \<le> cur_of k r" and "cur_of k r \<le> lim_of step k r"
  using assms by (auto simp: seq_window_def cur_of_def lim_of_def split: option.splits)

lemma seq_window_script_state:
  assumes w: "seq_window step k' r" and k: "seq_window step k r" and pos: "0 < step"
  shows "seq_window step k' (script_state step k r)"
proof (cases "k' = k")
  case False
  then have "hget k' f (script_state step k r) = hget k' f r" for f
    by (simp add: hget_script_state)
  with w show ?thesis by (simp add: seq_window_def split: option.splits)
next
  case True
  from seq_window_bounds [OF k pos] have "lim_of step k r - step \<le> cur_of k r"
    and "cur_of k r \<le> lim_of step k r" .
  with True pos show ?thesis
    by (auto simp: seq_window_def hget_script_state)
qed

lemma seq_wf_script_state:
  "seq_wf step r \<Longrightarrow> seq_wf step (script_state step (seq_key u) r)"
  "seq_wf step r \<Longrightarrow> seq_wf step (script_state step (send_seq_key u) r)"
  by (auto simp: seq_wf_def intro!: seq_window_script_state)

lemma seq_wf_empty: "0 < step \<Longrightarrow> seq_wf step redis_empty"
  by (simp add: seq_wf_def seq_window_def hget_def redis_empty_def)

section \<open>The contract of a sequence issuer\<close>

text \<open>The numbers handed out by a run of calls, with the user of each.\<close>

fun issue_all ::
  "('c \<Rightarrow> ('s, int \<times> int \<times> bool) act) \<Rightarrow> ('c \<Rightarrow> 'u) \<Rightarrow> 'c list \<Rightarrow> 's \<Rightarrow> ('u \<times> int) list \<times> 's" where
  "issue_all issue who [] s = ([], s)"
| "issue_all issue who (c # cs) s =
     (case issue c s of
        (Inl e, t) \<Rightarrow> issue_all issue who cs t
      | (Inr (n, _, _), t) \<Rightarrow>
          (case issue_all issue who cs t of (xs, z) \<Rightarrow> ((who c, n) # xs, z)))"

locale seq_issuer =
  fixes issue :: "'c \<Rightarrow> ('s, int \<times> int \<times> bool) act"
    and who :: "'c \<Rightarrow> 'u"
    and cur :: "'u \<Rightarrow> 's \<Rightarrow> int"
    and lim :: "'u \<Rightarrow> 's \<Rightarrow> int"
    and step :: int
    and wf :: "'s \<Rightarrow> bool"
  assumes wf_issue: "wf s \<Longrightarrow> wf (snd (issue c s))"
    and wf_bounds: "wf s \<Longrightarrow> 0 < step \<and> lim u s - step \<le> cur u s \<and> cur u s \<le> lim u s"
    and issue_Inr: "wf s \<Longrightarrow> issue c s = (Inr (n, m, upd), t) \<Longrightarrow>
        n = cur (who c) s + 1 \<and> cur (who c) t = n \<and> lim (who c) t = m
        \<and> m = lim (who c) s + (if upd then step else 0) \<and> (upd \<longleftrightarrow> lim (who c) s < n)"
    and issue_other: "issue c s = (res, t) \<Longrightarrow> u \<noteq> who c \<Longrightarrow> cur u t = cur u s \<and> lim u t = lim u s"
    and issue_Inl: "issue c s = (Inl e, t) \<Longrightarrow> t = s"
begin

lemma issue_reserved:
  assumes "wf s" and "issue c s = (Inr (n, m, upd), t)"
  shows "n \<le> m" and "m - step < n" and "upd \<longleftrightarrow> n = lim (who c) s + 1"
proof -
  have w: "0 < step" "lim (who c) s - step \<le> cur (who c) s" "cur (who c) s \<le> lim (who c) s"
    using wf_bounds [OF assms(1)] by auto
  have i: "n = cur (who c) s + 1" "m = lim (who c) s + (if upd then step else 0)"
    "upd \<longleftrightarrow> lim (who c) s < n"
    using issue_Inr [OF assms] by auto
  show "n \<le> m" "m - step < n" "upd \<longleftrightarrow> n = lim (who c) s + 1"
    using w i by (cases upd; simp)+
qed

lemma wf_issue_all: "wf s \<Longrightarrow> wf (snd (issue_all issue who cs s))"
proof (induction cs arbitrary: s)
  case Nil
  then show ?case by simp
next
  case (Cons c cs)
  from Cons.prems have "wf (snd (issue c s))" by (rule wf_issue)
  then show ?case
    using Cons.IH by (auto split: prod.split sum.split) (metis snd_conv)+
qed

lemma issue_all_consecutive:
  assumes "wf s" and "issue_all issue who cs s = (xs, t)"
  shows "map snd (filter (\<lambda>p. fst p = u) xs) = [cur u s + 1 .. cur u t] \<and> cur u s \<le> cur u t"
  using assms
proof (induction cs arbitrary: s xs)
  case Nil
  then show ?case by simp
next
  case (Cons c cs)
  obtain res z where i: "issue c s = (res, z)" by fastforce
  have z: "wf z" using wf_issue [OF Cons.prems(1), of c] i by simp
  show ?case
  proof (cases res)
    case (Inl e)
    then have "z = s" using issue_Inl i by simp
    then show ?thesis using Cons.IH [OF z] Cons.prems(2) i Inl by simp
  next
    case (Inr v)
    obtain n m upd where v: "v = (n, m, upd)" by (cases v) auto
    obtain ys where ys: "issue_all issue who cs z = (ys, t)" "xs = (who c, n) # ys"
      using Cons.prems(2) i Inr v by (auto split: prod.splits)
    have IH: "map snd (filter (\<lambda>p. fst p = u) ys) = [cur u z + 1 .. cur u t]" "cur u z \<le> cur u t"
      using Cons.IH [OF z ys(1)] by auto
    show ?thesis
    proof (cases "u = who c")
      case True
      have "n = cur u s + 1" and "cur u z = n"
        using issue_Inr [OF Cons.prems(1)] i Inr v True by auto
      then show ?thesis using IH ys(2) True upto_rec1 [of "cur u s + 1" "cur u t"] by simp
    next
      case False
      then have "cur u z = cur u s" using issue_other [OF i] by simp
      then show ?thesis using IH ys(2) False by simp
    qed
  qed
qed

lemma issue_all_distinct:
  assumes "wf s" and "issue_all issue who cs s = (xs, t)"
  shows "distinct xs"
proof (rule distinct_by_class [of fst])
  fix u
  show "distinct (filter (\<lambda>p. fst p = u) xs)"
    using issue_all_consecutive [OF assms, of u] by (metis distinct_map distinct_upto)
qed

lemma issue_all_bounds:
  assumes "wf s" and "issue_all issue who cs s = (xs, t)" and "(u, n) \<in> set xs"
  shows "cur u s < n" and "n \<le> cur u t"
proof -
  have "n \<in> set (map snd (filter (\<lambda>p. fst p = u) xs))" using assms(3) by force
  then show "cur u s < n" "n \<le> cur u t"
    using issue_all_consecutive [OF assms(1,2), of u] by auto
qed

text \<open>The numbers handed out by a second run are above those of the first.\<close>

lemma issue_all_append_fresh:
  assumes "wf s" and "issue_all issue who cs s = (xs, t)" and "issue_all issue who ds t = (ys, z)"
    and "(u, n) \<in> set xs" and "(u, m) \<in> set ys"
  shows "n < m"
proof -
  have "wf t" using wf_issue_all [OF assms(1), of cs] assms(2) by simp
  then show ?thesis
    using issue_all_bounds [OF assms(1,2,4)] issue_all_bounds [OF _ assms(3,5)] by simp
qed

end

section \<open>The two users of the script are sequence issuers\<close>

lemma remote_script_cases:
  "remote outage (single_script step k) r =
     (case outage of
        Some e \<Rightarrow> (Inl e, r)
      | None \<Rightarrow> if i64_ok (cur_of k r + 1) then (Inr (script_result step k r), script_state step k r)
                else (Inl (Failed (error_new RedisError ''increment or decrement would overflow''
                   ''increment or decrement would overflow'')), r))"
  by (simp add: single_script_eq split: option.split)

lemma script_law:
  assumes "remote outage (single_script step k) r = (Inr (n, m, upd), t)"
  shows "n = cur_of k r + 1 \<and> cur_of k t = n \<and> lim_of step k t = m
    \<and> m = lim_of step k r + (if upd then step else 0) \<and> (upd \<longleftrightarrow> lim_of step k r < n)"
  using assms
  by (auto simp: remote_script_cases script_result_def Let_def cur_of_script_state
      lim_of_script_state split: option.splits if_splits)

lemma script_other_key:
  assumes "remote outage (single_script step k) r = (res, t)" and "k' \<noteq> k"
  shows "cur_of k' t = cur_of k' r \<and> lim_of step k' t = lim_of step k' r"
  using assms
  by (auto simp: remote_script_cases cur_of_script_state lim_of_script_state
      split: option.splits if_splits)

lemma script_Inl: "remote outage (single_script step k) r = (Inl e, t) \<Longrightarrow> t = r"
  by (auto simp: remote_script_cases split: option.splits if_splits)

lemma script_wf:
  assumes "seq_wf step r" and "k = seq_key u \<or> k = send_seq_key u"
  shows "seq_wf step (snd (remote outage (single_script step k) r))"
  using assms by (auto simp: remote_script_cases seq_wf_script_state split: option.split)

interpretation recv: seq_issuer "\<lambda>(outage, u). increase_seq step outage u" snd
  "\<lambda>u. cur_of (seq_key u)" "\<lambda>u. lim_of step (seq_key u)" step "seq_wf step" for step
proof (unfold_locales, goal_cases)
  case (1 s c)
  then show ?case by (auto simp: increase_seq_def split: prod.split intro: script_wf)
next
  case (2 s u)
  then show ?case by (auto simp: seq_wf_def dest: seq_window_bounds)
next
  case (3 s c n m upd t)
  then show ?case by (cases c) (simp add: increase_seq_def script_law)
next
  case (4 c s res t u)
  then show ?case by (cases c) (simp add: increase_seq_def script_other_key)
next
  case (5 c s e t)
  then show ?case by (cases c) (simp add: increase_seq_def script_Inl)
qed

interpretation send: seq_issuer "\<lambda>(outage, u). incr_send_seq step outage u" snd
  "\<lambda>u. cur_of (send_seq_key u)" "\<lambda>u. lim_of step (send_seq_key u)" step "seq_wf step" for step
proof (unfold_locales, goal_cases)
  case (1 s c)
  then show ?case by (auto simp: incr_send_seq_def split: prod.split intro: script_wf)
next
  case (2 s u)
  then show ?case by (auto simp: seq_wf_def dest: seq_window_bounds)
next
  case (3 s c n m upd t)
  then show ?case by (cases c) (simp add: incr_send_seq_def script_law)
next
  case (4 c s res t u)
  then show ?case by (cases c) (simp add: incr_send_seq_def script_other_key)
next
  case (5 c s e t)
  then show ?case by (cases c) (simp add: incr_send_seq_def script_Inl)
qed

section \<open>The batched script\<close>

text \<open>The reference for the group script: one \<open>increase_seq\<close> per member, in order.\<close>

fun increase_seq_each :: "int \<Rightarrow> string list \<Rightarrow> (redis, GroupMemSeq list) act" where
  "increase_seq_each step [] = ok []"
| "increase_seq_each step (m # ms) =
     and_then (increase_seq step None m) (\<lambda>(c, x, u).
       and_then (increase_seq_each step ms) (\<lambda>rest. ok (group_mem_seq_new m c x u # rest)))"

definition reply_of :: "GroupMemSeq \<Rightarrow> redis_value" where
  "reply_of g = VBulk [VInt (cur_seq g), VInt (max_seq g), VInt (if need_update g then 1 else 0)]"

lemma parse_reply_of: "map mem_id gs = ms \<Longrightarrow> parse_group_reply ms (map reply_of gs) = Inr gs"
  by (induction gs arbitrary: ms) (auto simp: reply_of_def group_mem_seq_new_def)

lemma increase_seq_each_ids:
  "increase_seq_each step ms r = (Inr gs, t) \<Longrightarrow> map mem_id gs = ms"
  by (induction ms arbitrary: r gs t)
     (auto elim!: and_then_eq_InrE simp: group_mem_seq_new_def)

lemma group_script_each:
  "group_script step ms r =
     and_then (increase_seq_each step ms) (\<lambda>gs. ok (map reply_of gs)) r"
proof (induction ms arbitrary: r)
  case Nil
  then show ?case by (simp add: and_then_def)
next
  case (Cons m ms)
  then show ?case
    by (auto simp: increase_seq_def single_script_def and_then_def hincrby_def Let_def
        reply_of_def group_mem_seq_new_def split: option.split sum.split prod.split)
qed

lemma incr_group_seq_each: "incr_group_seq step None ms = increase_seq_each step ms"
proof
  fix r
  show "incr_group_seq step None ms r = increase_seq_each step ms r"
  proof (cases "increase_seq_each step ms r")
    case (Pair res t)
    then show ?thesis
      by (cases res) (simp_all add: incr_group_seq_def and_then_def group_script_each
          parse_reply_of increase_seq_each_ids)
  qed
qed

text \<open>On members that occur once, every member gets its own next number.\<close>

lemma increase_seq_each_distinct:
  assumes "distinct ms" and "\<And>u. u \<in> set ms \<Longrightarrow> i64_ok (cur_of (seq_key u) r + 1)"
  shows "\<exists>t. increase_seq_each step ms r =
      (Inr (map (\<lambda>u. case script_result step (seq_key u) r of (c, x, b) \<Rightarrow> group_mem_seq_new u c x b) ms), t)
    \<and> t = fold (\<lambda>u. script_state step (seq_key u)) ms r"
  using assms
proof (induction ms arbitrary: r)
  case Nil
  then show ?case by simp
next
  case (Cons m ms)
  define r1 where "r1 = script_state step (seq_key m) r"
  have same: "cur_of (seq_key u) r1 = cur_of (seq_key u) r" "lim_of step (seq_key u) r1 = lim_of step (seq_key u) r"
    if "u \<in> set ms" for u
    using that Cons.prems(1) by (auto simp: r1_def cur_of_script_state lim_of_script_state)
  then have "script_result step (seq_key u) r1 = script_result step (seq_key u) r" if "u \<in> set ms" for u
    using that by (simp add: script_result_def)
  moreover have "increase_seq step None m r = (Inr (script_result step (seq_key m) r), r1)"
    using Cons.prems(2) [of m] by (simp add: increase_seq_def single_script_eq r1_def)
  moreover obtain t where "increase_seq_each step ms r1 =
      (Inr (map (\<lambda>u. case script_result step (seq_key u) r1 of (c, x, b) \<Rightarrow> group_mem_seq_new u c x b) ms), t)"
      "t = fold (\<lambda>u. script_state step (seq_key u)) ms r1"
    using Cons.IH [of r1] Cons.prems same by auto
  ultimately show ?case by (auto simp: and_then_def r1_def split: prod.split)
qed

lemma fold_script_state:
  "distinct ms \<Longrightarrow>
   cur_of (seq_key u) (fold (\<lambda>u. script_state step (seq_key u)) ms r) =
     cur_of (seq_key u) r + (if u \<in> set ms then 1 else 0)
   \<and> lim_of step (seq_key u) (fold (\<lambda>u. script_state step (seq_key u)) ms r) =
     lim_of step (seq_key u) r
       + (if u \<in> set ms \<and> lim_of step (seq_key u) r < cur_of (seq_key u) r + 1 then step else 0)"
  by (induction ms arbitrary: r) (auto simp: cur_of_script_state lim_of_script_state)

lemma seq_wf_fold_script_state:
  "seq_wf step r \<Longrightarrow> seq_wf step (fold (\<lambda>u. script_state step (seq_key u)) ms r)"
  by (induction ms arbitrary: r) (simp_all add: seq_wf_script_state)

text \<open>
  C13. The one round trip that numbers a whole group gives every member exactly what an
  \<open>increase_seq\<close> of its own would have given, members that occur twice included, leaves the
  same keyspace behind and fails exactly when one of those calls fails; the reply is always
  matched to the right member.
\<close>

theorem group_batch_equals_singles:
  "incr_group_seq step None ms = increase_seq_each step ms"
  by (rule incr_group_seq_each)

section \<open>Properties\<close>

text \<open>
  C10. Over any sequence of \<open>increase_seq\<close> calls, by any users, with any of the calls failing,
  each user's receive numbers are consecutive from its current number on, in call order: no
  number is skipped, repeated or handed to two messages.
\<close>

theorem receive_numbers_consecutive:
  assumes "seq_wf step r"
    and "issue_all (\<lambda>(outage, u). increase_seq step outage u) snd calls r = (xs, t)"
  shows "map snd (filter (\<lambda>p. fst p = u) xs) = [cur_of (seq_key u) r + 1 .. cur_of (seq_key u) t]
    \<and> distinct xs"
  using recv.issue_all_consecutive [OF assms, of u] recv.issue_all_distinct [OF assms] by auto

text \<open>
  The same for the numbers of sent messages (\<open>incr_send_seq\<close>).
\<close>

theorem send_numbers_consecutive:
  assumes "seq_wf step r"
    and "issue_all (\<lambda>(outage, u). incr_send_seq step outage u) snd calls r = (xs, t)"
  shows "map snd (filter (\<lambda>p. fst p = u) xs)
           = [cur_of (send_seq_key u) r + 1 .. cur_of (send_seq_key u) t]
    \<and> distinct xs"
  using send.issue_all_consecutive [OF assms, of u] send.issue_all_distinct [OF assms] by auto

text \<open>
  The script answers with a number inside the window its maximum reserves, and it reports
  that the maximum must be persisted exactly when the number is the first of a new window.
\<close>

theorem receive_number_reserved:
  assumes "seq_wf step r" and "increase_seq step outage u r = (Inr (n, m, upd), t)"
  shows "m - step < n \<and> n \<le> m \<and> (upd \<longleftrightarrow> n = lim_of step (seq_key u) r + 1)
    \<and> lim_of step (seq_key u) t = m"
  using recv.issue_reserved [OF assms(1), of "(outage, u)"] recv.issue_Inr [OF assms(1), of "(outage, u)"]
    assms(2) by auto

text \<open>
  At the end of the 64-bit range the script refuses: it answers with a Redis error and
  changes nothing, it never wraps to a number that was used before.
\<close>

theorem increase_seq_no_wrap:
  assumes "cur_of (seq_key u) r = 2 ^ 63 - 1"
  shows "\<exists>e. increase_seq step None u r = (Inl (Failed e), r) \<and> kind e = RedisError"
  using assms by (simp add: increase_seq_def single_script_eq i64_ok_def error_new_def)

lemma seq_wf_example: "seq_wf 2 redis_empty"
  by (simp add: seq_wf_empty)

lemmas script_eval = single_script_def and_then_def hincrby_def hget_def hset_def redis_empty_def
  i64_ok_def seq_key_def send_seq_key_def CUR_SEQ_KEY_def MAX_SEQ_KEY_def increase_seq_def
  incr_send_seq_def cur_of_def lim_of_def

theorem receive_numbers_consecutive_witness:
  "map snd (filter (\<lambda>p. fst p = ''a'')
      (fst (issue_all (\<lambda>(outage, u). increase_seq 2 outage u) snd
         [(None, ''a''), (None, ''b''), (Some (Panicked ''x''), ''a''), (None, ''a'')] redis_empty)))
   = [1, 2]"
  using receive_numbers_consecutive [OF seq_wf_example, where u = "''a''",
      of "[(None, ''a''), (None, ''b''), (Some (Panicked ''x''), ''a''), (None, ''a'')]",
      OF surjective_pairing]
  by (simp add: script_eval upto_rec1)

theorem send_numbers_consecutive_witness:
  "map snd (filter (\<lambda>p. fst p = ''b'')
      (fst (issue_all (\<lambda>(outage, u). incr_send_seq 2 outage u) snd
         [(None, ''a''), (None, ''b''), (Some (Panicked ''x''), ''b''), (None, ''b'')] redis_empty)))
   = [1, 2]"
  using send_numbers_consecutive [OF seq_wf_example, where u = "''b''",
      of "[(None, ''a''), (None, ''b''), (Some (Panicked ''x''), ''b''), (None, ''b'')]",
      OF surjective_pairing]
  by (simp add: script_eval upto_rec1)

theorem receive_number_reserved_witness:
  "\<exists>t. increase_seq 2 None ''a'' redis_empty = (Inr (1, 2, False), t)
     \<and> lim_of 2 (seq_key ''a'') t = 2"
proof -
  obtain t where t: "increase_seq 2 None ''a'' redis_empty = (Inr (1, 2, False), t)"
    by (simp add: script_eval)
  with receive_number_reserved [OF seq_wf_example t] show ?thesis by auto
qed

theorem increase_seq_no_wrap_witness:
  "\<exists>e. increase_seq 2 None ''a'' (hset (seq_key ''a'') CUR_SEQ_KEY (2 ^ 63 - 1) redis_empty)
     = (Inl (Failed e), hset (seq_key ''a'') CUR_SEQ_KEY (2 ^ 63 - 1) redis_empty) \<and> kind e = RedisError"
  by (rule increase_seq_no_wrap) (simp add: cur_of_def)

end
