(* ===== verification/Seq_Repo.thy ===== *)
theory Seq_Repo
  imports Sequences
begin

text \<open>
  The durable side of the sequence numbers: the table \<open>sequence\<close> and its repository
  (\<open>db/src/postgres/seq.rs\<close>), the audit table of messages (\<open>db/src/postgres/message.rs\<close>), and
  the start-up job \<open>load_seq\<close> (\<open>cmd/src/load_seq.rs\<close>) that copies the persisted maxima into
  an empty cache. A table is the list of its rows; the SQL statements act on it as
  documented, \<open>bigint\<close> overflow included. A failing statement is the parameter \<open>outage\<close>.
\<close>

section \<open>The table sequence\<close>

record SeqRow =
  sq_user_id :: string
  send_max_seq :: int
  rec_max_seq :: int

definition db_error :: "string \<Rightarrow> failure" where
  "db_error d = Failed (error_new DbError d d)"

definition row_not_found :: failure where
  "row_not_found = db_error ''no rows returned by a query that expected to return at least one row''"

definition bigint_out_of_range :: failure where
  "bigint_out_of_range = db_error ''bigint out of range''"

text \<open>\<open>UPDATE sequence SET send_max_seq = send_max_seq + $1 WHERE user_id = $2 RETURNING send_max_seq\<close>
  with \<open>fetch_one\<close>.\<close>

definition save_send_max_seq :: "int \<Rightarrow> failure option \<Rightarrow> string \<Rightarrow> (SeqRow list, int) act" where
  "save_send_max_seq step outage u = remote outage (\<lambda>tbl.
     (case find (\<lambda>r. sq_user_id r = u) tbl of
        None \<Rightarrow> (Inl row_not_found, tbl)
      | Some r \<Rightarrow>
          if i64_ok (send_max_seq r + step)
          then (Inr (send_max_seq r + step),
                map (\<lambda>r. if sq_user_id r = u then r\<lparr>send_max_seq := send_max_seq r + step\<rparr> else r) tbl)
          else (Inl bigint_out_of_range, tbl)))"

definition save_max_seq :: "int \<Rightarrow> failure option \<Rightarrow> string \<Rightarrow> (SeqRow list, int) act" where
  "save_max_seq step outage u = remote outage (\<lambda>tbl.
     (case find (\<lambda>r. sq_user_id r = u) tbl of
        None \<Rightarrow> (Inl row_not_found, tbl)
      | Some r \<Rightarrow>
          if i64_ok (rec_max_seq r + step)
          then (Inr (rec_max_seq r + step),
                map (\<lambda>r. if sq_user_id r = u then r\<lparr>rec_max_seq := rec_max_seq r + step\<rparr> else r) tbl)
          else (Inl bigint_out_of_range, tbl)))"

text \<open>One statement for the whole list: a user that occurs twice in it is updated once.\<close>

definition save_max_seq_batch :: "int \<Rightarrow> failure option \<Rightarrow> string list \<Rightarrow> (SeqRow list, unit) act" where
  "save_max_seq_batch step outage us =
     (if us = [] then ok ()
      else remote outage (\<lambda>tbl.
        if list_all (\<lambda>r. sq_user_id r \<in> set us \<longrightarrow> i64_ok (rec_max_seq r + step)) tbl
        then (Inr (), map (\<lambda>r. if sq_user_id r \<in> set us
                               then r\<lparr>rec_max_seq := rec_max_seq r + step\<rparr> else r) tbl)
        else (Inl bigint_out_of_range, tbl)))"

text \<open>\<open>get_max_seq\<close> sends every row into a channel of capacity 1024 before it returns the
  receiving end: \<open>None\<close> is a call that never returns.\<close>

definition get_max_seq :: "failure option \<Rightarrow> SeqRow list \<Rightarrow> (string \<times> int \<times> int) list res option" where
  "get_max_seq outage tbl =
     (case outage of
        Some e \<Rightarrow> Some (Inl e)
      | None \<Rightarrow> map_option Inr (send_unreceived 1024 []
          (map (\<lambda>r. (sq_user_id r, send_max_seq r, rec_max_seq r)) tbl)))"

text \<open>The second statement of \<open>create_user\<close>: both maxima start at the configured step. The
  primary key refuses a second row.\<close>

definition insert_sequence :: "int \<Rightarrow> failure option \<Rightarrow> string \<Rightarrow> (SeqRow list, unit) act" where
  "insert_sequence init_max_seq outage u = remote outage (\<lambda>tbl.
     if u \<in> sq_user_id ` set tbl
     then (Inl (db_error ''duplicate key value violates unique constraint''), tbl)
     else (Inr (), tbl @ [\<lparr>sq_user_id = u, send_max_seq = init_max_seq, rec_max_seq = init_max_seq\<rparr>]))"

declare save_send_max_seq_def [pg_defs] save_max_seq_def [pg_defs] save_max_seq_batch_def [pg_defs]
  get_max_seq_def [pg_defs] insert_sequence_def [pg_defs]

section \<open>The audit table messages\<close>

text \<open>The \<open>INSERT\<close> of \<open>PostgresMessage::save_message\<close>, as the server reads it: the target
  columns, the number of expressions in \<open>VALUES\<close>, the parameters bound.\<close>

datatype sql_value = SText string | SInt int | SBytes string

record sql_insert =
  ins_columns :: "string list"
  ins_placeholders :: "nat list"
  ins_binds :: "sql_value list"

definition message_insert :: "Msg \<Rightarrow> sql_insert" where
  "message_insert m =
     \<lparr>ins_columns = [''client_id'', ''server_id'', ''sender_id'', ''receiver_id'', ''msg_type'',
        ''content_type'', ''content'', ''send_time'', ''platform'', ''group_id''],
      ins_placeholders = [1, 2, 3, 4, 5, 6, 7, 8, 9, 10, 11],
      ins_binds = [SText (client_id m), SText (server_id m), SText (sender_id m),
        SText (receiver_id m), SInt (msg_type m), SInt (content_type m), SBytes (content m),
        SInt (send_time m), SInt (platform m), SText (group_id m)]\<rparr>"

text \<open>A statement is refused when \<open>VALUES\<close> has more expressions than target columns (or fewer),
  and when a placeholder has no bound parameter.\<close>

definition insert_accepted :: "sql_insert \<Rightarrow> bool" where
  "insert_accepted i \<longleftrightarrow>
     length (ins_placeholders i) = length (ins_columns i)
     \<and> list_all (\<lambda>n. 1 \<le> n \<and> n \<le> length (ins_binds i)) (ins_placeholders i)"

type_synonym sql_row = "(string \<times> sql_value) list"

text \<open>\<open>ON CONFLICT DO NOTHING\<close> on the primary key \<open>(sender_id, server_id, send_time)\<close>.\<close>

definition message_key :: "sql_row \<Rightarrow> sql_value option list" where
  "message_key row = map (map_of row) [''sender_id'', ''server_id'', ''send_time'']"

definition save_message_pg :: "failure option \<Rightarrow> Msg \<Rightarrow> (sql_row list, unit) act" where
  "save_message_pg outage m = remote outage (\<lambda>tbl.
     (let i = message_insert m in
      if \<not> insert_accepted i
      then (Inl (db_error ''INSERT has more expressions than target columns''), tbl)
      else let row = zip (ins_columns i) (map (\<lambda>n. ins_binds i ! (n - 1)) (ins_placeholders i)) in
        if message_key row \<in> message_key ` set tbl then (Inr (), tbl) else (Inr (), tbl @ [row])))"

section \<open>Loading the cache\<close>

text \<open>Which remote calls of \<open>load_seq\<close> fail: the check of the flag, its \<open>GET\<close>, the connection to
  PostgreSQL, the query, the n-th batch, and setting the flag.\<close>

record load_env =
  le_check :: "failure option"
  le_got :: bool
  le_connect :: "failure option"
  le_query :: "failure option"
  le_batch :: "nat \<Rightarrow> failure option"
  le_loaded :: "failure option"

definition all_up :: load_env where
  "all_up = \<lparr>le_check = None, le_got = True, le_connect = None, le_query = None,
     le_batch = (\<lambda>_. None), le_loaded = None\<rparr>"

definition batch_size :: nat where "batch_size = 50"

text \<open>The receive loop: a full batch is written and cleared, the rest is written at the end; a
  failing batch is only logged.\<close>

fun load_loop ::
  "(nat \<Rightarrow> failure option) \<Rightarrow> nat \<Rightarrow> (string \<times> int \<times> int) list \<Rightarrow> (string \<times> int \<times> int) list
    \<Rightarrow> redis \<Rightarrow> redis" where
  "load_loop out n [] pending r =
     (if pending \<noteq> [] then snd (set_seq (out n) pending r) else r)"
| "load_loop out n (x # xs) pending r =
     (let pending' = pending @ [x] in
      if length pending' = batch_size
      then load_loop out (Suc n) xs [] (snd (set_seq (out n) pending' r))
      else load_loop out n xs pending' r)"

definition unwrapped :: failure where
  "unwrapped = Panicked ''called Result::unwrap() on an Err value''"

definition load_seq :: "load_env \<Rightarrow> SeqRow list \<Rightarrow> redis \<Rightarrow> (unit res \<times> redis) option" where
  "load_seq env tbl r =
     (case check_seq_loaded (le_check env) (le_got env) r of
        (Inl _, r1) \<Rightarrow> Some (Inl unwrapped, r1)
      | (Inr flag, r1) \<Rightarrow>
          if \<not> flag then Some (Inr (), r1)
          else if le_connect env \<noteq> None then Some (Inl unwrapped, r1)
          else (case get_max_seq (le_query env) tbl of
                  None \<Rightarrow> None
                | Some (Inl _) \<Rightarrow> Some (Inl unwrapped, r1)
                | Some (Inr items) \<Rightarrow>
                    (case set_seq_loaded (le_loaded env) (load_loop (le_batch env) 0 items [] r1) of
                       (Inl _, r2) \<Rightarrow> Some (Inl unwrapped, r2)
                     | (Inr _, r2) \<Rightarrow> Some (Inr (), r2))))"

section \<open>Facts\<close>

definition rec_max_of :: "SeqRow list \<Rightarrow> string \<Rightarrow> int option" where
  "rec_max_of tbl u = map_option rec_max_seq (find (\<lambda>r. sq_user_id r = u) tbl)"

definition send_max_of :: "SeqRow list \<Rightarrow> string \<Rightarrow> int option" where
  "send_max_of tbl u = map_option send_max_seq (find (\<lambda>r. sq_user_id r = u) tbl)"

definition seq_table_ok :: "SeqRow list \<Rightarrow> bool" where
  "seq_table_ok tbl \<longleftrightarrow> distinct (map sq_user_id tbl)"

lemma find_map_key:
  "(\<And>r. sq_user_id (f r) = sq_user_id r) \<Longrightarrow>
   find (\<lambda>r. sq_user_id r = u) (map f tbl) = map_option f (find (\<lambda>r. sq_user_id r = u) tbl)"
  by (induction tbl) auto

lemma find_user_Some: "find (\<lambda>r. sq_user_id r = u) tbl = Some r \<Longrightarrow> sq_user_id r = u"
  by (auto simp: find_Some_iff)

lemma find_user_None: "find (\<lambda>r. sq_user_id r = u) tbl = None \<longleftrightarrow> u \<notin> sq_user_id ` set tbl"
  by (auto simp: find_None_iff)

lemma rec_max_of_bump:
  "rec_max_of (map (\<lambda>r. if P (sq_user_id r) then r\<lparr>rec_max_seq := rec_max_seq r + d\<rparr> else r) tbl) u =
     map_option (\<lambda>m. if P u then m + d else m) (rec_max_of tbl u)"
  by (auto simp: rec_max_of_def find_map_key option.map_comp o_def dest: find_user_Some
      intro!: option.map_cong0)

lemma send_max_of_bump:
  "send_max_of (map (\<lambda>r. if P (sq_user_id r) then r\<lparr>rec_max_seq := rec_max_seq r + d\<rparr> else r) tbl) u =
     send_max_of tbl u"
  by (simp add: send_max_of_def find_map_key option.map_comp o_def if_distrib cong: if_cong)

lemma save_max_seq_cases:
  "save_max_seq step outage u tbl =
     (case outage of Some e \<Rightarrow> (Inl e, tbl) | None \<Rightarrow>
       (case rec_max_of tbl u of
          None \<Rightarrow> (Inl row_not_found, tbl)
        | Some m \<Rightarrow> if i64_ok (m + step)
            then (Inr (m + step), map (\<lambda>r. if sq_user_id r = u
                    then r\<lparr>rec_max_seq := rec_max_seq r + step\<rparr> else r) tbl)
            else (Inl bigint_out_of_range, tbl)))"
  by (simp add: save_max_seq_def rec_max_of_def split: option.split)

lemma load_loop_all_up:
  "length pending < batch_size \<Longrightarrow>
   load_loop (\<lambda>_. None) n xs pending r = fold set_seq_one (pending @ xs) r"
  by (induction xs arbitrary: n pending r) (auto simp: set_seq_def Let_def batch_size_def)

lemma set_seq_one_other:
  "u \<noteq> fst x \<Longrightarrow> hget (seq_key u) f (set_seq_one x r) = hget (seq_key u) f r"
  "u \<noteq> fst x \<Longrightarrow> hget (send_seq_key u) f (set_seq_one x r) = hget (send_seq_key u) f r"
  by (auto simp: set_seq_one_def split: prod.split)

lemma set_seq_one_same:
  "hget (seq_key u) CUR_SEQ_KEY (set_seq_one (u, s, m) r) = Some m"
  "hget (seq_key u) MAX_SEQ_KEY (set_seq_one (u, s, m) r) = Some m"
  "hget (send_seq_key u) CUR_SEQ_KEY (set_seq_one (u, s, m) r) = Some s"
  "hget (send_seq_key u) MAX_SEQ_KEY (set_seq_one (u, s, m) r) = Some s"
  by (simp_all add: set_seq_one_def)

lemma fold_set_seq_other:
  "u \<notin> fst ` set xs \<Longrightarrow> hget (seq_key u) f (fold set_seq_one xs r) = hget (seq_key u) f r"
  "u \<notin> fst ` set xs \<Longrightarrow> hget (send_seq_key u) f (fold set_seq_one xs r) = hget (send_seq_key u) f r"
  by (induction xs arbitrary: r) (auto simp: set_seq_one_other)

lemma fold_set_seq:
  assumes "distinct (map fst xs)" and "(u, s, m) \<in> set xs"
  shows "hget (seq_key u) CUR_SEQ_KEY (fold set_seq_one xs r) = Some m
    \<and> hget (seq_key u) MAX_SEQ_KEY (fold set_seq_one xs r) = Some m
    \<and> hget (send_seq_key u) CUR_SEQ_KEY (fold set_seq_one xs r) = Some s
    \<and> hget (send_seq_key u) MAX_SEQ_KEY (fold set_seq_one xs r) = Some s"
  using assms
proof (induction xs arbitrary: r)
  case Nil
  then show ?case by simp
next
  case (Cons x xs)
  show ?case
  proof (cases "x = (u, s, m)")
    case True
    with Cons.prems(1) have "u \<notin> fst ` set xs" by simp
    with True show ?thesis by (simp add: fold_set_seq_other set_seq_one_same)
  next
    case False
    with Cons show ?thesis by simp
  qed
qed

lemma fold_set_seq_str [simp]: "r_str (fold set_seq_one xs r) = r_str r"
  by (induction xs arbitrary: r) (auto simp: set_seq_one_def hset_def split: prod.split)

lemma load_seq_all_up:
  assumes "r_str r IS_LOADED \<noteq> Some SEQ_NO_NEED_LOAD"
  shows "load_seq all_up tbl r =
    (if length tbl \<le> 1024
     then Some (set_seq_loaded None (fold set_seq_one
            (map (\<lambda>r. (sq_user_id r, send_max_seq r, rec_max_seq r)) tbl) r))
     else None)"
  using assms
  by (simp add: load_seq_def all_up_def check_seq_loaded_def get_max_seq_def set_seq_loaded_def
      send_unreceived_Nil load_loop_all_up batch_size_def)

lemma load_seq_loaded:
  assumes "r_str r IS_LOADED = Some SEQ_NO_NEED_LOAD" and "le_check env = None" and "le_got env"
  shows "load_seq env tbl r = Some (Inr (), r)"
  using assms by (simp add: load_seq_def check_seq_loaded_def)

section \<open>Properties\<close>

text \<open>
  With at most 1024 users, \<open>load_seq\<close> on a cache that is not marked as loaded returns, and
  then every user's current and maximal numbers in the cache, receiving and sending, are the
  persisted maxima; the cache is marked, so a second run changes nothing.
\<close>

theorem load_seq_restores:
  assumes "seq_table_ok tbl" and "length tbl \<le> 1024"
    and "r_str r IS_LOADED \<noteq> Some SEQ_NO_NEED_LOAD"
  shows "\<exists>t. load_seq all_up tbl r = Some (Inr (), t)
    \<and> list_all (\<lambda>row. get_cur_seq None (sq_user_id row) t = (Inr (rec_max_seq row, send_max_seq row), t)
        \<and> lim_of step (seq_key (sq_user_id row)) t = rec_max_seq row
        \<and> lim_of step (send_seq_key (sq_user_id row)) t = send_max_seq row) tbl
    \<and> load_seq all_up tbl t = Some (Inr (), t)"
proof -
  define items where "items = map (\<lambda>r. (sq_user_id r, send_max_seq r, rec_max_seq r)) tbl"
  define t where "t = snd (set_seq_loaded None (fold set_seq_one items r))"
  have d: "distinct (map fst items)"
    using assms(1) by (simp add: items_def seq_table_ok_def o_def)
  have h: "hget k f t = hget k f (fold set_seq_one items r)" for k f
    by (simp add: t_def set_seq_loaded_def hget_def)
  have "get_cur_seq None (sq_user_id row) t = (Inr (rec_max_seq row, send_max_seq row), t)
      \<and> lim_of step (seq_key (sq_user_id row)) t = rec_max_seq row
      \<and> lim_of step (send_seq_key (sq_user_id row)) t = send_max_seq row"
    if "row \<in> set tbl" for row
  proof -
    have "(sq_user_id row, send_max_seq row, rec_max_seq row) \<in> set items"
      using that by (auto simp: items_def)
    from fold_set_seq [OF d this, of r] show ?thesis
      by (simp add: get_cur_seq_def lim_of_def h)
  qed
  moreover have "load_seq all_up tbl r = Some (Inr (), t)"
    using assms by (simp add: load_seq_all_up items_def [symmetric] t_def set_seq_loaded_def)
  moreover have "load_seq all_up tbl t = Some (Inr (), t)"
    by (rule load_seq_loaded) (simp_all add: t_def set_seq_loaded_def all_up_def)
  ultimately show ?thesis by (auto simp: list_all_iff)
qed

text \<open>
  With more than 1024 users \<open>load_seq\<close> never returns: \<open>get_max_seq\<close> fills its channel
  before anybody can receive from it.
\<close>

theorem load_seq_hangs:
  assumes "1024 < length tbl" and "r_str r IS_LOADED \<noteq> Some SEQ_NO_NEED_LOAD"
  shows "load_seq all_up tbl r = None"
  using assms by (simp add: load_seq_all_up)

lemma load_loop_down:
  "(\<And>k. out k \<noteq> None) \<Longrightarrow> load_loop out n xs pending r = r"
proof (induction xs arbitrary: n pending)
  case Nil
  then obtain e where "out n = Some e" by (metis option.exhaust)
  then show ?case by (simp add: set_seq_def)
next
  case (Cons x xs)
  obtain e where "out n = Some e" using Cons.prems [of n] by auto
  then show ?case using Cons by (simp add: set_seq_def Let_def)
qed

text \<open>
  A batch that cannot be written is only logged: even when every batch fails, \<open>load_seq\<close>
  marks the cache as loaded, with no user's numbers in it.
\<close>

theorem load_seq_ignores_failed_batches:
  assumes "length tbl \<le> 1024" and "r_str r IS_LOADED \<noteq> Some SEQ_NO_NEED_LOAD"
  shows "load_seq (all_up\<lparr>le_batch := \<lambda>_. Some e\<rparr>) tbl r =
    Some (Inr (), r\<lparr>r_str := (r_str r)(IS_LOADED \<mapsto> SEQ_NO_NEED_LOAD)\<rparr>)"
  using assms
  by (simp add: load_seq_def all_up_def check_seq_loaded_def get_max_seq_def set_seq_loaded_def
      send_unreceived_Nil load_loop_down)

text \<open>
  \<open>PostgresMessage::save_message\<close> never stores a message: its statement has ten columns and
  eleven placeholders, so the server refuses it for every message.
\<close>

theorem save_message_pg_always_fails:
  "\<exists>e. save_message_pg outage m tbl = (Inl e, tbl)"
  by (cases outage)
     (simp_all add: save_message_pg_def insert_accepted_def message_insert_def Let_def)

definition seq_example :: "SeqRow list" where
  "seq_example = [\<lparr>sq_user_id = ''a'', send_max_seq = 5, rec_max_seq = 10\<rparr>,
                  \<lparr>sq_user_id = ''b'', send_max_seq = 5, rec_max_seq = 15\<rparr>]"

theorem load_seq_restores_witness:
  "\<exists>t. load_seq all_up seq_example redis_empty = Some (Inr (), t)
     \<and> get_cur_seq None ''b'' t = (Inr (15, 5), t)"
  using load_seq_restores [of seq_example redis_empty 5]
  by (auto simp: seq_example_def seq_table_ok_def redis_empty_def)

theorem load_seq_hangs_witness:
  "load_seq all_up (map (\<lambda>i. \<lparr>sq_user_id = replicate i CHR ''a'', send_max_seq = 5, rec_max_seq = 5\<rparr>)
     [0..<1025]) redis_empty = None"
  by (rule load_seq_hangs) (simp_all add: redis_empty_def)

theorem load_seq_ignores_failed_batches_witness:
  "load_seq (all_up\<lparr>le_batch := \<lambda>_. Some (Failed (with_kind RedisError))\<rparr>) seq_example redis_empty =
    Some (Inr (), redis_empty\<lparr>r_str := (r_str redis_empty)(IS_LOADED \<mapsto> SEQ_NO_NEED_LOAD)\<rparr>)"
  by (rule load_seq_ignores_failed_batches) (simp_all add: seq_example_def redis_empty_def)

end
