(* ===== verification/Msg_Box.thy ===== *)
theory Msg_Box
  imports Seq_Repo "HOL-Library.Multiset" "HOL-Library.Option_ord" "HOL-Library.Product_Lexorder"
begin

text \<open>
  The receive box (\<open>db/src/message.rs\<close>) and its unsharded implementation \<open>MsgBox\<close>
  (\<open>db/src/mongodb/message.rs\<close>). A collection is the list of its documents in insertion
  order; the filters, updates and pipelines the code sends are evaluated as MongoDB documents
  them. The contract both implementations share (saving a message, fanning a group message
  out to its members) is the locale \<open>msg_rec_box\<close>.

  \<open>cap\<close> is the largest number of messages the allocator can reserve room for:
  \<open>Vec::with_capacity\<close> panics above it. A negative \<open>i64\<close> cast to \<open>usize\<close> is above it.
\<close>

section \<open>Filters, updates, sorting\<close>

type_synonym collection = "Document list"

text \<open>Numeric fields compare across integer types.\<close>

definition num_at :: "Document \<Rightarrow> string \<Rightarrow> int option" where
  "num_at d k = (case map_of d k of Some (BInt64 i) \<Rightarrow> Some i | Some (BInt32 i) \<Rightarrow> Some i | _ \<Rightarrow> None)"

definition str_is :: "string \<Rightarrow> string \<Rightarrow> Document \<Rightarrow> bool" where
  "str_is k v d \<longleftrightarrow> map_of d k = Some (BString v)"

definition gte_lte :: "string \<Rightarrow> int \<Rightarrow> int \<Rightarrow> Document \<Rightarrow> bool" where
  "gte_lte k a b d = (case num_at d k of Some n \<Rightarrow> a \<le> n \<and> n \<le> b | None \<Rightarrow> False)"

definition gt_lte :: "string \<Rightarrow> int \<Rightarrow> int \<Rightarrow> Document \<Rightarrow> bool" where
  "gt_lte k a b d = (case num_at d k of Some n \<Rightarrow> a < n \<and> n \<le> b | None \<Rightarrow> False)"

definition lt_num :: "string \<Rightarrow> int \<Rightarrow> Document \<Rightarrow> bool" where
  "lt_num k a d = (case num_at d k of Some n \<Rightarrow> n < a | None \<Rightarrow> False)"

definition num_in :: "string \<Rightarrow> int list \<Rightarrow> Document \<Rightarrow> bool" where
  "num_in k xs d = (case num_at d k of Some n \<Rightarrow> n \<in> set xs | None \<Rightarrow> False)"

fun set_field :: "string \<Rightarrow> Bson \<Rightarrow> Document \<Rightarrow> Document" where
  "set_field k v [] = [(k, v)]"
| "set_field k v ((k', v') # d) = (if k' = k then (k, v) # d else (k', v') # set_field k v d)"

fun delete_first :: "('a \<Rightarrow> bool) \<Rightarrow> 'a list \<Rightarrow> 'a list" where
  "delete_first P [] = []"
| "delete_first P (x # xs) = (if P x then xs else x # delete_first P xs)"

lemmas filter_eval_defs = str_is_def gte_lte_def gt_lte_def lt_num_def num_in_def num_at_def

definition wrap64 :: "int \<Rightarrow> int" where
  "wrap64 n = (n + 2 ^ 63) mod 2 ^ 64 - 2 ^ 63"

text \<open>\<open>Vec::with_capacity(n as usize)\<close> for an \<open>i64\<close> computed with wrapping arithmetic.\<close>

definition with_capacity :: "int \<Rightarrow> int \<Rightarrow> unit res" where
  "with_capacity cap n =
     (if 0 \<le> wrap64 n \<and> wrap64 n \<le> cap then Inr () else Inl (Panicked ''capacity overflow''))"

section \<open>The unsharded box\<close>

definition box_save_message :: "failure option \<Rightarrow> Msg \<Rightarrow> (collection, unit) act" where
  "box_save_message outage m = remote outage (\<lambda>mb. (Inr (), mb @ [to_doc m]))"

text \<open>The loop of \<open>save_group_msg\<close>: one message value, its number and receiver overwritten for
  each member.\<close>

fun member_docs :: "Msg \<Rightarrow> GroupMemSeq list \<Rightarrow> Document list" where
  "member_docs m [] = []"
| "member_docs m (g # gs) =
     (let m' = m\<lparr>seq := cur_seq g, receiver_id := mem_id g\<rparr> in to_doc m' # member_docs m' gs)"

definition box_save_group_msg ::
  "failure option \<Rightarrow> Msg \<Rightarrow> GroupMemSeq list \<Rightarrow> (collection, unit) act" where
  "box_save_group_msg outage m gs =
     remote outage (\<lambda>mb. (Inr (), mb @ to_doc m # member_docs (m\<lparr>send_seq := 0\<rparr>) gs))"

definition box_delete_message :: "failure option \<Rightarrow> string \<Rightarrow> (collection, unit) act" where
  "box_delete_message outage mid =
     remote outage (\<lambda>mb. (Inr (), delete_first (str_is ''server_id'' mid) mb))"

definition box_delete_messages :: "failure option \<Rightarrow> string \<Rightarrow> int list \<Rightarrow> (collection, unit) act" where
  "box_delete_messages outage u seqs = remote outage (\<lambda>mb. (Inr (),
     filter (\<lambda>d. \<not> (str_is ''receiver_id'' u d \<and> num_in ''seq'' seqs d)) mb))"

definition box_get_message :: "failure option \<Rightarrow> string \<Rightarrow> (collection, Msg option) act" where
  "box_get_message outage mid =
     remote outage (\<lambda>mb. (Inr (map_option msg_of_doc (find (str_is ''server_id'' mid) mb)), mb))"

text \<open>The common query of \<open>get_messages\<close> and \<open>get_messages_stream\<close>: filter, then sort by number.\<close>

definition find_range :: "string \<Rightarrow> int \<Rightarrow> int \<Rightarrow> collection \<Rightarrow> Document list" where
  "find_range u start end mb =
     sort_key (\<lambda>d. num_at d ''seq'')
       (filter (\<lambda>d. str_is ''receiver_id'' u d \<and> gte_lte ''seq'' start end d) mb)"

text \<open>Every result is sent into a channel of capacity 100 before its receiving end is returned.\<close>

definition box_get_messages_stream ::
  "failure option \<Rightarrow> string \<Rightarrow> int \<Rightarrow> int \<Rightarrow> collection \<Rightarrow> Msg list res option" where
  "box_get_messages_stream outage u start end mb =
     (case outage of
        Some e \<Rightarrow> Some (Inl e)
      | None \<Rightarrow> map_option Inr
          (send_unreceived 100 [] (map msg_of_doc (find_range u start end mb))))"

definition box_get_messages ::
  "int \<Rightarrow> failure option \<Rightarrow> string \<Rightarrow> int \<Rightarrow> int \<Rightarrow> (collection, Msg list) act" where
  "box_get_messages cap outage u start end =
     remote outage (\<lambda>mb.
       (case with_capacity cap (end - start) of
          Inl e \<Rightarrow> (Inl e, mb)
        | Inr _ \<Rightarrow> (Inr (map msg_of_doc (find_range u start end mb)), mb)))"

text \<open>The aggregation of \<open>get_msgs\<close>: \<open>$match\<close>, \<open>$addFields\<close>, \<open>$sort\<close>.\<close>

definition match_msgs :: "string \<Rightarrow> int \<Rightarrow> int \<Rightarrow> int \<Rightarrow> int \<Rightarrow> Document \<Rightarrow> bool" where
  "match_msgs u send_start send_end rec_start rec_end d \<longleftrightarrow>
     (str_is ''receiver_id'' u d \<and> gt_lte ''seq'' rec_start rec_end d)
     \<or> (str_is ''sender_id'' u d \<and> gt_lte ''send_seq'' send_start send_end d)"

definition sort_field :: "string \<Rightarrow> Document \<Rightarrow> int option" where
  "sort_field u d = (if str_is ''sender_id'' u d then num_at d ''send_seq'' else num_at d ''seq'')"

definition sort_msgs :: "string \<Rightarrow> Document list \<Rightarrow> Document list" where
  "sort_msgs u = sort_key (\<lambda>d. (num_at d ''send_time'', sort_field u d))"

text \<open>The post-processing of each result: a message the user sent itself gets number 0.\<close>

definition own_seq_zero :: "string \<Rightarrow> Msg \<Rightarrow> Msg" where
  "own_seq_zero u m = (if u = sender_id m then m\<lparr>seq := 0\<rparr> else m)"

definition box_get_msgs ::
  "int \<Rightarrow> failure option \<Rightarrow> string \<Rightarrow> int \<Rightarrow> int \<Rightarrow> int \<Rightarrow> int \<Rightarrow> (collection, Msg list) act" where
  "box_get_msgs cap outage u send_start send_end rec_start rec_end =
     remote outage (\<lambda>mb.
       (case with_capacity cap (send_end - send_start + (rec_end - rec_start)) of
          Inl e \<Rightarrow> (Inl e, mb)
        | Inr _ \<Rightarrow> (Inr (map (\<lambda>d. own_seq_zero u (msg_of_doc d))
            (sort_msgs u (filter (match_msgs u send_start send_end rec_start rec_end) mb))), mb)))"

definition box_msg_read :: "failure option \<Rightarrow> string \<Rightarrow> int list \<Rightarrow> (collection, unit) act" where
  "box_msg_read outage u seqs =
     (if seqs = [] then ok ()
      else remote outage (\<lambda>mb. (Inr (),
        map (\<lambda>d. if str_is ''receiver_id'' u d \<and> num_in ''seq'' seqs d
                 then set_field ''is_read'' (BBool True) d else d) mb)))"

text \<open>One tick of \<open>clean_receive_box\<close>: \<open>now\<close> is in seconds, a failing deletion is logged.\<close>

definition box_clean_tick :: "failure option \<Rightarrow> int \<Rightarrow> int \<Rightarrow> int list \<Rightarrow> collection \<Rightarrow> collection" where
  "box_clean_tick outage now period types mb =
     (let cutoff_time = now - period * 86400 in
      snd (remote outage (\<lambda>mb. (Inr (), filter (\<lambda>d. \<not> (lt_num ''send_time'' cutoff_time d
             \<and> \<not> num_in ''msg_type'' types d)) mb)) mb))"

declare box_save_message_def [box_defs] box_save_group_msg_def [box_defs]
  box_delete_message_def [box_defs] box_delete_messages_def [box_defs] box_get_message_def [box_defs]
  box_get_messages_def [box_defs] box_get_msgs_def [box_defs] box_msg_read_def [box_defs]

section \<open>Documents of messages\<close>

lemma filter_eval_to_doc [simp]:
  "num_at (to_doc m) ''seq'' = Some (seq m)"
  "num_at (to_doc m) ''send_seq'' = Some (send_seq m)"
  "num_at (to_doc m) ''send_time'' = Some (send_time m)"
  "num_at (to_doc m) ''msg_type'' = Some (msg_type m)"
  "str_is ''receiver_id'' u (to_doc m) \<longleftrightarrow> receiver_id m = u"
  "str_is ''sender_id'' u (to_doc m) \<longleftrightarrow> sender_id m = u"
  "str_is ''server_id'' u (to_doc m) \<longleftrightarrow> server_id m = u"
  by (simp_all add: num_at_def str_is_def)

lemma set_is_read_to_doc [simp]:
  "set_field ''is_read'' (BBool b) (to_doc m) = to_doc (m\<lparr>is_read := b\<rparr>)"
  by (simp add: to_doc_def)

definition member_copy :: "Msg \<Rightarrow> GroupMemSeq \<Rightarrow> Msg" where
  "member_copy m g = m\<lparr>seq := cur_seq g, receiver_id := mem_id g, send_seq := 0\<rparr>"

lemma member_docs_eq:
  "send_seq m = 0 \<Longrightarrow> member_docs m gs = map (\<lambda>g. to_doc (member_copy m g)) gs"
  by (induction gs arbitrary: m) (auto simp: member_copy_def Let_def to_doc_def)

lemma member_docs_reset:
  "member_docs (m\<lparr>send_seq := 0\<rparr>) gs = map (\<lambda>g. to_doc (member_copy m g)) gs"
  by (simp add: member_docs_eq member_copy_def)

text \<open>A box that holds only documents of messages, with the messages it holds.\<close>

definition msgs_of :: "collection \<Rightarrow> Msg list" where
  "msgs_of mb = map msg_of_doc mb"

definition box_ok :: "collection \<Rightarrow> bool" where
  "box_ok mb \<longleftrightarrow> list_all (\<lambda>d. d = to_doc (msg_of_doc d)) mb"

lemma to_doc_stored_view [simp]: "to_doc (stored_view m) = to_doc m"
  by (simp add: to_doc_eq_iff stored_view_def)

lemma stored_view_idem [simp]: "stored_view (stored_view m) = stored_view m"
  by (simp add: stored_view_def)

lemma box_ok_append [simp]: "box_ok (xs @ ys) \<longleftrightarrow> box_ok xs \<and> box_ok ys"
  by (simp add: box_ok_def)

lemma box_ok_docs [simp]: "box_ok (map (\<lambda>x. to_doc (f x)) xs)" "box_ok [to_doc m]"
    "box_ok (to_doc m # mb) = box_ok mb" "box_ok []"
  by (simp_all add: box_ok_def list_all_iff)

lemma box_ok_msgs: "box_ok mb \<Longrightarrow> mb = map to_doc (msgs_of mb)"
  by (induction mb) (auto simp: box_ok_def msgs_of_def)

lemma msgs_of_simps [simp]:
  "msgs_of (xs @ ys) = msgs_of xs @ msgs_of ys"
  "msgs_of (map to_doc ms) = map stored_view ms"
  "msgs_of (map (\<lambda>g. to_doc (f g)) gs) = map (\<lambda>g. stored_view (f g)) gs"
  "msgs_of [] = []"
  "msgs_of (to_doc m # mb) = stored_view m # msgs_of mb"
  by (simp_all add: msgs_of_def)

section \<open>The contract of a receive box\<close>

text \<open>What both implementations promise of a successful call: saving adds the message, and saving
  a group message adds one copy per member, with the member's own number, and one copy for
  the sender that keeps the send number.\<close>

definition fanned_out :: "Msg \<Rightarrow> GroupMemSeq list \<Rightarrow> Msg multiset" where
  "fanned_out m gs = image_mset (\<lambda>g. stored_view (member_copy m g)) (mset gs)"

definition inbox_of :: "string \<Rightarrow> Msg multiset \<Rightarrow> Msg multiset" where
  "inbox_of u M = filter_mset (\<lambda>x. receiver_id x = u) M"

lemma inbox_of_simps [simp]:
  "inbox_of u (A + B) = inbox_of u A + inbox_of u B"
  "inbox_of u {#} = {#}"
  "inbox_of u (add_mset x M) = (if receiver_id x = u then add_mset x (inbox_of u M) else inbox_of u M)"
  by (simp_all add: inbox_of_def)

lemma receiver_member_copy [simp]: "receiver_id (member_copy m g) = mem_id g"
  by (simp add: member_copy_def)

lemma inbox_of_fanned_out_other: "u \<notin> mem_id ` set gs \<Longrightarrow> inbox_of u (fanned_out m gs) = {#}"
  by (induction gs) (auto simp: fanned_out_def)

lemma inbox_of_fanned_out:
  "distinct (map mem_id gs) \<Longrightarrow> g \<in> set gs \<Longrightarrow>
   inbox_of (mem_id g) (fanned_out m gs) = {#stored_view (member_copy m g)#}"
proof (induction gs)
  case Nil
  then show ?case by simp
next
  case (Cons h gs)
  show ?case
  proof (cases "g = h")
    case True
    with Cons.prems have "inbox_of (mem_id g) (fanned_out m gs) = {#}"
      by (auto intro: inbox_of_fanned_out_other)
    with True show ?thesis by (simp add: fanned_out_def)
  next
    case False
    with Cons.prems have "mem_id h \<noteq> mem_id g" by auto
    with False Cons show ?thesis by (simp add: fanned_out_def)
  qed
qed

locale msg_rec_box =
  fixes save :: "Msg \<Rightarrow> ('s, unit) act"
    and save_group :: "Msg \<Rightarrow> GroupMemSeq list \<Rightarrow> ('s, unit) act"
    and inbox :: "'s \<Rightarrow> Msg multiset"
    and inv :: "'s \<Rightarrow> bool"
  assumes save_ok: "inv s \<Longrightarrow> save m s = (Inr (), t) \<Longrightarrow>
      inv t \<and> inbox t = add_mset (stored_view m) (inbox s)"
    and save_group_ok: "inv s \<Longrightarrow> save_group m gs s = (Inr (), t) \<Longrightarrow>
      inv t \<and> (\<exists>c. sender_id c = sender_id m \<and> send_seq c = send_seq m
        \<and> (receiver_id c = receiver_id m \<or> receiver_id c = sender_id m)
        \<and> inbox t = inbox s + {#c#} + fanned_out m gs)"
begin

lemma save_reaches_receiver:
  assumes "inv s" and "save m s = (Inr (), t)"
  shows "inbox_of u (inbox t) =
    inbox_of u (inbox s) + (if u = receiver_id m then {#stored_view m#} else {#})"
  using save_ok [OF assms] by auto

text \<open>Every member gets exactly one copy, nobody outside the group gets any.\<close>

lemma group_reaches_member:
  assumes "inv s" and "save_group m gs s = (Inr (), t)"
    and "distinct (map mem_id gs)" and "u \<noteq> sender_id m" and "u \<noteq> receiver_id m"
  shows "inbox_of u (inbox t) = inbox_of u (inbox s) +
    (case find (\<lambda>g. mem_id g = u) gs of
       Some g \<Rightarrow> {#stored_view (member_copy m g)#} | None \<Rightarrow> {#})"
proof -
  obtain c where c: "receiver_id c = receiver_id m \<or> receiver_id c = sender_id m"
      "inbox t = inbox s + {#c#} + fanned_out m gs"
    using save_group_ok [OF assms(1,2)] by blast
  have "inbox_of u (fanned_out m gs) =
    (case find (\<lambda>g. mem_id g = u) gs of
       Some g \<Rightarrow> {#stored_view (member_copy m g)#} | None \<Rightarrow> {#})"
  proof (cases "find (\<lambda>g. mem_id g = u) gs")
    case None
    then have "u \<notin> mem_id ` set gs" by (auto simp: find_None_iff)
    with None show ?thesis by (simp add: inbox_of_fanned_out_other)
  next
    case (Some g)
    then have "g \<in> set gs" "mem_id g = u" by (auto simp: find_Some_iff)
    with Some inbox_of_fanned_out [OF assms(3)] show ?thesis by auto
  qed
  then show ?thesis using c assms(4,5) by auto
qed

end

interpretation mbox: msg_rec_box "box_save_message outage" "box_save_group_msg outage"
  "\<lambda>mb. mset (msgs_of mb)" box_ok for outage
proof (unfold_locales, goal_cases)
  case (1 s m t)
  then show ?case by (cases outage) (auto simp: box_save_message_def)
next
  case (2 s m gs t)
  then have "t = s @ to_doc m # map (\<lambda>g. to_doc (member_copy m g)) gs"
    by (cases outage) (auto simp: box_save_group_msg_def member_docs_reset)
  then show ?case using 2
    by (auto simp: fanned_out_def intro!: exI [of _ "stored_view m"])
qed

section \<open>Queries\<close>

definition wanted :: "string \<Rightarrow> int \<Rightarrow> int \<Rightarrow> int \<Rightarrow> int \<Rightarrow> Msg \<Rightarrow> bool" where
  "wanted u send_start send_end rec_start rec_end m \<longleftrightarrow>
     (receiver_id m = u \<and> rec_start < seq m \<and> seq m \<le> rec_end)
     \<or> (sender_id m = u \<and> send_start < send_seq m \<and> send_seq m \<le> send_end)"

lemma match_msgs_to_doc [simp]: "match_msgs u a b c d (to_doc m) \<longleftrightarrow> wanted u a b c d m"
  by (auto simp: match_msgs_def wanted_def gt_lte_def)

lemma filter_docs: "filter P (map to_doc ms) = map to_doc (filter (\<lambda>m. P (to_doc m)) ms)"
  by (simp add: filter_map o_def)

definition msg_sort_key :: "string \<Rightarrow> Msg \<Rightarrow> int \<times> int" where
  "msg_sort_key u m = (send_time m, if sender_id m = u then send_seq m else seq m)"

lemma sort_key_map_mono:
  assumes "\<And>x y. f (h x) \<le> f (h y) \<longleftrightarrow> g x \<le> g y"
  shows "sort_key f (map h xs) = map h (sort_key g xs)"
proof -
  have ins: "insort_key f (h x) (map h ys) = map h (insort_key g x ys)" for x ys
    by (induction ys) (auto simp: assms)
  show ?thesis by (induction xs) (simp_all add: ins)
qed

lemma sort_msgs_docs:
  "sort_msgs u (map to_doc ms) = map to_doc (sort_key (msg_sort_key u) ms)"
  unfolding sort_msgs_def
  by (rule sort_key_map_mono) (auto simp: msg_sort_key_def sort_field_def)

lemma box_get_msgs_eq:
  assumes "box_ok mb" and "with_capacity cap (send_end - send_start + (rec_end - rec_start)) = Inr ()"
  shows "box_get_msgs cap None u send_start send_end rec_start rec_end mb =
    (Inr (map (own_seq_zero u) (sort_key (msg_sort_key u)
       (filter (wanted u send_start send_end rec_start rec_end) (msgs_of mb)))), mb)"
proof -
  have "stored_view m = m" if "m \<in> set (msgs_of mb)" for m
    using that assms(1) by (auto simp: msgs_of_def box_ok_def list_all_iff) (metis msg_of_to_doc)
  then have "map (\<lambda>d. own_seq_zero u (msg_of_doc d)) (map to_doc (sort_key (msg_sort_key u)
       (filter (wanted u send_start send_end rec_start rec_end) (msgs_of mb))))
    = map (own_seq_zero u) (sort_key (msg_sort_key u)
       (filter (wanted u send_start send_end rec_start rec_end) (msgs_of mb)))"
    by (auto simp: o_def)
  moreover have "filter (match_msgs u send_start send_end rec_start rec_end) mb =
    map to_doc (filter (wanted u send_start send_end rec_start rec_end) (msgs_of mb))"
    by (subst box_ok_msgs [OF assms(1)]) (simp add: filter_docs)
  ultimately show ?thesis using assms(2)
    by (simp add: box_get_msgs_def sort_msgs_docs)
qed

lemma own_seq_zero_send_time [simp]:
  "send_time (own_seq_zero u m) = send_time m" "send_time \<circ> own_seq_zero u = send_time"
  by (auto simp: own_seq_zero_def)

lemma box_msg_read_msgs:
  assumes "box_ok mb" and "seqs \<noteq> []"
  shows "box_msg_read None u seqs mb = (Inr (), map (\<lambda>m. to_doc
    (if receiver_id m = u \<and> seq m \<in> set seqs then m\<lparr>is_read := True\<rparr> else m)) (msgs_of mb))"
  using assms(2)
  by (subst box_ok_msgs [OF assms(1)])
     (auto simp: box_msg_read_def num_in_def split: if_splits)

lemma stored_view_is_read [simp]:
  "stored_view (m\<lparr>is_read := b\<rparr>) = (stored_view m)\<lparr>is_read := b\<rparr>"
  by (simp add: stored_view_def)

lemma msgs_of_stored: "box_ok mb \<Longrightarrow> m \<in> set (msgs_of mb) \<Longrightarrow> stored_view m = m"
  by (auto simp: msgs_of_def box_ok_def list_all_iff) (metis msg_of_to_doc)

section \<open>Properties\<close>

text \<open>
  C36. Pulling offline messages from the unsharded box is exact: \<open>get_msgs\<close> returns each stored
  message the user received with a number in the half-open receive range or sent with a
  number in the half-open send range, once per stored copy and nothing else, ordered by send
  time and, at equal times, by the user's own number (the send number of a message the user sent,
  the receive number of the others), with receive number 0 on the messages the user sent; the box is
  not changed.
\<close>

theorem get_msgs_exact:
  assumes "box_ok mb" and "with_capacity cap (send_end - send_start + (rec_end - rec_start)) = Inr ()"
  shows "\<exists>xs. box_get_msgs cap None u send_start send_end rec_start rec_end mb = (Inr xs, mb)
    \<and> mset xs = image_mset (own_seq_zero u)
        (filter_mset (wanted u send_start send_end rec_start rec_end) (mset (msgs_of mb)))
    \<and> sorted (map (\<lambda>m. (send_time m, if sender_id m = u then send_seq m else seq m)) xs)"
proof -
  define ys where "ys = filter (wanted u send_start send_end rec_start rec_end) (msgs_of mb)"
  have key: "(\<lambda>m. (send_time m, if sender_id m = u then send_seq m else seq m)) \<circ> own_seq_zero u = msg_sort_key u"
    by (auto simp: own_seq_zero_def msg_sort_key_def)
  have "sorted (map (msg_sort_key u) (sort_key (msg_sort_key u) ys))" by simp
  then have "sorted (map (\<lambda>m. (send_time m, if sender_id m = u then send_seq m else seq m))
      (map (own_seq_zero u) (sort_key (msg_sort_key u) ys)))"
    by (simp only: map_map key)
  then show ?thesis
    using box_get_msgs_eq [OF assms] by (simp add: ys_def mset_filter)
qed

text \<open>
  A reversed range is not an error of the unsharded box but a panic: \<open>get_messages\<close> on a
  range whose end is below its start never answers.
\<close>

theorem get_messages_reversed_panics:
  assumes "end < start" and "i64_ok (end - start)"
  shows "box_get_messages cap None u start end mb = (Inl (Panicked ''capacity overflow''), mb)"
proof -
  have "wrap64 (end - start) = end - start"
    using assms(2) by (simp add: wrap64_def i64_ok_def)
  with assms(1) show ?thesis by (simp add: box_get_messages_def with_capacity_def)
qed

text \<open>
  \<open>get_messages_stream\<close> of the unsharded box returns exactly when at most 100 stored
  messages match: it fills a channel of capacity 100 before it hands out the receiving end.
\<close>

theorem get_messages_stream_returns_iff:
  assumes "box_ok mb"
  shows "(\<exists>xs. box_get_messages_stream None u start end mb = Some (Inr xs)) \<longleftrightarrow>
    length (filter (\<lambda>m. receiver_id m = u \<and> start \<le> seq m \<and> seq m \<le> end) (msgs_of mb)) \<le> 100"
proof -
  have "filter (\<lambda>d. str_is ''receiver_id'' u d \<and> gte_lte ''seq'' start end d) mb =
    map to_doc (filter (\<lambda>m. receiver_id m = u \<and> start \<le> seq m \<and> seq m \<le> end) (msgs_of mb))"
    by (subst box_ok_msgs [OF assms]) (simp add: filter_docs gte_lte_def)
  then show ?thesis
    by (simp add: box_get_messages_stream_def send_unreceived_Nil find_range_def)
qed

text \<open>
  Reading is precise: \<open>msg_read\<close> sets the read flag of exactly the stored messages the
  user received under the listed numbers, and changes nothing else.
\<close>

theorem msg_read_exact:
  assumes "box_ok mb" and "seqs \<noteq> []"
  shows "\<exists>mb'. box_msg_read None u seqs mb = (Inr (), mb') \<and> box_ok mb'
    \<and> msgs_of mb' = map (\<lambda>m. if receiver_id m = u \<and> seq m \<in> set seqs
                              then m\<lparr>is_read := True\<rparr> else m) (msgs_of mb)"
proof -
  have "stored_view (if receiver_id m = u \<and> seq m \<in> set seqs then m\<lparr>is_read := True\<rparr> else m) =
    (if receiver_id m = u \<and> seq m \<in> set seqs then m\<lparr>is_read := True\<rparr> else m)"
    if "m \<in> set (msgs_of mb)" for m
    using msgs_of_stored [OF assms(1) that] by simp
  then show ?thesis by (simp add: box_msg_read_msgs [OF assms])
qed

text \<open>
  Deleting and looking up agree with the contract: after a message with a fresh server id
  has been saved it is found under that id, and after \<open>delete_message\<close> of that id the box is as
  it was before.
\<close>

theorem save_lookup_delete:
  assumes "box_ok mb" and "server_id m \<notin> server_id ` set (msgs_of mb)"
  shows "\<exists>mb'. box_save_message None m mb = (Inr (), mb')
    \<and> box_get_message None (server_id m) mb' = (Inr (Some (stored_view m)), mb')
    \<and> box_delete_message None (server_id m) mb' = (Inr (), mb)
    \<and> box_get_message None (server_id m) mb = (Inr None, mb)"
proof -
  have no: "\<not> str_is ''server_id'' (server_id m) d" if "d \<in> set mb" for d
  proof -
    have "d = to_doc (msg_of_doc d)" using that assms(1) by (auto simp: box_ok_def list_all_iff)
    moreover have "server_id (msg_of_doc d) \<noteq> server_id m"
      using that assms(2) by (metis image_eqI image_set msgs_of_def)
    ultimately show ?thesis by (metis filter_eval_to_doc(7))
  qed
  then have "find (str_is ''server_id'' (server_id m)) mb = None" by (simp add: find_None_iff)
  moreover have "find P (xs @ ys) = (case find P xs of None \<Rightarrow> find P ys | Some x \<Rightarrow> Some x)"
    for P :: "Document \<Rightarrow> bool" and xs ys
    by (induction xs) auto
  moreover have "delete_first (str_is ''server_id'' (server_id m)) (xs @ [to_doc m]) = xs"
    if "set xs \<subseteq> set mb" for xs
    using that no by (induction xs) auto
  ultimately show ?thesis
    by (simp add: box_save_message_def box_get_message_def box_delete_message_def)
qed

definition msg_example :: Msg where
  "msg_example = msg_default\<lparr>sender_id := ''a'', receiver_id := ''b'', server_id := ''s1'', seq := 3,
     send_seq := 7, send_time := 100\<rparr>"

lemma with_capacity_small: "0 \<le> n \<Longrightarrow> n \<le> cap \<Longrightarrow> cap < 2 ^ 63 \<Longrightarrow> with_capacity cap n = Inr ()"
  by (simp add: with_capacity_def wrap64_def)

lemma stored_view_example [simp]: "stored_view msg_example = msg_example"
  by (simp add: msg_example_def msg_default_def stored_view_def)

lemma msg_example_sel [simp]:
  "sender_id msg_example = ''a''" "receiver_id msg_example = ''b''" "server_id msg_example = ''s1''"
  "seq msg_example = 3" "send_seq msg_example = 7" "send_time msg_example = 100"
  by (simp_all add: msg_example_def)

theorem get_msgs_exact_witness:
  "\<exists>xs. box_get_msgs 1000 None ''b'' 0 0 2 3 [to_doc msg_example] = (Inr xs, [to_doc msg_example])
    \<and> mset xs = {#msg_example#}
    \<and> sorted (map (\<lambda>m. (send_time m, if sender_id m = ''b'' then send_seq m else seq m)) xs)"
  using get_msgs_exact [of "[to_doc msg_example]" 1000 0 0 3 2 "''b''"] with_capacity_small [of 1 1000]
  by (simp add: wanted_def own_seq_zero_def)

theorem get_messages_reversed_panics_witness:
  "box_get_messages 1000 None ''b'' 5 4 [] = (Inl (Panicked ''capacity overflow''), [])"
  by (rule get_messages_reversed_panics) (simp_all add: i64_ok_def)

theorem get_messages_stream_returns_iff_witness:
  "\<not> (\<exists>xs. box_get_messages_stream None ''b'' 0 9 (replicate 101 (to_doc msg_example)) = Some (Inr xs))"
proof -
  have ok: "box_ok (replicate 101 (to_doc msg_example))"
    by (simp add: box_ok_def list_all_iff)
  have "msgs_of (replicate 101 (to_doc msg_example)) = replicate 101 msg_example"
    by (simp add: msgs_of_def map_replicate)
  then show ?thesis
    using get_messages_stream_returns_iff [OF ok, of "''b''" 0 9]
    by simp
qed

theorem msg_read_exact_witness:
  "\<exists>mb'. box_msg_read None ''b'' [3, 4] [to_doc msg_example] = (Inr (), mb')
    \<and> box_ok mb' \<and> msgs_of mb' = [msg_example\<lparr>is_read := True\<rparr>]"
  using msg_read_exact [of "[to_doc msg_example]" "[3, 4]" "''b''"] by simp

theorem save_lookup_delete_witness:
  "\<exists>mb'. box_save_message None msg_example [] = (Inr (), mb')
    \<and> box_get_message None ''s1'' mb' = (Inr (Some msg_example), mb')
    \<and> box_delete_message None ''s1'' mb' = (Inr (), [])
    \<and> box_get_message None ''s1'' [] = (Inr None, [])"
  using save_lookup_delete [of "[]" msg_example] by simp

end
