(* ===== verification/Sharded_Box.thy ===== *)
theory Sharded_Box
  imports Msg_Box "HOL-Library.Char_ord" "HOL-Library.List_Lexorder"
begin

text \<open>
  The sharded receive box \<open>HybridShardedMsgBox\<close> (\<open>db/src/mongodb/sharded_message.rs\<close>): one
  collection per month and user shard. The database is the list of its documents, each with
  the name of its collection; the struct's two shared sets (active collections, cached
  handles) are lists without repetition. Every collection has the unique index on
  \<open>(server_id, receiver_id)\<close> that \<open>ensure_collection_indexed\<close> creates.

  What the code takes from outside is the record \<open>shard_env\<close>: the hash of \<open>DefaultHasher\<close>, the
  clock in seconds, chrono's month arithmetic and its \<open>%Y_%m\<close> rendering of a timestamp in
  seconds, which index or data operations fail, and the allocation limit.
\<close>

section \<open>Environment and state\<close>

record shard_env =
  se_shards :: nat
  se_hash :: "string \<Rightarrow> nat"
  se_now :: int
  se_in_range :: "int \<Rightarrow> bool"
  se_ym :: "int \<Rightarrow> string"
  se_add_months :: "nat \<Rightarrow> int \<Rightarrow> int option"
  se_sub_months :: "nat \<Rightarrow> int \<Rightarrow> int option"
  se_index :: "string \<Rightarrow> failure option"
  se_query :: "string \<Rightarrow> failure option"
  se_cap :: int

record shard_box =
  sb_docs :: "(string \<times> Document) list"
  sb_active :: "string list"
  sb_cache :: "string list"

definition docs_in :: "string \<Rightarrow> shard_box \<Rightarrow> collection" where
  "docs_in c s = map snd (filter (\<lambda>p. fst p = c) (sb_docs s))"

text \<open>Decimal rendering of a number, as \<open>format!\<close> prints it.\<close>

fun show_nat :: "nat \<Rightarrow> string" where
  "show_nat n = (if n < 10 then [char_of (48 + n)] else show_nat (n div 10) @ [char_of (48 + n mod 10)])"

declare show_nat.simps [simp del]

section \<open>Names and shards\<close>

definition get_collection_name :: "shard_env \<Rightarrow> int \<Rightarrow> nat \<Rightarrow> string" where
  "get_collection_name env timestamp user_range =
     ''msg_box_'' @ se_ym env (if se_in_range env timestamp then timestamp else se_now env)
       @ ''_'' @ show_nat user_range"

definition get_user_range :: "shard_env \<Rightarrow> string \<Rightarrow> nat res" where
  "get_user_range env u =
     (if se_shards env = 0
      then Inl (Panicked ''attempt to calculate the remainder with a divisor of zero'')
      else Inr (se_hash env u mod se_shards env))"

text \<open>\<open>now.checked_sub_months(Months::new(k)).unwrap_or(now)\<close>, and the same with \<open>add\<close>.\<close>

definition months_ago :: "shard_env \<Rightarrow> nat \<Rightarrow> int" where
  "months_ago env k = unwrap_or (se_now env) (se_sub_months env k (se_now env))"

definition months_ahead :: "shard_env \<Rightarrow> nat \<Rightarrow> int" where
  "months_ahead env k = unwrap_or (se_now env) (se_add_months env k (se_now env))"

definition recent_collections :: "shard_env \<Rightarrow> nat \<Rightarrow> nat \<Rightarrow> string list" where
  "recent_collections env n user_range =
     map (\<lambda>k. get_collection_name env (if k = 0 then se_now env else months_ago env k) user_range) [0..<n]"

section \<open>Collections\<close>

definition ensure_collection_indexed :: "shard_env \<Rightarrow> string \<Rightarrow> (shard_box, unit) act" where
  "ensure_collection_indexed env c =
     remote (se_index env c) (\<lambda>s. (Inr (), s\<lparr>sb_cache := List.insert c (sb_cache s)\<rparr>))"

definition get_collection :: "shard_env \<Rightarrow> string \<Rightarrow> (shard_box, unit) act" where
  "get_collection env c s =
     (if c \<in> set (sb_cache s) then (Inr (), s)
      else and_then (ensure_collection_indexed env c) (\<lambda>_ s'.
        if c \<in> set (sb_cache s') then (Inr (), s')
        else (Inl (Failed (internal_with_details ''Failed to cache collection'')), s')) s)"

definition mongo_error :: "string \<Rightarrow> failure" where
  "mongo_error d = Failed (error_new MongoDbOperateError d d)"

definition doc_key :: "Document \<Rightarrow> Bson option \<times> Bson option" where
  "doc_key d = (map_of d ''server_id'', map_of d ''receiver_id'')"

definition insert_one :: "shard_env \<Rightarrow> string \<Rightarrow> Document \<Rightarrow> (shard_box, unit) act" where
  "insert_one env c d = remote (se_query env c) (\<lambda>s.
     if doc_key d \<in> doc_key ` set (docs_in c s) then (Inl (mongo_error ''E11000 duplicate key error''), s)
     else (Inr (), s\<lparr>sb_docs := sb_docs s @ [(c, d)]\<rparr>))"

text \<open>\<open>initialize_system\<close>: the offsets \<open>-1..=3\<close> are cast to \<open>u32\<close>, so \<open>-1\<close> is \<open>2 ^ 32 - 1\<close>.\<close>

definition init_names :: "shard_env \<Rightarrow> string list" where
  "init_names env = concat (map (\<lambda>k. map (get_collection_name env (months_ahead env k)) [0..<se_shards env])
     [2 ^ 32 - 1, 0, 1, 2, 3])"

fun init_loop :: "shard_env \<Rightarrow> string list \<Rightarrow> (shard_box, unit) act" where
  "init_loop env [] = ok ()"
| "init_loop env (c # cs) =
     and_then (ensure_collection_indexed env c) (\<lambda>_ s.
       init_loop env cs (s\<lparr>sb_active := List.insert c (sb_active s)\<rparr>))"

definition initialize_system :: "shard_env \<Rightarrow> (shard_box, unit) act" where
  "initialize_system env = init_loop env (init_names env)"

text \<open>One daily run of \<open>schedule_collection_maintenance\<close>; a failing index is only logged.\<close>

definition maintenance_tick :: "shard_env \<Rightarrow> shard_box \<Rightarrow> shard_box" where
  "maintenance_tick env s =
     fold (\<lambda>c s. if c \<in> set (sb_active s) then s
                 else s\<lparr>sb_active := List.insert c (sb_active s), sb_cache := List.insert c (sb_cache s)\<rparr>)
       (concat (map (\<lambda>k. map (\<lambda>r. ''msg_box_'' @ se_ym env (months_ahead env k) @ ''_'' @ show_nat r)
          [0..<se_shards env]) [0, 1, 2, 3])) s"

section \<open>Operations of the box\<close>

definition shard_save_message :: "shard_env \<Rightarrow> Msg \<Rightarrow> (shard_box, unit) act" where
  "shard_save_message env m s =
     (case get_user_range env (receiver_id m) of
        Inl e \<Rightarrow> (Inl e, s)
      | Inr user_range \<Rightarrow>
          (let c = get_collection_name env (send_time m) user_range in
           and_then (get_collection env c) (\<lambda>_. insert_one env c (to_doc m)) s))"

text \<open>The copies of a group message, each with its collection; \<open>get_collection\<close> may stop the
  loop before anything is inserted.\<close>

fun group_targets ::
  "shard_env \<Rightarrow> Msg \<Rightarrow> GroupMemSeq list \<Rightarrow> (shard_box, (string \<times> Document) list) act" where
  "group_targets env m [] = ok []"
| "group_targets env m (g # gs) = (\<lambda>s.
     (let m' = m\<lparr>seq := cur_seq g, receiver_id := mem_id g\<rparr> in
      case get_user_range env (mem_id g) of
        Inl e \<Rightarrow> (Inl e, s)
      | Inr user_range \<Rightarrow>
          (let c = get_collection_name env (send_time m') user_range in
           and_then (get_collection env c) (\<lambda>_.
             and_then (group_targets env m' gs) (\<lambda>rest. ok ((c, to_doc m') # rest))) s)))"

text \<open>All insertions are spawned and all run; the first failing handle is the answer.\<close>

fun insert_all :: "shard_env \<Rightarrow> (string \<times> Document) list \<Rightarrow> (shard_box, unit) act" where
  "insert_all env [] = ok ()"
| "insert_all env ((c, d) # rest) = (\<lambda>s.
     (case insert_one env c d s of
        (r, s1) \<Rightarrow> (case insert_all env rest s1 of
                      (r', s2) \<Rightarrow> ((case r of Inl e \<Rightarrow> Inl e | Inr _ \<Rightarrow> r'), s2))))"

definition shard_save_group_msg ::
  "shard_env \<Rightarrow> Msg \<Rightarrow> GroupMemSeq list \<Rightarrow> (shard_box, unit) act" where
  "shard_save_group_msg env m gs s =
     (case get_user_range env (sender_id m) of
        Inl e \<Rightarrow> (Inl e, s)
      | Inr user_range \<Rightarrow>
          (let c = get_collection_name env (send_time m) user_range;
               sender_msg = m\<lparr>receiver_id := sender_id m\<rparr>
           in and_then (get_collection env c) (\<lambda>_.
                and_then (group_targets env (m\<lparr>send_seq := 0\<rparr>) gs) (\<lambda>rest.
                  insert_all env ((c, to_doc sender_msg) # rest))) s))"

fun delete_loop :: "shard_env \<Rightarrow> string \<Rightarrow> string list \<Rightarrow> (shard_box, unit) act" where
  "delete_loop env mid [] = ok ()"
| "delete_loop env mid (c # cs) =
     and_then (get_collection env c) (\<lambda>_ s.
       (case se_query env c of
          Some e \<Rightarrow> (Inl e, s)
        | None \<Rightarrow>
            if list_ex (str_is ''server_id'' mid) (docs_in c s)
            then (Inr (), s\<lparr>sb_docs := delete_first
                    (\<lambda>p. fst p = c \<and> str_is ''server_id'' mid (snd p)) (sb_docs s)\<rparr>)
            else delete_loop env mid cs s))"

definition shard_delete_message :: "shard_env \<Rightarrow> string \<Rightarrow> (shard_box, unit) act" where
  "shard_delete_message env mid s = delete_loop env mid (sb_active s) s"

text \<open>\<open>for coll_name in collections\<close> with an update or deletion of the matching documents: a
  collection that cannot be opened is skipped, a failing statement stops the loop.\<close>

fun change_loop ::
  "shard_env \<Rightarrow> (Document \<Rightarrow> Document option) \<Rightarrow> string list \<Rightarrow> (shard_box, unit) act" where
  "change_loop env f [] = ok ()"
| "change_loop env f (c # cs) = (\<lambda>s.
     (case get_collection env c s of
        (Inl _, s1) \<Rightarrow> change_loop env f cs s1
      | (Inr _, s1) \<Rightarrow>
          (case se_query env c of
             Some e \<Rightarrow> (Inl e, s1)
           | None \<Rightarrow> change_loop env f cs (s1\<lparr>sb_docs := List.map_filter
               (\<lambda>(c', d). if c' = c then map_option (Pair c) (f d) else Some (c', d)) (sb_docs s1)\<rparr>))))"

definition shard_delete_messages :: "shard_env \<Rightarrow> string \<Rightarrow> int list \<Rightarrow> (shard_box, unit) act" where
  "shard_delete_messages env u seqs s =
     (if seqs = [] then (Inr (), s)
      else case get_user_range env u of
        Inl e \<Rightarrow> (Inl e, s)
      | Inr user_range \<Rightarrow> change_loop env
          (\<lambda>d. if str_is ''receiver_id'' u d \<and> num_in ''seq'' seqs d then None else Some d)
          (recent_collections env 2 user_range) s)"

fun lookup_loop :: "shard_env \<Rightarrow> string \<Rightarrow> string list \<Rightarrow> (shard_box, Msg option) act" where
  "lookup_loop env mid [] = ok None"
| "lookup_loop env mid (c # cs) =
     and_then (get_collection env c) (\<lambda>_ s.
       (case se_query env c of
          Some e \<Rightarrow> (Inl e, s)
        | None \<Rightarrow>
            (case find (str_is ''server_id'' mid) (docs_in c s) of
               Some d \<Rightarrow> (Inr (Some (msg_of_doc d)), s)
             | None \<Rightarrow> lookup_loop env mid cs s)))"

definition shard_get_message :: "shard_env \<Rightarrow> string \<Rightarrow> (shard_box, Msg option) act" where
  "shard_get_message env mid s = lookup_loop env mid (sb_active s) s"

text \<open>The stream is filled by a task of its own, so it delivers everything the task sends; a
  collection whose query fails is skipped.\<close>

definition shard_get_messages_stream ::
  "shard_env \<Rightarrow> string \<Rightarrow> int \<Rightarrow> int \<Rightarrow> (shard_box, Msg list) act" where
  "shard_get_messages_stream env u start end s =
     (case get_user_range env u of
        Inl e \<Rightarrow> (Inl e, s)
      | Inr user_range \<Rightarrow> (Inr (concat (map (\<lambda>c. if se_query env c \<noteq> None then []
          else map msg_of_doc (find_range u start end (docs_in c s))) (recent_collections env 3 user_range))), s))"

fun collect_loop ::
  "shard_env \<Rightarrow> (collection \<Rightarrow> Msg list) \<Rightarrow> string list \<Rightarrow> Msg list \<Rightarrow> (shard_box, Msg list) act" where
  "collect_loop env q [] acc = ok acc"
| "collect_loop env q (c # cs) acc = (\<lambda>s.
     (case get_collection env c s of
        (Inl _, s1) \<Rightarrow> collect_loop env q cs acc s1
      | (Inr _, s1) \<Rightarrow>
          (case se_query env c of
             Some e \<Rightarrow> (Inl e, s1)
           | None \<Rightarrow> collect_loop env q cs (acc @ q (docs_in c s1)) s1)))"

definition shard_get_messages ::
  "shard_env \<Rightarrow> string \<Rightarrow> int \<Rightarrow> int \<Rightarrow> (shard_box, Msg list) act" where
  "shard_get_messages env u start end s =
     (case get_user_range env u of
        Inl e \<Rightarrow> (Inl e, s)
      | Inr user_range \<Rightarrow>
          (case with_capacity (se_cap env) (end - start) of
             Inl e \<Rightarrow> (Inl e, s)
           | Inr _ \<Rightarrow> and_then (collect_loop env (\<lambda>ds. map msg_of_doc (find_range u start end ds))
                         (recent_collections env 3 user_range) [])
                       (\<lambda>ms. ok (sort_key seq ms)) s))"

text \<open>The \<open>$match\<close> of the sharded \<open>get_msgs\<close>: both ranges include their start.\<close>

definition shard_match_msgs :: "string \<Rightarrow> int \<Rightarrow> int \<Rightarrow> int \<Rightarrow> int \<Rightarrow> Document \<Rightarrow> bool" where
  "shard_match_msgs u send_start send_end rec_start rec_end d \<longleftrightarrow>
     (str_is ''receiver_id'' u d \<and> gte_lte ''seq'' rec_start rec_end d)
     \<or> (str_is ''sender_id'' u d \<and> gte_lte ''send_seq'' send_start send_end d)"

definition shard_get_msgs ::
  "shard_env \<Rightarrow> string \<Rightarrow> int \<Rightarrow> int \<Rightarrow> int \<Rightarrow> int \<Rightarrow> (shard_box, Msg list) act" where
  "shard_get_msgs env u send_start send_end rec_start rec_end s =
     (case get_user_range env u of
        Inl e \<Rightarrow> (Inl e, s)
      | Inr user_range \<Rightarrow>
          (case with_capacity (se_cap env) (send_end - send_start + (rec_end - rec_start)) of
             Inl e \<Rightarrow> (Inl e, s)
           | Inr _ \<Rightarrow> and_then (collect_loop env
                         (\<lambda>ds. map (\<lambda>d. own_seq_zero u (msg_of_doc d))
                            (sort_msgs u (filter (shard_match_msgs u send_start send_end rec_start rec_end) ds)))
                         (recent_collections env 3 user_range) [])
                       (\<lambda>ms. ok (sort_key (msg_sort_key u) ms)) s))"

definition shard_msg_read :: "shard_env \<Rightarrow> string \<Rightarrow> int list \<Rightarrow> (shard_box, unit) act" where
  "shard_msg_read env u seqs s =
     (if seqs = [] then (Inr (), s)
      else case get_user_range env u of
        Inl e \<Rightarrow> (Inl e, s)
      | Inr user_range \<Rightarrow> change_loop env
          (\<lambda>d. Some (if str_is ''receiver_id'' u d \<and> num_in ''seq'' seqs d
                     then set_field ''is_read'' (BBool True) d else d))
          (recent_collections env 2 user_range) s)"

section \<open>Cleaning\<close>

text \<open>\<open>str::split('_')\<close>.\<close>

fun split_underscore :: "string \<Rightarrow> string list" where
  "split_underscore [] = [[]]"
| "split_underscore (c # cs) =
     (case split_underscore cs of
        [] \<Rightarrow> [[c]]
      | p # ps \<Rightarrow> if c = CHR ''_'' then [] # p # ps else (c # p) # ps)"

definition name_year_month :: "string \<Rightarrow> string option res" where
  "name_year_month c =
     (let parts = split_underscore c in
      if length parts < 3 then Inr None
      else if length parts < 4 then Inl (Panicked ''index out of bounds: the len is 3 but the index is 3'')
      else Inr (Some (parts ! 2 @ ''_'' @ parts ! 3)))"

text \<open>The months after which a collection is dropped from the active list:
  \<open>(period / 30 + 2) as u32\<close>, division towards zero.\<close>

definition retention_months :: "int \<Rightarrow> nat" where
  "retention_months period =
     nat (((if 0 \<le> period then period div 30 else - ((- period) div 30)) + 2) mod 2 ^ 32)"

definition outdated :: "shard_env \<Rightarrow> int \<Rightarrow> string \<Rightarrow> bool" where
  "outdated env period c =
     (case name_year_month c of
        Inr (Some ym) \<Rightarrow> ym < se_ym env (months_ago env (retention_months period))
      | _ \<Rightarrow> False)"

text \<open>
  One tick of \<open>clean_receive_box\<close>. The read guard on the active set lives to the end of the
  tick, so the tick waits forever (\<open>None\<close>) for its own write lock as soon as one name is
  outdated.
\<close>

definition shard_clean_tick ::
  "shard_env \<Rightarrow> int \<Rightarrow> int list \<Rightarrow> shard_box \<Rightarrow> (unit res \<times> shard_box) option" where
  "shard_clean_tick env period types s =
     (let cutoff_time = se_now env - period * 86400;
          s1 = s\<lparr>sb_docs := filter (\<lambda>(c, d). \<not> (c \<in> set (sb_active s) \<and> se_query env c = None
                 \<and> lt_num ''send_time'' cutoff_time d \<and> \<not> num_in ''msg_type'' types d)) (sb_docs s)\<rparr>
      in if list_ex (\<lambda>c. isl (name_year_month c)) (sb_active s)
         then Some (Inl (Panicked ''index out of bounds: the len is 3 but the index is 3''), s1)
         else if list_ex (outdated env period) (sb_active s) then None
         else Some (Inr (), s1))"

section \<open>Facts\<close>

definition env_up :: "shard_env \<Rightarrow> bool" where
  "env_up env \<longleftrightarrow> (\<forall>c. se_index env c = None \<and> se_query env c = None)"

definition shard_ok :: "shard_box \<Rightarrow> bool" where
  "shard_ok s \<longleftrightarrow> box_ok (map snd (sb_docs s))"

definition shard_inbox :: "shard_box \<Rightarrow> Msg multiset" where
  "shard_inbox s = mset (msgs_of (map snd (sb_docs s)))"

lemma get_collection_docs:
  "get_collection env c s = (r, t) \<Longrightarrow> sb_docs t = sb_docs s \<and> sb_active t = sb_active s"
  by (cases "se_index env c")
     (auto simp: get_collection_def ensure_collection_indexed_def and_then_def split: if_splits)

lemma get_collection_up: "se_index env c = None \<Longrightarrow> fst (get_collection env c s) = Inr ()"
  by (simp add: get_collection_def ensure_collection_indexed_def and_then_def)

lemma get_collection_upE:
  assumes "se_index env c = None"
  obtains t where "get_collection env c s = (Inr (), t)" "sb_docs t = sb_docs s" "sb_active t = sb_active s"
proof -
  obtain r t where "get_collection env c s = (r, t)" by fastforce
  with get_collection_up [OF assms, of s] get_collection_docs [of env c s r t] that
  show thesis by simp
qed

lemma insert_one_Inr:
  "insert_one env c d s = (Inr (), t) \<Longrightarrow> sb_docs t = sb_docs s @ [(c, d)]"
  by (cases "se_query env c") (auto simp: insert_one_def split: if_splits)

lemma insert_all_Inr:
  "insert_all env xs s = (Inr (), t) \<Longrightarrow> sb_docs t = sb_docs s @ xs"
proof (induction xs arbitrary: s)
  case Nil
  then show ?case by simp
next
  case (Cons x xs)
  obtain c d where x: "x = (c, d)" by fastforce
  obtain r s1 where one: "insert_one env c d s = (r, s1)" by fastforce
  from Cons.prems x one have "r = Inr ()" and "insert_all env xs s1 = (Inr (), t)"
    by (auto split: prod.splits sum.splits)
  with Cons.IH [of s1] one x show ?case by (simp add: insert_one_Inr)
qed

lemma group_targets_Inr:
  "send_seq m = 0 \<Longrightarrow> group_targets env m gs s = (Inr xs, t) \<Longrightarrow>
   sb_docs t = sb_docs s \<and> map snd xs = map (\<lambda>g. to_doc (member_copy m g)) gs"
proof (induction gs arbitrary: m s xs)
  case Nil
  then show ?case by simp
next
  case (Cons g gs)
  define m' where "m' = m\<lparr>seq := cur_seq g, receiver_id := mem_id g\<rparr>"
  have copies: "member_copy m' = member_copy m" "to_doc m' = to_doc (member_copy m g)"
    using Cons.prems(1) by (auto simp: m'_def member_copy_def fun_eq_iff to_doc_def)
  from Cons.prems(2) obtain user_range s1 rest where
    "get_user_range env (mem_id g) = Inr user_range"
    "get_collection env (get_collection_name env (send_time m') user_range) s = (Inr (), s1)"
    "group_targets env m' gs s1 = (Inr rest, t)"
    "xs = (get_collection_name env (send_time m') user_range, to_doc m') # rest"
    by (auto simp: Let_def m'_def [symmetric] split: sum.splits elim!: and_then_eq_InrE)
  with Cons.IH [of m' s1 rest] Cons.prems(1) copies show ?case
    by (auto simp: m'_def dest!: get_collection_docs)
qed

lemma shard_save_message_Inr:
  assumes "shard_save_message env m s = (Inr (), t)"
  obtains user_range where "get_user_range env (receiver_id m) = Inr user_range"
    "sb_docs t = sb_docs s @ [(get_collection_name env (send_time m) user_range, to_doc m)]"
  using assms
  by (auto simp: shard_save_message_def Let_def split: sum.splits elim!: and_then_eq_InrE
      dest!: insert_one_Inr get_collection_docs)

lemma shard_save_group_Inr:
  assumes "shard_save_group_msg env m gs s = (Inr (), t)"
  shows "map snd (sb_docs t) = map snd (sb_docs s) @ to_doc (m\<lparr>receiver_id := sender_id m\<rparr>)
    # map (\<lambda>g. to_doc (member_copy m g)) gs"
proof -
  from assms obtain c rest s1 s2 where
    "get_collection env c s = (Inr (), s1)"
    "group_targets env (m\<lparr>send_seq := 0\<rparr>) gs s1 = (Inr rest, s2)"
    "insert_all env ((c, to_doc (m\<lparr>receiver_id := sender_id m\<rparr>)) # rest) s2 = (Inr (), t)"
    by (auto simp: shard_save_group_msg_def Let_def split: sum.splits elim!: and_then_eq_InrE
        simp del: insert_all.simps)
  moreover have "member_copy (m\<lparr>send_seq := 0\<rparr>) = member_copy m"
    by (simp add: member_copy_def fun_eq_iff)
  ultimately show ?thesis
    by (auto dest!: insert_all_Inr group_targets_Inr [rotated] get_collection_docs simp del: insert_all.simps)
qed

interpretation sbox: msg_rec_box "shard_save_message env" "shard_save_group_msg env"
  shard_inbox shard_ok for env
proof (unfold_locales, goal_cases)
  case (1 s m t)
  from 1(2) obtain c where "sb_docs t = sb_docs s @ [(c, to_doc m)]"
    by (rule shard_save_message_Inr) blast
  with 1(1) show ?case by (simp add: shard_ok_def shard_inbox_def)
next
  case (2 s m gs t)
  from shard_save_group_Inr [OF 2(2)] 2(1) show ?case
    by (auto simp: shard_ok_def shard_inbox_def fanned_out_def
        intro!: exI [of _ "stored_view (m\<lparr>receiver_id := sender_id m\<rparr>)"])
qed

subsection \<open>Names\<close>

lemma show_nat_no_underscore: "CHR ''_'' \<notin> set (show_nat n)"
proof (induction n rule: show_nat.induct)
  case (1 n)
  have "CHR ''_'' \<noteq> char_of (48 + k)" if "k < 10" for k :: nat
  proof
    assume "CHR ''_'' = char_of (48 + k)"
    then have "of_char CHR ''_'' = (of_char (char_of (48 + k)) :: nat)" by simp
    with that show False by simp
  qed
  with 1 show ?case by (auto simp: show_nat.simps [of n])
qed

lemma last_separator:
  "c \<notin> set xs \<Longrightarrow> c \<notin> set ys \<Longrightarrow> a @ c # xs = b @ c # ys \<Longrightarrow> a = b"
  by (auto simp: append_eq_append_conv2 append_eq_Cons_conv Cons_eq_append_conv)

lemma collection_name_ym:
  assumes "get_collection_name env a i = get_collection_name env' b j"
    and "se_in_range env a" and "se_in_range env' b"
  shows "se_ym env a = se_ym env' b"
  using assms last_separator [OF show_nat_no_underscore show_nat_no_underscore]
  by (auto simp: get_collection_name_def)

subsection \<open>Queries\<close>

lemma collect_loop_up:
  assumes "env_up env"
  shows "\<exists>t. collect_loop env q cs acc s = (Inr (acc @ concat (map (\<lambda>c. q (docs_in c s)) cs)), t)
    \<and> sb_docs t = sb_docs s"
proof (induction cs arbitrary: acc s)
  case Nil
  then show ?case by simp
next
  case (Cons c cs)
  have "se_index env c = None" "se_query env c = None" using assms by (auto simp: env_up_def)
  moreover from this(1) obtain t where "get_collection env c s = (Inr (), t)" "sb_docs t = sb_docs s"
    by (rule get_collection_upE)
  moreover from this(2) have "docs_in c' t = docs_in c' s" for c' by (simp add: docs_in_def)
  ultimately show ?case using Cons [of "acc @ q (docs_in c s)" t] by auto
qed

lemma shard_get_msgs_up:
  assumes "env_up env" and "get_user_range env u = Inr user_range"
    and "with_capacity (se_cap env) (send_end - send_start + (rec_end - rec_start)) = Inr ()"
  shows "fst (shard_get_msgs env u send_start send_end rec_start rec_end s) =
    Inr (sort_key (msg_sort_key u) (concat (map (\<lambda>c. map (\<lambda>d. own_seq_zero u (msg_of_doc d))
      (sort_msgs u (filter (shard_match_msgs u send_start send_end rec_start rec_end) (docs_in c s))))
      (recent_collections env 3 user_range))))"
  using collect_loop_up [OF assms(1), where acc = "[]" and s = s and cs = "recent_collections env 3 user_range"
      and q = "\<lambda>ds. map (\<lambda>d. own_seq_zero u (msg_of_doc d))
            (sort_msgs u (filter (shard_match_msgs u send_start send_end rec_start rec_end) ds))"]
    assms(2,3)
  by (auto simp: shard_get_msgs_def and_then_def)

text \<open>A document outside the collections that a user's query reads does not change its answer.\<close>

lemma shard_get_msgs_cong:
  assumes "env_up env"
    and "\<And>user_range c. get_user_range env u = Inr user_range \<Longrightarrow>
           c \<in> set (recent_collections env 3 user_range) \<Longrightarrow> docs_in c s = docs_in c t"
  shows "fst (shard_get_msgs env u send_start send_end rec_start rec_end s) =
         fst (shard_get_msgs env u send_start send_end rec_start rec_end t)"
proof (cases "get_user_range env u")
  case (Inl e)
  then show ?thesis by (simp add: shard_get_msgs_def)
next
  case (Inr user_range)
  show ?thesis
  proof (cases "with_capacity (se_cap env) (send_end - send_start + (rec_end - rec_start))")
    case (Inl e)
    with Inr show ?thesis by (simp add: shard_get_msgs_def)
  next
    case cap: (Inr a)
    then have up: "with_capacity (se_cap env) (send_end - send_start + (rec_end - rec_start)) = Inr ()"
      by simp
    have eq: "map (\<lambda>c. map (\<lambda>d. own_seq_zero u (msg_of_doc d))
        (sort_msgs u (filter (shard_match_msgs u send_start send_end rec_start rec_end) (docs_in c s))))
        (recent_collections env 3 user_range) =
      map (\<lambda>c. map (\<lambda>d. own_seq_zero u (msg_of_doc d))
        (sort_msgs u (filter (shard_match_msgs u send_start send_end rec_start rec_end) (docs_in c t))))
        (recent_collections env 3 user_range)"
      using assms(2) [OF Inr] by (intro map_cong refl) auto
    show ?thesis by (simp only: shard_get_msgs_up [OF assms(1) Inr up] eq)
  qed
qed

lemma docs_in_append [simp]:
  "sb_docs t = sb_docs s @ [(c', d)] \<Longrightarrow> docs_in c t = docs_in c s @ (if c = c' then [d] else [])"
  by (simp add: docs_in_def)

lemma save_elsewhere_invisible:
  assumes "env_up env"
    and save: "shard_save_message (env\<lparr>se_now := saved_at\<rparr>) m s = (Inr (), t)"
    and elsewhere: "\<And>i j. get_user_range env (receiver_id m) = Inr i \<Longrightarrow> get_user_range env u = Inr j \<Longrightarrow>
      get_collection_name (env\<lparr>se_now := saved_at\<rparr>) (send_time m) i \<notin> set (recent_collections env 3 j)"
  shows "fst (shard_get_msgs env u send_start send_end rec_start rec_end t) =
         fst (shard_get_msgs env u send_start send_end rec_start rec_end s)"
proof (rule shard_get_msgs_cong [OF assms(1)])
  fix j c
  assume j: "get_user_range env u = Inr j" "c \<in> set (recent_collections env 3 j)"
  from save obtain i where i: "get_user_range (env\<lparr>se_now := saved_at\<rparr>) (receiver_id m) = Inr i"
    "sb_docs t = sb_docs s @ [(get_collection_name (env\<lparr>se_now := saved_at\<rparr>) (send_time m) i, to_doc m)]"
    by (rule shard_save_message_Inr)
  then have "get_user_range env (receiver_id m) = Inr i"
    by (simp add: get_user_range_def split: if_splits)
  with elsewhere [OF this j(1)] i(2) j(2) show "docs_in c t = docs_in c s" by auto
qed

lemma split_underscore_plain: "CHR ''_'' \<notin> set p \<Longrightarrow> split_underscore p = [p]"
  by (induction p) auto

lemma split_underscore_Cons_ne: "split_underscore xs \<noteq> []"
  by (induction xs) (auto split: list.splits)

lemma split_underscore_append:
  "CHR ''_'' \<notin> set p \<Longrightarrow> split_underscore (p @ CHR ''_'' # rest) = p # split_underscore rest"
  by (induction p) (auto split: list.splits simp: split_underscore_Cons_ne)

text \<open>Chrono's \<open>%Y_%m\<close> is a year, an underscore and a month.\<close>

definition ym_shape :: "string \<Rightarrow> bool" where
  "ym_shape ym \<longleftrightarrow> length (split_underscore ym) = 2"

lemma split_underscore_join:
  "length (split_underscore ym) = 2 \<Longrightarrow>
   split_underscore (ym @ CHR ''_'' # rest) = split_underscore ym @ split_underscore rest
   \<and> ym = split_underscore ym ! 0 @ ''_'' @ split_underscore ym ! 1"
proof -
  have join: "split_underscore (xs @ CHR ''_'' # rest) = split_underscore xs @ split_underscore rest" for xs
    by (induction xs) (auto split: list.splits simp: split_underscore_Cons_ne)
  have one: "split_underscore xs = [p] \<Longrightarrow> xs = p" for xs p
    by (induction xs arbitrary: p) (auto split: list.splits if_splits simp: split_underscore_Cons_ne)
  have two: "split_underscore xs = [p, q] \<Longrightarrow> xs = p @ ''_'' @ q" for xs p q
    by (induction xs arbitrary: p q)
       (auto split: list.splits if_splits simp: split_underscore_Cons_ne dest!: one)
  assume "length (split_underscore ym) = 2"
  then obtain p q where "split_underscore ym = [p, q]"
    by (auto simp: length_Suc_conv numeral_2_eq_2)
  with join two show ?thesis by auto
qed

lemma name_year_month_name:
  assumes "ym_shape (se_ym env (if se_in_range env t then t else se_now env))"
  shows "name_year_month (get_collection_name env t i) =
    Inr (Some (se_ym env (if se_in_range env t then t else se_now env)))"
proof -
  define ym where "ym = se_ym env (if se_in_range env t then t else se_now env)"
  have name: "get_collection_name env t i =
    ''msg'' @ CHR ''_'' # (''box'' @ CHR ''_'' # (ym @ CHR ''_'' # show_nat i))"
    by (simp add: get_collection_name_def ym_def)
  have "split_underscore (ym @ CHR ''_'' # show_nat i) = split_underscore ym @ [show_nat i]"
    using assms split_underscore_join [of ym "show_nat i"]
    by (simp add: ym_shape_def ym_def split_underscore_plain show_nat_no_underscore)
  moreover have "split_underscore (''box'' @ CHR ''_'' # r) = ''box'' # split_underscore r"
      "split_underscore (''msg'' @ CHR ''_'' # r) = ''msg'' # split_underscore r" for r
    by (rule split_underscore_append, simp)+
  ultimately have "split_underscore (get_collection_name env t i) =
      ''msg'' # ''box'' # split_underscore ym @ [show_nat i]"
    by (simp only: name)
  then show ?thesis using assms split_underscore_join [of ym "[]"]
    by (simp add: name_year_month_def ym_def [symmetric] ym_shape_def nth_append numeral_3_eq_3 numeral_2_eq_2)
qed

lemma init_loop_active:
  assumes "env_up env" and "c \<in> set cs \<or> c \<in> set (sb_active s)"
  shows "c \<in> set (sb_active (snd (init_loop env cs s)))"
  using assms(2)
proof (induction cs arbitrary: s)
  case Nil
  then show ?case by simp
next
  case (Cons a cs)
  have "se_index env a = None" using assms(1) by (simp add: env_up_def)
  then show ?case using Cons.prems
    by (auto simp: and_then_def ensure_collection_indexed_def intro!: Cons.IH)
qed

lemma shard_get_msgs_mem:
  assumes "env_up env" and "get_user_range env u = Inr i"
    and "with_capacity (se_cap env) (send_end - send_start + (rec_end - rec_start)) = Inr ()"
    and "c \<in> set (recent_collections env 3 i)" and "d \<in> set (docs_in c s)"
    and "shard_match_msgs u send_start send_end rec_start rec_end d"
  shows "\<exists>xs t. shard_get_msgs env u send_start send_end rec_start rec_end s = (Inr xs, t)
    \<and> own_seq_zero u (msg_of_doc d) \<in> set xs"
proof -
  obtain r t where rt: "shard_get_msgs env u send_start send_end rec_start rec_end s = (r, t)"
    by fastforce
  have "\<exists>xs. r = Inr xs \<and> own_seq_zero u (msg_of_doc d) \<in> set xs"
    using shard_get_msgs_up [OF assms(1-3), of s] rt assms(4-6) by (auto simp: sort_msgs_def)
  with rt show ?thesis by auto
qed

lemma doc_key_to_doc [simp]:
  "doc_key (to_doc m) = (Some (BString (server_id m)), Some (BString (receiver_id m)))"
  by (simp add: doc_key_def)

lemma shard_save_message_fresh:
  assumes "env_up env" and "get_user_range env (receiver_id m) = Inr i" and "shard_ok s"
    and "(server_id m, receiver_id m) \<notin> (\<lambda>x. (server_id x, receiver_id x)) ` set (msgs_of (map snd (sb_docs s)))"
  shows "\<exists>t. shard_save_message env m s = (Inr (), t)
    \<and> sb_docs t = sb_docs s @ [(get_collection_name env (send_time m) i, to_doc m)]"
proof -
  define c where "c = get_collection_name env (send_time m) i"
  have up: "se_index env c = None" "se_query env c = None" using assms(1) by (auto simp: env_up_def)
  from up(1) obtain s1 where s1: "get_collection env c s = (Inr (), s1)" "sb_docs s1 = sb_docs s"
    by (rule get_collection_upE)
  have "doc_key (to_doc m) \<notin> doc_key ` set (docs_in c s1)"
  proof
    assume "doc_key (to_doc m) \<in> doc_key ` set (docs_in c s1)"
    then obtain d where d: "d \<in> set (map snd (sb_docs s))" "doc_key (to_doc m) = doc_key d"
      by (auto simp: docs_in_def s1(2))
    then have "d = to_doc (msg_of_doc d)"
      using assms(3) by (auto simp: shard_ok_def box_ok_def list_all_iff)
    with d(2) have "(server_id m, receiver_id m) = (server_id (msg_of_doc d), receiver_id (msg_of_doc d))"
      by (metis doc_key_to_doc Pair_inject option.inject Bson.inject(1))
    with d(1) assms(4) show False by (auto simp: msgs_of_def image_iff)
  qed
  then show ?thesis
    using assms(2) s1 up(2)
    by (simp add: shard_save_message_def c_def [symmetric] and_then_def insert_one_def Let_def)
qed

lemma in_concat_names: "x \<in> set (concat (map (\<lambda>k. map (f k) rs) ks)) \<Longrightarrow> \<exists>k i. x = f k i"
  by auto

lemma init_loop_active_only:
  "set (sb_active (snd (init_loop env cs s))) \<subseteq> set cs \<union> set (sb_active s)"
proof (induction cs arbitrary: s)
  case Nil
  then show ?case by simp
next
  case (Cons a cs)
  then show ?case
    by (cases "se_index env a") (auto simp: and_then_def ensure_collection_indexed_def, force+)
qed

text \<open>A stamp in milliseconds names a month far in the future.\<close>

lemma millis_elsewhere:
  assumes ym: "\<And>a b. 0 \<le> a \<Longrightarrow> 0 \<le> b \<Longrightarrow> se_ym env a = se_ym env b \<Longrightarrow> \<bar>a - b\<bar> < 31 * 86400"
    and sub: "\<And>k t. se_sub_months env k (se_now env) = Some t \<Longrightarrow>
        se_now env - int k * (31 * 86400) \<le> t \<and> t \<le> se_now env"
    and in_range: "\<And>a. 0 \<le> a \<Longrightarrow> a \<le> 7800000000000 \<Longrightarrow> se_in_range env a"
    and now: "100000000 \<le> se_now env" "se_now env \<le> 7800000000"
    and millis: "1000 * (se_now env - 31536000) \<le> send_time m" "send_time m \<le> 1000 * se_now env"
  shows "get_collection_name (env\<lparr>se_now := saved_at\<rparr>) (send_time m) i \<notin> set (recent_collections env 3 j)"
proof
  assume "get_collection_name (env\<lparr>se_now := saved_at\<rparr>) (send_time m) i \<in> set (recent_collections env 3 j)"
  then obtain k where k: "k < 3" "get_collection_name (env\<lparr>se_now := saved_at\<rparr>) (send_time m) i =
      get_collection_name env (if k = 0 then se_now env else months_ago env k) j"
    by (auto simp: recent_collections_def)
  define q where "q = (if k = 0 then se_now env else months_ago env k)"
  have "se_now env - 2 * (31 * 86400) \<le> q \<and> q \<le> se_now env"
    using k(1) sub [of k] by (cases "se_sub_months env k (se_now env)") (auto simp: q_def months_ago_def)
  moreover from this now millis have "se_in_range env q" "se_in_range (env\<lparr>se_now := saved_at\<rparr>) (send_time m)"
    by (auto intro!: in_range)
  moreover from this have "se_ym (env\<lparr>se_now := saved_at\<rparr>) (send_time m) = se_ym env q"
    by (intro collection_name_ym [OF k(2) [folded q_def]]) auto
  ultimately show False using ym [of "send_time m" q] now millis by auto
qed

section \<open>Properties\<close>

text \<open>
  Round trip of the sharded box for timestamps in seconds: a message whose send time lies in
  the current month, saved under a fresh pair of server and receiver ids, is returned by the
  receiver's next pull whose receive range contains its number.
\<close>

theorem shard_save_then_pull:
  assumes "env_up env" and "se_shards env \<noteq> 0"
    and "se_in_range env (send_time m)" and "se_in_range env (se_now env)"
    and "se_ym env (send_time m) = se_ym env (se_now env)"
    and "(server_id m, receiver_id m) \<notin> (\<lambda>x. (server_id x, receiver_id x)) ` set (msgs_of (map snd (sb_docs s)))"
    and "shard_ok s"
    and "with_capacity (se_cap env) (send_end - send_start + (rec_end - rec_start)) = Inr ()"
    and "rec_start \<le> seq m" and "seq m \<le> rec_end"
  shows "\<exists>t xs t'. shard_save_message env m s = (Inr (), t)
    \<and> shard_get_msgs env (receiver_id m) send_start send_end rec_start rec_end t = (Inr xs, t')
    \<and> own_seq_zero (receiver_id m) (stored_view m) \<in> set xs"
proof -
  obtain i where i: "get_user_range env (receiver_id m) = Inr i"
    using assms(2) by (auto simp: get_user_range_def)
  define c where "c = get_collection_name env (send_time m) i"
  obtain t where t: "shard_save_message env m s = (Inr (), t)" "sb_docs t = sb_docs s @ [(c, to_doc m)]"
    using shard_save_message_fresh [OF assms(1) i assms(7,6)] by (auto simp: c_def)
  have "c \<in> set (recent_collections env 3 i)"
    using assms(3-5) by (simp add: c_def recent_collections_def get_collection_name_def upt_rec)
  moreover have "to_doc m \<in> set (docs_in c t)" using t(2) by simp
  moreover have "shard_match_msgs (receiver_id m) send_start send_end rec_start rec_end (to_doc m)"
    using assms(9,10) by (simp add: shard_match_msgs_def gte_lte_def)
  ultimately show ?thesis
    using t(1) shard_get_msgs_mem [OF assms(1) i assms(8)] by fastforce
qed

text \<open>
  C21. A message stamped in milliseconds, as the producer stamps it, is stored where no pull
  looks: \<open>get_collection_name\<close> reads the stamp as seconds. Saving such a message, sent at most
  a year before the pull, changes no user's answer to \<open>get_msgs\<close>, whatever the ranges. What is
  used of chrono: \<open>%Y_%m\<close> names a month, so equal names are less than 31 days apart;
  subtracting months goes back at most 31 days each; dates up to year 250000 are in range.
\<close>

theorem shard_millis_never_pulled:
  assumes "env_up env"
    and ym: "\<And>a b. 0 \<le> a \<Longrightarrow> 0 \<le> b \<Longrightarrow> se_ym env a = se_ym env b \<Longrightarrow> \<bar>a - b\<bar> < 31 * 86400"
    and sub: "\<And>k t. se_sub_months env k (se_now env) = Some t \<Longrightarrow>
        se_now env - int k * (31 * 86400) \<le> t \<and> t \<le> se_now env"
    and in_range: "\<And>a. 0 \<le> a \<Longrightarrow> a \<le> 7800000000000 \<Longrightarrow> se_in_range env a"
    and now: "100000000 \<le> se_now env" "se_now env \<le> 7800000000"
    and millis: "1000 * (se_now env - 31536000) \<le> send_time m" "send_time m \<le> 1000 * se_now env"
    and save: "shard_save_message (env\<lparr>se_now := saved_at\<rparr>) m s = (Inr (), t)"
  shows "fst (shard_get_msgs env u send_start send_end rec_start rec_end t) =
         fst (shard_get_msgs env u send_start send_end rec_start rec_end s)"
  using save_elsewhere_invisible [OF assms(1) save millis_elsewhere [OF ym sub in_range now millis]] by blast

text \<open>
  The sharded pull includes the start of its ranges, where the unsharded one excludes it: a
  message the user has received under the very number it asks to resume after is delivered
  again by the sharded box and not by the unsharded box holding the same documents.
\<close>

theorem shard_start_redelivered:
  assumes "env_up env" and "get_user_range env u = Inr i"
    and "with_capacity (se_cap env) (rec_end - seq m) = Inr ()"
    and "c \<in> set (recent_collections env 3 i)" and "to_doc m \<in> set (docs_in c s)"
    and "receiver_id m = u" and "sender_id m \<noteq> u" and "seq m \<le> rec_end" and "shard_ok s"
  shows "(\<exists>xs t. shard_get_msgs env u 0 0 (seq m) rec_end s = (Inr xs, t) \<and> stored_view m \<in> set xs)
    \<and> (\<exists>ys. box_get_msgs (se_cap env) None u 0 0 (seq m) rec_end (map snd (sb_docs s))
           = (Inr ys, map snd (sb_docs s)) \<and> stored_view m \<notin> set ys)"
proof
  have "shard_match_msgs u 0 0 (seq m) rec_end (to_doc m)"
    using assms(6,8) by (simp add: shard_match_msgs_def gte_lte_def)
  moreover have "with_capacity (se_cap env) (0 - 0 + (rec_end - seq m)) = Inr ()" using assms(3) by simp
  ultimately show "\<exists>xs t. shard_get_msgs env u 0 0 (seq m) rec_end s = (Inr xs, t) \<and> stored_view m \<in> set xs"
    using shard_get_msgs_mem [OF assms(1,2) _ assms(4,5)] assms(7) by (fastforce simp: own_seq_zero_def)
next
  have ok: "box_ok (map snd (sb_docs s))" using assms(9) by (simp add: shard_ok_def)
  have cap: "with_capacity (se_cap env) (0 - 0 + (rec_end - seq m)) = Inr ()" using assms(3) by simp
  have "own_seq_zero u x \<noteq> stored_view m" if "wanted u 0 0 (seq m) rec_end x" for x
  proof
    assume e: "own_seq_zero u x = stored_view m"
    have "sender_id x = sender_id m" using arg_cong [OF e, of sender_id] by (simp add: own_seq_zero_def split: if_splits)
    moreover from this assms(7) have "seq x = seq m"
      using arg_cong [OF e, of seq] by (simp add: own_seq_zero_def)
    ultimately show False using that assms(7) by (simp add: wanted_def)
  qed
  then show "\<exists>ys. box_get_msgs (se_cap env) None u 0 0 (seq m) rec_end (map snd (sb_docs s))
           = (Inr ys, map snd (sb_docs s)) \<and> stored_view m \<notin> set ys"
    using box_get_msgs_eq [OF ok cap, of u] by force
qed

text \<open>
  The daily cleaning of the sharded box stops for good: once the month in which the box was
  initialised is older than the retention threshold, the tick waits forever for a write lock
  on the active set while it still holds the read lock.
\<close>

theorem shard_clean_deadlocks:
  assumes "env_up env" and "se_shards env \<noteq> 0" and "sb_active s = []"
    and "se_in_range env (se_now env)" and "se_add_months env 0 (se_now env) = Some (se_now env)"
    and "\<And>t. ym_shape (se_ym env t)"
    and "se_ym env (se_now env) < se_ym env (months_ago (env\<lparr>se_now := later\<rparr>) (retention_months period))"
  shows "shard_clean_tick (env\<lparr>se_now := later\<rparr>) period types (snd (initialize_system env s)) = None"
proof -
  define t where "t = snd (initialize_system env s)"
  define c where "c = get_collection_name env (se_now env) 0"
  have "months_ahead env 0 = se_now env" using assms(5) by (simp add: months_ahead_def)
  then have "c \<in> set (init_names env)"
    using assms(2) unfolding c_def init_names_def by force
  then have c: "c \<in> set (sb_active t)"
    by (simp add: t_def initialize_system_def init_loop_active [OF assms(1)])
  have "name_year_month c = Inr (Some (se_ym env (se_now env)))"
    using name_year_month_name [of env "se_now env" 0] assms(4,6) by (simp add: c_def)
  with assms(7) have "outdated (env\<lparr>se_now := later\<rparr>) period c"
    by (simp add: outdated_def)
  with c have "list_ex (outdated (env\<lparr>se_now := later\<rparr>) period) (sb_active t)"
    by (auto simp: list_ex_iff)
  moreover have "\<not> list_ex (\<lambda>c. isl (name_year_month c)) (sb_active t)"
  proof -
    have "set (sb_active t) \<subseteq> set (init_names env)"
      using init_loop_active_only [of env "init_names env" s] assms(3)
      by (simp add: t_def initialize_system_def)
    moreover have "\<not> isl (name_year_month x)" if "x \<in> set (init_names env)" for x
    proof -
      from that obtain k i where "x = get_collection_name env (months_ahead env k) i"
        unfolding init_names_def
        using in_concat_names [where f = "\<lambda>k. get_collection_name env (months_ahead env k)"] by blast
      with name_year_month_name [OF assms(6)] show ?thesis by simp
    qed
    ultimately show ?thesis by (auto simp: list_ex_iff)
  qed
  ultimately show ?thesis by (simp add: shard_clean_tick_def t_def Let_def)
qed

section \<open>Witnesses\<close>

text \<open>A calendar of thirty-day months, rendered as year and month.\<close>

definition demo_ym :: "int \<Rightarrow> string" where
  "demo_ym t = (let n = nat (t div 2592000) in show_nat (n div 12) @ ''_'' @ show_nat (n mod 12))"

definition demo_env :: shard_env where
  "demo_env = \<lparr>se_shards = 10, se_hash = length, se_now = 1700000000, se_in_range = (\<lambda>_. True),
     se_ym = demo_ym, se_add_months = (\<lambda>k t. Some (t + int k * 2592000)),
     se_sub_months = (\<lambda>k t. Some (t - int k * 2592000)), se_index = (\<lambda>_. None),
     se_query = (\<lambda>_. None), se_cap = 1000\<rparr>"

definition shard_empty :: shard_box where
  "shard_empty = \<lparr>sb_docs = [], sb_active = [], sb_cache = []\<rparr>"

lemma show_nat_last: "last (show_nat n) = char_of (48 + n mod 10)"
  by (subst show_nat.simps) simp

lemma show_nat_inj: "show_nat a = show_nat b \<Longrightarrow> a = b"
proof (induction a arbitrary: b rule: show_nat.induct)
  case (1 a)
  have digit: "(48 + k) mod 256 = 48 + k" if "k < 10" for k :: nat using that by simp
  have "char_of (48 + a mod 10) = (char_of (48 + b mod 10) :: char)"
    using "1.prems" by (metis show_nat_last)
  then have "(of_char (char_of (48 + a mod 10)) :: nat) = of_char (char_of (48 + b mod 10))" by simp
  then have m: "a mod 10 = b mod 10" by (simp add: digit)
  have ne: "show_nat n \<noteq> []" for n by (subst show_nat.simps) simp
  show ?case
  proof (cases "a < 10")
    case True
    with "1.prems" ne ne [symmetric] have "b < 10" by (simp add: show_nat.simps [of a] show_nat.simps [of b] split: if_splits)
    with True m show ?thesis by simp
  next
    case False
    with "1.prems" ne have "\<not> b < 10" by (auto simp: show_nat.simps [of a] show_nat.simps [of b] split: if_splits)
    with False "1.prems" have "show_nat (a div 10) = show_nat (b div 10)"
      by (simp add: show_nat.simps [of a] show_nat.simps [of b])
    with "1.IH" [OF False] have "a div 10 = b div 10" by simp
    with m show ?thesis by (metis div_mult_mod_eq)
  qed
qed

lemma demo_ym_close: "0 \<le> a \<Longrightarrow> 0 \<le> b \<Longrightarrow> demo_ym a = demo_ym b \<Longrightarrow> \<bar>a - b\<bar> < 31 * 86400"
proof -
  assume ab: "0 \<le> a" "0 \<le> b" "demo_ym a = demo_ym b"
  define n where "n = nat (a div 2592000)"
  define k where "k = nat (b div 2592000)"
  have e: "show_nat (n div 12) @ CHR ''_'' # show_nat (n mod 12) = show_nat (k div 12) @ CHR ''_'' # show_nat (k mod 12)"
    using ab(3) by (simp add: demo_ym_def n_def k_def Let_def)
  then have h: "show_nat (n div 12) = show_nat (k div 12)"
    by (rule last_separator [OF show_nat_no_underscore show_nat_no_underscore])
  with e have "show_nat (n mod 12) = show_nat (k mod 12)" by simp
  with h have "n div 12 = k div 12" "n mod 12 = k mod 12" by (auto dest: show_nat_inj)
  then have "n = k" by (metis div_mult_mod_eq)
  then have "a div 2592000 = b div 2592000" using ab(1,2) by (simp add: n_def k_def pos_imp_zdiv_nonneg_iff)
  then show ?thesis using ab(1,2) by (smt (verit) minus_div_mult_eq_mod pos_mod_bound pos_mod_sign)
qed

lemma demo_env_sel [simp]:
  "se_shards demo_env = 10" "se_hash demo_env = length" "se_now demo_env = 1700000000"
  "se_in_range demo_env a" "se_ym demo_env = demo_ym"
  "se_add_months demo_env k a = Some (a + int k * 2592000)"
  "se_sub_months demo_env k a = Some (a - int k * 2592000)" "se_cap demo_env = 1000"
  "env_up demo_env"
  by (simp_all add: demo_env_def env_up_def)

lemma shard_empty_ok [simp]: "shard_ok shard_empty" "sb_docs shard_empty = []" "sb_active shard_empty = []"
  by (simp_all add: shard_ok_def shard_empty_def)

lemma demo_ym_shape: "ym_shape (demo_ym t)"
  by (simp add: ym_shape_def demo_ym_def Let_def split_underscore_append split_underscore_plain
      show_nat_no_underscore)

definition demo_msg :: Msg where
  "demo_msg = msg_example\<lparr>send_time := 1700000000\<rparr>"

lemma demo_msg_sel [simp]:
  "sender_id demo_msg = ''a''" "receiver_id demo_msg = ''b''" "server_id demo_msg = ''s1''"
  "seq demo_msg = 3" "send_seq demo_msg = 7" "send_time demo_msg = 1700000000"
  "stored_view demo_msg = demo_msg"
  by (simp_all add: demo_msg_def) (simp add: msg_example_def msg_default_def stored_view_def)

theorem shard_save_then_pull_witness:
  "\<exists>t xs t'. shard_save_message demo_env demo_msg shard_empty = (Inr (), t)
    \<and> shard_get_msgs demo_env ''b'' 0 0 3 9 t = (Inr xs, t') \<and> demo_msg \<in> set xs"
  using shard_save_then_pull [of demo_env demo_msg shard_empty 0 0 9 3] with_capacity_small [of 6 1000]
  by (simp add: own_seq_zero_def)

theorem shard_millis_never_pulled_witness:
  "\<exists>t. shard_save_message demo_env (demo_msg\<lparr>send_time := 1700000000000\<rparr>) shard_empty = (Inr (), t)
    \<and> fst (shard_get_msgs demo_env ''b'' 0 9 0 9 t) = fst (shard_get_msgs demo_env ''b'' 0 9 0 9 shard_empty)"
proof -
  obtain t where t: "shard_save_message demo_env (demo_msg\<lparr>send_time := 1700000000000\<rparr>) shard_empty = (Inr (), t)"
    using shard_save_message_fresh [of demo_env "demo_msg\<lparr>send_time := 1700000000000\<rparr>" 1 shard_empty]
    by (auto simp: get_user_range_def)
  have "demo_env\<lparr>se_now := 1700000000\<rparr> = demo_env" by (simp add: demo_env_def)
  then have "shard_save_message (demo_env\<lparr>se_now := 1700000000\<rparr>) (demo_msg\<lparr>send_time := 1700000000000\<rparr>) shard_empty
      = (Inr (), t)"
    using t by (simp only:)
  from shard_millis_never_pulled [OF _ _ _ _ _ _ _ _ this, of "''b''" 0 9 0 9] t demo_ym_close
  show ?thesis by auto
qed

theorem shard_start_redelivered_witness:
  "\<exists>s. (\<exists>xs t. shard_get_msgs demo_env ''b'' 0 0 3 9 s = (Inr xs, t) \<and> demo_msg \<in> set xs)
    \<and> (\<exists>ys. box_get_msgs 1000 None ''b'' 0 0 3 9 (map snd (sb_docs s)) = (Inr ys, map snd (sb_docs s))
         \<and> demo_msg \<notin> set ys)"
proof -
  define c where "c = get_collection_name demo_env 1700000000 1"
  define s where "s = \<lparr>sb_docs = [(c, to_doc demo_msg)], sb_active = [], sb_cache = []\<rparr>"
  have "c \<in> set (recent_collections demo_env 3 1)" by (simp add: c_def recent_collections_def upt_rec)
  moreover have "to_doc demo_msg \<in> set (docs_in c s)" "shard_ok s"
    by (simp_all add: s_def docs_in_def shard_ok_def)
  moreover have "get_user_range demo_env ''b'' = Inr 1" by (simp add: get_user_range_def)
  ultimately show ?thesis
    using shard_start_redelivered [of demo_env "''b''" 1 9 demo_msg c s] with_capacity_small [of 6 1000] by auto
qed

theorem shard_clean_deadlocks_witness:
  "shard_clean_tick (demo_env\<lparr>se_now := 1800000000\<rparr>) 30 [] (snd (initialize_system demo_env shard_empty)) = None"
proof -
  have "months_ago (demo_env\<lparr>se_now := 1800000000\<rparr>) (retention_months 30) = 1792224000"
    by (simp add: months_ago_def retention_months_def demo_env_def)
  moreover have "demo_ym 1700000000 < demo_ym 1792224000"
    by (simp add: demo_ym_def show_nat.simps less_char_def)
  ultimately show ?thesis
    by (intro shard_clean_deadlocks) (simp_all add: demo_ym_shape)
qed

end
