(* ===== verification/Pusher.thy ===== *)
theory Pusher
  imports Sharded_Box
begin

text \<open>
  Fan-out to the websocket gateways (\<open>msg_server/src/pusher/service.rs\<close>) and the producer that
  puts messages on the queue (\<open>msg_server/src/productor.rs\<close>).

  The state of the pusher is the map of connected gateways, here the list of their addresses,
  together with the log of requests the gateways have accepted. From outside come: the answer
  of the service center, which addresses parse and accept a connection, which gateway
  refuses a push, and in which order the answers of the spawned pushes arrive.
\<close>

section \<open>State and environment\<close>

datatype push_request = PushSingle SendMsgRequest | PushGroup SendGroupMsgRequest

record pusher =
  ps_clients :: "string list"
  ps_sent :: "(string \<times> push_request) list"

text \<open>A service as the service center describes it.\<close>

record Service =
  sv_scheme :: string
  sv_address :: string
  sv_port :: nat

record push_env =
  pe_lookup :: "Service list res"
  pe_parse :: "string \<Rightarrow> string option"
  pe_connect :: "string \<Rightarrow> bool"
  pe_push :: "string \<Rightarrow> failure option"
  pe_arrival :: "string list \<Rightarrow> string list"

section \<open>Gateways\<close>

text \<open>The worker that follows the service discovery.\<close>

datatype change = InsertSvc string | RemoveSvc string

fun apply_change :: "(string \<Rightarrow> bool) \<Rightarrow> change \<Rightarrow> pusher \<Rightarrow> pusher" where
  "apply_change connect (InsertSvc a) p =
     (if connect a then p\<lparr>ps_clients := List.insert a (ps_clients p)\<rparr> else p)"
| "apply_change connect (RemoveSvc a) p = p\<lparr>ps_clients := removeAll a (ps_clients p)\<rparr>"

fun handle_sub_services :: "push_env \<Rightarrow> Service list \<Rightarrow> pusher \<Rightarrow> pusher" where
  "handle_sub_services env [] p = p"
| "handle_sub_services env (s # ss) p =
     (let addr = sv_address s @ '':'' @ show_nat (sv_port s) in
      case pe_parse env addr of
        None \<Rightarrow> handle_sub_services env ss p
      | Some socket \<Rightarrow>
          if pe_connect env (sv_scheme s @ ''://'' @ addr)
          then handle_sub_services env ss (p\<lparr>ps_clients := List.insert socket (ps_clients p)\<rparr>)
          else handle_sub_services env ss p)"

text \<open>The common start of both pushes: an empty map is filled from the service center.\<close>

definition refill :: "push_env \<Rightarrow> (pusher, unit) act" where
  "refill env p =
     (if ps_clients p = []
      then (case pe_lookup env of
              Inl (Failed e) \<Rightarrow> (Inl (Failed (internal_with_details (error_display e))), p)
            | Inl (Panicked m) \<Rightarrow> (Inl (Panicked m), p)
            | Inr list \<Rightarrow> (Inr (), handle_sub_services env list p))
      else (Inr (), p))"

text \<open>\<open>mpsc::channel(0)\<close> panics.\<close>

definition channel_of :: "nat \<Rightarrow> unit res" where
  "channel_of n = (if n = 0 then Inl (Panicked ''mpsc bounded channel requires buffer > 0'') else Inr ())"

definition deliver :: "push_env \<Rightarrow> push_request \<Rightarrow> pusher \<Rightarrow> pusher" where
  "deliver env req p = p\<lparr>ps_sent := ps_sent p @
     map (\<lambda>a. (a, req)) (filter (\<lambda>a. pe_push env a = None) (ps_clients p))\<rparr>"

definition push_single_msg :: "push_env \<Rightarrow> Msg \<Rightarrow> (pusher, unit) act" where
  "push_single_msg env m =
     and_then (refill env) (\<lambda>_ p.
       (case channel_of (length (ps_clients p)) of
          Inl e \<Rightarrow> (Inl e, p)
        | Inr _ \<Rightarrow>
            (let p1 = deliver env (PushSingle \<lparr>message = Some m\<rparr>) p in
             (Inr (), p1\<lparr>ps_clients := filter (\<lambda>a. pe_push env a = None) (ps_clients p)\<rparr>))))"

text \<open>\<open>while let Some(Err(..)) = rx.recv()\<close>: the loop over the answers in their order of arrival
  ends at the first success.\<close>

fun drop_failed :: "push_env \<Rightarrow> string list \<Rightarrow> string list \<Rightarrow> string list" where
  "drop_failed env [] clients = clients"
| "drop_failed env (a # as) clients =
     (case pe_push env a of
        None \<Rightarrow> clients
      | Some e \<Rightarrow> drop_failed env as (removeAll a clients))"

definition push_group_msg :: "push_env \<Rightarrow> Msg \<Rightarrow> GroupMemSeq list \<Rightarrow> (pusher, unit) act" where
  "push_group_msg env m gs =
     and_then (refill env) (\<lambda>_ p.
       (case channel_of (length (ps_clients p)) of
          Inl e \<Rightarrow> (Inl e, p)
        | Inr _ \<Rightarrow>
            (let p1 = deliver env (PushGroup \<lparr>group_message = Some m, members = gs\<rparr>) p in
             (Inr (), p1\<lparr>ps_clients := drop_failed env (pe_arrival env (ps_clients p)) (ps_clients p)\<rparr>))))"

section \<open>The producer\<close>

text \<open>\<open>send_msg\<close>: \<open>nid\<close> is the fresh \<open>nanoid\<close>, \<open>now\<close> the clock in milliseconds, \<open>encode\<close> the JSON
  serialisation, \<open>kafka\<close> the error text of a refused record. The queue is the list of payloads.\<close>

definition is_receipt :: "int \<Rightarrow> bool" where
  "is_receipt t \<longleftrightarrow> t = msg_type_code GroupDismissOrExitReceived
     \<or> t = msg_type_code GroupInvitationReceived \<or> t = msg_type_code FriendshipReceived"

definition stamp :: "string \<Rightarrow> int \<Rightarrow> Msg \<Rightarrow> Msg" where
  "stamp nid now m =
     (if is_receipt (msg_type m) then m else m\<lparr>server_id := nid\<rparr>)\<lparr>send_time := now\<rparr>"

definition send_msg ::
  "(Msg \<Rightarrow> string) \<Rightarrow> string \<Rightarrow> int \<Rightarrow> string option \<Rightarrow> SendMsgRequest \<Rightarrow> string list
     \<Rightarrow> (Status + MsgResponse) \<times> string list" where
  "send_msg encode nid now kafka req queue =
     (case message req of
        None \<Rightarrow> (Inl \<lparr>status_code = InvalidArgument, status_message = ''message is empty'',
                   status_details = ''''\<rparr>, queue)
      | Some m0 \<Rightarrow>
          (let m = stamp nid now m0 in
           (Inr \<lparr>resp_client_id = client_id m, resp_server_id = server_id m, resp_send_time = send_time m,
                 resp_err = (case kafka of None \<Rightarrow> '''' | Some e \<Rightarrow> e)\<rparr>,
            if kafka = None then queue @ [encode m] else queue)))"

section \<open>Facts\<close>

definition pusher_ok :: "pusher \<Rightarrow> bool" where
  "pusher_ok p \<longleftrightarrow> distinct (ps_clients p)"

lemma handle_sub_services_keeps:
  "pusher_ok p \<Longrightarrow> pusher_ok (handle_sub_services env ss p)"
  "ps_sent (handle_sub_services env ss p) = ps_sent p"
  "set (ps_clients p) \<subseteq> set (ps_clients (handle_sub_services env ss p))"
proof (induction ss arbitrary: p)
  case Nil
  { case 1 then show ?case by simp }
  { case 2 then show ?case by simp }
  { case 3 then show ?case by simp }
next
  case (Cons s ss)
  { case 1 then show ?case using Cons.IH(1) by (auto simp: Let_def pusher_ok_def split: option.split) }
  { case 2 then show ?case using Cons.IH(2) by (auto simp: Let_def split: option.split) }
  { case 3 then show ?case using Cons.IH(3) by (fastforce simp: Let_def split: option.split) }
qed

lemma refill_connected: "ps_clients p \<noteq> [] \<Longrightarrow> refill env p = (Inr (), p)"
  by (simp add: refill_def)

lemma drop_failed_filter:
  "drop_failed env as clients =
     filter (\<lambda>a. a \<notin> set (takeWhile (\<lambda>a. pe_push env a \<noteq> None) as)) clients"
proof (induction as arbitrary: clients)
  case Nil
  then show ?case by simp
next
  case (Cons a as)
  show ?case
  proof (cases "pe_push env a")
    case None
    then show ?thesis by simp
  next
    case (Some e)
    then show ?thesis using Cons [of "removeAll a clients"]
      by (auto simp: removeAll_filter_not_eq intro!: filter_cong)
  qed
qed

section \<open>Properties\<close>

text \<open>
  A single message reaches every connected gateway that answers, and afterwards exactly
  those gateways are still connected: a gateway that fails is dropped, no other is.
\<close>

theorem push_single_reaches_all:
  assumes "ps_clients p \<noteq> []"
  shows "\<exists>p'. push_single_msg env m p = (Inr (), p')
    \<and> ps_sent p' = ps_sent p @ map (\<lambda>a. (a, PushSingle \<lparr>message = Some m\<rparr>))
        (filter (\<lambda>a. pe_push env a = None) (ps_clients p))
    \<and> ps_clients p' = filter (\<lambda>a. pe_push env a = None) (ps_clients p)"
  using assms
  by (simp add: push_single_msg_def and_then_def refill_connected channel_of_def deliver_def Let_def)

text \<open>
  A group message reaches every connected gateway that answers as well, but of the failing
  gateways only those are dropped whose answer arrived before the first success; one that
  fails later stays in the map.
\<close>

theorem push_group_drops_prefix:
  assumes "ps_clients p \<noteq> []"
  shows "\<exists>p'. push_group_msg env m gs p = (Inr (), p')
    \<and> ps_sent p' = ps_sent p @ map (\<lambda>a. (a, PushGroup \<lparr>group_message = Some m, members = gs\<rparr>))
        (filter (\<lambda>a. pe_push env a = None) (ps_clients p))
    \<and> ps_clients p' = filter (\<lambda>a. a \<notin> set (takeWhile (\<lambda>a. pe_push env a \<noteq> None)
        (pe_arrival env (ps_clients p)))) (ps_clients p)"
  using assms
  by (simp add: push_group_msg_def and_then_def refill_connected channel_of_def deliver_def Let_def
      drop_failed_filter)

text \<open>
  With no gateway connected and none found by the service center, a push does not fail
  with an error: it panics on a channel of capacity zero.
\<close>

theorem push_without_gateway_panics:
  assumes "ps_clients p = []" and "pe_lookup env = Inr []"
  shows "push_single_msg env m p = (Inl (Panicked ''mpsc bounded channel requires buffer > 0''), p)
    \<and> push_group_msg env m gs p = (Inl (Panicked ''mpsc bounded channel requires buffer > 0''), p)"
  using assms
  by (simp add: push_single_msg_def push_group_msg_def and_then_def refill_def channel_of_def)

text \<open>
  The producer queues exactly one record per accepted request: the request's message with
  a fresh server id (a receipt keeps the id it refers to) and the server's send time, and it
  tells the client the id and time it used; a refused record is reported in the answer's
  error text and queues nothing.
\<close>

theorem send_msg_queues:
  assumes "message req = Some m"
  shows "\<exists>resp. send_msg encode nid now kafka req queue =
      (Inr resp, if kafka = None then queue @ [encode (stamp nid now m)] else queue)
    \<and> resp_client_id resp = client_id m \<and> resp_send_time resp = now
    \<and> resp_server_id resp = (if is_receipt (msg_type m) then server_id m else nid)
    \<and> (resp_err resp = '''' \<longleftrightarrow> kafka = None \<or> kafka = Some '''')"
  using assms by (auto simp: send_msg_def stamp_def Let_def split: option.split)

definition demo_penv :: push_env where
  "demo_penv = \<lparr>pe_lookup = Inr [], pe_parse = Some, pe_connect = (\<lambda>_. True),
     pe_push = (\<lambda>a. if a = ''down'' then Some (Failed (with_kind TonicError)) else None), pe_arrival = id\<rparr>"

theorem push_single_reaches_all_witness:
  "\<exists>p'. push_single_msg demo_penv msg_example \<lparr>ps_clients = [''up'', ''down''], ps_sent = []\<rparr> = (Inr (), p')
    \<and> ps_clients p' = [''up'']"
  using push_single_reaches_all [of "\<lparr>ps_clients = [''up'', ''down''], ps_sent = []\<rparr>" demo_penv msg_example]
  by (auto simp: demo_penv_def)

theorem push_group_drops_prefix_witness:
  "\<exists>p'. push_group_msg demo_penv msg_example [] \<lparr>ps_clients = [''up'', ''down''], ps_sent = []\<rparr> = (Inr (), p')
    \<and> ps_clients p' = [''up'', ''down'']"
  using push_group_drops_prefix [of "\<lparr>ps_clients = [''up'', ''down''], ps_sent = []\<rparr>" demo_penv msg_example "[]"]
  by (auto simp: demo_penv_def)

theorem push_without_gateway_panics_witness:
  "push_single_msg demo_penv msg_example \<lparr>ps_clients = [], ps_sent = []\<rparr> =
     (Inl (Panicked ''mpsc bounded channel requires buffer > 0''), \<lparr>ps_clients = [], ps_sent = []\<rparr>)"
  using push_without_gateway_panics [of "\<lparr>ps_clients = [], ps_sent = []\<rparr>" demo_penv msg_example]
  by (simp add: demo_penv_def)

theorem send_msg_queues_witness:
  "\<exists>resp. send_msg client_id ''id1'' 5 None \<lparr>message = Some msg_default\<rparr> [] = (Inr resp, [''''])
     \<and> resp_server_id resp = ''id1''"
  using send_msg_queues [of "\<lparr>message = Some msg_default\<rparr>" msg_default client_id "''id1''" 5 None "[]"]
  by (auto simp: stamp_def is_receipt_def msg_default_def)

end
