(* ===== verification/Hub.thy ===== *)
theory Hub
  imports Pusher "HOL-Library.AList"
begin

text \<open>
  The connection hub of a websocket gateway (\<open>msg_gateway/src/manager.rs\<close>, \<open>client.rs\<close>) and its
  gRPC face (\<open>rpc.rs\<close>). The hub maps a user to the clients of that user by platform; both maps
  are association lists, whose order stands for the unspecified iteration order of \<open>DashMap\<close>.

  A client is known by the number of its connection; \<open>mg_sent\<close> is the log of the binary frames
  its sink has accepted. From outside come the serialisations, which sinks accept a frame, the
  Redis call, the call to the chat service and that service's clock, ids and queue.
\<close>

section \<open>State and environment\<close>

record Client =
  cl_conn :: nat
  cl_user_id :: string
  cl_platform_id :: string
  cl_platform :: PlatformType

type_synonym clients = "(PlatformType \<times> Client) list"

record manager =
  mg_hub :: "(string \<times> clients) list"
  mg_sent :: "(nat \<times> string) list"
  mg_redis :: redis
  mg_kafka :: "string list"

record hub_env =
  he_encode :: "Msg \<Rightarrow> string option"
  he_sink :: "nat \<Rightarrow> bool"
  he_step :: int
  he_seq :: "failure option"
  he_rpc :: "Status option"
  he_json :: "Msg \<Rightarrow> string"
  he_nanoid :: string
  he_now :: int
  he_kafka :: "string option"
  he_status_text :: "Status \<Rightarrow> string"

section \<open>Sending to clients\<close>

definition send_binary :: "hub_env \<Rightarrow> Client \<Rightarrow> string \<Rightarrow> manager \<Rightarrow> manager" where
  "send_binary env c bytes mg =
     (if he_sink env (cl_conn c) then mg\<lparr>mg_sent := mg_sent mg @ [(cl_conn c, bytes)]\<rparr> else mg)"

text \<open>No client and more than two clients are only logged.\<close>

definition send_msg_to_clients :: "hub_env \<Rightarrow> clients \<Rightarrow> Msg \<Rightarrow> manager \<Rightarrow> manager" where
  "send_msg_to_clients env cs m mg =
     (case cs of
        [] \<Rightarrow> mg
      | [(_, c)] \<Rightarrow>
          (case he_encode env m of None \<Rightarrow> mg | Some bytes \<Rightarrow> send_binary env c bytes mg)
      | [(_, c), (_, d)] \<Rightarrow>
          (case he_encode env m of
             None \<Rightarrow> mg
           | Some bytes \<Rightarrow> send_binary env d bytes (send_binary env c bytes mg))
      | _ \<Rightarrow> mg)"

text \<open>The sender's client on the other platform.\<close>

definition other_platform :: "Msg \<Rightarrow> PlatformType" where
  "other_platform m = (if platform m = platform_code Mobile then Desktop else Mobile)"

definition send_to_self :: "hub_env \<Rightarrow> string \<Rightarrow> Msg \<Rightarrow> manager \<Rightarrow> manager" where
  "send_to_self env i m mg =
     (case map_of (mg_hub mg) i of
        None \<Rightarrow> mg
      | Some cs \<Rightarrow>
          (case map_of cs (other_platform m) of
             None \<Rightarrow> mg
           | Some c \<Rightarrow>
               (case he_encode env m of None \<Rightarrow> mg | Some bytes \<Rightarrow> send_binary env c bytes mg)))"

definition send_single_msg :: "hub_env \<Rightarrow> string \<Rightarrow> Msg \<Rightarrow> manager \<Rightarrow> manager" where
  "send_single_msg env i m mg =
     send_to_self env (sender_id m) m
       (case map_of (mg_hub mg) i of None \<Rightarrow> mg | Some cs \<Rightarrow> send_msg_to_clients env cs m mg)"

text \<open>The loop keeps the sequence number it set last: a member without clients leaves it alone.\<close>

fun send_members :: "hub_env \<Rightarrow> Msg \<Rightarrow> GroupMemSeq list \<Rightarrow> manager \<Rightarrow> manager" where
  "send_members env m [] mg = mg"
| "send_members env m (g # gs) mg =
     (case map_of (mg_hub mg) (mem_id g) of
        None \<Rightarrow> send_members env m gs mg
      | Some cs \<Rightarrow>
          (let m' = m\<lparr>seq := cur_seq g\<rparr> in send_members env m' gs (send_msg_to_clients env cs m' mg)))"

definition send_group :: "hub_env \<Rightarrow> GroupMemSeq list \<Rightarrow> Msg \<Rightarrow> manager \<Rightarrow> manager" where
  "send_group env gs m mg =
     send_members env (m\<lparr>send_seq := 0\<rparr>) gs (send_to_self env (sender_id m) m mg)"

section \<open>Registration\<close>

definition register :: "string \<Rightarrow> Client \<Rightarrow> manager \<Rightarrow> manager" where
  "register i c mg =
     mg\<lparr>mg_hub := AList.update i
       (AList.update (cl_platform c) c (case map_of (mg_hub mg) i of None \<Rightarrow> [] | Some cs \<Rightarrow> cs))
       (mg_hub mg)\<rparr>"

text \<open>A user with one client loses its whole entry, whatever the platform.\<close>

definition unregister :: "string \<Rightarrow> PlatformType \<Rightarrow> manager \<Rightarrow> manager" where
  "unregister i p mg =
     (case map_of (mg_hub mg) i of
        None \<Rightarrow> mg
      | Some cs \<Rightarrow>
          if length cs = 1 then mg\<lparr>mg_hub := AList.delete i (mg_hub mg)\<rparr>
          else mg\<lparr>mg_hub := AList.update i (AList.delete p cs) (mg_hub mg)\<rparr>)"

section \<open>Messages from clients\<close>

definition create_error_message :: "Msg \<Rightarrow> string \<Rightarrow> Msg" where
  "create_error_message m err =
     m\<lparr>content_type := content_type_code ErrorContent, msg_type := msg_type_code MsgRecResp, content := err\<rparr>"

definition failure_text :: "failure \<Rightarrow> string" where
  "failure_text f = (case f of Failed e \<Rightarrow> error_display e | Panicked p \<Rightarrow> p)"

definition send_rpc_message :: "hub_env \<Rightarrow> Msg \<Rightarrow> manager \<Rightarrow> (Status + MsgResponse) \<times> manager" where
  "send_rpc_message env m mg =
     (case he_rpc env of
        Some st \<Rightarrow> (Inl st, mg)
      | None \<Rightarrow>
          (case send_msg (he_json env) (he_nanoid env) (he_now env) (he_kafka env) \<lparr>message = Some m\<rparr> (mg_kafka mg) of
             (r, q) \<Rightarrow> (r, mg\<lparr>mg_kafka := q\<rparr>)))"

definition process_message :: "hub_env \<Rightarrow> Msg \<Rightarrow> manager \<Rightarrow> Msg \<times> manager" where
  "process_message env m mg =
     (case incr_send_seq (he_step env) (he_seq env) (sender_id m) (mg_redis mg) of
        (Inl e, r) \<Rightarrow> (create_error_message m (failure_text e), mg\<lparr>mg_redis := r\<rparr>)
      | (Inr (n, _, _), r) \<Rightarrow>
          (let m1 = m\<lparr>send_seq := n\<rparr> in
           case send_rpc_message env m1 (mg\<lparr>mg_redis := r\<rparr>) of
             (Inl st, mg1) \<Rightarrow> (create_error_message m1 (he_status_text env st), mg1)
           | (Inr resp, mg1) \<Rightarrow>
               (let m2 = (if resp_err resp = '''' then m1\<lparr>content := ''''\<rparr>
                          else create_error_message m1 (resp_err resp))
                in (m2\<lparr>msg_type := msg_type_code MsgRecResp, server_id := resp_server_id resp,
                       send_time := resp_send_time resp\<rparr>, mg1))))"

text \<open>The loop over the channel of messages from clients, each with the environment it meets.\<close>

fun run :: "(hub_env \<times> Msg) list \<Rightarrow> manager \<Rightarrow> manager" where
  "run [] mg = mg"
| "run ((env, m) # rest) mg =
     (case process_message env m mg of
        (reply, mg1) \<Rightarrow> run rest (send_single_msg env (sender_id reply) reply mg1))"

text \<open>The channel itself: sending fails once its receiver is gone.\<close>

definition broadcast :: "bool \<Rightarrow> Msg \<Rightarrow> Msg list \<Rightarrow> unit res \<times> Msg list" where
  "broadcast closed m q =
     (if closed then (Inl (Failed (broadcast_error ''channel closed'')), q) else (Inr (), q @ [m]))"

section \<open>The gRPC service of the gateway\<close>

definition message_is_empty :: Status where
  "message_is_empty = \<lparr>status_code = InvalidArgument, status_message = ''message is empty'', status_details = ''''\<rparr>"

definition rpc_send_message :: "bool \<Rightarrow> SendMsgRequest \<Rightarrow> Msg list \<Rightarrow> (Status + unit) \<times> Msg list" where
  "rpc_send_message closed req q =
     (case message req of
        None \<Rightarrow> (Inl message_is_empty, q)
      | Some m \<Rightarrow>
          (case broadcast closed m q of
             (Inl (Failed e), q') \<Rightarrow> (Inl (status_of_error e), q')
           | (Inl (Panicked p), q') \<Rightarrow> (Inl (status_of_error (internal p)), q')
           | (Inr _, q') \<Rightarrow> (Inr (), q')))"

definition send_msg_to_user :: "hub_env \<Rightarrow> SendMsgRequest \<Rightarrow> manager \<Rightarrow> (Status + unit) \<times> manager" where
  "send_msg_to_user env req mg =
     (case message req of
        None \<Rightarrow> (Inl message_is_empty, mg)
      | Some m \<Rightarrow> (Inr (), send_single_msg env (receiver_id m) m mg))"

definition send_group_msg_to_user :: "hub_env \<Rightarrow> SendGroupMsgRequest \<Rightarrow> manager \<Rightarrow> (Status + unit) \<times> manager" where
  "send_group_msg_to_user env req mg =
     (case group_message req of
        None \<Rightarrow> (Inl message_is_empty, mg)
      | Some m \<Rightarrow> (Inr (), send_group env (members req) m mg))"

declare send_binary_def [hub_defs] send_msg_to_clients_def [hub_defs] send_to_self_def [hub_defs]
  send_single_msg_def [hub_defs] send_group_def [hub_defs] send_rpc_message_def [hub_defs]
  process_message_def [hub_defs] register_def [hub_defs] unregister_def [hub_defs]

section \<open>The directory the hub implements\<close>

text \<open>What the sessions rely on: a registration is found under its user and platform, and removing
  a registered client removes it and no other.\<close>

locale client_directory =
  fixes inv :: "'s \<Rightarrow> bool"
    and look :: "'s \<Rightarrow> string \<times> PlatformType \<Rightarrow> Client option"
    and add :: "string \<Rightarrow> Client \<Rightarrow> 's \<Rightarrow> 's"
    and drop :: "string \<Rightarrow> PlatformType \<Rightarrow> 's \<Rightarrow> 's"
  assumes add_inv: "inv s \<Longrightarrow> inv (add u c s)"
    and drop_inv: "inv s \<Longrightarrow> inv (drop u p s)"
    and look_add: "inv s \<Longrightarrow> look (add u c s) = (look s)((u, cl_platform c) \<mapsto> c)"
    and look_drop: "inv s \<Longrightarrow> look s (u, p) \<noteq> None \<Longrightarrow> look (drop u p s) = (look s)((u, p) := None)"
    and drop_only: "inv s \<Longrightarrow> look (drop u p s) k \<noteq> None \<Longrightarrow> look (drop u p s) k = look s k \<and> k \<noteq> (u, p)"
begin

text \<open>A client that joins and leaves again, undisturbed, leaves the directory as it was except for
  the registration it replaced.\<close>

lemma join_leave:
  assumes "inv s"
  shows "look (drop u (cl_platform c) (add u c s)) = (look s)((u, cl_platform c) := None)"
  using assms look_drop [OF add_inv [OF assms], of u c u "cl_platform c"] by (simp add: look_add)

end

definition hub_look :: "manager \<Rightarrow> string \<times> PlatformType \<Rightarrow> Client option" where
  "hub_look mg k = (case map_of (mg_hub mg) (fst k) of None \<Rightarrow> None | Some cs \<Rightarrow> map_of cs (snd k))"

definition clients_ok :: "clients \<Rightarrow> bool" where
  "clients_ok cs \<longleftrightarrow> cs \<noteq> [] \<and> distinct (map fst cs) \<and> (\<forall>p c. map_of cs p = Some c \<longrightarrow> cl_platform c = p)"

definition hub_ok :: "manager \<Rightarrow> bool" where
  "hub_ok mg \<longleftrightarrow> distinct (map fst (mg_hub mg))
     \<and> (\<forall>u cs. map_of (mg_hub mg) u = Some cs \<longrightarrow> clients_ok cs)"

lemma platforms: "(UNIV :: PlatformType set) = {Desktop, Mobile}"
  by (auto intro: PlatformType.exhaust)

text \<open>Every registered user has one or two clients, so the other branches of
  \<open>send_msg_to_clients\<close> are never taken.\<close>

lemma clients_ok_length: "clients_ok cs \<Longrightarrow> length cs = 1 \<or> length cs = 2"
proof -
  assume ok: "clients_ok cs"
  have "length cs = card (set (map fst cs))"
    using ok distinct_card [of "map fst cs"] by (simp add: clients_ok_def del: set_map)
  also have "\<dots> \<le> card (UNIV :: PlatformType set)"
    by (rule card_mono [OF _ subset_UNIV]) (simp add: platforms)
  finally have "length cs \<le> 2" by (simp add: platforms)
  moreover have "length cs \<noteq> 0" using ok by (simp add: clients_ok_def)
  ultimately show ?thesis by linarith
qed

lemma clients_okD:
  assumes "clients_ok cs"
  obtains c where "cs = [(cl_platform c, c)]"
  | c d where "cs = [(cl_platform c, c), (cl_platform d, d)]" and "cl_platform c \<noteq> cl_platform d"
proof -
  have plat: "cl_platform c = p" if "(p, c) \<in> set cs" for p c
    using assms that map_of_is_SomeI [of cs p c] by (simp add: clients_ok_def)
  from clients_ok_length [OF assms] show ?thesis
  proof
    assume "length cs = 1"
    then obtain p c where "cs = [(p, c)]" by (auto simp: length_Suc_conv)
    with plat that(1) show ?thesis by simp
  next
    assume "length cs = 2"
    then obtain x y where xy: "cs = [x, y]" by (auto simp: length_Suc_conv numeral_2_eq_2)
    then have "x = (cl_platform (snd x), snd x)" "y = (cl_platform (snd y), snd y)"
      using plat [of "fst x" "snd x"] plat [of "fst y" "snd y"] by simp_all
    moreover have "fst x \<noteq> fst y" using assms xy by (simp add: clients_ok_def)
    ultimately show ?thesis using that(2) [of "snd x" "snd y"] xy by (metis fst_conv)
  qed
qed

lemma hub_ok_entry: "hub_ok mg \<Longrightarrow> map_of (mg_hub mg) u = Some cs \<Longrightarrow> clients_ok cs"
  by (simp add: hub_ok_def)

lemma register_hub: "mg_hub (register u c mg) = AList.update u (AList.update (cl_platform c) c
    (case map_of (mg_hub mg) u of None \<Rightarrow> [] | Some cs \<Rightarrow> cs)) (mg_hub mg)"
  by (simp add: register_def)

lemma register_ok: "hub_ok mg \<Longrightarrow> hub_ok (register u c mg)"
  by (auto simp: hub_ok_def register_hub clients_ok_def update_conv' distinct_update split: option.splits if_splits)

lemma register_look: "hub_look (register u c mg) = (hub_look mg)((u, cl_platform c) \<mapsto> c)"
  by (rule ext) (auto simp: hub_look_def register_hub update_conv' split: option.split)

lemma delete_one_of_two:
  "p \<noteq> q \<Longrightarrow> AList.delete p [(p, c), (q, d)] = [(q, d)]"
  "p \<noteq> q \<Longrightarrow> AList.delete q [(p, c), (q, d)] = [(p, c)]"
  by simp_all

lemma unregister_cases:
  assumes "hub_ok mg" and "map_of (mg_hub mg) u = Some cs"
  obtains c where "cs = [(cl_platform c, c)]"
      and "mg_hub (unregister u p mg) = AList.delete u (mg_hub mg)"
  | c d where "cs = [(p, c), (cl_platform d, d)] \<or> cs = [(cl_platform d, d), (p, c)]" and "cl_platform d \<noteq> p"
      and "mg_hub (unregister u p mg) = AList.update u [(cl_platform d, d)] (mg_hub mg)"
  using hub_ok_entry [OF assms]
proof (cases rule: clients_okD)
  case (1 c)
  with assms(2) that(1) show ?thesis by (simp add: unregister_def)
next
  case (2 c d)
  then have "p = cl_platform c \<or> p = cl_platform d"
    by (cases p; cases "cl_platform c"; cases "cl_platform d") simp_all
  with 2 assms(2) that(2) [of c d] that(2) [of d c] show ?thesis by (auto simp: unregister_def)
qed

lemma unregister_ok: "hub_ok mg \<Longrightarrow> hub_ok (unregister u p mg)"
proof (cases "map_of (mg_hub mg) u")
  case None
  then show "hub_ok mg \<Longrightarrow> ?thesis" by (simp add: unregister_def)
next
  case (Some cs)
  assume ok: "hub_ok mg"
  from ok Some show ?thesis
    by (cases rule: unregister_cases [where p = p])
       (use ok in \<open>auto simp: hub_ok_def delete_conv' update_conv' distinct_delete distinct_update
          clients_ok_def split: if_splits\<close>)
qed

lemma unregister_look:
  assumes "hub_ok mg" and "hub_look mg (u, p) \<noteq> None"
  shows "hub_look (unregister u p mg) = (hub_look mg)((u, p) := None)"
proof -
  obtain cs where cs: "map_of (mg_hub mg) u = Some cs"
    using assms(2) by (auto simp: hub_look_def split: option.splits)
  from assms(1) cs show ?thesis
    by (cases rule: unregister_cases [where p = p])
       (use cs assms(2) in \<open>auto simp: hub_look_def fun_eq_iff delete_conv' update_conv' split: option.splits if_splits\<close>)
qed

lemma unregister_only:
  assumes "hub_ok mg" and "hub_look (unregister u p mg) (v, q) \<noteq> None"
  shows "hub_look (unregister u p mg) (v, q) = hub_look mg (v, q) \<and> (v, q) \<noteq> (u, p)"
proof (cases "map_of (mg_hub mg) u")
  case None
  with assms(2) show ?thesis by (auto simp: unregister_def hub_look_def)
next
  case (Some cs)
  from assms(1) Some show ?thesis
    by (cases rule: unregister_cases [where p = p])
       (use Some assms(2) in \<open>auto simp: hub_look_def delete_conv' update_conv' split: option.splits if_splits\<close>)
qed

interpretation hub: client_directory hub_ok hub_look register unregister
proof
  fix u p mg k
  assume "hub_ok mg" "hub_look (unregister u p mg) k \<noteq> None"
  then show "hub_look (unregister u p mg) k = hub_look mg k \<and> k \<noteq> (u, p)"
    using unregister_only [of mg u p "fst k" "snd k"] by simp
qed (simp_all add: register_ok unregister_ok register_look unregister_look)

section \<open>What is delivered\<close>

text \<open>The frame a possible client gets.\<close>

definition frame :: "hub_env \<Rightarrow> string \<Rightarrow> Client option \<Rightarrow> (nat \<times> string) multiset" where
  "frame env b oc =
     (case oc of Some c \<Rightarrow> if he_sink env (cl_conn c) then {#(cl_conn c, b)#} else {#} | None \<Rightarrow> {#})"

abbreviation frames :: "hub_env \<Rightarrow> string \<Rightarrow> string \<Rightarrow> manager \<Rightarrow> (nat \<times> string) multiset" where
  "frames env b u mg \<equiv> frame env b (hub_look mg (u, Desktop)) + frame env b (hub_look mg (u, Mobile))"

lemma send_binary_sent:
  "mset (mg_sent (send_binary env c b mg)) = mset (mg_sent mg) + frame env b (Some c)"
  by (simp add: send_binary_def frame_def)

lemma send_keeps_hub [simp]:
  "mg_hub (send_binary env c b mg) = mg_hub mg" "mg_redis (send_binary env c b mg) = mg_redis mg"
  "mg_kafka (send_binary env c b mg) = mg_kafka mg"
  "mg_hub (send_msg_to_clients env cs m mg) = mg_hub mg" "mg_hub (send_to_self env u m mg) = mg_hub mg"
  by (simp_all add: send_binary_def send_msg_to_clients_def send_to_self_def split: list.split option.split)

lemma hub_look_cong: "mg_hub mg = mg_hub mg' \<Longrightarrow> hub_look mg = hub_look mg'"
  by (simp add: hub_look_def fun_eq_iff)

lemma send_msg_to_clients_sent:
  assumes "clients_ok cs" and "he_encode env m = Some b"
  shows "mset (mg_sent (send_msg_to_clients env cs m mg)) =
    mset (mg_sent mg) + frame env b (map_of cs Desktop) + frame env b (map_of cs Mobile)"
  using assms(1)
proof (cases rule: clients_okD)
  case (1 c)
  then show ?thesis using assms(2)
    by (cases "cl_platform c") (simp_all add: send_msg_to_clients_def send_binary_sent, simp_all add: frame_def)
next
  case (2 c d)
  then show ?thesis using assms(2)
    by (cases "cl_platform c"; cases "cl_platform d") (simp_all add: send_msg_to_clients_def send_binary_sent)
qed

lemma send_user_sent:
  assumes "hub_ok mg" and "he_encode env m = Some b"
  shows "mset (mg_sent (case map_of (mg_hub mg) u of None \<Rightarrow> mg | Some cs \<Rightarrow> send_msg_to_clients env cs m mg)) =
    mset (mg_sent mg) + frames env b u mg"
  using send_msg_to_clients_sent [OF hub_ok_entry [OF assms(1)] assms(2)]
  by (auto simp: hub_look_def frame_def split: option.split)

lemma send_to_self_sent:
  "he_encode env m = Some b \<Longrightarrow>
   mset (mg_sent (send_to_self env u m mg)) = mset (mg_sent mg) + frame env b (hub_look mg (u, other_platform m))"
  by (auto simp: send_to_self_def hub_look_def send_binary_sent frame_def split: option.split)

lemma send_single_msg_sent:
  assumes "hub_ok mg" and "he_encode env m = Some b"
  shows "mset (mg_sent (send_single_msg env u m mg)) =
    mset (mg_sent mg) + frames env b u mg + frame env b (hub_look mg (sender_id m, other_platform m))"
  using send_user_sent [OF assms, of u]
  by (simp add: send_single_msg_def send_to_self_sent [OF assms(2)] add.assoc)
     (simp add: hub_look_def split: option.split)

lemma send_members_sent:
  assumes "hub_ok mg" and "\<And>x. he_encode env x = Some (e x)"
  shows "mset (mg_sent (send_members env m gs mg)) = mset (mg_sent mg) +
    (\<Sum>g\<in>#mset gs. frames env (e (m\<lparr>seq := cur_seq g\<rparr>)) (mem_id g) mg)"
  using assms(1)
proof (induction gs arbitrary: m mg)
  case Nil
  then show ?case by simp
next
  case (Cons g gs)
  show ?case
  proof (cases "map_of (mg_hub mg) (mem_id g)")
    case None
    with Cons.IH [OF Cons.prems] show ?thesis by (simp add: hub_look_def frame_def)
  next
    case (Some cs)
    define m' where "m' = m\<lparr>seq := cur_seq g\<rparr>"
    define mg' where "mg' = send_msg_to_clients env cs m' mg"
    have hub: "mg_hub mg' = mg_hub mg" by (simp add: mg'_def)
    then have "hub_ok mg'" using Cons.prems by (simp add: hub_ok_def)
    moreover have "mset (mg_sent mg') = mset (mg_sent mg) + frames env (e m') (mem_id g) mg"
      using send_user_sent [OF Cons.prems assms(2), of m' "mem_id g"] by (simp add: mg'_def Some)
    moreover have "m'\<lparr>seq := n\<rparr> = m\<lparr>seq := n\<rparr>" for n by (simp add: m'_def)
    ultimately show ?thesis
      using Cons.IH [of mg' m'] Some hub_look_cong [OF hub] by (simp add: Let_def m'_def [symmetric] mg'_def [symmetric] ac_simps)
  qed
qed

section \<open>Properties\<close>

text \<open>
  A single message pushed to a gateway reaches exactly the connected clients of the receiver,
  once each, and the sender's client on the other platform; nothing else is sent and no
  registration changes.
\<close>

theorem send_msg_to_user_exact:
  assumes "hub_ok mg" and "message req = Some m" and "he_encode env m = Some b"
  shows "\<exists>mg'. send_msg_to_user env req mg = (Inr (), mg') \<and> mg_hub mg' = mg_hub mg
    \<and> mset (mg_sent mg') = mset (mg_sent mg) + frames env b (receiver_id m) mg
        + frame env b (hub_look mg (sender_id m, other_platform m))"
  using assms send_single_msg_sent [OF assms(1,3), of "receiver_id m"]
  by (auto simp: send_msg_to_user_def) (simp add: send_single_msg_def split: option.split)

text \<open>
  C32. A group message pushed to a gateway reaches every connected client of every listed member
  with that member's own sequence number and a cleared send number, and the sender's other
  platform with the original; nobody else gets anything.
\<close>

theorem send_group_exact:
  assumes "hub_ok mg" and "\<And>x. he_encode env x = Some (e x)"
  shows "mset (mg_sent (send_group env gs m mg)) = mset (mg_sent mg)
    + frame env (e m) (hub_look mg (sender_id m, other_platform m))
    + (\<Sum>g\<in>#mset gs. frames env (e (m\<lparr>send_seq := 0, seq := cur_seq g\<rparr>)) (mem_id g) mg)"
proof -
  define mg' where "mg' = send_to_self env (sender_id m) m mg"
  have hub: "mg_hub mg' = mg_hub mg" by (simp add: mg'_def)
  then have "hub_ok mg'" using assms(1) by (simp add: hub_ok_def)
  from send_members_sent [OF this assms(2), of "m\<lparr>send_seq := 0\<rparr>" gs] hub_look_cong [OF hub] show ?thesis
    by (simp add: send_group_def mg'_def [symmetric]) (simp add: mg'_def send_to_self_sent [OF assms(2)])
qed

text \<open>
  A message from a client is either queued or reported: with Redis, the chat service and
  Kafka up, exactly one record is queued, carrying the sender's next send number, and the reply
  carries the server's id and time and an empty content; when any of them fails, nothing is
  queued and the reply is an error message. The reply always is a receipt for the sender.
\<close>

theorem process_message_queues_or_reports:
  assumes "process_message env m mg = (reply, mg')" and "he_kafka env \<noteq> Some ''''"
    and n: "n = cur_of (send_seq_key (sender_id m)) (mg_redis mg) + 1"
  shows "msg_type reply = msg_type_code MsgRecResp \<and> sender_id reply = sender_id m \<and> mg_hub mg' = mg_hub mg
    \<and> (if he_seq env = None \<and> i64_ok n \<and> he_rpc env = None \<and> he_kafka env = None
       then mg_kafka mg' = mg_kafka mg @ [he_json env (stamp (he_nanoid env) (he_now env) (m\<lparr>send_seq := n\<rparr>))]
         \<and> cur_of (send_seq_key (sender_id m)) (mg_redis mg') = n
         \<and> send_seq reply = n \<and> content reply = '''' \<and> send_time reply = he_now env
         \<and> server_id reply = (if is_receipt (msg_type m) then server_id m else he_nanoid env)
       else mg_kafka mg' = mg_kafka mg \<and> content_type reply = content_type_code ErrorContent)"
proof -
  have seq: "incr_send_seq (he_step env) (he_seq env) (sender_id m) (mg_redis mg) =
    (case he_seq env of
       Some e \<Rightarrow> (Inl e, mg_redis mg)
     | None \<Rightarrow> if i64_ok n then (Inr (script_result (he_step env) (send_seq_key (sender_id m)) (mg_redis mg)),
                 script_state (he_step env) (send_seq_key (sender_id m)) (mg_redis mg))
               else (Inl (Failed (error_new RedisError ''increment or decrement would overflow''
                   ''increment or decrement would overflow'')), mg_redis mg))"
    by (simp add: incr_send_seq_def single_script_eq n split: option.split)
  have num: "fst (script_result (he_step env) (send_seq_key (sender_id m)) (mg_redis mg)) = n"
    "cur_of (send_seq_key (sender_id m)) (script_state (he_step env) (send_seq_key (sender_id m)) (mg_redis mg)) = n"
    by (simp_all add: script_result_def Let_def n cur_of_script_state)
  show ?thesis
    using assms(1,2) num unfolding process_message_def seq
    by (cases "he_seq env"; cases "he_rpc env"; cases "he_kafka env"; cases "i64_ok n")
       (auto simp: send_rpc_message_def send_msg_def create_error_message_def stamp_def Let_def
         split: prod.splits)
qed

text \<open>
  The reply to a client is sent twice to the sender's other platform: once as to one of the
  sender's clients, once more by \<open>send_to_self\<close>.
\<close>

theorem reply_doubled_on_other_platform:
  assumes "hub_ok mg" and "process_message env m mg = (reply, mg1)" and "he_encode env reply = Some b"
    and "p \<noteq> other_platform m"
  shows "mset (mg_sent (run [(env, m)] mg)) = mset (mg_sent mg)
    + frame env b (hub_look mg (sender_id m, p))
    + frame env b (hub_look mg (sender_id m, other_platform m))
    + frame env b (hub_look mg (sender_id m, other_platform m))"
proof -
  have same: "sender_id reply = sender_id m" "platform reply = platform m" "mg_hub mg1 = mg_hub mg"
    "mg_sent mg1 = mg_sent mg"
    using assms(2) by (auto simp: process_message_def send_rpc_message_def create_error_message_def Let_def
        split: prod.splits sum.splits option.splits if_splits)
  then have "hub_ok mg1" "other_platform reply = other_platform m"
    using assms(1) by (simp_all add: hub_ok_def other_platform_def)
  with send_single_msg_sent [OF _ assms(3)] hub_look_cong [OF same(3)] assms(2,4) same show ?thesis
    by (cases p; cases "other_platform m") (simp_all add: ac_simps)
qed

text \<open>
  Unregistering a platform that is not registered drops the user's only other client: the
  entry of a user with one client is removed whatever its platform.
\<close>

theorem unregister_drops_other_platform:
  assumes "hub_ok mg" and "hub_look mg (u, p) = None" and "hub_look mg (u, q) = Some c"
  shows "hub_look (unregister u p mg) (u, q) = None"
proof -
  obtain cs where cs: "map_of (mg_hub mg) u = Some cs" using assms(3) by (auto simp: hub_look_def split: option.splits)
  from assms(1) cs show ?thesis
    by (cases rule: unregister_cases [where p = p])
       (use cs assms(2) in \<open>auto simp: hub_look_def delete_conv' split: if_splits\<close>)
qed

section \<open>Witnesses\<close>

definition demo_client :: "nat \<Rightarrow> string \<Rightarrow> PlatformType \<Rightarrow> Client" where
  "demo_client k u p = \<lparr>cl_conn = k, cl_user_id = u, cl_platform_id = ''dev'', cl_platform = p\<rparr>"

definition demo_henv :: hub_env where
  "demo_henv = \<lparr>he_encode = (\<lambda>m. Some (receiver_id m)), he_sink = (\<lambda>k. k \<noteq> 9), he_step = 5, he_seq = None, he_rpc = None,
     he_json = (\<lambda>m. server_id m), he_nanoid = ''n1'', he_now = 77, he_kafka = None, he_status_text = status_message\<rparr>"

definition empty_manager :: manager where
  "empty_manager = \<lparr>mg_hub = [], mg_sent = [], mg_redis = redis_empty, mg_kafka = []\<rparr>"

definition demo_manager :: manager where
  "demo_manager = register ''b'' (demo_client 3 ''b'' Desktop)
     (register ''a'' (demo_client 2 ''a'' Mobile) (register ''a'' (demo_client 1 ''a'' Desktop) empty_manager))"

lemma empty_manager_ok: "hub_ok empty_manager" "hub_look empty_manager k = None"
  by (simp_all add: hub_ok_def empty_manager_def hub_look_def)

lemma demo_manager_facts:
  "hub_ok demo_manager" "mg_sent demo_manager = []" "mg_kafka demo_manager = []" "mg_redis demo_manager = redis_empty"
  "hub_look demo_manager (''a'', Desktop) = Some (demo_client 1 ''a'' Desktop)"
  "hub_look demo_manager (''a'', Mobile) = Some (demo_client 2 ''a'' Mobile)"
  "hub_look demo_manager (''b'', Desktop) = Some (demo_client 3 ''b'' Desktop)"
  "hub_look demo_manager (''b'', Mobile) = None"
  by (simp_all add: demo_manager_def register_ok register_look empty_manager_ok demo_client_def)
     (simp_all add: register_def empty_manager_def)

lemma demo_platform [simp]: "other_platform msg_example = Mobile" "content msg_example = ''''" "msg_type msg_example = 0"
  by (simp_all add: other_platform_def msg_example_def msg_default_def)

theorem send_msg_to_user_exact_witness:
  "\<exists>mg'. send_msg_to_user demo_henv \<lparr>message = Some msg_example\<rparr> demo_manager = (Inr (), mg')
    \<and> mset (mg_sent mg') = {#(3, ''b''), (2, ''b'')#}"
  using send_msg_to_user_exact [OF demo_manager_facts(1), of "\<lparr>message = Some msg_example\<rparr>" msg_example demo_henv "''b''"]
  by (auto simp: demo_manager_facts demo_henv_def demo_client_def frame_def)

theorem send_group_exact_witness:
  "mset (mg_sent (send_group demo_henv [group_mem_seq_new ''b'' 4 5 False, group_mem_seq_new ''c'' 9 9 False] msg_example demo_manager))
     = {#(2, ''b''), (3, ''b'')#}"
proof -
  have "hub_look demo_manager (''c'', p) = None" for p
    by (simp add: demo_manager_def register_look empty_manager_ok)
  then show ?thesis
    using send_group_exact [OF demo_manager_facts(1), of demo_henv receiver_id
        "[group_mem_seq_new ''b'' 4 5 False, group_mem_seq_new ''c'' 9 9 False]" msg_example]
    by (simp add: demo_manager_facts demo_henv_def demo_client_def frame_def group_mem_seq_new_def)
qed

theorem process_message_queues_or_reports_witness:
  "\<exists>reply mg'. process_message demo_henv msg_example demo_manager = (reply, mg')
    \<and> mg_kafka mg' = [''n1''] \<and> send_seq reply = 1 \<and> server_id reply = ''n1''"
proof -
  obtain reply mg' where run: "process_message demo_henv msg_example demo_manager = (reply, mg')"
    by (cases "process_message demo_henv msg_example demo_manager")
  have "cur_of (send_seq_key ''a'') redis_empty = 0" by (simp add: cur_of_def hget_def redis_empty_def)
  then show ?thesis
    using process_message_queues_or_reports [OF run _ refl] run
    by (simp add: demo_manager_facts demo_henv_def i64_ok_def stamp_def is_receipt_def)
qed

theorem reply_doubled_on_other_platform_witness:
  "mset (mg_sent (run [(demo_henv, msg_example)] demo_manager)) = {#(1, ''b''), (2, ''b''), (2, ''b'')#}"
proof -
  obtain reply mg' where run: "process_message demo_henv msg_example demo_manager = (reply, mg')"
    by (cases "process_message demo_henv msg_example demo_manager")
  then have "receiver_id reply = ''b''"
    by (auto simp: process_message_def send_rpc_message_def create_error_message_def Let_def
        split: prod.splits sum.splits option.splits if_splits)
  then show ?thesis
    using reply_doubled_on_other_platform [OF demo_manager_facts(1) run, of "''b''" Desktop]
    by (simp add: demo_manager_facts demo_client_def frame_def demo_henv_def)
qed

theorem unregister_drops_other_platform_witness:
  "hub_look (unregister ''b'' Mobile demo_manager) (''b'', Desktop) = None"
  using unregister_drops_other_platform [OF demo_manager_facts(1,8,7)] .

end
