(* ===== verification/Ws_Server.thy ===== *)
theory Ws_Server
  imports Hub
begin

text \<open>
  The websocket server of a gateway (\<open>msg_gateway/src/ws_server.rs\<close>): the connection rate limit,
  the checks before a connection is registered, the three tasks of a connection and what ends
  it, and the life of all connections of a gateway as a step relation over the hub.

  Times are nanoseconds on the monotonic clock. Tokens are decoded by \<open>jsonwebtoken\<close> and frames
  by \<open>serde_json\<close> and \<open>bincode\<close>; all three are parameters.
\<close>

section \<open>Constants\<close>

definition KNOCK_OFF_CODE :: nat where "KNOCK_OFF_CODE = 4001"
definition UNAUTHORIZED_CODE :: nat where "UNAUTHORIZED_CODE = 4002"
definition MESSAGE_TOO_LARGE_CODE :: nat where "MESSAGE_TOO_LARGE_CODE = 4003"
definition INVALID_MESSAGE_FORMAT_CODE :: nat where "INVALID_MESSAGE_FORMAT_CODE = 4005"
definition IDLE_TIMEOUT_CODE :: nat where "IDLE_TIMEOUT_CODE = 4006"
definition MAX_CONN_PER_MINUTE :: nat where "MAX_CONN_PER_MINUTE = 10"
definition RATE_LIMIT_WINDOW :: int where "RATE_LIMIT_WINDOW = 60 * 1000000000"
definition MAX_MESSAGE_SIZE :: nat where "MAX_MESSAGE_SIZE = 1048576"
definition MAX_IDLE_TIME :: int where "MAX_IDLE_TIME = 300 * 1000000000"

datatype ConnectionState = New | Authenticating | Active | Idle | Closing | Closed

datatype TaskExitReason = PingFailed | KnockOff | ClientDisconnected | IdleTimeout

section \<open>The rate limit\<close>

type_synonym limiter = "string \<rightharpoonup> nat \<times> int"

text \<open>One attempt at time \<open>now\<close> against the entry of its address: whether it is refused, and the new
  entry.\<close>

definition rate_entry :: "int \<Rightarrow> (nat \<times> int) option \<Rightarrow> bool \<times> (nat \<times> int) option" where
  "rate_entry now e =
     (case e of
        Some (n, timestamp) \<Rightarrow>
          if now - timestamp < RATE_LIMIT_WINDOW \<and> MAX_CONN_PER_MINUTE \<le> n then (True, e)
          else if RATE_LIMIT_WINDOW \<le> now - timestamp then (False, Some (1, now))
          else (False, Some (n + 1, timestamp))
      | None \<Rightarrow> (False, Some (1, now)))"

definition rate_limited :: "string \<Rightarrow> int \<Rightarrow> limiter \<Rightarrow> bool \<times> limiter" where
  "rate_limited ip now lim =
     (case rate_entry now (lim ip) of (limited, e) \<Rightarrow> (limited, lim(ip := e)))"

text \<open>The attempts that pass, over a sequence of attempts.\<close>

fun rate_run :: "(string \<times> int) list \<Rightarrow> limiter \<Rightarrow> (string \<times> int) list" where
  "rate_run [] lim = []"
| "rate_run ((ip, now) # xs) lim =
     (case rate_limited ip now lim of
        (limited, lim') \<Rightarrow> (if limited then [] else [(ip, now)]) @ rate_run xs lim')"

section \<open>Before a connection is registered\<close>

record Claims =
  sub :: string
  exp_at :: int
  iat :: int

datatype jwt_error = ExpiredSignature string | InvalidToken string | OtherJwtError string

fun verify_token ::
  "(string \<Rightarrow> string \<Rightarrow> jwt_error + Claims) \<Rightarrow> string \<Rightarrow> string \<Rightarrow> string \<Rightarrow> Error + Claims" where
  "verify_token decode token user_id jwt_secret =
     (case decode token jwt_secret of
        Inl (ExpiredSignature e) \<Rightarrow> Inl (unauthorized e ''Token expired'')
      | Inl (InvalidToken e) \<Rightarrow> Inl (unauthorized e ''Invalid token format'')
      | Inl (OtherJwtError e) \<Rightarrow> Inl (unauthorized e ''Token expired'')
      | Inr claims \<Rightarrow>
          if sub claims \<noteq> user_id then Inl (unauthorized_with_details ''User ID mismatch in token'')
          else Inr claims)"

text \<open>The authorization header: absent, or present with a text that may not be readable.\<close>

definition strip_prefix :: "string \<Rightarrow> string \<Rightarrow> string option" where
  "strip_prefix p s = (if take (length p) s = p then Some (drop (length p) s) else None)"

definition header_token :: "string option \<Rightarrow> string" where
  "header_token text =
     (let auth_str = unwrap_or '''' text in
      case strip_prefix ''Bearer '' auth_str of Some rest \<Rightarrow> rest | None \<Rightarrow> auth_str)"

datatype handler_answer = Refused nat string | Upgraded string PlatformType

definition websocket_handler ::
  "string option option \<Rightarrow> int \<Rightarrow> string \<Rightarrow> int \<Rightarrow> limiter \<Rightarrow> handler_answer \<times> limiter" where
  "websocket_handler auth plat ip now lim =
     (case rate_limited ip now lim of
        (True, lim') \<Rightarrow> (Refused 429 ''Connection rate limit exceeded'', lim')
      | (False, lim') \<Rightarrow>
          (case auth of
             None \<Rightarrow> (Refused 401 ''Missing Authorization header'', lim')
           | Some text \<Rightarrow> (Upgraded (header_token text) (platform_of plat), lim')))"

datatype ws_frame = CloseFrame nat string | PingFrame | PongFrame

text \<open>The start of \<open>websocket\<close>: a bad token closes the socket, a good one registers a client.\<close>

definition websocket_open ::
  "(string \<Rightarrow> string \<Rightarrow> jwt_error + Claims) \<Rightarrow> string \<Rightarrow> string \<Rightarrow> string \<Rightarrow> string \<Rightarrow> PlatformType \<Rightarrow> nat
     \<Rightarrow> manager \<Rightarrow> ws_frame option \<times> manager" where
  "websocket_open decode jwt_secret user_id device_id token plat conn mg =
     (case verify_token decode token user_id jwt_secret of
        Inl err \<Rightarrow> (Some (CloseFrame UNAUTHORIZED_CODE (''Authentication failed: '' @ error_display err)), mg)
      | Inr _ \<Rightarrow> (None, register user_id \<lparr>cl_conn = conn, cl_user_id = user_id, cl_platform_id = device_id,
          cl_platform = plat\<rparr> mg))"

text \<open>Its end: a client that was knocked off is not unregistered.\<close>

definition websocket_close :: "string \<Rightarrow> PlatformType \<Rightarrow> TaskExitReason \<Rightarrow> manager \<Rightarrow> manager" where
  "websocket_close user_id plat exit_reason mg =
     (if exit_reason = KnockOff then mg else unregister user_id plat mg)"

section \<open>The tasks of a connection\<close>

record conn_tasks =
  ct_last_activity :: int
  ct_conn_state :: ConnectionState
  ct_out :: "ws_frame list"
  ct_hub :: "Msg list"

text \<open>What the tasks meet: the decoders, whether the sink accepts a frame at a time, and whether
  the hub still receives.\<close>

record task_env =
  te_json :: "string \<Rightarrow> Msg option"
  te_bincode :: "string \<Rightarrow> Msg option"
  te_sink :: "int \<Rightarrow> bool"
  te_hub_closed :: "int \<Rightarrow> bool"

definition emit :: "task_env \<Rightarrow> int \<Rightarrow> ws_frame \<Rightarrow> conn_tasks \<Rightarrow> conn_tasks" where
  "emit env t f c = (if te_sink env t then c\<lparr>ct_out := ct_out c @ [f]\<rparr> else c)"

text \<open>One turn of the ping loop; the flag says whether the loop goes on.\<close>

definition ping_tick :: "task_env \<Rightarrow> int \<Rightarrow> conn_tasks \<Rightarrow> bool \<times> conn_tasks" where
  "ping_tick env now c =
     (if MAX_IDLE_TIME < now - ct_last_activity c
      then (False, emit env now (CloseFrame IDLE_TIMEOUT_CODE ''Idle timeout'') (c\<lparr>ct_conn_state := Idle\<rparr>))
      else if te_sink env now then (True, emit env now PingFrame c) else (False, c))"

text \<open>The watch task: \<open>None\<close> says that the client's sender was dropped.\<close>

definition watch_task :: "task_env \<Rightarrow> int \<Rightarrow> unit option \<Rightarrow> conn_tasks \<Rightarrow> conn_tasks" where
  "watch_task env now signal c =
     (if signal = None
      then emit env now (CloseFrame KNOCK_OFF_CODE ''knock off'') (c\<lparr>ct_conn_state := Closing\<rparr>)
      else c)"

datatype ws_message = WText string | WPing string | WPong string | WClose "string option" | WBinary string

text \<open>The bookkeeping at the start of every turn of the receive loop.\<close>

definition note_activity :: "int \<Rightarrow> conn_tasks \<Rightarrow> conn_tasks" where
  "note_activity now c =
     c\<lparr>ct_last_activity := now,
       ct_conn_state := (if ct_conn_state c = Idle then Active else ct_conn_state c)\<rparr>"

definition handle_payload ::
  "task_env \<Rightarrow> int \<Rightarrow> (string \<Rightarrow> Msg option) \<Rightarrow> string \<Rightarrow> conn_tasks \<Rightarrow> bool \<times> conn_tasks" where
  "handle_payload env now decode bytes c =
     (if MAX_MESSAGE_SIZE < length bytes
      then (True, emit env now (CloseFrame MESSAGE_TOO_LARGE_CODE ''Message too large'') c)
      else case decode bytes of
        Some m \<Rightarrow> (case broadcast (te_hub_closed env now) m (ct_hub c) of
                     (Inl _, _) \<Rightarrow> (False, c)
                   | (Inr _, q) \<Rightarrow> (True, c\<lparr>ct_hub := q\<rparr>))
      | None \<Rightarrow> (True, emit env now (CloseFrame INVALID_MESSAGE_FORMAT_CODE ''Invalid message format'') c))"

fun handle_frame :: "task_env \<Rightarrow> int \<Rightarrow> ws_message \<Rightarrow> conn_tasks \<Rightarrow> bool \<times> conn_tasks" where
  "handle_frame env now (WText text) c = handle_payload env now (te_json env) text c"
| "handle_frame env now (WPing _) c =
     (if te_sink env now then (True, emit env now PongFrame c) else (False, c))"
| "handle_frame env now (WPong _) c = (True, c)"
| "handle_frame env now (WClose info) c = (False, c)"
| "handle_frame env now (WBinary b) c = handle_payload env now (te_bincode env) b c"

text \<open>The receive loop over the frames with their arrival times; the end of the list is the end of
  the stream or an error on it.\<close>

fun receive_task :: "task_env \<Rightarrow> (int \<times> ws_message) list \<Rightarrow> conn_tasks \<Rightarrow> conn_tasks" where
  "receive_task env [] c = c"
| "receive_task env ((now, msg) # rest) c =
     (case handle_frame env now msg (note_activity now c) of
        (goes_on, c') \<Rightarrow> if goes_on then receive_task env rest c' else c')"

text \<open>\<open>ConnectionTasks::wait\<close>: the task that ends first decides.\<close>

datatype task = PingTask | WatchTask | ReceiveTask

fun wait :: "task \<Rightarrow> conn_tasks \<Rightarrow> TaskExitReason" where
  "wait PingTask c = (if ct_conn_state c = Idle then IdleTimeout else PingFailed)"
| "wait WatchTask c = KnockOff"
| "wait ReceiveTask c = ClientDisconnected"

text \<open>The diagnostic route \<open>test\<close>: who is connected, in the order of the maps.\<close>

fun platform_debug :: "PlatformType \<Rightarrow> string" where
  "platform_debug Desktop = ''Desktop''"
| "platform_debug Mobile = ''Mobile''"

definition ws_test :: "manager \<Rightarrow> string" where
  "ws_test mg =
     concat (map (\<lambda>(u, cs). ''UserID: '' @ u @ [CHR 0x0A] @
       concat (map (\<lambda>(p, c). ''  Platform: '' @ platform_debug p @ '', PlatformID: '' @ cl_platform_id c @ [CHR 0x0A]) cs))
       (mg_hub mg))"

section \<open>The connections of a gateway\<close>

text \<open>The hub, the live connections with their user and platform, the next connection number, and
  the newest connection opened for each user and platform.\<close>

record sessions =
  ss_mg :: manager
  ss_live :: "(nat \<times> string \<times> PlatformType) list"
  ss_next :: nat
  ss_newest :: "string \<times> PlatformType \<Rightarrow> nat option"

definition registered :: "nat \<Rightarrow> string \<Rightarrow> PlatformType \<Rightarrow> manager \<Rightarrow> bool" where
  "registered k u p mg \<longleftrightarrow> (case hub_look mg (u, p) of Some c \<Rightarrow> cl_conn c = k | None \<Rightarrow> False)"

text \<open>The client's sender is owned by the hub, so the watch task of a connection ends exactly when
  its client has left the hub. With \<open>orderly\<close> the watch task of such a connection also is the first
  to end; without it any of its tasks may be.\<close>

inductive session_step :: "bool \<Rightarrow> (string \<Rightarrow> string \<Rightarrow> jwt_error + Claims) \<Rightarrow> string \<Rightarrow> sessions \<Rightarrow> sessions \<Rightarrow> bool"
  for orderly decode secret where
  opened: "websocket_open decode secret u device token p (ss_next s) (ss_mg s) = (None, mg') \<Longrightarrow>
    session_step orderly decode secret s
      (s\<lparr>ss_mg := mg', ss_live := (ss_next s, u, p) # ss_live s, ss_next := Suc (ss_next s),
         ss_newest := (ss_newest s)((u, p) \<mapsto> ss_next s)\<rparr>)"
| closed: "(k, u, p) \<in> set (ss_live s) \<Longrightarrow> reason = wait t c \<Longrightarrow>
    (t = WatchTask \<longrightarrow> \<not> registered k u p (ss_mg s)) \<Longrightarrow>
    (orderly \<longrightarrow> \<not> registered k u p (ss_mg s) \<longrightarrow> t = WatchTask) \<Longrightarrow>
    session_step orderly decode secret s
      (s\<lparr>ss_mg := websocket_close u p reason (ss_mg s), ss_live := removeAll (k, u, p) (ss_live s)\<rparr>)"
| traffic: "mg_hub mg' = mg_hub (ss_mg s) \<Longrightarrow> session_step orderly decode secret s (s\<lparr>ss_mg := mg'\<rparr>)"

definition no_sessions :: sessions where
  "no_sessions = \<lparr>ss_mg = \<lparr>mg_hub = [], mg_sent = [], mg_redis = redis_empty, mg_kafka = []\<rparr>, ss_live = [], ss_next = 0,
     ss_newest = (\<lambda>_. None)\<rparr>"

section \<open>The rate limit over time\<close>

text \<open>The attempts of one address that pass, each with the start of the window it counts in.\<close>

fun window_run :: "int list \<Rightarrow> (nat \<times> int) option \<Rightarrow> (int \<times> int) list" where
  "window_run [] e = []"
| "window_run (now # ts) e =
     (case rate_entry now e of
        (limited, e') \<Rightarrow> (if limited then [] else [(now, snd (the e'))]) @ window_run ts e')"

lemma rate_run_project:
  "map snd (filter (\<lambda>x. fst x = ip) (rate_run xs lim)) =
     map fst (window_run (map snd (filter (\<lambda>x. fst x = ip) xs)) (lim ip))"
proof (induction xs arbitrary: lim)
  case Nil
  then show ?case by simp
next
  case (Cons x xs)
  obtain i now where x: "x = (i, now)" by (cases x)
  show ?case
    using Cons.IH by (auto simp: x rate_limited_def split: prod.split)
qed

text \<open>In a window that starts at \<open>w\<close>: at most ten attempts pass, at most nine of them after \<open>w\<close>.\<close>

definition windowed :: "(int \<times> int) list \<Rightarrow> bool" where
  "windowed r \<longleftrightarrow>
     (\<forall>(t, w) \<in> set r. w \<le> t \<and> t < w + RATE_LIMIT_WINDOW)
     \<and> (\<forall>x \<in> set r. \<forall>y \<in> set r. snd x = snd y \<or> RATE_LIMIT_WINDOW \<le> \<bar>snd x - snd y\<bar>)
     \<and> (\<forall>w. length (filter (\<lambda>x. snd x = w) r) \<le> 10)
     \<and> (\<forall>w. length (filter (\<lambda>x. snd x = w \<and> fst x \<noteq> w) r) \<le> 9)"

lemma filter_length_le: "(\<And>x. P x \<Longrightarrow> Q x) \<Longrightarrow> length (filter P xs) \<le> length (filter Q xs)"
  by (induction xs) auto

lemma windowed_Cons:
  assumes "windowed r" and far: "\<And>x. x \<in> set r \<Longrightarrow> snd x = w \<or> w + RATE_LIMIT_WINDOW \<le> snd x"
    and "w \<le> t" and "t < w + RATE_LIMIT_WINDOW" and "length (filter (\<lambda>x. snd x = w) r) \<le> 9"
    and "t \<noteq> w \<Longrightarrow> length (filter (\<lambda>x. snd x = w) r) \<le> 8"
  shows "windowed ((t, w) # r)"
  unfolding windowed_def
proof (intro conjI allI ballI)
  have "length (filter (\<lambda>x. snd x = w \<and> fst x \<noteq> w) r) \<le> length (filter (\<lambda>x. snd x = w) r)"
    by (rule filter_length_le) simp
  then show "length (filter (\<lambda>x. snd x = v \<and> fst x \<noteq> v) ((t, w) # r)) \<le> 9" for v
    using assms(1,6) by (auto simp: windowed_def)
next
  show "length (filter (\<lambda>x. snd x = v) ((t, w) # r)) \<le> 10" for v
    using assms(1,5) by (auto simp: windowed_def)
next
  fix x y assume xy: "x \<in> set ((t, w) # r)" "y \<in> set ((t, w) # r)"
  have near: "snd z = w \<or> RATE_LIMIT_WINDOW \<le> \<bar>snd z - w\<bar>" if "z \<in> set r" for z using far [OF that] by linarith
  show "snd x = snd y \<or> RATE_LIMIT_WINDOW \<le> \<bar>snd x - snd y\<bar>"
    using xy near [of x] near [of y] assms(1) by (auto simp: windowed_def abs_minus_commute)
next
  show "case x of (t, w) \<Rightarrow> w \<le> t \<and> t < w + RATE_LIMIT_WINDOW" if "x \<in> set ((t, w) # r)" for x
    using that assms(1,3,4) by (auto simp: windowed_def)
qed

lemma window_run_open:
  assumes "sorted (l # ts)" and "w0 \<le> l" and "1 \<le> c" and "c \<le> MAX_CONN_PER_MINUTE"
  shows "windowed (window_run ts (Some (c, w0)))
    \<and> (\<forall>x \<in> set (window_run ts (Some (c, w0))). snd x = w0 \<or> w0 + RATE_LIMIT_WINDOW \<le> snd x)
    \<and> length (filter (\<lambda>x. snd x = w0) (window_run ts (Some (c, w0)))) + c \<le> 10"
  using assms
proof (induction ts arbitrary: l c w0)
  case Nil
  then show ?case by (simp add: windowed_def MAX_CONN_PER_MINUTE_def)
next
  case (Cons now ts)
  have s: "sorted (now # ts)" "w0 \<le> now" using Cons.prems(1,2) by auto
  have W: "0 < RATE_LIMIT_WINDOW" by (simp add: RATE_LIMIT_WINDOW_def)
  consider (limited) "now - w0 < RATE_LIMIT_WINDOW" "MAX_CONN_PER_MINUTE \<le> c"
    | (fresh) "RATE_LIMIT_WINDOW \<le> now - w0"
    | (counted) "now - w0 < RATE_LIMIT_WINDOW" "c < MAX_CONN_PER_MINUTE"
    by linarith
  then show ?case
  proof cases
    case limited
    then have "window_run (now # ts) (Some (c, w0)) = window_run ts (Some (c, w0))" by (simp add: rate_entry_def)
    then show ?thesis using Cons.IH [OF s Cons.prems(3,4)] by simp
  next
    case fresh
    define r where "r = window_run ts (Some (1, now))"
    have run: "window_run (now # ts) (Some (c, w0)) = (now, now) # r"
      using fresh W by (simp add: rate_entry_def r_def)
    have IH: "windowed r" "\<And>x. x \<in> set r \<Longrightarrow> snd x = now \<or> now + RATE_LIMIT_WINDOW \<le> snd x"
      "length (filter (\<lambda>x. snd x = now) r) + 1 \<le> 10"
      using Cons.IH [OF s(1) order_refl, of 1] by (auto simp: r_def MAX_CONN_PER_MINUTE_def)
    have none: "filter (\<lambda>x. snd x = w0) r = []" using IH(2) fresh W by (force simp: filter_empty_conv)
    have "windowed ((now, now) # r)" by (rule windowed_Cons) (use IH W in auto)
    moreover have "snd x = w0 \<or> w0 + RATE_LIMIT_WINDOW \<le> snd x" if "x \<in> set ((now, now) # r)" for x
      using that IH(2) [of x] fresh W by auto
    ultimately show ?thesis
      using fresh W none Cons.prems(4) unfolding run by (auto simp: MAX_CONN_PER_MINUTE_def)
  next
    case counted
    define r where "r = window_run ts (Some (c + 1, w0))"
    have run: "window_run (now # ts) (Some (c, w0)) = (now, w0) # r"
      using counted by (simp add: rate_entry_def r_def)
    have IH: "windowed r" "\<And>x. x \<in> set r \<Longrightarrow> snd x = w0 \<or> w0 + RATE_LIMIT_WINDOW \<le> snd x"
      "length (filter (\<lambda>x. snd x = w0) r) + (c + 1) \<le> 10"
      using Cons.IH [OF s, of "c + 1"] counted by (auto simp: r_def)
    have "windowed ((now, w0) # r)" by (rule windowed_Cons) (use IH s(2) counted Cons.prems(3) in auto)
    then show ?thesis using IH unfolding run by auto
  qed
qed

lemma window_run_start: "sorted ts \<Longrightarrow> windowed (window_run ts None)"
proof (cases ts)
  case Nil
  then show ?thesis by (simp add: windowed_def)
next
  case (Cons now rest)
  assume "sorted ts"
  have W: "0 < RATE_LIMIT_WINDOW" by (simp add: RATE_LIMIT_WINDOW_def)
  define r where "r = window_run rest (Some (1, now))"
  have run: "window_run ts None = (now, now) # r" by (simp add: Cons rate_entry_def r_def)
  have f: "windowed r" "\<And>x. x \<in> set r \<Longrightarrow> snd x = now \<or> now + RATE_LIMIT_WINDOW \<le> snd x"
    "length (filter (\<lambda>x. snd x = now) r) + 1 \<le> 10"
    using window_run_open [of now rest now 1] \<open>sorted ts\<close> by (auto simp: Cons r_def MAX_CONN_PER_MINUTE_def)
  show ?thesis unfolding run by (rule windowed_Cons) (use f W in auto)
qed

lemma windowed_interval:
  assumes "windowed r"
  shows "length (filter (\<lambda>x. a \<le> fst x \<and> fst x < a + RATE_LIMIT_WINDOW) r) \<le> 19" (is "length (filter ?in r) \<le> 19")
proof (cases "\<exists>x \<in> set r. \<exists>y \<in> set r. ?in x \<and> ?in y \<and> snd x < snd y")
  case False
  show ?thesis
  proof (cases "filter ?in r")
    case Nil
    then show ?thesis by simp
  next
    case (Cons z zs)
    have "z \<in> set (filter ?in r)" unfolding Cons by simp
    then have z: "z \<in> set r" "?in z" by auto
    have same: "snd x = snd z" if "x \<in> set (filter ?in r)" for x
      using False z that by (cases "snd x" "snd z" rule: linorder_cases) auto
    have "length (filter ?in r) \<le> length (filter (\<lambda>x. snd x = snd z) (filter ?in r))"
      using same by (subst filter_True) auto
    also have "\<dots> \<le> length (filter (\<lambda>x. snd x = snd z) r)" by (simp, rule filter_length_le) simp
    also have "\<dots> \<le> 10" using assms by (simp add: windowed_def)
    finally show ?thesis by simp
  qed
next
  case True
  then obtain x y where xy: "x \<in> set r" "y \<in> set r" "?in x" "?in y" "snd x < snd y" by blast
  have span: "fst z - RATE_LIMIT_WINDOW < snd z \<and> snd z \<le> fst z" if "z \<in> set r" for z
    using assms that by (cases z) (auto simp: windowed_def)
  have apart: "snd u = snd v \<or> RATE_LIMIT_WINDOW \<le> \<bar>snd u - snd v\<bar>" if "u \<in> set r" "v \<in> set r" for u v
    using assms that by (auto simp: windowed_def)
  have far: "snd x + RATE_LIMIT_WINDOW \<le> snd y" using apart [OF xy(1,2)] xy(5) by linarith
  have two: "snd z = snd x \<and> fst z \<noteq> snd x \<or> snd z = snd y" if "z \<in> set r" "?in z" for z
    using span [OF that(1)] span [OF xy(1)] span [OF xy(2)] apart [OF that(1) xy(1)] apart [OF that(1) xy(2)] far xy(3,4) that(2)
    by linarith
  have "length (filter ?in r) \<le> length (filter (\<lambda>z. snd z = snd x \<and> fst z \<noteq> snd x \<or> snd z = snd y) r)"
    using two by (induction r) auto
  also have "\<dots> \<le> length (filter (\<lambda>z. snd z = snd x \<and> fst z \<noteq> snd x) r) + length (filter (\<lambda>z. snd z = snd y) r)"
    by (induction r) auto
  also have "\<dots> \<le> 9 + 10" using assms unfolding windowed_def by (intro add_mono) auto
  finally show ?thesis by simp
qed

section \<open>Frames\<close>

text \<open>What a frame contributes to the hub's channel.\<close>

fun accepted :: "task_env \<Rightarrow> ws_message \<Rightarrow> Msg option" where
  "accepted env (WText text) = (if MAX_MESSAGE_SIZE < length text then None else te_json env text)"
| "accepted env (WBinary b) = (if MAX_MESSAGE_SIZE < length b then None else te_bincode env b)"
| "accepted env _ = None"

fun is_close :: "ws_message \<Rightarrow> bool" where
  "is_close (WClose _) = True"
| "is_close _ = False"

lemma emit_hub [simp]: "ct_hub (emit env t f c) = ct_hub c"
  by (simp add: emit_def)

lemma note_activity_hub [simp]: "ct_hub (note_activity t c) = ct_hub c"
  by (simp add: note_activity_def)

lemma handle_frame_up:
  assumes "\<And>t. te_sink env t" and "\<And>t. \<not> te_hub_closed env t"
  shows "fst (handle_frame env now m c) = (\<not> is_close m)
    \<and> ct_hub (snd (handle_frame env now m c)) =
        ct_hub c @ (case accepted env m of None \<Rightarrow> [] | Some x \<Rightarrow> [x])"
  using assms by (cases m) (auto simp: handle_payload_def broadcast_def split: option.split)

section \<open>Invariant of the sessions\<close>

definition sessions_ok :: "sessions \<Rightarrow> bool" where
  "sessions_ok s \<longleftrightarrow> hub_ok (ss_mg s)
     \<and> (\<forall>(k, u, p) \<in> set (ss_live s). k < ss_next s)
     \<and> (\<forall>u p c. hub_look (ss_mg s) (u, p) = Some c \<longrightarrow>
          (cl_conn c, u, p) \<in> set (ss_live s) \<and> ss_newest s (u, p) = Some (cl_conn c))"

text \<open>The newest live connection of each user and platform is registered.\<close>

definition newest_registered :: "sessions \<Rightarrow> bool" where
  "newest_registered s \<longleftrightarrow> (\<forall>(k, u, p) \<in> set (ss_live s).
     ss_newest s (u, p) = Some k \<longrightarrow> registered k u p (ss_mg s))"

lemma websocket_open_None:
  "websocket_open decode secret u device token p k mg = (None, mg') \<Longrightarrow>
   mg' = register u \<lparr>cl_conn = k, cl_user_id = u, cl_platform_id = device, cl_platform = p\<rparr> mg
     \<and> (\<exists>claims. decode token secret = Inr claims \<and> sub claims = u)"
  by (auto simp: websocket_open_def split: sum.splits jwt_error.splits if_splits)

lemma sessions_ok_step:
  assumes "session_step orderly decode secret s s'" and "sessions_ok s"
  shows "sessions_ok s'"
  using assms(1)
proof cases
  case (opened u device token p mg')
  then have "mg' = register u \<lparr>cl_conn = ss_next s, cl_user_id = u, cl_platform_id = device, cl_platform = p\<rparr> (ss_mg s)"
    using websocket_open_None by blast
  with opened assms(2) show ?thesis
    by (auto simp: sessions_ok_def hub.look_add hub.add_inv less_Suc_eq)
next
  case (closed k u p reason t c)
  have ok: "hub_ok (ss_mg s)" using assms(2) by (simp add: sessions_ok_def)
  have hub: "hub_ok (websocket_close u p reason (ss_mg s))"
    using ok hub.drop_inv by (simp add: websocket_close_def)
  have keep: "hub_look (ss_mg s) (v, q) = Some d \<and> (cl_conn d, v, q) \<noteq> (k, u, p)"
    if d: "hub_look (websocket_close u p reason (ss_mg s)) (v, q) = Some d" for v q d
  proof (cases "reason = KnockOff")
    case True
    then have "t = WatchTask" using closed by (cases t) (auto split: if_splits)
    then show ?thesis using closed d True by (auto simp: websocket_close_def registered_def)
  next
    case False
    with d hub.drop_only [OF ok, of u p "(v, q)"] show ?thesis by (auto simp: websocket_close_def)
  qed
  define mg' where "mg' = websocket_close u p reason (ss_mg s)"
  have s': "ss_mg s' = mg'" "ss_live s' = removeAll (k, u, p) (ss_live s)" "ss_next s' = ss_next s"
    "ss_newest s' = ss_newest s" using closed by (simp_all add: mg'_def)
  show ?thesis
    using assms(2) hub [folded mg'_def] keep [folded mg'_def] unfolding sessions_ok_def s' by fastforce
next
  case (traffic mg')
  with assms(2) hub_look_cong [of mg' "ss_mg s"] show ?thesis by (auto simp: sessions_ok_def hub_ok_def)
qed

lemma newest_registered_step:
  assumes "session_step True decode secret s s'" and "sessions_ok s" and "newest_registered s"
  shows "newest_registered s'"
  using assms(1)
proof cases
  case (opened u device token p mg')
  then have "mg' = register u \<lparr>cl_conn = ss_next s, cl_user_id = u, cl_platform_id = device, cl_platform = p\<rparr> (ss_mg s)"
    using websocket_open_None by blast
  with opened assms(2,3) show ?thesis
    by (auto simp: sessions_ok_def newest_registered_def registered_def hub.look_add)
next
  case (closed k u p reason t c)
  have ok: "hub_ok (ss_mg s)" using assms(2) by (simp add: sessions_ok_def)
  show ?thesis
  proof (cases "registered k u p (ss_mg s)")
    case True
    then have "reason \<noteq> KnockOff" using closed by (cases t) auto
    moreover have "ss_newest s (u, p) = Some k" "hub_look (ss_mg s) (u, p) \<noteq> None"
      using True assms(2) by (auto simp: registered_def sessions_ok_def split: option.splits)
    ultimately show ?thesis
      using closed assms(3) hub.look_drop [OF ok, of u p]
      by (auto simp: newest_registered_def websocket_close_def registered_def)
  next
    case False
    then have "reason = KnockOff" using closed by simp
    with closed assms(3) show ?thesis by (auto simp: newest_registered_def websocket_close_def)
  qed
next
  case (traffic mg')
  with assms(3) hub_look_cong [of mg' "ss_mg s"] show ?thesis
    by (auto simp: newest_registered_def registered_def)
qed

lemma no_sessions_ok: "sessions_ok no_sessions" "newest_registered no_sessions"
  by (simp_all add: sessions_ok_def newest_registered_def no_sessions_def hub_ok_def hub_look_def)

lemma sessions_ok_reachable:
  "(session_step orderly decode secret)\<^sup>*\<^sup>* no_sessions s \<Longrightarrow> sessions_ok s"
  by (induction rule: rtranclp_induct) (auto simp: no_sessions_ok intro: sessions_ok_step)

section \<open>Properties\<close>

text \<open>
  C38. The rate limit: over any sequence of attempts in time order, at most 19 connections of one
  address pass in any interval of one minute. (The limit of ten holds per fixed window; two
  windows can meet in an interval.)
\<close>

theorem rate_limit_per_minute:
  assumes "sorted (map snd xs)"
  shows "length (filter (\<lambda>(i, t). i = ip \<and> a \<le> t \<and> t < a + RATE_LIMIT_WINDOW) (rate_run xs Map.empty)) \<le> 19"
proof -
  let ?r = "window_run (map snd (filter (\<lambda>x. fst x = ip) xs)) None"
  have "sorted (map snd (filter (\<lambda>x. fst x = ip) xs))" using assms by (rule sorted_filter)
  then have "windowed ?r" by (rule window_run_start)
  then have "length (filter (\<lambda>t. a \<le> t \<and> t < a + RATE_LIMIT_WINDOW) (map fst ?r)) \<le> 19"
    using windowed_interval [of ?r a] by (simp add: filter_map o_def)
  then have "length (filter (\<lambda>t. a \<le> t \<and> t < a + RATE_LIMIT_WINDOW)
      (map snd (filter (\<lambda>x. fst x = ip) (rate_run xs Map.empty)))) \<le> 19"
    by (simp only: rate_run_project)
  then show ?thesis by (simp add: filter_map o_def case_prod_unfold conj_ac)
qed

text \<open>
  C39. A client is registered only for the user its token names: \<open>websocket\<close> changes the hub only
  when the token decodes under the server's secret to claims whose subject is that user, and then
  the client is found under that user and platform and no other registration changes.
\<close>

theorem registered_only_with_token:
  assumes "hub_ok mg" and "websocket_open decode secret u device token p k mg = (close, mg')"
  shows "(close = None \<longleftrightarrow> (\<exists>claims. decode token secret = Inr claims \<and> sub claims = u))
    \<and> (close \<noteq> None \<longrightarrow> mg' = mg)
    \<and> (close = None \<longrightarrow> registered k u p mg' \<and> (\<forall>key. key \<noteq> (u, p) \<longrightarrow> hub_look mg' key = hub_look mg key))"
  using assms
  by (auto simp: websocket_open_def registered_def hub.look_add split: sum.splits jwt_error.splits if_splits)

text \<open>
  The receive loop forwards exactly the decodable frames of at most one megabyte that arrive
  before the first close frame, in order and unchanged, whichever sender they name. A frame that
  is too large or does not decode is answered with a close frame, and the loop goes on.
\<close>

theorem receive_task_forwards:
  assumes "\<And>t. te_sink env t" and "\<And>t. \<not> te_hub_closed env t"
  shows "ct_hub (receive_task env frames_in c) =
    ct_hub c @ List.map_filter (accepted env) (takeWhile (\<lambda>m. \<not> is_close m) (map snd frames_in))"
proof (induction frames_in arbitrary: c)
  case Nil
  then show ?case by (simp add: List.map_filter_def)
next
  case (Cons x rest)
  obtain now m where x: "x = (now, m)" by (cases x)
  obtain goes_on c' where f: "handle_frame env now m (note_activity now c) = (goes_on, c')"
    by (cases "handle_frame env now m (note_activity now c)")
  have "goes_on = (\<not> is_close m)" "ct_hub c' = ct_hub c @ (case accepted env m of None \<Rightarrow> [] | Some y \<Rightarrow> [y])"
    using handle_frame_up [of env, OF assms, of now m "note_activity now c"] f by simp_all
  moreover have "accepted env m = None" if "is_close m" using that by (cases m) simp_all
  ultimately show ?case
    using Cons.IH [of c'] f by (auto simp: x List.map_filter_def split: option.splits)
qed

text \<open>
  C31. In every reachable state of a gateway, whatever ends the connections and in whatever order,
  every registered client belongs to a live connection of that user and platform, and it is the
  newest one: the hub holds no dead and no superseded client.
\<close>

theorem hub_holds_live_clients:
  assumes "(session_step orderly decode secret)\<^sup>*\<^sup>* no_sessions s" and "hub_look (ss_mg s) (u, p) = Some c"
  shows "(cl_conn c, u, p) \<in> set (ss_live s) \<and> ss_newest s (u, p) = Some (cl_conn c)"
  using sessions_ok_reachable [OF assms(1)] assms(2) by (auto simp: sessions_ok_def)

text \<open>
  If the watch task of a superseded connection is always the first of its tasks to end, the
  newest live connection of every user and platform stays registered.
\<close>

theorem newest_connection_registered:
  assumes "(session_step True decode secret)\<^sup>*\<^sup>* no_sessions s"
    and "(k, u, p) \<in> set (ss_live s)" and "ss_newest s (u, p) = Some k"
  shows "registered k u p (ss_mg s)"
proof -
  have "newest_registered s"
    using assms(1)
    by (induction rule: rtranclp_induct) (auto simp: no_sessions_ok intro: newest_registered_step dest: sessions_ok_reachable)
  with assms(2,3) show ?thesis by (auto simp: newest_registered_def)
qed

text \<open>
  Without that order the newest connection can be lost: when a superseded connection ends by
  any task but the watch task, its end unregisters the client that replaced it, which stays
  connected but gets no more messages.
\<close>

theorem superseded_end_drops_newest:
  assumes "(session_step False decode secret)\<^sup>*\<^sup>* no_sessions s"
    and "(k, u, p) \<in> set (ss_live s)" and "registered j u p (ss_mg s)" and "j \<noteq> k"
  shows "\<exists>s'. (session_step False decode secret)\<^sup>*\<^sup>* no_sessions s'
    \<and> (j, u, p) \<in> set (ss_live s') \<and> ss_newest s' (u, p) = Some j \<and> hub_look (ss_mg s') (u, p) = None"
proof -
  have ok: "sessions_ok s" by (rule sessions_ok_reachable [OF assms(1)])
  obtain c where c: "hub_look (ss_mg s) (u, p) = Some c" "cl_conn c = j"
    using assms(3) by (auto simp: registered_def split: option.splits)
  define s' where "s' = s\<lparr>ss_mg := websocket_close u p ClientDisconnected (ss_mg s),
     ss_live := removeAll (k, u, p) (ss_live s)\<rparr>"
  have "session_step False decode secret s s'"
    unfolding s'_def by (rule session_step.closed [OF assms(2), of _ ReceiveTask]) simp_all
  with assms(1) have "(session_step False decode secret)\<^sup>*\<^sup>* no_sessions s'" by (rule rtranclp.rtrancl_into_rtrancl)
  moreover have "hub_look (ss_mg s') (u, p) = None"
    using ok hub.look_drop [of "ss_mg s" u p] c by (simp add: s'_def websocket_close_def sessions_ok_def)
  moreover have "(j, u, p) \<in> set (ss_live s)" "ss_newest s (u, p) = Some j"
    using ok c by (auto simp: sessions_ok_def)
  ultimately show ?thesis using assms(4) by (intro exI [of _ s']) (simp add: s'_def)
qed

section \<open>Witnesses\<close>

text \<open>A token is the name of its user.\<close>

definition demo_jwt :: "string \<Rightarrow> string \<Rightarrow> jwt_error + Claims" where
  "demo_jwt token secret = (if token = '''' then Inl (InvalidToken ''empty'') else Inr \<lparr>sub = token, exp_at = 0, iat = 0\<rparr>)"

definition opened_for :: "string \<Rightarrow> PlatformType \<Rightarrow> sessions \<Rightarrow> sessions" where
  "opened_for u p s = s\<lparr>ss_mg := register u \<lparr>cl_conn = ss_next s, cl_user_id = u, cl_platform_id = '''', cl_platform = p\<rparr> (ss_mg s),
     ss_live := (ss_next s, u, p) # ss_live s, ss_next := Suc (ss_next s), ss_newest := (ss_newest s)((u, p) \<mapsto> ss_next s)\<rparr>"

lemma opened_for_step: "u \<noteq> '''' \<Longrightarrow> session_step orderly demo_jwt secret s (opened_for u p s)"
  unfolding opened_for_def
  by (rule session_step.opened [where device = "''''" and token = u]) (simp add: websocket_open_def demo_jwt_def)

definition two_sessions :: sessions where
  "two_sessions = opened_for ''a'' Desktop (opened_for ''a'' Desktop no_sessions)"

lemma two_sessions_reachable: "(session_step orderly demo_jwt secret)\<^sup>*\<^sup>* no_sessions two_sessions"
proof -
  let ?step = "session_step orderly demo_jwt secret" and ?s = "opened_for ''a'' Desktop no_sessions"
  have "?step no_sessions ?s" "?step ?s (opened_for ''a'' Desktop ?s)" by (simp_all add: opened_for_step)
  then show ?thesis unfolding two_sessions_def
    by (rule rtranclp.rtrancl_into_rtrancl [OF rtranclp.rtrancl_into_rtrancl [OF rtranclp.rtrancl_refl]])
qed

lemma two_sessions_facts:
  "set (ss_live two_sessions) = {(0, ''a'', Desktop), (1, ''a'', Desktop)}"
  "ss_newest two_sessions (''a'', Desktop) = Some 1" "registered 1 ''a'' Desktop (ss_mg two_sessions)"
  "\<exists>c. hub_look (ss_mg two_sessions) (''a'', Desktop) = Some c"
  by (auto simp: two_sessions_def opened_for_def no_sessions_def registered_def register_look)

theorem hub_holds_live_clients_witness:
  "\<exists>c. hub_look (ss_mg two_sessions) (''a'', Desktop) = Some c \<and> ss_newest two_sessions (''a'', Desktop) = Some (cl_conn c)"
  using hub_holds_live_clients [OF two_sessions_reachable] two_sessions_facts(4) by blast

theorem newest_connection_registered_witness: "registered 1 ''a'' Desktop (ss_mg two_sessions)"
  by (rule newest_connection_registered [OF two_sessions_reachable]) (simp_all add: two_sessions_facts)

theorem superseded_end_drops_newest_witness:
  "\<exists>s' :: sessions. (1, ''a'', Desktop) \<in> set (ss_live s') \<and> hub_look (ss_mg s') (''a'', Desktop) = None"
proof -
  have "(0, ''a'', Desktop) \<in> set (ss_live two_sessions)" by (simp add: two_sessions_facts)
  from superseded_end_drops_newest [where secret = "''s''", OF two_sessions_reachable this two_sessions_facts(3) one_neq_zero] show ?thesis by blast
qed

theorem rate_limit_per_minute_witness:
  "length (filter (\<lambda>(i, t). i = ''ip'' \<and> 1 \<le> t \<and> t < 1 + RATE_LIMIT_WINDOW)
     (rate_run ((''ip'', 0) # replicate 12 (''ip'', 5) @ replicate 12 (''ip'', 60 * 1000000000)) Map.empty)) \<le> 19"
  by (rule rate_limit_per_minute) (simp add: sorted_append)

theorem registered_only_with_token_witness:
  "\<exists>mg'. websocket_open demo_jwt ''s'' ''a'' ''d'' ''a'' Mobile 7 empty_manager = (None, mg') \<and> registered 7 ''a'' Mobile mg'"
proof -
  obtain close mg' where o: "websocket_open demo_jwt ''s'' ''a'' ''d'' ''a'' Mobile 7 empty_manager = (close, mg')"
    by (cases "websocket_open demo_jwt ''s'' ''a'' ''d'' ''a'' Mobile 7 empty_manager")
  with registered_only_with_token [OF empty_manager_ok(1) o] show ?thesis by (simp add: demo_jwt_def)
qed

theorem receive_task_forwards_witness:
  "ct_hub (receive_task \<lparr>te_json = (\<lambda>s. if s = ''m'' then Some msg_example else None), te_bincode = (\<lambda>_. None),
       te_sink = (\<lambda>_. True), te_hub_closed = (\<lambda>_. False)\<rparr>
     [(1, WText ''m''), (2, WText ''junk''), (3, WClose None), (4, WText ''m'')]
     \<lparr>ct_last_activity = 0, ct_conn_state = Active, ct_out = [], ct_hub = []\<rparr>) = [msg_example]"
  by (subst receive_task_forwards) (simp_all add: List.map_filter_def MAX_MESSAGE_SIZE_def)

end
