(* ===== verification/Api_Base.thy ===== *)
theory Api_Base
  imports Pusher Sequences
begin

text \<open>
  What the HTTP handlers of \<open>api/src/handlers\<close> share: the state they work on (the Redis cache, the
  database behind \<open>app_state.db\<close>, the queue behind the chat service), the calls of other services
  with the outages they may meet, and the notification at the end of most writing handlers (encode
  the content, take the sender's next send number, hand the message to the chat service).
\<close>

section \<open>State and environment\<close>

record 'd api_state =
  as_redis :: redis
  as_db :: 'd
  as_queue :: "string list"

datatype api_call = AIncrSend | ASaveRoster | AGetCode | ADelCode | ASaveCode | ALogin | ALogout | AGetSeq

text \<open>\<open>ae_rpc\<close> is the status of a chat service that cannot be reached; \<open>ae_nid\<close>, \<open>ae_clock\<close> and
  \<open>ae_kafka\<close> are the generated id, the clock and the queue's answer inside the chat service.\<close>

record api_env =
  ae_step :: int
  ae_out :: "api_call \<Rightarrow> failure option"
  ae_rpc :: "Status option"
  ae_utf8 :: "string \<Rightarrow> bool"
  ae_json :: "Msg \<Rightarrow> string"
  ae_nid :: string
  ae_clock :: int
  ae_kafka :: "string option"
  ae_now :: int

abbreviation on_cache :: "(redis, 'a) act \<Rightarrow> ('d api_state, 'a) act" where
  "on_cache m \<equiv> on_part as_redis (\<lambda>c s. s\<lparr>as_redis := c\<rparr>) m"

abbreviation on_db :: "('d, 'a) act \<Rightarrow> ('d api_state, 'a) act" where
  "on_db m \<equiv> on_part as_db (\<lambda>c s. s\<lparr>as_db := c\<rparr>) m"

section \<open>Calls\<close>

text \<open>\<open>chat_rpc.send_msg(request).await?\<close>: a status becomes an \<open>Error\<close>; the error text a reply may
  carry is not looked at.\<close>

definition chat_send :: "api_env \<Rightarrow> SendMsgRequest \<Rightarrow> ('d api_state, MsgResponse) act" where
  "chat_send env req s =
     (case ae_rpc env of
        Some st \<Rightarrow> (Inl (Failed (error_of_status (ae_utf8 env) st)), s)
      | None \<Rightarrow>
          (case send_msg (ae_json env) (ae_nid env) (ae_clock env) (ae_kafka env) req (as_queue s) of
             (Inl st, q) \<Rightarrow> (Inl (Failed (error_of_status (ae_utf8 env) st)), s\<lparr>as_queue := q\<rparr>)
           | (Inr r, q) \<Rightarrow> (Inr r, s\<lparr>as_queue := q\<rparr>)))"

definition next_send_seq :: "api_env \<Rightarrow> string \<Rightarrow> ('d api_state, int) act" where
  "next_send_seq env u =
     and_then (on_cache (incr_send_seq (cache_seq_step (ae_step env)) (ae_out env AIncrSend) u)) (\<lambda>(n, _, _). ok n)"

definition lift_res :: "'a res \<Rightarrow> ('s, 'a) act" where
  "lift_res r = (case r of Inl e \<Rightarrow> fail e | Inr a \<Rightarrow> ok a)"

text \<open>\<open>bincode::encode_to_vec(..)?\<close>, \<open>incr_send_seq(..)?\<close>, \<open>chat_rpc.send_msg(..)?\<close>.\<close>

definition notify ::
  "api_env \<Rightarrow> string res \<Rightarrow> string \<Rightarrow> (int \<Rightarrow> string \<Rightarrow> SendMsgRequest) \<Rightarrow> ('d api_state, unit) act" where
  "notify env payload u request =
     and_then (lift_res payload) (\<lambda>msg.
     and_then (next_send_seq env u) (\<lambda>n.
     and_then (chat_send env (request n msg)) (\<lambda>_. ok ())))"

section \<open>Facts\<close>

definition chat_up :: "api_env \<Rightarrow> bool" where
  "chat_up env \<longleftrightarrow> ae_rpc env = None \<and> ae_kafka env = None \<and> ae_out env AIncrSend = None"

lemma lift_res_simps [simp]: "lift_res (Inl e) = fail e" "lift_res (Inr a) = ok a"
  by (simp_all add: lift_res_def)

lemma on_part_parts [simp]:
  "as_db (snd (on_cache m s)) = as_db s" "as_queue (snd (on_cache m s)) = as_queue s"
  "as_redis (snd (on_db m' s)) = as_redis s" "as_queue (snd (on_db m' s)) = as_queue s"
  by (simp_all add: on_part_def split: prod.split)

text \<open>The number a sender's next notification carries; it is there unless it would leave the 64-bit
  range.\<close>

definition next_number :: "redis \<Rightarrow> string \<Rightarrow> int" where
  "next_number r u = cur_of (send_seq_key u) r + 1"

definition send_room :: "redis \<Rightarrow> string \<Rightarrow> bool" where
  "send_room r u \<longleftrightarrow> i64_ok (next_number r u)"

definition numbered_send :: "api_env \<Rightarrow> string \<Rightarrow> redis \<Rightarrow> redis" where
  "numbered_send env u r = script_state (cache_seq_step (ae_step env)) (send_seq_key u) r"

lemma next_send_seq_up:
  assumes "ae_out env AIncrSend = None" and "send_room (as_redis s) u"
  shows "next_send_seq env u s = (Inr (next_number (as_redis s) u), s\<lparr>as_redis := numbered_send env u (as_redis s)\<rparr>)"
  using assms
  by (simp add: next_send_seq_def and_then_def on_part_def incr_send_seq_def single_script_eq send_room_def
      next_number_def numbered_send_def script_result_def Let_def)

lemma numbered_send_facts [simp]:
  "r_set (numbered_send env u r) = r_set r" "r_hash (numbered_send env u r) (seq_key v) = r_hash r (seq_key v)"
  "v \<noteq> u \<Longrightarrow> next_number (numbered_send env u r) v = next_number r v"
  "v \<noteq> u \<Longrightarrow> send_room (numbered_send env u r) v = send_room r v"
  by (simp_all add: numbered_send_def script_state_def hset_def Let_def next_number_def send_room_def
      cur_of_def hget_def)

lemma notify_up:
  assumes "chat_up env" and "send_room (as_redis s) u"
    and "\<And>n. request n payload = \<lparr>message = Some (msg n)\<rparr>"
  shows "notify env (Inr payload) u request s =
      (Inr (), s\<lparr>as_redis := numbered_send env u (as_redis s),
        as_queue := as_queue s @ [ae_json env (stamp (ae_nid env) (ae_clock env) (msg (next_number (as_redis s) u)))]\<rparr>)"
  using assms
  by (simp add: notify_def and_then_def next_send_seq_up chat_send_def send_msg_def chat_up_def Let_def)

text \<open>A queue that refuses the record is not reported: the caller is answered \<open>Ok\<close>, the tables keep the
  change and nobody is told of it.\<close>

lemma refused_notice_is_lost:
  assumes "ae_rpc env = None" and "ae_kafka env = Some err" and "ae_out env AIncrSend = None"
    and "send_room (as_redis s) u" and "\<And>n. request n p = \<lparr>message = Some (msg n)\<rparr>"
  shows "notify env (Inr p) u request s = (Inr (), s\<lparr>as_redis := numbered_send env u (as_redis s)\<rparr>)"
  using assms
  by (simp add: notify_def and_then_def next_send_seq_up chat_send_def send_msg_def Let_def)

text \<open>When the content cannot be encoded, the number cannot be taken or the chat service cannot be
  reached, nothing is queued.\<close>

lemma notify_fails:
  assumes "notify env payload u request s = (Inl e, s')"
  shows "as_queue s' = as_queue s \<and> as_db s' = as_db s"
  using assms
  by (cases payload)
     (auto simp: notify_def next_send_seq_def and_then_def on_part_def chat_send_def send_msg_def Let_def
       split: prod.splits sum.splits option.splits)

end
