(* ===== verification/Group_Repo.thy ===== *)
theory Group_Repo
  imports Seq_Repo "HOL-Library.Char_ord" "HOL-Library.List_Lexorder"
begin

text \<open>
  The group repository \<open>PostgresGroup\<close> (\<open>db/src/postgres/group.rs\<close>) over the tables of
  \<open>migrations/20240322014422_groups.up.sql\<close>. A table is the list of its rows; every SQL
  statement of the code is evaluated with the semantics PostgreSQL documents (primary and
  foreign keys, \<open>ON DELETE CASCADE\<close>, \<open>ON CONFLICT DO NOTHING\<close>, \<open>COALESCE(NULLIF(..))\<close>, the text
  order of \<open>role::text\<close>).

  What comes from outside is the record \<open>group_env\<close>: which statement of an operation fails,
  whether the driver can decode a returned row into the response struct, how the driver reads
  the JSON column of a poll, the cast of a bound integer to \<open>group_role\<close>, the clocks and the
  generated ids. Operations answer with the row they return.
\<close>

section \<open>Rows\<close>

datatype Role = Owner | Admin | Member

fun role_text :: "Role \<Rightarrow> string" where
  "role_text Owner = ''Owner''"
| "role_text Admin = ''Admin''"
| "role_text Member = ''Member''"

definition role_of_text :: "string \<Rightarrow> Role option" where
  "role_of_text s = (if s = ''Owner'' then Some Owner else if s = ''Admin'' then Some Admin
     else if s = ''Member'' then Some Member else None)"

record UserCard =
  uc_id :: string
  uc_name :: string

record GroupRow =
  gr_id :: string
  gr_owner :: string
  gr_name :: string
  gr_avatar :: string
  gr_description :: string
  gr_announcement :: string
  gr_create_time :: int
  gr_update_time :: int
  gr_max_members :: int
  gr_is_public :: bool
  gr_join_approval_required :: bool
  gr_category :: "string option"
  gr_tags :: "string list option"
  gr_mute_all :: bool
  gr_only_admin_post :: bool
  gr_invite_permission :: Role

record MemberRow =
  mb_group_id :: string
  mb_user_id :: string
  mb_group_name :: string
  mb_role :: Role
  mb_joined_at :: int
  mb_is_muted :: bool
  mb_notification_level :: string
  mb_last_read_time :: int
  mb_display_order :: int
  mb_joined_by :: string

record CategoryRow =
  ct_id :: string
  ct_name :: string
  ct_description :: string
  ct_display_order :: int
  ct_create_time :: int
  ct_update_time :: int

record FileRow =
  fl_id :: string
  fl_group_id :: string
  fl_uploader_id :: string
  fl_file_name :: string
  fl_file_url :: string
  fl_file_size :: int
  fl_file_type :: string
  fl_upload_time :: int
  fl_is_pinned :: bool

record PollOption =
  po_id :: string
  po_text :: string
  po_voter_ids :: "string list"
  po_vote_count :: int

record PollRow =
  pl_id :: string
  pl_group_id :: string
  pl_creator_id :: string
  pl_title :: string
  pl_options :: "PollOption list"
  pl_results :: "PollOption list option"
  pl_is_multiple :: bool
  pl_is_anonymous :: bool
  pl_created_at :: int
  pl_expires_at :: int
  pl_status :: string

record MuteRow =
  mt_id :: string
  mt_group_id :: string
  mt_user_id :: string
  mt_operator_id :: string
  mt_mute_until :: int
  mt_reason :: string
  mt_created_at :: int

record AnnouncementRow =
  an_id :: string
  an_group_id :: string
  an_creator_id :: string
  an_content :: string
  an_created_at :: int
  an_is_pinned :: bool

record group_db =
  gd_users :: "UserCard list"
  gd_groups :: "GroupRow list"
  gd_members :: "MemberRow list"
  gd_categories :: "CategoryRow list"
  gd_files :: "FileRow list"
  gd_polls :: "PollRow list"
  gd_mutes :: "MuteRow list"
  gd_announcements :: "AnnouncementRow list"

record group_env =
  ge_stmt :: "nat \<Rightarrow> failure option"
  ge_decode_group :: "GroupRow \<Rightarrow> failure option"
  ge_decode_member :: "MemberRow \<Rightarrow> failure option"
  ge_read_options :: "PollOption list \<Rightarrow> PollOption list"
  ge_role_cast :: "int \<Rightarrow> Role res"
  ge_now :: int
  ge_pg_now :: int
  ge_nanoid :: "nat \<Rightarrow> string"

section \<open>Statements\<close>

abbreviation stmt :: "group_env \<Rightarrow> nat \<Rightarrow> (group_db, 'a) act \<Rightarrow> (group_db, 'a) act" where
  "stmt env n m \<equiv> remote (ge_stmt env n) m"

text \<open>\<open>fetch_one\<close>: the first row, decoded; no row is an error.\<close>

definition fetch_one :: "('r \<Rightarrow> failure option) \<Rightarrow> 'r list \<Rightarrow> 'r res" where
  "fetch_one decode rows =
     (case rows of
        [] \<Rightarrow> Inl row_not_found
      | r # _ \<Rightarrow> (case decode r of Some e \<Rightarrow> Inl e | None \<Rightarrow> Inr r))"

definition fetch_all :: "('r \<Rightarrow> failure option) \<Rightarrow> 'r list \<Rightarrow> 'r list res" where
  "fetch_all decode rows =
     (case List.map_filter decode rows of e # _ \<Rightarrow> Inl e | [] \<Rightarrow> Inr rows)"

definition no_decode :: "'r \<Rightarrow> failure option" where
  "no_decode _ = None"

definition select :: "(group_db \<Rightarrow> 'a res) \<Rightarrow> (group_db, 'a) act" where
  "select q db = (q db, db)"

definition unique_violation :: failure where
  "unique_violation = db_error ''duplicate key value violates unique constraint''"

definition foreign_key_violation :: failure where
  "foreign_key_violation = db_error ''insert or update violates foreign key constraint''"

text \<open>\<open>COALESCE(NULLIF(v, ''), old)\<close>.\<close>

definition keep_if_empty :: "string \<Rightarrow> string \<Rightarrow> string" where
  "keep_if_empty v old = (if v = '''' then old else v)"

definition is_row :: "string \<Rightarrow> string \<Rightarrow> MemberRow \<Rightarrow> bool" where
  "is_row g u r \<longleftrightarrow> mb_group_id r = g \<and> mb_user_id r = u"

definition is_manager :: "string \<Rightarrow> string \<Rightarrow> MemberRow \<Rightarrow> bool" where
  "is_manager g u r \<longleftrightarrow> is_row g u r \<and> (mb_role r = Admin \<or> mb_role r = Owner)"

definition unauthorized_act :: "string \<Rightarrow> (group_db, 'a) act" where
  "unauthorized_act d = fail (Failed (unauthorized_with_details d))"

section \<open>Groups and members\<close>

definition get_group :: "group_env \<Rightarrow> string \<Rightarrow> string \<Rightarrow> (group_db, GroupRow) act" where
  "get_group env u g = stmt env 0 (select (\<lambda>db. fetch_one (ge_decode_group env)
     (concat (map (\<lambda>r. map (\<lambda>_. r) (filter (is_row g u) (gd_members db)))
       (filter (\<lambda>r. gr_id r = g) (gd_groups db))))))"

text \<open>The join of members with users, a pair per matching user.\<close>

definition member_cards :: "(MemberRow \<Rightarrow> bool) \<Rightarrow> group_db \<Rightarrow> (MemberRow \<times> UserCard) list" where
  "member_cards P db = concat (map (\<lambda>m. map (\<lambda>u. (m, u))
     (filter (\<lambda>u. uc_id u = mb_user_id m) (gd_users db))) (filter P (gd_members db)))"

definition get_group_and_members ::
  "group_env \<Rightarrow> string \<Rightarrow> string \<Rightarrow> (group_db, GroupRow \<times> (MemberRow \<times> UserCard) list) act" where
  "get_group_and_members env u g =
     and_then (get_group env u g) (\<lambda>group.
     and_then (stmt env 1 (select (\<lambda>db. fetch_all (\<lambda>p. ge_decode_member env (fst p))
       (member_cards (\<lambda>m. mb_group_id m = g) db)))) (\<lambda>ms. ok (group, ms)))"

definition get_members ::
  "group_env \<Rightarrow> string \<Rightarrow> string \<Rightarrow> string list \<Rightarrow> (group_db, (MemberRow \<times> UserCard) list) act" where
  "get_members env u g ids =
     and_then (stmt env 0 (select (\<lambda>db. Inr (list_ex (is_row g u) (gd_members db))))) (\<lambda>belongs.
     if \<not> belongs then fail (Failed not_found)
     else stmt env 1 (select (\<lambda>db. fetch_all (\<lambda>p. ge_decode_member env (fst p))
       (member_cards (\<lambda>m. mb_group_id m = g \<and> mb_user_id m \<in> set ids) db))))"

record GroupCreate =
  gc_id :: string
  gc_owner :: string
  gc_group_name :: string
  gc_avatar :: string
  gc_members_id :: "string list"

definition new_group_row :: "int \<Rightarrow> GroupCreate \<Rightarrow> GroupRow" where
  "new_group_row now c =
     \<lparr>gr_id = gc_id c, gr_owner = gc_owner c, gr_name = gc_group_name c, gr_avatar = gc_avatar c,
      gr_description = '''', gr_announcement = '''', gr_create_time = now, gr_update_time = now,
      gr_max_members = 500, gr_is_public = True, gr_join_approval_required = False,
      gr_category = None, gr_tags = None, gr_mute_all = False, gr_only_admin_post = False,
      gr_invite_permission = Admin\<rparr>"

definition new_member_row :: "int \<Rightarrow> string \<Rightarrow> Role \<Rightarrow> string \<Rightarrow> UserCard \<Rightarrow> MemberRow" where
  "new_member_row now g role by u =
     \<lparr>mb_group_id = g, mb_user_id = uc_id u, mb_group_name = uc_name u, mb_role = role,
      mb_joined_at = now, mb_is_muted = False, mb_notification_level = ''all'',
      mb_last_read_time = now, mb_display_order = 0, mb_joined_by = by\<rparr>"

definition insert_group_row :: "group_env \<Rightarrow> GroupCreate \<Rightarrow> (group_db, GroupRow) act" where
  "insert_group_row env c db =
     (if gc_id c \<in> gr_id ` set (gd_groups db) then (Inl unique_violation, db)
      else let row = new_group_row (ge_now env) c in
        (fetch_one (ge_decode_group env) [row], db\<lparr>gd_groups := gd_groups db @ [row]\<rparr>))"

definition insert_member_rows :: "group_env \<Rightarrow> GroupCreate \<Rightarrow> (group_db, MemberRow list) act" where
  "insert_member_rows env c db =
     (let rows = map (\<lambda>u. new_member_row (ge_now env) (gc_id c)
                   (if uc_id u = gc_owner c then Owner else Member) (gc_owner c) u)
                 (filter (\<lambda>u. uc_id u \<in> set (gc_members_id c)) (gd_users db))
      in if list_ex (\<lambda>r. list_ex (is_row (mb_group_id r) (mb_user_id r)) (gd_members db)) rows
         then (Inl unique_violation, db)
         else (fetch_all (ge_decode_member env) rows, db\<lparr>gd_members := gd_members db @ rows\<rparr>))"

text \<open>A transaction that ends with an error leaves nothing behind.\<close>

definition transaction :: "('s, 'e, 'a) stres \<Rightarrow> ('s, 'e, 'a) stres" where
  "transaction m s = (case m s of (Inl e, _) \<Rightarrow> (Inl e, s) | (Inr a, t) \<Rightarrow> (Inr a, t))"

definition create_group_with_members ::
  "group_env \<Rightarrow> GroupCreate \<Rightarrow> (group_db, GroupRow \<times> MemberRow list) act" where
  "create_group_with_members env c =
     transaction (and_then (stmt env 0 (ok ())) (\<lambda>_.
       and_then (stmt env 1 (insert_group_row env c)) (\<lambda>info.
       and_then (stmt env 2 (insert_member_rows env c)) (\<lambda>ms.
       and_then (stmt env 3 (ok ())) (\<lambda>_. ok (info, ms))))))"

record GroupInviteNew =
  gi_user_id :: string
  gi_group_id :: string
  gi_members :: "string list"

text \<open>\<open>gm.role::text <= g.invite_permission::text\<close> compares the names of the roles.\<close>

definition may_invite :: "string \<Rightarrow> string \<Rightarrow> group_db \<Rightarrow> bool" where
  "may_invite g u db \<longleftrightarrow>
     list_ex (\<lambda>m. is_row g u m \<and> list_ex (\<lambda>r. gr_id r = g \<and>
        role_text (mb_role m) \<le> role_text (gr_invite_permission r)) (gd_groups db)) (gd_members db)"

definition invite_new_members :: "group_env \<Rightarrow> GroupInviteNew \<Rightarrow> (group_db, unit) act" where
  "invite_new_members env i =
     and_then (stmt env 0 (select (\<lambda>db. Inr (may_invite (gi_group_id i) (gi_user_id i) db)))) (\<lambda>allowed.
     if \<not> allowed then unauthorized_act ''user doesn't have permission to invite''
     else stmt env 1 (\<lambda>db. (Inr (), db\<lparr>gd_members := gd_members db @
       map (new_member_row (ge_now env) (gi_group_id i) Member (gi_user_id i))
         (filter (\<lambda>u. uc_id u \<in> set (gi_members i)
             \<and> \<not> list_ex (is_row (gi_group_id i) (uc_id u)) (gd_members db)) (gd_users db))\<rparr>)))"

text \<open>Deleting a member row deletes its mute records.\<close>

definition delete_members :: "(MemberRow \<Rightarrow> bool) \<Rightarrow> group_db \<Rightarrow> group_db" where
  "delete_members P db =
     db\<lparr>gd_members := filter (\<lambda>m. \<not> P m) (gd_members db),
        gd_mutes := filter (\<lambda>t. \<not> list_ex (\<lambda>m. P m \<and> is_row (mt_group_id t) (mt_user_id t) m)
                      (gd_members db)) (gd_mutes db)\<rparr>"

definition remove_member :: "group_env \<Rightarrow> string \<Rightarrow> string \<Rightarrow> string list \<Rightarrow> (group_db, unit) act" where
  "remove_member env g u ids =
     stmt env 0 (\<lambda>db. (Inr (),
       if list_ex (is_manager g u) (gd_members db)
       then delete_members (\<lambda>m. mb_user_id m \<in> set ids \<and> mb_group_id m = g) db else db))"

definition get_group_by_id :: "group_env \<Rightarrow> string \<Rightarrow> (group_db, GroupRow) act" where
  "get_group_by_id env g = stmt env 0 (select (\<lambda>db. fetch_one (ge_decode_group env)
     (filter (\<lambda>r. gr_id r = g) (gd_groups db))))"

definition member_ids :: "string \<Rightarrow> group_db \<Rightarrow> string list" where
  "member_ids g db = map mb_user_id (filter (\<lambda>m. mb_group_id m = g) (gd_members db))"

definition query_group_members_id_db :: "group_env \<Rightarrow> string \<Rightarrow> (group_db, string list) act" where
  "query_group_members_id_db env g = stmt env 0 (select (\<lambda>db. Inr (member_ids g db)))"

definition query_group_members_by_group_id ::
  "group_env \<Rightarrow> string \<Rightarrow> (group_db, (MemberRow \<times> UserCard) list) act" where
  "query_group_members_by_group_id env g = stmt env 0 (select (\<lambda>db.
     fetch_all (\<lambda>p. ge_decode_member env (fst p)) (member_cards (\<lambda>m. mb_group_id m = g) db)))"

record GroupUpdate =
  gu_id :: string
  gu_name :: string
  gu_avatar :: string
  gu_description :: string
  gu_announcement :: string

text \<open>\<open>UPDATE groups SET .. WHERE id = g RETURNING *\<close>: the update stays even when the returned
  row cannot be decoded.\<close>

definition update_groups ::
  "group_env \<Rightarrow> string \<Rightarrow> (GroupRow \<Rightarrow> GroupRow) \<Rightarrow> (group_db, GroupRow) act" where
  "update_groups env g f db =
     (fetch_one (ge_decode_group env) (map f (filter (\<lambda>r. gr_id r = g) (gd_groups db))),
      db\<lparr>gd_groups := map (\<lambda>r. if gr_id r = g then f r else r) (gd_groups db)\<rparr>)"

definition update_group :: "group_env \<Rightarrow> GroupUpdate \<Rightarrow> (group_db, GroupRow) act" where
  "update_group env v = stmt env 0 (update_groups env (gu_id v) (\<lambda>r.
     r\<lparr>gr_name := keep_if_empty (gu_name v) (gr_name r),
       gr_avatar := keep_if_empty (gu_avatar v) (gr_avatar r),
       gr_description := keep_if_empty (gu_description v) (gr_description r),
       gr_announcement := keep_if_empty (gu_announcement v) (gr_announcement r),
       gr_update_time := ge_now env\<rparr>))"

definition exit_group :: "group_env \<Rightarrow> string \<Rightarrow> string \<Rightarrow> (group_db, unit) act" where
  "exit_group env u g =
     and_then (stmt env 0 (select (\<lambda>db. Inr (list_ex (\<lambda>m. is_row g u m \<and> mb_role m = Owner)
       (gd_members db))))) (\<lambda>is_owner.
     if is_owner then unauthorized_act ''Owner cannot exit group. Transfer ownership first''
     else stmt env 1 (\<lambda>db. (Inr (), delete_members (is_row g u) db)))"

text \<open>Files, polls and announcements refer to their group with \<open>ON DELETE CASCADE\<close>; member rows
  do not refer to it.\<close>

definition delete_group_rows :: "string list \<Rightarrow> group_db \<Rightarrow> group_db" where
  "delete_group_rows gs db =
     db\<lparr>gd_groups := filter (\<lambda>r. gr_id r \<notin> set gs) (gd_groups db),
        gd_files := filter (\<lambda>r. fl_group_id r \<notin> set gs) (gd_files db),
        gd_polls := filter (\<lambda>r. pl_group_id r \<notin> set gs) (gd_polls db),
        gd_announcements := filter (\<lambda>r. an_group_id r \<notin> set gs) (gd_announcements db)\<rparr>"

definition delete_group :: "group_env \<Rightarrow> string \<Rightarrow> string \<Rightarrow> (group_db, GroupRow) act" where
  "delete_group env g owner =
     transaction (and_then (stmt env 0 (ok ())) (\<lambda>_.
       and_then (stmt env 1 (\<lambda>db.
         (let rows = filter (\<lambda>r. gr_id r = g \<and> gr_owner r = owner) (gd_groups db) in
          (fetch_one (ge_decode_group env) rows, delete_group_rows (map gr_id rows) db)))) (\<lambda>group.
       and_then (stmt env 2 (ok ())) (\<lambda>_. ok group))))"

record UpdateGroupRequest =
  ug_group_id :: string
  ug_user_id :: string
  ug_name :: string
  ug_avatar :: string
  ug_description :: string
  ug_announcement :: string
  ug_join_approval_required :: bool
  ug_mute_all :: bool
  ug_only_admin_post :: bool
  ug_invite_permission :: int
  ug_category :: string
  ug_tags :: "string list"

definition update_group_settings :: "group_env \<Rightarrow> UpdateGroupRequest \<Rightarrow> (group_db, GroupRow) act" where
  "update_group_settings env q = stmt env 0 (\<lambda>db.
     (case ge_role_cast env (ug_invite_permission q) of
        Inl e \<Rightarrow> (Inl e, db)
      | Inr role \<Rightarrow> update_groups env (ug_group_id q) (\<lambda>r.
          r\<lparr>gr_name := keep_if_empty (ug_name q) (gr_name r),
            gr_avatar := keep_if_empty (ug_avatar q) (gr_avatar r),
            gr_description := keep_if_empty (ug_description q) (gr_description r),
            gr_announcement := keep_if_empty (ug_announcement q) (gr_announcement r),
            gr_join_approval_required := ug_join_approval_required q,
            gr_mute_all := ug_mute_all q, gr_only_admin_post := ug_only_admin_post q,
            gr_invite_permission := role,
            gr_category := (if ug_category q = '''' then gr_category r else Some (ug_category q)),
            gr_tags := Some (ug_tags q), gr_update_time := ge_now env\<rparr>) db))"

definition update_members ::
  "group_env \<Rightarrow> (MemberRow \<Rightarrow> bool) \<Rightarrow> (MemberRow \<Rightarrow> MemberRow) \<Rightarrow> (group_db, MemberRow) act" where
  "update_members env P f db =
     (fetch_one (ge_decode_member env) (map f (filter P (gd_members db))),
      db\<lparr>gd_members := map (\<lambda>m. if P m then f m else m) (gd_members db)\<rparr>)"

definition update_member_settings ::
  "group_env \<Rightarrow> string \<Rightarrow> string \<Rightarrow> string \<Rightarrow> int \<Rightarrow> (group_db, MemberRow) act" where
  "update_member_settings env g u level order = stmt env 0 (update_members env (is_row g u)
     (\<lambda>m. m\<lparr>mb_notification_level := level, mb_display_order := order\<rparr>))"

section \<open>Categories\<close>

record CreateGroupCategoryRequest =
  cc_name :: string
  cc_description :: string
  cc_display_order :: int

definition create_group_category ::
  "group_env \<Rightarrow> CreateGroupCategoryRequest \<Rightarrow> (group_db, CategoryRow) act" where
  "create_group_category env q = stmt env 0 (\<lambda>db.
     (let row = \<lparr>ct_id = ge_nanoid env 0, ct_name = cc_name q, ct_description = cc_description q,
         ct_display_order = cc_display_order q, ct_create_time = ge_now env, ct_update_time = ge_now env\<rparr>
      in if ct_id row \<in> ct_id ` set (gd_categories db) then (Inl unique_violation, db)
         else (Inr row, db\<lparr>gd_categories := gd_categories db @ [row]\<rparr>)))"

definition update_group_category :: "group_env \<Rightarrow> CategoryRow \<Rightarrow> (group_db, CategoryRow) act" where
  "update_group_category env c = stmt env 0 (\<lambda>db.
     (let f = (\<lambda>r. r\<lparr>ct_name := ct_name c, ct_description := ct_description c,
                 ct_display_order := ct_display_order c, ct_update_time := ge_now env\<rparr>)
      in (fetch_one no_decode (map f (filter (\<lambda>r. ct_id r = ct_id c) (gd_categories db))),
          db\<lparr>gd_categories := map (\<lambda>r. if ct_id r = ct_id c then f r else r) (gd_categories db)\<rparr>)))"

definition delete_group_category :: "group_env \<Rightarrow> string \<Rightarrow> (group_db, unit) act" where
  "delete_group_category env i =
     transaction (and_then (stmt env 0 (ok ())) (\<lambda>_.
       and_then (stmt env 1 (\<lambda>db. (Inr (), db\<lparr>gd_groups := map (\<lambda>r. if gr_category r = Some i
           then r\<lparr>gr_category := None\<rparr> else r) (gd_groups db)\<rparr>))) (\<lambda>_.
       and_then (stmt env 2 (\<lambda>db. (Inr (), db\<lparr>gd_categories :=
           filter (\<lambda>r. ct_id r \<noteq> i) (gd_categories db)\<rparr>))) (\<lambda>_. stmt env 3 (ok ())))))"

definition get_group_categories :: "group_env \<Rightarrow> (group_db, CategoryRow list) act" where
  "get_group_categories env = stmt env 0 (select (\<lambda>db. Inr (sort_key ct_display_order (gd_categories db))))"

section \<open>Files\<close>

record GroupFileUploadRequest =
  fu_group_id :: string
  fu_uploader_id :: string
  fu_file_name :: string
  fu_file_type :: string
  fu_file_size :: int
  fu_file_url :: string

definition upload_group_file :: "group_env \<Rightarrow> GroupFileUploadRequest \<Rightarrow> (group_db, FileRow) act" where
  "upload_group_file env q = stmt env 0 (\<lambda>db.
     (let row = \<lparr>fl_id = ge_nanoid env 0, fl_group_id = fu_group_id q, fl_uploader_id = fu_uploader_id q,
         fl_file_name = fu_file_name q, fl_file_url = fu_file_url q, fl_file_size = fu_file_size q,
         fl_file_type = fu_file_type q, fl_upload_time = ge_now env, fl_is_pinned = False\<rparr>
      in if fl_id row \<in> fl_id ` set (gd_files db) then (Inl unique_violation, db)
         else if fu_group_id q \<notin> gr_id ` set (gd_groups db) then (Inl foreign_key_violation, db)
         else (Inr row, db\<lparr>gd_files := gd_files db @ [row]\<rparr>)))"

definition delete_group_file :: "group_env \<Rightarrow> string \<Rightarrow> string \<Rightarrow> (group_db, unit) act" where
  "delete_group_file env f u =
     and_then (stmt env 0 (select (\<lambda>db. Inr (list_ex (\<lambda>r. fl_id r = f \<and>
       list_ex (\<lambda>m. is_row (fl_group_id r) u m \<and>
         (mb_role m = Owner \<or> mb_role m = Admin \<or> fl_uploader_id r = u)) (gd_members db)) (gd_files db))))) (\<lambda>can_delete.
     if \<not> can_delete then unauthorized_act ''No permission to delete this file''
     else stmt env 1 (\<lambda>db. (Inr (), db\<lparr>gd_files := filter (\<lambda>r. fl_id r \<noteq> f) (gd_files db)\<rparr>)))"

definition get_group_files :: "group_env \<Rightarrow> string \<Rightarrow> (group_db, FileRow list) act" where
  "get_group_files env g = stmt env 0 (select (\<lambda>db. Inr (sort_key (\<lambda>r. - fl_upload_time r)
     (filter (\<lambda>r. fl_group_id r = g) (gd_files db)))))"

definition update_file_pin_status :: "group_env \<Rightarrow> string \<Rightarrow> bool \<Rightarrow> (group_db, FileRow) act" where
  "update_file_pin_status env f pinned = stmt env 0 (\<lambda>db.
     (fetch_one no_decode (map (\<lambda>r. r\<lparr>fl_is_pinned := pinned\<rparr>) (filter (\<lambda>r. fl_id r = f) (gd_files db))),
      db\<lparr>gd_files := map (\<lambda>r. if fl_id r = f then r\<lparr>fl_is_pinned := pinned\<rparr> else r) (gd_files db)\<rparr>))"

section \<open>Polls\<close>

record CreatePollRequest =
  cp_group_id :: string
  cp_creator_id :: string
  cp_title :: string
  cp_options :: "string list"
  cp_is_multiple :: bool
  cp_is_anonymous :: bool
  cp_expires_at :: int

text \<open>The first generated id is the poll's, the following ones are the options'.\<close>

definition create_poll :: "group_env \<Rightarrow> CreatePollRequest \<Rightarrow> (group_db, PollRow) act" where
  "create_poll env q = stmt env 0 (\<lambda>db.
     (let options = map (\<lambda>(n, t). \<lparr>po_id = ge_nanoid env (Suc n), po_text = t, po_voter_ids = [],
             po_vote_count = 0\<rparr>) (enumerate 0 (cp_options q));
          row = \<lparr>pl_id = ge_nanoid env 0, pl_group_id = cp_group_id q, pl_creator_id = cp_creator_id q,
             pl_title = cp_title q, pl_options = options, pl_results = None,
             pl_is_multiple = cp_is_multiple q, pl_is_anonymous = cp_is_anonymous q,
             pl_created_at = ge_now env, pl_expires_at = cp_expires_at q, pl_status = ''active''\<rparr>
      in if pl_id row \<in> pl_id ` set (gd_polls db) then (Inl unique_violation, db)
         else if cp_group_id q \<notin> gr_id ` set (gd_groups db) then (Inl foreign_key_violation, db)
         else (Inr row, db\<lparr>gd_polls := gd_polls db @ [row]\<rparr>)))"

record VotePollRequest =
  vp_poll_id :: string
  vp_user_id :: string
  vp_option_ids :: "string list"

text \<open>The loop body of \<open>vote_poll\<close> on one option.\<close>

definition cast_vote :: "bool \<Rightarrow> VotePollRequest \<Rightarrow> PollOption \<Rightarrow> PollOption" where
  "cast_vote anonymous q p =
     (if po_id p \<in> set (vp_option_ids q)
      then p\<lparr>po_voter_ids := (if \<not> anonymous \<and> vp_user_id q \<notin> set (po_voter_ids p)
                             then po_voter_ids p @ [vp_user_id q] else po_voter_ids p),
             po_vote_count := po_vote_count p + 1\<rparr>
      else p)"

definition select_poll :: "group_env \<Rightarrow> nat \<Rightarrow> string \<Rightarrow> (group_db, PollRow) act" where
  "select_poll env n i = stmt env n (select (\<lambda>db. fetch_one no_decode (filter (\<lambda>r. pl_id r = i) (gd_polls db))))"

definition update_polls :: "string \<Rightarrow> (PollRow \<Rightarrow> PollRow) \<Rightarrow> (group_db, PollRow) act" where
  "update_polls i f db =
     (fetch_one no_decode (map f (filter (\<lambda>r. pl_id r = i) (gd_polls db))),
      db\<lparr>gd_polls := map (\<lambda>r. if pl_id r = i then f r else r) (gd_polls db)\<rparr>)"

definition vote_poll :: "group_env \<Rightarrow> VotePollRequest \<Rightarrow> (group_db, PollRow) act" where
  "vote_poll env q =
     and_then (select_poll env 0 (vp_poll_id q)) (\<lambda>poll.
     if pl_status poll \<noteq> ''active'' then unauthorized_act ''Poll is not active''
     else (let options = map (cast_vote (pl_is_anonymous poll) q) (ge_read_options env (pl_options poll)) in
       stmt env 1 (update_polls (vp_poll_id q)
         (\<lambda>r. r\<lparr>pl_options := options, pl_results := Some options\<rparr>))))"

definition close_poll :: "group_env \<Rightarrow> string \<Rightarrow> string \<Rightarrow> (group_db, PollRow) act" where
  "close_poll env i u =
     and_then (stmt env 0 (select (\<lambda>db. Inr (list_ex (\<lambda>p. pl_id p = i \<and>
       list_ex (\<lambda>m. is_row (pl_group_id p) u m \<and>
         (mb_role m = Admin \<or> mb_role m = Owner \<or> pl_creator_id p = u)) (gd_members db)) (gd_polls db))))) (\<lambda>can_close.
     if \<not> can_close then unauthorized_act ''No permission to close this poll''
     else stmt env 1 (update_polls i (\<lambda>r. r\<lparr>pl_status := ''closed''\<rparr>)))"

definition get_group_polls :: "group_env \<Rightarrow> string \<Rightarrow> (group_db, PollRow list) act" where
  "get_group_polls env g = stmt env 0 (select (\<lambda>db. Inr (sort_key (\<lambda>r. - pl_created_at r)
     (filter (\<lambda>r. pl_group_id r = g) (gd_polls db)))))"

definition get_poll_details :: "group_env \<Rightarrow> string \<Rightarrow> (group_db, PollRow) act" where
  "get_poll_details env i = select_poll env 0 i"

section \<open>Muting\<close>

record MuteGroupMemberRequest =
  mq_group_id :: string
  mq_user_id :: string
  mq_operator_id :: string
  mq_mute_until :: int
  mq_reason :: string

definition select_role :: "group_env \<Rightarrow> nat \<Rightarrow> string \<Rightarrow> string \<Rightarrow> (group_db, string) act" where
  "select_role env n g u = stmt env n (select (\<lambda>db. fetch_one no_decode
     (map (\<lambda>m. role_text (mb_role m)) (filter (is_row g u) (gd_members db)))))"

definition mute_group_member :: "group_env \<Rightarrow> MuteGroupMemberRequest \<Rightarrow> (group_db, MuteRow) act" where
  "mute_group_member env q =
     and_then (stmt env 0 (select (\<lambda>db. Inr (list_ex (is_manager (mq_group_id q) (mq_operator_id q))
       (gd_members db))))) (\<lambda>allowed.
     if \<not> allowed then unauthorized_act ''No permission to mute members''
     else and_then (select_role env 1 (mq_group_id q) (mq_user_id q)) (\<lambda>target_role.
     and_then (select_role env 2 (mq_group_id q) (mq_operator_id q)) (\<lambda>operator_role.
     if target_role \<le> operator_role \<and> target_role \<noteq> ''Member''
     then unauthorized_act ''Cannot mute higher or equal role''
     else and_then (stmt env 3 (\<lambda>db.
       (let row = \<lparr>mt_id = ge_nanoid env 0, mt_group_id = mq_group_id q, mt_user_id = mq_user_id q,
             mt_operator_id = mq_operator_id q, mt_mute_until = mq_mute_until q,
             mt_reason = mq_reason q, mt_created_at = ge_now env\<rparr>
        in if mt_id row \<in> mt_id ` set (gd_mutes db) then (Inl unique_violation, db)
           else if \<not> list_ex (is_row (mq_group_id q) (mq_user_id q)) (gd_members db)
           then (Inl foreign_key_violation, db)
           else (Inr row, db\<lparr>gd_mutes := gd_mutes db @ [row]\<rparr>)))) (\<lambda>row.
     and_then (stmt env 4 (\<lambda>db. (Inr (), db\<lparr>gd_members := map (\<lambda>m.
       if is_row (mq_group_id q) (mq_user_id q) m then m\<lparr>mb_is_muted := True\<rparr> else m)
         (gd_members db)\<rparr>))) (\<lambda>_. ok row)))))"

definition unmute_group_member ::
  "group_env \<Rightarrow> string \<Rightarrow> string \<Rightarrow> string \<Rightarrow> (group_db, unit) act" where
  "unmute_group_member env g u operator =
     and_then (stmt env 0 (select (\<lambda>db. Inr (list_ex (is_manager g operator) (gd_members db))))) (\<lambda>allowed.
     if \<not> allowed then unauthorized_act ''No permission to unmute members''
     else and_then (stmt env 1 (\<lambda>db. (Inr (), db\<lparr>gd_mutes := map (\<lambda>t.
         if mt_group_id t = g \<and> mt_user_id t = u \<and> ge_pg_now env < mt_mute_until t
         then t\<lparr>mt_mute_until := ge_pg_now env\<rparr> else t) (gd_mutes db)\<rparr>))) (\<lambda>_.
       stmt env 2 (\<lambda>db. (Inr (), db\<lparr>gd_members := map (\<lambda>m.
         if is_row g u m then m\<lparr>mb_is_muted := False\<rparr> else m) (gd_members db)\<rparr>))))"

definition get_group_muted_members :: "group_env \<Rightarrow> string \<Rightarrow> (group_db, MuteRow list) act" where
  "get_group_muted_members env g = stmt env 0 (select (\<lambda>db. Inr (sort_key (\<lambda>t. - mt_created_at t)
     (filter (\<lambda>t. mt_group_id t = g \<and> ge_pg_now env < mt_mute_until t) (gd_mutes db)))))"

section \<open>Announcements and roles\<close>

record CreateAnnouncementRequest =
  ca_group_id :: string
  ca_creator_id :: string
  ca_content :: string
  ca_is_pinned :: bool

definition create_announcement ::
  "group_env \<Rightarrow> CreateAnnouncementRequest \<Rightarrow> (group_db, AnnouncementRow) act" where
  "create_announcement env q =
     and_then (stmt env 0 (select (\<lambda>db. Inr (list_ex (is_manager (ca_group_id q) (ca_creator_id q))
       (gd_members db))))) (\<lambda>allowed.
     if \<not> allowed then unauthorized_act ''No permission to create announcements''
     else stmt env 1 (\<lambda>db.
       (let row = \<lparr>an_id = ge_nanoid env 0, an_group_id = ca_group_id q, an_creator_id = ca_creator_id q,
             an_content = ca_content q, an_created_at = ge_now env, an_is_pinned = ca_is_pinned q\<rparr>
        in if an_id row \<in> an_id ` set (gd_announcements db) then (Inl unique_violation, db)
           else if ca_group_id q \<notin> gr_id ` set (gd_groups db) then (Inl foreign_key_violation, db)
           else (Inr row, db\<lparr>gd_announcements := gd_announcements db @ [row]\<rparr>))))"

definition delete_announcement :: "group_env \<Rightarrow> string \<Rightarrow> string \<Rightarrow> (group_db, unit) act" where
  "delete_announcement env i u =
     and_then (stmt env 0 (select (\<lambda>db. Inr (list_ex (\<lambda>a. an_id a = i \<and>
       list_ex (\<lambda>m. is_row (an_group_id a) u m \<and>
         (mb_role m = Admin \<or> mb_role m = Owner \<or> an_creator_id a = u)) (gd_members db)) (gd_announcements db))))) (\<lambda>allowed.
     if \<not> allowed then unauthorized_act ''No permission to delete this announcement''
     else stmt env 1 (\<lambda>db. (Inr (), db\<lparr>gd_announcements := filter (\<lambda>a. an_id a \<noteq> i) (gd_announcements db)\<rparr>)))"

text \<open>\<open>ORDER BY is_pinned DESC, created_at DESC\<close>.\<close>

definition get_group_announcements :: "group_env \<Rightarrow> string \<Rightarrow> (group_db, AnnouncementRow list) act" where
  "get_group_announcements env g = stmt env 0 (select (\<lambda>db. Inr
     (let rows = sort_key (\<lambda>a. - an_created_at a) (filter (\<lambda>a. an_group_id a = g) (gd_announcements db))
      in filter an_is_pinned rows @ filter (\<lambda>a. \<not> an_is_pinned a) rows)))"

definition pin_announcement :: "group_env \<Rightarrow> string \<Rightarrow> bool \<Rightarrow> (group_db, AnnouncementRow) act" where
  "pin_announcement env i pinned = stmt env 0 (\<lambda>db.
     (fetch_one no_decode (map (\<lambda>a. a\<lparr>an_is_pinned := pinned\<rparr>) (filter (\<lambda>a. an_id a = i) (gd_announcements db))),
      db\<lparr>gd_announcements := map (\<lambda>a. if an_id a = i then a\<lparr>an_is_pinned := pinned\<rparr> else a)
           (gd_announcements db)\<rparr>))"

definition change_member_role ::
  "group_env \<Rightarrow> string \<Rightarrow> string \<Rightarrow> string \<Rightarrow> string \<Rightarrow> (group_db, MemberRow) act" where
  "change_member_role env g u target new_role =
     and_then (select_role env 0 g u) (\<lambda>operator_role.
     if operator_role \<noteq> ''Owner'' \<and> (operator_role \<noteq> ''Admin'' \<or> new_role = ''Owner'')
     then unauthorized_act ''Insufficient permissions for role change''
     else stmt env 1 (\<lambda>db.
       (case role_of_text new_role of
          None \<Rightarrow> (Inl (db_error ''invalid input value for enum group_role''), db)
        | Some role \<Rightarrow> update_members env (is_row g target) (\<lambda>m. m\<lparr>mb_role := role\<rparr>) db)))"

lemmas group_query_defs [pg_defs] =
  fetch_one_def fetch_all_def select_def unauthorized_act_def transaction_def no_decode_def

section \<open>Integrity of the tables\<close>

definition member_key :: "MemberRow \<Rightarrow> string \<times> string" where
  "member_key m = (mb_group_id m, mb_user_id m)"

definition group_db_ok :: "group_db \<Rightarrow> bool" where
  "group_db_ok db \<longleftrightarrow>
     distinct (map uc_id (gd_users db)) \<and> distinct (map gr_id (gd_groups db))
     \<and> distinct (map member_key (gd_members db))
     \<and> fl_group_id ` set (gd_files db) \<subseteq> gr_id ` set (gd_groups db)
     \<and> pl_group_id ` set (gd_polls db) \<subseteq> gr_id ` set (gd_groups db)
     \<and> an_group_id ` set (gd_announcements db) \<subseteq> gr_id ` set (gd_groups db)
     \<and> (\<lambda>t. (mt_group_id t, mt_user_id t)) ` set (gd_mutes db) \<subseteq> member_key ` set (gd_members db)"

lemma is_row_key: "is_row g u m \<longleftrightarrow> member_key m = (g, u)"
  by (auto simp: is_row_def member_key_def)

lemma list_ex_is_row: "list_ex (is_row g u) ms \<longleftrightarrow> (g, u) \<in> member_key ` set ms"
  by (force simp: list_ex_iff is_row_key image_iff)

lemma preserves_select [intro!, simp]: "preserves I (select q)"
  by (simp add: preserves_def select_def)

lemma preserves_unauthorized [intro!, simp]: "preserves I (unauthorized_act d)"
  by (simp add: unauthorized_act_def)

lemma preserves_transaction: "preserves I m \<Longrightarrow> preserves I (transaction m)"
  by (auto simp: preserves_def transaction_def split: prod.split sum.split)

text \<open>What keeps the integrity: adding a group; adding member rows under new keys; removing
  members with their mute records; removing a group with its dependents; updates that keep
  the keys.\<close>

lemma ok_add_group:
  "group_db_ok db \<Longrightarrow> gr_id row \<notin> gr_id ` set (gd_groups db) \<Longrightarrow>
   group_db_ok (db\<lparr>gd_groups := gd_groups db @ [row]\<rparr>)"
  by (auto simp: group_db_ok_def)

lemma ok_add_members:
  "group_db_ok db \<Longrightarrow> distinct (map member_key rows) \<Longrightarrow>
   member_key ` set rows \<inter> member_key ` set (gd_members db) = {} \<Longrightarrow>
   group_db_ok (db\<lparr>gd_members := gd_members db @ rows\<rparr>)"
  by (auto simp: group_db_ok_def)

lemma ok_delete_members:
  assumes "group_db_ok db"
  shows "group_db_ok (delete_members P db)"
proof -
  have "distinct (map member_key (filter (\<lambda>m. \<not> P m) (gd_members db)))"
    using assms by (auto simp: group_db_ok_def distinct_map inj_on_def)
  moreover have "(mt_group_id t, mt_user_id t) \<in> member_key ` set (filter (\<lambda>m. \<not> P m) (gd_members db))"
    if "t \<in> set (gd_mutes db)" and "\<not> list_ex (\<lambda>m. P m \<and> is_row (mt_group_id t) (mt_user_id t) m) (gd_members db)" for t
  proof -
    have "(mt_group_id t, mt_user_id t) \<in> member_key ` set (gd_members db)"
      using that(1) assms by (auto simp: group_db_ok_def)
    then obtain m where "m \<in> set (gd_members db)" "member_key m = (mt_group_id t, mt_user_id t)" by force
    moreover from this that(2) have "\<not> P m" by (auto simp: list_ex_iff is_row_key)
    ultimately show ?thesis by force
  qed
  ultimately show ?thesis using assms by (auto simp: group_db_ok_def delete_members_def)
qed

text \<open>A reference that survives the deletion of the groups \<open>gs\<close> refers to a surviving group.\<close>

lemma references_survive:
  "h ` set xs \<subseteq> k ` set rows \<Longrightarrow>
   h ` set (filter (\<lambda>r. h r \<notin> set gs) xs) \<subseteq> k ` set (filter (\<lambda>r. k r \<notin> set gs) rows)"
  by (force simp: image_iff subset_iff)

lemma ok_delete_groups:
  assumes "group_db_ok db"
  shows "group_db_ok (delete_group_rows gs db)"
proof -
  have "distinct (map gr_id (filter (\<lambda>r. gr_id r \<notin> set gs) (gd_groups db)))"
    using assms by (auto simp: group_db_ok_def distinct_map inj_on_def)
  then show ?thesis
    using assms references_survive [of fl_group_id "gd_files db" gr_id "gd_groups db" gs]
      references_survive [of pl_group_id "gd_polls db" gr_id "gd_groups db" gs]
      references_survive [of an_group_id "gd_announcements db" gr_id "gd_groups db" gs]
    by (simp add: group_db_ok_def delete_group_rows_def)
qed

lemma ok_groups_cong:
  assumes "group_db_ok db" and "map gr_id rows = map gr_id (gd_groups db)"
  shows "group_db_ok (db\<lparr>gd_groups := rows\<rparr>)"
proof -
  have "gr_id ` set rows = gr_id ` set (gd_groups db)" using assms(2) by (metis list.set_map)
  with assms show ?thesis by (simp add: group_db_ok_def)
qed

lemma ok_members_cong:
  assumes "group_db_ok db" and "map member_key rows = map member_key (gd_members db)"
  shows "group_db_ok (db\<lparr>gd_members := rows\<rparr>)"
proof -
  have "member_key ` set rows = member_key ` set (gd_members db)" using assms(2) by (metis list.set_map)
  with assms show ?thesis by (simp add: group_db_ok_def)
qed

lemma ok_update_groups:
  "group_db_ok db \<Longrightarrow> (\<And>r. gr_id (f r) = gr_id r) \<Longrightarrow>
   group_db_ok (db\<lparr>gd_groups := map (\<lambda>r. if P r then f r else r) (gd_groups db)\<rparr>)"
  by (rule ok_groups_cong) simp_all

lemma ok_update_members:
  "group_db_ok db \<Longrightarrow> (\<And>m. member_key (f m) = member_key m) \<Longrightarrow>
   group_db_ok (db\<lparr>gd_members := map (\<lambda>m. if P m then f m else m) (gd_members db)\<rparr>)"
  by (rule ok_members_cong) simp_all

lemma ok_dependents:
  "group_db_ok db \<Longrightarrow> group_db_ok (db\<lparr>gd_categories := cs\<rparr>)"
  "group_db_ok db \<Longrightarrow> fl_group_id ` set fs \<subseteq> gr_id ` set (gd_groups db) \<Longrightarrow> group_db_ok (db\<lparr>gd_files := fs\<rparr>)"
  "group_db_ok db \<Longrightarrow> pl_group_id ` set ps \<subseteq> gr_id ` set (gd_groups db) \<Longrightarrow> group_db_ok (db\<lparr>gd_polls := ps\<rparr>)"
  "group_db_ok db \<Longrightarrow> an_group_id ` set as \<subseteq> gr_id ` set (gd_groups db) \<Longrightarrow> group_db_ok (db\<lparr>gd_announcements := as\<rparr>)"
  "group_db_ok db \<Longrightarrow> (\<lambda>t. (mt_group_id t, mt_user_id t)) ` set ts \<subseteq> member_key ` set (gd_members db) \<Longrightarrow>
     group_db_ok (db\<lparr>gd_mutes := ts\<rparr>)"
  by (simp_all add: group_db_ok_def)

lemmas preserves_rules = preserves_and_then preserves_remote preserves_if preserves_ok preserves_fail
  preserves_select preserves_unauthorized preserves_transaction

lemma new_member_key: "member_key (new_member_row now g role by u) = (g, uc_id u)"
  by (simp add: member_key_def new_member_row_def)

lemma distinct_user_keys:
  "group_db_ok db \<Longrightarrow> distinct (map (\<lambda>u. (g, uc_id u)) (filter P (gd_users db)))"
  by (auto simp: group_db_ok_def distinct_map inj_on_def)

lemma preserves_insert_group_row: "preserves group_db_ok (insert_group_row env c)"
  by (rule preservesI) (simp add: insert_group_row_def Let_def ok_add_group new_group_row_def)

lemma preserves_insert_member_rows: "preserves group_db_ok (insert_member_rows env c)"
proof (rule preservesI)
  fix db assume ok: "group_db_ok db"
  define rows where "rows = map (\<lambda>u. new_member_row (ge_now env) (gc_id c)
      (if uc_id u = gc_owner c then Owner else Member) (gc_owner c) u)
      (filter (\<lambda>u. uc_id u \<in> set (gc_members_id c)) (gd_users db))"
  have "map member_key rows = map (\<lambda>u. (gc_id c, uc_id u)) (filter (\<lambda>u. uc_id u \<in> set (gc_members_id c)) (gd_users db))"
    by (simp add: rows_def new_member_key)
  then have "distinct (map member_key rows)" using distinct_user_keys [OF ok] by simp
  moreover have "member_key ` set rows \<inter> member_key ` set (gd_members db) = {}"
    if "\<not> list_ex (\<lambda>r. list_ex (is_row (mb_group_id r) (mb_user_id r)) (gd_members db)) rows"
    using that by (auto simp: list_ex_iff is_row_key) (metis member_key_def)
  ultimately show "group_db_ok (snd (insert_member_rows env c db))"
    using ok by (simp add: insert_member_rows_def rows_def [symmetric] Let_def ok_add_members)
qed

lemma preserves_update_groups:
  "(\<And>r. gr_id (f r) = gr_id r) \<Longrightarrow> preserves group_db_ok (update_groups env g f)"
  by (rule preservesI) (simp add: update_groups_def ok_update_groups)

lemma preserves_update_members:
  "(\<And>m. member_key (f m) = member_key m) \<Longrightarrow> preserves group_db_ok (update_members env P f)"
  by (rule preservesI) (simp add: update_members_def ok_update_members)

section \<open>Every operation keeps the integrity\<close>

lemma preserves_create_group: "preserves group_db_ok (create_group_with_members env c)"
  unfolding create_group_with_members_def
  by (intro preserves_rules preserves_insert_group_row preserves_insert_member_rows)

lemma preserves_invite: "preserves group_db_ok (invite_new_members env i)"
  unfolding invite_new_members_def
proof (intro preserves_rules preservesI)
  fix db assume ok: "group_db_ok db"
  define us where "us = filter (\<lambda>u. uc_id u \<in> set (gi_members i)
      \<and> \<not> list_ex (is_row (gi_group_id i) (uc_id u)) (gd_members db)) (gd_users db)"
  have "map member_key (map (new_member_row (ge_now env) (gi_group_id i) Member (gi_user_id i)) us) =
      map (\<lambda>u. (gi_group_id i, uc_id u)) us"
    by (simp add: new_member_key)
  moreover have "distinct (map (\<lambda>u. (gi_group_id i, uc_id u)) us)"
    unfolding us_def by (rule distinct_user_keys [OF ok])
  moreover have "member_key ` set (map (new_member_row (ge_now env) (gi_group_id i) Member (gi_user_id i)) us)
      \<inter> member_key ` set (gd_members db) = {}"
    by (auto simp: new_member_key us_def list_ex_is_row) (metis image_eqI)
  ultimately have "group_db_ok (db\<lparr>gd_members := gd_members db @
       map (new_member_row (ge_now env) (gi_group_id i) Member (gi_user_id i)) us\<rparr>)"
    by (intro ok_add_members [OF ok]) (simp_all only:)
  then show "group_db_ok (snd (Inr (), db\<lparr>gd_members := gd_members db @
       map (new_member_row (ge_now env) (gi_group_id i) Member (gi_user_id i))
         (filter (\<lambda>u. uc_id u \<in> set (gi_members i)
             \<and> \<not> list_ex (is_row (gi_group_id i) (uc_id u)) (gd_members db)) (gd_users db))\<rparr>))"
    by (simp add: us_def)
qed

lemma preserves_remove_member: "preserves group_db_ok (remove_member env g u ids)"
  unfolding remove_member_def by (intro preserves_rules preservesI) (simp add: ok_delete_members)

lemma preserves_exit_group: "preserves group_db_ok (exit_group env u g)"
  unfolding exit_group_def by (intro preserves_rules preservesI) (simp add: ok_delete_members)

lemma preserves_delete_group: "preserves group_db_ok (delete_group env g owner)"
  unfolding delete_group_def by (intro preserves_rules preservesI) (simp add: ok_delete_groups Let_def)

lemma preserves_update_group: "preserves group_db_ok (update_group env v)"
  unfolding update_group_def by (intro preserves_rules preserves_update_groups) simp

lemma preserves_update_group_settings: "preserves group_db_ok (update_group_settings env q)"
  unfolding update_group_settings_def
  by (intro preserves_rules preservesI)
     (simp add: preservesD [OF preserves_update_groups] split: sum.split)

lemma preserves_update_member_settings: "preserves group_db_ok (update_member_settings env g u level order)"
  unfolding update_member_settings_def
  by (intro preserves_rules preserves_update_members) (simp add: member_key_def)

lemma preserves_change_member_role: "preserves group_db_ok (change_member_role env g u target role)"
  unfolding change_member_role_def select_role_def
  by (intro preserves_rules preservesI)
     (simp add: preservesD [OF preserves_update_members] member_key_def split: option.split)

lemma preserves_categories:
  "preserves group_db_ok (create_group_category env q)" "preserves group_db_ok (update_group_category env c)"
  "preserves group_db_ok (delete_group_category env i)"
  unfolding create_group_category_def update_group_category_def delete_group_category_def
  by (intro preserves_rules preservesI; simp add: Let_def ok_dependents ok_update_groups)+

lemma preserves_files:
  "preserves group_db_ok (upload_group_file env q)" "preserves group_db_ok (delete_group_file env f u)"
  "preserves group_db_ok (update_file_pin_status env f b)"
  unfolding upload_group_file_def delete_group_file_def update_file_pin_status_def
  by (intro preserves_rules preservesI; auto simp: Let_def group_db_ok_def)+

lemma preserves_update_polls:
  "(\<And>r. pl_group_id (f r) = pl_group_id r) \<Longrightarrow> preserves group_db_ok (update_polls i f)"
  by (rule preservesI) (auto simp: update_polls_def group_db_ok_def)

lemma preserves_polls:
  "preserves group_db_ok (create_poll env q)" "preserves group_db_ok (vote_poll env v)"
  "preserves group_db_ok (close_poll env i u)"
  unfolding create_poll_def vote_poll_def close_poll_def select_poll_def Let_def
  by (intro preserves_rules preserves_update_polls preservesI; auto simp: Let_def group_db_ok_def)+

lemma preserves_announcements:
  "preserves group_db_ok (create_announcement env q)" "preserves group_db_ok (delete_announcement env i u)"
  "preserves group_db_ok (pin_announcement env i b)"
  unfolding create_announcement_def delete_announcement_def pin_announcement_def
  by (intro preserves_rules preservesI; auto simp: Let_def group_db_ok_def)+

lemma ok_mute_flag:
  "group_db_ok db \<Longrightarrow> group_db_ok (db\<lparr>gd_members := map (\<lambda>m. if P m then m\<lparr>mb_is_muted := b\<rparr> else m) (gd_members db)\<rparr>)"
  by (rule ok_update_members) (simp_all add: member_key_def)

lemma preserves_mutes:
  "preserves group_db_ok (mute_group_member env q)" "preserves group_db_ok (unmute_group_member env g u operator)"
  unfolding mute_group_member_def unmute_group_member_def select_role_def
  by (intro preserves_rules preservesI;
      auto simp: Let_def ok_mute_flag list_ex_is_row intro!: ok_dependents(5); auto simp: group_db_ok_def)+

section \<open>The repository as a state machine\<close>

text \<open>One step is one call of an operation that writes, with any environment.\<close>

inductive group_step :: "group_db \<Rightarrow> group_db \<Rightarrow> bool" where
  "group_step db (snd (create_group_with_members env c db))"
| "group_step db (snd (invite_new_members env i db))"
| "group_step db (snd (remove_member env g u ids db))"
| "group_step db (snd (update_group env v db))"
| "group_step db (snd (exit_group env u g db))"
| "group_step db (snd (delete_group env g u db))"
| "group_step db (snd (update_group_settings env s db))"
| "group_step db (snd (update_member_settings env g u level order db))"
| "group_step db (snd (create_group_category env cq db))"
| "group_step db (snd (update_group_category env ct db))"
| "group_step db (snd (delete_group_category env x db))"
| "group_step db (snd (upload_group_file env fq db))"
| "group_step db (snd (delete_group_file env x u db))"
| "group_step db (snd (update_file_pin_status env x b db))"
| "group_step db (snd (create_poll env pq db))"
| "group_step db (snd (vote_poll env vq db))"
| "group_step db (snd (close_poll env x u db))"
| "group_step db (snd (mute_group_member env mq db))"
| "group_step db (snd (unmute_group_member env g u v' db))"
| "group_step db (snd (create_announcement env aq db))"
| "group_step db (snd (delete_announcement env x u db))"
| "group_step db (snd (pin_announcement env x b db))"
| "group_step db (snd (change_member_role env g u target role db))"

lemmas preserves_group_ops = preserves_create_group preserves_invite preserves_remove_member
  preserves_update_group preserves_exit_group preserves_delete_group preserves_update_group_settings
  preserves_update_member_settings preserves_categories preserves_files preserves_polls preserves_mutes
  preserves_announcements preserves_change_member_role

lemma group_step_ok: "group_step db db' \<Longrightarrow> group_db_ok db \<Longrightarrow> group_db_ok db'"
  by (induction rule: group_step.induct) (rule preservesD, rule preserves_group_ops, assumption)+

section \<open>Membership and roles\<close>

lemma role_text_inj: "role_text a = role_text b \<longleftrightarrow> a = b"
  by (cases a; cases b) simp_all

text \<open>The text order of the roles.\<close>

lemma role_text_order:
  "role_text a \<le> role_text b \<longleftrightarrow> a = b \<or> a = Admin \<or> (a = Member \<and> b = Owner)"
  by (cases a; cases b) simp_all

definition role_in :: "string \<Rightarrow> string \<Rightarrow> group_db \<Rightarrow> Role option" where
  "role_in g u db = map_option mb_role (find (is_row g u) (gd_members db))"

lemma find_unique_row:
  assumes "group_db_ok db" and "m \<in> set (gd_members db)" and "is_row g u m"
  shows "find (is_row g u) (gd_members db) = Some m" and "filter (is_row g u) (gd_members db) = [m]"
proof -
  have inj: "x = m" if "x \<in> set (gd_members db)" "is_row g u x" for x
    using that assms by (auto simp: group_db_ok_def is_row_key distinct_map inj_on_def)
  have d: "distinct (gd_members db)" using assms(1) by (auto simp: group_db_ok_def distinct_map)
  show "find (is_row g u) (gd_members db) = Some m"
  proof (cases "find (is_row g u) (gd_members db)")
    case None
    with assms(2,3) show ?thesis by (auto simp: find_None_iff)
  next
    case (Some x)
    with inj [of x] find_SomeD [OF Some] show ?thesis by simp
  qed
  show "filter (is_row g u) (gd_members db) = [m]"
  proof -
    have "distinct (filter (is_row g u) (gd_members db))" using d by simp
    moreover have "set (filter (is_row g u) (gd_members db)) = {m}" using assms(2,3) by (auto intro: inj)
    ultimately show ?thesis by (rule distinct_set_single)
  qed
qed

lemma role_in_SomeE:
  assumes "role_in g u db = Some r"
  obtains m where "m \<in> set (gd_members db)" "is_row g u m" "mb_role m = r"
  using assms by (auto simp: role_in_def dest: find_SomeD)

lemma role_in_rows:
  assumes "group_db_ok db" and "role_in g u db = Some r"
  shows "map (\<lambda>m. role_text (mb_role m)) (filter (is_row g u) (gd_members db)) = [role_text r]"
proof -
  from assms(2) obtain m where "m \<in> set (gd_members db)" "is_row g u m" "mb_role m = r" by (rule role_in_SomeE)
  with find_unique_row(2) [OF assms(1)] show ?thesis by simp
qed

lemma select_role_eq:
  assumes "group_db_ok db" and "role_in g u db = Some r" and "ge_stmt env n = None"
  shows "select_role env n g u db = (Inr (role_text r), db)"
  using assms by (simp add: select_role_def select_def fetch_one_def no_decode_def role_in_rows)

lemma manager_iff_role:
  assumes "group_db_ok db"
  shows "list_ex (is_manager g u) (gd_members db) \<longleftrightarrow> role_in g u db \<in> {Some Admin, Some Owner}"
proof
  assume "list_ex (is_manager g u) (gd_members db)"
  then obtain m where "m \<in> set (gd_members db)" "is_row g u m" "mb_role m = Admin \<or> mb_role m = Owner"
    by (auto simp: list_ex_iff is_manager_def)
  with find_unique_row(1) [OF assms] show "role_in g u db \<in> {Some Admin, Some Owner}"
    by (auto simp: role_in_def)
next
  assume "role_in g u db \<in> {Some Admin, Some Owner}"
  then show "list_ex (is_manager g u) (gd_members db)"
    by (auto simp: list_ex_iff is_manager_def elim!: role_in_SomeE)
qed

lemma list_ex_unique:
  assumes "\<And>x. x \<in> set xs \<Longrightarrow> P x \<Longrightarrow> x = m" and "m \<in> set xs" and "P m"
  shows "list_ex (\<lambda>x. P x \<and> F x) xs \<longleftrightarrow> F m"
  unfolding list_ex_iff using assms by blast

lemma group_permission_row:
  assumes "group_db_ok db" and "r \<in> set (gd_groups db)" and "gr_id r = g"
  shows "list_ex (\<lambda>x. gr_id x = g \<and> Q x) (gd_groups db) \<longleftrightarrow> Q r"
  using assms by (auto simp: list_ex_iff group_db_ok_def distinct_map inj_on_def)

lemma may_invite_iff:
  assumes "group_db_ok db" and "r \<in> set (gd_groups db)" and "gr_id r = g" and "role_in g u db = Some role"
  shows "may_invite g u db \<longleftrightarrow> role_text role \<le> role_text (gr_invite_permission r)"
proof -
  from assms(4) obtain m where m: "m \<in> set (gd_members db)" "is_row g u m" "mb_role m = role"
    by (rule role_in_SomeE)
  have "x = m" if "x \<in> set (gd_members db)" "is_row g u x" for x
    using find_unique_row(1) [OF assms(1) that] find_unique_row(1) [OF assms(1) m(1,2)] by simp
  then have "may_invite g u db \<longleftrightarrow> list_ex (\<lambda>x. gr_id x = g \<and>
      role_text (mb_role m) \<le> role_text (gr_invite_permission x)) (gd_groups db)"
    unfolding may_invite_def using m(1,2) by (intro list_ex_unique)
  with group_permission_row [OF assms(1-3)] m(3) show ?thesis by simp
qed

section \<open>Strangers\<close>

text \<open>What a stranger must not move: the members of a group with their roles and whether they are muted.\<close>

definition roster_rows :: "string \<Rightarrow> group_db \<Rightarrow> (string \<times> Role \<times> bool) list" where
  "roster_rows g db = map (\<lambda>m. (mb_user_id m, mb_role m, mb_is_muted m)) (filter (\<lambda>m. mb_group_id m = g) (gd_members db))"

text \<open>One call of a writing operation in the name of somebody in \<open>S\<close>; operations that name nobody are open to all.\<close>

inductive call_by :: "string set \<Rightarrow> group_db \<Rightarrow> group_db \<Rightarrow> bool" for S where
  "gc_owner c \<in> S \<Longrightarrow> call_by S db (snd (create_group_with_members env c db))"
| "gi_user_id i \<in> S \<Longrightarrow> call_by S db (snd (invite_new_members env i db))"
| "u \<in> S \<Longrightarrow> call_by S db (snd (remove_member env g u ids db))"
| "call_by S db (snd (update_group env v db))"
| "u \<in> S \<Longrightarrow> call_by S db (snd (exit_group env u g db))"
| "u \<in> S \<Longrightarrow> call_by S db (snd (delete_group env g u db))"
| "call_by S db (snd (update_group_settings env s db))"
| "call_by S db (snd (update_member_settings env g u level order db))"
| "call_by S db (snd (create_group_category env cq db))"
| "call_by S db (snd (update_group_category env ct db))"
| "call_by S db (snd (delete_group_category env x db))"
| "call_by S db (snd (upload_group_file env fq db))"
| "call_by S db (snd (delete_group_file env x u db))"
| "call_by S db (snd (update_file_pin_status env x b db))"
| "call_by S db (snd (create_poll env pq db))"
| "call_by S db (snd (vote_poll env vq db))"
| "call_by S db (snd (close_poll env x u db))"
| "mq_operator_id mq \<in> S \<Longrightarrow> call_by S db (snd (mute_group_member env mq db))"
| "u \<in> S \<Longrightarrow> call_by S db (snd (unmute_group_member env g v' u db))"
| "call_by S db (snd (create_announcement env aq db))"
| "call_by S db (snd (delete_announcement env x u db))"
| "call_by S db (snd (pin_announcement env x b db))"
| "u \<in> S \<Longrightarrow> call_by S db (snd (change_member_role env g u target role db))"

text \<open>The people in \<open>S\<close> are strangers to the existing group \<open>g\<close>, whose rows are \<open>R\<close>.\<close>

definition strangers :: "string \<Rightarrow> string set \<Rightarrow> (string \<times> Role \<times> bool) list \<Rightarrow> group_db \<Rightarrow> bool" where
  "strangers g S R db \<longleftrightarrow> g \<in> gr_id ` set (gd_groups db) \<and> (\<forall>r \<in> set (gd_groups db). gr_id r = g \<longrightarrow> gr_owner r \<notin> S)
     \<and> roster_rows g db = R \<and> fst ` set R \<inter> S = {}"

lemma strangers_no_row:
  assumes "strangers g S R db" and "u \<in> S"
  shows "filter (is_row g u) (gd_members db) = []" and "\<not> list_ex (\<lambda>m. is_row g u m \<and> P m) (gd_members db)"
    and "\<not> list_ex (is_manager g u) (gd_members db)"
proof -
  have none: "\<not> is_row g u m" if "m \<in> set (gd_members db)" for m
  proof
    assume "is_row g u m"
    with that have "u \<in> fst ` set (roster_rows g db)" by (force simp: roster_rows_def is_row_def image_image)
    with assms show False by (auto simp: strangers_def)
  qed
  then show "filter (is_row g u) (gd_members db) = []" "\<not> list_ex (\<lambda>m. is_row g u m \<and> P m) (gd_members db)"
    "\<not> list_ex (is_manager g u) (gd_members db)"
    by (auto simp: filter_empty_conv list_ex_iff is_manager_def)
qed

text \<open>Changes that leave the group's rows alone: other tables, rows of other groups, fields outside the roster.\<close>

lemma strangers_other_tables [simp]:
  "strangers g S R (db\<lparr>gd_categories := cs\<rparr>) = strangers g S R db" "strangers g S R (db\<lparr>gd_files := fs\<rparr>) = strangers g S R db"
  "strangers g S R (db\<lparr>gd_polls := ps\<rparr>) = strangers g S R db" "strangers g S R (db\<lparr>gd_mutes := ts\<rparr>) = strangers g S R db"
  "strangers g S R (db\<lparr>gd_announcements := as\<rparr>) = strangers g S R db"
  by (simp_all add: strangers_def roster_rows_def)

lemma strangers_update_groups:
  assumes "strangers g S R db" and "\<And>r. gr_id (f r) = gr_id r \<and> gr_owner (f r) = gr_owner r"
  shows "strangers g S R (db\<lparr>gd_groups := map (\<lambda>r. if P r then f r else r) (gd_groups db)\<rparr>)"
proof -
  have "gr_id \<circ> (\<lambda>r. if P r then f r else r) = gr_id" using assms(2) by auto
  then have "gr_id ` set (map (\<lambda>r. if P r then f r else r) (gd_groups db)) = gr_id ` set (gd_groups db)"
    by (simp only: set_map [symmetric] map_map)
  with assms show ?thesis by (auto simp: strangers_def roster_rows_def)
qed

lemma strangers_members_cong:
  "strangers g S R db \<Longrightarrow> roster_rows g (db\<lparr>gd_members := ms\<rparr>) = roster_rows g db \<Longrightarrow> strangers g S R (db\<lparr>gd_members := ms\<rparr>)"
  by (simp add: strangers_def)

lemma roster_rows_map:
  assumes "\<And>m. m \<in> set (gd_members db) \<Longrightarrow> P m \<Longrightarrow> mb_group_id (f m) = mb_group_id m
     \<and> (mb_group_id m = g \<longrightarrow> mb_user_id (f m) = mb_user_id m \<and> mb_role (f m) = mb_role m \<and> mb_is_muted (f m) = mb_is_muted m)"
  shows "roster_rows g (db\<lparr>gd_members := map (\<lambda>m. if P m then f m else m) (gd_members db)\<rparr>) = roster_rows g db"
proof -
  have "map (\<lambda>m. (mb_user_id m, mb_role m, mb_is_muted m)) (filter (\<lambda>m. mb_group_id m = g) (map (\<lambda>m. if P m then f m else m) ms)) =
      map (\<lambda>m. (mb_user_id m, mb_role m, mb_is_muted m)) (filter (\<lambda>m. mb_group_id m = g) ms)"
    if "set ms \<subseteq> set (gd_members db)" for ms
    using that assms by (induction ms) auto
  then show ?thesis by (simp add: roster_rows_def)
qed

lemma roster_rows_add:
  "(\<And>m. m \<in> set rows \<Longrightarrow> mb_group_id m \<noteq> g) \<Longrightarrow> roster_rows g (db\<lparr>gd_members := gd_members db @ rows\<rparr>) = roster_rows g db"
  by (simp add: roster_rows_def filter_empty_conv)

lemma strangers_delete_members:
  assumes "strangers g S R db" and "\<And>m. m \<in> set (gd_members db) \<Longrightarrow> P m \<Longrightarrow> mb_group_id m \<noteq> g"
  shows "strangers g S R (delete_members P db)"
proof -
  have "roster_rows g (delete_members P db) = roster_rows g db"
    using assms(2) by (auto simp: roster_rows_def delete_members_def intro!: arg_cong [of _ _ "map _"] filter_cong)
  with assms(1) show ?thesis by (simp add: strangers_def delete_members_def)
qed

text \<open>A check that strangers do not pass.\<close>

lemma preserves_guarded:
  assumes "\<And>db. I db \<Longrightarrow> q db \<Longrightarrow> B" and "B \<Longrightarrow> preserves I m"
  shows "preserves I (and_then (stmt env n (select (\<lambda>db. Inr (q db)))) (\<lambda>b. if \<not> b then unauthorized_act d else m))"
  using assms by (cases "ge_stmt env n") (auto simp: preserves_def and_then_def select_def unauthorized_act_def)

text \<open>No operation in a stranger's name passes.\<close>

lemma strangers_create:
  "strangers g S R db \<Longrightarrow> strangers g S R (snd (create_group_with_members env c db))"
proof (cases "gc_id c = g")
  case True
  assume "strangers g S R db"
  with True have "insert_group_row env c db = (Inl unique_violation, db)"
    by (simp add: insert_group_row_def strangers_def)
  then have "snd (create_group_with_members env c db) = db"
    by (cases "ge_stmt env 0"; cases "ge_stmt env 1") (simp_all add: create_group_with_members_def transaction_def and_then_def)
  with \<open>strangers g S R db\<close> show ?thesis by simp
next
  case False
  assume "strangers g S R db"
  moreover have "preserves (strangers g S R) (insert_group_row env c)" "preserves (strangers g S R) (insert_member_rows env c)"
    using False
    by (auto intro!: preservesI strangers_members_cong roster_rows_add simp: insert_group_row_def insert_member_rows_def Let_def
        new_member_row_def)
       (simp add: strangers_def roster_rows_def new_group_row_def)
  then have "preserves (strangers g S R) (create_group_with_members env c)"
    unfolding create_group_with_members_def by (intro preserves_rules)
  ultimately show ?thesis by (blast intro: preservesD)
qed

lemma strangers_invite:
  assumes "gi_user_id i \<in> S"
  shows "preserves (strangers g S R) (invite_new_members env i)"
  unfolding invite_new_members_def
proof (rule preserves_guarded [where B = "gi_group_id i \<noteq> g"])
  fix db assume db: "strangers g S R db" and may: "may_invite (gi_group_id i) (gi_user_id i) db"
  from may strangers_no_row(2) [OF db assms] show "gi_group_id i \<noteq> g" by (auto simp: may_invite_def)
qed (intro preserves_rules preservesI, auto simp: new_member_row_def intro!: strangers_members_cong roster_rows_add)

lemma strangers_remove: "u \<in> S \<Longrightarrow> preserves (strangers g S R) (remove_member env h u ids)"
  unfolding remove_member_def
  by (intro preserves_rules preservesI)
     (use strangers_no_row(3) in \<open>auto intro!: strangers_delete_members\<close>)

lemma strangers_exit: "u \<in> S \<Longrightarrow> preserves (strangers g S R) (exit_group env u h)"
  unfolding exit_group_def
  by (intro preserves_rules preservesI)
     (use strangers_no_row(1) in \<open>auto intro!: strangers_delete_members simp: filter_empty_conv is_row_def\<close>)

lemma strangers_delete_group: "u \<in> S \<Longrightarrow> preserves (strangers g S R) (delete_group env h u)"
  unfolding delete_group_def
  by (intro preserves_rules preservesI) (auto simp: strangers_def roster_rows_def delete_group_rows_def Let_def)

lemma strangers_group_updates:
  "preserves (strangers g S R) (update_group env v)" "preserves (strangers g S R) (update_group_settings env q)"
  unfolding update_group_def update_group_settings_def
  by (intro preserves_rules preservesI; auto simp: update_groups_def intro!: strangers_update_groups split: sum.split)+

lemma strangers_member_settings: "preserves (strangers g S R) (update_member_settings env h u level order)"
  unfolding update_member_settings_def
  by (intro preserves_rules preservesI) (auto simp: update_members_def intro!: strangers_members_cong roster_rows_map)

lemma strangers_open_tables:
  "preserves (strangers g S R) (create_group_category env cq)" "preserves (strangers g S R) (update_group_category env ct)"
  "preserves (strangers g S R) (delete_group_category env x)" "preserves (strangers g S R) (upload_group_file env fq)"
  "preserves (strangers g S R) (delete_group_file env x u)" "preserves (strangers g S R) (update_file_pin_status env x b)"
  "preserves (strangers g S R) (create_poll env pq)" "preserves (strangers g S R) (vote_poll env vq)"
  "preserves (strangers g S R) (close_poll env x u)" "preserves (strangers g S R) (create_announcement env aq)"
  "preserves (strangers g S R) (delete_announcement env x u)" "preserves (strangers g S R) (pin_announcement env x b)"
  unfolding create_group_category_def update_group_category_def delete_group_category_def upload_group_file_def
    delete_group_file_def update_file_pin_status_def create_poll_def vote_poll_def close_poll_def select_poll_def
    create_announcement_def delete_announcement_def pin_announcement_def Let_def
  by (intro preserves_rules preservesI; auto simp: Let_def update_polls_def intro!: strangers_update_groups)+

lemma strangers_flag:
  "h \<noteq> g \<Longrightarrow> preserves (strangers g S R) (\<lambda>db. (Inr (), db\<lparr>gd_members := map (\<lambda>m.
     if is_row h t m then m\<lparr>mb_is_muted := b\<rparr> else m) (gd_members db)\<rparr>))"
  by (rule preservesI) (auto simp: is_row_def intro!: strangers_members_cong roster_rows_map)

lemma strangers_mute:
  assumes "mq_operator_id q \<in> S"
  shows "preserves (strangers g S R) (mute_group_member env q)"
  unfolding mute_group_member_def select_role_def
proof (rule preserves_guarded [where B = "mq_group_id q \<noteq> g"])
  fix db assume "strangers g S R db" "list_ex (is_manager (mq_group_id q) (mq_operator_id q)) (gd_members db)"
  with strangers_no_row(3) [OF _ assms] show "mq_group_id q \<noteq> g" by blast
qed (intro preserves_rules strangers_flag preservesI, simp_all add: Let_def)

lemma strangers_unmute:
  assumes "u \<in> S"
  shows "preserves (strangers g S R) (unmute_group_member env h t u)"
  unfolding unmute_group_member_def
proof (rule preserves_guarded [where B = "h \<noteq> g"])
  fix db assume "strangers g S R db" "list_ex (is_manager h u) (gd_members db)"
  with strangers_no_row(3) [OF _ assms] show "h \<noteq> g" by blast
qed (intro preserves_rules strangers_flag preservesI, simp_all)

lemma strangers_role:
  assumes "u \<in> S"
  shows "preserves (strangers g S R) (change_member_role env h u target role)"
proof (cases "h = g")
  case True
  show ?thesis
  proof (rule preservesI)
    fix db assume db: "strangers g S R db"
    have "select_role env 0 g u db = (fst (select_role env 0 g u db), db)" "\<exists>e. fst (select_role env 0 g u db) = Inl e"
      using strangers_no_row(1) [OF db assms]
      by (cases "ge_stmt env 0"; simp add: select_role_def select_def fetch_one_def)+
    with db True show "strangers g S R (snd (change_member_role env h u target role db))"
      by (auto simp: change_member_role_def and_then_def split: prod.split sum.split)
  qed
next
  case False
  then show ?thesis
    unfolding change_member_role_def select_role_def
    by (intro preserves_rules preservesI)
       (auto simp: update_members_def is_row_def intro!: strangers_members_cong roster_rows_map split: option.split)
qed

lemma strangers_call: "call_by S db db' \<Longrightarrow> strangers g S R db \<Longrightarrow> strangers g S R db'"
  by (induction rule: call_by.induct)
     (auto intro: strangers_create strangers_invite [THEN preservesD] strangers_remove [THEN preservesD]
       strangers_exit [THEN preservesD] strangers_delete_group [THEN preservesD] strangers_group_updates [THEN preservesD]
       strangers_member_settings [THEN preservesD] strangers_open_tables [THEN preservesD] strangers_mute [THEN preservesD]
       strangers_unmute [THEN preservesD] strangers_role [THEN preservesD])

section \<open>Properties\<close>

text \<open>
  C14. Strangers do not reach into a group: over any sequence of calls of the writing operations of the repository, with
  any of their statements failing, in which every user named as owner, inviter, remover, leaver or operator is neither a member nor the
  owner of an existing group, that group keeps its members with their roles and mute flags, and the
  strangers stay outside it.
\<close>

theorem strangers_keep_out:
  assumes "(call_by S)\<^sup>*\<^sup>* db db'" and "g \<in> gr_id ` set (gd_groups db)"
    and "\<And>r. r \<in> set (gd_groups db) \<Longrightarrow> gr_id r = g \<Longrightarrow> gr_owner r \<notin> S"
    and "\<And>m. m \<in> set (gd_members db) \<Longrightarrow> mb_group_id m = g \<Longrightarrow> mb_user_id m \<notin> S"
  shows "map (\<lambda>m. (mb_user_id m, mb_role m, mb_is_muted m)) (filter (\<lambda>m. mb_group_id m = g) (gd_members db')) =
      map (\<lambda>m. (mb_user_id m, mb_role m, mb_is_muted m)) (filter (\<lambda>m. mb_group_id m = g) (gd_members db))
    \<and> g \<in> gr_id ` set (gd_groups db') \<and> (\<forall>m \<in> set (gd_members db'). mb_group_id m = g \<longrightarrow> mb_user_id m \<notin> S)"
proof -
  have "strangers g S (roster_rows g db) db"
    using assms(2-4) by (auto simp: strangers_def roster_rows_def)
  with assms(1) have "strangers g S (roster_rows g db) db'"
    by (induction rule: rtranclp_induct) (auto intro: strangers_call)
  moreover have "mb_user_id m \<notin> S" if "m \<in> set (gd_members db')" "mb_group_id m = g" for m
    using strangers_no_row(1) [OF calculation, of "mb_user_id m"] that by (auto simp: filter_empty_conv is_row_def)
  ultimately show ?thesis by (simp add: strangers_def roster_rows_def)
qed

text \<open>
  Integrity of the group tables: over any sequence of calls of the writing operations, with
  any of their statements failing, user, group and member keys stay unique, every file, poll
  and announcement belongs to an existing group and every mute record to an existing member.
\<close>

theorem group_tables_stay_sound:
  assumes "group_step\<^sup>*\<^sup>* db db'" and "group_db_ok db"
  shows "group_db_ok db'"
  using assms by (induction rule: rtranclp_induct) (auto intro: group_step_ok)

text \<open>
  Only an administrator or the owner removes members: \<open>remove_member\<close> called by anybody else
  answers \<open>Ok\<close> and changes nothing; called by one of them it removes exactly the listed members
  of that group, whatever their role.
\<close>

theorem remove_member_exact:
  assumes "group_db_ok db" and "ge_stmt env 0 = None"
  shows "remove_member env g u ids db =
    (Inr (), if role_in g u db \<in> {Some Admin, Some Owner}
             then delete_members (\<lambda>m. mb_user_id m \<in> set ids \<and> mb_group_id m = g) db else db)
    \<and> (role_in g u db \<in> {Some Admin, Some Owner} \<longrightarrow>
        member_ids g (snd (remove_member env g u ids db)) = filter (\<lambda>x. x \<notin> set ids) (member_ids g db)
        \<and> (\<forall>h. h \<noteq> g \<longrightarrow> member_ids h (snd (remove_member env g u ids db)) = member_ids h db))"
proof -
  have e: "remove_member env g u ids db = (Inr (), if role_in g u db \<in> {Some Admin, Some Owner}
      then delete_members (\<lambda>m. mb_user_id m \<in> set ids \<and> mb_group_id m = g) db else db)"
    using assms manager_iff_role [OF assms(1)] by (simp add: remove_member_def)
  have "member_ids g (delete_members (\<lambda>m. mb_user_id m \<in> set ids \<and> mb_group_id m = g) db)
      = filter (\<lambda>x. x \<notin> set ids) (member_ids g db)"
    by (simp add: member_ids_def delete_members_def filter_map o_def) (rule arg_cong [of _ _ "map _"], rule filter_cong, auto)
  moreover have "member_ids h (delete_members (\<lambda>m. mb_user_id m \<in> set ids \<and> mb_group_id m = g) db)
      = member_ids h db" if "h \<noteq> g" for h
    using that by (simp add: member_ids_def delete_members_def) (rule arg_cong [of _ _ "map _"], rule filter_cong, auto)
  ultimately show ?thesis using e by simp
qed

text \<open>
  Who may invite follows the alphabetical order of the role names, not their rank: a member
  of the group may invite exactly when its role is the configured permission, or it is an
  administrator, or it is a plain member and the permission is \<open>Owner\<close>. With the default
  permission \<open>Admin\<close> the owner itself is refused.
\<close>

theorem invite_follows_text_order:
  assumes "group_db_ok db" and "r \<in> set (gd_groups db)" and "gr_id r = gi_group_id i"
    and "role_in (gi_group_id i) (gi_user_id i) db = Some role"
    and "ge_stmt env 0 = None" and "ge_stmt env 1 = None"
  shows "(fst (invite_new_members env i db) = Inr ()
      \<longleftrightarrow> role = gr_invite_permission r \<or> role = Admin \<or> (role = Member \<and> gr_invite_permission r = Owner))
    \<and> (role = Owner \<and> gr_invite_permission r = Admin \<longrightarrow>
        invite_new_members env i db =
          (Inl (Failed (unauthorized_with_details ''user doesn't have permission to invite'')), db))"
  using may_invite_iff [OF assms(1-4)] assms(5,6)
  by (auto simp: invite_new_members_def and_then_def select_def unauthorized_act_def role_text_order)

text \<open>
  The rank check of \<open>mute_group_member\<close> is decided by the alphabetical order of the role
  names: an administrator mutes the owner, while the owner cannot mute an administrator. With
  all statements answered, the call succeeds exactly on plain members and in the case of an
  administrator muting the owner.
\<close>

theorem mute_follows_text_order:
  assumes "group_db_ok db"
    and "role_in (mq_group_id q) (mq_operator_id q) db = Some operator"
    and "role_in (mq_group_id q) (mq_user_id q) db = Some target"
    and "operator = Admin \<or> operator = Owner" and "\<And>n. ge_stmt env n = None"
    and "ge_nanoid env 0 \<notin> mt_id ` set (gd_mutes db)"
  shows "(\<exists>row. fst (mute_group_member env q db) = Inr row)
    \<longleftrightarrow> target = Member \<or> (operator = Admin \<and> target = Owner)"
proof -
  have m: "list_ex (is_manager (mq_group_id q) (mq_operator_id q)) (gd_members db)"
    using assms(2,4) by (auto simp: manager_iff_role [OF assms(1)])
  have r: "list_ex (is_row (mq_group_id q) (mq_user_id q)) (gd_members db)"
    using assms(3) by (auto simp: list_ex_iff elim!: role_in_SomeE)
  show ?thesis
    using m r assms(4-6) select_role_eq [OF assms(1,2,5)] select_role_eq [OF assms(1,3,5)]
    by (cases target; auto simp: mute_group_member_def and_then_def select_def unauthorized_act_def Let_def)
qed

text \<open>
  An administrator can depose the owner: \<open>change_member_role\<close> checks only the operator's role
  and the new role, so an administrator can set the owner's role to \<open>Member\<close>.
\<close>

theorem admin_can_demote_owner:
  assumes "group_db_ok db" and "role_in g u db = Some Admin" and "role_in g target db = Some Owner"
    and "\<And>n. ge_stmt env n = None" and "\<And>m. ge_decode_member env m = None"
  shows "\<exists>m db'. change_member_role env g u target ''Member'' db = (Inr m, db')
    \<and> role_in g target db' = Some Member"
proof -
  from assms(3) obtain t where t: "t \<in> set (gd_members db)" "is_row g target t" by (rule role_in_SomeE)
  let ?db' = "db\<lparr>gd_members := map (\<lambda>m. if is_row g target m then m\<lparr>mb_role := Member\<rparr> else m) (gd_members db)\<rparr>"
  have "change_member_role env g u target ''Member'' db = (Inr (t\<lparr>mb_role := Member\<rparr>), ?db')"
    using select_role_eq [OF assms(1,2,4)] assms(4,5) find_unique_row(2) [OF assms(1) t]
    by (simp add: change_member_role_def and_then_def role_of_text_def update_members_def fetch_one_def)
  moreover have fm: "find P (map (\<lambda>m. if P m then m\<lparr>mb_role := Member\<rparr> else m) ms) =
      map_option (\<lambda>m. m\<lparr>mb_role := Member\<rparr>) (find P ms)"
    if "\<And>m. P (m\<lparr>mb_role := Member\<rparr>) = P m" for P and ms :: "MemberRow list"
    using that by (induction ms) auto
  have "role_in g target ?db' = Some Member"
    using find_unique_row(1) [OF assms(1) t] fm [of "is_row g target" "gd_members db"]
    by (simp add: role_in_def is_row_key member_key_def)
  ultimately show ?thesis by blast
qed

text \<open>
  Dissolving a group does not dissolve its membership: \<open>delete_group\<close> removes the group with
  its files, polls and announcements, but every member row of it stays, since
  \<open>group_members\<close> does not refer to \<open>groups\<close>.
\<close>

theorem delete_group_keeps_members:
  assumes "delete_group env g owner db = (Inr r, db')"
  shows "g \<notin> gr_id ` set (gd_groups db')
    \<and> g \<notin> fl_group_id ` set (gd_files db') \<and> g \<notin> pl_group_id ` set (gd_polls db')
    \<and> g \<notin> an_group_id ` set (gd_announcements db')
    \<and> gd_members db' = gd_members db"
proof -
  let ?rows = "filter (\<lambda>r. gr_id r = g \<and> gr_owner r = owner) (gd_groups db)"
  from assms have "?rows \<noteq> []" and db': "db' = delete_group_rows (map gr_id ?rows) db"
    by (cases "ge_stmt env 0"; cases "ge_stmt env 1"; cases "ge_stmt env 2";
        auto simp: delete_group_def transaction_def and_then_def Let_def fetch_one_def
          split: list.splits option.splits sum.splits)+
  then have "set (map gr_id ?rows) = {g}" by (cases ?rows) (auto simp: filter_eq_Cons_iff)
  then show ?thesis by (auto simp: db' delete_group_rows_def)
qed

text \<open>
  Creating a group is atomic: when any statement or decoding of \<open>create_group_with_members\<close>
  fails, the tables are as before; when it succeeds, the group exists with its owner and the
  members are exactly the listed ids that are users, the owner among them as \<open>Owner\<close> and all
  others as \<open>Member\<close>.
\<close>

theorem create_group_atomic:
  assumes "group_db_ok db" and "create_group_with_members env c db = (res, db')"
    and "gc_id c \<notin> mb_group_id ` set (gd_members db)"
  shows "case res of
      Inl e \<Rightarrow> db' = db
    | Inr (row, ms) \<Rightarrow> row \<in> set (gd_groups db') \<and> gr_id row = gc_id c \<and> gr_owner row = gc_owner c
        \<and> set (member_ids (gc_id c) db') = set (gc_members_id c) \<inter> uc_id ` set (gd_users db)
        \<and> list_all (\<lambda>m. mb_role m = (if mb_user_id m = gc_owner c then Owner else Member)) ms
        \<and> group_db_ok db'"
proof (cases res)
  case (Inl e)
  with assms(2) show ?thesis
    by (auto simp: create_group_with_members_def transaction_def split: prod.splits sum.splits)
next
  case (Inr p)
  obtain row ms where p: "p = (row, ms)" by fastforce
  define rows where "rows = map (\<lambda>u. new_member_row (ge_now env) (gc_id c)
      (if uc_id u = gc_owner c then Owner else Member) (gc_owner c) u)
      (filter (\<lambda>u. uc_id u \<in> set (gc_members_id c)) (gd_users db))"
  from assms(2) Inr p have
    "row = new_group_row (ge_now env) c" "ms = rows"
    "db' = db\<lparr>gd_groups := gd_groups db @ [row], gd_members := gd_members db @ rows\<rparr>"
    by (cases "ge_stmt env 0"; cases "ge_stmt env 1"; cases "ge_stmt env 2"; cases "ge_stmt env 3";
        auto simp: create_group_with_members_def transaction_def and_then_def insert_group_row_def
          insert_member_rows_def fetch_one_def fetch_all_def Let_def rows_def
          split: if_splits option.splits sum.splits list.splits)+
  moreover have "group_db_ok db'"
    using preservesD [OF preserves_create_group assms(1), of env c] assms(2) by simp
  moreover have "member_ids (gc_id c) (db\<lparr>gd_groups := gd_groups db @ [row], gd_members := gd_members db @ rows\<rparr>)
      = map mb_user_id rows"
    using assms(3) by (auto simp: member_ids_def filter_empty_conv rows_def new_member_row_def intro!: filter_True)
      (metis image_eqI)
  moreover have "list_all (\<lambda>m. mb_role m = (if mb_user_id m = gc_owner c then Owner else Member)) rows"
    by (simp add: rows_def list_all_iff new_member_row_def)
  ultimately show ?thesis using Inr p by (auto simp: new_group_row_def rows_def new_member_row_def)
qed

text \<open>
  Nothing stops a user from voting again: each further call of \<open>vote_poll\<close> on an active poll
  adds one more to the count of every option it names, while a named user is listed once.
\<close>

theorem votes_accumulate:
  assumes "po_id p \<in> set (vp_option_ids q)"
  shows "po_vote_count ((cast_vote anonymous q ^^ n) p) = po_vote_count p + int n
    \<and> (n \<noteq> 0 \<and> \<not> anonymous \<longrightarrow> vp_user_id q \<in> set (po_voter_ids ((cast_vote anonymous q ^^ n) p)))
    \<and> (distinct (po_voter_ids p) \<longrightarrow> distinct (po_voter_ids ((cast_vote anonymous q ^^ n) p)))
    \<and> po_id ((cast_vote anonymous q ^^ n) p) = po_id p"
  using assms by (induction n) (auto simp: cast_vote_def)

section \<open>Witnesses\<close>

definition demo_create :: GroupCreate where
  "demo_create = \<lparr>gc_id = ''g'', gc_owner = ''a'', gc_group_name = ''team'', gc_avatar = '''',
     gc_members_id = [''a'', ''b'', ''x'']\<rparr>"

definition demo_users :: "UserCard list" where
  "demo_users = [\<lparr>uc_id = ''a'', uc_name = ''A''\<rparr>, \<lparr>uc_id = ''b'', uc_name = ''B''\<rparr>, \<lparr>uc_id = ''c'', uc_name = ''C''\<rparr>]"

definition empty_group_db :: group_db where
  "empty_group_db = \<lparr>gd_users = demo_users, gd_groups = [], gd_members = [], gd_categories = [],
     gd_files = [], gd_polls = [], gd_mutes = [], gd_announcements = []\<rparr>"

definition demo_genv :: group_env where
  "demo_genv = \<lparr>ge_stmt = (\<lambda>_. None), ge_decode_group = (\<lambda>_. None), ge_decode_member = (\<lambda>_. None),
     ge_read_options = id, ge_role_cast = (\<lambda>_. Inr Member), ge_now = 1000, ge_pg_now = 1000,
     ge_nanoid = (\<lambda>n. replicate (Suc n) CHR ''i'')\<rparr>"

definition demo_group_db :: group_db where
  "demo_group_db = empty_group_db\<lparr>gd_groups := [new_group_row 1000 demo_create],
     gd_members := [new_member_row 1000 ''g'' Owner ''a'' \<lparr>uc_id = ''a'', uc_name = ''A''\<rparr>,
       new_member_row 1000 ''g'' Admin ''a'' \<lparr>uc_id = ''b'', uc_name = ''B''\<rparr>,
       new_member_row 1000 ''g'' Member ''a'' \<lparr>uc_id = ''c'', uc_name = ''C''\<rparr>]\<rparr>"

lemmas demo_group_defs = demo_group_db_def empty_group_db_def demo_users_def new_group_row_def
  new_member_row_def demo_create_def

lemma demo_group_ok: "group_db_ok demo_group_db" "group_db_ok empty_group_db"
  by (simp_all add: group_db_ok_def demo_group_defs member_key_def)

lemma demo_group_roles:
  "role_in ''g'' ''a'' demo_group_db = Some Owner" "role_in ''g'' ''b'' demo_group_db = Some Admin"
  "role_in ''g'' ''c'' demo_group_db = Some Member"
  by (simp_all add: role_in_def demo_group_defs is_row_def)

lemma demo_group_facts:
  "member_ids ''g'' demo_group_db = [''a'', ''b'', ''c'']" "gd_mutes demo_group_db = []"
  "new_group_row 1000 demo_create \<in> set (gd_groups demo_group_db)"
  "gr_id (new_group_row 1000 demo_create) = ''g''"
  "gr_invite_permission (new_group_row 1000 demo_create) = Admin"
  by (simp_all add: member_ids_def demo_group_defs)

lemma demo_genv_sel [simp]:
  "ge_stmt demo_genv n = None" "ge_decode_member demo_genv m = None" "ge_nanoid demo_genv 0 = ''i''"
  "ge_now demo_genv = 1000" "ge_decode_group demo_genv r = None"
  by (simp_all add: demo_genv_def)

theorem strangers_keep_out_witness:
  "map mb_user_id (filter (\<lambda>m. mb_group_id m = ''g'') (gd_members (snd (remove_member demo_genv ''g'' ''x'' [''c''] demo_group_db))))
     = [''a'', ''b'', ''c'']"
proof -
  have "(call_by {''x''})\<^sup>*\<^sup>* demo_group_db (snd (remove_member demo_genv ''g'' ''x'' [''c''] demo_group_db))"
    by (rule r_into_rtranclp, rule call_by.intros(3)) simp
  note out = strangers_keep_out [OF this, of "''g''", THEN conjunct1]
  have rows: "map (\<lambda>m. (mb_user_id m, mb_role m, mb_is_muted m)) (filter (\<lambda>m. mb_group_id m = ''g'') (gd_members demo_group_db)) =
      [(''a'', Owner, False), (''b'', Admin, False), (''c'', Member, False)]"
    "''g'' \<in> gr_id ` set (gd_groups demo_group_db)" "\<And>r. r \<in> set (gd_groups demo_group_db) \<Longrightarrow> gr_owner r \<notin> {''x''}"
    "\<And>m. m \<in> set (gd_members demo_group_db) \<Longrightarrow> mb_user_id m \<notin> {''x''}"
    by (auto simp: demo_group_defs)
  from arg_cong [OF trans [OF out rows(1)], of "map fst"] rows(2-4) show ?thesis by (simp add: o_def)
qed

theorem group_tables_stay_sound_witness:
  "group_db_ok (snd (create_group_with_members demo_genv demo_create empty_group_db))"
  by (rule group_tables_stay_sound
      [OF r_into_rtranclp [where r = group_step, OF group_step.intros(1)] demo_group_ok(2)])

theorem remove_member_exact_witness:
  "remove_member demo_genv ''g'' ''c'' [''a''] demo_group_db = (Inr (), demo_group_db)
   \<and> member_ids ''g'' (snd (remove_member demo_genv ''g'' ''b'' [''a''] demo_group_db)) = [''b'', ''c'']"
  using remove_member_exact [OF demo_group_ok(1), of demo_genv "''g''" "''c''" "[''a'']"]
    remove_member_exact [OF demo_group_ok(1), of demo_genv "''g''" "''b''" "[''a'']"]
  by (auto simp: demo_group_roles demo_group_facts)

theorem invite_follows_text_order_witness:
  "fst (invite_new_members demo_genv \<lparr>gi_user_id = ''a'', gi_group_id = ''g'', gi_members = [''c'']\<rparr> demo_group_db)
     = Inl (Failed (unauthorized_with_details ''user doesn't have permission to invite''))"
  using invite_follows_text_order [OF demo_group_ok(1), of "new_group_row 1000 demo_create"
      "\<lparr>gi_user_id = ''a'', gi_group_id = ''g'', gi_members = [''c'']\<rparr>" Owner demo_genv]
  by (simp add: demo_group_roles demo_group_facts)

theorem mute_follows_text_order_witness:
  "(\<exists>row. fst (mute_group_member demo_genv \<lparr>mq_group_id = ''g'', mq_user_id = ''a'', mq_operator_id = ''b'',
       mq_mute_until = 5000, mq_reason = ''''\<rparr> demo_group_db) = Inr row)
   \<and> \<not> (\<exists>row. fst (mute_group_member demo_genv \<lparr>mq_group_id = ''g'', mq_user_id = ''b'', mq_operator_id = ''a'',
       mq_mute_until = 5000, mq_reason = ''''\<rparr> demo_group_db) = Inr row)"
  using mute_follows_text_order [OF demo_group_ok(1), of "\<lparr>mq_group_id = ''g'', mq_user_id = ''a'',
        mq_operator_id = ''b'', mq_mute_until = 5000, mq_reason = ''''\<rparr>" Admin Owner demo_genv]
    mute_follows_text_order [OF demo_group_ok(1), of "\<lparr>mq_group_id = ''g'', mq_user_id = ''b'',
        mq_operator_id = ''a'', mq_mute_until = 5000, mq_reason = ''''\<rparr>" Owner Admin demo_genv]
  by (simp add: demo_group_roles demo_group_facts)

theorem admin_can_demote_owner_witness:
  "\<exists>m db'. change_member_role demo_genv ''g'' ''b'' ''a'' ''Member'' demo_group_db = (Inr m, db')
    \<and> role_in ''g'' ''a'' db' = Some Member"
  by (rule admin_can_demote_owner [OF demo_group_ok(1)]) (simp_all add: demo_group_roles)

theorem delete_group_keeps_members_witness:
  "\<exists>r db'. delete_group demo_genv ''g'' ''a'' demo_group_db = (Inr r, db') \<and> ''g'' \<notin> gr_id ` set (gd_groups db')
     \<and> gd_members db' = gd_members demo_group_db"
proof -
  obtain r db' where d: "delete_group demo_genv ''g'' ''a'' demo_group_db = (Inr r, db')"
    by (simp add: delete_group_def transaction_def and_then_def Let_def fetch_one_def demo_group_defs)
  with delete_group_keeps_members [OF d] show ?thesis by blast
qed

theorem create_group_atomic_witness:
  "\<exists>row ms db'. create_group_with_members demo_genv demo_create empty_group_db = (Inr (row, ms), db')
    \<and> gr_owner row = ''a'' \<and> set (member_ids ''g'' db') = {''a'', ''b''}"
proof -
  obtain row ms db' where c: "create_group_with_members demo_genv demo_create empty_group_db = (Inr (row, ms), db')"
    by (simp add: create_group_with_members_def transaction_def and_then_def Let_def fetch_one_def
        fetch_all_def insert_group_row_def insert_member_rows_def demo_group_defs List.map_filter_def)
  from create_group_atomic [OF demo_group_ok(2) c] have
    "gr_owner row = gc_owner demo_create"
    "set (member_ids (gc_id demo_create) db') = set (gc_members_id demo_create) \<inter> uc_id ` set (gd_users empty_group_db)"
    by (simp_all add: empty_group_db_def)
  with c show ?thesis by (simp add: demo_create_def empty_group_db_def demo_users_def)
qed

theorem votes_accumulate_witness:
  "po_vote_count ((cast_vote False \<lparr>vp_poll_id = ''p'', vp_user_id = ''a'', vp_option_ids = [''o'']\<rparr> ^^ 2)
     \<lparr>po_id = ''o'', po_text = ''yes'', po_voter_ids = [], po_vote_count = 0\<rparr>) = 2"
  using votes_accumulate [of "\<lparr>po_id = ''o'', po_text = ''yes'', po_voter_ids = [], po_vote_count = 0\<rparr>"
      "\<lparr>vp_poll_id = ''p'', vp_user_id = ''a'', vp_option_ids = [''o'']\<rparr>" 2 False]
  by simp

end
