(* ===== verification/Schema.thy ===== *)
theory Schema
  imports Group_Repo
begin

text \<open>
  What PostgreSQL checks of a statement before it runs, as far as the repositories depend on it:
  every column named must exist, a bound parameter must have a type the column accepts, and an
  \<open>INSERT\<close> must give a value to every column that is \<open>NOT NULL\<close> without a default. The driver declares
  the type of every parameter it binds (a Rust \<open>String\<close> is \<open>TEXT\<close>, an \<open>i64\<close> is \<open>INT8\<close>), so the server
  does not convert it to an enum or to a number. The driver in turn refuses to read a column that is
  missing or of another type.

  The schema is a parameter of the statements; \<open>migrated\<close> is the one the migrations create.
\<close>

section \<open>Types, tables\<close>

datatype sql_type =
    SqlText | SqlInt2 | SqlInt4 | SqlInt8 | SqlFloat4 | SqlFloat8 | SqlBool | SqlStatus | SqlRole
  | SqlTextArray | SqlJson | SqlBytes

text \<open>A column: its type, and whether an \<open>INSERT\<close> must name it.\<close>

type_synonym schema = "(string \<times> (string \<times> sql_type \<times> bool) list) list"

definition table_columns :: "schema \<Rightarrow> string \<Rightarrow> (string \<times> sql_type \<times> bool) list" where
  "table_columns sch t = (case map_of sch t of Some cs \<Rightarrow> cs | None \<Rightarrow> [])"

definition column_type :: "schema \<Rightarrow> string \<Rightarrow> string \<Rightarrow> sql_type option" where
  "column_type sch t c =
     (case map_of (table_columns sch t) c of Some (ty, _) \<Rightarrow> Some ty | None \<Rightarrow> None)"

definition sql_numeric :: "sql_type \<Rightarrow> bool" where
  "sql_numeric ty \<longleftrightarrow> ty \<in> {SqlInt2, SqlInt4, SqlInt8, SqlFloat4, SqlFloat8}"

text \<open>A value of the first type may be assigned to, or compared with, a column of the second.\<close>

definition sql_accepts :: "sql_type \<Rightarrow> sql_type \<Rightarrow> bool" where
  "sql_accepts ty col \<longleftrightarrow> ty = col \<or> sql_numeric ty \<and> sql_numeric col"

text \<open>An explicit cast exists between numbers, and from text to every type through its input function;
  there is none from a number to an enum.\<close>

definition sql_castable :: "sql_type \<Rightarrow> sql_type \<Rightarrow> bool" where
  "sql_castable ty target \<longleftrightarrow> ty = SqlText \<or> sql_accepts ty target"

section \<open>Statements\<close>

text \<open>How a statement uses a column: it only names it (or gives it a literal), it binds a parameter of
  a type to it, or a parameter of the first type after a cast to the second.\<close>

datatype col_use = Named | Bound sql_type | BoundCast sql_type sql_type

type_synonym column_ref = "string \<times> string \<times> col_use"

record statement =
  st_uses :: "column_ref list"
  st_inserts :: "string option"

fun column_ref_ok :: "schema \<Rightarrow> column_ref \<Rightarrow> bool" where
  "column_ref_ok sch (t, c, use) =
     (case column_type sch t c of
        None \<Rightarrow> False
      | Some col \<Rightarrow> (case use of
          Named \<Rightarrow> True
        | Bound ty \<Rightarrow> sql_accepts ty col
        | BoundCast ty target \<Rightarrow> sql_castable ty target \<and> sql_accepts target col))"

definition required_given :: "schema \<Rightarrow> statement \<Rightarrow> bool" where
  "required_given sch st =
     (case st_inserts st of
        None \<Rightarrow> True
      | Some t \<Rightarrow> list_all (\<lambda>(c, _, required). required \<longrightarrow>
          list_ex (\<lambda>(_, d, _). d = c) (st_uses st)) (table_columns sch t))"

definition stmt_accepted :: "schema \<Rightarrow> statement \<Rightarrow> bool" where
  "stmt_accepted sch st \<longleftrightarrow> list_all (column_ref_ok sch) (st_uses st) \<and> required_given sch st"

definition on_table :: "string \<Rightarrow> (string \<times> col_use) list \<Rightarrow> column_ref list" where
  "on_table t cs = map (\<lambda>(c, u). (t, c, u)) cs"

definition query_on :: "string \<Rightarrow> (string \<times> col_use) list \<Rightarrow> statement" where
  "query_on t cs = \<lparr>st_uses = on_table t cs, st_inserts = None\<rparr>"

definition insert_into :: "string \<Rightarrow> (string \<times> col_use) list \<Rightarrow> statement" where
  "insert_into t cs = \<lparr>st_uses = on_table t cs, st_inserts = Some t\<rparr>"

definition refused :: failure where
  "refused = db_error ''the statement does not fit the schema''"

text \<open>A statement runs only if the server accepts it; the statement then may still fail.\<close>

definition checked :: "schema \<Rightarrow> statement \<Rightarrow> ('s, 'a) act \<Rightarrow> ('s, 'a) act" where
  "checked sch st m = (if stmt_accepted sch st then m else fail refused)"

text \<open>\<open>try_get\<close> with \<open>?\<close>: the driver reads a row only if it has all the columns, with the types of
  the struct's fields.\<close>

definition row_readable :: "schema \<Rightarrow> string \<Rightarrow> (string \<times> sql_type) list \<Rightarrow> bool" where
  "row_readable sch t cols \<longleftrightarrow> list_all (\<lambda>(c, ty). column_type sch t c = Some ty) cols"

definition unreadable :: failure where
  "unreadable = db_error ''no column found for name''"

lemma checked_accepted [simp]: "stmt_accepted sch st \<Longrightarrow> checked sch st m = m"
  by (simp add: checked_def)

lemma checked_refused [simp]: "\<not> stmt_accepted sch st \<Longrightarrow> checked sch st m = fail refused"
  by (simp add: checked_def)

lemma preserves_checked [intro]: "preserves I m \<Longrightarrow> preserves I (checked sch st m)"
  by (simp add: checked_def)

lemmas stmt_check_defs =
  stmt_accepted_def required_given_def query_on_def insert_into_def on_table_def
  column_type_def table_columns_def sql_accepts_def sql_numeric_def sql_castable_def row_readable_def

section \<open>The migrations\<close>

definition users_table :: "(string \<times> sql_type \<times> bool) list" where
  "users_table =
     [(''id'', SqlText, True), (''name'', SqlText, True), (''account'', SqlText, True),
      (''password'', SqlText, True), (''salt'', SqlText, True), (''signature'', SqlText, False),
      (''avatar'', SqlText, True), (''gender'', SqlText, True), (''age'', SqlInt4, False),
      (''phone'', SqlText, False), (''email'', SqlText, False), (''address'', SqlText, False),
      (''region'', SqlText, False), (''birthday'', SqlInt8, False),
      (''create_time'', SqlInt8, True), (''update_time'', SqlInt8, True),
      (''last_login_time'', SqlInt8, False), (''last_login_ip'', SqlText, False),
      (''two_factor_enabled'', SqlBool, False), (''account_status'', SqlText, False),
      (''status'', SqlText, False), (''last_active_time'', SqlInt8, False),
      (''status_message'', SqlText, False), (''privacy_settings'', SqlText, False),
      (''notification_settings'', SqlText, False), (''language'', SqlText, False),
      (''friend_requests_privacy'', SqlText, False), (''profile_visibility'', SqlText, False),
      (''theme'', SqlText, False), (''timezone'', SqlText, False), (''is_delete'', SqlBool, False)]"

definition friendships_table :: "(string \<times> sql_type \<times> bool) list" where
  "friendships_table =
     [(''id'', SqlText, True), (''user_id'', SqlText, True), (''friend_id'', SqlText, True),
      (''status'', SqlStatus, False), (''apply_msg'', SqlText, False), (''req_remark'', SqlText, False),
      (''resp_msg'', SqlText, False), (''resp_remark'', SqlText, False), (''source'', SqlText, False),
      (''create_time'', SqlInt8, True), (''update_time'', SqlInt8, False),
      (''operator_id'', SqlText, False), (''last_operation'', SqlText, False),
      (''deleted_time'', SqlInt8, False)]"

definition friend_groups_table :: "(string \<times> sql_type \<times> bool) list" where
  "friend_groups_table =
     [(''id'', SqlInt8, False), (''user_id'', SqlText, True), (''name'', SqlText, True),
      (''create_time'', SqlInt8, True), (''update_time'', SqlInt8, True),
      (''sort_order'', SqlInt4, False), (''icon'', SqlText, False)]"

definition friends_table :: "(string \<times> sql_type \<times> bool) list" where
  "friends_table =
     [(''id'', SqlInt8, False), (''fs_id'', SqlText, True), (''user_id'', SqlText, True),
      (''friend_id'', SqlText, True), (''status'', SqlStatus, False), (''remark'', SqlText, False),
      (''source'', SqlText, False), (''create_time'', SqlInt8, True), (''update_time'', SqlInt8, True),
      (''deleted_time'', SqlInt8, False), (''is_starred'', SqlBool, False),
      (''group_id'', SqlInt8, False), (''priority'', SqlInt4, False)]"

definition friend_tags_table :: "(string \<times> sql_type \<times> bool) list" where
  "friend_tags_table =
     [(''id'', SqlInt8, False), (''user_id'', SqlText, True), (''name'', SqlText, True),
      (''color'', SqlText, False), (''create_time'', SqlInt8, True), (''icon'', SqlText, False),
      (''sort_order'', SqlInt4, False)]"

definition friend_tag_relations_table :: "(string \<times> sql_type \<times> bool) list" where
  "friend_tag_relations_table =
     [(''user_id'', SqlText, True), (''friend_id'', SqlText, True), (''tag_id'', SqlInt8, True),
      (''create_time'', SqlInt8, True)]"

definition friend_interactions_table :: "(string \<times> sql_type \<times> bool) list" where
  "friend_interactions_table =
     [(''user_id'', SqlText, True), (''friend_id'', SqlText, True), (''message_count'', SqlInt4, False),
      (''last_interact_time'', SqlInt8, False), (''total_duration'', SqlInt4, False),
      (''call_count'', SqlInt4, False), (''interaction_score'', SqlFloat8, False),
      (''last_week_count'', SqlInt4, False), (''last_month_count'', SqlInt4, False)]"

definition friend_privacy_settings_table :: "(string \<times> sql_type \<times> bool) list" where
  "friend_privacy_settings_table =
     [(''user_id'', SqlText, True), (''friend_id'', SqlText, True), (''can_see_moments'', SqlBool, False),
      (''can_see_online_status'', SqlBool, False), (''can_see_location'', SqlBool, False),
      (''can_see_mutual_friends'', SqlBool, False), (''permission_level'', SqlText, False),
      (''custom_settings'', SqlJson, False)]"

definition sequence_table :: "(string \<times> sql_type \<times> bool) list" where
  "sequence_table =
     [(''user_id'', SqlText, True), (''send_max_seq'', SqlInt8, False), (''rec_max_seq'', SqlInt8, False)]"

definition groups_table :: "(string \<times> sql_type \<times> bool) list" where
  "groups_table =
     [(''id'', SqlText, True), (''owner'', SqlText, True), (''name'', SqlText, True), (''avatar'', SqlText, True),
      (''description'', SqlText, False), (''announcement'', SqlText, False),
      (''create_time'', SqlInt8, True), (''update_time'', SqlInt8, True), (''max_members'', SqlInt4, False),
      (''is_public'', SqlBool, False), (''join_approval_required'', SqlBool, False),
      (''category'', SqlText, False), (''tags'', SqlTextArray, False), (''mute_all'', SqlBool, False),
      (''only_admin_post'', SqlBool, False), (''invite_permission'', SqlRole, False),
      (''pinned_messages'', SqlTextArray, False)]"

definition group_members_table :: "(string \<times> sql_type \<times> bool) list" where
  "group_members_table =
     [(''group_id'', SqlText, True), (''user_id'', SqlText, True), (''group_name'', SqlText, False),
      (''group_remark'', SqlText, False), (''role'', SqlRole, False), (''joined_at'', SqlInt8, True),
      (''is_muted'', SqlBool, False), (''notification_level'', SqlText, False),
      (''last_read_time'', SqlInt8, False), (''display_order'', SqlInt4, False), (''joined_by'', SqlText, False)]"

definition group_categories_table :: "(string \<times> sql_type \<times> bool) list" where
  "group_categories_table =
     [(''id'', SqlText, True), (''name'', SqlText, True), (''description'', SqlText, False),
      (''display_order'', SqlInt4, False), (''create_time'', SqlInt8, True), (''update_time'', SqlInt8, True)]"

definition group_files_table :: "(string \<times> sql_type \<times> bool) list" where
  "group_files_table =
     [(''id'', SqlText, True), (''group_id'', SqlText, True), (''uploader_id'', SqlText, True),
      (''file_name'', SqlText, True), (''file_url'', SqlText, True), (''file_size'', SqlInt8, True),
      (''file_type'', SqlText, True), (''upload_time'', SqlInt8, True), (''is_pinned'', SqlBool, False),
      (''download_count'', SqlInt4, False), (''thumbnail_url'', SqlText, False)]"

definition group_polls_table :: "(string \<times> sql_type \<times> bool) list" where
  "group_polls_table =
     [(''id'', SqlText, True), (''group_id'', SqlText, True), (''creator_id'', SqlText, True),
      (''title'', SqlText, True), (''options'', SqlJson, True), (''results'', SqlJson, False),
      (''is_multiple'', SqlBool, False), (''is_anonymous'', SqlBool, False), (''created_at'', SqlInt8, True),
      (''expires_at'', SqlInt8, False), (''status'', SqlText, False)]"

definition group_mute_records_table :: "(string \<times> sql_type \<times> bool) list" where
  "group_mute_records_table =
     [(''id'', SqlText, True), (''group_id'', SqlText, True), (''user_id'', SqlText, True),
      (''operator_id'', SqlText, True), (''mute_until'', SqlInt8, True), (''reason'', SqlText, False),
      (''created_at'', SqlInt8, True)]"

definition group_announcements_table :: "(string \<times> sql_type \<times> bool) list" where
  "group_announcements_table =
     [(''id'', SqlText, True), (''group_id'', SqlText, True), (''creator_id'', SqlText, True),
      (''content'', SqlText, True), (''created_at'', SqlInt8, True), (''is_pinned'', SqlBool, False)]"

definition migrated :: schema where
  "migrated =
     [(''users'', users_table), (''friendships'', friendships_table), (''friend_groups'', friend_groups_table),
      (''friends'', friends_table), (''friend_tags'', friend_tags_table),
      (''friend_tag_relations'', friend_tag_relations_table),
      (''friend_interactions'', friend_interactions_table),
      (''friend_privacy_settings'', friend_privacy_settings_table), (''groups'', groups_table),
      (''group_members'', group_members_table), (''group_categories'', group_categories_table),
      (''group_files'', group_files_table), (''group_polls'', group_polls_table),
      (''group_mute_records'', group_mute_records_table), (''group_announcements'', group_announcements_table),
      (''sequence'', sequence_table)]"

lemmas migrated_defs =
  migrated_def users_table_def friendships_table_def friend_groups_table_def friends_table_def
  friend_tags_table_def friend_tag_relations_table_def friend_interactions_table_def
  friend_privacy_settings_table_def sequence_table_def groups_table_def group_members_table_def
  group_categories_table_def group_files_table_def group_polls_table_def group_mute_records_table_def
  group_announcements_table_def

end
