(* ===== verification/User_Repo.thy ===== *)
theory User_Repo
  imports Schema
begin

text \<open>
  The user repository \<open>PostgresUser\<close> (\<open>db/src/postgres/user.rs\<close>) over the tables \<open>users\<close> and
  \<open>sequence\<close>. A row of \<open>users\<close> is a \<open>User\<close>: every column is one of its fields, and the statements of
  the code give every \<open>NOT NULL\<close> field a value. The table has a primary key and no other unique
  column, so several users may share an account, an e-mail address or a phone number; \<open>fetch_optional\<close>
  takes the first row.

  Parameters: which statement fails, the schema, the clock, and the Argon2 library (parsing a PHC
  string, verifying, hashing, the salts it accepts and generates).
\<close>

section \<open>Data\<close>

record User =
  us_id :: string
  us_name :: string
  us_account :: string
  us_password :: string
  us_avatar :: string
  us_gender :: string
  us_age :: int
  us_phone :: "string option"
  us_email :: "string option"
  us_address :: "string option"
  us_region :: "string option"
  us_birthday :: "int option"
  us_create_time :: int
  us_update_time :: int
  us_salt :: string
  us_signature :: string
  us_last_login_time :: "int option"
  us_last_login_ip :: "string option"
  us_two_factor_enabled :: bool
  us_account_status :: string
  us_status :: string
  us_last_active_time :: "int option"
  us_status_message :: "string option"
  us_privacy_settings :: string
  us_notification_settings :: string
  us_language :: string
  us_friend_requests_privacy :: string
  us_profile_visibility :: string
  us_theme :: string
  us_timezone :: string
  us_is_delete :: bool

record UserWithMatchType =
  um_id :: string
  um_name :: string
  um_account :: string
  um_avatar :: string
  um_gender :: string
  um_age :: int
  um_email :: "string option"
  um_region :: "string option"
  um_birthday :: "int option"
  um_match_type :: "string option"
  um_signature :: string
  um_is_friend :: bool

record UserUpdate =
  uu_id :: string
  uu_name :: string
  uu_avatar :: string
  uu_gender :: string
  uu_phone :: string
  uu_email :: string
  uu_address :: string
  uu_region :: string
  uu_birthday :: int
  uu_signature :: string
  uu_status :: string
  uu_status_message :: string
  uu_privacy_settings :: string
  uu_notification_settings :: string
  uu_language :: string
  uu_friend_requests_privacy :: string
  uu_profile_visibility :: string
  uu_theme :: string
  uu_timezone :: string

record user_db =
  ud_users :: "User list"
  ud_sequence :: "SeqRow list"

record user_env =
  ue_stmt :: "nat \<Rightarrow> failure option"
  ue_schema :: schema
  ue_now :: int
  ue_parse_hash :: "string \<Rightarrow> string option"
  ue_verify :: "string \<Rightarrow> string \<Rightarrow> bool"
  ue_salt_ok :: "string \<Rightarrow> bool"
  ue_argon2 :: "string \<Rightarrow> string \<Rightarrow> string + string"
  ue_new_salt :: string

section \<open>Statements\<close>

abbreviation ustmt :: "user_env \<Rightarrow> nat \<Rightarrow> statement \<Rightarrow> (user_db, 'a) act \<Rightarrow> (user_db, 'a) act" where
  "ustmt env n st m \<equiv> remote (ue_stmt env n) (checked (ue_schema env) st m)"

definition all_user_columns :: "(string \<times> sql_type) list" where
  "all_user_columns =
     [(''id'', SqlText), (''name'', SqlText), (''account'', SqlText), (''password'', SqlText),
      (''avatar'', SqlText), (''gender'', SqlText), (''age'', SqlInt4), (''phone'', SqlText),
      (''email'', SqlText), (''address'', SqlText), (''region'', SqlText), (''birthday'', SqlInt8),
      (''create_time'', SqlInt8), (''update_time'', SqlInt8), (''salt'', SqlText),
      (''signature'', SqlText), (''last_login_time'', SqlInt8), (''last_login_ip'', SqlText),
      (''two_factor_enabled'', SqlBool), (''account_status'', SqlText), (''status'', SqlText),
      (''last_active_time'', SqlInt8), (''status_message'', SqlText), (''privacy_settings'', SqlText),
      (''notification_settings'', SqlText), (''language'', SqlText),
      (''friend_requests_privacy'', SqlText), (''profile_visibility'', SqlText),
      (''theme'', SqlText), (''timezone'', SqlText), (''is_delete'', SqlBool)]"

text \<open>\<open>User::from_row\<close> on a \<open>SELECT *\<close> or \<open>RETURNING *\<close>.\<close>

definition decode_user :: "schema \<Rightarrow> User \<Rightarrow> failure option" where
  "decode_user sch u = (if row_readable sch ''users'' all_user_columns then None else Some unreadable)"

definition fetch_optional :: "('r \<Rightarrow> failure option) \<Rightarrow> 'r list \<Rightarrow> 'r option res" where
  "fetch_optional decode rows =
     (case rows of
        [] \<Rightarrow> Inr None
      | r # _ \<Rightarrow> (case decode r of Some e \<Rightarrow> Inl e | None \<Rightarrow> Inr (Some r)))"

text \<open>The driver may stop at the first row; rows of one statement are decoded from first to last.\<close>

definition select_users :: "(User \<Rightarrow> bool) \<Rightarrow> user_db \<Rightarrow> User list" where
  "select_users P db = filter P (ud_users db)"

definition update_users :: "(User \<Rightarrow> bool) \<Rightarrow> (User \<Rightarrow> User) \<Rightarrow> user_db \<Rightarrow> user_db" where
  "update_users P f db = db\<lparr>ud_users := map (\<lambda>u. if P u then f u else u) (ud_users db)\<rparr>"

section \<open>Operations\<close>

definition bind_all :: "(string \<times> sql_type) list \<Rightarrow> (string \<times> col_use) list" where
  "bind_all cs = map (\<lambda>(c, ty). (c, Bound ty)) cs"

text \<open>The statements, as the server checks them.\<close>

definition get_user_by_id_stmt :: statement where
  "get_user_by_id_stmt = query_on ''users'' [(''id'', Bound SqlText)]"

definition get_user_by_email_stmt :: statement where
  "get_user_by_email_stmt = query_on ''users'' [(''email'', Bound SqlText)]"

definition search_user_stmt :: statement where
  "search_user_stmt = query_on ''users'' ([(''id'', Bound SqlText), (''email'', Bound SqlText),
     (''phone'', Bound SqlText), (''account'', Bound SqlText)]
     @ map (\<lambda>c. (c, Named)) [''name'', ''avatar'', ''gender'', ''age'', ''region'', ''birthday'',
     ''signature'', ''status'', ''last_active_time'', ''profile_visibility'', ''is_delete''])"

definition update_user_stmt :: statement where
  "update_user_stmt = query_on ''users'' (bind_all
     [(''id'', SqlText), (''name'', SqlText), (''avatar'', SqlText), (''gender'', SqlText),
     (''phone'', SqlText), (''email'', SqlText), (''address'', SqlText), (''region'', SqlText),
     (''birthday'', SqlInt8), (''signature'', SqlText), (''status'', SqlText),
     (''status_message'', SqlText), (''privacy_settings'', SqlText),
     (''notification_settings'', SqlText), (''language'', SqlText),
     (''friend_requests_privacy'', SqlText), (''profile_visibility'', SqlText),
     (''theme'', SqlText), (''timezone'', SqlText), (''update_time'', SqlInt8)])"

definition update_region_stmt :: statement where
  "update_region_stmt = query_on ''users'' [(''id'', Bound SqlText), (''region'', Bound SqlText)]"

definition verify_pwd_stmt :: statement where
  "verify_pwd_stmt = query_on ''users'' [(''account'', Bound SqlText), (''phone'', Bound SqlText),
     (''email'', Bound SqlText)]"

definition modify_pwd_stmt :: statement where
  "modify_pwd_stmt = query_on ''users'' [(''id'', Bound SqlText), (''salt'', Bound SqlText),
     (''password'', Bound SqlText)]"

definition status_message_stmt :: statement where
  "status_message_stmt = query_on ''users'' [(''id'', Bound SqlText), (''status'', Bound SqlText),
     (''status_message'', Bound SqlText), (''last_active_time'', Bound SqlInt8)]"

definition status_stmt :: statement where
  "status_stmt = query_on ''users'' [(''id'', Bound SqlText), (''status'', Bound SqlText),
     (''last_active_time'', Bound SqlInt8)]"

definition login_info_stmt :: statement where
  "login_info_stmt = query_on ''users'' [(''id'', Bound SqlText), (''last_login_time'', Bound SqlInt8),
     (''last_login_ip'', Bound SqlText), (''login_attempts'', Named)]"

definition insert_user_stmt :: statement where
  "insert_user_stmt = insert_into ''users'' (bind_all all_user_columns)"

definition insert_sequence_stmt :: statement where
  "insert_sequence_stmt = insert_into ''sequence'' [(''user_id'', Bound SqlText), (''send_max_seq'', Bound SqlInt4),
     (''rec_max_seq'', Bound SqlInt4)]"

definition new_user_row :: "int \<Rightarrow> User \<Rightarrow> User" where
  "new_user_row now u =
     u\<lparr>us_create_time := now, us_update_time := now, us_last_login_time := Some now,
       us_last_active_time := Some now, us_is_delete := False\<rparr>"

definition insert_user :: "user_env \<Rightarrow> User \<Rightarrow> (user_db, User) act" where
  "insert_user env u db =
     (let row = new_user_row (ue_now env) u in
      if us_id u \<in> us_id ` set (ud_users db) then (Inl unique_violation, db)
      else (fetch_one (decode_user (ue_schema env)) [row], db\<lparr>ud_users := ud_users db @ [row]\<rparr>))"

definition create_user :: "user_env \<Rightarrow> int \<Rightarrow> User \<Rightarrow> (user_db, User) act" where
  "create_user env init_max_seq u =
     transaction (and_then (remote (ue_stmt env 0) (ok ())) (\<lambda>_.
       and_then (ustmt env 1 insert_user_stmt (insert_user env u)) (\<lambda>result.
       and_then (checked (ue_schema env)
           insert_sequence_stmt
           (on_part ud_sequence (\<lambda>t. ud_sequence_update (\<lambda>_. t))
             (insert_sequence init_max_seq (ue_stmt env 2) (us_id u)))) (\<lambda>_.
       and_then (remote (ue_stmt env 3) (ok ())) (\<lambda>_. ok result)))))"

definition get_user_by_id :: "user_env \<Rightarrow> string \<Rightarrow> (user_db, User option) act" where
  "get_user_by_id env i =
     ustmt env 0 get_user_by_id_stmt (\<lambda>db.
       (fetch_optional (decode_user (ue_schema env)) (select_users (\<lambda>u. us_id u = i) db), db))"

definition get_user_by_email :: "user_env \<Rightarrow> string \<Rightarrow> (user_db, User option) act" where
  "get_user_by_email env e =
     ustmt env 0 get_user_by_email_stmt (\<lambda>db.
       (fetch_optional (decode_user (ue_schema env)) (select_users (\<lambda>u. us_email u = Some e) db), db))"

text \<open>The \<open>CASE\<close> of \<open>search_user\<close>; \<open>NULL = $2\<close> is not true.\<close>

definition match_type_of :: "string \<Rightarrow> User \<Rightarrow> string option" where
  "match_type_of pat u =
     (if us_phone u = Some pat then Some ''phone''
      else if us_email u = Some pat then Some ''email''
      else if us_account u = pat then Some ''account'' else None)"

definition search_match :: "string \<Rightarrow> string \<Rightarrow> User \<Rightarrow> bool" where
  "search_match me pat u \<longleftrightarrow> us_id u \<noteq> me
     \<and> (us_email u = Some pat \<or> us_phone u = Some pat \<or> us_account u = pat) \<and> \<not> us_is_delete u"

definition with_match_type :: "string \<Rightarrow> User \<Rightarrow> UserWithMatchType" where
  "with_match_type pat u =
     \<lparr>um_id = us_id u, um_name = us_name u, um_account = us_account u, um_avatar = us_avatar u,
      um_gender = us_gender u, um_age = us_age u, um_email = us_email u, um_region = us_region u,
      um_birthday = us_birthday u, um_match_type = match_type_of pat u,
      um_signature = us_signature u, um_is_friend = False\<rparr>"

definition search_user :: "user_env \<Rightarrow> string \<Rightarrow> string \<Rightarrow> (user_db, UserWithMatchType option) act" where
  "search_user env me pat =
     ustmt env 0 search_user_stmt
       (\<lambda>db. (Inr (map_option (with_match_type pat)
           (find (search_match me pat) (ud_users db))), db))"

text \<open>\<open>COALESCE(NULLIF(v, d), old)\<close> on a nullable column.\<close>

definition keep_if :: "'v \<Rightarrow> 'v \<Rightarrow> 'v option \<Rightarrow> 'v option" where
  "keep_if d v old = (if v = d then old else Some v)"

definition keep_if_braces :: "string \<Rightarrow> string \<Rightarrow> string" where
  "keep_if_braces v old = (if v = ''{}'' then old else v)"

definition updated_user :: "int \<Rightarrow> UserUpdate \<Rightarrow> User \<Rightarrow> User" where
  "updated_user now v u = u\<lparr>
     us_name := keep_if_empty (uu_name v) (us_name u),
     us_avatar := keep_if_empty (uu_avatar v) (us_avatar u),
     us_gender := keep_if_empty (uu_gender v) (us_gender u),
     us_phone := keep_if '''' (uu_phone v) (us_phone u),
     us_email := keep_if '''' (uu_email v) (us_email u),
     us_address := keep_if '''' (uu_address v) (us_address u),
     us_region := keep_if '''' (uu_region v) (us_region u),
     us_birthday := keep_if 0 (uu_birthday v) (us_birthday u),
     us_signature := keep_if_empty (uu_signature v) (us_signature u),
     us_status := keep_if_empty (uu_status v) (us_status u),
     us_status_message := keep_if '''' (uu_status_message v) (us_status_message u),
     us_privacy_settings := keep_if_braces (uu_privacy_settings v) (us_privacy_settings u),
     us_notification_settings := keep_if_braces (uu_notification_settings v) (us_notification_settings u),
     us_language := keep_if_empty (uu_language v) (us_language u),
     us_friend_requests_privacy := keep_if_empty (uu_friend_requests_privacy v) (us_friend_requests_privacy u),
     us_profile_visibility := keep_if_empty (uu_profile_visibility v) (us_profile_visibility u),
     us_theme := keep_if_empty (uu_theme v) (us_theme u),
     us_timezone := keep_if_empty (uu_timezone v) (us_timezone u),
     us_update_time := now\<rparr>"

definition update_user :: "user_env \<Rightarrow> UserUpdate \<Rightarrow> (user_db, User) act" where
  "update_user env v =
     ustmt env 0 update_user_stmt
       (\<lambda>db. (fetch_one (decode_user (ue_schema env))
           (map (updated_user (ue_now env) v) (select_users (\<lambda>u. us_id u = uu_id v) db)),
         update_users (\<lambda>u. us_id u = uu_id v) (updated_user (ue_now env) v) db))"

definition update_region :: "user_env \<Rightarrow> string \<Rightarrow> string \<Rightarrow> (user_db, unit) act" where
  "update_region env i region =
     ustmt env 0 update_region_stmt
       (\<lambda>db. (Inr (), update_users (\<lambda>u. us_id u = i) (us_region_update (\<lambda>_. Some region)) db))"

text \<open>The hash is parsed before it is compared; a row whose password is no PHC string is an
  internal error. The returned user carries no password.\<close>

definition login_match :: "string \<Rightarrow> User \<Rightarrow> bool" where
  "login_match account u \<longleftrightarrow>
     us_account u = account \<or> us_phone u = Some account \<or> us_email u = Some account"

definition verify_pwd :: "user_env \<Rightarrow> string \<Rightarrow> string \<Rightarrow> (user_db, User option) act" where
  "verify_pwd env account password =
     and_then (ustmt env 0 verify_pwd_stmt
       (\<lambda>db. (fetch_optional (decode_user (ue_schema env)) (select_users (login_match account) db), db)))
     (\<lambda>found. case found of
        None \<Rightarrow> ok None
      | Some u \<Rightarrow>
          (case ue_parse_hash env (us_password u) of
             Some e \<Rightarrow> fail (Failed (internal_with_details e))
           | None \<Rightarrow>
               if ue_verify env password (us_password u) then ok (Some (u\<lparr>us_password := ''''\<rparr>))
               else ok None))"

text \<open>\<open>utils::hash_password\<close>: a salt that is not Base64 panics.\<close>

definition hash_password :: "user_env \<Rightarrow> string \<Rightarrow> string \<Rightarrow> string res" where
  "hash_password env password salt =
     (if \<not> ue_salt_ok env salt then Inl (Panicked ''called `Result::unwrap()` on an `Err` value'')
      else case ue_argon2 env password salt of
        Inl e \<Rightarrow> Inl (Failed (internal_with_details e))
      | Inr h \<Rightarrow> Inr h)"

definition modify_pwd :: "user_env \<Rightarrow> string \<Rightarrow> string \<Rightarrow> (user_db, unit) act" where
  "modify_pwd env i password =
     and_then (ustmt env 0 get_user_by_id_stmt
       (\<lambda>db. (fetch_one (decode_user (ue_schema env)) (select_users (\<lambda>u. us_id u = i) db), db))) (\<lambda>u.
     let salt = (if us_salt u = '''' then ue_new_salt env else us_salt u) in
     case hash_password env password salt of
       Inl e \<Rightarrow> fail e
     | Inr h \<Rightarrow>
         ustmt env 1 modify_pwd_stmt
           (\<lambda>db. (Inr (), update_users (\<lambda>u. us_id u = i) (\<lambda>u. u\<lparr>us_salt := salt, us_password := h\<rparr>) db)))"

definition update_user_status ::
  "user_env \<Rightarrow> string \<Rightarrow> string \<Rightarrow> string option \<Rightarrow> (user_db, unit) act" where
  "update_user_status env i status msg =
     (case msg of
        Some m \<Rightarrow>
          ustmt env 0 status_message_stmt
            (\<lambda>db. (Inr (), update_users (\<lambda>u. us_id u = i) (\<lambda>u. u\<lparr>us_status := status,
               us_status_message := Some m, us_last_active_time := Some (ue_now env)\<rparr>) db))
      | None \<Rightarrow>
          ustmt env 0 status_stmt
            (\<lambda>db. (Inr (), update_users (\<lambda>u. us_id u = i) (\<lambda>u. u\<lparr>us_status := status,
               us_last_active_time := Some (ue_now env)\<rparr>) db)))"

definition update_login_info :: "user_env \<Rightarrow> string \<Rightarrow> string \<Rightarrow> (user_db, unit) act" where
  "update_login_info env i ip =
     ustmt env 0 login_info_stmt
       (\<lambda>db. (Inr (), update_users (\<lambda>u. us_id u = i) (\<lambda>u. u\<lparr>us_last_login_time := Some (ue_now env),
          us_last_login_ip := Some ip\<rparr>) db))"

section \<open>The migrated tables accept every statement but one\<close>

lemma user_columns_readable: "row_readable migrated ''users'' all_user_columns"
  by code_simp

lemma decode_user_migrated [simp]: "decode_user migrated u = None"
  by (simp add: decode_user_def user_columns_readable)

lemma get_user_by_id_stmt_ok [simp]: "stmt_accepted migrated get_user_by_id_stmt"
  by code_simp

lemma get_user_by_email_stmt_ok [simp]: "stmt_accepted migrated get_user_by_email_stmt"
  by code_simp

lemma search_user_stmt_ok [simp]: "stmt_accepted migrated search_user_stmt"
  by code_simp

lemma update_user_stmt_ok [simp]: "stmt_accepted migrated update_user_stmt"
  by code_simp

lemma update_region_stmt_ok [simp]: "stmt_accepted migrated update_region_stmt"
  by code_simp

lemma verify_pwd_stmt_ok [simp]: "stmt_accepted migrated verify_pwd_stmt"
  by code_simp

lemma modify_pwd_stmt_ok [simp]: "stmt_accepted migrated modify_pwd_stmt"
  by code_simp

lemma status_message_stmt_ok [simp]: "stmt_accepted migrated status_message_stmt"
  by code_simp

lemma status_stmt_ok [simp]: "stmt_accepted migrated status_stmt"
  by code_simp

lemma insert_user_stmt_ok [simp]: "stmt_accepted migrated insert_user_stmt"
  by code_simp

lemma insert_sequence_stmt_ok [simp]: "stmt_accepted migrated insert_sequence_stmt"
  by code_simp

lemma login_info_stmt_refused [simp]: "\<not> stmt_accepted migrated login_info_stmt"
  by code_simp

section \<open>Soundness of the tables\<close>

definition users_sound :: "user_db \<Rightarrow> bool" where
  "users_sound db \<longleftrightarrow> distinct (map us_id (ud_users db)) \<and> distinct (map sq_user_id (ud_sequence db))
     \<and> us_id ` set (ud_users db) \<subseteq> sq_user_id ` set (ud_sequence db)"

lemma update_users_ids:
  "(\<And>u. us_id (f u) = us_id u) \<Longrightarrow> map us_id (ud_users (update_users P f db)) = map us_id (ud_users db)"
  by (simp add: update_users_def)

lemma users_sound_alt:
  "users_sound db \<longleftrightarrow> distinct (map us_id (ud_users db)) \<and> distinct (map sq_user_id (ud_sequence db))
     \<and> set (map us_id (ud_users db)) \<subseteq> sq_user_id ` set (ud_sequence db)"
  by (simp add: users_sound_def)

lemma update_users_sequence [simp]: "ud_sequence (update_users P f db) = ud_sequence db"
  by (simp add: update_users_def)

lemma update_users_sound:
  "(\<And>u. us_id (f u) = us_id u) \<Longrightarrow> users_sound db \<Longrightarrow> users_sound (update_users P f db)"
  unfolding users_sound_alt by (simp only: update_users_ids update_users_sequence)

lemma preserves_update_users [intro]:
  "(\<And>u. us_id (f u) = us_id u) \<Longrightarrow> preserves users_sound (\<lambda>db. (r db, update_users P f db))"
  by (rule preservesI) (simp add: update_users_sound)

lemma preserves_read [intro]: "preserves I (\<lambda>s. (r s, s))"
  by (rule preservesI) simp

lemma preserves_transaction_success:
  assumes "\<And>s a t. I s \<Longrightarrow> m s = (Inr a, t) \<Longrightarrow> I t"
  shows "preserves I (transaction m)"
  by (rule preservesI) (auto simp: transaction_def assms split: prod.split sum.split)

lemma insert_user_Inr:
  "insert_user env u db = (Inr a, t) \<Longrightarrow>
     us_id u \<notin> us_id ` set (ud_users db)
     \<and> t = db\<lparr>ud_users := ud_users db @ [new_user_row (ue_now env) u]\<rparr>
     \<and> a = new_user_row (ue_now env) u"
  by (auto simp: insert_user_def Let_def fetch_one_def split: if_splits option.splits)

lemma insert_sequence_Inr:
  "insert_sequence n outage i tbl = (Inr r, tbl') \<Longrightarrow>
     i \<notin> sq_user_id ` set tbl
     \<and> tbl' = tbl @ [\<lparr>sq_user_id = i, send_max_seq = n, rec_max_seq = n\<rparr>]"
  by (cases outage) (auto simp: insert_sequence_def split: if_splits)

lemma checked_InrE:
  assumes "checked sch st m s = (Inr a, t)"
  obtains "stmt_accepted sch st" and "m s = (Inr a, t)"
  using assms by (auto simp: checked_def split: if_splits)

lemma remote_InrE:
  assumes "remote outage m s = (Inr a, t)"
  obtains "outage = None" and "m s = (Inr a, t)"
  using assms by (cases outage) auto

text \<open>What a successful \<open>create_user\<close> has done.\<close>

lemma create_user_Inr:
  assumes "create_user env n u db = (Inr a, t)"
  shows "us_id u \<notin> us_id ` set (ud_users db)" and "us_id u \<notin> sq_user_id ` set (ud_sequence db)"
    and "a = new_user_row (ue_now env) u"
    and "t = \<lparr>ud_users = ud_users db @ [new_user_row (ue_now env) u],
       ud_sequence = ud_sequence db @ [\<lparr>sq_user_id = us_id u, send_max_seq = n, rec_max_seq = n\<rparr>]\<rparr>"
  using assms unfolding create_user_def transaction_def
  by (auto split: prod.splits sum.splits elim!: and_then_eq_InrE remote_InrE checked_InrE
      dest!: insert_user_Inr insert_sequence_Inr simp: on_part_def)

lemma create_user_Inl:
  "create_user env n u db = (Inl e, t) \<Longrightarrow> t = db"
  by (auto simp: create_user_def transaction_def split: prod.splits sum.splits)

lemma new_user_row_id [simp]: "us_id (new_user_row now u) = us_id u"
  by (simp add: new_user_row_def)

lemma preserves_create_user: "preserves users_sound (create_user env n u)"
proof (rule preservesI)
  fix db assume db: "users_sound db"
  show "users_sound (snd (create_user env n u db))"
  proof (cases "create_user env n u db")
    case (Pair r t)
    show ?thesis
    proof (cases r)
      case (Inl e)
      with Pair create_user_Inl have "t = db" by blast
      with Pair db show ?thesis by simp
    next
      case (Inr a)
      with Pair have c: "create_user env n u db = (Inr a, t)" by simp
      show ?thesis
        using db create_user_Inr(1,2) [OF c] by (auto simp: Pair create_user_Inr(4) [OF c] users_sound_def)
    qed
  qed
qed

lemma preserves_user_update:
  "(\<And>u. us_id (f u) = us_id u) \<Longrightarrow>
   preserves users_sound (ustmt env n st (\<lambda>db. (r db, update_users P f db)))"
  by (intro preserves_remote preserves_checked preserves_update_users)

lemma preserves_modify_pwd: "preserves users_sound (modify_pwd env i password)"
proof -
  have "preserves users_sound (case r of
      Inl e \<Rightarrow> fail e
    | Inr h \<Rightarrow> ustmt env 1 st (\<lambda>db. (Inr (), update_users P (\<lambda>u. u\<lparr>us_salt := salt, us_password := h\<rparr>) db)))"
    for r salt P st
    by (cases r) (simp_all add: preserves_user_update)
  then show ?thesis
    unfolding modify_pwd_def Let_def
    by (intro preserves_and_then preserves_remote preserves_checked preserves_read)
qed

lemma preserves_update_user: "preserves users_sound (update_user env v)"
  by (simp add: update_user_def preserves_user_update updated_user_def)

lemma preserves_update_region: "preserves users_sound (update_region env i region)"
  by (simp add: update_region_def preserves_user_update)

lemma preserves_update_user_status: "preserves users_sound (update_user_status env i status msg)"
  by (cases msg) (simp_all add: update_user_status_def preserves_user_update)

lemma preserves_update_login_info: "preserves users_sound (update_login_info env i ip)"
  by (simp add: update_login_info_def preserves_user_update)

lemma map_numbers_ids:
  "map sq_user_id (map (\<lambda>r. if P r then rec_max_seq_update f r else r) tbl) = map sq_user_id tbl"
  "map sq_user_id (map (\<lambda>r. if P r then send_max_seq_update f r else r) tbl) = map sq_user_id tbl"
  by simp_all

lemma seq_writes_keep_ids:
  "map sq_user_id (snd (save_max_seq step outage u tbl)) = map sq_user_id tbl"
  "map sq_user_id (snd (save_send_max_seq step outage u tbl)) = map sq_user_id tbl"
  "map sq_user_id (snd (save_max_seq_batch step outage us tbl)) = map sq_user_id tbl"
  by (cases outage; auto simp: pg_defs split: option.split)+

lemma users_sound_sequence_put:
  assumes "map sq_user_id tbl = map sq_user_id (ud_sequence db)" and "users_sound db"
  shows "users_sound (db\<lparr>ud_sequence := tbl\<rparr>)"
proof -
  from assms(1) have "sq_user_id ` set tbl = sq_user_id ` set (ud_sequence db)"
    by (metis set_map)
  with assms show ?thesis by (simp add: users_sound_def)
qed

text \<open>The writes on the two tables: the user repository and the sequence repository, with any
  outcome of any statement.\<close>

inductive user_step :: "user_db \<Rightarrow> user_db \<Rightarrow> bool" where
  create: "user_step db (snd (create_user env n u db))"
| update: "user_step db (snd (update_user env v db))"
| region: "user_step db (snd (update_region env i region db))"
| password: "user_step db (snd (modify_pwd env i password db))"
| status: "user_step db (snd (update_user_status env i status msg db))"
| login_info: "user_step db (snd (update_login_info env i ip db))"
| rec_max: "user_step db (db\<lparr>ud_sequence := snd (save_max_seq step outage i (ud_sequence db))\<rparr>)"
| send_max: "user_step db (db\<lparr>ud_sequence := snd (save_send_max_seq step outage i (ud_sequence db))\<rparr>)"
| rec_max_batch:
    "user_step db (db\<lparr>ud_sequence := snd (save_max_seq_batch step outage us (ud_sequence db))\<rparr>)"

lemma user_step_sound: "user_step db db' \<Longrightarrow> users_sound db \<Longrightarrow> users_sound db'"
  by (induction rule: user_step.induct)
     (auto intro: preservesD [OF preserves_create_user] preservesD [OF preserves_update_user]
       preservesD [OF preserves_modify_pwd] preservesD [OF preserves_update_region]
       preservesD [OF preserves_update_user_status] preservesD [OF preserves_update_login_info]
       users_sound_sequence_put seq_writes_keep_ids)

lemma user_steps_sound: "user_step\<^sup>*\<^sup>* db db' \<Longrightarrow> users_sound db \<Longrightarrow> users_sound db'"
  by (induction rule: rtranclp_induct) (auto intro: user_step_sound)

lemma save_max_seq_finds:
  assumes "i \<in> sq_user_id ` set tbl" and "\<forall>r \<in> set tbl. i64_ok (rec_max_seq r + step)"
  shows "\<exists>n. fst (save_max_seq step None i tbl) = Inr n"
proof -
  from assms(1) obtain r where "find (\<lambda>r. sq_user_id r = i) tbl = Some r"
    by (cases "find (\<lambda>r. sq_user_id r = i) tbl") (auto simp: find_None_iff)
  with assms(2) show ?thesis
    by (auto simp: save_max_seq_def dest: find_SomeD)
qed

text \<open>
  C30. Starting from sound tables, after any sequence of writes of the user and sequence
  repositories, whichever statements fail, user ids and sequence rows are unique and every user
  has a sequence row: raising its maximum succeeds unless the statement fails or the number
  leaves the 64-bit range.
\<close>

theorem users_keep_numbers:
  assumes "users_sound db" and "user_step\<^sup>*\<^sup>* db db'"
  shows "users_sound db' \<and>
     (\<forall>u \<in> set (ud_users db'). (\<forall>r \<in> set (ud_sequence db'). i64_ok (rec_max_seq r + step)) \<longrightarrow>
        (\<exists>n. fst (save_max_seq step None (us_id u) (ud_sequence db')) = Inr n))"
  using user_steps_sound [OF assms(2,1)] by (auto simp: users_sound_def intro!: save_max_seq_finds)

section \<open>Behaviour of the operations\<close>

lemma find_filter_hd: "find P xs = Some x \<Longrightarrow> \<exists>ys. filter P xs = x # ys"
  by (induction xs) (auto split: if_splits)

lemma find_map_same:
  assumes "\<And>x. P (f x) = P x"
  shows "find P (map f xs) = map_option f (find P xs)"
  by (induction xs) (simp_all add: assms)

lemma verify_pwd_found:
  assumes "ue_schema env = migrated" and "ue_stmt env 0 = None"
    and "find (login_match account) (ud_users db) = Some u"
  shows "verify_pwd env account password db =
    (case ue_parse_hash env (us_password u) of
       Some e \<Rightarrow> (Inl (Failed (internal_with_details e)), db)
     | None \<Rightarrow> (Inr (if ue_verify env password (us_password u) then Some (u\<lparr>us_password := ''''\<rparr>) else None), db))"
  using find_filter_hd [OF assms(3)] assms(1,2)
  by (auto simp: verify_pwd_def and_then_def fetch_optional_def select_users_def split: option.split)

lemma modify_pwd_Inr:
  assumes "modify_pwd env i password db = (Inr (), db')" and "ue_schema env = migrated"
  obtains salt h where "ue_argon2 env password salt = Inr h"
    and "db' = update_users (\<lambda>u. us_id u = i) (\<lambda>u. u\<lparr>us_salt := salt, us_password := h\<rparr>) db"
  using assms unfolding modify_pwd_def
  by (auto simp: Let_def hash_password_def
      elim!: and_then_eq_InrE remote_InrE split: sum.splits if_splits)

text \<open>
  Changing a password takes effect: when \<open>modify_pwd\<close> has succeeded for the user a login name
  leads to, \<open>verify_pwd\<close> with that name and the new password returns that user, with the password
  removed from the answer. Of Argon2 only the documented law is used that a password verifies
  against its own hash.
\<close>

theorem changed_password_verifies:
  assumes argon2: "\<forall>p s h. ue_argon2 env p s = Inr h \<longrightarrow> ue_parse_hash env h = None \<and> ue_verify env p h"
    and env: "ue_schema env = migrated" "ue_stmt env 0 = None"
    and u: "find (login_match account) (ud_users db) = Some u"
    and changed: "modify_pwd env (us_id u) password db = (Inr (), db')"
  shows "\<exists>v. verify_pwd env account password db' = (Inr (Some v), db')
     \<and> us_id v = us_id u \<and> us_password v = ''''"
proof -
  from modify_pwd_Inr [OF changed env(1)] obtain salt h where h: "ue_argon2 env password salt = Inr h"
    and db': "db' = update_users (\<lambda>w. us_id w = us_id u) (\<lambda>u. u\<lparr>us_salt := salt, us_password := h\<rparr>) db"
    by blast
  have "find (login_match account) (map (\<lambda>w. if us_id w = us_id u
      then w\<lparr>us_salt := salt, us_password := h\<rparr> else w) (ud_users db)) =
      Some (u\<lparr>us_salt := salt, us_password := h\<rparr>)"
    using u by (subst find_map_same) (simp_all add: login_match_def)
  then have "find (login_match account) (ud_users db') = Some (u\<lparr>us_salt := salt, us_password := h\<rparr>)"
    by (simp add: db' update_users_def)
  from verify_pwd_found [OF env this, of password] argon2 h show ?thesis by simp
qed

text \<open>
  \<open>search_user\<close> finds somebody exactly when another user that is not deleted has the pattern as
  its e-mail address, phone number or account; the match type names a field that does match, and
  the answer is never the searcher.
\<close>

theorem search_user_exact:
  assumes "ue_schema env = migrated" and "ue_stmt env 0 = None"
  shows "\<exists>r. search_user env me pat db = (Inr r, db) \<and>
    (r = None \<longleftrightarrow> \<not> (\<exists>u \<in> set (ud_users db). us_id u \<noteq> me \<and> \<not> us_is_delete u
        \<and> pat \<in> {us_account u} \<union> set_option (us_email u) \<union> set_option (us_phone u))) \<and>
    (\<forall>m. r = Some m \<longrightarrow> um_id m \<noteq> me \<and> (\<exists>u \<in> set (ud_users db). us_id u = um_id m \<and> \<not> us_is_delete u
        \<and> (um_match_type m = Some ''phone'' \<and> us_phone u = Some pat
           \<or> um_match_type m = Some ''email'' \<and> us_email u = Some pat
           \<or> um_match_type m = Some ''account'' \<and> us_account u = pat)))"
proof -
  have eq: "search_user env me pat db =
      (Inr (map_option (with_match_type pat) (find (search_match me pat) (ud_users db))), db)"
    using assms by (simp add: search_user_def)
  show ?thesis
  proof (cases "find (search_match me pat) (ud_users db)")
    case None
    then have "\<forall>u \<in> set (ud_users db). \<not> search_match me pat u" by (auto simp: find_None_iff)
    then show ?thesis
      unfolding eq None by (auto simp: search_match_def)
  next
    case (Some u)
    then have u: "u \<in> set (ud_users db)" "search_match me pat u" by (auto dest: find_SomeD)
    then show ?thesis
      unfolding eq Some
      by (auto simp: search_match_def with_match_type_def match_type_of_def intro!: bexI [of _ u])
  qed
qed

text \<open>
  Against the migrated tables \<open>update_login_info\<close> fails for every user and changes nothing: it
  names a column \<open>login_attempts\<close> no migration creates.
\<close>

theorem login_info_never_recorded:
  assumes "ue_schema env = migrated"
  shows "\<exists>e. update_login_info env i ip db = (Inl e, db)"
  using assms by (cases "ue_stmt env 0") (simp_all add: update_login_info_def)

text \<open>
  \<open>update_user\<close> changes exactly the row of the given id: an empty field keeps the stored value,
  a non-empty one replaces it, and identity, account, password and salt never change.
\<close>

theorem update_user_exact:
  assumes "ue_schema env = migrated" and "ue_stmt env 0 = None" and "u \<in> set (ud_users db)"
    and "distinct (map us_id (ud_users db))" and "uu_id v = us_id u"
  shows "\<exists>w. update_user env v db = (Inr w, db\<lparr>ud_users := map (\<lambda>x. if x = u then w else x) (ud_users db)\<rparr>)
    \<and> us_id w = us_id u \<and> us_account w = us_account u \<and> us_password w = us_password u \<and> us_salt w = us_salt u
    \<and> us_name w = (if uu_name v = '''' then us_name u else uu_name v)
    \<and> us_email w = (if uu_email v = '''' then us_email u else Some (uu_email v))
    \<and> us_birthday w = (if uu_birthday v = 0 then us_birthday u else Some (uu_birthday v))
    \<and> us_update_time w = ue_now env"
proof -
  have same: "us_id x = us_id u \<longleftrightarrow> x = u" if "x \<in> set (ud_users db)" for x
    using that assms(3,4) by (auto simp: distinct_map inj_on_def)
  have rows: "filter (\<lambda>x. us_id x = us_id u) (ud_users db) = [u]"
    using distinct_set_single [of "filter (\<lambda>x. us_id x = us_id u) (ud_users db)" u] assms(3,4) same
    by (auto simp: distinct_map)
  have "update_users (\<lambda>x. us_id x = us_id u) f db =
      db\<lparr>ud_users := map (\<lambda>x. if x = u then f u else x) (ud_users db)\<rparr>" for f
    unfolding update_users_def by (auto intro!: arg_cong [of _ _ "\<lambda>us. db\<lparr>ud_users := us\<rparr>"] simp: same)
  then show ?thesis
    using assms(1,2,5)
    by (intro exI [of _ "updated_user (ue_now env) v u"])
       (simp add: update_user_def select_users_def rows fetch_one_def updated_user_def
          keep_if_empty_def keep_if_def)
qed

section \<open>Concrete instances\<close>

definition demo_user :: "string \<Rightarrow> User" where
  "demo_user i = \<lparr>us_id = i, us_name = ''n'', us_account = i, us_password = ''old'', us_avatar = '''',
     us_gender = '''', us_age = 0, us_phone = None, us_email = Some (i @ ''@x''), us_address = None,
     us_region = None, us_birthday = None, us_create_time = 0, us_update_time = 0, us_salt = ''s'',
     us_signature = '''', us_last_login_time = None, us_last_login_ip = None,
     us_two_factor_enabled = False, us_account_status = ''active'', us_status = ''offline'',
     us_last_active_time = None, us_status_message = None, us_privacy_settings = ''{}'',
     us_notification_settings = ''{}'', us_language = ''en'', us_friend_requests_privacy = ''all'',
     us_profile_visibility = ''public'', us_theme = '''', us_timezone = '''', us_is_delete = False\<rparr>"

definition demo_user_env :: user_env where
  "demo_user_env = \<lparr>ue_stmt = (\<lambda>_. None), ue_schema = migrated, ue_now = 7, ue_parse_hash = (\<lambda>_. None),
     ue_verify = (\<lambda>p h. p = h), ue_salt_ok = (\<lambda>_. True), ue_argon2 = (\<lambda>p s. Inr p), ue_new_salt = ''t''\<rparr>"

definition demo_user_db :: user_db where
  "demo_user_db = \<lparr>ud_users = [demo_user ''a'', demo_user ''b''], ud_sequence = []\<rparr>"

definition demo_user_update :: UserUpdate where
  "demo_user_update = \<lparr>uu_id = ''b'', uu_name = ''new'', uu_avatar = '''', uu_gender = '''', uu_phone = '''',
     uu_email = '''', uu_address = '''', uu_region = '''', uu_birthday = 0, uu_signature = '''',
     uu_status = '''', uu_status_message = '''', uu_privacy_settings = ''{}'',
     uu_notification_settings = ''{}'', uu_language = '''', uu_friend_requests_privacy = '''',
     uu_profile_visibility = '''', uu_theme = '''', uu_timezone = ''''\<rparr>"

lemma demo_user_env_simps [simp]:
  "ue_schema demo_user_env = migrated" "ue_stmt demo_user_env n = None" "ue_now demo_user_env = 7"
  by (simp_all add: demo_user_env_def)

lemma demo_user_sel [simp]:
  "us_id (demo_user i) = i" "us_account (demo_user i) = i" "us_email (demo_user i) = Some (i @ ''@x'')"
  "us_phone (demo_user i) = None" "us_salt (demo_user i) = ''s''" "\<not> us_is_delete (demo_user i)"
  by (simp_all add: demo_user_def)

lemma demo_created:
  "create_user demo_user_env 100 (demo_user ''a'') \<lparr>ud_users = [], ud_sequence = []\<rparr> =
     (Inr (new_user_row 7 (demo_user ''a'')), \<lparr>ud_users = [new_user_row 7 (demo_user ''a'')],
        ud_sequence = [\<lparr>sq_user_id = ''a'', send_max_seq = 100, rec_max_seq = 100\<rparr>]\<rparr>)"
  by (simp add: create_user_def transaction_def and_then_def insert_user_def fetch_one_def
      on_part_def insert_sequence_def Let_def)

theorem users_keep_numbers_witness:
  "\<exists>n. fst (save_max_seq 100 None ''a'' (ud_sequence (snd (create_user demo_user_env 100 (demo_user ''a'')
     \<lparr>ud_users = [], ud_sequence = []\<rparr>)))) = Inr n"
proof -
  have "user_step\<^sup>*\<^sup>* \<lparr>ud_users = [], ud_sequence = []\<rparr>
      (snd (create_user demo_user_env 100 (demo_user ''a'') \<lparr>ud_users = [], ud_sequence = []\<rparr>))"
    by (intro r_into_rtranclp user_step.create)
  from users_keep_numbers [OF _ this, of 100] show ?thesis
    by (simp add: demo_created users_sound_def i64_ok_def)
qed

theorem changed_password_verifies_witness:
  "\<exists>db' v. modify_pwd demo_user_env ''b'' ''new'' demo_user_db = (Inr (), db')
     \<and> verify_pwd demo_user_env ''b@x'' ''new'' db' = (Inr (Some v), db') \<and> us_id v = ''b''"
proof -
  have u: "find (login_match ''b@x'') (ud_users demo_user_db) = Some (demo_user ''b'')"
    by (simp add: demo_user_db_def login_match_def)
  obtain db' where m: "modify_pwd demo_user_env (us_id (demo_user ''b'')) ''new'' demo_user_db = (Inr (), db')"
    by (simp add: modify_pwd_def and_then_def fetch_one_def select_users_def demo_user_db_def
        hash_password_def) (simp add: demo_user_env_def)
  have "\<forall>p s h. ue_argon2 demo_user_env p s = Inr h \<longrightarrow>
      ue_parse_hash demo_user_env h = None \<and> ue_verify demo_user_env p h"
    by (simp add: demo_user_env_def)
  from changed_password_verifies [OF this _ _ u m] m show ?thesis by auto
qed

theorem search_user_exact_witness:
  "\<exists>m. search_user demo_user_env ''a'' ''b@x'' demo_user_db = (Inr (Some m), demo_user_db) \<and> um_id m \<noteq> ''a''"
  using search_user_exact [of demo_user_env "''a''" "''b@x''" demo_user_db]
  by (auto simp: demo_user_db_def)

theorem login_info_never_recorded_witness:
  "\<exists>e. update_login_info demo_user_env ''a'' ''1.2.3.4'' demo_user_db = (Inl e, demo_user_db)"
  by (rule login_info_never_recorded) simp

theorem update_user_exact_witness:
  "\<exists>w. fst (update_user demo_user_env demo_user_update demo_user_db) = Inr w \<and> us_name w = ''new''
     \<and> us_email w = Some ''b@x''"
  using update_user_exact [of demo_user_env "demo_user ''b''" demo_user_db demo_user_update]
  by (auto simp: demo_user_db_def demo_user_update_def)

end
