(* ===== verification/Friend_Repo.thy ===== *)
theory Friend_Repo
  imports User_Repo "HOL-Library.Word"
begin

text \<open>
  The friend repository \<open>PostgresFriend\<close> (\<open>db/src/postgres/friend.rs\<close>) with the types of
  \<open>abi/src/types/friend.rs\<close>. A request is a row of \<open>friendships\<close>; an accepted one puts a row per
  direction into \<open>friends\<close>. A row type has every column a statement of the code mentions. Which of them
  exist is the schema's business: a statement runs only if the schema accepts it (theory \<open>Schema\<close>),
  so that against the migrated tables the operations on groups, tags, privacy and interaction
  scores are refused before they touch a row.

  Parameters: which statement fails, the schema, the clock, generated ids, the serial numbers of
  \<open>friends\<close>, and the server's floating point average. An \<open>f32\<close> is its bit pattern (\<open>0.0\<close> is \<open>0\<close>). The
  order of rows no \<open>ORDER BY\<close> fixes is the order of the table.
\<close>

section \<open>Data\<close>

datatype FriendshipStatus = Pending | Accepted | Rejected | Blacked | Deleted | Muted | Hidden

fun status_display :: "FriendshipStatus \<Rightarrow> string" where
  "status_display Pending = ''Pending''"
| "status_display Accepted = ''Accepted''"
| "status_display Rejected = ''Rejected''"
| "status_display Blacked = ''Blacked''"
| "status_display Deleted = ''Deleted''"
| "status_display Muted = ''Muted''"
| "status_display Hidden = ''Hidden''"

fun status_as_str_name :: "FriendshipStatus \<Rightarrow> string" where
  "status_as_str_name Pending = ''Pending''"
| "status_as_str_name Accepted = ''Accepted''"
| "status_as_str_name Rejected = ''Rejected''"
| "status_as_str_name Blacked = ''Blacked''"
| "status_as_str_name Deleted = ''Deleted''"
| "status_as_str_name Muted = ''Muted''"
| "status_as_str_name Hidden = ''Hidden''"

definition status_from_str_name :: "string \<Rightarrow> FriendshipStatus option" where
  "status_from_str_name s =
     (if s = ''Pending'' then Some Pending
      else if s = ''Accepted'' then Some Accepted
      else if s = ''Rejected'' then Some Rejected
      else if s = ''Blacked'' then Some Blacked
      else if s = ''Deleted'' then Some Deleted
      else if s = ''Muted'' then Some Muted
      else if s = ''Hidden'' then Some Hidden
      else None)"

fun status_i32 :: "FriendshipStatus \<Rightarrow> int" where
  "status_i32 Pending = 0"
| "status_i32 Accepted = 1"
| "status_i32 Rejected = 2"
| "status_i32 Blacked = 3"
| "status_i32 Deleted = 4"
| "status_i32 Muted = 5"
| "status_i32 Hidden = 6"

text \<open>The enum \<open>FsStatus\<close> through which the driver reads the column: two of the seven values of the
  database type are not among its five.\<close>

datatype FsStatus = FsPending | FsAccepted | FsRejected | FsBlacked | FsDeleted

fun fs_status_read :: "FriendshipStatus \<Rightarrow> FsStatus option" where
  "fs_status_read Pending = Some FsPending"
| "fs_status_read Accepted = Some FsAccepted"
| "fs_status_read Rejected = Some FsRejected"
| "fs_status_read Blacked = Some FsBlacked"
| "fs_status_read Deleted = Some FsDeleted"
| "fs_status_read Muted = None"
| "fs_status_read Hidden = None"

fun status_of_fs :: "FsStatus \<Rightarrow> FriendshipStatus" where
  "status_of_fs FsPending = Pending"
| "status_of_fs FsAccepted = Accepted"
| "status_of_fs FsRejected = Rejected"
| "status_of_fs FsBlacked = Blacked"
| "status_of_fs FsDeleted = Deleted"

type_synonym f32 = "32 word"

record FriendshipRow =
  fp_id :: string
  fp_user_id :: string
  fp_friend_id :: string
  fp_status :: FriendshipStatus
  fp_apply_msg :: "string option"
  fp_req_remark :: "string option"
  fp_resp_msg :: "string option"
  fp_resp_remark :: "string option"
  fp_source :: "string option"
  fp_create_time :: int
  fp_update_time :: "int option"
  fp_operator_id :: "string option"
  fp_last_operation :: "string option"

record FriendRow =
  fr_id :: int
  fr_fs_id :: string
  fr_user_id :: string
  fr_friend_id :: string
  fr_status :: FriendshipStatus
  fr_remark :: "string option"
  fr_source :: "string option"
  fr_create_time :: int
  fr_update_time :: int
  fr_deleted_time :: "int option"
  fr_is_starred :: bool
  fr_group_id :: "string option"
  fr_interaction_score :: f32
  fr_interaction_count :: int
  fr_last_interaction :: int
  fr_tags :: "string list option"
  fr_privacy_level :: string
  fr_notifications_enabled :: bool

record FriendGroup =
  fg_id :: string
  fg_user_id :: string
  fg_name :: string
  fg_display_order :: int
  fg_create_time :: int
  fg_update_time :: int

record FriendTag =
  ft_id :: string
  ft_user_id :: string
  ft_tag_name :: string
  ft_tag_color :: string
  ft_create_time :: int

record TagRelation =
  tr_user_id :: string
  tr_friend_id :: string
  tr_tag_id :: string

record FriendPrivacySettings =
  pv_user_id :: string
  pv_friend_id :: string
  pv_privacy_level :: string
  pv_share_timeline :: bool
  pv_share_location :: bool
  pv_share_status :: bool

record InteractionRow =
  it_user_id :: string
  it_friend_id :: string
  it_last_interact_time :: int

record FsCreate =
  fc_user_id :: string
  fc_friend_id :: string
  fc_apply_msg :: "string option"
  fc_req_remark :: "string option"
  fc_source :: string

record FsUpdate =
  fu_id :: string
  fu_apply_msg :: string
  fu_req_remark :: string

record AgreeReply =
  ar_fs_id :: string
  ar_resp_msg :: "string option"
  ar_resp_remark :: "string option"

record FriendshipWithUser =
  fw_fs_id :: string
  fw_user_id :: string
  fw_name :: string
  fw_avatar :: string
  fw_gender :: string
  fw_age :: int
  fw_region :: "string option"
  fw_status :: int
  fw_apply_msg :: "string option"
  fw_source :: string
  fw_create_time :: int
  fw_account :: string
  fw_remark :: "string option"
  fw_email :: "string option"

record Friend =
  fd_fs_id :: string
  fd_friend_id :: string
  fd_account :: string
  fd_name :: string
  fd_avatar :: string
  fd_gender :: string
  fd_age :: int
  fd_region :: "string option"
  fd_status :: int
  fd_remark :: "string option"
  fd_email :: "string option"
  fd_source :: string
  fd_signature :: string
  fd_create_time :: int
  fd_update_time :: int
  fd_interaction_score :: f32
  fd_tags :: "string list"
  fd_group_name :: string
  fd_privacy_level :: string
  fd_notifications_enabled :: bool
  fd_last_interaction :: int

record friend_db =
  db_users :: "User list"
  db_friendships :: "FriendshipRow list"
  db_friends :: "FriendRow list"
  db_groups :: "FriendGroup list"
  db_tags :: "FriendTag list"
  db_relations :: "TagRelation list"
  db_privacy :: "FriendPrivacySettings list"
  db_interactions :: "InteractionRow list"

record friend_env =
  fe_stmt :: "nat \<Rightarrow> failure option"
  fe_schema :: schema
  fe_now :: int
  fe_nanoid :: string
  fe_serial :: "nat \<Rightarrow> int"
  fe_average :: "f32 \<Rightarrow> int \<Rightarrow> f32 \<Rightarrow> f32"

section \<open>Reading rows\<close>

abbreviation fstmt :: "friend_env \<Rightarrow> nat \<Rightarrow> statement \<Rightarrow> (friend_db, 'a) act \<Rightarrow> (friend_db, 'a) act" where
  "fstmt env n st m \<equiv> remote (fe_stmt env n) (checked (fe_schema env) st m)"

text \<open>\<open>row.try_get(c).unwrap_or_default()\<close>.\<close>

definition read_or :: "schema \<Rightarrow> string \<Rightarrow> string \<Rightarrow> sql_type \<Rightarrow> 'v \<Rightarrow> 'v \<Rightarrow> 'v" where
  "read_or sch t c ty dflt v = (if column_type sch t c = Some ty then v else dflt)"

definition null_column :: failure where
  "null_column = db_error ''unexpected null; try decoding as an `Option`''"

definition bad_enum :: failure where
  "bad_enum = db_error ''invalid value for enum FsStatus''"

definition friendship_columns :: "(string \<times> sql_type) list" where
  "friendship_columns =
     [(''status'', SqlStatus), (''id'', SqlText), (''user_id'', SqlText), (''friend_id'', SqlText),
      (''apply_msg'', SqlText), (''req_remark'', SqlText), (''resp_msg'', SqlText),
      (''resp_remark'', SqlText), (''source'', SqlText), (''create_time'', SqlInt8), (''update_time'', SqlInt8)]"

text \<open>\<open>Friendship::from_row\<close>: the columns \<open>source\<close> and \<open>update_time\<close> may be null, the fields may not.\<close>

definition decode_friendship :: "schema \<Rightarrow> FriendshipRow \<Rightarrow> failure option" where
  "decode_friendship sch r =
     (if \<not> row_readable sch ''friendships'' friendship_columns then Some unreadable
      else if fs_status_read (fp_status r) = None then Some bad_enum
      else if fp_source r = None \<or> fp_update_time r = None then Some null_column else None)"

definition friend_db_columns :: "(string \<times> sql_type) list" where
  "friend_db_columns =
     [(''status'', SqlStatus), (''id'', SqlInt8), (''fs_id'', SqlText), (''user_id'', SqlText),
      (''friend_id'', SqlText), (''remark'', SqlText), (''source'', SqlText), (''create_time'', SqlInt8),
      (''update_time'', SqlInt8), (''deleted_time'', SqlInt8), (''is_starred'', SqlBool),
      (''group_id'', SqlText), (''interaction_score'', SqlFloat4), (''interaction_count'', SqlInt4),
      (''last_interaction'', SqlInt8), (''tags'', SqlTextArray), (''privacy_level'', SqlText),
      (''notifications_enabled'', SqlBool)]"

text \<open>\<open>FriendDb::from_row\<close>.\<close>

definition decode_friend_db :: "schema \<Rightarrow> FriendRow \<Rightarrow> failure option" where
  "decode_friend_db sch r =
     (if \<not> row_readable sch ''friends'' friend_db_columns then Some unreadable
      else if fs_status_read (fr_status r) = None then Some bad_enum
      else if fr_source r = None \<or> fr_deleted_time r = None \<or> fr_group_id r = None \<or> fr_tags r = None
        then Some null_column else None)"

definition read_friend_group :: "schema \<Rightarrow> FriendGroup \<Rightarrow> FriendGroup" where
  "read_friend_group sch r =
     \<lparr>fg_id = read_or sch ''friend_groups'' ''id'' SqlText '''' (fg_id r),
      fg_user_id = read_or sch ''friend_groups'' ''user_id'' SqlText '''' (fg_user_id r),
      fg_name = read_or sch ''friend_groups'' ''name'' SqlText '''' (fg_name r),
      fg_display_order = read_or sch ''friend_groups'' ''display_order'' SqlInt4 0 (fg_display_order r),
      fg_create_time = read_or sch ''friend_groups'' ''create_time'' SqlInt8 0 (fg_create_time r),
      fg_update_time = read_or sch ''friend_groups'' ''update_time'' SqlInt8 0 (fg_update_time r)\<rparr>"

definition read_friend_tag :: "schema \<Rightarrow> FriendTag \<Rightarrow> FriendTag" where
  "read_friend_tag sch r =
     \<lparr>ft_id = read_or sch ''friend_tags'' ''id'' SqlText '''' (ft_id r),
      ft_user_id = read_or sch ''friend_tags'' ''user_id'' SqlText '''' (ft_user_id r),
      ft_tag_name = read_or sch ''friend_tags'' ''tag_name'' SqlText '''' (ft_tag_name r),
      ft_tag_color = read_or sch ''friend_tags'' ''tag_color'' SqlText '''' (ft_tag_color r),
      ft_create_time = read_or sch ''friend_tags'' ''create_time'' SqlInt8 0 (ft_create_time r)\<rparr>"

definition read_privacy :: "schema \<Rightarrow> FriendPrivacySettings \<Rightarrow> FriendPrivacySettings" where
  "read_privacy sch r =
     (let t = ''friend_privacy_settings'' in
      \<lparr>pv_user_id = read_or sch t ''user_id'' SqlText '''' (pv_user_id r),
       pv_friend_id = read_or sch t ''friend_id'' SqlText '''' (pv_friend_id r),
       pv_privacy_level = read_or sch t ''privacy_level'' SqlText '''' (pv_privacy_level r),
       pv_share_timeline = read_or sch t ''share_timeline'' SqlBool False (pv_share_timeline r),
       pv_share_location = read_or sch t ''share_location'' SqlBool False (pv_share_location r),
       pv_share_status = read_or sch t ''share_status'' SqlBool False (pv_share_status r)\<rparr>)"

section \<open>Requests\<close>

text \<open>The statements, as the server checks them.\<close>

definition create_fs_stmt :: statement where
  "create_fs_stmt = insert_into ''friendships''
     [(''id'', Bound SqlText), (''user_id'', Bound SqlText), (''friend_id'', Bound SqlText),
      (''status'', Bound SqlStatus), (''apply_msg'', Bound SqlText), (''req_remark'', Bound SqlText),
      (''source'', Bound SqlText), (''create_time'', Bound SqlInt8), (''update_time'', Bound SqlInt8),
      (''operator_id'', Bound SqlText), (''last_operation'', Named)]"

definition select_users_stmt :: statement where
  "select_users_stmt = query_on ''users'' [(''id'', Bound SqlText)]"

definition interactions_stmt :: statement where
  "interactions_stmt = insert_into ''friend_interactions''
     [(''user_id'', Bound SqlText), (''friend_id'', Bound SqlText), (''last_interact_time'', Bound SqlInt8)]"

definition fs_list_stmt :: statement where
  "fs_list_stmt = \<lparr>st_uses = on_table ''friendships''
       [(''id'', Named), (''user_id'', Named), (''apply_msg'', Named), (''source'', Named),
        (''create_time'', Named), (''friend_id'', Bound SqlText), (''update_time'', Bound SqlInt8)]
     @ on_table ''users'' [(''name'', Named), (''avatar'', Named), (''gender'', Named), (''age'', Named),
        (''region'', Named), (''id'', Named)], st_inserts = None\<rparr>"

definition update_fs_stmt :: statement where
  "update_fs_stmt = query_on ''friendships''
     [(''status'', Bound SqlText), (''apply_msg'', Bound SqlText), (''req_remark'', Bound SqlText),
      (''update_time'', Bound SqlInt8), (''id'', Bound SqlText)]"

definition friend_status_stmt :: statement where
  "friend_status_stmt = query_on ''friendships''
     [(''status'', Bound SqlText), (''user_id'', Bound SqlText), (''friend_id'', Bound SqlText)]"

definition same_pair :: "string \<Rightarrow> string \<Rightarrow> FriendshipRow \<Rightarrow> bool" where
  "same_pair u f r \<longleftrightarrow> fp_user_id r = u \<and> fp_friend_id r = f"

definition requested_again :: "int \<Rightarrow> FsCreate \<Rightarrow> FriendshipRow \<Rightarrow> FriendshipRow" where
  "requested_again now c r = r\<lparr>fp_apply_msg := fc_apply_msg c, fp_req_remark := fc_req_remark c,
     fp_source := Some (fc_source c), fp_create_time := now, fp_update_time := Some now,
     fp_status := Pending, fp_operator_id := Some (fc_user_id c), fp_last_operation := Some ''update''\<rparr>"

definition new_request :: "friend_env \<Rightarrow> FsCreate \<Rightarrow> FriendshipRow" where
  "new_request env c = \<lparr>fp_id = fe_nanoid env, fp_user_id = fc_user_id c, fp_friend_id = fc_friend_id c,
     fp_status = Pending, fp_apply_msg = fc_apply_msg c, fp_req_remark = fc_req_remark c,
     fp_resp_msg = None, fp_resp_remark = None, fp_source = Some (fc_source c),
     fp_create_time = fe_now env, fp_update_time = Some (fe_now env),
     fp_operator_id = Some (fc_user_id c), fp_last_operation = Some ''create''\<rparr>"

text \<open>\<open>INSERT .. ON CONFLICT (user_id, friend_id) DO UPDATE .. RETURNING id\<close>.\<close>

definition upsert_request :: "friend_env \<Rightarrow> FsCreate \<Rightarrow> (friend_db, string) act" where
  "upsert_request env c db =
     (case find (same_pair (fc_user_id c) (fc_friend_id c)) (db_friendships db) of
        Some r \<Rightarrow> (Inr (fp_id r), db\<lparr>db_friendships := map (\<lambda>x.
          if same_pair (fc_user_id c) (fc_friend_id c) x then requested_again (fe_now env) c x else x)
          (db_friendships db)\<rparr>)
      | None \<Rightarrow>
          if fe_nanoid env \<in> fp_id ` set (db_friendships db) then (Inl unique_violation, db)
          else (Inr (fe_nanoid env), db\<lparr>db_friendships := db_friendships db @ [new_request env c]\<rparr>))"

definition users_of_pair :: "string \<Rightarrow> string \<Rightarrow> friend_db \<Rightarrow> User list" where
  "users_of_pair a b db = filter (\<lambda>u. us_id u = a \<or> us_id u = b) (db_users db)"

definition select_pair :: "friend_env \<Rightarrow> string \<Rightarrow> string \<Rightarrow> (friend_db, User list) act" where
  "select_pair env a b db = (fetch_all (decode_user (fe_schema env)) (users_of_pair a b db), db)"

text \<open>\<open>INSERT INTO friend_interactions .. ON CONFLICT DO NOTHING\<close>, one row after the other.\<close>

definition add_interaction :: "int \<Rightarrow> string \<Rightarrow> string \<Rightarrow> friend_db \<Rightarrow> friend_db" where
  "add_interaction now a b db =
     (if list_ex (\<lambda>r. it_user_id r = a \<and> it_friend_id r = b) (db_interactions db) then db
      else db\<lparr>db_interactions := db_interactions db
        @ [\<lparr>it_user_id = a, it_friend_id = b, it_last_interact_time = now\<rparr>]\<rparr>)"

definition removal_panic :: failure where
  "removal_panic = Panicked ''removal index (is 0) should be < len (is 0)''"

text \<open>\<open>users.remove(0)\<close> twice: fewer than two rows panic. The first of the pair is the user with the
  given id.\<close>

definition pair_up :: "string \<Rightarrow> User list \<Rightarrow> (User \<times> User) res" where
  "pair_up i us =
     (case us of
        [] \<Rightarrow> Inl removal_panic
      | [_] \<Rightarrow> Inl removal_panic
      | u1 # u2 # _ \<Rightarrow> Inr (if us_id u1 = i then (u1, u2) else (u2, u1)))"

definition fs_of_user :: "User \<Rightarrow> FriendshipWithUser" where
  "fs_of_user u = \<lparr>fw_fs_id = '''', fw_user_id = us_id u, fw_name = us_name u, fw_avatar = us_avatar u,
     fw_gender = us_gender u, fw_age = us_age u, fw_region = us_region u, fw_status = 0,
     fw_apply_msg = None, fw_source = '''', fw_create_time = 0, fw_account = us_account u,
     fw_remark = None, fw_email = None\<rparr>"

definition request_transaction :: "friend_env \<Rightarrow> FsCreate \<Rightarrow> (friend_db, string \<times> User list) act" where
  "request_transaction env c =
     transaction (and_then (remote (fe_stmt env 0) (ok ())) (\<lambda>_.
       and_then (fstmt env 1 create_fs_stmt (upsert_request env c)) (\<lambda>i.
       and_then (fstmt env 2 select_users_stmt (select_pair env (fc_user_id c) (fc_friend_id c))) (\<lambda>us.
       and_then (fstmt env 3 interactions_stmt (\<lambda>db. (Inr (),
         add_interaction (fe_now env) (fc_friend_id c) (fc_user_id c)
           (add_interaction (fe_now env) (fc_user_id c) (fc_friend_id c) db)))) (\<lambda>_.
       and_then (remote (fe_stmt env 4) (ok ())) (\<lambda>_. ok (i, us)))))))"

definition create_fs ::
  "friend_env \<Rightarrow> FsCreate \<Rightarrow> (friend_db, FriendshipWithUser \<times> FriendshipWithUser) act" where
  "create_fs env c =
     and_then (request_transaction env c) (\<lambda>(i, us).
     case pair_up (fc_user_id c) us of
       Inl e \<Rightarrow> fail e
     | Inr (user, friend) \<Rightarrow>
         ok ((fs_of_user friend)\<lparr>fw_fs_id := i, fw_status := status_i32 Pending, fw_source := fc_source c,
               fw_create_time := fe_now env, fw_remark := fc_req_remark c\<rparr>,
             \<lparr>fw_fs_id = i, fw_user_id = fc_user_id c, fw_name = us_name user, fw_avatar = us_avatar user,
              fw_gender = us_gender user, fw_age = us_age user, fw_region = us_region user,
              fw_status = status_i32 Pending, fw_apply_msg = fc_apply_msg c, fw_source = fc_source c,
              fw_create_time = fe_now env, fw_account = us_account user, fw_remark = None,
              fw_email = None\<rparr>))"

text \<open>\<open>FriendshipWithUser::from_row\<close> on the columns the query selects; status, account and e-mail are not
  among them.\<close>

definition fs_of_row :: "FriendshipRow \<Rightarrow> User \<Rightarrow> FriendshipWithUser" where
  "fs_of_row r u = \<lparr>fw_fs_id = fp_id r, fw_user_id = fp_user_id r, fw_name = us_name u,
     fw_avatar = us_avatar u, fw_gender = us_gender u, fw_age = us_age u, fw_region = us_region u,
     fw_status = 0, fw_apply_msg = fp_apply_msg r, fw_source = unwrap_or '''' (fp_source r),
     fw_create_time = fp_create_time r, fw_account = '''', fw_remark = None, fw_email = None\<rparr>"

definition newer_than :: "int \<Rightarrow> int option \<Rightarrow> bool" where
  "newer_than t v = (case v of Some x \<Rightarrow> t < x | None \<Rightarrow> False)"

definition get_fs_list :: "friend_env \<Rightarrow> string \<Rightarrow> int \<Rightarrow> (friend_db, FriendshipWithUser list) act" where
  "get_fs_list env u offline_time = fstmt env 0 fs_list_stmt (\<lambda>db.
     (Inr (concat (map (\<lambda>r. map (fs_of_row r) (filter (\<lambda>x. us_id x = fp_user_id r) (db_users db)))
        (filter (\<lambda>r. fp_friend_id r = u \<and> newer_than offline_time (fp_update_time r))
          (db_friendships db)))), db))"

text \<open>\<open>UPDATE friendships SET .. WHERE .. RETURNING *\<close> with \<open>fetch_one\<close>.\<close>

definition update_requests ::
  "friend_env \<Rightarrow> (FriendshipRow \<Rightarrow> bool) \<Rightarrow> (FriendshipRow \<Rightarrow> FriendshipRow) \<Rightarrow> (friend_db, FriendshipRow) act" where
  "update_requests env P f db =
     (fetch_one (decode_friendship (fe_schema env)) (map f (filter P (db_friendships db))),
      db\<lparr>db_friendships := map (\<lambda>r. if P r then f r else r) (db_friendships db)\<rparr>)"

definition update_fs :: "friend_env \<Rightarrow> FsUpdate \<Rightarrow> (friend_db, FriendshipRow) act" where
  "update_fs env v = fstmt env 0 update_fs_stmt (update_requests env (\<lambda>r. fp_id r = fu_id v)
     (\<lambda>r. r\<lparr>fp_status := Pending, fp_apply_msg := Some (fu_apply_msg v),
        fp_req_remark := Some (fu_req_remark v), fp_update_time := Some (fe_now env)\<rparr>))"

text \<open>No \<open>RETURNING\<close>: \<open>fetch_one\<close> finds no row even when rows were updated.\<close>

definition update_friend_status ::
  "friend_env \<Rightarrow> string \<Rightarrow> string \<Rightarrow> FriendshipStatus \<Rightarrow> (friend_db, FriendshipRow) act" where
  "update_friend_status env u f status = fstmt env 0 friend_status_stmt (\<lambda>db.
     (fetch_one (decode_friendship (fe_schema env)) [], db\<lparr>db_friendships := map (\<lambda>r.
        if same_pair u f r \<or> same_pair f u r then r\<lparr>fp_status := status\<rparr> else r) (db_friendships db)\<rparr>))"

section \<open>Friends\<close>

definition remark_stmt :: statement where
  "remark_stmt = query_on ''friends''
     [(''remark'', Bound SqlText), (''update_time'', Bound SqlInt8), (''user_id'', Bound SqlText),
      (''friend_id'', Bound SqlText)]"

definition friend_list_stmt :: statement where
  "friend_list_stmt = \<lparr>st_uses =
       on_table ''users'' (map (\<lambda>c. (c, Named)) [''id'', ''name'', ''account'', ''email'', ''avatar'', ''gender'',
         ''age'', ''region'', ''signature'', ''is_delete''])
     @ on_table ''friends'' (map (\<lambda>c. (c, Named)) [''fs_id'', ''status'', ''source'', ''create_time'', ''remark'',
         ''friend_id''] @ [(''user_id'', Bound SqlText), (''update_time'', Bound SqlInt8)]), st_inserts = None\<rparr>"

definition agree_stmt :: statement where
  "agree_stmt = query_on ''friendships''
     [(''status'', Named), (''update_time'', Bound SqlInt8), (''resp_msg'', Bound SqlText),
      (''resp_remark'', Bound SqlText), (''id'', Bound SqlText)]"

definition insert_friends_stmt :: statement where
  "insert_friends_stmt = insert_into ''friends''
     [(''fs_id'', Bound SqlText), (''user_id'', Bound SqlText), (''friend_id'', Bound SqlText),
      (''remark'', Bound SqlText), (''source'', Bound SqlText), (''create_time'', Bound SqlInt8),
      (''update_time'', Bound SqlInt8), (''status'', Named)]"

definition delete_friends_stmt :: statement where
  "delete_friends_stmt = query_on ''friends''
     [(''status'', Named), (''update_time'', Bound SqlInt8), (''fs_id'', Bound SqlText),
      (''user_id'', Bound SqlText)]"

definition delete_friendship_stmt :: statement where
  "delete_friendship_stmt = query_on ''friendships''
     [(''status'', Named), (''update_time'', Bound SqlInt8), (''id'', Bound SqlText)]"

definition is_friend_row :: "string \<Rightarrow> string \<Rightarrow> FriendRow \<Rightarrow> bool" where
  "is_friend_row u f r \<longleftrightarrow> fr_user_id r = u \<and> fr_friend_id r = f"

definition map_friends :: "(FriendRow \<Rightarrow> bool) \<Rightarrow> (FriendRow \<Rightarrow> FriendRow) \<Rightarrow> friend_db \<Rightarrow> friend_db" where
  "map_friends P f db = db\<lparr>db_friends := map (\<lambda>r. if P r then f r else r) (db_friends db)\<rparr>"

text \<open>\<open>UPDATE friends SET .. WHERE .. RETURNING *\<close> with \<open>fetch_one\<close>: outside a transaction the update
  stays when the returned row cannot be decoded.\<close>

definition update_friends ::
  "friend_env \<Rightarrow> (FriendRow \<Rightarrow> bool) \<Rightarrow> (FriendRow \<Rightarrow> FriendRow) \<Rightarrow> (friend_db, FriendRow) act" where
  "update_friends env P f db =
     (fetch_one (decode_friend_db (fe_schema env)) (map f (filter P (db_friends db))), map_friends P f db)"

definition update_friend_remark ::
  "friend_env \<Rightarrow> string \<Rightarrow> string \<Rightarrow> string \<Rightarrow> (friend_db, FriendRow) act" where
  "update_friend_remark env u f remark = fstmt env 0 remark_stmt (update_friends env (is_friend_row u f)
     (\<lambda>r. r\<lparr>fr_remark := Some remark, fr_update_time := fe_now env\<rparr>))"

definition friend_of_row :: "FriendRow \<Rightarrow> User \<Rightarrow> Friend" where
  "friend_of_row r u = \<lparr>fd_fs_id = fr_fs_id r, fd_friend_id = us_id u, fd_account = us_account u,
     fd_name = us_name u, fd_avatar = us_avatar u, fd_gender = us_gender u, fd_age = us_age u,
     fd_region = us_region u,
     fd_status = status_i32 (status_of_fs (unwrap_or FsPending (fs_status_read (fr_status r)))),
     fd_remark = fr_remark r, fd_email = us_email u, fd_source = unwrap_or '''' (fr_source r),
     fd_signature = us_signature u, fd_create_time = fr_create_time r, fd_update_time = fr_update_time r,
     fd_interaction_score = 0, fd_tags = [], fd_group_name = '''', fd_privacy_level = '''',
     fd_notifications_enabled = False, fd_last_interaction = 0\<rparr>"

definition get_friend_list :: "friend_env \<Rightarrow> string \<Rightarrow> int \<Rightarrow> (friend_db, Friend list) act" where
  "get_friend_list env u offline_time = fstmt env 0 friend_list_stmt (\<lambda>db.
     (Inr (concat (map (\<lambda>r. map (friend_of_row r)
          (filter (\<lambda>x. us_id x = fr_friend_id r \<and> \<not> us_is_delete x) (db_users db)))
        (filter (\<lambda>r. fr_user_id r = u \<and> offline_time < fr_update_time r) (db_friends db)))), db))"

definition new_friend_row ::
  "friend_env \<Rightarrow> nat \<Rightarrow> FriendshipRow \<Rightarrow> string \<Rightarrow> string \<Rightarrow> string option \<Rightarrow> FriendRow" where
  "new_friend_row env n r u f remark = \<lparr>fr_id = fe_serial env n, fr_fs_id = fp_id r, fr_user_id = u,
     fr_friend_id = f, fr_status = Accepted, fr_remark = remark, fr_source = fp_source r,
     fr_create_time = fe_now env, fr_update_time = fe_now env, fr_deleted_time = None,
     fr_is_starred = False, fr_group_id = None, fr_interaction_score = 0, fr_interaction_count = 0,
     fr_last_interaction = 0, fr_tags = None, fr_privacy_level = '''', fr_notifications_enabled = False\<rparr>"

text \<open>One row of the \<open>INSERT .. ON CONFLICT (user_id, friend_id) DO UPDATE\<close>: on a conflict remark, status
  and source are replaced; the friendship id and the update time are not.\<close>

definition upsert_friend :: "FriendRow \<Rightarrow> friend_db \<Rightarrow> friend_db" where
  "upsert_friend new db =
     (if list_ex (is_friend_row (fr_user_id new) (fr_friend_id new)) (db_friends db)
      then map_friends (is_friend_row (fr_user_id new) (fr_friend_id new))
        (\<lambda>r. r\<lparr>fr_remark := fr_remark new, fr_status := Accepted, fr_source := fr_source new\<rparr>) db
      else db\<lparr>db_friends := db_friends db @ [new]\<rparr>)"

definition insert_friends :: "friend_env \<Rightarrow> FriendshipRow \<Rightarrow> (friend_db, unit) act" where
  "insert_friends env r db =
     (if fp_user_id r = fp_friend_id r
      then (Inl (db_error ''ON CONFLICT DO UPDATE command cannot affect row a second time''), db)
      else (Inr (),
        upsert_friend (new_friend_row env 1 r (fp_friend_id r) (fp_user_id r) (fp_resp_remark r))
          (upsert_friend (new_friend_row env 0 r (fp_user_id r) (fp_friend_id r) (fp_req_remark r)) db)))"

definition accepted_friend ::
  "int \<Rightarrow> FriendshipRow \<Rightarrow> string \<Rightarrow> string option \<Rightarrow> User \<Rightarrow> Friend" where
  "accepted_friend now r i remark u = \<lparr>fd_fs_id = fp_id r, fd_friend_id = i, fd_account = us_account u,
     fd_name = us_name u, fd_avatar = us_avatar u, fd_gender = us_gender u, fd_age = us_age u,
     fd_region = us_region u, fd_status = status_i32 (fp_status r), fd_remark = remark,
     fd_email = us_email u, fd_source = unwrap_or '''' (fp_source r), fd_signature = us_signature u,
     fd_create_time = unwrap_or 0 (fp_update_time r), fd_update_time = now, fd_interaction_score = 0,
     fd_tags = [], fd_group_name = ''Default'', fd_privacy_level = ''public'',
     fd_notifications_enabled = True, fd_last_interaction = now\<rparr>"

definition agree_transaction :: "friend_env \<Rightarrow> AgreeReply \<Rightarrow> (friend_db, FriendshipRow \<times> User list) act" where
  "agree_transaction env a =
     transaction (and_then (remote (fe_stmt env 0) (ok ())) (\<lambda>_.
       and_then (fstmt env 1 agree_stmt (update_requests env (\<lambda>r. fp_id r = ar_fs_id a)
         (\<lambda>r. r\<lparr>fp_status := Accepted, fp_update_time := Some (fe_now env), fp_resp_msg := ar_resp_msg a,
            fp_resp_remark := ar_resp_remark a\<rparr>))) (\<lambda>r.
       and_then (fstmt env 2 insert_friends_stmt (insert_friends env r)) (\<lambda>_.
       and_then (fstmt env 3 select_users_stmt (select_pair env (fp_user_id r) (fp_friend_id r))) (\<lambda>us.
       and_then (remote (fe_stmt env 4) (ok ())) (\<lambda>_. ok (r, us)))))))"

definition agree_friend_apply_request :: "friend_env \<Rightarrow> AgreeReply \<Rightarrow> (friend_db, Friend \<times> Friend) act" where
  "agree_friend_apply_request env a =
     and_then (agree_transaction env a) (\<lambda>(r, us).
     case pair_up (fp_user_id r) us of
       Inl e \<Rightarrow> fail e
     | Inr (user, friend) \<Rightarrow>
         ok (accepted_friend (fe_now env) r (fp_user_id r) (fp_resp_remark r) user,
             accepted_friend (fe_now env) r (fp_friend_id r) (fp_req_remark r) friend))"

definition delete_friend :: "friend_env \<Rightarrow> string \<Rightarrow> string \<Rightarrow> (friend_db, unit) act" where
  "delete_friend env i u =
     transaction (and_then (remote (fe_stmt env 0) (ok ())) (\<lambda>_.
       and_then (fstmt env 1 delete_friends_stmt (\<lambda>db. (Inr (),
         if list_ex (\<lambda>r. fr_fs_id r = i \<and> fr_user_id r = u) (db_friends db)
         then map_friends (\<lambda>r. fr_fs_id r = i)
           (\<lambda>r. r\<lparr>fr_status := Deleted, fr_update_time := fe_now env\<rparr>) db
         else db))) (\<lambda>_.
       and_then (fstmt env 2 delete_friendship_stmt (\<lambda>db. (Inr (),
         db\<lparr>db_friendships := map (\<lambda>r. if fp_id r = i
           then r\<lparr>fp_status := Deleted, fp_update_time := Some (fe_now env)\<rparr> else r) (db_friendships db)\<rparr>)))
       (\<lambda>_. remote (fe_stmt env 3) (ok ())))))"

section \<open>Friend groups\<close>

definition create_group_stmt :: statement where
  "create_group_stmt = insert_into ''friend_groups''
     [(''id'', Bound SqlText), (''user_id'', Bound SqlText), (''name'', Bound SqlText),
      (''display_order'', Bound SqlInt4), (''create_time'', Bound SqlInt8), (''update_time'', Bound SqlInt8)]"

definition update_group_stmt :: statement where
  "update_group_stmt = query_on ''friend_groups''
     [(''name'', Bound SqlText), (''display_order'', Bound SqlInt4), (''update_time'', Bound SqlInt8),
      (''id'', Bound SqlText)]"

definition move_friends_stmt :: statement where
  "move_friends_stmt = \<lparr>st_uses =
       on_table ''friends'' [(''group_id'', Bound SqlText), (''update_time'', Bound SqlInt8)]
     @ on_table ''friend_groups'' [(''id'', Bound SqlText), (''name'', Named), (''user_id'', Named)],
     st_inserts = None\<rparr>"

definition delete_group_stmt :: statement where
  "delete_group_stmt = query_on ''friend_groups'' [(''id'', Bound SqlText)]"

definition friend_groups_stmt :: statement where
  "friend_groups_stmt = query_on ''friend_groups'' [(''user_id'', Bound SqlText), (''display_order'', Named)]"

definition assign_group_stmt :: statement where
  "assign_group_stmt = query_on ''friends''
     [(''group_id'', Bound SqlText), (''update_time'', Bound SqlInt8), (''user_id'', Bound SqlText),
      (''friend_id'', Bound SqlText)]"

definition create_friend_group :: "friend_env \<Rightarrow> string \<Rightarrow> string \<Rightarrow> int \<Rightarrow> (friend_db, FriendGroup) act" where
  "create_friend_group env u name order = fstmt env 0 create_group_stmt (\<lambda>db.
     (let row = \<lparr>fg_id = fe_nanoid env, fg_user_id = u, fg_name = name, fg_display_order = order,
                 fg_create_time = fe_now env, fg_update_time = fe_now env\<rparr> in
      if list_ex (\<lambda>g. fg_id g = fg_id row \<or> fg_user_id g = u \<and> fg_name g = name) (db_groups db)
      then (Inl unique_violation, db)
      else (Inr (read_friend_group (fe_schema env) row), db\<lparr>db_groups := db_groups db @ [row]\<rparr>)))"

definition update_friend_group :: "friend_env \<Rightarrow> string \<Rightarrow> string \<Rightarrow> int \<Rightarrow> (friend_db, FriendGroup) act" where
  "update_friend_group env i name order = fstmt env 0 update_group_stmt (\<lambda>db.
     (case find (\<lambda>g. fg_id g = i) (db_groups db) of
        None \<Rightarrow> (Inl row_not_found, db)
      | Some g \<Rightarrow>
          if list_ex (\<lambda>h. fg_id h \<noteq> i \<and> fg_user_id h = fg_user_id g \<and> fg_name h = name) (db_groups db)
          then (Inl unique_violation, db)
          else let new = g\<lparr>fg_name := name, fg_display_order := order, fg_update_time := fe_now env\<rparr> in
            (Inr (read_friend_group (fe_schema env) new),
             db\<lparr>db_groups := map (\<lambda>h. if fg_id h = i then new else h) (db_groups db)\<rparr>)))"

text \<open>The two nested subqueries of \<open>delete_friend_group\<close>: the owner of the group, and the id of the
  owner's group \<open>Default\<close>, if there is one.\<close>

definition default_group_of :: "string \<Rightarrow> friend_db \<Rightarrow> string option" where
  "default_group_of i db =
     (case find (\<lambda>g. fg_id g = i) (db_groups db) of
        None \<Rightarrow> None
      | Some g \<Rightarrow> map_option fg_id
          (find (\<lambda>h. fg_name h = ''Default'' \<and> fg_user_id h = fg_user_id g) (db_groups db)))"

definition delete_friend_group :: "friend_env \<Rightarrow> string \<Rightarrow> (friend_db, unit) act" where
  "delete_friend_group env i =
     and_then (fstmt env 0 move_friends_stmt (\<lambda>db. (Inr (), map_friends (\<lambda>r. fr_group_id r = Some i)
       (\<lambda>r. r\<lparr>fr_group_id := default_group_of i db, fr_update_time := fe_now env\<rparr>) db))) (\<lambda>_.
     fstmt env 1 delete_group_stmt (\<lambda>db.
       if list_ex (\<lambda>g. fg_id g = i) (db_groups db) \<and> list_ex (\<lambda>r. fr_group_id r = Some i) (db_friends db)
       then (Inl foreign_key_violation, db)
       else (Inr (), db\<lparr>db_groups := filter (\<lambda>g. fg_id g \<noteq> i) (db_groups db)\<rparr>)))"

definition get_friend_groups :: "friend_env \<Rightarrow> string \<Rightarrow> (friend_db, FriendGroup list) act" where
  "get_friend_groups env u = fstmt env 0 friend_groups_stmt (\<lambda>db.
     (Inr (map (read_friend_group (fe_schema env))
        (sort_key fg_display_order (filter (\<lambda>g. fg_user_id g = u) (db_groups db)))), db))"

definition assign_friend_to_group ::
  "friend_env \<Rightarrow> string \<Rightarrow> string \<Rightarrow> string \<Rightarrow> (friend_db, FriendRow) act" where
  "assign_friend_to_group env u f i = fstmt env 0 assign_group_stmt (\<lambda>db.
     if list_ex (is_friend_row u f) (db_friends db) \<and> \<not> list_ex (\<lambda>g. fg_id g = i) (db_groups db)
     then (Inl foreign_key_violation, db)
     else update_friends env (is_friend_row u f)
       (\<lambda>r. r\<lparr>fr_group_id := Some i, fr_update_time := fe_now env\<rparr>) db)"

section \<open>Tags\<close>

definition create_tag_stmt :: statement where
  "create_tag_stmt = insert_into ''friend_tags''
     [(''id'', Bound SqlText), (''user_id'', Bound SqlText), (''tag_name'', Bound SqlText),
      (''tag_color'', Bound SqlText), (''create_time'', Bound SqlInt8)]"

definition delete_relations_stmt :: statement where
  "delete_relations_stmt = query_on ''friend_tag_relations'' [(''tag_id'', Bound SqlText)]"

definition delete_tag_stmt :: statement where
  "delete_tag_stmt = query_on ''friend_tags'' [(''id'', Bound SqlText)]"

definition friend_tags_stmt :: statement where
  "friend_tags_stmt = query_on ''friend_tags'' [(''user_id'', Bound SqlText), (''tag_name'', Named)]"

definition insert_relation_stmt :: statement where
  "insert_relation_stmt = insert_into ''friend_tag_relations''
     [(''user_id'', Bound SqlText), (''friend_id'', Bound SqlText), (''tag_id'', Bound SqlText)]"

definition delete_relation_stmt :: statement where
  "delete_relation_stmt = query_on ''friend_tag_relations''
     [(''user_id'', Bound SqlText), (''friend_id'', Bound SqlText), (''tag_id'', Bound SqlText)]"

definition tags_array_stmt :: statement where
  "tags_array_stmt = \<lparr>st_uses =
       on_table ''friends'' [(''tags'', Bound SqlTextArray), (''update_time'', Bound SqlInt8),
         (''user_id'', Bound SqlText), (''friend_id'', Bound SqlText)]
     @ on_table ''friend_tags'' [(''tag_name'', Named), (''id'', Named)]
     @ on_table ''friend_tag_relations'' [(''tag_id'', Named), (''user_id'', Bound SqlText),
         (''friend_id'', Bound SqlText)], st_inserts = None\<rparr>"

definition create_friend_tag :: "friend_env \<Rightarrow> string \<Rightarrow> string \<Rightarrow> string \<Rightarrow> (friend_db, FriendTag) act" where
  "create_friend_tag env u name color = fstmt env 0 create_tag_stmt (\<lambda>db.
     (let row = \<lparr>ft_id = fe_nanoid env, ft_user_id = u, ft_tag_name = name, ft_tag_color = color,
                 ft_create_time = fe_now env\<rparr> in
      if list_ex (\<lambda>t. ft_id t = ft_id row \<or> ft_user_id t = u \<and> ft_tag_name t = name) (db_tags db)
      then (Inl unique_violation, db)
      else (Inr (read_friend_tag (fe_schema env) row), db\<lparr>db_tags := db_tags db @ [row]\<rparr>)))"

definition drop_relations :: "(TagRelation \<Rightarrow> bool) \<Rightarrow> friend_db \<Rightarrow> friend_db" where
  "drop_relations P db = db\<lparr>db_relations := filter (\<lambda>r. \<not> P r) (db_relations db)\<rparr>"

text \<open>The key of \<open>friend_tag_relations\<close> cascades, so deleting the tag drops what is left of it there.\<close>

definition delete_friend_tag :: "friend_env \<Rightarrow> string \<Rightarrow> (friend_db, unit) act" where
  "delete_friend_tag env i =
     and_then (fstmt env 0 delete_relations_stmt (\<lambda>db. (Inr (), drop_relations (\<lambda>r. tr_tag_id r = i) db))) (\<lambda>_.
     fstmt env 1 delete_tag_stmt (\<lambda>db. (Inr (),
       drop_relations (\<lambda>r. tr_tag_id r = i) (db\<lparr>db_tags := filter (\<lambda>t. ft_id t \<noteq> i) (db_tags db)\<rparr>))))"

definition get_friend_tags :: "friend_env \<Rightarrow> string \<Rightarrow> (friend_db, FriendTag list) act" where
  "get_friend_tags env u = fstmt env 0 friend_tags_stmt (\<lambda>db.
     (Inr (map (read_friend_tag (fe_schema env))
        (sort_key ft_tag_name (filter (\<lambda>t. ft_user_id t = u) (db_tags db)))), db))"

definition is_relation :: "string \<Rightarrow> string \<Rightarrow> string \<Rightarrow> TagRelation \<Rightarrow> bool" where
  "is_relation u f i r \<longleftrightarrow> tr_user_id r = u \<and> tr_friend_id r = f \<and> tr_tag_id r = i"

definition insert_relation :: "string \<Rightarrow> string \<Rightarrow> string \<Rightarrow> (friend_db, unit) act" where
  "insert_relation u f i db =
     (if list_ex (is_relation u f i) (db_relations db) then (Inr (), db)
      else if \<not> list_ex (\<lambda>t. ft_id t = i) (db_tags db) \<or> \<not> list_ex (is_friend_row u f) (db_friends db)
      then (Inl foreign_key_violation, db)
      else (Inr (), db\<lparr>db_relations := db_relations db
        @ [\<lparr>tr_user_id = u, tr_friend_id = f, tr_tag_id = i\<rparr>]\<rparr>))"

text \<open>\<open>SET tags = (SELECT array_agg(t.tag_name) ..)\<close>; the aggregate of no row is null.\<close>

definition tag_names :: "string \<Rightarrow> string \<Rightarrow> friend_db \<Rightarrow> string list option" where
  "tag_names u f db =
     (let names = concat (map (\<lambda>r. map ft_tag_name (filter (\<lambda>t. ft_id t = tr_tag_id r) (db_tags db)))
        (filter (\<lambda>r. tr_user_id r = u \<and> tr_friend_id r = f) (db_relations db)))
      in if names = [] then None else Some names)"

definition refresh_tags :: "friend_env \<Rightarrow> nat \<Rightarrow> string \<Rightarrow> string \<Rightarrow> (friend_db, unit) act" where
  "refresh_tags env n u f = fstmt env n tags_array_stmt (\<lambda>db. (Inr (), map_friends (is_friend_row u f)
     (\<lambda>r. r\<lparr>fr_tags := tag_names u f db, fr_update_time := fe_now env\<rparr>) db))"

fun for_tags :: "(nat \<Rightarrow> string \<Rightarrow> (friend_db, unit) act) \<Rightarrow> nat \<Rightarrow> string list \<Rightarrow> (friend_db, unit) act" where
  "for_tags body n [] = ok ()"
| "for_tags body n (i # is) = and_then (body n i) (\<lambda>_. for_tags body (Suc n) is)"

definition add_tags_to_friend ::
  "friend_env \<Rightarrow> string \<Rightarrow> string \<Rightarrow> string list \<Rightarrow> (friend_db, unit) act" where
  "add_tags_to_friend env u f ids =
     transaction (and_then (remote (fe_stmt env 0) (ok ())) (\<lambda>_.
       and_then (for_tags (\<lambda>n i. fstmt env n insert_relation_stmt (insert_relation u f i)) 3 ids) (\<lambda>_.
       and_then (refresh_tags env 1 u f) (\<lambda>_.
       remote (fe_stmt env 2) (ok ())))))"

definition remove_tags_from_friend ::
  "friend_env \<Rightarrow> string \<Rightarrow> string \<Rightarrow> string list \<Rightarrow> (friend_db, unit) act" where
  "remove_tags_from_friend env u f ids =
     transaction (and_then (remote (fe_stmt env 0) (ok ())) (\<lambda>_.
       and_then (for_tags (\<lambda>n i. fstmt env n delete_relation_stmt (\<lambda>db.
         (Inr (), drop_relations (is_relation u f i) db))) 3 ids) (\<lambda>_.
       and_then (refresh_tags env 1 u f) (\<lambda>_.
       remote (fe_stmt env 2) (ok ())))))"

section \<open>Privacy and interaction\<close>

definition upsert_privacy_stmt :: statement where
  "upsert_privacy_stmt = insert_into ''friend_privacy_settings''
     [(''user_id'', Bound SqlText), (''friend_id'', Bound SqlText), (''privacy_level'', Bound SqlText),
      (''share_timeline'', Bound SqlBool), (''share_location'', Bound SqlBool),
      (''share_status'', Bound SqlBool)]"

definition privacy_level_stmt :: statement where
  "privacy_level_stmt = query_on ''friends''
     [(''privacy_level'', Bound SqlText), (''update_time'', Bound SqlInt8), (''user_id'', Bound SqlText),
      (''friend_id'', Bound SqlText)]"

definition get_privacy_stmt :: statement where
  "get_privacy_stmt = query_on ''friend_privacy_settings''
     [(''user_id'', Bound SqlText), (''friend_id'', Bound SqlText)]"

definition score_stmt :: statement where
  "score_stmt = query_on ''friends''
     [(''interaction_score'', Bound SqlFloat4), (''interaction_count'', Named),
      (''last_interaction'', Bound SqlInt8), (''update_time'', Bound SqlInt8),
      (''user_id'', Bound SqlText), (''friend_id'', Bound SqlText)]"

definition stats_stmt :: statement where
  "stats_stmt = query_on ''friends''
     [(''interaction_score'', Named), (''interaction_count'', Named), (''last_interaction'', Named),
      (''user_id'', Bound SqlText), (''friend_id'', Bound SqlText)]"

definition same_privacy :: "string \<Rightarrow> string \<Rightarrow> FriendPrivacySettings \<Rightarrow> bool" where
  "same_privacy u f p \<longleftrightarrow> pv_user_id p = u \<and> pv_friend_id p = f"

definition upsert_privacy :: "string \<Rightarrow> string \<Rightarrow> FriendPrivacySettings \<Rightarrow> friend_db \<Rightarrow> friend_db" where
  "upsert_privacy u f p db =
     (let row = p\<lparr>pv_user_id := u, pv_friend_id := f\<rparr> in
      if list_ex (same_privacy u f) (db_privacy db)
      then db\<lparr>db_privacy := map (\<lambda>q. if same_privacy u f q then row else q) (db_privacy db)\<rparr>
      else db\<lparr>db_privacy := db_privacy db @ [row]\<rparr>)"

definition update_friend_privacy ::
  "friend_env \<Rightarrow> string \<Rightarrow> string \<Rightarrow> FriendPrivacySettings \<Rightarrow> (friend_db, unit) act" where
  "update_friend_privacy env u f p =
     and_then (fstmt env 0 upsert_privacy_stmt (\<lambda>db. (Inr (), upsert_privacy u f p db))) (\<lambda>_.
     fstmt env 1 privacy_level_stmt (\<lambda>db. (Inr (), map_friends (is_friend_row u f)
       (\<lambda>r. r\<lparr>fr_privacy_level := pv_privacy_level p, fr_update_time := fe_now env\<rparr>) db)))"

definition get_friend_privacy ::
  "friend_env \<Rightarrow> string \<Rightarrow> string \<Rightarrow> (friend_db, FriendPrivacySettings) act" where
  "get_friend_privacy env u f = fstmt env 0 get_privacy_stmt (\<lambda>db.
     (Inr (case find (same_privacy u f) (db_privacy db) of
        Some p \<Rightarrow> read_privacy (fe_schema env) p
      | None \<Rightarrow> \<lparr>pv_user_id = u, pv_friend_id = f, pv_privacy_level = ''public'',
          pv_share_timeline = True, pv_share_location = True, pv_share_status = True\<rparr>), db))"

definition update_interaction_score ::
  "friend_env \<Rightarrow> string \<Rightarrow> string \<Rightarrow> f32 \<Rightarrow> (friend_db, f32) act" where
  "update_interaction_score env u f v = fstmt env 0 score_stmt (\<lambda>db.
     (case find (is_friend_row u f) (db_friends db) of
        None \<Rightarrow> (Inl row_not_found, db)
      | Some r \<Rightarrow>
          if 2 ^ 31 \<le> fr_interaction_count r + 1 then (Inl (db_error ''integer out of range''), db)
          else let score = fe_average env (fr_interaction_score r) (fr_interaction_count r) v in
            (Inr score, map_friends (is_friend_row u f) (\<lambda>r. r\<lparr>fr_interaction_score := score,
               fr_interaction_count := fr_interaction_count r + 1, fr_last_interaction := fe_now env,
               fr_update_time := fe_now env\<rparr>) db)))"

definition get_interaction_stats ::
  "friend_env \<Rightarrow> string \<Rightarrow> string \<Rightarrow> (friend_db, f32 \<times> int \<times> int) act" where
  "get_interaction_stats env u f = fstmt env 0 stats_stmt (\<lambda>db.
     (case find (is_friend_row u f) (db_friends db) of
        None \<Rightarrow> (Inl row_not_found, db)
      | Some r \<Rightarrow> (Inr (fr_interaction_score r, fr_interaction_count r, fr_last_interaction r), db)))"

section \<open>Which statements fit the migrated tables\<close>

lemma friend_stmts_accepted [simp]:
  "stmt_accepted migrated create_fs_stmt"
  "stmt_accepted migrated select_users_stmt"
  "stmt_accepted migrated interactions_stmt"
  "stmt_accepted migrated fs_list_stmt"
  "stmt_accepted migrated remark_stmt"
  "stmt_accepted migrated friend_list_stmt"
  "stmt_accepted migrated agree_stmt"
  "stmt_accepted migrated insert_friends_stmt"
  "stmt_accepted migrated delete_friends_stmt"
  "stmt_accepted migrated delete_friendship_stmt"
  "stmt_accepted migrated get_privacy_stmt"
  by code_simp+

lemma friend_stmts_refused [simp]:
  "\<not> stmt_accepted migrated update_fs_stmt"
  "\<not> stmt_accepted migrated friend_status_stmt"
  "\<not> stmt_accepted migrated create_group_stmt"
  "\<not> stmt_accepted migrated update_group_stmt"
  "\<not> stmt_accepted migrated move_friends_stmt"
  "\<not> stmt_accepted migrated delete_group_stmt"
  "\<not> stmt_accepted migrated friend_groups_stmt"
  "\<not> stmt_accepted migrated assign_group_stmt"
  "\<not> stmt_accepted migrated create_tag_stmt"
  "\<not> stmt_accepted migrated delete_relations_stmt"
  "\<not> stmt_accepted migrated delete_tag_stmt"
  "\<not> stmt_accepted migrated friend_tags_stmt"
  "\<not> stmt_accepted migrated insert_relation_stmt"
  "\<not> stmt_accepted migrated delete_relation_stmt"
  "\<not> stmt_accepted migrated tags_array_stmt"
  "\<not> stmt_accepted migrated upsert_privacy_stmt"
  "\<not> stmt_accepted migrated privacy_level_stmt"
  "\<not> stmt_accepted migrated score_stmt"
  "\<not> stmt_accepted migrated stats_stmt"
  by code_simp+

lemma friendship_readable [simp]: "row_readable migrated ''friendships'' friendship_columns"
  by code_simp

lemma friend_db_unreadable [simp]: "\<not> row_readable migrated ''friends'' friend_db_columns"
  by code_simp

lemma remote_fail [simp]: "remote outage (fail e) = fail (case outage of Some d \<Rightarrow> d | None \<Rightarrow> e)"
  by (cases outage) (simp_all add: fun_eq_iff)

definition always_fails :: "('s, 'a) act \<Rightarrow> bool" where
  "always_fails m \<longleftrightarrow> (\<forall>s. \<exists>e. m s = (Inl e, s))"

lemma always_fails_fail [simp]: "always_fails (fail e)"
  by (simp add: always_fails_def)

lemma always_fails_and_then [intro]: "always_fails m \<Longrightarrow> always_fails (and_then m f)"
  unfolding always_fails_def by (metis and_then_Inl)

lemma tag_changes_fail:
  assumes "fe_schema env = migrated" and "\<not> stmt_accepted migrated st"
  shows "always_fails (transaction (and_then (remote (fe_stmt env 0) (ok ())) (\<lambda>_.
     and_then (for_tags (\<lambda>n i. fstmt env n st (m i)) 3 ids) (\<lambda>_.
     and_then (refresh_tags env 1 u f) (\<lambda>_. remote (fe_stmt env 2) (ok ()))))))"
  unfolding always_fails_def transaction_def refresh_tags_def
  using assms by (cases "fe_stmt env 0"; cases ids) (auto simp: and_then_def split: prod.split sum.split)

text \<open>
  C25. Against the migrated tables none of the operations on request updates, friendship status,
  friend groups, tags, privacy settings and interaction scores can succeed: the server refuses
  their statements (a column that does not exist, a text bound to a number or an enum) and nothing
  changes. The update of a remark is accepted and carried out, but its answer cannot be read, so
  the caller gets an error either way. All other statements of the repository are accepted.
\<close>

theorem unfit_operations_always_fail:
  assumes "fe_schema env = migrated"
  shows "always_fails (update_fs env v) \<and> always_fails (update_friend_status env u f status)
    \<and> always_fails (create_friend_group env u name order) \<and> always_fails (update_friend_group env i name order)
    \<and> always_fails (delete_friend_group env i) \<and> always_fails (get_friend_groups env u)
    \<and> always_fails (assign_friend_to_group env u f i)
    \<and> always_fails (create_friend_tag env u name color) \<and> always_fails (delete_friend_tag env i)
    \<and> always_fails (get_friend_tags env u) \<and> always_fails (add_tags_to_friend env u f ids)
    \<and> always_fails (remove_tags_from_friend env u f ids)
    \<and> always_fails (update_friend_privacy env u f p)
    \<and> always_fails (update_interaction_score env u f x) \<and> always_fails (get_interaction_stats env u f)
    \<and> (\<forall>db. \<exists>e. fst (update_friend_remark env u f remark db) = Inl e
        \<and> (fe_stmt env 0 = None \<longrightarrow> snd (update_friend_remark env u f remark db) =
            map_friends (is_friend_row u f) (\<lambda>r. r\<lparr>fr_remark := Some remark, fr_update_time := fe_now env\<rparr>) db))"
proof (intro conjI allI)
  show "always_fails (add_tags_to_friend env u f ids)"
    unfolding add_tags_to_friend_def using assms by (rule tag_changes_fail) simp
  show "always_fails (remove_tags_from_friend env u f ids)"
    unfolding remove_tags_from_friend_def using assms by (rule tag_changes_fail) simp
  show "\<exists>e. fst (update_friend_remark env u f remark db) = Inl e
        \<and> (fe_stmt env 0 = None \<longrightarrow> snd (update_friend_remark env u f remark db) =
            map_friends (is_friend_row u f) (\<lambda>r. r\<lparr>fr_remark := Some remark, fr_update_time := fe_now env\<rparr>) db)" for db
    using assms by (cases "fe_stmt env 0")
      (auto simp: update_friend_remark_def update_friends_def fetch_one_def decode_friend_db_def split: list.split)
qed (use assms in \<open>simp_all add: update_fs_def update_friend_status_def create_friend_group_def
     update_friend_group_def delete_friend_group_def get_friend_groups_def assign_friend_to_group_def
     create_friend_tag_def delete_friend_tag_def get_friend_tags_def update_friend_privacy_def
     update_interaction_score_def get_interaction_stats_def\<close>)

definition demo_friend_env :: friend_env where
  "demo_friend_env = \<lparr>fe_stmt = (\<lambda>_. None), fe_schema = migrated, fe_now = 50, fe_nanoid = ''fs1'',
     fe_serial = int, fe_average = (\<lambda>s n v. v)\<rparr>"

lemma demo_friend_env_schema [simp]: "fe_schema demo_friend_env = migrated"
  by (simp add: demo_friend_env_def)

theorem unfit_operations_always_fail_witness:
  "always_fails (create_friend_group demo_friend_env ''a'' ''family'' 0)
     \<and> always_fails (add_tags_to_friend demo_friend_env ''a'' ''b'' [''t''])"
  by (simp add: unfit_operations_always_fail)

end
