(* ===== verification/Friend_Graph.thy ===== *)
theory Friend_Graph
  imports Friend_Repo
begin

text \<open>
  What the friend tables mean. The abstract state is a book of requests (who asked whom, by
  friendship id) and a graph of friendships whose edges carry the friendship id they were made
  under and a status. Every write of the repository, with any outcome of any statement, is one of
  the four moves of that book or leaves it as it is; the graph stays symmetric.
\<close>

section \<open>The specification\<close>

record friend_book =
  asked :: "string \<Rightarrow> (string \<times> string) option"
  edge :: "string \<Rightarrow> string \<Rightarrow> (string \<times> FriendshipStatus) option"

definition book_ask :: "string \<Rightarrow> string \<Rightarrow> string \<Rightarrow> friend_book \<Rightarrow> friend_book" where
  "book_ask i u f b = b\<lparr>asked := (asked b)(i \<mapsto> (u, f))\<rparr>"

text \<open>Accepting: an edge that exists keeps the id it was made under.\<close>

definition accept_edge :: "string \<Rightarrow> (string \<times> FriendshipStatus) option \<Rightarrow> (string \<times> FriendshipStatus) option" where
  "accept_edge i e = Some (case e of Some (j, _) \<Rightarrow> (j, Accepted) | None \<Rightarrow> (i, Accepted))"

definition book_accept :: "string \<Rightarrow> string \<Rightarrow> string \<Rightarrow> friend_book \<Rightarrow> friend_book" where
  "book_accept i u f b = b\<lparr>edge := (\<lambda>x y. if (x, y) = (u, f) \<or> (x, y) = (f, u)
     then accept_edge i (edge b x y) else edge b x y)\<rparr>"

definition drop_edge :: "string \<Rightarrow> (string \<times> FriendshipStatus) option \<Rightarrow> (string \<times> FriendshipStatus) option" where
  "drop_edge i e = (case e of Some (j, s) \<Rightarrow> Some (j, if j = i then Deleted else s) | None \<Rightarrow> None)"

definition book_delete :: "string \<Rightarrow> friend_book \<Rightarrow> friend_book" where
  "book_delete i b = b\<lparr>edge := (\<lambda>x y. drop_edge i (edge b x y))\<rparr>"

text \<open>The calls that can move the book, and the moves they may make. A call may always leave the
  book as it is (a failed statement, a repeated request, an unknown id).\<close>

datatype friend_call = CreateFs FsCreate | Agree AgreeReply | DeleteFriend string string | OtherCall

inductive book_step :: "friend_call \<Rightarrow> friend_book \<Rightarrow> friend_book \<Rightarrow> bool" where
  ask: "asked b i = None \<Longrightarrow> \<forall>j. asked b j \<noteq> Some (fc_user_id c, fc_friend_id c) \<Longrightarrow>
    book_step (CreateFs c) b (book_ask i (fc_user_id c) (fc_friend_id c) b)"
| accept: "asked b (ar_fs_id a) = Some (u, f) \<Longrightarrow> u \<noteq> f \<Longrightarrow>
    book_step (Agree a) b (book_accept (ar_fs_id a) u f b)"
| delete: "edge b u f = Some (i, s) \<Longrightarrow> book_step (DeleteFriend i u) b (book_delete i b)"
| stay: "book_step l b b"

definition book_symmetric :: "friend_book \<Rightarrow> bool" where
  "book_symmetric b \<longleftrightarrow> (\<forall>u f. edge b u f = edge b f u) \<and> (\<forall>u. edge b u u = None)"

lemma book_step_symmetric: "book_step l b b' \<Longrightarrow> book_symmetric b \<Longrightarrow> book_symmetric b'"
  by (induction rule: book_step.induct)
     (auto simp: book_symmetric_def book_ask_def book_accept_def book_delete_def drop_edge_def)

section \<open>The abstraction\<close>

definition edge_of :: "FriendRow list \<Rightarrow> string \<Rightarrow> string \<Rightarrow> (string \<times> FriendshipStatus) option" where
  "edge_of rows u f = map_option (\<lambda>r. (fr_fs_id r, fr_status r)) (find (is_friend_row u f) rows)"

definition asked_of :: "FriendshipRow list \<Rightarrow> string \<Rightarrow> (string \<times> string) option" where
  "asked_of rows i = map_option (\<lambda>r. (fp_user_id r, fp_friend_id r)) (find (\<lambda>r. fp_id r = i) rows)"

definition book_of :: "friend_db \<Rightarrow> friend_book" where
  "book_of db = \<lparr>asked = asked_of (db_friendships db), edge = edge_of (db_friends db)\<rparr>"

definition keeps_key :: "(FriendRow \<Rightarrow> FriendRow) \<Rightarrow> bool" where
  "keeps_key g \<longleftrightarrow> (\<forall>r. fr_user_id (g r) = fr_user_id r \<and> fr_friend_id (g r) = fr_friend_id r)"

definition keeps_request :: "(FriendshipRow \<Rightarrow> FriendshipRow) \<Rightarrow> bool" where
  "keeps_request g \<longleftrightarrow> (\<forall>r. fp_id (g r) = fp_id r \<and> fp_user_id (g r) = fp_user_id r
     \<and> fp_friend_id (g r) = fp_friend_id r)"

lemma find_map_if:
  assumes "\<And>x. P (g x) = P x"
  shows "find P (map (\<lambda>x. if Q x then g x else x) xs) = map_option (\<lambda>x. if Q x then g x else x) (find P xs)"
  by (induction xs) (auto simp: assms)

lemma asked_of_map [simp]:
  "keeps_request g \<Longrightarrow> asked_of (map (\<lambda>r. if Q r then g r else r) rows) = asked_of rows"
  unfolding asked_of_def keeps_request_def
  by (rule ext) (subst find_map_if; auto simp: option.map_comp comp_def intro!: option.map_cong)

lemma edge_of_map:
  "keeps_key g \<Longrightarrow> edge_of (map (\<lambda>r. if Q r then g r else r) rows) u f =
     map_option (\<lambda>r. if Q r then (fr_fs_id (g r), fr_status (g r)) else (fr_fs_id r, fr_status r))
       (find (is_friend_row u f) rows)"
  unfolding edge_of_def keeps_key_def
  by (subst find_map_if) (auto simp: is_friend_row_def option.map_comp comp_def intro!: option.map_cong)

lemma edge_of_map_same:
  assumes "keeps_key g" and "\<And>r. fr_fs_id (g r) = fr_fs_id r" and "\<And>r. fr_status (g r) = fr_status r"
  shows "edge_of (map (\<lambda>r. if Q r then g r else r) rows) = edge_of rows"
  by (intro ext) (simp add: edge_of_map assms, simp add: edge_of_def assms cong: if_cong)

lemma book_of_map_friends:
  assumes "keeps_key g" and "\<And>r. fr_fs_id (g r) = fr_fs_id r" and "\<And>r. fr_status (g r) = fr_status r"
  shows "book_of (map_friends Q g db) = book_of db"
  using edge_of_map_same [OF assms] by (simp add: book_of_def map_friends_def)

section \<open>Each operation is a move\<close>

lemma find_append: "find P (xs @ ys) = (case find P xs of None \<Rightarrow> find P ys | Some x \<Rightarrow> Some x)"
  by (induction xs) auto

lemma find_none_ex: "(find P xs = None) = (\<not> list_ex P xs)"
  by (auto simp: find_None_iff list_ex_iff)

lemma edge_of_upsert:
  assumes "fr_status new = Accepted"
  shows "edge_of (db_friends (upsert_friend new db)) x y =
    (if (x, y) = (fr_user_id new, fr_friend_id new)
     then accept_edge (fr_fs_id new) (edge_of (db_friends db) x y) else edge_of (db_friends db) x y)"
proof (cases "list_ex (is_friend_row (fr_user_id new) (fr_friend_id new)) (db_friends db)")
  case True
  let ?g = "\<lambda>r. r\<lparr>fr_remark := fr_remark new, fr_status := Accepted, fr_source := fr_source new\<rparr>"
  let ?Q = "is_friend_row (fr_user_id new) (fr_friend_id new)"
  have key: "keeps_key ?g" by (simp add: keeps_key_def)
  have eq: "edge_of (db_friends (upsert_friend new db)) x y =
      map_option (\<lambda>r. if ?Q r then (fr_fs_id r, Accepted) else (fr_fs_id r, fr_status r))
        (find (is_friend_row x y) (db_friends db))"
    using True edge_of_map [OF key, of ?Q "db_friends db" x y]
    by (simp add: upsert_friend_def map_friends_def cong: if_cong)
  show ?thesis
  proof (cases "find (is_friend_row x y) (db_friends db)")
    case None
    with True have "(x, y) \<noteq> (fr_user_id new, fr_friend_id new)" by (auto simp: find_none_ex)
    with None show ?thesis
      unfolding eq by (auto simp: edge_of_def)
  next
    case (Some r)
    then have "fr_user_id r = x" "fr_friend_id r = y" by (auto simp: is_friend_row_def dest: find_SomeD)
    with Some show ?thesis
      unfolding eq by (auto simp: accept_edge_def is_friend_row_def edge_of_def)
  qed
next
  case False
  then have "find (is_friend_row (fr_user_id new) (fr_friend_id new)) (db_friends db) = None"
    by (simp add: find_none_ex)
  with False assms show ?thesis
    by (auto simp: upsert_friend_def edge_of_def find_append accept_edge_def is_friend_row_def [of x y new]
        split: option.split)
qed

lemma upsert_friend_requests [simp]: "db_friendships (upsert_friend new db) = db_friendships db"
  by (simp add: upsert_friend_def map_friends_def)

lemma insert_friends_book:
  assumes "insert_friends env r db = (Inr v, db')"
  shows "fp_user_id r \<noteq> fp_friend_id r
    \<and> book_of db' = book_accept (fp_id r) (fp_user_id r) (fp_friend_id r) (book_of db)"
  using assms
  by (auto simp: insert_friends_def book_of_def book_accept_def edge_of_upsert new_friend_row_def
      fun_eq_iff split: if_splits)

lemma filter_hd_find: "filter P xs = x # ys \<Longrightarrow> find P xs = Some x"
  by (induction xs) (auto split: if_splits)

lemma update_requests_Inr:
  assumes "update_requests env P g db = (Inr r, db')" and "keeps_request g"
  shows "book_of db' = book_of db \<and> (\<exists>q \<in> set (db_friendships db). P q \<and> r = g q \<and> find P (db_friendships db) = Some q)"
proof -
  from assms(1) obtain rs where "map g (filter P (db_friendships db)) = r # rs"
    and "db' = db\<lparr>db_friendships := map (\<lambda>r. if P r then g r else r) (db_friendships db)\<rparr>"
    by (auto simp: update_requests_def fetch_one_def split: list.splits option.splits)
  moreover from this(1) obtain q qs where "filter P (db_friendships db) = q # qs" "r = g q" by auto
  moreover from this(1) have "find P (db_friendships db) = Some q"
    by (rule filter_hd_find)
  ultimately show ?thesis
    using assms(2) by (auto simp: book_of_def dest: find_SomeD)
qed

lemma asked_of_find: "find (\<lambda>r. fp_id r = i) rows = Some q \<Longrightarrow> asked_of rows i = Some (fp_user_id q, fp_friend_id q)"
  by (simp add: asked_of_def)

lemma agree_transaction_Inr:
  assumes "agree_transaction env a db = (Inr v, t)"
  obtains q where "find (\<lambda>r. fp_id r = ar_fs_id a) (db_friendships db) = Some q"
    and "fp_user_id q \<noteq> fp_friend_id q"
    and "book_of t = book_accept (ar_fs_id a) (fp_user_id q) (fp_friend_id q) (book_of db)"
proof -
  from assms obtain r db1 w where
    u: "update_requests env (\<lambda>r. fp_id r = ar_fs_id a)
     (\<lambda>r. r\<lparr>fp_status := Accepted, fp_update_time := Some (fe_now env), fp_resp_msg := ar_resp_msg a,
        fp_resp_remark := ar_resp_remark a\<rparr>) db = (Inr r, db1)"
    and ins: "insert_friends env r db1 = (Inr w, t)"
    unfolding agree_transaction_def transaction_def
    by (auto split: prod.splits sum.splits elim!: and_then_eq_InrE remote_InrE checked_InrE
        simp: select_pair_def)
  from update_requests_Inr [OF u] obtain q where book: "book_of db1 = book_of db"
    and q: "find (\<lambda>r. fp_id r = ar_fs_id a) (db_friendships db) = Some q" "fp_id q = ar_fs_id a"
    and r: "fp_id r = fp_id q" "fp_user_id r = fp_user_id q" "fp_friend_id r = fp_friend_id q"
    by (auto simp: keeps_request_def)
  with insert_friends_book [OF ins] show ?thesis by (auto intro: that)
qed

lemma transaction_Inl: "transaction m s = (Inl e, t) \<Longrightarrow> t = s"
  by (auto simp: transaction_def split: prod.splits sum.splits)

lemma agree_state: "snd (agree_friend_apply_request env a db) = snd (agree_transaction env a db)"
  by (auto simp: agree_friend_apply_request_def and_then_def split: prod.split sum.split)

lemma agree_moves:
  "book_step (Agree a) (book_of db) (book_of (snd (agree_friend_apply_request env a db)))"
proof (cases "agree_transaction env a db")
  case (Pair res t)
  show ?thesis
  proof (cases res)
    case (Inl e)
    with Pair have "agree_transaction env a db = (Inl e, t)" by simp
    then have "t = db" unfolding agree_transaction_def by (rule transaction_Inl)
    with Pair show ?thesis by (simp add: agree_state book_step.stay)
  next
    case (Inr v)
    with Pair have "agree_transaction env a db = (Inr v, t)" by simp
    then obtain q where q: "find (\<lambda>r. fp_id r = ar_fs_id a) (db_friendships db) = Some q"
      "fp_user_id q \<noteq> fp_friend_id q"
      "book_of t = book_accept (ar_fs_id a) (fp_user_id q) (fp_friend_id q) (book_of db)"
      by (rule agree_transaction_Inr)
    then have "book_step (Agree a) (book_of db) (book_of t)"
      using book_step.accept [of "book_of db" a "fp_user_id q" "fp_friend_id q"]
      by (simp add: book_of_def asked_of_find)
    with Pair show ?thesis by (simp add: agree_state)
  qed
qed

definition friend_key :: "FriendRow \<Rightarrow> string \<times> string" where
  "friend_key r = (fr_user_id r, fr_friend_id r)"

definition friend_keys :: "friend_db \<Rightarrow> bool" where
  "friend_keys db \<longleftrightarrow> distinct (map friend_key (db_friends db))"

lemma find_friend_row:
  assumes "friend_keys db" and "r \<in> set (db_friends db)"
  shows "find (is_friend_row (fr_user_id r) (fr_friend_id r)) (db_friends db) = Some r"
proof -
  have "\<exists>q. find (is_friend_row (fr_user_id r) (fr_friend_id r)) (db_friends db) = Some q"
    using assms(2) by (cases "find (is_friend_row (fr_user_id r) (fr_friend_id r)) (db_friends db)")
      (auto simp: find_None_iff is_friend_row_def)
  then obtain q where q: "find (is_friend_row (fr_user_id r) (fr_friend_id r)) (db_friends db) = Some q" ..
  then have "q \<in> set (db_friends db)" "friend_key q = friend_key r"
    by (auto simp: is_friend_row_def friend_key_def dest: find_SomeD)
  with assms have "q = r" by (auto simp: friend_keys_def distinct_map inj_on_def)
  with q show ?thesis by simp
qed

definition delete_rows :: "int \<Rightarrow> string \<Rightarrow> string \<Rightarrow> friend_db \<Rightarrow> friend_db" where
  "delete_rows now i u db =
     (let db1 = (if list_ex (\<lambda>r. fr_fs_id r = i \<and> fr_user_id r = u) (db_friends db)
        then map_friends (\<lambda>r. fr_fs_id r = i) (\<lambda>r. r\<lparr>fr_status := Deleted, fr_update_time := now\<rparr>) db else db)
      in db1\<lparr>db_friendships := map (\<lambda>r. if fp_id r = i
           then r\<lparr>fp_status := Deleted, fp_update_time := Some now\<rparr> else r) (db_friendships db1)\<rparr>)"

lemma delete_friend_state: "snd (delete_friend env i u db) \<in> {db, delete_rows (fe_now env) i u db}"
  by (cases "fe_stmt env 0"; cases "fe_stmt env 1"; cases "fe_stmt env 2"; cases "fe_stmt env 3")
     (auto simp: delete_friend_def transaction_def and_then_def checked_def delete_rows_def Let_def)

lemma edge_of_deleted:
  "edge_of (map (\<lambda>r. if fr_fs_id r = i then r\<lparr>fr_status := Deleted, fr_update_time := now\<rparr> else r) rows) x y =
     drop_edge i (edge_of rows x y)"
proof -
  let ?g = "\<lambda>r. r\<lparr>fr_status := Deleted, fr_update_time := now\<rparr>"
  have g: "keeps_key ?g" by (simp add: keeps_key_def)
  from edge_of_map [OF g, of "\<lambda>r. fr_fs_id r = i" rows x y]
  have "edge_of (map (\<lambda>r. if fr_fs_id r = i then ?g r else r) rows) x y =
      map_option (\<lambda>r. if fr_fs_id r = i then (fr_fs_id r, Deleted) else (fr_fs_id r, fr_status r))
        (find (is_friend_row x y) rows)"
    by (simp cong: if_cong)
  then show ?thesis
    unfolding edge_of_def [of rows] by (cases "find (is_friend_row x y) rows") (auto simp: drop_edge_def)
qed

lemma book_of_delete_rows:
  "book_of (delete_rows now i u db) =
     (if list_ex (\<lambda>r. fr_fs_id r = i \<and> fr_user_id r = u) (db_friends db)
      then book_delete i (book_of db) else book_of db)"
proof -
  have "keeps_request (\<lambda>r. r\<lparr>fp_status := Deleted, fp_update_time := Some now\<rparr>)"
    by (simp add: keeps_request_def)
  note asked_of_map [OF this, simp]
  show ?thesis
    by (auto simp: delete_rows_def Let_def book_of_def book_delete_def map_friends_def edge_of_deleted fun_eq_iff)
qed

lemma delete_moves:
  assumes "friend_keys db"
  shows "book_step (DeleteFriend i u) (book_of db) (book_of (snd (delete_friend env i u db)))"
proof (cases "list_ex (\<lambda>r. fr_fs_id r = i \<and> fr_user_id r = u) (db_friends db)")
  case False
  with delete_friend_state [of env i u db] show ?thesis
    by (auto simp: book_of_delete_rows book_step.stay)
next
  case True
  then obtain r where r: "r \<in> set (db_friends db)" "fr_fs_id r = i" "fr_user_id r = u"
    by (auto simp: list_ex_iff)
  with find_friend_row [OF assms r(1)] have "edge (book_of db) u (fr_friend_id r) = Some (i, fr_status r)"
    by (simp add: book_of_def edge_of_def)
  with True delete_friend_state [of env i u db] show ?thesis
    by (auto simp: book_of_delete_rows intro: book_step.stay book_step.delete)
qed

lemma add_interaction_book [simp]: "book_of (add_interaction now a b db) = book_of db"
  by (simp add: add_interaction_def book_of_def)

lemma upsert_request_book:
  assumes "upsert_request env c db = (Inr i, t)"
  shows "book_step (CreateFs c) (book_of db) (book_of t)"
proof (cases "find (same_pair (fc_user_id c) (fc_friend_id c)) (db_friendships db)")
  case (Some r)
  have "keeps_request (requested_again (fe_now env) c)"
    by (simp add: keeps_request_def requested_again_def)
  with Some assms show ?thesis
    by (auto simp: upsert_request_def book_of_def book_step.stay)
next
  case None
  then have fresh: "\<forall>j. asked (book_of db) j \<noteq> Some (fc_user_id c, fc_friend_id c)"
    by (auto simp: book_of_def asked_of_def find_None_iff same_pair_def dest!: find_SomeD)
  from None assms have id: "fe_nanoid env \<notin> fp_id ` set (db_friendships db)"
    and t: "t = db\<lparr>db_friendships := db_friendships db @ [new_request env c]\<rparr>"
    by (auto simp: upsert_request_def split: if_splits)
  from id have none: "asked (book_of db) (fe_nanoid env) = None"
    by (force simp: book_of_def asked_of_def find_None_iff)
  have "book_of t = book_ask (fe_nanoid env) (fc_user_id c) (fc_friend_id c) (book_of db)"
    using none by (auto simp: t book_of_def book_ask_def asked_of_def find_append new_request_def fun_eq_iff
        split: option.split)
  with book_step.ask [of "book_of db" "fe_nanoid env" c, OF none fresh] show ?thesis by simp
qed

lemma create_fs_state: "snd (create_fs env c db) = snd (request_transaction env c db)"
  by (auto simp: create_fs_def and_then_def split: prod.split sum.split)

lemma create_moves: "book_step (CreateFs c) (book_of db) (book_of (snd (create_fs env c db)))"
proof (cases "request_transaction env c db")
  case (Pair res t)
  show ?thesis
  proof (cases res)
    case (Inl e)
    with Pair have "request_transaction env c db = (Inl e, t)" by simp
    then have "t = db" unfolding request_transaction_def by (rule transaction_Inl)
    with Pair show ?thesis by (simp add: create_fs_state book_step.stay)
  next
    case (Inr v)
    with Pair obtain i db1 where "upsert_request env c db = (Inr i, db1)" and "book_of t = book_of db1"
      unfolding request_transaction_def transaction_def
      by (auto split: prod.splits sum.splits elim!: and_then_eq_InrE remote_InrE checked_InrE
          simp: select_pair_def)
    with upsert_request_book Pair show ?thesis by (simp add: create_fs_state)
  qed
qed

section \<open>All writes\<close>

text \<open>The operations that touch neither requests nor the endpoints, ids and states of edges.\<close>

definition keeps_book :: "(friend_db, 'a) act \<Rightarrow> bool" where
  "keeps_book m \<longleftrightarrow> (\<forall>db. book_of (snd (m db)) = book_of db
     \<and> map friend_key (db_friends (snd (m db))) = map friend_key (db_friends db))"

lemma keeps_book_intros [intro]:
  "keeps_book (fail e)"
  "keeps_book (ok a)"
  "keeps_book m \<Longrightarrow> keeps_book (remote outage m)"
  "keeps_book m \<Longrightarrow> keeps_book (checked sch st m)"
  "keeps_book m \<Longrightarrow> keeps_book (transaction m)"
  by (auto simp: keeps_book_def checked_def transaction_def remote_def split: option.split prod.split sum.split)
     (metis snd_conv)+

lemma keeps_book_and_then [intro]:
  "keeps_book m \<Longrightarrow> (\<And>a. keeps_book (f a)) \<Longrightarrow> keeps_book (and_then m f)"
  unfolding keeps_book_def and_then_def
  by (auto split: prod.split sum.split) (metis snd_conv)+

lemma keeps_book_map_friends [intro]:
  assumes "\<And>db. keeps_key (g db)" and "\<And>db r. fr_fs_id (g db r) = fr_fs_id r"
    and "\<And>db r. fr_status (g db r) = fr_status r"
  shows "keeps_book (\<lambda>db. (v db, map_friends Q (g db) db))"
  using assms book_of_map_friends
  by (auto simp: keeps_book_def map_friends_def friend_key_def keeps_key_def)

lemma keeps_book_same:
  "(\<And>db. db_friends (g db) = db_friends db \<and> db_friendships (g db) = db_friendships db) \<Longrightarrow>
   keeps_book (\<lambda>db. (v db, g db))"
  by (simp add: keeps_book_def book_of_def)

lemma keeps_book_requests:
  "keeps_request g \<Longrightarrow>
   keeps_book (\<lambda>db. (v db, db\<lparr>db_friendships := map (\<lambda>r. if Q r then g r else r) (db_friendships db)\<rparr>))"
  by (simp add: keeps_book_def book_of_def)

lemma keeps_book_for_tags [intro]: "(\<And>n i. keeps_book (body n i)) \<Longrightarrow> keeps_book (for_tags body n ids)"
  by (induction ids arbitrary: n) auto

lemma keeps_book_remark: "keeps_book (update_friend_remark env u f remark)"
  unfolding update_friend_remark_def update_friends_def
  by (intro keeps_book_intros keeps_book_map_friends) (simp_all add: keeps_key_def)

lemma keeps_book_status:
  "keeps_book (update_fs env v)" "keeps_book (update_friend_status env u f status)"
  unfolding update_fs_def update_friend_status_def update_requests_def
  by (intro keeps_book_intros keeps_book_requests; simp add: keeps_request_def)+

lemma keeps_book_assign: "keeps_book (assign_friend_to_group env u f i)"
proof -
  have "keeps_book (\<lambda>db. if P db then (Inl e, db) else update_friends env Q
      (\<lambda>r. r\<lparr>fr_group_id := Some i, fr_update_time := fe_now env\<rparr>) db)" for P e Q
    by (auto simp: keeps_book_def update_friends_def map_friends_def friend_key_def
        book_of_def edge_of_map_same keeps_key_def)
  then show ?thesis unfolding assign_friend_to_group_def by (intro keeps_book_intros)
qed

lemma keeps_book_if:
  "keeps_book m \<Longrightarrow> keeps_book n \<Longrightarrow> keeps_book (\<lambda>db. if P db then m db else n db)"
  by (simp add: keeps_book_def)

lemma keeps_book_groups:
  "keeps_book (create_friend_group env u name order)" "keeps_book (update_friend_group env i name order)"
  "keeps_book (delete_friend_group env i)"
proof -
  show "keeps_book (create_friend_group env u name order)" "keeps_book (update_friend_group env i name order)"
    unfolding create_friend_group_def update_friend_group_def
    by (intro keeps_book_intros; auto simp: keeps_book_def book_of_def Let_def split: option.split)+
  show "keeps_book (delete_friend_group env i)"
    unfolding delete_friend_group_def
    by (intro keeps_book_and_then keeps_book_intros keeps_book_map_friends keeps_book_if keeps_book_same)
       (simp_all add: keeps_key_def)
qed

lemma keeps_book_tags:
  "keeps_book (create_friend_tag env u name color)" "keeps_book (delete_friend_tag env i)"
  "keeps_book (add_tags_to_friend env u f ids)" "keeps_book (remove_tags_from_friend env u f ids)"
proof -
  show "keeps_book (create_friend_tag env u name color)"
    unfolding create_friend_tag_def
    by (intro keeps_book_intros) (auto simp: keeps_book_def book_of_def Let_def)
  show "keeps_book (delete_friend_tag env i)"
    unfolding delete_friend_tag_def
    by (intro keeps_book_and_then keeps_book_intros keeps_book_same) (simp_all add: drop_relations_def)
  have refresh: "keeps_book (refresh_tags env n u f)" for n
    unfolding refresh_tags_def
    by (intro keeps_book_intros keeps_book_map_friends) (simp_all add: keeps_key_def)
  have ins: "keeps_book (insert_relation u f i)" for i
    by (auto simp: keeps_book_def insert_relation_def book_of_def)
  have del: "keeps_book (\<lambda>db. (Inr (), drop_relations P db))" for P
    by (rule keeps_book_same) (simp add: drop_relations_def)
  show "keeps_book (add_tags_to_friend env u f ids)"
    unfolding add_tags_to_friend_def
    by (intro keeps_book_and_then keeps_book_intros keeps_book_for_tags refresh ins)
  show "keeps_book (remove_tags_from_friend env u f ids)"
    unfolding remove_tags_from_friend_def
    by (intro keeps_book_and_then keeps_book_intros keeps_book_for_tags refresh del)
qed

lemma keeps_book_privacy: "keeps_book (update_friend_privacy env u f p)"
  unfolding update_friend_privacy_def
  by (intro keeps_book_and_then keeps_book_intros keeps_book_map_friends keeps_book_same)
     (simp_all add: keeps_key_def upsert_privacy_def Let_def)

lemma keeps_book_score: "keeps_book (update_interaction_score env u f x)"
  unfolding update_interaction_score_def
  by (intro keeps_book_intros)
     (auto simp: keeps_book_def map_friends_def friend_key_def book_of_def edge_of_map_same keeps_key_def
        Let_def split: option.split)

inductive friend_step :: "friend_call \<Rightarrow> friend_db \<Rightarrow> friend_db \<Rightarrow> bool" where
  "friend_step (CreateFs c) db (snd (create_fs env c db))"
| "friend_step (Agree a) db (snd (agree_friend_apply_request env a db))"
| "friend_step (DeleteFriend i u) db (snd (delete_friend env i u db))"
| "friend_step OtherCall db (snd (update_fs env v db))"
| "friend_step OtherCall db (snd (update_friend_status env u f status db))"
| "friend_step OtherCall db (snd (update_friend_remark env u f remark db))"
| "friend_step OtherCall db (snd (create_friend_group env u name order db))"
| "friend_step OtherCall db (snd (update_friend_group env i name order db))"
| "friend_step OtherCall db (snd (delete_friend_group env i db))"
| "friend_step OtherCall db (snd (assign_friend_to_group env u f i db))"
| "friend_step OtherCall db (snd (create_friend_tag env u name color db))"
| "friend_step OtherCall db (snd (delete_friend_tag env i db))"
| "friend_step OtherCall db (snd (add_tags_to_friend env u f ids db))"
| "friend_step OtherCall db (snd (remove_tags_from_friend env u f ids db))"
| "friend_step OtherCall db (snd (update_friend_privacy env u f p db))"
| "friend_step OtherCall db (snd (update_interaction_score env u f x db))"

lemma keeps_bookD:
  assumes "keeps_book m"
  shows "book_step l (book_of db) (book_of (snd (m db)))"
    and "friend_keys db \<Longrightarrow> friend_keys (snd (m db))"
  using assms by (simp_all add: keeps_book_def friend_keys_def book_step.stay)

lemmas keeps_book_calls =
  keeps_book_status keeps_book_remark keeps_book_groups keeps_book_assign keeps_book_tags
  keeps_book_privacy keeps_book_score

lemma friend_step_book:
  "friend_step l db db' \<Longrightarrow> friend_keys db \<Longrightarrow> book_step l (book_of db) (book_of db')"
  by (induction rule: friend_step.induct)
     (simp_all add: create_moves agree_moves delete_moves keeps_bookD(1) keeps_book_calls)

lemma map_friends_keys:
  "keeps_key g \<Longrightarrow> map friend_key (db_friends (map_friends Q g db)) = map friend_key (db_friends db)"
  by (simp add: map_friends_def friend_key_def keeps_key_def)

lemma upsert_friend_keys:
  assumes "friend_keys db"
  shows "friend_keys (upsert_friend new db)"
proof -
  have "keeps_key (\<lambda>r. r\<lparr>fr_remark := fr_remark new, fr_status := Accepted, fr_source := fr_source new\<rparr>)"
    by (simp add: keeps_key_def)
  note map_friends_keys [OF this, simp]
  show ?thesis
    using assms by (auto simp: friend_keys_def upsert_friend_def friend_key_def [of new] list_ex_iff
        is_friend_row_def friend_key_def)
qed

lemma friends_unchanged_keys:
  "db_friends db' = db_friends db \<Longrightarrow> friend_keys db' = friend_keys db"
  by (simp add: friend_keys_def)

lemma outcome_cases:
  assumes "\<And>a t. m s = (Inr a, t) \<Longrightarrow> P t" and "\<And>e t. m s = (Inl e, t) \<Longrightarrow> P t"
  shows "P (snd (m s))"
  using assms by (cases "m s"; cases "fst (m s)") auto

lemma agree_keys: "friend_keys db \<Longrightarrow> friend_keys (snd (agree_friend_apply_request env a db))"
proof -
  assume keys: "friend_keys db"
  have "friend_keys t" if "agree_transaction env a db = (Inr v, t)" for v t
    using that keys unfolding agree_transaction_def transaction_def
    by (auto split: prod.splits sum.splits if_splits elim!: and_then_eq_InrE remote_InrE checked_InrE
        simp: select_pair_def insert_friends_def update_requests_def
        intro!: upsert_friend_keys simp: friends_unchanged_keys [of "_\<lparr>db_friendships := _\<rparr>"])
  moreover have "friend_keys t" if "agree_transaction env a db = (Inl e, t)" for e t
    using transaction_Inl [OF that [unfolded agree_transaction_def]] keys by simp
  ultimately show ?thesis
    unfolding agree_state by (rule outcome_cases [where m = "agree_transaction env a" and P = friend_keys])
qed

lemma create_keys: "friend_keys db \<Longrightarrow> friend_keys (snd (create_fs env c db))"
proof -
  assume keys: "friend_keys db"
  have "friend_keys t" if "request_transaction env c db = (Inr v, t)" for v t
    using that keys unfolding friend_keys_def request_transaction_def transaction_def
    by (auto split: prod.splits sum.splits if_splits option.splits elim!: and_then_eq_InrE remote_InrE checked_InrE
        simp: select_pair_def upsert_request_def add_interaction_def)
  moreover have "friend_keys t" if "request_transaction env c db = (Inl e, t)" for e t
    using transaction_Inl [OF that [unfolded request_transaction_def]] keys by simp
  ultimately show ?thesis
    unfolding create_fs_state by (rule outcome_cases [where m = "request_transaction env c" and P = friend_keys])
qed

lemma delete_keys: "friend_keys db \<Longrightarrow> friend_keys (snd (delete_friend env i u db))"
proof -
  have "keeps_key (\<lambda>r. r\<lparr>fr_status := Deleted, fr_update_time := fe_now env\<rparr>)"
    by (simp add: keeps_key_def)
  note map_friends_keys [OF this, simp]
  assume "friend_keys db"
  then have "friend_keys (delete_rows (fe_now env) i u db)"
    by (simp add: delete_rows_def friend_keys_def Let_def)
  with \<open>friend_keys db\<close> delete_friend_state [of env i u db] show ?thesis by auto
qed

lemma friend_step_keys: "friend_step l db db' \<Longrightarrow> friend_keys db \<Longrightarrow> friend_keys db'"
  by (induction rule: friend_step.induct)
     (simp_all add: create_keys agree_keys delete_keys keeps_bookD(2) keeps_book_calls)

inductive friend_run :: "friend_db \<Rightarrow> friend_call list \<Rightarrow> friend_db \<Rightarrow> bool" where
  "friend_run db [] db"
| "friend_step l db db1 \<Longrightarrow> friend_run db1 ls db2 \<Longrightarrow> friend_run db (l # ls) db2"

inductive book_run :: "friend_book \<Rightarrow> friend_call list \<Rightarrow> friend_book \<Rightarrow> bool" where
  "book_run b [] b"
| "book_step l b b1 \<Longrightarrow> book_run b1 ls b2 \<Longrightarrow> book_run b (l # ls) b2"

lemma book_run_symmetric: "book_run b ls b' \<Longrightarrow> book_symmetric b \<Longrightarrow> book_symmetric b'"
  by (induction rule: book_run.induct) (auto intro: book_step_symmetric)

lemma friend_run_book:
  "friend_run db ls db' \<Longrightarrow> friend_keys db \<Longrightarrow> book_run (book_of db) ls (book_of db') \<and> friend_keys db'"
  by (induction rule: friend_run.induct) (auto intro: book_run.intros friend_step_book friend_step_keys)

text \<open>
  C22. The friend tables refine the book of friendships: over any sequence of calls of the
  repository, whatever statements fail and whatever the schema is, every call makes only the move
  the book allows for it. A request enters a pair that was not asked under a new id; accepting
  makes both edges of the requested pair accepted; only somebody at an edge of that id can delete
  it, and then both its directions are deleted; nothing else changes requests or edges. Friend
  rows stay unique per pair.
\<close>

theorem friend_tables_refine_book:
  assumes "friend_keys db" and "friend_run db ls db'"
  shows "book_run (book_of db) ls (book_of db') \<and> friend_keys db'"
  using friend_run_book [OF assms(2,1)] .

text \<open>
  C26. Friendship is mutual: starting from empty friend tables, after any calls with any failures,
  two users have edges to each other with the same friendship id and the same status or none at
  all, and nobody is a friend of himself.
\<close>

theorem friendship_is_mutual:
  assumes "db_friends db = []" and "friend_run db ls db'"
  shows "edge_of (db_friends db') u f = edge_of (db_friends db') f u \<and> edge_of (db_friends db') u u = None"
proof -
  from assms(1) have "friend_keys db" and sym: "book_symmetric (book_of db)"
    by (simp_all add: friend_keys_def book_symmetric_def book_of_def edge_of_def)
  with friend_run_book [OF assms(2)] book_run_symmetric have "book_symmetric (book_of db')" by blast
  then show ?thesis by (simp add: book_symmetric_def book_of_def)
qed

section \<open>From a request to a friendship\<close>

lemma filter_two:
  assumes "distinct (map us_id us)" and "x \<in> set us" and "y \<in> set us" and "us_id x \<noteq> us_id y"
  shows "filter (\<lambda>u. us_id u = us_id x \<or> us_id u = us_id y) us \<in> {[x, y], [y, x]}"
proof -
  let ?zs = "filter (\<lambda>u. us_id u = us_id x \<or> us_id u = us_id y) us"
  have same: "us_id u = us_id v \<longleftrightarrow> u = v" if "u \<in> set us" "v \<in> set us" for u v
    using that assms(1) by (auto simp: distinct_map inj_on_def)
  have s: "set ?zs = {x, y}" using assms(2,3) same by auto
  have d: "distinct ?zs" using assms(1) by (simp add: distinct_map)
  from assms(4) have "card {x, y} = 2" by (metis card_2_iff)
  with distinct_card [OF d] s have "length ?zs = 2" by simp
  then obtain a b where "?zs = [a, b]" by (auto simp: numeral_2_eq_2 length_Suc_conv)
  with s d show ?thesis by auto
qed

lemma pair_up_users:
  assumes "distinct (map us_id (db_users db))" and "x \<in> set (db_users db)" and "y \<in> set (db_users db)"
    and "us_id x \<noteq> us_id y"
  shows "pair_up (us_id x) (users_of_pair (us_id x) (us_id y) db) = Inr (x, y)"
  using filter_two [OF assms] assms(4) by (auto simp: pair_up_def users_of_pair_def)

lemma fetch_all_users [simp]: "fetch_all (decode_user migrated) us = Inr us"
  by (simp add: fetch_all_def map_filter_def)

lemma add_interaction_sel [simp]:
  "db_users (add_interaction now a b db) = db_users db"
  "db_friendships (add_interaction now a b db) = db_friendships db"
  "db_friends (add_interaction now a b db) = db_friends db"
  by (simp_all add: add_interaction_def)

definition requested :: "friend_env \<Rightarrow> FsCreate \<Rightarrow> friend_db \<Rightarrow> friend_db" where
  "requested env c db = add_interaction (fe_now env) (fc_friend_id c) (fc_user_id c)
     (add_interaction (fe_now env) (fc_user_id c) (fc_friend_id c)
       (db\<lparr>db_friendships := db_friendships db @ [new_request env c]\<rparr>))"

lemma request_new:
  assumes "fe_schema env = migrated" and "\<And>n. fe_stmt env n = None"
    and "find (same_pair (fc_user_id c) (fc_friend_id c)) (db_friendships db) = None"
    and "fe_nanoid env \<notin> fp_id ` set (db_friendships db)"
  shows "request_transaction env c db =
    (Inr (fe_nanoid env, users_of_pair (fc_user_id c) (fc_friend_id c) db), requested env c db)"
  using assms by (simp add: request_transaction_def transaction_def and_then_def upsert_request_def
      select_pair_def requested_def users_of_pair_def)

definition befriended :: "friend_env \<Rightarrow> FriendshipRow \<Rightarrow> friend_db \<Rightarrow> friend_db" where
  "befriended env r db =
     upsert_friend (new_friend_row env 1 r (fp_friend_id r) (fp_user_id r) (fp_resp_remark r))
       (upsert_friend (new_friend_row env 0 r (fp_user_id r) (fp_friend_id r) (fp_req_remark r))
         (db\<lparr>db_friendships := map (\<lambda>q. if fp_id q = fp_id r then r else q) (db_friendships db)\<rparr>))"

definition accepted_row :: "int \<Rightarrow> AgreeReply \<Rightarrow> FriendshipRow \<Rightarrow> FriendshipRow" where
  "accepted_row now a r = r\<lparr>fp_status := Accepted, fp_update_time := Some now, fp_resp_msg := ar_resp_msg a,
     fp_resp_remark := ar_resp_remark a\<rparr>"

lemma accepted_row_sel [simp]:
  "fp_id (accepted_row now a r) = fp_id r" "fp_user_id (accepted_row now a r) = fp_user_id r"
  "fp_friend_id (accepted_row now a r) = fp_friend_id r" "fp_req_remark (accepted_row now a r) = fp_req_remark r"
  "fp_resp_remark (accepted_row now a r) = ar_resp_remark a" "fp_status (accepted_row now a r) = Accepted"
  "fp_source (accepted_row now a r) = fp_source r" "fp_update_time (accepted_row now a r) = Some now"
  by (simp_all add: accepted_row_def)

lemma upsert_friend_users [simp]: "db_users (upsert_friend new db) = db_users db"
  by (simp add: upsert_friend_def map_friends_def)

lemma map_one_row:
  assumes "filter (\<lambda>r. fp_id r = i) rows = [q]"
  shows "map (\<lambda>r. if fp_id r = i then g r else r) rows = map (\<lambda>r. if fp_id r = i then g q else r) rows"
proof (rule map_cong [OF refl])
  fix r assume "r \<in> set rows"
  then have "fp_id r = i \<Longrightarrow> r \<in> set (filter (\<lambda>r. fp_id r = i) rows)" by simp
  with assms show "(if fp_id r = i then g r else r) = (if fp_id r = i then g q else r)" by auto
qed

lemma agree_new:
  assumes "fe_schema env = migrated" and "\<And>n. fe_stmt env n = None"
    and "filter (\<lambda>r. fp_id r = ar_fs_id a) (db_friendships db) = [q]"
    and "fp_source q \<noteq> None" and "fp_user_id q \<noteq> fp_friend_id q"
  shows "agree_transaction env a db =
    (Inr (accepted_row (fe_now env) a q, users_of_pair (fp_user_id q) (fp_friend_id q) db),
     befriended env (accepted_row (fe_now env) a q) db)"
proof -
  let ?g = "\<lambda>r. r\<lparr>fp_status := Accepted, fp_update_time := Some (fe_now env), fp_resp_msg := ar_resp_msg a,
     fp_resp_remark := ar_resp_remark a\<rparr>"
  have i: "fp_id q = ar_fs_id a"
    using assms(3) by (metis (mono_tags, lifting) filter_eq_ConsD)
  have dec: "decode_friendship migrated (?g q) = None"
    using assms(4) by (simp add: decode_friendship_def)
  have "update_requests env (\<lambda>r. fp_id r = ar_fs_id a) ?g db =
      (Inr (accepted_row (fe_now env) a q), db\<lparr>db_friendships :=
         map (\<lambda>r. if fp_id r = ar_fs_id a then accepted_row (fe_now env) a q else r) (db_friendships db)\<rparr>)"
    using map_one_row [OF assms(3), of ?g] assms(1,3) dec
    by (simp add: update_requests_def fetch_one_def accepted_row_def)
  with assms(1,2,5) i show ?thesis
    by (simp add: agree_transaction_def transaction_def and_then_def insert_friends_def select_pair_def
        befriended_def users_of_pair_def)
qed

lemma friend_list_set:
  assumes "fe_schema env = migrated" and "fe_stmt env 0 = None"
  shows "\<exists>xs. get_friend_list env u t db = (Inr xs, db) \<and> set xs =
    {friend_of_row r x | r x. r \<in> set (db_friends db) \<and> x \<in> set (db_users db) \<and> fr_user_id r = u
       \<and> t < fr_update_time r \<and> us_id x = fr_friend_id r \<and> \<not> us_is_delete x}"
  using assms by (auto simp: get_friend_list_def)

lemma concat_if_single: "concat (map (\<lambda>r. if Q r then [g r] else []) rs) = map g (filter Q rs)"
  by (induction rs) simp_all

lemma friend_list_one:
  assumes "fe_schema env = migrated" and "fe_stmt env 0 = None"
    and "filter (is_friend_row u (us_id y)) (db_friends db) = [r]" and "t < fr_update_time r"
    and "filter (\<lambda>x. us_id x = us_id y) (db_users db) = [y]" and "\<not> us_is_delete y"
  shows "\<exists>xs. get_friend_list env u t db = (Inr xs, db)
    \<and> filter (\<lambda>x. fd_friend_id x = us_id y) xs = [friend_of_row r y]"
proof -
  let ?users = "\<lambda>r. filter (\<lambda>x. us_id x = fr_friend_id r \<and> \<not> us_is_delete x) (db_users db)"
  let ?rows = "filter (\<lambda>r. fr_user_id r = u \<and> t < fr_update_time r) (db_friends db)"
  have i: "fd_friend_id (friend_of_row r x) = us_id x" for r x by (simp add: friend_of_row_def)
  have "filter (\<lambda>x. us_id x = us_id y \<and> \<not> us_is_delete x) (db_users db) = filter (\<lambda>x. \<not> us_is_delete x) [y]"
    unfolding assms(5) [symmetric] by (simp add: conj_commute)
  moreover have "filter (\<lambda>x. us_id x = us_id y \<and> \<not> us_is_delete x \<and> us_id x = us_id y) (db_users db) =
      filter (\<lambda>x. us_id x = us_id y \<and> \<not> us_is_delete x) (db_users db)" by (rule filter_cong) auto
  ultimately have "filter (\<lambda>x. fd_friend_id x = us_id y) (map (friend_of_row r) (?users r)) =
      (if fr_friend_id r = us_id y then [friend_of_row r y] else [])" for r
    using assms(6) by (auto simp: filter_map o_def i filter_empty_conv)
  then have "filter (\<lambda>x. fd_friend_id x = us_id y) (concat (map (\<lambda>r. map (friend_of_row r) (?users r)) ?rows)) =
      map (\<lambda>r. friend_of_row r y) (filter (\<lambda>r. fr_friend_id r = us_id y) ?rows)"
    by (simp add: filter_concat o_def concat_if_single)
  also have "filter (\<lambda>r. fr_friend_id r = us_id y) ?rows = filter (\<lambda>r. t < fr_update_time r) [r]"
    unfolding assms(3) [symmetric] by (auto simp: is_friend_row_def intro: filter_cong)
  finally show ?thesis using assms(1,2,4) by (simp add: get_friend_list_def)
qed

lemma new_friend_row_key [simp]:
  "fr_user_id (new_friend_row env n r u f m) = u" "fr_friend_id (new_friend_row env n r u f m) = f"
  by (simp_all add: new_friend_row_def)

lemma befriended_new:
  assumes "\<not> list_ex (is_friend_row (fp_user_id r) (fp_friend_id r)) (db_friends db)"
    and "\<not> list_ex (is_friend_row (fp_friend_id r) (fp_user_id r)) (db_friends db)"
    and "fp_user_id r \<noteq> fp_friend_id r"
  shows "db_friends (befriended env r db) = db_friends db
    @ [new_friend_row env 0 r (fp_user_id r) (fp_friend_id r) (fp_req_remark r),
       new_friend_row env 1 r (fp_friend_id r) (fp_user_id r) (fp_resp_remark r)]"
  using assms by (auto simp: befriended_def upsert_friend_def new_friend_row_def is_friend_row_def)

lemma befriended_users [simp]: "db_users (befriended env r db) = db_users db"
  by (simp add: befriended_def)

lemma requested_sel [simp]:
  "db_users (requested env c db) = db_users db" "db_friends (requested env c db) = db_friends db"
  "db_friendships (requested env c db) = db_friendships db @ [new_request env c]"
  by (simp_all add: requested_def)

lemma one_of_key: "distinct (map k xs) \<Longrightarrow> w \<in> set xs \<Longrightarrow> filter (\<lambda>z. k z = k w) xs = [w]"
  by (induction xs) (auto simp: filter_empty_conv image_iff)

lemma new_request_sel [simp]:
  "fp_id (new_request env c) = fe_nanoid env" "fp_user_id (new_request env c) = fc_user_id c"
  "fp_friend_id (new_request env c) = fc_friend_id c" "fp_req_remark (new_request env c) = fc_req_remark c"
  "fp_source (new_request env c) = Some (fc_source c)"
  by (simp_all add: new_request_def)

text \<open>The three steps on the way from strangers to friends: the request is stored and answered, it is
  accepted, and each of the two is listed once for the other.\<close>

lemma request_stored:
  assumes "fe_schema env = migrated" and "\<And>n. fe_stmt env n = None"
    and "distinct (map us_id (db_users db))" and "x \<in> set (db_users db)" and "y \<in> set (db_users db)" and "us_id x \<noteq> us_id y"
    and c: "fc_user_id c = us_id x" "fc_friend_id c = us_id y"
    and "find (same_pair (us_id x) (us_id y)) (db_friendships db) = None" and "fe_nanoid env \<notin> fp_id ` set (db_friendships db)"
  shows "\<exists>req send. create_fs env c db = (Inr (req, send), requested env c db)
    \<and> fw_user_id req = us_id y \<and> fw_user_id send = us_id x \<and> fw_fs_id req = fe_nanoid env \<and> fw_fs_id send = fe_nanoid env"
proof -
  have "request_transaction env c db = (Inr (fe_nanoid env, users_of_pair (us_id x) (us_id y) db), requested env c db)"
    using request_new [OF assms(1,2), of c db] assms(9,10) by (simp add: c)
  then show ?thesis
    using pair_up_users [OF assms(3-6)] by (simp add: create_fs_def and_then_def c fs_of_user_def)
qed

lemma request_accepted:
  assumes env: "fe_schema env' = migrated" "\<And>n. fe_stmt env' n = None"
    and users: "distinct (map us_id (db_users db))" "x \<in> set (db_users db)" "y \<in> set (db_users db)" "us_id x \<noteq> us_id y"
    and c: "fc_user_id c = us_id x" "fc_friend_id c = us_id y"
    and a: "ar_fs_id a = fe_nanoid env" "fe_nanoid env \<notin> fp_id ` set (db_friendships db)"
  shows "\<exists>me you. agree_friend_apply_request env' a (requested env c db) =
      (Inr (me, you), befriended env' (accepted_row (fe_now env') a (new_request env c)) (requested env c db))
    \<and> fd_friend_id me = us_id x \<and> fd_friend_id you = us_id y"
proof -
  have "filter (\<lambda>r. fp_id r = ar_fs_id a) (db_friendships (requested env c db)) = [new_request env c]"
    using a by (force simp: filter_empty_conv)
  then have "agree_transaction env' a (requested env c db) =
      (Inr (accepted_row (fe_now env') a (new_request env c), users_of_pair (us_id x) (us_id y) db),
       befriended env' (accepted_row (fe_now env') a (new_request env c)) (requested env c db))"
    using agree_new [OF env, of a "requested env c db" "new_request env c"] users(4) by (simp add: c users_of_pair_def)
  then show ?thesis
    using pair_up_users [OF users] by (simp add: agree_friend_apply_request_def and_then_def c accepted_friend_def)
qed

lemma befriended_listed:
  assumes env: "fe_schema env = migrated" "\<And>n. fe_stmt env n = None" and "t < fe_now env"
    and users: "distinct (map us_id (db_users db))" "x \<in> set (db_users db)" "y \<in> set (db_users db)" "us_id x \<noteq> us_id y"
      "\<not> us_is_delete x" "\<not> us_is_delete y"
    and r: "fp_user_id r = us_id x" "fp_friend_id r = us_id y"
    and fresh: "\<not> list_ex (is_friend_row (us_id x) (us_id y)) (db_friends db)"
      "\<not> list_ex (is_friend_row (us_id y) (us_id x)) (db_friends db)"
  shows "\<exists>xs. get_friend_list env (us_id x) t (befriended env r db) = (Inr xs, befriended env r db)
      \<and> filter (\<lambda>z. fd_friend_id z = us_id y) xs = [friend_of_row (new_friend_row env 0 r (us_id x) (us_id y) (fp_req_remark r)) y]"
    and "\<exists>ys. get_friend_list env (us_id y) t (befriended env r db) = (Inr ys, befriended env r db)
      \<and> filter (\<lambda>z. fd_friend_id z = us_id x) ys = [friend_of_row (new_friend_row env 1 r (us_id y) (us_id x) (fp_resp_remark r)) x]"
proof -
  note rows = befriended_new [of r db env, unfolded r, OF fresh users(4)]
  note one = one_of_key [OF users(1,2)] one_of_key [OF users(1,3)]
  show "\<exists>xs. get_friend_list env (us_id x) t (befriended env r db) = (Inr xs, befriended env r db)
      \<and> filter (\<lambda>z. fd_friend_id z = us_id y) xs = [friend_of_row (new_friend_row env 0 r (us_id x) (us_id y) (fp_req_remark r)) y]"
    by (rule friend_list_one)
       (use assms one in \<open>auto simp: rows new_friend_row_def is_friend_row_def list_ex_iff filter_empty_conv\<close>)
  show "\<exists>ys. get_friend_list env (us_id y) t (befriended env r db) = (Inr ys, befriended env r db)
      \<and> filter (\<lambda>z. fd_friend_id z = us_id x) ys = [friend_of_row (new_friend_row env 1 r (us_id y) (us_id x) (fp_resp_remark r)) x]"
    by (rule friend_list_one)
       (use assms one in \<open>auto simp: rows new_friend_row_def is_friend_row_def list_ex_iff filter_empty_conv\<close>)
qed

text \<open>
  C23. From a request to a friendship: when both users exist and have no request or friend rows
  between them, \<open>create_fs\<close> stores the request and answers both sides with its id; agreeing to that
  id then answers with each other's data, and from then on each user's friend list (for any
  offline time before the acceptance) holds the other exactly once, as accepted, under that id
  and with the remark its owner gave.
\<close>

theorem request_becomes_friendship:
  assumes env: "fe_schema env = migrated" "\<And>n. fe_stmt env n = None"
    and env': "fe_schema env' = migrated" "\<And>n. fe_stmt env' n = None"
    and users: "distinct (map us_id (db_users db))" "x \<in> set (db_users db)" "y \<in> set (db_users db)"
      "us_id x \<noteq> us_id y" "\<not> us_is_delete x" "\<not> us_is_delete y"
    and c: "fc_user_id c = us_id x" "fc_friend_id c = us_id y"
    and fresh: "find (same_pair (us_id x) (us_id y)) (db_friendships db) = None"
      "fe_nanoid env \<notin> fp_id ` set (db_friendships db)"
      "\<not> list_ex (is_friend_row (us_id x) (us_id y)) (db_friends db)"
      "\<not> list_ex (is_friend_row (us_id y) (us_id x)) (db_friends db)"
    and a: "ar_fs_id a = fe_nanoid env" and t: "t < fe_now env'"
  shows "\<exists>req send db1 me you db2 xs ys e d.
     create_fs env c db = (Inr (req, send), db1)
   \<and> fw_user_id req = us_id y \<and> fw_user_id send = us_id x
   \<and> fw_fs_id req = fe_nanoid env \<and> fw_fs_id send = fe_nanoid env
   \<and> agree_friend_apply_request env' a db1 = (Inr (me, you), db2)
   \<and> fd_friend_id me = us_id x \<and> fd_friend_id you = us_id y
   \<and> get_friend_list env' (us_id x) t db2 = (Inr xs, db2) \<and> filter (\<lambda>z. fd_friend_id z = us_id y) xs = [e]
   \<and> fd_status e = 1 \<and> fd_remark e = fc_req_remark c \<and> fd_fs_id e = fe_nanoid env
   \<and> get_friend_list env' (us_id y) t db2 = (Inr ys, db2) \<and> filter (\<lambda>z. fd_friend_id z = us_id x) ys = [d]
   \<and> fd_status d = 1 \<and> fd_remark d = ar_resp_remark a \<and> fd_fs_id d = fe_nanoid env"
proof -
  let ?r = "accepted_row (fe_now env') a (new_request env c)"
  have r: "fp_user_id ?r = us_id x" "fp_friend_id ?r = us_id y" by (simp_all add: c)
  have row: "fd_status (friend_of_row (new_friend_row env' n ?r u f m) w) = 1"
    "fd_remark (friend_of_row (new_friend_row env' n ?r u f m) w) = m"
    "fd_fs_id (friend_of_row (new_friend_row env' n ?r u f m) w) = fe_nanoid env" for n u f m w
    by (simp_all add: friend_of_row_def new_friend_row_def unwrap_or_def)
  obtain req send where made: "create_fs env c db = (Inr (req, send), requested env c db)"
    and answers: "fw_user_id req = us_id y" "fw_user_id send = us_id x" "fw_fs_id req = fe_nanoid env"
      "fw_fs_id send = fe_nanoid env"
    using request_stored [OF env users(1-4) c fresh(1,2)] by blast
  obtain me you where agreed: "agree_friend_apply_request env' a (requested env c db) =
      (Inr (me, you), befriended env' ?r (requested env c db))"
    and both: "fd_friend_id me = us_id x" "fd_friend_id you = us_id y"
    using request_accepted [OF env' users(1-4) c a fresh(2)] by blast
  note listed = befriended_listed [OF env' t, of "requested env c db", unfolded requested_sel, OF users r fresh(3,4)]
  from listed(1) obtain xs where xs: "get_friend_list env' (us_id x) t (befriended env' ?r (requested env c db)) =
      (Inr xs, befriended env' ?r (requested env c db))" "filter (\<lambda>z. fd_friend_id z = us_id y) xs =
      [friend_of_row (new_friend_row env' 0 ?r (us_id x) (us_id y) (fc_req_remark c)) y]" by auto
  from listed(2) obtain ys where ys: "get_friend_list env' (us_id y) t (befriended env' ?r (requested env c db)) =
      (Inr ys, befriended env' ?r (requested env c db))" "filter (\<lambda>z. fd_friend_id z = us_id x) ys =
      [friend_of_row (new_friend_row env' 1 ?r (us_id y) (us_id x) (ar_resp_remark a)) x]" by auto
  show ?thesis
    by (intro exI conjI, rule made, (rule answers)+, rule agreed, rule both(1), rule both(2),
        rule xs(1), rule xs(2), (rule row)+, rule ys(1), rule ys(2), (rule row)+)
qed

section \<open>Limits of the repository\<close>

lemma friend_row_ex: "list_ex (is_friend_row b c) rows \<longleftrightarrow> (b, c) \<in> set (map friend_key rows)"
  by (auto simp: list_ex_iff is_friend_row_def friend_key_def image_iff)

lemma upsert_friend_old:
  assumes "list_ex (is_friend_row (fr_user_id new) (fr_friend_id new)) (db_friends db)"
  shows "map friend_key (db_friends (upsert_friend new db)) = map friend_key (db_friends db)"
    and "map fr_update_time (db_friends (upsert_friend new db)) = map fr_update_time (db_friends db)"
  using assms by (simp_all add: upsert_friend_def map_friends_def friend_key_def)

lemma delete_friend_ok:
  assumes "fe_schema env = migrated" and "\<And>n. fe_stmt env n = None"
  shows "delete_friend env i u db = (Inr (), delete_rows (fe_now env) i u db)"
  using assms by (simp add: delete_friend_def transaction_def and_then_def delete_rows_def Let_def)

lemma delete_rows_friends:
  "db_friends (delete_rows now i u db) =
     (if list_ex (\<lambda>r. fr_fs_id r = i \<and> fr_user_id r = u) (db_friends db)
      then map (\<lambda>r. if fr_fs_id r = i then r\<lparr>fr_status := Deleted, fr_update_time := now\<rparr> else r) (db_friends db)
      else db_friends db)"
  by (simp add: delete_rows_def Let_def map_friends_def)

lemma delete_rows_deleted:
  "\<forall>r \<in> set (db_friendships (delete_rows now i u db)). fp_id r = i \<longrightarrow> fp_status r = Deleted"
  by (simp add: delete_rows_def Let_def del: if_image_distrib)

lemma book_edge [simp]: "edge (book_of db) = edge_of (db_friends db)"
  by (simp add: book_of_def)

lemma agree_Inr_book:
  assumes "agree_friend_apply_request env a db = (Inr v, db1)"
  obtains q where "find (\<lambda>r. fp_id r = ar_fs_id a) (db_friendships db) = Some q"
    and "fp_user_id q \<noteq> fp_friend_id q"
    and "book_of db1 = book_accept (ar_fs_id a) (fp_user_id q) (fp_friend_id q) (book_of db)"
proof -
  from assms obtain w where "agree_transaction env a db = (Inr w, db1)"
    unfolding agree_friend_apply_request_def
    by (elim and_then_eq_InrE) (auto split: sum.splits prod.splits)
  then show thesis by (rule agree_transaction_Inr) (rule that)
qed

text \<open>
  A friendship made under one request cannot be ended under another: when two users already
  have an edge with id \<open>j\<close> and a second request \<open>i\<close> between them (the other direction) is agreed to,
  deleting the friendship by the id \<open>i\<close> the agreement answered with, by whomever, leaves them
  accepted friends.
\<close>

theorem second_request_cannot_unfriend:
  assumes "agree_friend_apply_request env a db = (Inr v, db1)"
    and "find (\<lambda>r. fp_id r = ar_fs_id a) (db_friendships db) = Some q"
    and "edge_of (db_friends db) (fp_user_id q) (fp_friend_id q) = Some (j, s)" and "j \<noteq> ar_fs_id a"
  shows "edge_of (db_friends (snd (delete_friend env' (ar_fs_id a) w db1))) (fp_user_id q) (fp_friend_id q)
    = Some (j, Accepted)"
proof -
  have "book_of db1 = book_accept (ar_fs_id a) (fp_user_id q) (fp_friend_id q) (book_of db)"
    using agree_Inr_book [OF assms(1)] assms(2) by (metis option.inject)
  then have "edge (book_of db1) (fp_user_id q) (fp_friend_id q) = Some (j, Accepted)"
    using assms(3) by (simp add: book_accept_def accept_edge_def del: book_edge, simp)
  then have e: "edge_of (db_friends db1) (fp_user_id q) (fp_friend_id q) = Some (j, Accepted)" by simp
  have "edge (book_of (delete_rows now (ar_fs_id a) w db1)) (fp_user_id q) (fp_friend_id q) = Some (j, Accepted)" for now
    unfolding book_of_delete_rows using e assms(4) by (simp add: book_delete_def drop_edge_def)
  with e delete_friend_state [of env' "ar_fs_id a" w db1] show ?thesis by auto
qed

text \<open>
  An acceptance is not announced to devices that were offline: when the two users were friends
  before (their rows exist, last changed at or before \<open>t\<close>), agreeing to a new request leaves the
  update times as they were, so the friend list since \<open>t\<close> of either user does not contain the other.
\<close>

theorem reaccepted_friend_not_synced:
  assumes "agree_friend_apply_request env a db = (Inr v, db1)"
    and "find (\<lambda>r. fp_id r = ar_fs_id a) (db_friendships db) = Some q"
    and "list_ex (is_friend_row (fp_user_id q) (fp_friend_id q)) (db_friends db)"
    and "list_ex (is_friend_row (fp_friend_id q) (fp_user_id q)) (db_friends db)"
    and "\<forall>r \<in> set (db_friends db). fr_update_time r \<le> t"
    and "get_friend_list env' u t db1 = (Inr xs, db1)"
  shows "xs = []"
proof -
  from assms(1) obtain w where "agree_transaction env a db = (Inr w, db1)"
    unfolding agree_friend_apply_request_def
    by (elim and_then_eq_InrE) (auto split: sum.splits prod.splits)
  then obtain r db0 w where
    u: "update_requests env (\<lambda>r. fp_id r = ar_fs_id a)
     (\<lambda>r. r\<lparr>fp_status := Accepted, fp_update_time := Some (fe_now env), fp_resp_msg := ar_resp_msg a,
        fp_resp_remark := ar_resp_remark a\<rparr>) db = (Inr r, db0)"
    and ins: "insert_friends env r db0 = (Inr w, db1)"
    unfolding agree_transaction_def transaction_def
    by (auto split: prod.splits sum.splits elim!: and_then_eq_InrE remote_InrE checked_InrE
        simp: select_pair_def)
  have r: "fp_user_id r = fp_user_id q" "fp_friend_id r = fp_friend_id q"
    using update_requests_Inr [OF u] assms(2) by (auto simp: keeps_request_def)
  have db0: "db_friends db0 = db_friends db" using u by (auto simp: update_requests_def)
  have "map fr_update_time (db_friends db1) = map fr_update_time (db_friends db)"
  proof -
    let ?n = "new_friend_row env 0 r (fp_user_id r) (fp_friend_id r) (fp_req_remark r)"
    let ?m = "new_friend_row env 1 r (fp_friend_id r) (fp_user_id r) (fp_resp_remark r)"
    from ins have db1: "db1 = upsert_friend ?m (upsert_friend ?n db0)"
      by (simp add: insert_friends_def split: if_splits)
    show ?thesis
      using assms(3,4) upsert_friend_old [of ?n db0] upsert_friend_old [of ?m "upsert_friend ?n db0"]
      by (simp add: db1 db0 r friend_row_ex)
  qed
  with assms(5) have "\<forall>r \<in> set (db_friends db1). fr_update_time r \<le> t"
    by (metis (no_types, lifting) in_set_conv_nth length_map nth_map)
  then have "filter (\<lambda>r. fr_user_id r = u \<and> t < fr_update_time r) (db_friends db1) = []"
    by (auto simp: filter_empty_conv not_less)
  with assms(6) show ?thesis
    by (auto simp: get_friend_list_def checked_def elim!: remote_InrE split: if_splits)
qed

text \<open>
  A request to a user that does not exist panics after it has been committed: the caller gets no
  answer, and the request is stored.
\<close>

theorem unknown_friend_panics_after_commit:
  assumes "fe_schema env = migrated" and "\<And>n. fe_stmt env n = None"
    and "find (same_pair (fc_user_id c) (fc_friend_id c)) (db_friendships db) = None"
    and "fe_nanoid env \<notin> fp_id ` set (db_friendships db)"
    and "length (users_of_pair (fc_user_id c) (fc_friend_id c) db) < 2"
  shows "create_fs env c db = (Inl removal_panic, requested env c db)
    \<and> new_request env c \<in> set (db_friendships (requested env c db))"
  using request_new [OF assms(1-4)] assms(5)
  by (auto simp: create_fs_def and_then_def pair_up_def split: list.split)

text \<open>
  \<open>delete_friend\<close> by somebody who is not at the friendship succeeds: it leaves the friend rows as
  they are but marks the request row as deleted, whoever calls.
\<close>

theorem stranger_deletes_request:
  assumes "fe_schema env = migrated" and "\<And>n. fe_stmt env n = None"
    and "\<not> list_ex (\<lambda>r. fr_fs_id r = i \<and> fr_user_id r = u) (db_friends db)"
  shows "\<exists>db'. delete_friend env i u db = (Inr (), db') \<and> db_friends db' = db_friends db
    \<and> (\<forall>r \<in> set (db_friendships db'). fp_id r = i \<longrightarrow> fp_status r = Deleted)"
  unfolding delete_friend_ok [OF assms(1,2)] using delete_rows_deleted [of "fe_now env" i u db]
  by (simp add: delete_rows_friends assms(3))

text \<open>
  \<open>delete_friend\<close> by one of the two friends marks exactly the friend rows made under that id as
  deleted at the present time, in both directions, and the request row with them.
\<close>

theorem delete_friend_exact:
  assumes "fe_schema env = migrated" and "\<And>n. fe_stmt env n = None"
    and "list_ex (\<lambda>r. fr_fs_id r = i \<and> fr_user_id r = u) (db_friends db)"
  shows "\<exists>db'. delete_friend env i u db = (Inr (), db')
    \<and> db_friends db' = map (\<lambda>r. if fr_fs_id r = i then r\<lparr>fr_status := Deleted, fr_update_time := fe_now env\<rparr> else r)
        (db_friends db)
    \<and> (\<forall>r \<in> set (db_friendships db'). fp_id r = i \<longrightarrow> fp_status r = Deleted)"
  unfolding delete_friend_ok [OF assms(1,2)] using delete_rows_deleted [of "fe_now env" i u db]
  by (simp add: delete_rows_friends assms(3))

section \<open>Concrete instances\<close>

definition demo_friend_db :: friend_db where
  "demo_friend_db = \<lparr>db_users = [demo_user ''a'', demo_user ''b''], db_friendships = [], db_friends = [],
     db_groups = [], db_tags = [], db_relations = [], db_privacy = [], db_interactions = []\<rparr>"

definition demo_request :: FsCreate where
  "demo_request = \<lparr>fc_user_id = ''b'', fc_friend_id = ''a'', fc_apply_msg = None, fc_req_remark = Some ''r'',
     fc_source = ''search''\<rparr>"

definition demo_reply :: "string \<Rightarrow> AgreeReply" where
  "demo_reply i = \<lparr>ar_fs_id = i, ar_resp_msg = None, ar_resp_remark = None\<rparr>"

lemma demo_friend_env_sel [simp]:
  "fe_stmt demo_friend_env n = None" "fe_now demo_friend_env = 50"
  "fe_nanoid demo_friend_env = ''fs1''"
  by (simp_all add: demo_friend_env_def)

lemma demo_request_sel [simp]:
  "fc_user_id demo_request = ''b''" "fc_friend_id demo_request = ''a''" "fc_source demo_request = ''search''"
  by (simp_all add: demo_request_def)

lemma demo_friend_db_sel [simp]:
  "db_users demo_friend_db = [demo_user ''a'', demo_user ''b'']" "db_friendships demo_friend_db = []"
  "db_friends demo_friend_db = []"
  by (simp_all add: demo_friend_db_def)

lemma demo_reply_sel [simp]: "ar_fs_id (demo_reply i) = i"
  by (simp add: demo_reply_def)

theorem request_becomes_friendship_witness:
  "\<exists>req send db1 me you db2 xs e. create_fs demo_friend_env demo_request demo_friend_db = (Inr (req, send), db1)
   \<and> agree_friend_apply_request demo_friend_env (demo_reply ''fs1'') db1 = (Inr (me, you), db2)
   \<and> fd_friend_id me = ''b'' \<and> fd_friend_id you = ''a''
   \<and> get_friend_list demo_friend_env ''b'' 0 db2 = (Inr xs, db2) \<and> filter (\<lambda>z. fd_friend_id z = ''a'') xs = [e]"
  using request_becomes_friendship [of demo_friend_env demo_friend_env demo_friend_db "demo_user ''b''"
      "demo_user ''a''" demo_request "demo_reply ''fs1''" 0]
  by (simp add: same_pair_def) blast

definition demo_two_requests :: friend_db where
  "demo_two_requests = demo_friend_db\<lparr>
     db_friendships := [(new_request demo_friend_env demo_request)\<lparr>fp_id := ''fs2''\<rparr>],
     db_friends := [new_friend_row demo_friend_env 0 (new_request demo_friend_env demo_request) ''a'' ''b'' None,
                    new_friend_row demo_friend_env 1 (new_request demo_friend_env demo_request) ''b'' ''a'' None]\<rparr>"

lemma demo_two_agreed:
  "\<exists>v db1. agree_friend_apply_request demo_friend_env (demo_reply ''fs2'') demo_two_requests = (Inr v, db1)"
proof -
  let ?q = "(new_request demo_friend_env demo_request)\<lparr>fp_id := ''fs2''\<rparr>"
  have "agree_transaction demo_friend_env (demo_reply ''fs2'') demo_two_requests =
    (Inr (accepted_row 50 (demo_reply ''fs2'') ?q, users_of_pair ''b'' ''a'' demo_two_requests),
     befriended demo_friend_env (accepted_row 50 (demo_reply ''fs2'') ?q) demo_two_requests)"
    using agree_new [of demo_friend_env "demo_reply ''fs2''" demo_two_requests ?q]
    by (simp add: demo_two_requests_def new_request_def)
  then show ?thesis
    by (simp add: agree_friend_apply_request_def and_then_def pair_up_def users_of_pair_def
        demo_two_requests_def new_request_def)
qed

theorem second_request_cannot_unfriend_witness:
  "\<exists>db1. edge_of (db_friends (snd (delete_friend demo_friend_env ''fs2'' ''a'' db1))) ''b'' ''a'' = Some (''fs1'', Accepted)"
proof -
  from demo_two_agreed obtain v db1 where
    "agree_friend_apply_request demo_friend_env (demo_reply ''fs2'') demo_two_requests = (Inr v, db1)" by blast
  from second_request_cannot_unfriend [OF this, of "(new_request demo_friend_env demo_request)\<lparr>fp_id := ''fs2''\<rparr>"
      "''fs1''" Accepted demo_friend_env "''a''"]
  show ?thesis
    by (auto simp: demo_two_requests_def edge_of_def new_request_def new_friend_row_def is_friend_row_def)
qed

theorem reaccepted_friend_not_synced_witness:
  "\<exists>db1. get_friend_list demo_friend_env ''a'' 50 db1 = (Inr [], db1)
     \<and> snd (agree_friend_apply_request demo_friend_env (demo_reply ''fs2'') demo_two_requests) = db1"
proof -
  from demo_two_agreed obtain v db1 where
    a: "agree_friend_apply_request demo_friend_env (demo_reply ''fs2'') demo_two_requests = (Inr v, db1)" by blast
  from friend_list_set [of demo_friend_env "''a''" 50 db1] obtain xs where
    xs: "get_friend_list demo_friend_env ''a'' 50 db1 = (Inr xs, db1)" by auto
  from reaccepted_friend_not_synced [OF a _ _ _ _ xs,
      of "(new_request demo_friend_env demo_request)\<lparr>fp_id := ''fs2''\<rparr>"]
  have "xs = []"
    by (simp add: demo_two_requests_def new_request_def new_friend_row_def is_friend_row_def)
  with a xs show ?thesis by simp
qed

theorem unknown_friend_panics_after_commit_witness:
  "fst (create_fs demo_friend_env (demo_request\<lparr>fc_friend_id := ''zz''\<rparr>) demo_friend_db) = Inl removal_panic"
  using unknown_friend_panics_after_commit [of demo_friend_env "demo_request\<lparr>fc_friend_id := ''zz''\<rparr>" demo_friend_db]
  by (simp add: users_of_pair_def)

theorem stranger_deletes_request_witness:
  "\<exists>db'. delete_friend demo_friend_env ''fs1'' ''eve'' demo_two_requests = (Inr (), db')
     \<and> db_friends db' = db_friends demo_two_requests"
  using stranger_deletes_request [of demo_friend_env "''fs1''" "''eve''" demo_two_requests]
  by (auto simp: demo_two_requests_def)

theorem delete_friend_exact_witness:
  "\<exists>db'. delete_friend demo_friend_env ''fs1'' ''a'' demo_two_requests = (Inr (), db')
     \<and> list_all (\<lambda>r. fr_status r = Deleted) (db_friends db')"
  using delete_friend_exact [of demo_friend_env "''fs1''" "''a''" demo_two_requests]
  by (auto simp: demo_two_requests_def new_friend_row_def new_request_def)

lemma demo_friend_run:
  "friend_run demo_friend_db [CreateFs demo_request, Agree (demo_reply ''fs1'')]
     (snd (agree_friend_apply_request demo_friend_env (demo_reply ''fs1'')
       (snd (create_fs demo_friend_env demo_request demo_friend_db))))"
  by (rule friend_run.intros(2) [OF friend_step.intros(1)], rule friend_run.intros(2) [OF friend_step.intros(2)],
      rule friend_run.intros(1))

theorem friend_tables_refine_book_witness:
  "book_run (book_of demo_friend_db) [CreateFs demo_request, Agree (demo_reply ''fs1'')]
     (book_of (snd (agree_friend_apply_request demo_friend_env (demo_reply ''fs1'')
       (snd (create_fs demo_friend_env demo_request demo_friend_db)))))"
  using friend_tables_refine_book [OF _ demo_friend_run] by (simp add: friend_keys_def)

theorem friendship_is_mutual_witness:
  "\<exists>db'. friend_run demo_friend_db [CreateFs demo_request, Agree (demo_reply ''fs1'')] db'
     \<and> edge_of (db_friends db') ''a'' ''b'' = edge_of (db_friends db') ''b'' ''a''"
  using friendship_is_mutual [OF _ demo_friend_run, of "''a''" "''b''"] demo_friend_run by auto

end
