(* ===== verification/Api_Friends.thy ===== *)
theory Api_Friends
  imports Api_Base Friend_Graph Msg_Box Sharded_Box
begin

text \<open>
  The friend handlers (\<open>api/src/handlers/friends/friend_handlers.rs\<close>) over the friend repository, the
  cache and the chat service, and the message handlers (\<open>api/src/handlers/messages/msg_handlers.rs\<close>)
  over the receive box and the cache. As in \<open>Api_Groups\<close>, a handler takes what its extractors hand
  over and carries the prefix \<open>api_\<close>.
\<close>

section \<open>Friendships\<close>

record friend_api_env = api_env +
  fa_friends :: friend_env
  fa_users :: user_env
  fa_bin_fs :: "FriendshipWithUser \<Rightarrow> string res"
  fa_bin_friend :: "Friend \<Rightarrow> string res"

type_synonym friend_api = "friend_db api_state"

abbreviation fbase :: "friend_api_env \<Rightarrow> api_env" where
  "fbase env \<equiv> api_env.truncate env"

record FriendShipList =
  fl_friends :: "Friend list"
  fl_fs :: "FriendshipWithUser list"

definition get_friends_list_by_user_id ::
  "friend_api_env \<Rightarrow> string \<Rightarrow> int \<Rightarrow> (friend_api, FriendShipList) act" where
  "get_friends_list_by_user_id env user_id offline_time =
     and_then (on_db (get_friend_list (fa_friends env) user_id offline_time)) (\<lambda>friends.
     and_then (on_db (get_fs_list (fa_friends env) user_id offline_time)) (\<lambda>fs.
     ok \<lparr>fl_friends = friends, fl_fs = fs\<rparr>))"

definition get_apply_list_by_user_id ::
  "friend_api_env \<Rightarrow> string \<Rightarrow> int \<Rightarrow> (friend_api, FriendshipWithUser list) act" where
  "get_apply_list_by_user_id env user_id offline_time = on_db (get_fs_list (fa_friends env) user_id offline_time)"

definition create_friendship :: "friend_api_env \<Rightarrow> FsCreate \<Rightarrow> (friend_api, FriendshipWithUser) act" where
  "create_friendship env new_friend =
     and_then (on_db (create_fs (fa_friends env) new_friend)) (\<lambda>(fs_req, fs_send).
     and_then (notify (fbase env) (fa_bin_fs env fs_send) (fw_user_id fs_send)
       (\<lambda>n fs. new_with_friend_ship_req (ae_now env) (fw_user_id fs_send) (fc_friend_id new_friend) fs n)) (\<lambda>_.
     ok fs_req))"

definition agree :: "friend_api_env \<Rightarrow> AgreeReply \<Rightarrow> (friend_api, Friend) act" where
  "agree env a =
     and_then (on_db (agree_friend_apply_request (fa_friends env) a)) (\<lambda>(req, send).
     and_then (notify (fbase env) (fa_bin_friend env send) (fd_friend_id send)
       (\<lambda>n friend. new_with_friend_ship_resp (ae_now env) (fd_friend_id req) friend n)) (\<lambda>_.
     ok req))"

record DeleteFriendRequest =
  dfr_user_id :: string
  dfr_friend_id :: string
  dfr_fs_id :: string

definition delete_friend_validate :: "DeleteFriendRequest \<Rightarrow> unit res" where
  "delete_friend_validate q =
     (if dfr_user_id q = '''' then Inl (Failed (bad_request ''user id is none''))
      else if dfr_friend_id q = '''' then Inl (Failed (bad_request ''friend id is none''))
      else if dfr_fs_id q = '''' then Inl (Failed (bad_request ''friendship id is none''))
      else Inr ())"

definition api_delete_friend :: "friend_api_env \<Rightarrow> DeleteFriendRequest \<Rightarrow> (friend_api, unit) act" where
  "api_delete_friend env q =
     and_then (lift_res (delete_friend_validate q)) (\<lambda>_.
     and_then (on_db (delete_friend (fa_friends env) (dfr_fs_id q) (dfr_user_id q))) (\<lambda>_.
     and_then (chat_send (fbase env) (new_with_friend_del (ae_now env) (dfr_user_id q) (dfr_friend_id q))) (\<lambda>_.
     ok ())))"

section \<open>Remarks, groups, tags, privacy, interaction\<close>

text \<open>The checks at the head of the handlers: \<open>return Err(Error::bad_request(text))\<close>.\<close>

definition reject_if :: "bool \<Rightarrow> string \<Rightarrow> ('s, 'a) act \<Rightarrow> ('s, 'a) act" where
  "reject_if bad text m = (if bad then fail (Failed (bad_request text)) else m)"

record UpdateRemarkRequest =
  ur_user_id :: string
  ur_friend_id :: string
  ur_remark :: string

definition api_update_friend_remark :: "friend_api_env \<Rightarrow> UpdateRemarkRequest \<Rightarrow> (friend_api, unit) act" where
  "api_update_friend_remark env q = reject_if (ur_remark q = '''') ''remark is none''
     (and_then (on_db (update_friend_remark (fa_friends env) (ur_user_id q) (ur_friend_id q) (ur_remark q)))
       (\<lambda>_. ok ()))"

record FriendInfo =
  fi_id :: string
  fi_name :: string
  fi_region :: "string option"
  fi_gender :: string
  fi_avatar :: string
  fi_account :: string
  fi_signature :: string
  fi_email :: "string option"
  fi_age :: int

definition friend_info :: "User \<Rightarrow> FriendInfo" where
  "friend_info u = \<lparr>fi_id = us_id u, fi_name = us_name u, fi_region = us_region u, fi_gender = us_gender u,
     fi_avatar = us_avatar u, fi_account = us_account u, fi_signature = us_signature u,
     fi_email = us_email u, fi_age = us_age u\<rparr>"

definition query_friend_info :: "friend_api_env \<Rightarrow> string \<Rightarrow> (user_db api_state, FriendInfo) act" where
  "query_friend_info env user_id =
     and_then (on_db (get_user_by_id (fa_users env) user_id)) (\<lambda>r.
     case r of None \<Rightarrow> fail (Failed not_found) | Some u \<Rightarrow> ok (friend_info u))"

definition api_create_friend_group :: "friend_api_env \<Rightarrow> FriendGroup \<Rightarrow> (friend_api, FriendGroup) act" where
  "api_create_friend_group env q = reject_if (fg_name q = '''') ''group name is empty''
     (on_db (create_friend_group (fa_friends env) (fg_user_id q) (fg_name q) (fg_display_order q)))"

definition api_update_friend_group :: "friend_api_env \<Rightarrow> FriendGroup \<Rightarrow> (friend_api, FriendGroup) act" where
  "api_update_friend_group env q = reject_if (fg_name q = '''' \<or> fg_id q = '''') ''group name or id is empty''
     (on_db (update_friend_group (fa_friends env) (fg_id q) (fg_name q) (fg_display_order q)))"

definition api_delete_friend_group :: "friend_api_env \<Rightarrow> string \<Rightarrow> (friend_api, unit) act" where
  "api_delete_friend_group env i = on_db (delete_friend_group (fa_friends env) i)"

definition api_get_friend_groups :: "friend_api_env \<Rightarrow> string \<Rightarrow> (friend_api, FriendGroup list) act" where
  "api_get_friend_groups env i = on_db (get_friend_groups (fa_friends env) i)"

record UpdateFriendGroupRequest =
  ufg_user_id :: string
  ufg_friend_id :: string
  ufg_group_id :: string

definition api_assign_friend_to_group :: "friend_api_env \<Rightarrow> UpdateFriendGroupRequest \<Rightarrow> (friend_api, unit) act" where
  "api_assign_friend_to_group env q =
     reject_if (ufg_friend_id q = '''' \<or> ufg_group_id q = '''') ''friend_id or group_id is empty''
       (and_then (on_db (assign_friend_to_group (fa_friends env) (ufg_user_id q) (ufg_friend_id q) (ufg_group_id q)))
         (\<lambda>_. ok ()))"

definition api_create_friend_tag :: "friend_api_env \<Rightarrow> FriendTag \<Rightarrow> (friend_api, FriendTag) act" where
  "api_create_friend_tag env q = reject_if (ft_tag_name q = '''') ''tag name is empty''
     (on_db (create_friend_tag (fa_friends env) (ft_user_id q) (ft_tag_name q) (ft_tag_color q)))"

definition api_delete_friend_tag :: "friend_api_env \<Rightarrow> string \<Rightarrow> (friend_api, unit) act" where
  "api_delete_friend_tag env i = on_db (delete_friend_tag (fa_friends env) i)"

definition api_get_friend_tags :: "friend_api_env \<Rightarrow> string \<Rightarrow> (friend_api, FriendTag list) act" where
  "api_get_friend_tags env i = on_db (get_friend_tags (fa_friends env) i)"

record ManageFriendTagRequest =
  mt_user_id :: string
  mt_friend_id :: string
  mt_tag_ids :: "string list"
  mt_is_add :: bool

definition manage_friend_tags :: "friend_api_env \<Rightarrow> ManageFriendTagRequest \<Rightarrow> (friend_api, unit) act" where
  "manage_friend_tags env q =
     reject_if (mt_friend_id q = '''' \<or> mt_tag_ids q = []) ''friend_id or tag_ids is empty''
       (if mt_is_add q
        then on_db (add_tags_to_friend (fa_friends env) (mt_user_id q) (mt_friend_id q) (mt_tag_ids q))
        else on_db (remove_tags_from_friend (fa_friends env) (mt_user_id q) (mt_friend_id q) (mt_tag_ids q)))"

definition api_update_friend_privacy :: "friend_api_env \<Rightarrow> FriendPrivacySettings \<Rightarrow> (friend_api, unit) act" where
  "api_update_friend_privacy env q = reject_if (pv_friend_id q = '''') ''friend_id is empty''
     (on_db (update_friend_privacy (fa_friends env) (pv_user_id q) (pv_friend_id q) q))"

definition api_get_friend_privacy ::
  "friend_api_env \<Rightarrow> string \<Rightarrow> string \<Rightarrow> (friend_api, FriendPrivacySettings) act" where
  "api_get_friend_privacy env user_id friend_id = on_db (get_friend_privacy (fa_friends env) user_id friend_id)"

record InteractionScoreRequest =
  is_user_id :: string
  is_friend_id :: string
  is_score :: f32

definition api_update_interaction_score ::
  "friend_api_env \<Rightarrow> InteractionScoreRequest \<Rightarrow> (friend_api, f32) act" where
  "api_update_interaction_score env q =
     reject_if (is_user_id q = '''' \<or> is_friend_id q = '''') ''user_id or friend_id is empty''
       (on_db (update_interaction_score (fa_friends env) (is_user_id q) (is_friend_id q) (is_score q)))"

record InteractionStats =
  st_score :: f32
  st_count :: int
  st_last_interaction :: int

definition api_get_interaction_stats ::
  "friend_api_env \<Rightarrow> string \<Rightarrow> string \<Rightarrow> (friend_api, InteractionStats) act" where
  "api_get_interaction_stats env user_id friend_id =
     and_then (on_db (get_interaction_stats (fa_friends env) user_id friend_id)) (\<lambda>(score, count, last).
     ok \<lparr>st_score = score, st_count = count, st_last_interaction = last\<rparr>)"

section \<open>Messages\<close>

text \<open>The API reads the box through \<open>Arc<dyn MsgRecBoxRepo>\<close>; the two implementations.\<close>

record 'b reader_ops =
  ro_get_msgs :: "string \<Rightarrow> int \<Rightarrow> int \<Rightarrow> int \<Rightarrow> int \<Rightarrow> ('b, Msg list) act"
  ro_delete :: "string \<Rightarrow> int list \<Rightarrow> ('b, unit) act"

definition legacy_reader :: "int \<Rightarrow> failure option \<Rightarrow> collection reader_ops" where
  "legacy_reader cap outage =
     \<lparr>ro_get_msgs = box_get_msgs cap outage, ro_delete = box_delete_messages outage\<rparr>"

definition sharded_reader :: "shard_env \<Rightarrow> shard_box reader_ops" where
  "sharded_reader env = \<lparr>ro_get_msgs = shard_get_msgs env, ro_delete = shard_delete_messages env\<rparr>"

definition pull_offline_messages :: "'b reader_ops \<Rightarrow> GetDbMessagesRequest \<Rightarrow> ('b api_state, Msg list) act" where
  "pull_offline_messages ops q = on_db (ro_get_msgs ops (gms_user_id q) (gms_send_start q) (gms_send_end q)
     (gms_start q) (gms_end q))"

record Seq =
  cur_rec_seq :: int
  cur_send_seq :: int

definition api_get_seq :: "api_env \<Rightarrow> string \<Rightarrow> ('b api_state, Seq) act" where
  "api_get_seq env user_id = and_then (on_cache (get_cur_seq (ae_out env AGetSeq) user_id))
     (\<lambda>(a, b). ok \<lparr>cur_rec_seq = a, cur_send_seq = b\<rparr>)"

record DelMsgRequest =
  dm_user_id :: string
  dm_msg_id :: "int list"

definition del_msg :: "'b reader_ops \<Rightarrow> DelMsgRequest \<Rightarrow> ('b api_state, unit) act" where
  "del_msg ops q = on_db (ro_delete ops (dm_user_id q) (dm_msg_id q))"

section \<open>Facts\<close>

lemma fbase_sel [simp]:
  "ae_step (fbase env) = ae_step env" "ae_out (fbase env) = ae_out env" "ae_rpc (fbase env) = ae_rpc env"
  "ae_json (fbase env) = ae_json env" "ae_nid (fbase env) = ae_nid env" "ae_clock (fbase env) = ae_clock env"
  "ae_kafka (fbase env) = ae_kafka env"
  by (simp_all add: api_env.truncate_def)

text \<open>The request the other side is told of carries the requester.\<close>

lemma create_fs_sender:
  assumes "create_fs env c db = (Inr (req, send), db')"
  shows "fw_user_id send = fc_user_id c"
  using assms by (auto simp: create_fs_def and_then_def split: prod.splits sum.splits)

definition request_notice :: "friend_api_env \<Rightarrow> FsCreate \<Rightarrow> int \<Rightarrow> string \<Rightarrow> Msg" where
  "request_notice env c n p = stamp (ae_nid env) (ae_clock env) (msg_default\<lparr>send_seq := n,
     sender_id := fc_user_id c, receiver_id := fc_friend_id c, send_time := ae_now env, content := p,
     msg_type := msg_type_code FriendApplyReq\<rparr>)"

lemma request_notice_sel [simp]:
  "sender_id (request_notice env c n p) = fc_user_id c" "receiver_id (request_notice env c n p) = fc_friend_id c"
  "send_seq (request_notice env c n p) = n" "content (request_notice env c n p) = p"
  "msg_type (request_notice env c n p) = msg_type_code FriendApplyReq"
  by (simp_all add: request_notice_def stamp_def)

lemma create_friendship_up:
  assumes "create_fs (fa_friends env) c (as_db s) = (Inr (req, send), db')"
    and "fa_bin_fs env send = Inr p" and "chat_up (fbase env)" and "send_room (as_redis s) (fc_user_id c)"
  shows "create_friendship env c s = (Inr req, s\<lparr>as_db := db',
      as_redis := numbered_send (fbase env) (fc_user_id c) (as_redis s),
      as_queue := as_queue s @ [ae_json env (request_notice env c (next_number (as_redis s) (fc_user_id c)) p)]\<rparr>)"
  using assms create_fs_sender [OF assms(1)]
    notify_up [of "fbase env" "s\<lparr>as_db := db'\<rparr>" "fc_user_id c"
      "\<lambda>n fs. new_with_friend_ship_req (ae_now env) (fc_user_id c) (fc_friend_id c) fs n" p,
      OF assms(3) _ new_with_friend_ship_req_def]
  by (simp add: create_friendship_def and_then_def on_part_def request_notice_def)

section \<open>Properties\<close>

text \<open>
  A friend request and its acceptance notify both sides in turn: the request is queued for the
  friend under the requester's next send number, and the acceptance, which names only the request,
  is queued for the requester under the friend's next number; the second notice names no sender.
\<close>

theorem friend_handshake_notices:
  assumes "create_fs (fa_friends env) c (as_db s) = (Inr (req, send), db1)"
    and agreed: "agree_friend_apply_request (fa_friends env') a db1 = (Inr (me, you), db2)"
    and "fa_bin_fs env send = Inr p" and "fa_bin_friend env' you = Inr p'"
    and "chat_up (fbase env)" and "chat_up (fbase env')" and "fd_friend_id you \<noteq> fc_user_id c"
    and "send_room (as_redis s) (fc_user_id c)" and "send_room (as_redis s) (fd_friend_id you)"
  shows "\<exists>s1 s2 m1 m2. create_friendship env c s = (Inr req, s1) \<and> agree env' a s1 = (Inr me, s2)
    \<and> as_db s2 = db2 \<and> as_queue s2 = as_queue s @ [ae_json env m1, ae_json env' m2]
    \<and> sender_id m1 = fc_user_id c \<and> receiver_id m1 = fc_friend_id c \<and> content m1 = p
    \<and> send_seq m1 = next_number (as_redis s) (fc_user_id c)
    \<and> sender_id m2 = '''' \<and> receiver_id m2 = fd_friend_id me \<and> content m2 = p'
    \<and> send_seq m2 = next_number (as_redis s) (fd_friend_id you)"
proof -
  define s1 where "s1 = s\<lparr>as_db := db1, as_redis := numbered_send (fbase env) (fc_user_id c) (as_redis s),
      as_queue := as_queue s @ [ae_json env (request_notice env c (next_number (as_redis s) (fc_user_id c)) p)]\<rparr>"
  define m2 where "m2 = stamp (ae_nid env') (ae_clock env') (msg_default\<lparr>
      send_seq := next_number (as_redis s) (fd_friend_id you), receiver_id := fd_friend_id me, content := p',
      msg_type := msg_type_code FriendApplyResp, send_time := ae_now env'\<rparr>)"
  have "create_friendship env c s = (Inr req, s1)"
    unfolding s1_def using assms by (intro create_friendship_up)
  moreover have "send_room (as_redis s1) (fd_friend_id you)"
    "next_number (as_redis s1) (fd_friend_id you) = next_number (as_redis s) (fd_friend_id you)"
    using assms(7,9) by (simp_all add: s1_def)
  then have "agree env' a s1 = (Inr me, s1\<lparr>as_db := db2,
      as_redis := numbered_send (fbase env') (fd_friend_id you) (as_redis s1),
      as_queue := as_queue s1 @ [ae_json env' m2]\<rparr>)"
    using agreed assms(4,6) notify_up [of "fbase env'" "s1\<lparr>as_db := db2\<rparr>" "fd_friend_id you"
      "\<lambda>n friend. new_with_friend_ship_resp (ae_now env') (fd_friend_id me) friend n" p',
      OF assms(6) _ new_with_friend_ship_resp_def]
    by (simp add: agree_def and_then_def on_part_def s1_def m2_def)
  ultimately show ?thesis
    by (intro exI [of _ s1] exI [of _ "request_notice env c (next_number (as_redis s) (fc_user_id c)) p"]
        exI [of _ m2] exI)
       (rule conjI, assumption, rule conjI, assumption, simp add: s1_def m2_def stamp_def msg_default_def)
qed

text \<open>
  Anybody can announce the end of any friendship: the notice of \<open>delete_friend\<close> goes from the
  user to the friend the body names whether or not the friendship of the body belongs to them; no
  send number is taken for it, and the number it carries is 0. A body with an empty id is refused
  and changes nothing.
\<close>

theorem delete_notice_unchecked:
  assumes "chat_up (fbase env)" and "\<And>n. fe_stmt (fa_friends env) n = None"
    and "fe_schema (fa_friends env) = migrated"
  shows "if dfr_user_id q = '''' \<or> dfr_friend_id q = '''' \<or> dfr_fs_id q = ''''
    then \<exists>d. api_delete_friend env q s = (Inl (Failed (bad_request d)), s)
    else \<exists>s' m. api_delete_friend env q s = (Inr (), s') \<and> as_redis s' = as_redis s
      \<and> as_db s' = snd (delete_friend (fa_friends env) (dfr_fs_id q) (dfr_user_id q) (as_db s))
      \<and> as_queue s' = as_queue s @ [ae_json env m] \<and> msg_type m = msg_type_code FriendDelete
      \<and> sender_id m = dfr_user_id q \<and> receiver_id m = dfr_friend_id q \<and> send_seq m = 0"
proof (cases "dfr_user_id q = '''' \<or> dfr_friend_id q = '''' \<or> dfr_fs_id q = ''''")
  case True
  then show ?thesis
    by (auto simp: api_delete_friend_def delete_friend_validate_def and_then_def)
next
  case False
  have "fst (delete_friend (fa_friends env) (dfr_fs_id q) (dfr_user_id q) (as_db s)) = Inr ()"
    using assms(2,3) by (simp add: delete_friend_def transaction_def and_then_def checked_def)
  then obtain db' where d: "delete_friend (fa_friends env) (dfr_fs_id q) (dfr_user_id q) (as_db s) = (Inr (), db')"
    by (metis prod.collapse)
  have v: "delete_friend_validate q = Inr ()" using False by (simp add: delete_friend_validate_def)
  define m where "m = stamp (ae_nid env) (ae_clock env) (msg_default\<lparr>sender_id := dfr_user_id q,
    receiver_id := dfr_friend_id q, send_time := ae_now env, msg_type := msg_type_code FriendDelete\<rparr>)"
  have "api_delete_friend env q s = (Inr (), s\<lparr>as_queue := as_queue s @ [ae_json env m], as_db := db'\<rparr>)"
    using assms(1) v d by (simp add: api_delete_friend_def on_part_def and_then_def chat_send_def send_msg_def
        new_with_friend_del_def Let_def chat_up_def m_def)
  then show ?thesis
    unfolding if_not_P [OF False] d
    by (intro exI [of _ m] exI) (rule conjI, assumption, simp add: m_def stamp_def msg_default_def)
qed

section \<open>Concrete instances\<close>

definition demo_friend_api_env :: friend_api_env where
  "demo_friend_api_env = \<lparr>ae_step = 5, ae_out = (\<lambda>_. None), ae_rpc = None, ae_utf8 = (\<lambda>_. True),
     ae_json = content, ae_nid = ''n'', ae_clock = 2000, ae_kafka = None, ae_now = 1000,
     fa_friends = demo_friend_env, fa_users = demo_user_env, fa_bin_fs = (\<lambda>_. Inr ''single''),
     fa_bin_friend = (\<lambda>_. Inr ''friend'')\<rparr>"

definition demo_friend_api :: friend_api where
  "demo_friend_api = \<lparr>as_redis = redis_empty, as_db = demo_friend_db, as_queue = []\<rparr>"

lemma demo_friend_api_sel [simp]:
  "chat_up (fbase demo_friend_api_env)" "fa_friends demo_friend_api_env = demo_friend_env"
  "fa_bin_fs demo_friend_api_env x = Inr ''single''" "fa_bin_friend demo_friend_api_env y = Inr ''friend''"
  "ae_json demo_friend_api_env = content" "ae_step demo_friend_api_env = 5"
  "as_redis demo_friend_api = redis_empty" "as_db demo_friend_api = demo_friend_db" "as_queue demo_friend_api = []"
  "send_room redis_empty u" "next_number redis_empty u = 1"
  by (simp_all add: demo_friend_api_env_def demo_friend_api_def chat_up_def send_room_def next_number_def
      cur_of_def hget_def redis_empty_def i64_ok_def)

lemma demo_handshake:
  "\<exists>req send. create_fs demo_friend_env demo_request demo_friend_db =
     (Inr (req, send), requested demo_friend_env demo_request demo_friend_db)"
  "\<exists>me you db2. agree_friend_apply_request demo_friend_env (demo_reply ''fs1'')
     (requested demo_friend_env demo_request demo_friend_db) = (Inr (me, you), db2)
     \<and> fd_friend_id me = ''b'' \<and> fd_friend_id you = ''a''"
proof -
  let ?q = "new_request demo_friend_env demo_request"
  have pair: "pair_up ''b'' (users_of_pair ''b'' ''a'' db) = Inr (demo_user ''b'', demo_user ''a'')"
    if "db_users db = db_users demo_friend_db" for db
    using that by (simp add: users_of_pair_def pair_up_def)
  show "\<exists>req send. create_fs demo_friend_env demo_request demo_friend_db =
     (Inr (req, send), requested demo_friend_env demo_request demo_friend_db)"
    using request_new [of demo_friend_env demo_request demo_friend_db] pair [of demo_friend_db]
    by (simp add: create_fs_def and_then_def)
  show "\<exists>me you db2. agree_friend_apply_request demo_friend_env (demo_reply ''fs1'')
     (requested demo_friend_env demo_request demo_friend_db) = (Inr (me, you), db2)
     \<and> fd_friend_id me = ''b'' \<and> fd_friend_id you = ''a''"
    using agree_new [of demo_friend_env "demo_reply ''fs1''" "requested demo_friend_env demo_request demo_friend_db" ?q]
      pair [of "requested demo_friend_env demo_request demo_friend_db"]
    by (simp add: agree_friend_apply_request_def and_then_def requested_def new_request_def accepted_friend_def)
qed

theorem friend_handshake_notices_witness:
  "\<exists>req me s1 s2 (m1 :: Msg) (m2 :: Msg). create_friendship demo_friend_api_env demo_request demo_friend_api = (Inr req, s1)
    \<and> agree demo_friend_api_env (demo_reply ''fs1'') s1 = (Inr me, s2)
    \<and> as_queue s2 = [content m1, content m2] \<and> sender_id m1 = ''b'' \<and> receiver_id m1 = ''a''
    \<and> sender_id m2 = '''' \<and> receiver_id m2 = ''b'' \<and> send_seq m2 = 1"
proof -
  obtain req send me you db2 where
    c: "create_fs demo_friend_env demo_request demo_friend_db =
     (Inr (req, send), requested demo_friend_env demo_request demo_friend_db)" and
    a: "agree_friend_apply_request demo_friend_env (demo_reply ''fs1'')
     (requested demo_friend_env demo_request demo_friend_db) = (Inr (me, you), db2)"
     "fd_friend_id me = ''b''" "fd_friend_id you = ''a''"
    using demo_handshake by blast
  show ?thesis
    using friend_handshake_notices [of demo_friend_api_env demo_request demo_friend_api req send
        "requested demo_friend_env demo_request demo_friend_db" demo_friend_api_env "demo_reply ''fs1''" me you db2
        "''single''" "''friend''"] c a
    by simp blast
qed

theorem delete_notice_unchecked_witness:
  "\<exists>s' (m :: Msg). api_delete_friend demo_friend_api_env
      \<lparr>dfr_user_id = ''c'', dfr_friend_id = ''a'', dfr_fs_id = ''none''\<rparr> demo_friend_api = (Inr (), s')
    \<and> as_queue s' = [content m] \<and> sender_id m = ''c'' \<and> receiver_id m = ''a''"
  using delete_notice_unchecked [of demo_friend_api_env
      "\<lparr>dfr_user_id = ''c'', dfr_friend_id = ''a'', dfr_fs_id = ''none''\<rparr>" demo_friend_api]
  by auto

end
