(* ===== verification/Consumer.thy ===== *)
theory Consumer
  imports Pusher Group_Repo
begin

text \<open>
  The consumer of the message queue (\<open>msg_server/src/consumer.rs\<close>): the whole handler
  \<open>handle_msg\<close> with everything it calls, and the loop \<open>consume\<close> that commits offsets.

  The world the handler works on is the record \<open>world\<close>: the Redis keyspace, the tables, the
  receive box and the pusher. The receive box is behind a trait object, so its operations are
  a record of functions (\<open>box_ops\<close>); what the handler needs of them is the locale
  \<open>msg_rec_box\<close>. The environment says which remote call fails and how the payloads decode
  (\<open>serde_json\<close>, \<open>bincode\<close>).

  Spawned tasks are run one after the other in the order of their creation; the two tasks of
  each handler touch different parts of the world, so their interleaving does not matter
  (lemma \<open>on_part_commute\<close>). A task that panics makes the join fail with an internal error,
  after all tasks have run.
\<close>

section \<open>World and environment\<close>

record 'b world =
  w_redis :: redis
  w_seq :: "SeqRow list"
  w_audit :: "sql_row list"
  w_groups :: group_db
  w_box :: 'b
  w_push :: pusher

record 'b box_ops =
  bo_save :: "Msg \<Rightarrow> ('b, unit) act"
  bo_save_group :: "Msg \<Rightarrow> GroupMemSeq list \<Rightarrow> ('b, unit) act"
  bo_delete :: "string \<Rightarrow> ('b, unit) act"
  bo_read :: "string \<Rightarrow> int list \<Rightarrow> ('b, unit) act"

datatype call = CGetSendSeq | CSendSaveMax | CIncreaseSeq | CSaveMax | CQueryMembers | CSaveMembers
  | CIncrGroup | CDelGroup | CRemoveMember | CRemoveBatch | CSaveMaxBatch | CSaveAudit

record 'b consumer_env =
  ce_step :: int
  ce_decode_msg :: "string \<Rightarrow> Msg res"
  ce_decode_read :: "string \<Rightarrow> MsgRead res"
  ce_decode_ids :: "string \<Rightarrow> string list res"
  ce_out :: "call \<Rightarrow> failure option"
  ce_groups :: group_env
  ce_box :: "'b box_ops"
  ce_push :: push_env

abbreviation on_redis :: "(redis, 'a) act \<Rightarrow> ('b world, 'a) act" where
  "on_redis m \<equiv> on_part w_redis (\<lambda>c w. w\<lparr>w_redis := c\<rparr>) m"

abbreviation on_seq :: "(SeqRow list, 'a) act \<Rightarrow> ('b world, 'a) act" where
  "on_seq m \<equiv> on_part w_seq (\<lambda>c w. w\<lparr>w_seq := c\<rparr>) m"

abbreviation on_audit :: "(sql_row list, 'a) act \<Rightarrow> ('b world, 'a) act" where
  "on_audit m \<equiv> on_part w_audit (\<lambda>c w. w\<lparr>w_audit := c\<rparr>) m"

abbreviation on_groups :: "(group_db, 'a) act \<Rightarrow> ('b world, 'a) act" where
  "on_groups m \<equiv> on_part w_groups (\<lambda>c w. w\<lparr>w_groups := c\<rparr>) m"

abbreviation on_box :: "('b, 'a) act \<Rightarrow> ('b world, 'a) act" where
  "on_box m \<equiv> on_part w_box (\<lambda>c w. w\<lparr>w_box := c\<rparr>) m"

abbreviation on_push :: "(pusher, 'a) act \<Rightarrow> ('b world, 'a) act" where
  "on_push m \<equiv> on_part w_push (\<lambda>c w. w\<lparr>w_push := c\<rparr>) m"

text \<open>\<open>RedisCache::from_config\<close> and \<open>PostgresSeq\<close> read the same configured step.\<close>

definition cache_step :: "'b consumer_env \<Rightarrow> int" where
  "cache_step env = cache_seq_step (ce_step env)"

section \<open>Tasks\<close>

text \<open>A spawned task that logs its error: only a panic is seen by whoever joins it.\<close>

definition spawn_logged :: "('s, 'a) act \<Rightarrow> ('s, unit) act" where
  "spawn_logged m s =
     (case m s of
        (Inl (Panicked p), t) \<Rightarrow> (Inl (Failed (internal p)), t)
      | (_, t) \<Rightarrow> (Inr (), t))"

text \<open>\<open>futures::future::try_join_all\<close> on join handles: all tasks run, the first failing one gives
  the answer.\<close>

fun try_join_all :: "('s, unit) act list \<Rightarrow> ('s, unit) act" where
  "try_join_all [] = ok ()"
| "try_join_all (t # ts) = (\<lambda>s.
     (case t s of
        (r, s1) \<Rightarrow> (case try_join_all ts s1 of
                      (r', s2) \<Rightarrow> ((case r of Inl e \<Rightarrow> Inl e | Inr _ \<Rightarrow> r'), s2))))"

section \<open>Classification\<close>

datatype MsgType2 = Single | Group

fun classify_msg_type :: "MsgType \<Rightarrow> MsgType2 \<times> bool \<times> bool" where
  "classify_msg_type SingleMsg = (Single, True, True)"
| "classify_msg_type SingleCallInviteNotAnswer = (Single, True, True)"
| "classify_msg_type SingleCallInviteCancel = (Single, True, True)"
| "classify_msg_type Hangup = (Single, True, True)"
| "classify_msg_type ConnectSingleCall = (Single, True, True)"
| "classify_msg_type RejectSingleCall = (Single, True, True)"
| "classify_msg_type FriendApplyReq = (Single, True, True)"
| "classify_msg_type FriendApplyResp = (Single, True, True)"
| "classify_msg_type FriendDelete = (Single, True, True)"
| "classify_msg_type GroupMsg = (Group, False, True)"
| "classify_msg_type GroupFile = (Group, False, True)"
| "classify_msg_type GroupPoll = (Group, False, True)"
| "classify_msg_type GroupAnnouncement = (Group, False, True)"
| "classify_msg_type GroupInvitation = (Group, False, False)"
| "classify_msg_type GroupInviteNew = (Group, False, False)"
| "classify_msg_type GroupMemberExit = (Group, False, False)"
| "classify_msg_type GroupRemoveMember = (Group, False, False)"
| "classify_msg_type GroupDismiss = (Group, False, False)"
| "classify_msg_type GroupUpdate = (Group, False, False)"
| "classify_msg_type GroupMute = (Group, False, False)"
| "classify_msg_type GroupDismissOrExitReceived = (Single, False, False)"
| "classify_msg_type GroupInvitationReceived = (Single, False, False)"
| "classify_msg_type FriendBlack = (Single, False, False)"
| "classify_msg_type SingleCallInvite = (Single, False, False)"
| "classify_msg_type AgreeSingleCall = (Single, False, False)"
| "classify_msg_type SingleCallOffer = (Single, False, False)"
| "classify_msg_type Candidate = (Single, False, False)"
| "classify_msg_type Read = (Single, False, False)"
| "classify_msg_type MsgRecResp = (Single, False, False)"
| "classify_msg_type Notification = (Single, False, False)"
| "classify_msg_type Service = (Single, False, False)"
| "classify_msg_type FriendshipReceived = (Single, False, False)"

definition get_send_to_db_flag :: "MsgType \<Rightarrow> bool" where
  "get_send_to_db_flag t \<longleftrightarrow>
     t \<notin> {ConnectSingleCall, AgreeSingleCall, Candidate, SingleCallOffer, SingleCallInvite}"

section \<open>Sequence numbers\<close>

definition handle_send_seq :: "'b consumer_env \<Rightarrow> string \<Rightarrow> ('b world, unit) act" where
  "handle_send_seq env u =
     and_then (on_redis (get_send_seq (ce_out env CGetSendSeq) u)) (\<lambda>(cur, mx).
     if cur = mx - ce_step env
     then and_then (on_seq (save_max_seq (ce_step env) (ce_out env CSendSaveMax) u)) (\<lambda>_. ok ())
     else ok ())"

definition increase_message_seq :: "'b consumer_env \<Rightarrow> string \<Rightarrow> ('b world, int) act" where
  "increase_message_seq env u =
     and_then (on_redis (increase_seq (cache_step env) (ce_out env CIncreaseSeq) u)) (\<lambda>(cur, mx, updated).
     if updated
     then and_then (on_seq (save_max_seq (ce_step env) (ce_out env CSaveMax) u)) (\<lambda>_. ok cur)
     else ok cur)"

section \<open>Group members\<close>

definition query_group_members_id_from_db :: "'b consumer_env \<Rightarrow> string \<Rightarrow> ('b world, string list) act" where
  "query_group_members_id_from_db env g =
     and_then (on_groups (query_group_members_id_db (ce_groups env) g)) (\<lambda>ms w.
       (Inr ms, snd (on_redis (save_group_members_id (ce_out env CSaveMembers) g ms) w)))"

definition get_members_id :: "'b consumer_env \<Rightarrow> string \<Rightarrow> ('b world, string list) act" where
  "get_members_id env g =
     and_then (on_redis (query_group_members_id_cache (ce_out env CQueryMembers) g)) (\<lambda>ms.
     if ms \<noteq> [] then ok ms else query_group_members_id_from_db env g)"

text \<open>The cache follows the message type after the numbers have been assigned.\<close>

definition update_roster :: "'b consumer_env \<Rightarrow> Msg \<Rightarrow> ('b world, unit) act" where
  "update_roster env m =
     (if msg_type m = msg_type_code GroupDismiss
      then on_redis (del_group_members (ce_out env CDelGroup) (receiver_id m))
      else if msg_type m = msg_type_code GroupMemberExit
      then on_redis (remove_group_member_id (ce_out env CRemoveMember) (receiver_id m) (sender_id m))
      else if msg_type m = msg_type_code GroupRemoveMember
      then (case ce_decode_ids env (content m) of
              Inl e \<Rightarrow> fail e
            | Inr ids \<Rightarrow> on_redis (remove_group_member_batch (ce_out env CRemoveBatch) (group_id m) ids))
      else ok ())"

definition handle_group_seq :: "'b consumer_env \<Rightarrow> MsgType2 \<Rightarrow> Msg \<Rightarrow> ('b world, GroupMemSeq list) act" where
  "handle_group_seq env t m =
     (if t \<noteq> Group then ok []
      else and_then (get_members_id env (receiver_id m)) (\<lambda>ms.
        and_then (on_redis (incr_group_seq (cache_step env) (ce_out env CIncrGroup)
          (filter (\<lambda>x. x \<noteq> sender_id m) ms))) (\<lambda>seqs.
        and_then (update_roster env m) (\<lambda>_. ok seqs))))"

section \<open>Storing\<close>

definition handle_message :: "'b consumer_env \<Rightarrow> Msg \<Rightarrow> bool \<Rightarrow> ('b world, unit) act" where
  "handle_message env m need_to_history =
     try_join_all
       ((if \<not> need_to_history
         then [spawn_logged (on_audit (save_message_pg (ce_out env CSaveAudit) m))] else [])
        @ [spawn_logged (on_box
             (if is_receipt (msg_type m) then bo_delete (ce_box env) (server_id m)
              else bo_save (ce_box env) m))])"

definition group_db_task :: "'b consumer_env \<Rightarrow> Msg \<Rightarrow> bool \<Rightarrow> GroupMemSeq list \<Rightarrow> ('b world, unit) act" where
  "group_db_task env m need_to_history gs =
     (let need_update = map mem_id (filter need_update gs) in
      and_then (if need_update \<noteq> []
                then on_seq (save_max_seq_batch (ce_step env) (ce_out env CSaveMaxBatch) need_update)
                else ok ()) (\<lambda>_.
      if need_to_history then on_audit (save_message_pg (ce_out env CSaveAudit) m) else ok ()))"

text \<open>\<open>tokio::try_join!\<close> of two tasks that return results: a panic of either comes first, then the
  error of the first task, then that of the second.\<close>

definition try_join2 :: "('s, unit) act \<Rightarrow> ('s, unit) act \<Rightarrow> ('s, unit) act" where
  "try_join2 t1 t2 s =
     (case t1 s of
        (r1, s1) \<Rightarrow> (case t2 s1 of
          (r2, s2) \<Rightarrow>
            ((case r1 of
                Inl (Panicked p) \<Rightarrow> Inl (Failed (internal p))
              | _ \<Rightarrow> (case r2 of
                        Inl (Panicked p) \<Rightarrow> Inl (Failed (internal p))
                      | _ \<Rightarrow> (case r1 of Inl e \<Rightarrow> Inl e | Inr _ \<Rightarrow> r2))), s2)))"

definition handle_group_message ::
  "'b consumer_env \<Rightarrow> Msg \<Rightarrow> bool \<Rightarrow> GroupMemSeq list \<Rightarrow> ('b world, unit) act" where
  "handle_group_message env m need_to_history gs =
     try_join2 (group_db_task env m need_to_history gs) (on_box (bo_save_group (ce_box env) m gs))"

definition send_to_db ::
  "'b consumer_env \<Rightarrow> Msg \<Rightarrow> MsgType2 \<Rightarrow> bool \<Rightarrow> GroupMemSeq list \<Rightarrow> ('b world, unit) act" where
  "send_to_db env m t need_to_history gs =
     (case t of
        Single \<Rightarrow> handle_message env m need_to_history
      | Group \<Rightarrow> handle_group_message env m need_to_history gs)"

definition push_task :: "'b consumer_env \<Rightarrow> Msg \<Rightarrow> MsgType2 \<Rightarrow> GroupMemSeq list \<Rightarrow> ('b world, unit) act" where
  "push_task env m t gs =
     spawn_logged (on_push (case t of
        Single \<Rightarrow> push_single_msg (ce_push env) m
      | Group \<Rightarrow> push_group_msg (ce_push env) m gs))"

section \<open>The handler\<close>

definition handle_msg_read :: "'b consumer_env \<Rightarrow> Msg \<Rightarrow> ('b world, unit) act" where
  "handle_msg_read env m =
     (case ce_decode_read env (content m) of
        Inl e \<Rightarrow> fail e
      | Inr d \<Rightarrow> on_box (bo_read (ce_box env) (read_user_id d) (read_msg_seq d)))"

definition dispatch :: "'b consumer_env \<Rightarrow> MsgType \<Rightarrow> Msg \<Rightarrow> ('b world, unit) act" where
  "dispatch env mt m =
     (case classify_msg_type mt of
        (t, need_increase_seq, need_history) \<Rightarrow>
          and_then (handle_send_seq env (sender_id m)) (\<lambda>_.
          and_then (if need_increase_seq
                    then and_then (increase_message_seq env (receiver_id m)) (\<lambda>n. ok (m\<lparr>seq := n\<rparr>))
                    else ok m) (\<lambda>m1.
          and_then (handle_group_seq env t m1) (\<lambda>gs.
            try_join_all
              ((if get_send_to_db_flag mt then [spawn_logged (send_to_db env m1 t need_history gs)] else [])
               @ [push_task env m1 t gs])))))"

definition handle_msg :: "'b consumer_env \<Rightarrow> string \<Rightarrow> ('b world, unit) act" where
  "handle_msg env payload =
     (case ce_decode_msg env payload of
        Inl e \<Rightarrow> fail e
      | Inr m \<Rightarrow>
          (case msg_type_of (msg_type m) of
             None \<Rightarrow> fail (Failed (internal ''failed to decode Protobuf message: invalid enumeration value''))
           | Some mt \<Rightarrow> if mt = Read then handle_msg_read env m else dispatch env mt m))"

section \<open>The loop\<close>

text \<open>What \<open>recv\<close> yields: an error, or a record with its offset and, when it is UTF-8, its text.
  \<open>commit_message\<close> stores the offset after the record; \<open>commit_fails\<close> says whether it failed.\<close>

datatype kafka_event = RecvError | Record nat "string option" bool

record 'b consumer_state =
  cs_world :: "'b world"
  cs_committed :: nat

fun consume_event :: "'b consumer_env \<Rightarrow> kafka_event \<Rightarrow> 'b consumer_state \<Rightarrow> 'b consumer_state" where
  "consume_event env RecvError s = s"
| "consume_event env (Record off None commit_fails) s = s"
| "consume_event env (Record off (Some payload) commit_fails) s =
     (case handle_msg env payload (cs_world s) of
        (Inl e, w) \<Rightarrow> s\<lparr>cs_world := w\<rparr>
      | (Inr _, w) \<Rightarrow>
          if commit_fails then s\<lparr>cs_world := w\<rparr>
          else s\<lparr>cs_world := w, cs_committed := Suc off\<rparr>)"

fun consume :: "'b consumer_env \<Rightarrow> kafka_event list \<Rightarrow> 'b consumer_state \<Rightarrow> 'b consumer_state" where
  "consume env [] s = s"
| "consume env (e # es) s = consume env es (consume_event env e s)"

declare handle_send_seq_def [consumer_defs] increase_message_seq_def [consumer_defs]
  query_group_members_id_from_db_def [consumer_defs] get_members_id_def [consumer_defs]
  update_roster_def [consumer_defs] handle_group_seq_def [consumer_defs] handle_message_def [consumer_defs]
  group_db_task_def [consumer_defs] handle_group_message_def [consumer_defs] send_to_db_def [consumer_defs]
  push_task_def [consumer_defs] handle_msg_read_def [consumer_defs] dispatch_def [consumer_defs]
  handle_msg_def [consumer_defs]

section \<open>Parts of the world\<close>

lemma on_part_eq: "on_part get put m w = (fst (m (get w)), put (snd (m (get w))) w)"
  by (simp add: on_part_def split: prod.split)

text \<open>Two actions on different parts give the same answers and the same world in either order.\<close>

lemma on_part_commute:
  assumes "\<And>c w. get1 (put2 c w) = get1 w" and "\<And>c w. get2 (put1 c w) = get2 w"
    and "\<And>c d w. put1 c (put2 d w) = put2 d (put1 c w)"
  shows "snd (on_part get2 put2 m2 (snd (on_part get1 put1 m1 w))) =
         snd (on_part get1 put1 m1 (snd (on_part get2 put2 m2 w)))"
    and "fst (on_part get2 put2 m2 (snd (on_part get1 put1 m1 w))) = fst (on_part get2 put2 m2 w)"
    and "fst (on_part get1 put1 m1 (snd (on_part get2 put2 m2 w))) = fst (on_part get1 put1 m1 w)"
  using assms by (simp_all add: on_part_eq)

definition calls_up :: "'b consumer_env \<Rightarrow> bool" where
  "calls_up env \<longleftrightarrow> (\<forall>c. ce_out env c = None) \<and> (\<forall>n. ge_stmt (ce_groups env) n = None)"

lemma calls_upD: "calls_up env \<Longrightarrow> ce_out env c = None" "calls_up env \<Longrightarrow> ge_stmt (ce_groups env) n = None"
  by (simp_all add: calls_up_def)

text \<open>A configured step other than zero is the step of the cache too.\<close>

lemma cache_step_pos: "0 < ce_step env \<Longrightarrow> cache_step env = ce_step env"
  by (simp add: cache_step_def cache_seq_step_def)

section \<open>Persisted maxima\<close>

text \<open>The invariant that makes the receive numbers survive a loss of the cache: for every user
  with a row, the persisted maximum is the maximum in the cache.\<close>

definition rec_synced :: "int \<Rightarrow> 'b world \<Rightarrow> bool" where
  "rec_synced step w \<longleftrightarrow>
     (\<forall>u m. rec_max_of (w_seq w) u = Some m \<longrightarrow> m = lim_of step (seq_key u) (w_redis w))"

text \<open>There is room for one more number and one more window.\<close>

definition has_room :: "int \<Rightarrow> string \<Rightarrow> redis \<Rightarrow> bool" where
  "has_room step u r \<longleftrightarrow> i64_ok (cur_of (seq_key u) r + 1) \<and> i64_ok (lim_of step (seq_key u) r + step)"

lemma handle_send_seq_noop:
  assumes "calls_up env" and "seq_wf (ce_step env) (w_redis w)"
  shows "handle_send_seq env u w = (Inr (), w)"
proof -
  have "0 < ce_step env" and win: "seq_window (ce_step env) (send_seq_key u) (w_redis w)"
    using assms(2) by (auto simp: seq_wf_def)
  then show ?thesis
    using calls_upD(1) [OF assms(1)]
    by (auto simp: handle_send_seq_def and_then_def on_part_eq get_send_seq_def seq_window_def
        split: option.splits)
qed

lemma increase_message_seq_up:
  assumes "calls_up env" and "0 < ce_step env" and "has_room (ce_step env) u (w_redis w)"
    and "rec_max_of (w_seq w) u = Some (lim_of (ce_step env) (seq_key u) (w_redis w))"
  shows "increase_message_seq env u w = (Inr (cur_of (seq_key u) (w_redis w) + 1),
    w\<lparr>w_redis := script_state (ce_step env) (seq_key u) (w_redis w),
      w_seq := (if lim_of (ce_step env) (seq_key u) (w_redis w) < cur_of (seq_key u) (w_redis w) + 1
                then map (\<lambda>r. if sq_user_id r = u then r\<lparr>rec_max_seq := rec_max_seq r + ce_step env\<rparr> else r)
                       (w_seq w)
                else w_seq w)\<rparr>)"
  using assms(3,4) calls_upD(1) [OF assms(1)]
  by (auto simp: increase_message_seq_def and_then_def on_part_eq increase_seq_def single_script_eq
      cache_step_pos [OF assms(2)] script_result_def Let_def has_room_def save_max_seq_cases)

lemma rec_synced_bump:
  assumes "rec_synced step w"
  shows "rec_synced step (w\<lparr>w_redis := script_state step (seq_key u) (w_redis w),
      w_seq := (if lim_of step (seq_key u) (w_redis w) < cur_of (seq_key u) (w_redis w) + 1
                then map (\<lambda>r. if sq_user_id r = u then r\<lparr>rec_max_seq := rec_max_seq r + step\<rparr> else r)
                       (w_seq w)
                else w_seq w)\<rparr>)"
  using assms
  by (auto simp: rec_synced_def lim_of_script_state rec_max_of_bump [where P = "\<lambda>x. x = u"])

section \<open>The handler on one message\<close>

lemma numbered_not_receipt:
  "msg_type_of (msg_type m) = Some mt \<Longrightarrow> classify_msg_type mt = (Single, True, h) \<Longrightarrow>
   \<not> is_receipt (msg_type m) \<and> mt \<noteq> Read \<and> h"
  by (cases mt) (auto simp: is_receipt_def msg_type_of_Some_iff)

lemma spawn_logged_Inr: "m s = (Inr a, t) \<Longrightarrow> spawn_logged m s = (Inr (), t)"
  by (simp add: spawn_logged_def)

lemma spawn_logged_not_panic:
  "spawn_logged m s = (case m s of (Inl (Panicked p), t) \<Rightarrow> (Inl (Failed (internal p)), t) | (_, t) \<Rightarrow> (Inr (), t))"
  by (simp add: spawn_logged_def)

lemma push_task_single_up:
  assumes "ps_clients (w_push w) \<noteq> []"
  shows "push_task env m Single gs w = (Inr (), w\<lparr>w_push :=
    \<lparr>ps_clients = filter (\<lambda>a. pe_push (ce_push env) a = None) (ps_clients (w_push w)),
     ps_sent = ps_sent (w_push w) @ map (\<lambda>a. (a, PushSingle \<lparr>message = Some m\<rparr>))
        (filter (\<lambda>a. pe_push (ce_push env) a = None) (ps_clients (w_push w)))\<rparr>\<rparr>)"
  using assms
  by (simp add: push_task_def spawn_logged_def on_part_eq push_single_msg_def and_then_def
      refill_connected channel_of_def deliver_def Let_def)

definition pushed_to_all :: "push_env \<Rightarrow> push_request \<Rightarrow> pusher \<Rightarrow> pusher \<Rightarrow> bool" where
  "pushed_to_all env req p p' \<longleftrightarrow>
     ps_sent p' = ps_sent p @ map (\<lambda>a. (a, req)) (filter (\<lambda>a. pe_push env a = None) (ps_clients p))"

lemma drop_failed_none: "\<forall>a. pe_push env a = None \<Longrightarrow> drop_failed env as clients = clients"
  by (cases as) simp_all

lemma push_task_group_up:
  assumes "ps_clients (w_push w) \<noteq> []"
  shows "\<exists>p'. push_task env m Group gs w = (Inr (), w\<lparr>w_push := p'\<rparr>)
    \<and> pushed_to_all (ce_push env) (PushGroup \<lparr>group_message = Some m, members = gs\<rparr>) (w_push w) p'
    \<and> ((\<forall>a. pe_push (ce_push env) a = None) \<longrightarrow> ps_clients p' = ps_clients (w_push w))"
  using assms
  by (simp add: push_task_def spawn_logged_def on_part_eq push_group_msg_def and_then_def
      refill_connected channel_of_def deliver_def Let_def pushed_to_all_def)
     (rule exI, rule conjI, rule refl, simp add: drop_failed_none)

text \<open>The members a group message goes to: the cached set, or the table when nothing is cached.\<close>

definition roster :: "string \<Rightarrow> 'b world \<Rightarrow> string list" where
  "roster g w = (if r_set (w_redis w) (group_key g) \<noteq> [] then r_set (w_redis w) (group_key g)
     else member_ids g (w_groups w))"

lemma roster_other [simp]:
  "roster g (w\<lparr>w_push := p\<rparr>) = roster g w" "roster g (w\<lparr>w_seq := q\<rparr>) = roster g w"
  "roster g (w\<lparr>w_box := b\<rparr>) = roster g w"
  by (simp_all add: roster_def)

lemma roster_set:
  "r_set r = r_set r' \<Longrightarrow> roster g (w\<lparr>w_redis := r\<rparr>) = roster g (w\<lparr>w_redis := r'\<rparr>)"
  by (simp add: roster_def)

lemma fold_sadd_hash [simp]: "r_hash (fold (sadd k) ms r) = r_hash r"
  by (induction ms arbitrary: r) (simp_all add: sadd_def)

lemma script_state_set [simp]: "r_set (script_state step k r) = r_set r"
  by (simp add: script_state_def hset_def Let_def)

lemma fold_script_state_set [simp]: "r_set (fold (\<lambda>u. script_state step (key u)) ms r) = r_set r"
  by (induction ms arbitrary: r) simp_all

lemma consume_append: "consume env (es @ fs) s = consume env fs (consume env es s)"
  by (induction es arbitrary: s) simp_all

lemma same_hash:
  "r_hash r = r_hash r' \<Longrightarrow> cur_of k r = cur_of k r' \<and> lim_of step k r = lim_of step k r'
     \<and> seq_wf step r = seq_wf step r'"
  unfolding cur_of_def lim_of_def seq_wf_def seq_window_def hget_def by (elim ssubst) blast

text \<open>Caching the members of a group changes nobody's roster.\<close>

lemma fold_sadd_new_members:
  "distinct (r_set r k @ ms) \<Longrightarrow> r_set (fold (sadd k) ms r) = (r_set r)(k := r_set r k @ ms)"
  by (induction ms arbitrary: r) (auto simp: sadd_def)

lemma roster_cached:
  assumes "r_set (w_redis w) (group_key g) = []" and "distinct (member_ids g (w_groups w))"
  shows "roster h (w\<lparr>w_redis := fold (sadd (group_key g)) (member_ids g (w_groups w)) (w_redis w)\<rparr>) = roster h w"
  using assms by (simp add: roster_def fold_sadd_new_members group_key_def)

lemma get_members_id_up:
  assumes "calls_up env"
  shows "\<exists>r'. get_members_id env g w = (Inr (roster g w), w\<lparr>w_redis := r'\<rparr>)
    \<and> r_hash r' = r_hash (w_redis w)
    \<and> (distinct (roster g w) \<longrightarrow> (\<forall>h. roster h (w\<lparr>w_redis := r'\<rparr>) = roster h w))"
  using calls_upD [OF assms]
  by (auto simp: get_members_id_def query_group_members_id_from_db_def and_then_def on_part_eq
      query_group_members_id_cache_def query_group_members_id_db_def save_group_members_id_def
      select_def roster_def [of g] roster_cached intro!: exI)

text \<open>What a group message gets from \<open>incr_group_seq\<close>.\<close>

definition numbered_one :: "int \<Rightarrow> redis \<Rightarrow> string \<Rightarrow> GroupMemSeq" where
  "numbered_one step r u = (case script_result step (seq_key u) r of (c, x, b) \<Rightarrow> group_mem_seq_new u c x b)"

definition numbered :: "int \<Rightarrow> redis \<Rightarrow> string list \<Rightarrow> GroupMemSeq list" where
  "numbered step r ms = map (numbered_one step r) ms"

lemma numbered_one_sel [simp]:
  "mem_id (numbered_one step r u) = u"
  "cur_seq (numbered_one step r u) = cur_of (seq_key u) r + 1"
  "need_update (numbered_one step r u) \<longleftrightarrow> lim_of step (seq_key u) r < cur_of (seq_key u) r + 1"
  by (simp_all add: numbered_one_def script_result_def group_mem_seq_new_def Let_def)

lemma numbered_facts:
  "map mem_id (numbered step r ms) = ms"
  "map mem_id (filter need_update (numbered step r ms)) =
     filter (\<lambda>u. lim_of step (seq_key u) r < cur_of (seq_key u) r + 1) ms"
  by (induction ms) (auto simp: numbered_def)

lemma numbered_cong: "r_hash r = r_hash r' \<Longrightarrow> numbered step r ms = numbered step r' ms"
  by (simp add: numbered_def numbered_one_def script_result_def cur_of_def lim_of_def hget_def)

lemma find_numbered:
  "find (\<lambda>g. mem_id g = u) (numbered step r ms) =
     (if u \<in> set ms then Some (numbered_one step r u) else None)"
  by (induction ms) (auto simp: numbered_def)

lemma find_distinct_key:
  "distinct (map k xs) \<Longrightarrow> x \<in> set xs \<Longrightarrow> find (\<lambda>y. k y = k x) xs = Some x"
  by (induction xs) auto

lemma handle_group_seq_up:
  assumes "calls_up env" and "0 < ce_step env" and "distinct (roster (receiver_id m) w)"
    and "\<And>u. u \<in> set (roster (receiver_id m) w) \<Longrightarrow> u \<noteq> sender_id m \<Longrightarrow> has_room (ce_step env) u (w_redis w)"
    and "msg_type m \<notin> {msg_type_code GroupDismiss, msg_type_code GroupMemberExit, msg_type_code GroupRemoveMember}"
    and ms: "ms = filter (\<lambda>x. x \<noteq> sender_id m) (roster (receiver_id m) w)"
  shows "\<exists>r'. handle_group_seq env Group m w = (Inr (numbered (ce_step env) (w_redis w) ms),
      w\<lparr>w_redis := fold (\<lambda>u. script_state (ce_step env) (seq_key u)) ms r'\<rparr>)
    \<and> r_hash r' = r_hash (w_redis w) \<and> (\<forall>g. roster g (w\<lparr>w_redis := r'\<rparr>) = roster g w)"
proof -
  obtain r' where r': "get_members_id env (receiver_id m) w = (Inr (roster (receiver_id m) w), w\<lparr>w_redis := r'\<rparr>)"
    "r_hash r' = r_hash (w_redis w)" "\<forall>g. roster g (w\<lparr>w_redis := r'\<rparr>) = roster g w"
    using get_members_id_up [OF assms(1), of "receiver_id m" w] assms(3) by blast
  have "i64_ok (cur_of (seq_key u) r' + 1)" if "u \<in> set ms" for u
    using that assms(4) [of u] same_hash [OF r'(2), of "seq_key u"] by (auto simp: ms has_room_def)
  moreover have "distinct ms" using assms(3) by (simp add: ms)
  ultimately have "increase_seq_each (ce_step env) ms r' =
      (Inr (numbered (ce_step env) r' ms), fold (\<lambda>u. script_state (ce_step env) (seq_key u)) ms r')"
    using increase_seq_each_distinct [of ms r' "ce_step env"] by (simp add: numbered_def numbered_one_def)
  then show ?thesis
    using r' assms(5) calls_upD(1) [OF assms(1)] numbered_cong [OF r'(2)]
    by (intro exI [of _ r']) (simp add: handle_group_seq_def and_then_def on_part_eq update_roster_def
        cache_step_pos [OF assms(2)] incr_group_seq_each ms)
qed

lemma save_message_pg_fails: "\<exists>e. save_message_pg None m tbl = (Inl (Failed e), tbl)"
  by (simp add: save_message_pg_def insert_accepted_def message_insert_def Let_def db_error_def)

text \<open>The database task of a group message, with every call up: the maxima of the members that
  entered a new window are raised, nothing else changes.\<close>

lemma group_db_task_up:
  assumes "calls_up env"
    and "\<And>r. r \<in> set (w_seq w) \<Longrightarrow> sq_user_id r \<in> set ids \<Longrightarrow> i64_ok (rec_max_seq r + ce_step env)"
    and ids: "ids = map mem_id (filter need_update gs)"
  shows "\<exists>res. group_db_task env m h gs w = (res, w\<lparr>w_seq := map (\<lambda>r. if sq_user_id r \<in> set ids
      then r\<lparr>rec_max_seq := rec_max_seq r + ce_step env\<rparr> else r) (w_seq w)\<rparr>)
    \<and> (\<forall>p. res \<noteq> Inl (Panicked p))"
proof -
  have all: "list_all (\<lambda>r. sq_user_id r \<in> set ids \<longrightarrow> i64_ok (rec_max_seq r + ce_step env)) (w_seq w)"
    using assms(2) by (auto simp: list_all_iff)
  obtain e where "save_message_pg None m (w_audit w) = (Inl (Failed e), w_audit w)"
    using save_message_pg_fails by blast
  then show ?thesis
    using calls_upD(1) [OF assms(1)] all
    by (cases "ids = []") (auto simp: group_db_task_def ids [symmetric] and_then_def on_part_eq
        save_max_seq_batch_def Let_def)
qed

text \<open>What a handled message leaves as it was: the numbers of all but the given users, who are one
  further, the rosters, the rows of the sequence table, and the gateways while all of them answer.\<close>

definition posted :: "'b consumer_env \<Rightarrow> string set \<Rightarrow> 'b world \<Rightarrow> 'b world \<Rightarrow> bool" where
  "posted env us w w' \<longleftrightarrow>
     (\<forall>u. cur_of (seq_key u) (w_redis w') = cur_of (seq_key u) (w_redis w) + (if u \<in> us then 1 else 0))
     \<and> (\<forall>g. roster g w' = roster g w) \<and> map sq_user_id (w_seq w') = map sq_user_id (w_seq w)
     \<and> ((\<forall>a. pe_push (ce_push env) a = None) \<longrightarrow> ps_clients (w_push w') = ps_clients (w_push w))"

lemma fanned_out_sender: "x \<in># fanned_out m gs \<Longrightarrow> sender_id x = sender_id m"
  by (auto simp: fanned_out_def member_copy_def stored_view_def)

lemma synced_row_fits:
  assumes "rec_synced step w" and "seq_table_ok (w_seq w)" and "r \<in> set (w_seq w)"
    and "has_room step (sq_user_id r) (w_redis w)"
  shows "i64_ok (rec_max_seq r + step)"
proof -
  have "find (\<lambda>x. sq_user_id x = sq_user_id r) (w_seq w) = Some r"
    using assms(2,3) by (simp add: seq_table_ok_def find_distinct_key)
  then have "rec_max_seq r = lim_of step (seq_key (sq_user_id r)) (w_redis w)"
    using assms(1) by (simp add: rec_synced_def rec_max_of_def)
  with assms(4) show ?thesis by (simp add: has_room_def)
qed

text \<open>Numbering a group: the counters of the members go up by one, and the table row of everyone
  whose window was used up follows the cache, so that cache and table agree again.\<close>

lemma numbered_world:
  assumes "distinct ms" and "r_hash r' = r_hash (w_redis w)"
    and w': "w_redis w' = fold (\<lambda>u. script_state step (seq_key u)) ms r'"
    and seq: "w_seq w' = map (\<lambda>r. if sq_user_id r \<in> set ids then r\<lparr>rec_max_seq := rec_max_seq r + step\<rparr> else r) (w_seq w)"
    and ids: "ids = filter (\<lambda>u. lim_of step (seq_key u) (w_redis w) < cur_of (seq_key u) (w_redis w) + 1) ms"
  shows "cur_of (seq_key u) (w_redis w') = cur_of (seq_key u) (w_redis w) + (if u \<in> set ms then 1 else 0)"
    and "rec_synced step w \<Longrightarrow> rec_synced step w'"
proof -
  note same = same_hash [OF assms(2), of "seq_key u" step for u]
  note counters = fold_script_state [OF assms(1), of u step r' for u]
  show "cur_of (seq_key u) (w_redis w') = cur_of (seq_key u) (w_redis w) + (if u \<in> set ms then 1 else 0)"
    using same counters by (simp add: w')
  have "lim_of step (seq_key u) (w_redis w') = lim_of step (seq_key u) (w_redis w) + (if u \<in> set ids then step else 0)" for u
    using same counters by (simp add: w' ids)
  moreover have "rec_max_of (w_seq w') u = map_option (\<lambda>m. if u \<in> set ids then m + step else m) (rec_max_of (w_seq w) u)" for u
    by (simp add: seq rec_max_of_bump [where P = "\<lambda>x. x \<in> set ids"])
  ultimately show "rec_synced step w \<Longrightarrow> rec_synced step w'" by (auto simp: rec_synced_def)
qed

locale box_client = msg_rec_box "bo_save ops" "bo_save_group ops" inbox inv
  for ops :: "'b box_ops" and inbox :: "'b \<Rightarrow> Msg multiset" and inv :: "'b \<Rightarrow> bool"
begin

text \<open>A message to one receiver, up to the push: it is numbered with the receiver's next number
  and stored in the receiver's box once and in nobody else's.\<close>

lemma single_stored:
  assumes env: "ce_box env = ops" "calls_up env" "0 < ce_step env"
    and msg: "ce_decode_msg env payload = Inr m" "msg_type_of (msg_type m) = Some mt"
      "classify_msg_type mt = (Single, True, h)" "get_send_to_db_flag mt"
    and world: "seq_wf (ce_step env) (w_redis w)" "rec_synced (ce_step env) w"
      "rec_max_of (w_seq w) (receiver_id m) \<noteq> None" "has_room (ce_step env) (receiver_id m) (w_redis w)"
      "inv (w_box w)"
    and n: "n = cur_of (seq_key (receiver_id m)) (w_redis w) + 1"
    and box: "fst (bo_save ops (m\<lparr>seq := n\<rparr>) (w_box w)) = Inr ()"
  shows "\<exists>w'. handle_msg env payload w = push_task env (m\<lparr>seq := n\<rparr>) Single [] w'
    \<and> (\<forall>u. inbox_of u (inbox (w_box w')) = inbox_of u (inbox (w_box w))
         + (if u = receiver_id m then {#stored_view (m\<lparr>seq := n\<rparr>)#} else {#}))
    \<and> w_push w' = w_push w \<and> cur_of (seq_key (receiver_id m)) (w_redis w') = n
    \<and> seq_wf (ce_step env) (w_redis w') \<and> rec_synced (ce_step env) w' \<and> inv (w_box w')
    \<and> posted env {receiver_id m} w w'"
proof -
  define u where "u = receiver_id m"
  define m1 where "m1 = m\<lparr>seq := n\<rparr>"
  have synced: "rec_max_of (w_seq w) u = Some (lim_of (ce_step env) (seq_key u) (w_redis w))"
    using world(2,3) by (auto simp: rec_synced_def u_def)
  obtain w1 where w1: "increase_message_seq env u w = (Inr n, w1)"
    and w1_redis: "w_redis w1 = script_state (ce_step env) (seq_key u) (w_redis w)"
    and w1_rest: "w_box w1 = w_box w" "w_push w1 = w_push w" "rec_synced (ce_step env) w1"
      "w_groups w1 = w_groups w" "map sq_user_id (w_seq w1) = map sq_user_id (w_seq w)"
    using increase_message_seq_up [OF env(2,3) world(4) [folded u_def] synced]
      rec_synced_bump [OF world(2), of u] n by (auto simp: u_def o_def cong: map_cong)
  obtain b where b: "bo_save ops m1 (w_box w) = (Inr (), b)"
    using box by (cases "bo_save ops (m\<lparr>seq := n\<rparr>) (w_box w)") (auto simp: m1_def)
  define w2 where "w2 = w1\<lparr>w_box := b\<rparr>"
  have kind: "\<not> is_receipt (msg_type m1)" "mt \<noteq> Read" "h"
    using numbered_not_receipt [OF msg(2,3)] by (auto simp: m1_def)
  have "send_to_db env m1 Single h [] w1 = (Inr (), w2)"
    using kind b by (simp add: send_to_db_def handle_message_def spawn_logged_def on_part_eq env(1) w1_rest w2_def)
  then have "handle_msg env payload w = push_task env m1 Single [] w2"
    using msg kind w1 handle_send_seq_noop [OF env(2) world(1)]
    by (simp add: handle_msg_def dispatch_def and_then_def handle_group_seq_def m1_def u_def
        spawn_logged_def [of "send_to_db _ _ _ _ _"] split: prod.split sum.split)
  moreover have "inv b \<and> inbox b = add_mset (stored_view m1) (inbox (w_box w))"
    using save_ok [OF world(5) b] .
  moreover have "posted env {u} w w2"
    using w1_rest by (auto simp: posted_def w2_def w1_redis roster_def cur_of_script_state)
  ultimately show ?thesis
    using w1_rest seq_wf_script_state(1) [OF world(1), of u] cur_of_script_state
    by (intro exI [of _ w2]) (auto simp: w2_def w1_redis u_def m1_def n rec_synced_def)
qed

lemma single_posted:
  assumes env: "ce_box env = ops" "calls_up env" "0 < ce_step env"
    and msg: "ce_decode_msg env payload = Inr m" "msg_type_of (msg_type m) = Some mt"
      "classify_msg_type mt = (Single, True, h)" "get_send_to_db_flag mt"
    and world: "seq_wf (ce_step env) (w_redis w)" "rec_synced (ce_step env) w"
      "rec_max_of (w_seq w) (receiver_id m) \<noteq> None" "has_room (ce_step env) (receiver_id m) (w_redis w)"
      "inv (w_box w)" "ps_clients (w_push w) \<noteq> []"
    and n: "n = cur_of (seq_key (receiver_id m)) (w_redis w) + 1"
    and box: "fst (bo_save ops (m\<lparr>seq := n\<rparr>) (w_box w)) = Inr ()"
  shows "\<exists>w'. handle_msg env payload w = (Inr (), w')
    \<and> (\<forall>u. inbox_of u (inbox (w_box w')) = inbox_of u (inbox (w_box w))
         + (if u = receiver_id m then {#stored_view (m\<lparr>seq := n\<rparr>)#} else {#}))
    \<and> pushed_to_all (ce_push env) (PushSingle \<lparr>message = Some (m\<lparr>seq := n\<rparr>)\<rparr>) (w_push w) (w_push w')
    \<and> cur_of (seq_key (receiver_id m)) (w_redis w') = n
    \<and> seq_wf (ce_step env) (w_redis w') \<and> rec_synced (ce_step env) w' \<and> inv (w_box w')
    \<and> posted env {receiver_id m} w w'"
proof -
  obtain w2 where w2: "handle_msg env payload w = push_task env (m\<lparr>seq := n\<rparr>) Single [] w2"
    "\<forall>u. inbox_of u (inbox (w_box w2)) = inbox_of u (inbox (w_box w))
         + (if u = receiver_id m then {#stored_view (m\<lparr>seq := n\<rparr>)#} else {#})"
    "w_push w2 = w_push w" "cur_of (seq_key (receiver_id m)) (w_redis w2) = n"
    "seq_wf (ce_step env) (w_redis w2)" "rec_synced (ce_step env) w2" "inv (w_box w2)"
    "posted env {receiver_id m} w w2"
    using single_stored [OF env msg world(1-5) n box] by blast
  then show ?thesis
    using push_task_single_up [of w2 env "m\<lparr>seq := n\<rparr>" "[]"] world(6)
    by (auto simp: pushed_to_all_def rec_synced_def posted_def)
qed

lemma single_delivered:
  assumes env: "ce_box env = ops" "calls_up env" "0 < ce_step env"
    and msg: "ce_decode_msg env payload = Inr m" "msg_type_of (msg_type m) = Some mt"
      "classify_msg_type mt = (Single, True, h)" "get_send_to_db_flag mt"
    and world: "seq_wf (ce_step env) (w_redis w)" "rec_synced (ce_step env) w"
      "rec_max_of (w_seq w) (receiver_id m) \<noteq> None" "has_room (ce_step env) (receiver_id m) (w_redis w)"
      "inv (w_box w)" "ps_clients (w_push w) \<noteq> []"
    and n: "n = cur_of (seq_key (receiver_id m)) (w_redis w) + 1"
    and box: "fst (bo_save ops (m\<lparr>seq := n\<rparr>) (w_box w)) = Inr ()"
  shows "\<exists>w'. handle_msg env payload w = (Inr (), w')
    \<and> (\<forall>u. inbox_of u (inbox (w_box w')) = inbox_of u (inbox (w_box w))
         + (if u = receiver_id m then {#stored_view (m\<lparr>seq := n\<rparr>)#} else {#}))
    \<and> pushed_to_all (ce_push env) (PushSingle \<lparr>message = Some (m\<lparr>seq := n\<rparr>)\<rparr>) (w_push w) (w_push w')
    \<and> cur_of (seq_key (receiver_id m)) (w_redis w') = n
    \<and> seq_wf (ce_step env) (w_redis w') \<and> rec_synced (ce_step env) w' \<and> inv (w_box w')"
  using single_posted [OF assms] by blast

text \<open>Without any gateway the message is stored all the same, but the handler fails.\<close>

lemma single_no_gateway:
  assumes env: "ce_box env = ops" "calls_up env" "0 < ce_step env"
    and msg: "ce_decode_msg env payload = Inr m" "msg_type_of (msg_type m) = Some mt"
      "classify_msg_type mt = (Single, True, h)" "get_send_to_db_flag mt"
    and world: "seq_wf (ce_step env) (w_redis w)" "rec_synced (ce_step env) w"
      "rec_max_of (w_seq w) (receiver_id m) \<noteq> None" "has_room (ce_step env) (receiver_id m) (w_redis w)"
      "inv (w_box w)" "ps_clients (w_push w) = []" "pe_lookup (ce_push env) = Inr []"
    and n: "n = cur_of (seq_key (receiver_id m)) (w_redis w) + 1"
    and box: "fst (bo_save ops (m\<lparr>seq := n\<rparr>) (w_box w)) = Inr ()"
  shows "\<exists>w'. handle_msg env payload w =
      (Inl (Failed (internal ''mpsc bounded channel requires buffer > 0'')), w')
    \<and> inbox_of (receiver_id m) (inbox (w_box w')) =
        add_mset (stored_view (m\<lparr>seq := n\<rparr>)) (inbox_of (receiver_id m) (inbox (w_box w)))"
proof -
  obtain w2 where w2: "handle_msg env payload w = push_task env (m\<lparr>seq := n\<rparr>) Single [] w2"
    "\<forall>u. inbox_of u (inbox (w_box w2)) = inbox_of u (inbox (w_box w))
         + (if u = receiver_id m then {#stored_view (m\<lparr>seq := n\<rparr>)#} else {#})" "w_push w2 = w_push w"
    using single_stored [OF env msg world(1-5) n box] by blast
  then show ?thesis
    using world(6,7)
    by (auto simp: push_task_def spawn_logged_def on_part_eq push_single_msg_def and_then_def refill_def
        channel_of_def)
qed

text \<open>What a stored group message adds to the box.\<close>

lemma group_stored:
  assumes "inv b" and b: "bo_save_group ops m (numbered step r (filter (\<lambda>x. x \<noteq> sender_id m) us)) b = (Inr (), b')"
    and "distinct us"
  shows "inv b'"
    and "\<exists>N. inbox b' = inbox b + N \<and> (\<forall>x\<in>#N. sender_id x = sender_id m)"
    and "u \<noteq> sender_id m \<Longrightarrow> u \<noteq> receiver_id m \<Longrightarrow> inbox_of u (inbox b') = inbox_of u (inbox b) +
      (if u \<in> set us then {#stored_view (m\<lparr>seq := cur_of (seq_key u) r + 1, receiver_id := u, send_seq := 0\<rparr>)#} else {#})"
proof -
  let ?gs = "numbered step r (filter (\<lambda>x. x \<noteq> sender_id m) us)"
  obtain c where c: "inv b'" "sender_id c = sender_id m" "inbox b' = inbox b + ({#c#} + fanned_out m ?gs)"
    using save_group_ok [OF assms(1) b] by (auto simp: add.assoc)
  then show "inv b'" "\<exists>N. inbox b' = inbox b + N \<and> (\<forall>x\<in>#N. sender_id x = sender_id m)"
    by (simp, intro exI [of _ "{#c#} + fanned_out m ?gs"]) (auto simp: fanned_out_sender)
  have "distinct (map mem_id ?gs)" using assms(3) by (simp add: numbered_facts)
  then show "inbox_of u (inbox b') = inbox_of u (inbox b) +
      (if u \<in> set us then {#stored_view (m\<lparr>seq := cur_of (seq_key u) r + 1, receiver_id := u, send_seq := 0\<rparr>)#} else {#})"
    if "u \<noteq> sender_id m" "u \<noteq> receiver_id m"
    using group_reaches_member [OF assms(1) b _ that] that by (simp add: find_numbered member_copy_def)
qed

text \<open>A group message, with every service up: every member except the sender gets its own next
  number and exactly one stored copy under it, nobody outside the group gets anything, and
  the message is pushed to all gateways with the member numbers.\<close>

lemma group_posted:
  assumes env: "ce_box env = ops" "calls_up env" "0 < ce_step env"
    and msg: "ce_decode_msg env payload = Inr m" "msg_type_of (msg_type m) = Some mt"
      "classify_msg_type mt = (Group, False, h)"
      "mt \<notin> {GroupDismiss, GroupMemberExit, GroupRemoveMember}"
    and world: "seq_wf (ce_step env) (w_redis w)" "rec_synced (ce_step env) w" "seq_table_ok (w_seq w)"
      "inv (w_box w)" "ps_clients (w_push w) \<noteq> []" "distinct (roster (receiver_id m) w)"
    and room: "\<And>u. u \<in> set (roster (receiver_id m) w) \<Longrightarrow> u \<noteq> sender_id m \<Longrightarrow> has_room (ce_step env) u (w_redis w)"
    and gs: "gs = numbered (ce_step env) (w_redis w) (filter (\<lambda>x. x \<noteq> sender_id m) (roster (receiver_id m) w))"
    and box: "fst (bo_save_group ops m gs (w_box w)) = Inr ()"
  shows "\<exists>w'. handle_msg env payload w = (Inr (), w')
    \<and> (\<forall>u. u \<noteq> sender_id m \<longrightarrow> u \<noteq> receiver_id m \<longrightarrow>
        inbox_of u (inbox (w_box w')) = inbox_of u (inbox (w_box w)) +
          (if u \<in> set (roster (receiver_id m) w)
           then {#stored_view (m\<lparr>seq := cur_of (seq_key u) (w_redis w) + 1, receiver_id := u, send_seq := 0\<rparr>)#}
           else {#}))
    \<and> pushed_to_all (ce_push env) (PushGroup \<lparr>group_message = Some m, members = gs\<rparr>) (w_push w) (w_push w')
    \<and> seq_wf (ce_step env) (w_redis w') \<and> rec_synced (ce_step env) w' \<and> inv (w_box w')
    \<and> posted env (set (roster (receiver_id m) w) - {sender_id m}) w w'
    \<and> (\<exists>N. inbox (w_box w') = inbox (w_box w) + N \<and> (\<forall>x\<in>#N. sender_id x = sender_id m))"
proof -
  define ms where "ms = filter (\<lambda>x. x \<noteq> sender_id m) (roster (receiver_id m) w)"
  have code: "msg_type m = msg_type_code mt" using msg(2) by (simp add: msg_type_of_Some_iff)
  have kinds: "mt \<noteq> Read" "get_send_to_db_flag mt"
    using msg(3) by (cases mt; simp add: get_send_to_db_flag_def)+
  have other: "msg_type m \<notin> {msg_type_code GroupDismiss, msg_type_code GroupMemberExit, msg_type_code GroupRemoveMember}"
    unfolding code using msg(4) by (cases mt) simp_all
  obtain r' where r': "handle_group_seq env Group m w =
      (Inr gs, w\<lparr>w_redis := fold (\<lambda>u. script_state (ce_step env) (seq_key u)) ms r'\<rparr>)"
      "r_hash r' = r_hash (w_redis w)" "\<forall>g. roster g (w\<lparr>w_redis := r'\<rparr>) = roster g w"
    using handle_group_seq_up [OF env(2,3) world(6) room other ms_def] unfolding gs ms_def by blast
  define w1 where "w1 = w\<lparr>w_redis := fold (\<lambda>u. script_state (ce_step env) (seq_key u)) ms r'\<rparr>"
  define ids where "ids = map mem_id (filter need_update gs)"
  have ids: "ids = filter (\<lambda>u. lim_of (ce_step env) (seq_key u) (w_redis w) < cur_of (seq_key u) (w_redis w) + 1) ms"
    by (simp add: ids_def gs numbered_facts ms_def)
  have "i64_ok (rec_max_seq r + ce_step env)" if "r \<in> set (w_seq w1)" "sq_user_id r \<in> set ids" for r
    using synced_row_fits [OF world(2,3)] room that by (simp add: w1_def ids ms_def)
  from group_db_task_up [OF env(2) this ids_def, where m = m and h = h]
  obtain res where db: "group_db_task env m h gs w1 = (res, w1\<lparr>w_seq := map (\<lambda>r. if sq_user_id r \<in> set ids
      then r\<lparr>rec_max_seq := rec_max_seq r + ce_step env\<rparr> else r) (w_seq w1)\<rparr>)" "\<forall>p. res \<noteq> Inl (Panicked p)"
    by blast
  obtain b where b: "bo_save_group ops m gs (w_box w) = (Inr (), b)"
    using box by (cases "bo_save_group ops m gs (w_box w)") auto
  define w2 where "w2 = w1\<lparr>w_seq := map (\<lambda>r. if sq_user_id r \<in> set ids
      then r\<lparr>rec_max_seq := rec_max_seq r + ce_step env\<rparr> else r) (w_seq w1), w_box := b\<rparr>"
  have "spawn_logged (send_to_db env m Group h gs) w1 = (Inr (), w2)"
    using db b by (auto simp: spawn_logged_def send_to_db_def handle_group_message_def try_join2_def on_part_eq
        env(1) w2_def w1_def split: sum.splits failure.splits)
  moreover obtain p' where p': "push_task env m Group gs w2 = (Inr (), w2\<lparr>w_push := p'\<rparr>)"
      "pushed_to_all (ce_push env) (PushGroup \<lparr>group_message = Some m, members = gs\<rparr>) (w_push w) p'"
      "(\<forall>a. pe_push (ce_push env) a = None) \<longrightarrow> ps_clients p' = ps_clients (w_push w)"
    using push_task_group_up [of w2 env m gs] world(5) by (auto simp: w2_def w1_def)
  ultimately have run: "handle_msg env payload w = (Inr (), w2\<lparr>w_push := p'\<rparr>)"
    using msg(1-3) kinds r'(1) handle_send_seq_noop [OF env(2) world(1)]
    by (simp add: handle_msg_def dispatch_def and_then_def w1_def)
  have "distinct ms" using world(6) by (simp add: ms_def)
  note numbers = numbered_world [OF this r'(2) _ _ ids, of w2]
  have "seq_wf (ce_step env) (w_redis w1)"
    using world(1) same_hash [OF r'(2)] by (simp add: w1_def seq_wf_fold_script_state)
  moreover have "rec_synced (ce_step env) w2" using numbers(2) world(2) by (simp add: w2_def w1_def)
  moreover have "roster g w2 = roster g w" for g
    using r'(3) roster_set [of "w_redis w2" r' g w] by (simp add: w2_def w1_def)
  then have "posted env (set (roster (receiver_id m) w) - {sender_id m}) w (w2\<lparr>w_push := p'\<rparr>)"
    using numbers(1) p'(3) by (auto simp: posted_def w2_def w1_def ms_def o_def cong: map_cong)
  ultimately show ?thesis
    using run p'(2) group_stored [OF world(4) b [unfolded gs] world(6)] by (auto simp: w2_def rec_synced_def)
qed

lemma group_delivered:
  assumes env: "ce_box env = ops" "calls_up env" "0 < ce_step env"
    and msg: "ce_decode_msg env payload = Inr m" "msg_type_of (msg_type m) = Some mt"
      "classify_msg_type mt = (Group, False, h)"
      "mt \<notin> {GroupDismiss, GroupMemberExit, GroupRemoveMember}"
    and world: "seq_wf (ce_step env) (w_redis w)" "rec_synced (ce_step env) w" "seq_table_ok (w_seq w)"
      "inv (w_box w)" "ps_clients (w_push w) \<noteq> []" "distinct (roster (receiver_id m) w)"
    and room: "\<And>u. u \<in> set (roster (receiver_id m) w) \<Longrightarrow> u \<noteq> sender_id m \<Longrightarrow> has_room (ce_step env) u (w_redis w)"
    and gs: "gs = numbered (ce_step env) (w_redis w) (filter (\<lambda>x. x \<noteq> sender_id m) (roster (receiver_id m) w))"
    and box: "fst (bo_save_group ops m gs (w_box w)) = Inr ()"
  shows "\<exists>w'. handle_msg env payload w = (Inr (), w')
    \<and> (\<forall>u. u \<noteq> sender_id m \<longrightarrow> u \<noteq> receiver_id m \<longrightarrow>
        inbox_of u (inbox (w_box w')) = inbox_of u (inbox (w_box w)) +
          (if u \<in> set (roster (receiver_id m) w)
           then {#stored_view (m\<lparr>seq := cur_of (seq_key u) (w_redis w) + 1, receiver_id := u, send_seq := 0\<rparr>)#}
           else {#}))
    \<and> pushed_to_all (ce_push env) (PushGroup \<lparr>group_message = Some m, members = gs\<rparr>) (w_push w) (w_push w')
    \<and> seq_wf (ce_step env) (w_redis w') \<and> rec_synced (ce_step env) w' \<and> inv (w_box w')"
  using group_posted [OF assms] by blast

end

section \<open>Both boxes\<close>

definition legacy_ops :: "failure option \<Rightarrow> collection box_ops" where
  "legacy_ops outage = \<lparr>bo_save = box_save_message outage, bo_save_group = box_save_group_msg outage,
     bo_delete = box_delete_message outage, bo_read = box_msg_read outage\<rparr>"

definition sharded_ops :: "shard_env \<Rightarrow> shard_box box_ops" where
  "sharded_ops senv = \<lparr>bo_save = shard_save_message senv, bo_save_group = shard_save_group_msg senv,
     bo_delete = shard_delete_message senv, bo_read = shard_msg_read senv\<rparr>"

interpretation legacy: box_client "legacy_ops outage" "\<lambda>mb. mset (msgs_of mb)" box_ok for outage
proof -
  have "msg_rec_box (bo_save (legacy_ops outage)) (bo_save_group (legacy_ops outage)) (\<lambda>mb. mset (msgs_of mb)) box_ok"
    unfolding legacy_ops_def box_ops.simps by (rule mbox.msg_rec_box_axioms)
  then show "box_client (legacy_ops outage) (\<lambda>mb. mset (msgs_of mb)) box_ok" by (simp add: box_client_def)
qed

interpretation sharded: box_client "sharded_ops senv" shard_inbox shard_ok for senv
proof -
  have "msg_rec_box (bo_save (sharded_ops senv)) (bo_save_group (sharded_ops senv)) shard_inbox shard_ok"
    unfolding sharded_ops_def box_ops.simps by (rule sbox.msg_rec_box_axioms)
  then show "box_client (sharded_ops senv) shard_inbox shard_ok" by (simp add: box_client_def)
qed

section \<open>What the handler leaves alone\<close>

lemma preserves_spawn_logged: "preserves I m \<Longrightarrow> preserves I (spawn_logged m)"
  by (auto simp: preserves_def spawn_logged_def split: prod.split sum.split failure.split)

lemma preserves_try_join_all: "(\<And>t. t \<in> set ts \<Longrightarrow> preserves I t) \<Longrightarrow> preserves I (try_join_all ts)"
proof (induction ts)
  case Nil
  show ?case by (simp only: try_join_all.simps preserves_ok)
next
  case (Cons t ts)
  show ?case
  proof (rule preservesI)
    fix s assume "I s"
    with Cons.prems [of t] have "I (snd (t s))" by (simp add: preserves_def)
    moreover have "preserves I (try_join_all ts)" using Cons by simp
    ultimately show "I (snd (try_join_all (t # ts) s))"
      by (simp add: preserves_def split: prod.split) (metis snd_conv)
  qed
qed

lemma preserves_try_join2: "preserves I m \<Longrightarrow> preserves I n \<Longrightarrow> preserves I (try_join2 m n)"
  by (simp add: preserves_def try_join2_def split: prod.split) (metis snd_conv)

lemma preserves_on_seq:
  "preserves J m \<Longrightarrow> preserves (\<lambda>w. J (w_seq w)) (on_seq m)"
  "preserves (\<lambda>w. J (w_seq w)) (on_redis m1)" "preserves (\<lambda>w. J (w_seq w)) (on_groups m2)"
  "preserves (\<lambda>w. J (w_seq w)) (on_box m3)" "preserves (\<lambda>w. J (w_seq w)) (on_push m4)"
  "preserves (\<lambda>w. J (w_seq w)) (on_audit m5)"
  by (simp_all add: preserves_def on_part_eq)

lemma preserves_pair: "(\<And>a b. preserves I (f a b)) \<Longrightarrow> preserves I (case p of (a, b) \<Rightarrow> f a b)"
  by (cases p) simp

lemma preserves_sum:
  "(\<And>e. preserves I (f e)) \<Longrightarrow> (\<And>a. preserves I (g a)) \<Longrightarrow> preserves I (case x of Inl e \<Rightarrow> f e | Inr a \<Rightarrow> g a)"
  by (cases x) simp_all

lemma preserves_option:
  "preserves I f \<Longrightarrow> (\<And>a. preserves I (g a)) \<Longrightarrow> preserves I (case x of None \<Rightarrow> f | Some a \<Rightarrow> g a)"
  by (cases x) simp_all

lemmas preserves_handler = preserves_and_then preserves_ok preserves_fail preserves_on_seq
  preserves_if preserves_pair preserves_try_join2 preserves_spawn_logged preserves_sum preserves_option

lemma preserves_try_join_parts:
  "preserves I m \<Longrightarrow> preserves I (try_join_all [m])"
  "preserves I m \<Longrightarrow> preserves I n \<Longrightarrow> preserves I (try_join_all ((if b then [m] else []) @ [n]))"
  by (rule preserves_try_join_all; auto split: if_splits)+

text \<open>The handler keeps every property of the sequence table that its two statements keep.\<close>

lemma handle_msg_preserves_seq:
  assumes "\<And>outage u. preserves J (save_max_seq (ce_step env) outage u)"
    and "\<And>outage us. preserves J (save_max_seq_batch (ce_step env) outage us)"
  shows "preserves (\<lambda>w. J (w_seq w)) (handle_msg env payload)"
proof -
  note rules = assms preserves_handler preserves_try_join_parts
  have send: "preserves (\<lambda>w. J (w_seq w)) (handle_send_seq env u)" for u
    unfolding handle_send_seq_def by (intro rules)
  have incr: "preserves (\<lambda>w. J (w_seq w)) (increase_message_seq env u)" for u
    unfolding increase_message_seq_def by (intro rules)
  have roster: "preserves (\<lambda>w. J (w_seq w)) (get_members_id env g)" for g
    unfolding get_members_id_def query_group_members_id_from_db_def
    by (intro rules) (simp add: preserves_def on_part_eq)
  have update: "preserves (\<lambda>w. J (w_seq w)) (update_roster env m)" for m
    unfolding update_roster_def by (intro rules)
  have group: "preserves (\<lambda>w. J (w_seq w)) (handle_group_seq env t m)" for t m
    unfolding handle_group_seq_def by (intro rules roster update)
  have db: "preserves (\<lambda>w. J (w_seq w)) (send_to_db env m t h gs)" for m t h gs
    unfolding send_to_db_def handle_message_def handle_group_message_def group_db_task_def Let_def
    by (cases t; simp only: MsgType2.case; intro rules)
  have push: "preserves (\<lambda>w. J (w_seq w)) (push_task env m t gs)" for m t gs
    unfolding push_task_def by (intro rules)
  have all: "preserves (\<lambda>w. J (w_seq w)) (dispatch env mt m)" for mt m
    unfolding dispatch_def by (intro rules send incr group db push)
  show ?thesis unfolding handle_msg_def handle_msg_read_def by (intro rules all)
qed

lemma preserves_send_max:
  "preserves (\<lambda>tbl. send_max_of tbl u = x) (save_max_seq step outage v)"
  "preserves (\<lambda>tbl. send_max_of tbl u = x) (save_max_seq_batch step outage vs)"
  by (rule preservesI, simp add: save_max_seq_cases send_max_of_bump [where P = "\<lambda>y. y = v"]
        split: option.split)
     (rule preservesI, cases outage; simp add: save_max_seq_batch_def send_max_of_bump [where P = "\<lambda>y. y \<in> set vs"])

section \<open>Numbers over a run and a loss of the cache\<close>

text \<open>A run of successful \<open>increase_message_seq\<close> calls and the numbers it hands out.\<close>

fun number_run ::
  "'b consumer_env \<Rightarrow> string list \<Rightarrow> 'b world \<Rightarrow> ((string \<times> int) list \<times> 'b world) option" where
  "number_run env [] w = Some ([], w)"
| "number_run env (u # us) w =
     (case increase_message_seq env u w of
        (Inl e, w1) \<Rightarrow> None
      | (Inr n, w1) \<Rightarrow> map_option (\<lambda>(xs, w2). ((u, n) # xs, w2)) (number_run env us w1))"

lemma increase_message_seq_Inr:
  assumes "increase_message_seq env u w = (Inr n, w1)" and "0 < ce_step env"
  shows "n = cur_of (seq_key u) (w_redis w) + 1
    \<and> w_redis w1 = script_state (ce_step env) (seq_key u) (w_redis w)
    \<and> (rec_synced (ce_step env) w \<longrightarrow> rec_synced (ce_step env) w1)
    \<and> (\<forall>v. rec_max_of (w_seq w1) v = None \<longleftrightarrow> rec_max_of (w_seq w) v = None)
    \<and> map sq_user_id (w_seq w1) = map sq_user_id (w_seq w)"
proof -
  let ?k = "seq_key u" and ?s = "ce_step env"
  obtain cur mx upd where script: "script_result ?s ?k (w_redis w) = (cur, mx, upd)"
    by (cases "script_result ?s ?k (w_redis w)") auto
  define w' where "w' = w\<lparr>w_redis := script_state ?s ?k (w_redis w)\<rparr>"
  have r: "increase_seq ?s None u (w_redis w) = (Inr (cur, mx, upd), script_state ?s ?k (w_redis w))"
    "ce_out env CIncreaseSeq = None"
    using assms script
    by (cases "ce_out env CIncreaseSeq"; auto simp: increase_message_seq_def and_then_def on_part_eq
        increase_seq_def single_script_eq cache_step_pos split: if_splits)+
  have cur: "cur = cur_of ?k (w_redis w) + 1" "upd \<longleftrightarrow> lim_of ?s ?k (w_redis w) < cur"
    using script by (auto simp: script_result_def Let_def split: if_splits)
  have w1: "n = cur \<and> w1 = (if upd then w'\<lparr>w_seq := map (\<lambda>r. if sq_user_id r = u
      then r\<lparr>rec_max_seq := rec_max_seq r + ?s\<rparr> else r) (w_seq w)\<rparr> else w')"
    using assms r
    by (cases "ce_out env CSaveMax"; cases upd; auto simp: increase_message_seq_def and_then_def on_part_eq
        cache_step_pos save_max_seq_cases w'_def split: option.splits if_splits)
  have "map sq_user_id (map (\<lambda>r. if sq_user_id r = u then r\<lparr>rec_max_seq := rec_max_seq r + ?s\<rparr> else r) tbl) =
      map sq_user_id tbl" for tbl
    by simp
  then show ?thesis
    using w1 cur rec_synced_bump [of ?s w u]
    by (auto simp: w'_def rec_max_of_bump [where P = "\<lambda>x. x = u"] split: if_splits)
qed

lemma number_run_facts:
  assumes "0 < ce_step env" and "number_run env us w = Some (xs, w')"
    and "seq_wf (ce_step env) (w_redis w)" and "rec_synced (ce_step env) w"
  shows "seq_wf (ce_step env) (w_redis w') \<and> rec_synced (ce_step env) w'
    \<and> map sq_user_id (w_seq w') = map sq_user_id (w_seq w)
    \<and> (\<forall>v. cur_of (seq_key v) (w_redis w) \<le> cur_of (seq_key v) (w_redis w'))
    \<and> (\<forall>v n. (v, n) \<in> set xs \<longrightarrow> n \<le> cur_of (seq_key v) (w_redis w'))"
  using assms(2-4)
proof (induction us arbitrary: w xs)
  case Nil
  then show ?case by simp
next
  case (Cons u us)
  obtain n w1 ys where step: "increase_message_seq env u w = (Inr n, w1)"
    "number_run env us w1 = Some (ys, w')" "xs = (u, n) # ys"
    using Cons.prems(1) by (auto split: prod.splits sum.splits)
  note f = increase_message_seq_Inr [OF step(1) assms(1)]
  have mono: "cur_of (seq_key v) (w_redis w) \<le> cur_of (seq_key v) (w_redis w1)"
    "n = cur_of (seq_key u) (w_redis w1)" for v
    using f by (auto simp: cur_of_script_state)
  have "seq_wf (ce_step env) (w_redis w1)" "rec_synced (ce_step env) w1"
    using f Cons.prems seq_wf_script_state(1) by auto
  from Cons.IH [OF step(2) this] have IH: "seq_wf (ce_step env) (w_redis w')" "rec_synced (ce_step env) w'"
    "map sq_user_id (w_seq w') = map sq_user_id (w_seq w1)"
    "\<And>v. cur_of (seq_key v) (w_redis w1) \<le> cur_of (seq_key v) (w_redis w')"
    "\<And>v n. (v, n) \<in> set ys \<Longrightarrow> n \<le> cur_of (seq_key v) (w_redis w')" by auto
  then show ?case using f mono(1) [THEN order_trans, OF IH(4)] mono(2) step(3) by auto
qed

lemma reload_facts:
  assumes "seq_table_ok tbl" and "length tbl \<le> 1024" and "0 < step"
  shows "\<exists>t. load_seq all_up tbl redis_empty = Some (Inr (), t) \<and> seq_wf step t
    \<and> (\<forall>u m. rec_max_of tbl u = Some m \<longrightarrow> cur_of (seq_key u) t = m \<and> lim_of step (seq_key u) t = m)
    \<and> (\<forall>u m. send_max_of tbl u = Some m \<longrightarrow> cur_of (send_seq_key u) t = m \<and> lim_of step (send_seq_key u) t = m)"
proof -
  define items where "items = map (\<lambda>r. (sq_user_id r, send_max_seq r, rec_max_seq r)) tbl"
  define t where "t = snd (set_seq_loaded None (fold set_seq_one items redis_empty))"
  have d: "distinct (map fst items)" using assms(1) by (simp add: items_def seq_table_ok_def o_def)
  have h: "hget k f t = hget k f (fold set_seq_one items redis_empty)" for k f
    by (simp add: t_def set_seq_loaded_def hget_def)
  have row: "hget (seq_key u) CUR_SEQ_KEY t = Some (rec_max_seq r) \<and> hget (seq_key u) MAX_SEQ_KEY t = Some (rec_max_seq r)
      \<and> hget (send_seq_key u) CUR_SEQ_KEY t = Some (send_max_seq r) \<and> hget (send_seq_key u) MAX_SEQ_KEY t = Some (send_max_seq r)"
    if "find (\<lambda>x. sq_user_id x = u) tbl = Some r" for u r
  proof -
    have "(u, send_max_seq r, rec_max_seq r) \<in> set items" using find_SomeD [OF that] by (auto simp: items_def)
    from fold_set_seq [OF d this, of redis_empty] show ?thesis by (simp add: h)
  qed
  have none: "hget (seq_key u) f t = None \<and> hget (send_seq_key u) f t = None"
    if "find (\<lambda>x. sq_user_id x = u) tbl = None" for u f
  proof -
    have "u \<notin> fst ` set items" using that by (auto simp: items_def find_None_iff)
    from fold_set_seq_other [OF this] show ?thesis by (simp add: h) (simp add: hget_def redis_empty_def)
  qed
  have "seq_window step (seq_key u) t \<and> seq_window step (send_seq_key u) t" for u
    using row [of u] none [of u] assms(3)
    by (cases "find (\<lambda>x. sq_user_id x = u) tbl") (auto simp: seq_window_def)
  moreover have "load_seq all_up tbl redis_empty = Some (Inr (), t)"
    using assms(2) load_seq_all_up [of redis_empty tbl]
    by (simp add: t_def set_seq_loaded_def items_def) (simp add: redis_empty_def)
  ultimately show ?thesis
    using row assms(3) by (intro exI [of _ t]) (auto simp: seq_wf_def cur_of_def lim_of_def rec_max_of_def send_max_of_def)
qed

section \<open>Properties\<close>

text \<open>
  A message to one receiver is delivered: with all services up, \<open>handle_msg\<close> succeeds, the
  message gets the receiver's next number, is stored under it exactly once in the receiver's
  box and in nobody else's, and is pushed to every connected gateway; the cache and the
  persisted maxima stay in step.
\<close>

theorem single_message_delivered:
  assumes "ce_box env = legacy_ops None" and "calls_up env" and "0 < ce_step env"
    and "ce_decode_msg env payload = Inr m" and "msg_type_of (msg_type m) = Some mt"
    and "classify_msg_type mt = (Single, True, h)" and "get_send_to_db_flag mt"
    and "seq_wf (ce_step env) (w_redis w)" and "rec_synced (ce_step env) w"
    and "rec_max_of (w_seq w) (receiver_id m) \<noteq> None"
    and "has_room (ce_step env) (receiver_id m) (w_redis w)"
    and "box_ok (w_box w)" and "ps_clients (w_push w) \<noteq> []"
  shows "let n = cur_of (seq_key (receiver_id m)) (w_redis w) + 1 in
    \<exists>w'. handle_msg env payload w = (Inr (), w')
      \<and> (\<forall>u. inbox_of u (mset (msgs_of (w_box w'))) = inbox_of u (mset (msgs_of (w_box w)))
           + (if u = receiver_id m then {#stored_view (m\<lparr>seq := n\<rparr>)#} else {#}))
      \<and> pushed_to_all (ce_push env) (PushSingle \<lparr>message = Some (m\<lparr>seq := n\<rparr>)\<rparr>) (w_push w) (w_push w')
      \<and> cur_of (seq_key (receiver_id m)) (w_redis w') = n
      \<and> seq_wf (ce_step env) (w_redis w') \<and> rec_synced (ce_step env) w' \<and> box_ok (w_box w')"
  unfolding Let_def
  using assms by (intro legacy.single_delivered [where outage = None])
    (auto simp: legacy_ops_def box_save_message_def)

text \<open>
  C8. A group message is delivered to the group: with all services up, \<open>handle_msg\<close> gives every
  member except the sender its own next number and stores exactly one copy for it under that
  number, stores nothing for anybody outside the group, and pushes the message with the
  member numbers to every connected gateway; the cache and the persisted maxima stay in step.
\<close>

theorem group_message_delivered:
  assumes "ce_box env = legacy_ops None" and "calls_up env" and "0 < ce_step env"
    and "ce_decode_msg env payload = Inr m" and "msg_type_of (msg_type m) = Some mt"
    and "classify_msg_type mt = (Group, False, h)"
    and "mt \<notin> {GroupDismiss, GroupMemberExit, GroupRemoveMember}"
    and "seq_wf (ce_step env) (w_redis w)" and "rec_synced (ce_step env) w" and "seq_table_ok (w_seq w)"
    and "box_ok (w_box w)" and "ps_clients (w_push w) \<noteq> []" and "distinct (roster (receiver_id m) w)"
    and "\<And>u. u \<in> set (roster (receiver_id m) w) \<Longrightarrow> u \<noteq> sender_id m \<Longrightarrow> has_room (ce_step env) u (w_redis w)"
  shows "\<exists>w'. handle_msg env payload w = (Inr (), w')
    \<and> (\<forall>u. u \<noteq> sender_id m \<longrightarrow> u \<noteq> receiver_id m \<longrightarrow>
        inbox_of u (mset (msgs_of (w_box w'))) = inbox_of u (mset (msgs_of (w_box w))) +
          (if u \<in> set (roster (receiver_id m) w)
           then {#stored_view (m\<lparr>seq := cur_of (seq_key u) (w_redis w) + 1, receiver_id := u, send_seq := 0\<rparr>)#}
           else {#}))
    \<and> pushed_to_all (ce_push env) (PushGroup \<lparr>group_message = Some m,
        members = numbered (ce_step env) (w_redis w) (filter (\<lambda>x. x \<noteq> sender_id m) (roster (receiver_id m) w))\<rparr>)
        (w_push w) (w_push w')
    \<and> seq_wf (ce_step env) (w_redis w') \<and> rec_synced (ce_step env) w' \<and> box_ok (w_box w')"
  using assms by (intro legacy.group_delivered [where outage = None])
    (auto simp: legacy_ops_def box_save_group_msg_def)

text \<open>
  The same holds with the sharded box whenever its insertions succeed.
\<close>

theorem group_message_delivered_sharded:
  assumes "ce_box env = sharded_ops senv" and "calls_up env" and "0 < ce_step env"
    and "ce_decode_msg env payload = Inr m" and "msg_type_of (msg_type m) = Some mt"
    and "classify_msg_type mt = (Group, False, h)"
    and "mt \<notin> {GroupDismiss, GroupMemberExit, GroupRemoveMember}"
    and "seq_wf (ce_step env) (w_redis w)" and "rec_synced (ce_step env) w" and "seq_table_ok (w_seq w)"
    and "shard_ok (w_box w)" and "ps_clients (w_push w) \<noteq> []" and "distinct (roster (receiver_id m) w)"
    and "\<And>u. u \<in> set (roster (receiver_id m) w) \<Longrightarrow> u \<noteq> sender_id m \<Longrightarrow> has_room (ce_step env) u (w_redis w)"
    and "fst (shard_save_group_msg senv m
        (numbered (ce_step env) (w_redis w) (filter (\<lambda>x. x \<noteq> sender_id m) (roster (receiver_id m) w))) (w_box w)) = Inr ()"
  shows "\<exists>w'. handle_msg env payload w = (Inr (), w')
    \<and> (\<forall>u. u \<noteq> sender_id m \<longrightarrow> u \<noteq> receiver_id m \<longrightarrow>
        inbox_of u (shard_inbox (w_box w')) = inbox_of u (shard_inbox (w_box w)) +
          (if u \<in> set (roster (receiver_id m) w)
           then {#stored_view (m\<lparr>seq := cur_of (seq_key u) (w_redis w) + 1, receiver_id := u, send_seq := 0\<rparr>)#}
           else {#}))
    \<and> pushed_to_all (ce_push env) (PushGroup \<lparr>group_message = Some m,
        members = numbered (ce_step env) (w_redis w) (filter (\<lambda>x. x \<noteq> sender_id m) (roster (receiver_id m) w))\<rparr>)
        (w_push w) (w_push w')
    \<and> seq_wf (ce_step env) (w_redis w') \<and> rec_synced (ce_step env) w' \<and> shard_ok (w_box w')"
  using assms by (intro sharded.group_delivered [where senv = senv]) (auto simp: sharded_ops_def)

text \<open>
  C11. Receive numbers survive the loss of the cache: after any run of successful
  \<open>increase_message_seq\<close> calls, reloading an empty cache with \<open>load_seq\<close> makes the next number of
  every registered user larger than every number the run handed out to it.
\<close>

theorem receive_numbers_survive_cache_loss:
  assumes "0 < ce_step env" and "number_run env us w = Some (xs, w')"
    and "seq_wf (ce_step env) (w_redis w)" and "rec_synced (ce_step env) w"
    and "seq_table_ok (w_seq w)" and "length (w_seq w) \<le> 1024"
    and "(u, n) \<in> set xs" and "rec_max_of (w_seq w') u = Some m" and "i64_ok (m + 1)"
  shows "\<exists>t x b t'. load_seq all_up (w_seq w') redis_empty = Some (Inr (), t)
    \<and> increase_seq (ce_step env) None u t = (Inr (m + 1, x, b), t') \<and> n < m + 1"
proof -
  have f: "rec_synced (ce_step env) w'" "seq_wf (ce_step env) (w_redis w')"
    "map sq_user_id (w_seq w') = map sq_user_id (w_seq w)" "n \<le> cur_of (seq_key u) (w_redis w')"
    using number_run_facts [OF assms(1-4)] assms(7) by auto
  have "m = lim_of (ce_step env) (seq_key u) (w_redis w')" using f(1) assms(8) by (simp add: rec_synced_def)
  moreover have "cur_of (seq_key u) (w_redis w') \<le> lim_of (ce_step env) (seq_key u) (w_redis w')"
    using f(2) seq_window_bounds(2) [of "ce_step env" "seq_key u" "w_redis w'"] by (simp add: seq_wf_def)
  moreover have "seq_table_ok (w_seq w')" "length (w_seq w') \<le> 1024"
    using assms(5,6) f(3) by (auto simp: seq_table_ok_def dest: map_eq_imp_length_eq)
  then obtain t where "load_seq all_up (w_seq w') redis_empty = Some (Inr (), t)" "cur_of (seq_key u) t = m"
    "lim_of (ce_step env) (seq_key u) t = m"
    using reload_facts [of "w_seq w'" "ce_step env"] assms(1,8) by auto
  ultimately show ?thesis
    using f(4) assms(9) by (auto simp: increase_seq_def single_script_eq script_result_def Let_def)
qed

text \<open>
  The send maximum is never persisted: whatever \<open>handle_msg\<close> does with a message, and
  whichever calls fail, no user's persisted send maximum changes. (The test of
  \<open>handle_send_seq\<close> cannot succeed, and the statement behind it raises the receive maximum.)
\<close>

theorem send_max_never_persisted:
  "send_max_of (w_seq (snd (handle_msg env payload w))) u = send_max_of (w_seq w) u"
  using preservesD [OF handle_msg_preserves_seq [where J = "\<lambda>tbl. send_max_of tbl u = send_max_of (w_seq w) u",
      OF preserves_send_max], of w env payload] by simp

text \<open>
  Therefore send numbers repeat after a loss of the cache: once a user has sent more
  messages than the maximum persisted for it, the first number it gets after any further
  message has been handled and \<open>load_seq\<close> has refilled an empty cache is one it has used before.
\<close>

theorem send_numbers_repeat_after_cache_loss:
  fixes w w' :: "'b world"
  assumes "w' = snd (handle_msg env payload w)"
    and "seq_table_ok (w_seq w')" and "length (w_seq w') \<le> 1024" and "0 < step"
    and "send_max_of (w_seq w) u = Some m" and "i64_ok (m + 1)"
    and "m < cur_of (send_seq_key u) (w_redis w)"
  shows "\<exists>t x b t'. load_seq all_up (w_seq w') redis_empty = Some (Inr (), t)
    \<and> incr_send_seq step None u t = (Inr (m + 1, x, b), t')
    \<and> m + 1 \<le> cur_of (send_seq_key u) (w_redis w)"
proof -
  have "send_max_of (w_seq w') u = Some m"
    using preservesD [OF handle_msg_preserves_seq [where J = "\<lambda>tbl. send_max_of tbl u = Some m",
        OF preserves_send_max], of w env payload] assms(1,5) by simp
  then obtain t where "load_seq all_up (w_seq w') redis_empty = Some (Inr (), t)"
    "cur_of (send_seq_key u) t = m" "lim_of step (send_seq_key u) t = m"
    using reload_facts [OF assms(2-4)] by auto
  then show ?thesis
    using assms(6,7) by (auto simp: incr_send_seq_def single_script_eq script_result_def Let_def)
qed

text \<open>
  With no gateway, a message is stored but the handler fails and its offset is not
  committed: the push panics on a channel of capacity zero, so \<open>consume\<close> leaves the record to be
  delivered again although the receiver's box already holds it.
\<close>

theorem no_gateway_stores_and_redelivers:
  assumes "ce_box env = legacy_ops None" and "calls_up env" and "0 < ce_step env"
    and "ce_decode_msg env payload = Inr m" and "msg_type_of (msg_type m) = Some mt"
    and "classify_msg_type mt = (Single, True, h)" and "get_send_to_db_flag mt"
    and "seq_wf (ce_step env) (w_redis (cs_world s))" and "rec_synced (ce_step env) (cs_world s)"
    and "rec_max_of (w_seq (cs_world s)) (receiver_id m) \<noteq> None"
    and "has_room (ce_step env) (receiver_id m) (w_redis (cs_world s))"
    and "box_ok (w_box (cs_world s))" and "ps_clients (w_push (cs_world s)) = []"
    and "pe_lookup (ce_push env) = Inr []"
  shows "let s' = consume env [Record off (Some payload) commit_fails] s;
             n = cur_of (seq_key (receiver_id m)) (w_redis (cs_world s)) + 1 in
    cs_committed s' = cs_committed s
    \<and> inbox_of (receiver_id m) (mset (msgs_of (w_box (cs_world s')))) =
        add_mset (stored_view (m\<lparr>seq := n\<rparr>)) (inbox_of (receiver_id m) (mset (msgs_of (w_box (cs_world s)))))"
proof -
  let ?n = "cur_of (seq_key (receiver_id m)) (w_redis (cs_world s)) + 1"
  have "fst (bo_save (legacy_ops None) (m\<lparr>seq := ?n\<rparr>) (w_box (cs_world s))) = Inr ()"
    by (simp add: legacy_ops_def box_save_message_def)
  then obtain w' where "handle_msg env payload (cs_world s) =
      (Inl (Failed (internal ''mpsc bounded channel requires buffer > 0'')), w')"
    "inbox_of (receiver_id m) (mset (msgs_of (w_box w'))) =
        add_mset (stored_view (m\<lparr>seq := ?n\<rparr>)) (inbox_of (receiver_id m) (mset (msgs_of (w_box (cs_world s)))))"
    using legacy.single_no_gateway [OF assms(1-14) refl] by blast
  then show ?thesis by (simp add: Let_def)
qed

text \<open>
  A later commit covers an earlier failure: a record whose handling failed is not committed
  by itself, but the next record that is handled and committed moves the offset past it, so
  after a restart the failed record is not delivered again.
\<close>

theorem commit_covers_failed_record:
  assumes "handle_msg env p (cs_world s) = (Inl e, w1)"
    and "handle_msg env q (cs_world (consume env (Record j (Some p) c # mid) s)) = (Inr (), w2)"
  shows "cs_committed (consume env [Record j (Some p) c] s) = cs_committed s
    \<and> cs_committed (consume env (Record j (Some p) c # mid @ [Record k (Some q) False]) s) = Suc k"
  using assms by (simp add: consume_append)

text \<open>Leaving, removal and dismissal, when the group is cached.\<close>

lemma leave_updates_roster:
  assumes "calls_up env" and "0 < ce_step env" and "g = receiver_id m" and "g = group_id m"
    and "distinct (roster g w)" and "r_set (w_redis w) (group_key g) \<noteq> []"
    and "\<And>u. u \<in> set (roster g w) \<Longrightarrow> u \<noteq> sender_id m \<Longrightarrow> has_room (ce_step env) u (w_redis w)"
    and "ce_decode_ids env (content m) = Inr ids" and "ids \<noteq> []"
    and "msg_type m = msg_type_code mt" and "mt \<in> {GroupDismiss, GroupMemberExit, GroupRemoveMember}"
  shows "\<exists>gs w'. handle_group_seq env Group m w = (Inr gs, w')
    \<and> map mem_id gs = filter (\<lambda>x. x \<noteq> sender_id m) (roster g w)
    \<and> r_set (w_redis w') (group_key g) = filter (\<lambda>u. \<not> (mt = GroupDismiss \<or>
        mt = GroupMemberExit \<and> u = sender_id m \<or> mt = GroupRemoveMember \<and> u \<in> set ids)) (roster g w)"
proof -
  define ms where "ms = filter (\<lambda>x. x \<noteq> sender_id m) (roster g w)"
  define r1 where "r1 = fold (\<lambda>u. script_state (ce_step env) (seq_key u)) ms (w_redis w)"
  have members: "get_members_id env g w = (Inr (roster g w), w)"
    using assms(6) calls_upD(1) [OF assms(1)]
    by (simp add: get_members_id_def and_then_def on_part_eq query_group_members_id_cache_def roster_def)
  have "\<forall>u \<in> set ms. i64_ok (cur_of (seq_key u) (w_redis w) + 1)"
    using assms(7) by (auto simp: ms_def has_room_def)
  moreover have "distinct ms" using assms(5) by (simp add: ms_def)
  ultimately have "increase_seq_each (ce_step env) ms (w_redis w) =
      (Inr (numbered (ce_step env) (w_redis w) ms), r1)"
    using increase_seq_each_distinct [of ms "w_redis w" "ce_step env"]
    by (simp add: numbered_def numbered_one_def r1_def)
  then have run: "handle_group_seq env Group m w =
      and_then (update_roster env m) (\<lambda>_. ok (numbered (ce_step env) (w_redis w) ms)) (w\<lparr>w_redis := r1\<rparr>)"
    using members assms(3) calls_upD(1) [OF assms(1)]
    by (simp add: handle_group_seq_def and_then_def on_part_eq cache_step_pos [OF assms(2)]
        incr_group_seq_each ms_def)
  have "r_set r1 (group_key g) = roster g w"
    using assms(6) by (simp add: r1_def roster_def fold_script_state_set)
  then show ?thesis
    using assms(3,4,8-11) calls_upD(1) [OF assms(1)]
    by (auto simp: run and_then_def update_roster_def on_part_eq numbered_facts ms_def
        del_group_members_def remove_group_member_id_def remove_group_member_batch_def
        del_set_def srem_def)
qed

text \<open>
  The cached member set follows the group: after the numbers for a leave, removal or
  dismissal have been assigned, the cached set of the group has lost exactly the leaving
  sender, the listed members, or everybody.
\<close>

theorem roster_follows_group:
  assumes "calls_up env" and "0 < ce_step env" and "g = receiver_id m" and "g = group_id m"
    and "distinct (roster g w)" and "r_set (w_redis w) (group_key g) \<noteq> []"
    and "\<And>u. u \<in> set (roster g w) \<Longrightarrow> u \<noteq> sender_id m \<Longrightarrow> has_room (ce_step env) u (w_redis w)"
    and "ce_decode_ids env (content m) = Inr ids" and "ids \<noteq> []"
    and "msg_type m = msg_type_code mt" and "mt \<in> {GroupDismiss, GroupMemberExit, GroupRemoveMember}"
  shows "\<exists>gs w'. handle_group_seq env Group m w = (Inr gs, w')
    \<and> map mem_id gs = filter (\<lambda>x. x \<noteq> sender_id m) (roster g w)
    \<and> r_set (w_redis w') (group_key g) = filter (\<lambda>u. \<not> (mt = GroupDismiss \<or>
        mt = GroupMemberExit \<and> u = sender_id m \<or> mt = GroupRemoveMember \<and> u \<in> set ids)) (roster g w)"
  using assms by (rule leave_updates_roster)

section \<open>Witnesses\<close>

text \<open>A server with step 5, two gateways, two registered users and the demo group; the payload is
  a message kind, the message itself the example message.\<close>

definition demo_decode :: "string \<Rightarrow> Msg res" where
  "demo_decode p =
     (if p = ''single'' then Inr (msg_example\<lparr>msg_type := 0\<rparr>)
      else if p = ''group'' then Inr (msg_example\<lparr>msg_type := 1, receiver_id := ''g'', group_id := ''g''\<rparr>)
      else if p = ''exit'' then Inr (msg_example\<lparr>msg_type := 4, receiver_id := ''g'', group_id := ''g''\<rparr>)
      else Inl (Failed (internal p)))"

definition demo_cenv :: "'b box_ops \<Rightarrow> 'b consumer_env" where
  "demo_cenv ops = \<lparr>ce_step = 5, ce_decode_msg = demo_decode,
     ce_decode_read = (\<lambda>_. Inr \<lparr>read_msg_seq = [], read_user_id = ''b''\<rparr>), ce_decode_ids = (\<lambda>_. Inr [''b'']),
     ce_out = (\<lambda>_. None), ce_groups = demo_genv, ce_box = ops, ce_push = demo_penv\<rparr>"

definition demo_world :: "string list \<Rightarrow> 'b \<Rightarrow> 'b world" where
  "demo_world gates b = \<lparr>w_redis = redis_empty,
     w_seq = [\<lparr>sq_user_id = ''a'', send_max_seq = 5, rec_max_seq = 5\<rparr>,
              \<lparr>sq_user_id = ''b'', send_max_seq = 5, rec_max_seq = 5\<rparr>],
     w_audit = [], w_groups = demo_group_db, w_box = b, w_push = \<lparr>ps_clients = gates, ps_sent = []\<rparr>\<rparr>"

lemma demo_cenv_sel [simp]:
  "ce_step (demo_cenv ops) = 5" "ce_box (demo_cenv ops) = ops" "ce_push (demo_cenv ops) = demo_penv"
  "calls_up (demo_cenv ops)" "ce_decode_msg (demo_cenv ops) = demo_decode"
  "ce_decode_ids (demo_cenv ops) c = Inr [''b'']" "ce_out (demo_cenv ops) k = None"
  by (simp_all add: demo_cenv_def calls_up_def)

lemma redis_empty_seq [simp]:
  "cur_of k redis_empty = 0" "lim_of step k redis_empty = step" "r_set redis_empty k = []"
  by (simp_all add: cur_of_def lim_of_def hget_def redis_empty_def)

lemma redis_empty_wf: "0 < step \<Longrightarrow> seq_wf step redis_empty"
  by (simp add: seq_wf_def seq_window_def hget_def redis_empty_def)

lemma demo_world_sel [simp]:
  "w_redis (demo_world gates b) = redis_empty" "w_box (demo_world gates b) = b"
  "ps_clients (w_push (demo_world gates b)) = gates" "ps_sent (w_push (demo_world gates b)) = []"
  "rec_max_of (w_seq (demo_world gates b)) ''b'' = Some 5" "rec_synced 5 (demo_world gates b)"
  "rec_max_of (w_seq (demo_world gates b)) ''a'' = Some 5"
  "seq_table_ok (w_seq (demo_world gates b))" "length (w_seq (demo_world gates b)) = 2"
  "roster ''g'' (demo_world gates b) = [''a'', ''b'', ''c'']" "has_room 5 u redis_empty"
  by (auto simp: demo_world_def rec_max_of_def rec_synced_def seq_table_ok_def roster_def demo_group_facts
      has_room_def i64_ok_def split: if_splits)

lemma demo_kinds [simp]: "msg_type_of 0 = Some SingleMsg" "msg_type_of 1 = Some GroupMsg"
  by (simp_all add: msg_type_of_Some_iff)

lemma box_ok_empty [simp]: "box_ok []"
  by (simp add: box_ok_def)

theorem single_message_delivered_witness:
  "\<exists>w'. handle_msg (demo_cenv (legacy_ops None)) ''single'' (demo_world [''up''] []) = (Inr (), w')
    \<and> inbox_of ''b'' (mset (msgs_of (w_box w'))) =
        {#stored_view (msg_example\<lparr>msg_type := 0, seq := 1\<rparr>)#}"
  using single_message_delivered [of "demo_cenv (legacy_ops None)" "''single''"
      "msg_example\<lparr>msg_type := 0\<rparr>" SingleMsg True "demo_world [''up''] []"] redis_empty_wf [of 5]
  by (auto simp: demo_decode_def get_send_to_db_flag_def inbox_of_def msgs_of_def Let_def)

theorem group_message_delivered_witness:
  "\<exists>w'. handle_msg (demo_cenv (legacy_ops None)) ''group'' (demo_world [''up''] []) = (Inr (), w')
    \<and> (\<exists>x. inbox_of ''c'' (mset (msgs_of (w_box w'))) = {#x#} \<and> seq x = 1 \<and> receiver_id x = ''c'')"
proof -
  let ?m = "msg_example\<lparr>msg_type := 1, receiver_id := ''g'', group_id := ''g''\<rparr>"
  have m: "ce_decode_msg (demo_cenv ops) ''group'' = Inr ?m" "sender_id ?m = ''a''" "receiver_id ?m = ''g''"
    "msg_type_of (msg_type ?m) = Some GroupMsg" for ops :: "collection box_ops"
    by (simp_all add: demo_decode_def)
  have "\<exists>w'. handle_msg (demo_cenv (legacy_ops None)) ''group'' (demo_world [''up''] []) = (Inr (), w')
    \<and> (\<forall>u. u \<noteq> sender_id ?m \<longrightarrow> u \<noteq> receiver_id ?m \<longrightarrow>
        inbox_of u (mset (msgs_of (w_box w'))) = inbox_of u (mset (msgs_of (w_box (demo_world [''up''] [])))) +
       (if u \<in> set (roster (receiver_id ?m) (demo_world [''up''] ([] :: collection)))
        then {#stored_view (?m\<lparr>seq := cur_of (seq_key u) (w_redis (demo_world [''up''] ([] :: collection))) + 1,
                receiver_id := u, send_seq := 0\<rparr>)#}
        else {#}))"
    by (rule ex_forward [OF group_message_delivered [OF demo_cenv_sel(2) demo_cenv_sel(4) _ m(1) m(4),
          of True "demo_world [''up''] []"]]) (simp_all add: redis_empty_wf)
  then obtain w' where w': "handle_msg (demo_cenv (legacy_ops None)) ''group'' (demo_world [''up''] []) = (Inr (), w')"
    "inbox_of ''c'' (mset (msgs_of (w_box w'))) = inbox_of ''c'' (mset (msgs_of [])) +
       {#stored_view (?m\<lparr>seq := 1, receiver_id := ''c'', send_seq := 0\<rparr>)#}"
    unfolding m(2,3) by fastforce
  then show ?thesis
    by (intro exI [of _ w']) (simp add: inbox_of_def msgs_of_def stored_view_def)
qed

theorem group_message_delivered_sharded_witness:
  "\<exists>w'. handle_msg (demo_cenv (sharded_ops demo_env)) ''group'' (demo_world [''up''] shard_empty) = (Inr (), w')
    \<and> shard_ok (w_box w')"
proof -
  let ?m = "msg_example\<lparr>msg_type := 1, receiver_id := ''g'', group_id := ''g''\<rparr>"
  have m: "ce_decode_msg (demo_cenv ops) ''group'' = Inr ?m" "msg_type_of (msg_type ?m) = Some GroupMsg"
    for ops :: "shard_box box_ops"
    by (simp_all add: demo_decode_def)
  have key: "doc_key (to_doc x) = (Some (BString (server_id x)), Some (BString (receiver_id x)))" for x
    by (simp add: doc_key_def to_doc_def)
  have up: "se_index demo_env c = None" "se_query demo_env c = None" for c by (simp_all add: demo_env_def)
  have "fst (shard_save_group_msg demo_env ?m (numbered 5 redis_empty [''b'', ''c'']) shard_empty) = Inr ()"
    by (simp add: shard_save_group_msg_def numbered_def get_user_range_def and_then_def Let_def get_collection_def
        ensure_collection_indexed_def insert_one_def up docs_in_def key del: show_nat.simps) (auto simp: key)
  then show ?thesis
    by (intro ex_forward [OF group_message_delivered_sharded [OF demo_cenv_sel(2) demo_cenv_sel(4) _ m(1) m(2),
          of demo_env True "demo_world [''up''] shard_empty"]]) (simp_all add: redis_empty_wf)
qed

theorem receive_numbers_survive_cache_loss_witness:
  "\<exists>xs w' t x b t'. number_run (demo_cenv (legacy_ops None)) [''b'', ''b''] (demo_world [] []) = Some (xs, w')
    \<and> load_seq all_up (w_seq w') redis_empty = Some (Inr (), t)
    \<and> increase_seq 5 None ''b'' t = (Inr (6, x, b), t') \<and> (''b'', 2) \<in> set xs"
proof -
  let ?env = "demo_cenv (legacy_ops None)" and ?w = "demo_world [] [] :: collection world"
  define w1 where "w1 = ?w\<lparr>w_redis := script_state 5 (seq_key ''b'') redis_empty\<rparr>"
  define w2 where "w2 = ?w\<lparr>w_redis := script_state 5 (seq_key ''b'') (w_redis w1)\<rparr>"
  have one: "increase_message_seq ?env ''b'' ?w = (Inr 1, w1)"
    using increase_message_seq_up [of ?env "''b''" ?w] by (simp add: w1_def)
  have c: "cur_of (seq_key ''b'') (w_redis w1) = 1" "lim_of 5 (seq_key ''b'') (w_redis w1) = 5"
    by (simp_all add: w1_def cur_of_script_state lim_of_script_state)
  have two: "increase_message_seq ?env ''b'' w1 = (Inr 2, w2)"
    using increase_message_seq_up [of ?env "''b''" w1] c
    by (simp add: has_room_def i64_ok_def) (simp add: w1_def w2_def)
  have run: "number_run ?env [''b'', ''b''] ?w = Some ([(''b'', 1), (''b'', 2)], w2)"
    by (simp add: one two)
  have "w_seq w2 = w_seq ?w" by (simp add: w2_def)
  then show ?thesis
    using receive_numbers_survive_cache_loss [OF _ run, of "''b''" 2 5] run redis_empty_wf [of 5]
    by (auto simp: i64_ok_def)
qed

theorem send_numbers_repeat_after_cache_loss_witness:
  "\<exists>t x b t'. load_seq all_up (w_seq (snd (handle_msg (demo_cenv (legacy_ops None)) ''junk''
      (demo_world [] [] \<lparr>w_redis := hset (send_seq_key ''a'') CUR_SEQ_KEY 7 redis_empty\<rparr>)))) redis_empty = Some (Inr (), t)
    \<and> incr_send_seq 5 None ''a'' t = (Inr (6, x, b), t')"
proof -
  let ?w = "demo_world [] [] \<lparr>w_redis := hset (send_seq_key ''a'') CUR_SEQ_KEY 7 redis_empty\<rparr> :: collection world"
  have junk: "handle_msg (demo_cenv (legacy_ops None)) ''junk'' ?w = (Inl (Failed (internal ''junk'')), ?w)"
    by (simp add: handle_msg_def demo_decode_def)
  have facts: "send_max_of (w_seq ?w) ''a'' = Some 5" "cur_of (send_seq_key ''a'') (w_redis ?w) = 7"
    "seq_table_ok (w_seq ?w)" "length (w_seq ?w) = 2"
    by (simp_all add: cur_of_def hget_hset) (simp add: send_max_of_def demo_world_def)
  show ?thesis
    using send_numbers_repeat_after_cache_loss [OF refl, of "demo_cenv (legacy_ops None)" "''junk''" ?w 5 "''a''" 5]
    unfolding junk snd_conv using facts by (simp add: i64_ok_def)
qed

theorem no_gateway_stores_and_redelivers_witness:
  "cs_committed (consume (demo_cenv (legacy_ops None)) [Record 4 (Some ''single'') False]
     \<lparr>cs_world = demo_world [] [], cs_committed = 4\<rparr>) = 4"
  using no_gateway_stores_and_redelivers [of "demo_cenv (legacy_ops None)" "''single''"
      "msg_example\<lparr>msg_type := 0\<rparr>" SingleMsg True
      "\<lparr>cs_world = demo_world [] [], cs_committed = 4\<rparr>" 4 False] redis_empty_wf [of 5]
  by (simp add: demo_decode_def get_send_to_db_flag_def Let_def demo_penv_def)

theorem commit_covers_failed_record_witness:
  "\<exists>w. cs_committed (consume (demo_cenv (legacy_ops None))
     [Record 4 (Some ''junk'') False, Record 5 (Some ''single'') False] w) = 6"
proof -
  let ?env = "demo_cenv (legacy_ops None)" and ?w = "demo_world [''up''] [] :: collection world"
  have junk: "handle_msg ?env ''junk'' ?w = (Inl (Failed (internal ''junk'')), ?w)"
    by (simp add: handle_msg_def demo_decode_def)
  obtain w' where "handle_msg ?env ''single'' ?w = (Inr (), w')"
    using legacy.single_delivered [of ?env None "''single''"
        "msg_example\<lparr>msg_type := 0\<rparr>" SingleMsg True ?w, OF _ _ _ _ _ _ _ _ _ _ _ _ _ refl]
      redis_empty_wf [of 5]
    by (auto simp: demo_decode_def get_send_to_db_flag_def legacy_ops_def box_save_message_def)
  then show ?thesis
    using commit_covers_failed_record [of ?env "''junk''" "\<lparr>cs_world = ?w, cs_committed = 4\<rparr>" _ ?w "''single''" 4 False "[]" _ 5] junk
    by (intro exI [of _ "\<lparr>cs_world = ?w, cs_committed = 4\<rparr>"]) simp
qed

theorem roster_follows_group_witness:
  "\<exists>gs w'. handle_group_seq (demo_cenv (legacy_ops None)) Group
      (msg_example\<lparr>msg_type := 4, receiver_id := ''g'', group_id := ''g''\<rparr>)
      (demo_world [] [] \<lparr>w_redis := fold (sadd (group_key ''g'')) [''a'', ''b''] redis_empty\<rparr>) = (Inr gs, w')
    \<and> map mem_id gs = [''b''] \<and> r_set (w_redis w') (group_key ''g'') = [''b'']"
proof -
  let ?w = "demo_world [] [] \<lparr>w_redis := fold (sadd (group_key ''g'')) [''a'', ''b''] redis_empty\<rparr> :: collection world"
  have set: "r_set (w_redis ?w) (group_key ''g'') = [''a'', ''b'']" by (simp add: sadd_def)
  then have roster: "roster ''g'' ?w = [''a'', ''b'']" unfolding roster_def by simp
  have "r_hash (w_redis ?w) = r_hash redis_empty" by (simp add: sadd_def)
  then have room: "has_room 5 u (w_redis ?w)" for u
    using same_hash [of "w_redis ?w" redis_empty "seq_key u" 5] by (simp add: has_room_def i64_ok_def)
  show ?thesis
    using roster_follows_group [of "demo_cenv (legacy_ops None)" "''g''"
        "msg_example\<lparr>msg_type := 4, receiver_id := ''g'', group_id := ''g''\<rparr>" ?w "[''b'']" GroupMemberExit] set roster room
    by simp
qed

end
