(* ===== verification/Api_Groups.thy ===== *)
theory Api_Groups
  imports Api_Base Consumer
begin

text \<open>
  The group handlers of the HTTP API (\<open>api/src/handlers/groups/group_handlers.rs\<close>) over the group
  repository, the cache and the chat service. A handler here takes what its extractors hand over
  (theory \<open>Api_Auth\<close>). A handler and the repository operation it calls have the same name in the
  code; the handlers carry the prefix \<open>api_\<close> here.

  The second half composes the handlers with the consumer that processes the notification they
  queue.
\<close>

section \<open>Environment\<close>

text \<open>The encodings of \<open>bincode\<close>, one per type.\<close>

record group_api_env = api_env +
  ga_groups :: group_env
  ga_nanoid :: string
  ga_bin_invitation :: "GroupRow \<times> MemberRow list \<Rightarrow> string res"
  ga_bin_ids :: "string list \<Rightarrow> string res"
  ga_bin_group :: "GroupRow \<Rightarrow> string res"
  ga_bin_file :: "FileRow \<Rightarrow> string res"
  ga_bin_poll :: "PollRow \<Rightarrow> string res"
  ga_bin_mute :: "MuteRow \<Rightarrow> string res"
  ga_bin_announcement :: "AnnouncementRow \<Rightarrow> string res"

type_synonym group_api = "group_db api_state"

record GetMemberReq =
  gq_user_id :: string
  gq_group_id :: string
  gq_mem_ids :: "string list"

record RemoveMemberRequest =
  rm_user_id :: string
  rm_group_id :: string
  rm_mem_id :: "string list"

record DeleteGroupRequest =
  dg_user_id :: string
  dg_group_id :: string
  dg_is_dismiss :: bool

record UpdateMemberSettingsRequest =
  ums_group_id :: string
  ums_user_id :: string
  ums_notification_level :: string
  ums_display_order :: int

record DeleteFileRequest =
  df_file_id :: string
  df_user_id :: string

record UpdateFilePinRequest =
  ufp_file_id :: string
  ufp_is_pinned :: bool

record ClosePollRequest =
  clp_poll_id :: string
  clp_user_id :: string

record UnmuteRequest =
  unm_group_id :: string
  unm_user_id :: string
  unm_operator_id :: string

record DeleteAnnouncementRequest =
  da_id :: string
  da_user_id :: string

record PinAnnouncementRequest =
  pa_id :: string
  pa_is_pinned :: bool

record ChangeMemberRoleRequest =
  cm_group_id :: string
  cm_user_id :: string
  cm_target_id :: string
  cm_new_role :: string

section \<open>Groups and members\<close>

abbreviation base :: "group_api_env \<Rightarrow> api_env" where
  "base env \<equiv> api_env.truncate env"

definition api_get_group :: "group_api_env \<Rightarrow> string \<Rightarrow> string \<Rightarrow> (group_api, GroupRow) act" where
  "api_get_group env user_id g = on_db (get_group (ga_groups env) user_id g)"

definition api_get_group_and_members ::
  "group_api_env \<Rightarrow> string \<Rightarrow> string \<Rightarrow> (group_api, GroupRow \<times> (MemberRow \<times> UserCard) list) act" where
  "api_get_group_and_members env user_id g =
     on_db (get_group_and_members (ga_groups env) user_id g)"

definition api_get_group_members ::
  "group_api_env \<Rightarrow> GetMemberReq \<Rightarrow> (group_api, (MemberRow \<times> UserCard) list) act" where
  "api_get_group_members env q =
     on_db (get_members (ga_groups env) (gq_user_id q) (gq_group_id q) (gq_mem_ids q))"

text \<open>Empty ids are dropped from the body, the user of the path joins as a member; the owner is
  whoever the body names.\<close>

definition with_creator :: "string \<Rightarrow> string \<Rightarrow> GroupCreate \<Rightarrow> GroupCreate" where
  "with_creator gid user_id c =
     c\<lparr>gc_id := gid, gc_members_id := filter (\<lambda>v. v \<noteq> '''') (gc_members_id c) @ [user_id]\<rparr>"

definition create_group_handler ::
  "group_api_env \<Rightarrow> string \<Rightarrow> GroupCreate \<Rightarrow> (group_api, GroupRow \<times> MemberRow list) act" where
  "create_group_handler env user_id c =
     (let new_group = with_creator (ga_nanoid env) user_id c in
      and_then (on_db (create_group_with_members (ga_groups env) new_group)) (\<lambda>invitation.
      and_then (on_cache (save_group_members_id (ae_out env ASaveRoster) (gc_id new_group)
        (map mb_user_id (snd invitation)))) (\<lambda>_.
      and_then (notify (base env) (ga_bin_invitation env invitation) user_id
        (new_with_group_invitation (ae_now env) user_id (gc_id new_group))) (\<lambda>_.
      ok invitation))))"

definition api_invite_new_members :: "group_api_env \<Rightarrow> GroupInviteNew \<Rightarrow> (group_api, unit) act" where
  "api_invite_new_members env i =
     and_then (on_db (invite_new_members (ga_groups env) i)) (\<lambda>_.
     and_then (on_cache (save_group_members_id (ae_out env ASaveRoster) (gi_group_id i) (gi_members i))) (\<lambda>_.
     notify (base env) (ga_bin_ids env (gi_members i)) (gi_user_id i)
       (new_with_group_invite_new (ae_now env) (gi_user_id i) (gi_group_id i))))"

definition update_group_handler :: "group_api_env \<Rightarrow> string \<Rightarrow> GroupUpdate \<Rightarrow> (group_api, GroupRow) act" where
  "update_group_handler env user_id v =
     and_then (on_db (update_group (ga_groups env) v)) (\<lambda>info.
     and_then (notify (base env) (ga_bin_group env info) user_id
       (new_with_group_update (ae_now env) user_id (gr_id info))) (\<lambda>_. ok info))"

definition api_remove_member :: "group_api_env \<Rightarrow> RemoveMemberRequest \<Rightarrow> (group_api, unit) act" where
  "api_remove_member env q =
     and_then (on_db (remove_member (ga_groups env) (rm_group_id q) (rm_user_id q) (rm_mem_id q))) (\<lambda>_.
     notify (base env) (ga_bin_ids env (rm_mem_id q)) (rm_user_id q)
       (new_with_group_remove_mem (ae_now env) (rm_user_id q) (rm_group_id q)))"

text \<open>The message of a dismissal or an exit has no content to encode.\<close>

definition notify_operation :: "group_api_env \<Rightarrow> string \<Rightarrow> string \<Rightarrow> MsgType \<Rightarrow> (group_api, unit) act" where
  "notify_operation env user_id g mt =
     notify (base env) (Inr '''') user_id
       (\<lambda>n _. new_with_group_operation (ae_now env) user_id g mt n)"

definition delete_group_handler :: "group_api_env \<Rightarrow> DeleteGroupRequest \<Rightarrow> (group_api, unit) act" where
  "delete_group_handler env q =
     (if dg_is_dismiss q
      then and_then (on_db (delete_group (ga_groups env) (dg_group_id q) (dg_user_id q))) (\<lambda>_.
        notify_operation env (dg_user_id q) (dg_group_id q) GroupDismiss)
      else and_then (on_db (exit_group (ga_groups env) (dg_user_id q) (dg_group_id q))) (\<lambda>_.
        notify_operation env (dg_user_id q) (dg_group_id q) GroupMemberExit))"

section \<open>Settings and categories\<close>

definition api_update_group_settings :: "group_api_env \<Rightarrow> UpdateGroupRequest \<Rightarrow> (group_api, GroupRow) act" where
  "api_update_group_settings env q =
     and_then (on_db (update_group_settings (ga_groups env) q)) (\<lambda>info.
     and_then (notify (base env) (ga_bin_group env info) (ug_user_id q)
       (new_with_group_update (ae_now env) (ug_user_id q) (ug_group_id q))) (\<lambda>_. ok info))"

definition api_update_member_settings ::
  "group_api_env \<Rightarrow> UpdateMemberSettingsRequest \<Rightarrow> (group_api, MemberRow) act" where
  "api_update_member_settings env q = on_db (update_member_settings (ga_groups env) (ums_group_id q)
     (ums_user_id q) (ums_notification_level q) (ums_display_order q))"

definition api_create_group_category ::
  "group_api_env \<Rightarrow> CreateGroupCategoryRequest \<Rightarrow> (group_api, CategoryRow) act" where
  "api_create_group_category env q = on_db (create_group_category (ga_groups env) q)"

definition api_update_group_category :: "group_api_env \<Rightarrow> CategoryRow \<Rightarrow> (group_api, CategoryRow) act" where
  "api_update_group_category env c = on_db (update_group_category (ga_groups env) c)"

definition api_delete_group_category :: "group_api_env \<Rightarrow> string \<Rightarrow> (group_api, unit) act" where
  "api_delete_group_category env i = on_db (delete_group_category (ga_groups env) i)"

definition api_get_group_categories :: "group_api_env \<Rightarrow> (group_api, CategoryRow list) act" where
  "api_get_group_categories env = on_db (get_group_categories (ga_groups env))"

section \<open>Files, polls, muting, announcements, roles\<close>

definition api_upload_group_file :: "group_api_env \<Rightarrow> GroupFileUploadRequest \<Rightarrow> (group_api, FileRow) act" where
  "api_upload_group_file env q =
     and_then (on_db (upload_group_file (ga_groups env) q)) (\<lambda>file.
     and_then (notify (base env) (ga_bin_file env file) (fu_uploader_id q)
       (new_with_group_file (fu_uploader_id q) (fu_group_id q))) (\<lambda>_. ok file))"

definition api_delete_group_file :: "group_api_env \<Rightarrow> DeleteFileRequest \<Rightarrow> (group_api, unit) act" where
  "api_delete_group_file env q = on_db (delete_group_file (ga_groups env) (df_file_id q) (df_user_id q))"

definition api_get_group_files :: "group_api_env \<Rightarrow> string \<Rightarrow> (group_api, FileRow list) act" where
  "api_get_group_files env g = on_db (get_group_files (ga_groups env) g)"

definition api_update_file_pin_status :: "group_api_env \<Rightarrow> UpdateFilePinRequest \<Rightarrow> (group_api, FileRow) act" where
  "api_update_file_pin_status env q =
     on_db (update_file_pin_status (ga_groups env) (ufp_file_id q) (ufp_is_pinned q))"

definition api_create_poll :: "group_api_env \<Rightarrow> CreatePollRequest \<Rightarrow> (group_api, PollRow) act" where
  "api_create_poll env q =
     and_then (on_db (create_poll (ga_groups env) q)) (\<lambda>poll.
     and_then (notify (base env) (ga_bin_poll env poll) (cp_creator_id q)
       (new_with_group_poll (cp_creator_id q) (cp_group_id q))) (\<lambda>_. ok poll))"

definition api_vote_poll :: "group_api_env \<Rightarrow> VotePollRequest \<Rightarrow> (group_api, PollRow) act" where
  "api_vote_poll env q = on_db (vote_poll (ga_groups env) q)"

definition api_close_poll :: "group_api_env \<Rightarrow> ClosePollRequest \<Rightarrow> (group_api, PollRow) act" where
  "api_close_poll env q = on_db (close_poll (ga_groups env) (clp_poll_id q) (clp_user_id q))"

definition api_get_group_polls :: "group_api_env \<Rightarrow> string \<Rightarrow> (group_api, PollRow list) act" where
  "api_get_group_polls env g = on_db (get_group_polls (ga_groups env) g)"

definition api_get_poll_details :: "group_api_env \<Rightarrow> string \<Rightarrow> (group_api, PollRow) act" where
  "api_get_poll_details env i = on_db (get_poll_details (ga_groups env) i)"

definition api_mute_group_member :: "group_api_env \<Rightarrow> MuteGroupMemberRequest \<Rightarrow> (group_api, MuteRow) act" where
  "api_mute_group_member env q =
     and_then (on_db (mute_group_member (ga_groups env) q)) (\<lambda>record.
     and_then (notify (base env) (ga_bin_mute env record) (mq_operator_id q)
       (new_with_group_mute (mq_operator_id q) (mq_group_id q))) (\<lambda>_. ok record))"

definition api_unmute_group_member :: "group_api_env \<Rightarrow> UnmuteRequest \<Rightarrow> (group_api, unit) act" where
  "api_unmute_group_member env q =
     on_db (unmute_group_member (ga_groups env) (unm_group_id q) (unm_user_id q) (unm_operator_id q))"

definition api_get_group_muted_members :: "group_api_env \<Rightarrow> string \<Rightarrow> (group_api, MuteRow list) act" where
  "api_get_group_muted_members env g = on_db (get_group_muted_members (ga_groups env) g)"

definition api_create_announcement ::
  "group_api_env \<Rightarrow> CreateAnnouncementRequest \<Rightarrow> (group_api, AnnouncementRow) act" where
  "api_create_announcement env q =
     and_then (on_db (create_announcement (ga_groups env) q)) (\<lambda>announcement.
     and_then (notify (base env) (ga_bin_announcement env announcement) (ca_creator_id q)
       (new_with_group_announcement (ca_creator_id q) (ca_group_id q))) (\<lambda>_. ok announcement))"

definition api_delete_announcement :: "group_api_env \<Rightarrow> DeleteAnnouncementRequest \<Rightarrow> (group_api, unit) act" where
  "api_delete_announcement env q = on_db (delete_announcement (ga_groups env) (da_id q) (da_user_id q))"

definition api_get_group_announcements :: "group_api_env \<Rightarrow> string \<Rightarrow> (group_api, AnnouncementRow list) act" where
  "api_get_group_announcements env g = on_db (get_group_announcements (ga_groups env) g)"

definition api_pin_announcement :: "group_api_env \<Rightarrow> PinAnnouncementRequest \<Rightarrow> (group_api, AnnouncementRow) act" where
  "api_pin_announcement env q = on_db (pin_announcement (ga_groups env) (pa_id q) (pa_is_pinned q))"

definition api_change_member_role ::
  "group_api_env \<Rightarrow> ChangeMemberRoleRequest \<Rightarrow> (group_api, MemberRow) act" where
  "api_change_member_role env q = on_db (change_member_role (ga_groups env) (cm_group_id q) (cm_user_id q)
     (cm_target_id q) (cm_new_role q))"

section \<open>Composition with the consumer\<close>

lemma base_sel [simp]:
  "ae_step (base env) = ae_step env" "ae_out (base env) = ae_out env" "ae_rpc (base env) = ae_rpc env"
  "ae_json (base env) = ae_json env" "ae_nid (base env) = ae_nid env" "ae_clock (base env) = ae_clock env"
  "ae_kafka (base env) = ae_kafka env"
  by (simp_all add: api_env.truncate_def)

text \<open>The API server and the consumer share the Redis instance and the group tables.\<close>

definition seen_by_consumer :: "group_api \<Rightarrow> 'b world \<Rightarrow> 'b world" where
  "seen_by_consumer s w = w\<lparr>w_redis := as_redis s, w_groups := as_db s\<rparr>"

lemma seen_by_consumer_sel [simp]:
  "w_redis (seen_by_consumer s w) = as_redis s" "w_groups (seen_by_consumer s w) = as_db s"
  by (simp_all add: seen_by_consumer_def)

lemma has_room_cong: "r_hash r (seq_key u) = r_hash r' (seq_key u) \<Longrightarrow> has_room step u r = has_room step u r'"
  by (simp add: has_room_def cur_of_def lim_of_def hget_def)

lemma fold_sadd_set:
  "set (r_set (fold (sadd k) ms r) k) = set (r_set r k) \<union> set ms"
  "distinct (r_set r k) \<Longrightarrow> distinct (r_set (fold (sadd k) ms r) k)"
  by (induction ms arbitrary: r) (auto simp: sadd_def)

lemma send_number_roster [simp]:
  "send_room (fold (sadd k) ms r) u = send_room r u" "next_number (fold (sadd k) ms r) u = next_number r u"
  by (simp_all add: send_room_def next_number_def cur_of_def hget_def)

text \<open>A notice of a kind that does not change the member set, addressed to a cached group.\<close>

lemma notice_numbers_roster:
  assumes "calls_up cenv" and "0 < ce_step cenv"
    and "distinct (r_set (w_redis w) (group_key (receiver_id m)))"
    and "r_set (w_redis w) (group_key (receiver_id m)) \<noteq> []"
    and "\<And>v. v \<in> set (r_set (w_redis w) (group_key (receiver_id m))) \<Longrightarrow> v \<noteq> sender_id m
      \<Longrightarrow> has_room (ce_step cenv) v (w_redis w)"
    and "msg_type m \<notin> {msg_type_code GroupDismiss, msg_type_code GroupMemberExit, msg_type_code GroupRemoveMember}"
  shows "\<exists>gs w'. handle_group_seq cenv Group m w = (Inr gs, w')
    \<and> map mem_id gs = filter (\<lambda>x. x \<noteq> sender_id m) (r_set (w_redis w) (group_key (receiver_id m)))"
proof -
  have r: "roster (receiver_id m) w = r_set (w_redis w) (group_key (receiver_id m))"
    using assms(4) by (simp add: roster_def)
  show ?thesis
    using handle_group_seq_up [OF assms(1,2) _ _ assms(6) refl, of w] assms(3,5)
    by (auto simp: r numbered_facts)
qed

section \<open>Properties\<close>

text \<open>
  A created group is announced to all its members: when the tables accept the group and the
  cache and the chat service answer, \<open>create_group_handler\<close> queues one invitation, numbered with the
  creator's next send number, and the consumer that takes it assigns a receive number to every
  stored member except the creator, once each.
\<close>

theorem created_group_is_announced:
  fixes w :: "'b world"
  assumes "chat_up (base env)" and "ae_out env ASaveRoster = None" and "send_room (as_redis s) u"
    and created: "create_group_with_members (ga_groups env) (with_creator (ga_nanoid env) u c) (as_db s)
      = (Inr (info, ms), db')"
    and "ga_bin_invitation env (info, ms) = Inr p"
    and "r_set (as_redis s) (group_key (ga_nanoid env)) = []" and "ms \<noteq> []"
    and "calls_up cenv" and "0 < ce_step cenv"
    and "\<And>v. v \<in> mb_user_id ` set ms \<Longrightarrow> v \<noteq> u \<Longrightarrow> has_room (ce_step cenv) v (as_redis s)"
  shows "\<exists>m s'. create_group_handler env u c s = (Inr (info, ms), s') \<and> as_db s' = db'
    \<and> as_queue s' = as_queue s @ [ae_json env m]
    \<and> msg_type m = msg_type_code GroupInvitation \<and> content m = p
    \<and> sender_id m = u \<and> receiver_id m = ga_nanoid env \<and> send_seq m = next_number (as_redis s) u
    \<and> (\<exists>gs w'. handle_group_seq cenv Group m (seen_by_consumer s' w) = (Inr gs, w')
        \<and> distinct (map mem_id gs) \<and> mem_id ` set gs = mb_user_id ` set ms - {u})"
proof -
  let ?g = "ga_nanoid env" and ?r1 = "fold (sadd (group_key (ga_nanoid env))) (map mb_user_id ms) (as_redis s)"
  let ?s1 = "s\<lparr>as_db := db', as_redis := ?r1\<rparr>"
  define m where "m = stamp (ae_nid env) (ae_clock env) (msg_default\<lparr>sender_id := u, group_id := ?g, receiver_id := ?g,
        send_time := ae_now env, msg_type := msg_type_code GroupInvitation, content := p,
        send_seq := next_number (as_redis s) u\<rparr>)"
  have "send_room (as_redis ?s1) u" using assms(3) by simp
  define r' where "r' = numbered_send (base env) u ?r1"
  have n: "notify (base env) (Inr p) u (new_with_group_invitation (ae_now env) u ?g) ?s1
      = (Inr (), ?s1\<lparr>as_redis := r', as_queue := as_queue s @ [ae_json env m]\<rparr>)"
    using notify_up [OF assms(1) \<open>send_room (as_redis ?s1) u\<close>, of "new_with_group_invitation (ae_now env) u ?g" p,
      OF new_with_group_invitation_def] by (simp add: m_def r'_def)
  have r': "r_set r' = r_set ?r1" "\<forall>v. r_hash r' (seq_key v) = r_hash (as_redis s) (seq_key v)"
    by (simp_all add: r'_def)
  let ?s' = "s\<lparr>as_db := db', as_redis := r', as_queue := as_queue s @ [ae_json env m]\<rparr>"
  have run: "create_group_handler env u c s = (Inr (info, ms), ?s')"
    using created assms(2,5) n
    by (simp add: create_group_handler_def Let_def and_then_def on_part_eq save_group_members_id_def with_creator_def)
  have m: "msg_type m = msg_type_code GroupInvitation" "content m = p" "sender_id m = u"
    "receiver_id m = ?g" "send_seq m = next_number (as_redis s) u"
    by (simp_all add: m_def stamp_def)
  have set: "set (r_set r' (group_key ?g)) = mb_user_id ` set ms" "distinct (r_set r' (group_key ?g))"
    using assms(6) fold_sadd_set [where k = "group_key ?g" and ms = "map mb_user_id ms" and r = "as_redis s"] by (simp_all add: r')
  have "r_set r' (group_key ?g) \<noteq> []" using set(1) assms(7) by (metis empty_set image_is_empty set_empty)
  moreover have "has_room (ce_step cenv) v r'" if "v \<in> mb_user_id ` set ms" "v \<noteq> u" for v
    using assms(10) [OF that] has_room_cong [of r' v "as_redis s"] r'(2) by simp
  ultimately obtain gs w' where "handle_group_seq cenv Group m (seen_by_consumer ?s' w) = (Inr gs, w')"
    "map mem_id gs = filter (\<lambda>x. x \<noteq> u) (r_set r' (group_key ?g))"
    using notice_numbers_roster [OF assms(8,9), of "seen_by_consumer ?s' w" m] set by (auto simp: m)
  moreover from this have "distinct (map mem_id gs)" "mem_id ` set gs = mb_user_id ` set ms - {u}"
    using set by (auto simp flip: set_map)
  ultimately show ?thesis using run m by (intro exI [of _ m] exI [of _ ?s']) simp
qed

text \<open>
  C33. A removal clears the cached member set whether or not it removed anybody: \<open>remove_member\<close>
  answers \<open>Ok\<close> and queues its notice for every caller; the rows of the listed members go only when
  the caller is an administrator or the owner, but the consumer that takes the notice removes them
  from the cached set in either case, so that they get no further group message from it.
\<close>

theorem removal_notice_ignores_permission:
  fixes w :: "'b world"
  assumes "chat_up (base env)" and "send_room (as_redis s) (rm_user_id q)"
    and "ge_stmt (ga_groups env) 0 = None" and "group_db_ok (as_db s)"
    and "ga_bin_ids env (rm_mem_id q) = Inr p" and "ce_decode_ids cenv p = Inr (rm_mem_id q)"
    and "rm_mem_id q \<noteq> []"
    and "r_set (as_redis s) (group_key (rm_group_id q)) \<noteq> []"
    and "distinct (r_set (as_redis s) (group_key (rm_group_id q)))"
    and "calls_up cenv" and "0 < ce_step cenv"
    and "\<And>v. has_room (ce_step cenv) v (as_redis s)"
  shows "\<exists>m s' gs w'. api_remove_member env q s = (Inr (), s')
    \<and> as_db s' = (if role_in (rm_group_id q) (rm_user_id q) (as_db s) \<in> {Some Admin, Some Owner}
        then delete_members (\<lambda>x. mb_user_id x \<in> set (rm_mem_id q) \<and> mb_group_id x = rm_group_id q) (as_db s)
        else as_db s)
    \<and> as_queue s' = as_queue s @ [ae_json env m]
    \<and> handle_group_seq cenv Group m (seen_by_consumer s' w) = (Inr gs, w')
    \<and> r_set (w_redis w') (group_key (rm_group_id q))
      = filter (\<lambda>v. v \<notin> set (rm_mem_id q)) (r_set (as_redis s) (group_key (rm_group_id q)))"
proof -
  let ?g = "rm_group_id q" and ?u = "rm_user_id q"
  define db where "db = (if role_in ?g ?u (as_db s) \<in> {Some Admin, Some Owner}
        then delete_members (\<lambda>x. mb_user_id x \<in> set (rm_mem_id q) \<and> mb_group_id x = ?g) (as_db s) else as_db s)"
  define m where "m = stamp (ae_nid env) (ae_clock env) (msg_default\<lparr>sender_id := ?u, receiver_id := ?g, group_id := ?g,
        send_time := ae_now env, msg_type := msg_type_code GroupRemoveMember, content := p,
        send_seq := next_number (as_redis s) ?u\<rparr>)"
  define r' where "r' = numbered_send (base env) ?u (as_redis s)"
  have n: "notify (base env) (Inr p) ?u (new_with_group_remove_mem (ae_now env) ?u ?g) (s\<lparr>as_db := db\<rparr>)
      = (Inr (), s\<lparr>as_db := db, as_redis := r', as_queue := as_queue s @ [ae_json env m]\<rparr>)"
    using notify_up [of "base env" "s\<lparr>as_db := db\<rparr>" ?u "new_with_group_remove_mem (ae_now env) ?u ?g" p,
      OF assms(1) _ new_with_group_remove_mem_def] assms(2) by (simp add: m_def r'_def)
  have r': "r_set r' = r_set (as_redis s)" "\<forall>v. r_hash r' (seq_key v) = r_hash (as_redis s) (seq_key v)"
    by (simp_all add: r'_def)
  let ?s' = "s\<lparr>as_db := db, as_redis := r', as_queue := as_queue s @ [ae_json env m]\<rparr>"
  have run: "api_remove_member env q s = (Inr (), ?s')"
    using n assms(3,5) manager_iff_role [OF assms(4)]
    by (simp add: api_remove_member_def and_then_def on_part_eq remove_member_def db_def)
  have m: "msg_type m = msg_type_code GroupRemoveMember" "content m = p" "sender_id m = ?u"
    "receiver_id m = ?g" "group_id m = ?g"
    by (simp_all add: m_def stamp_def)
  have roster: "roster ?g (seen_by_consumer ?s' w) = r_set (as_redis s) (group_key ?g)"
    using assms(8) by (simp add: roster_def r')
  have room: "has_room (ce_step cenv) v r'" for v
    using assms(12) [of v] has_room_cong [of r' v "as_redis s"] r'(2) by simp
  obtain gs w' where "handle_group_seq cenv Group m (seen_by_consumer ?s' w) = (Inr gs, w')"
    "r_set (w_redis w') (group_key ?g) = filter (\<lambda>v. v \<notin> set (rm_mem_id q)) (r_set (as_redis s) (group_key ?g))"
    using leave_updates_roster [OF assms(10,11) m(4) [symmetric] m(5) [symmetric], of "seen_by_consumer ?s' w"
        "rm_mem_id q" GroupRemoveMember] assms(6-9) room
    by (auto simp: m roster r')
  then show ?thesis using run by (intro exI [of _ m] exI [of _ ?s'] exI [of _ gs] exI [of _ w']) (simp add: db_def)
qed

text \<open>
  The notices of files, polls, mutes and announcements reach nobody: their constructors leave
  the receiver empty, so the consumer looks up the members of a group with the empty id, finds none
  and assigns no number to anybody; the sender's number is taken and not sent either.
\<close>

theorem feature_notices_reach_nobody:
  fixes w :: "'b world"
  assumes "chat_up env" and "send_room (as_redis s) u"
    and "request \<in> {new_with_group_file, new_with_group_poll, new_with_group_mute, new_with_group_announcement}"
    and "calls_up cenv" and "0 < ce_step cenv"
    and "r_set (as_redis s) (group_key '''') = []" and "member_ids '''' (as_db s) = []"
  shows "\<exists>m s' w'. notify env (Inr p) u (request u g) s = (Inr (), s')
    \<and> as_queue s' = as_queue s @ [ae_json env m] \<and> group_id m = g \<and> send_seq m = 0
    \<and> handle_group_seq cenv Group m (seen_by_consumer s' w) = (Inr [], w')"
proof -
  have "\<exists>mt \<in> {GroupFile, GroupPoll, GroupMute, GroupAnnouncement}. \<forall>n c. request u g n c =
      \<lparr>message = Some (msg_default\<lparr>sender_id := u, group_id := g, seq := n, content := c, msg_type := msg_type_code mt\<rparr>)\<rparr>"
    using assms(3)
    by (elim insertE emptyE) (simp_all add: new_with_group_file_def new_with_group_poll_def
        new_with_group_mute_def new_with_group_announcement_def)
  then obtain mt where mt: "mt \<in> {GroupFile, GroupPoll, GroupMute, GroupAnnouncement}"
    and req: "\<And>n c. request u g n c = \<lparr>message = Some (msg_default\<lparr>sender_id := u, group_id := g, seq := n,
      content := c, msg_type := msg_type_code mt\<rparr>)\<rparr>" by blast
  define m where "m = stamp (ae_nid env) (ae_clock env) (msg_default\<lparr>sender_id := u, group_id := g,
    seq := next_number (as_redis s) u, content := p, msg_type := msg_type_code mt\<rparr>)"
  define r' where "r' = numbered_send env u (as_redis s)"
  have n: "notify env (Inr p) u (request u g) s = (Inr (), s\<lparr>as_redis := r', as_queue := as_queue s @ [ae_json env m]\<rparr>)"
    using notify_up [OF assms(1,2), of "request u g" p, OF req] by (simp add: m_def r'_def)
  have r': "r_set r' = r_set (as_redis s)" by (simp add: r'_def)
  let ?s' = "s\<lparr>as_redis := r', as_queue := as_queue s @ [ae_json env m]\<rparr>"
  have m: "group_id m = g" "send_seq m = 0" "receiver_id m = ''''" "msg_type m = msg_type_code mt"
    by (simp_all add: m_def stamp_def msg_default_def)
  have roster: "roster '''' (seen_by_consumer ?s' w) = []" using assms(6,7) by (simp add: roster_def r')
  have "msg_type m \<notin> {msg_type_code GroupDismiss, msg_type_code GroupMemberExit, msg_type_code GroupRemoveMember}"
    using mt by (auto simp: m)
  from handle_group_seq_up [OF assms(4,5) _ _ this refl, of "seen_by_consumer ?s' w"]
  obtain w' where "handle_group_seq cenv Group m (seen_by_consumer ?s' w) = (Inr [], w')"
    by (auto simp: m roster numbered_def)
  then show ?thesis using n m by (intro exI [of _ m] exI [of _ ?s'] exI [of _ w']) simp
qed

section \<open>Witnesses\<close>

definition demo_api_env :: group_api_env where
  "demo_api_env = \<lparr>ae_step = 5, ae_out = (\<lambda>_. None), ae_rpc = None, ae_utf8 = (\<lambda>_. True),
     ae_json = content, ae_nid = ''n'', ae_clock = 2000, ae_kafka = None, ae_now = 1000,
     ga_groups = demo_genv, ga_nanoid = ''g2'', ga_bin_invitation = (\<lambda>_. Inr ''inv''),
     ga_bin_ids = (\<lambda>_. Inr ''ids''), ga_bin_group = (\<lambda>_. Inr ''group''), ga_bin_file = (\<lambda>_. Inr ''file''),
     ga_bin_poll = (\<lambda>_. Inr ''poll''), ga_bin_mute = (\<lambda>_. Inr ''mute''),
     ga_bin_announcement = (\<lambda>_. Inr ''announcement'')\<rparr>"

definition demo_api :: group_api where
  "demo_api = \<lparr>as_redis = fold (sadd (group_key ''g'')) [''a'', ''b'', ''c''] redis_empty,
     as_db = demo_group_db, as_queue = []\<rparr>"

lemma demo_api_env_sel [simp]:
  "ae_out demo_api_env = (\<lambda>_. None)" "ae_rpc demo_api_env = None" "ae_kafka demo_api_env = None"
  "ga_groups demo_api_env = demo_genv" "ga_nanoid demo_api_env = ''g2''"
  "ga_bin_invitation demo_api_env x = Inr ''inv''" "ga_bin_ids demo_api_env y = Inr ''ids''"
  "ae_json demo_api_env = content"
  by (simp_all add: demo_api_env_def)

lemma demo_api_facts:
  "chat_up (base demo_api_env)" "send_room (as_redis demo_api) u" "has_room 5 v (as_redis demo_api)"
  "r_set (as_redis demo_api) (group_key ''g'') = [''a'', ''b'', ''c'']"
  "r_set (as_redis demo_api) (group_key ''g2'') = []" "r_set (as_redis demo_api) (group_key '''') = []"
  "as_db demo_api = demo_group_db" "as_queue demo_api = []"
proof -
  have "r_hash (as_redis demo_api) = r_hash redis_empty"
    by (simp only: demo_api_def api_state.simps fold_sadd_hash)
  from same_hash [OF this, of "seq_key v" 5] show "has_room 5 v (as_redis demo_api)"
    by (simp add: has_room_def i64_ok_def)
qed (simp_all add: demo_api_def chat_up_def send_room_def next_number_def cur_of_def hget_def i64_ok_def redis_empty_def sadd_def group_key_def)

theorem created_group_is_announced_witness:
  "\<exists>m s' ms info. create_group_handler demo_api_env ''c'' demo_create demo_api = (Inr (info, ms), s')
    \<and> as_queue s' = [content m] \<and> content m = ''inv'' \<and> send_seq m = next_number (as_redis demo_api) ''c''
    \<and> (\<exists>gs w'. handle_group_seq (demo_cenv (legacy_ops None)) Group m (seen_by_consumer s' (demo_world [] []))
          = (Inr gs, w') \<and> mem_id ` set gs = {''a'', ''b''})"
proof -
  obtain info ms db' where c: "create_group_with_members demo_genv (with_creator ''g2'' ''c'' demo_create) demo_group_db
      = (Inr (info, ms), db')" and ms: "map mb_user_id ms = [''a'', ''b'', ''c'']"
    by (simp add: create_group_with_members_def transaction_def and_then_def Let_def fetch_one_def is_row_def
        fetch_all_def insert_group_row_def insert_member_rows_def demo_group_defs List.map_filter_def with_creator_def)
  from ms have set: "mb_user_id ` set ms = {''a'', ''b'', ''c''}" by (metis list.set(1,2) set_map)
  have "ms \<noteq> []" using ms by auto
  from created_group_is_announced [of demo_api_env demo_api "''c''" demo_create info ms db' "''inv''"
      "demo_cenv (legacy_ops None)" "demo_world [] []"] this c
  obtain m s' gs w' where "create_group_handler demo_api_env ''c'' demo_create demo_api = (Inr (info, ms), s')"
    "as_queue s' = [content m]" "content m = ''inv''" "send_seq m = next_number (as_redis demo_api) ''c''"
    "handle_group_seq (demo_cenv (legacy_ops None)) Group m (seen_by_consumer s' (demo_world [] [])) = (Inr gs, w')"
    "mem_id ` set gs = mb_user_id ` set ms - {''c''}"
    by (auto simp: demo_api_facts)
  moreover have "mb_user_id ` set ms - {''c''} = {''a'', ''b''}" by (auto simp: set)
  ultimately show ?thesis
    by (intro exI [of _ m] exI [of _ s'] exI [of _ ms] exI [of _ info] conjI exI [of _ gs] exI [of _ w']) simp_all
qed

theorem removal_notice_ignores_permission_witness:
  "\<exists>m s' gs w'. api_remove_member demo_api_env
        \<lparr>rm_user_id = ''c'', rm_group_id = ''g'', rm_mem_id = [''b'']\<rparr> demo_api = (Inr (), s')
    \<and> as_db s' = demo_group_db \<and> as_queue s' = [content m]
    \<and> handle_group_seq (demo_cenv (legacy_ops None)) Group m (seen_by_consumer s' (demo_world [] [])) = (Inr gs, w')
    \<and> r_set (w_redis w') (group_key ''g'') = [''a'', ''c'']"
  using removal_notice_ignores_permission [of demo_api_env demo_api
      "\<lparr>rm_user_id = ''c'', rm_group_id = ''g'', rm_mem_id = [''b'']\<rparr>" "''ids''"
      "demo_cenv (legacy_ops None)" "demo_world [] []"]
  by (simp add: demo_api_facts demo_group_ok demo_group_roles)

theorem feature_notices_reach_nobody_witness:
  "\<exists>m s' w'. notify (base demo_api_env) (Inr ''poll'') ''a'' (new_with_group_poll ''a'' ''g'') demo_api = (Inr (), s')
    \<and> as_queue s' = [content m] \<and> group_id m = ''g''
    \<and> handle_group_seq (demo_cenv (legacy_ops None)) Group m (seen_by_consumer s' (demo_world [] [])) = (Inr [], w')"
proof -
  have "member_ids '''' (as_db demo_api) = []"
    by (simp add: demo_api_facts member_ids_def demo_group_defs)
  then show ?thesis
    using feature_notices_reach_nobody [of "base demo_api_env" demo_api "''a''" new_with_group_poll
        "demo_cenv (legacy_ops None)" "''poll''" "''g''" "demo_world [] []"]
    by (auto simp: demo_api_facts)
qed

end
