(* ===== verification/Delivery.thy ===== *)
theory Delivery
  imports Api_Friends Api_Groups
begin

text \<open>
  From one handler to another: what a handler of the API hands to the chat service goes through the
  queue and the consumer into the receive box and comes back through the handler that pulls offline
  messages. The JSON codec of the queue appears as the hypothesis that decoding gives back the
  encoded message.
\<close>

section \<open>Pulling one number\<close>

text \<open>The range that holds exactly the number \<open>n\<close> of a user's receive numbers.\<close>

definition only_number :: "string \<Rightarrow> int \<Rightarrow> GetDbMessagesRequest" where
  "only_number u n = \<lparr>gms_user_id = u, gms_send_start = 0, gms_send_end = 0, gms_start = n - 1, gms_end = n\<rparr>"

lemma wanted_only: "wanted u 0 0 (n - 1) n = (\<lambda>m. receiver_id m = u \<and> seq m = n)"
  by (auto simp: wanted_def fun_eq_iff)

lemma pull_new_number:
  assumes "box_ok mb" and "1 \<le> cap" and "cap < 2 ^ 63"
    and "inbox_of u (mset (msgs_of mb)) = inbox_of u M + {#x#}"
    and "receiver_id x = u" and "seq x = n"
    and "\<And>m. m \<in># M \<Longrightarrow> receiver_id m = u \<Longrightarrow> seq m < n"
    and "as_db s = mb"
  shows "pull_offline_messages (legacy_reader cap None) (only_number u n) s = (Inr [own_seq_zero u x], s)"
proof -
  have "with_capacity cap (0 - 0 + (n - (n - 1))) = Inr ()"
    using assms(2,3) by (simp add: with_capacity_small)
  note eq = box_get_msgs_eq [OF assms(1) this, of u]
  let ?P = "\<lambda>m. receiver_id m = u \<and> seq m = n"
  have "mset (filter ?P (msgs_of mb)) = filter_mset (\<lambda>m. seq m = n) (inbox_of u (mset (msgs_of mb)))"
    by (simp add: inbox_of_def filter_filter_mset conj_commute mset_filter)
  moreover have "filter_mset (\<lambda>m. seq m = n) (inbox_of u M) = filter_mset (\<lambda>_. False) (inbox_of u M)"
    using assms(7) by (intro filter_mset_cong) (auto simp: inbox_of_def)
  moreover from this have "filter_mset (\<lambda>m. seq m = n) (inbox_of u (mset (msgs_of mb))) = {#x#}"
    unfolding assms(4) using assms(6) by simp
  ultimately have "mset (filter ?P (msgs_of mb)) = {#x#}" by simp
  then have "filter ?P (msgs_of mb) = [x]" by (simp only: mset_single_iff)
  then show ?thesis
    using eq assms(8)
    by (simp add: pull_offline_messages_def legacy_reader_def only_number_def on_part_def wanted_only)
qed

lemma synced_after_send:
  assumes "rec_synced step w" and "w_redis w = r"
  shows "rec_synced step (w\<lparr>w_redis := numbered_send env u r\<rparr>)"
  using assms by (simp add: rec_synced_def lim_of_def hget_def)

section \<open>Properties\<close>

text \<open>
  C9. With the unsharded box (\<open>use_sharding\<close> off) and all services up, a friend request reaches a friend who is
  offline: the request made through the API is queued, the consumer gives it the friend's next receive number, and the
  friend who later pulls that number from that box gets exactly this request, from the requester, with the stored
  content. From the sharded box a request stamped in milliseconds is not pulled (\<open>Sharded_Box\<close>).
\<close>

theorem friend_request_pulled_later:
  assumes "create_fs (fa_friends env) c (as_db s) = (Inr (req, send), db')"
    and "fa_bin_fs env send = Inr p" and "chat_up (fbase env)" and "send_room (as_redis s) (fc_user_id c)"
    and m_def: "m = request_notice env c (next_number (as_redis s) (fc_user_id c)) p"
    and "ce_decode_msg cenv (ae_json env m) = Inr m"
    and cenv: "ce_box cenv = legacy_ops None" "calls_up cenv" "0 < ce_step cenv" "ce_step cenv = ae_step env"
    and redis: "w_redis w = as_redis s"
    and world: "seq_wf (ce_step cenv) (as_redis s)" "rec_synced (ce_step cenv) w"
      "rec_max_of (w_seq w) (fc_friend_id c) \<noteq> None" "has_room (ce_step cenv) (fc_friend_id c) (as_redis s)"
      "box_ok (w_box w)" "ps_clients (w_push w) \<noteq> []"
    and n: "n = cur_of (seq_key (fc_friend_id c)) (as_redis s) + 1"
    and earlier: "\<And>m. m \<in> set (msgs_of (w_box w)) \<Longrightarrow> receiver_id m = fc_friend_id c \<Longrightarrow> seq m < n"
    and cap: "1 \<le> cap" "cap < 2 ^ 63"
  shows "\<exists>s' w'. create_friendship env c s = (Inr req, s') \<and> as_db s' = db'
    \<and> as_queue s' = as_queue s @ [ae_json env m]
    \<and> handle_msg cenv (ae_json env m) (w\<lparr>w_redis := as_redis s'\<rparr>) = (Inr (), w')
    \<and> sender_id m = fc_user_id c \<and> receiver_id m = fc_friend_id c \<and> content m = p
    \<and> msg_type m = msg_type_code FriendApplyReq
    \<and> (\<forall>t. as_db t = w_box w' \<longrightarrow>
        pull_offline_messages (legacy_reader cap None) (only_number (fc_friend_id c) n) t
          = (Inr [own_seq_zero (fc_friend_id c) (stored_view (m\<lparr>seq := n\<rparr>))], t))"
proof -
  let ?u = "fc_user_id c" and ?f = "fc_friend_id c"
  define r where "r = numbered_send (fbase env) ?u (as_redis s)"
  have made: "create_friendship env c s = (Inr req, s\<lparr>as_db := db', as_redis := r,
      as_queue := as_queue s @ [ae_json env m]\<rparr>)"
    unfolding m_def r_def using assms(1-4) by (rule create_friendship_up)
  have m: "sender_id m = ?u" "receiver_id m = ?f" "content m = p" "msg_type m = msg_type_code FriendApplyReq"
    by (simp_all add: m_def)
  have wf: "seq_wf (ce_step cenv) r"
    using world(1) cenv(3,4)
    by (simp add: r_def numbered_send_def cache_seq_step_def seq_wf_script_state)
  have same: "cur_of (seq_key ?f) r = cur_of (seq_key ?f) (as_redis s)"
    "has_room (ce_step cenv) ?f r = has_room (ce_step cenv) ?f (as_redis s)"
    by (simp_all add: r_def cur_of_def hget_def has_room_def lim_of_def)
  have kind: "msg_type_of (msg_type m) = Some FriendApplyReq" "get_send_to_db_flag FriendApplyReq"
    by (simp_all add: m msg_type_of_Some_iff get_send_to_db_flag_def)
  have "rec_synced (ce_step cenv) (w\<lparr>w_redis := r\<rparr>)"
    unfolding r_def by (rule synced_after_send [OF world(2) redis])
  note delivered = legacy.single_delivered [OF cenv(1-3) assms(6) kind(1) classify_msg_type.simps(7) kind(2), of
      "w\<lparr>w_redis := r\<rparr>" n, OF _ this]
  have "\<exists>w'. handle_msg cenv (ae_json env m) (w\<lparr>w_redis := r\<rparr>) = (Inr (), w')
    \<and> (\<forall>u. inbox_of u (mset (msgs_of (w_box w'))) = inbox_of u (mset (msgs_of (w_box w)))
         + (if u = ?f then {#stored_view (m\<lparr>seq := n\<rparr>)#} else {#})) \<and> box_ok (w_box w')"
    using delivered wf world(3-6) same n by (force simp: m(2) legacy_ops_def box_save_message_def)
  then obtain w' where w': "handle_msg cenv (ae_json env m) (w\<lparr>w_redis := r\<rparr>) = (Inr (), w')" "box_ok (w_box w')"
    "inbox_of ?f (mset (msgs_of (w_box w'))) = inbox_of ?f (mset (msgs_of (w_box w))) + {#stored_view (m\<lparr>seq := n\<rparr>)#}"
    by auto
  have "pull_offline_messages (legacy_reader cap None) (only_number ?f n) t
      = (Inr [own_seq_zero ?f (stored_view (m\<lparr>seq := n\<rparr>))], t)" if "as_db t = w_box w'" for t
    using pull_new_number [OF w'(2) cap w'(3), of n t] that earlier m by (simp add: stored_view_def)
  then show ?thesis using made m w'(1) by (intro exI) (rule conjI, assumption, auto)
qed

section \<open>A concrete run\<close>

definition demo_sent :: Msg where
  "demo_sent = request_notice demo_friend_api_env demo_request 1 ''single''"

definition codec_cenv :: "Msg \<Rightarrow> collection consumer_env" where
  "codec_cenv m = (demo_cenv (legacy_ops None))\<lparr>ce_decode_msg := \<lambda>p. if p = content m then Inr m else demo_decode p\<rparr>"

lemma codec_cenv_sel [simp]:
  "ce_box (codec_cenv m) = legacy_ops None" "calls_up (codec_cenv m)" "ce_step (codec_cenv m) = 5"
  "ce_decode_msg (codec_cenv m) (content m) = Inr m"
  by (simp_all add: codec_cenv_def demo_cenv_def calls_up_def)

lemma codec_request [simp]:
  "ce_decode_msg (codec_cenv (request_notice env c n p)) p = Inr (request_notice env c n p)"
  by (simp add: codec_cenv_def)

theorem friend_request_pulled_later_witness:
  "\<exists>req s' w'. create_friendship demo_friend_api_env demo_request demo_friend_api = (Inr req, s')
    \<and> as_queue s' = [content demo_sent]
    \<and> handle_msg (codec_cenv demo_sent) (content demo_sent) ((demo_world [''up''] [])\<lparr>w_redis := as_redis s'\<rparr>) = (Inr (), w')
    \<and> pull_offline_messages (legacy_reader 100 None) (only_number ''a'' 1)
         \<lparr>as_redis = w_redis w', as_db = w_box w', as_queue = []\<rparr>
       = (Inr [stored_view (demo_sent\<lparr>seq := 1\<rparr>)], \<lparr>as_redis = w_redis w', as_db = w_box w', as_queue = []\<rparr>)"
proof -
  obtain req send where c: "create_fs demo_friend_env demo_request demo_friend_db =
     (Inr (req, send), requested demo_friend_env demo_request demo_friend_db)"
    using demo_handshake(1) by blast
  have "own_seq_zero ''a'' (stored_view (demo_sent\<lparr>seq := 1\<rparr>)) = stored_view (demo_sent\<lparr>seq := 1\<rparr>)"
    by (simp add: own_seq_zero_def demo_sent_def stored_view_def)
  moreover have "\<exists>s' w'. create_friendship demo_friend_api_env demo_request demo_friend_api = (Inr req, s')
    \<and> as_queue s' = [content demo_sent]
    \<and> handle_msg (codec_cenv demo_sent) (content demo_sent) ((demo_world [''up''] [])\<lparr>w_redis := as_redis s'\<rparr>) = (Inr (), w')
    \<and> (\<forall>t. as_db t = w_box w' \<longrightarrow> pull_offline_messages (legacy_reader 100 None) (only_number ''a'' 1) t
       = (Inr [own_seq_zero ''a'' (stored_view (demo_sent\<lparr>seq := 1\<rparr>))], t))"
    using friend_request_pulled_later [of demo_friend_api_env demo_request demo_friend_api req send
        "requested demo_friend_env demo_request demo_friend_db" "''single''" demo_sent "codec_cenv demo_sent"
        "demo_world [''up''] []" 1 100] c redis_empty_wf [of 5]
    by (simp add: demo_sent_def msgs_of_def) blast
  ultimately show ?thesis by fastforce
qed

end
