(* ===== verification/Api_Users.thy ===== *)
theory Api_Users
  imports Api_Base User_Repo Sharded_Box "HOL-Library.Word"
begin

text \<open>
  Registration, login, passwords and tokens (\<open>api/src/handlers/users/\<close>: \<open>mod.rs\<close>, \<open>user_handlers.rs\<close>,
  \<open>oauth2.rs\<close>) and the region of an address (\<open>api/src/api_utils/ip_region/mod.rs\<close>).

  Parameters stand for \<open>jsonwebtoken\<close>, \<open>base64\<close>, the template and mail crates, the address database of
  \<open>xdb\<close>, the OAuth2 and HTTP clients, the image detection and the object store; the password hash is
  a parameter of the user repository. Times are seconds. A text is its UTF-8 bytes.
\<close>

section \<open>Texts\<close>

definition is_cont :: "char \<Rightarrow> bool" where
  "is_cont c \<longleftrightarrow> 128 \<le> (of_char c :: nat) \<and> (of_char c :: nat) < 192"

definition byte_in :: "char \<Rightarrow> nat \<Rightarrow> nat \<Rightarrow> bool" where
  "byte_in c lo hi \<longleftrightarrow> lo \<le> of_char c \<and> of_char c \<le> hi"

text \<open>\<open>String::from_utf8\<close>: the well-formed byte sequences.\<close>

fun utf8_valid :: "string \<Rightarrow> bool" where
  "utf8_valid [] = True"
| "utf8_valid (a # xs) =
     (if byte_in a 0 127 then utf8_valid xs
      else case xs of
        [] \<Rightarrow> False
      | b # ys \<Rightarrow>
          if byte_in a 194 223 then is_cont b \<and> utf8_valid ys
          else case ys of
            [] \<Rightarrow> False
          | c # zs \<Rightarrow>
              if byte_in a 224 239
              then (if byte_in a 224 224 then byte_in b 160 191
                    else if byte_in a 237 237 then byte_in b 128 159 else is_cont b)
                \<and> is_cont c \<and> utf8_valid zs
              else case zs of
                [] \<Rightarrow> False
              | d # rest \<Rightarrow>
                  byte_in a 240 244
                  \<and> (if byte_in a 240 240 then byte_in b 144 191
                     else if byte_in a 244 244 then byte_in b 128 143 else is_cont b)
                  \<and> is_cont c \<and> is_cont d \<and> utf8_valid rest)"

declare utf8_valid.simps(2) [simp del]

text \<open>\<open>text.chars().count()\<close>.\<close>

definition char_count :: "string \<Rightarrow> nat" where
  "char_count s = length (filter (\<lambda>c. \<not> is_cont c) s)"

fun split_char :: "char \<Rightarrow> string \<Rightarrow> string list" where
  "split_char sep [] = [[]]"
| "split_char sep (c # cs) =
     (if c = sep then [] # split_char sep cs
      else case split_char sep cs of [] \<Rightarrow> [[c]] | w # ws \<Rightarrow> (c # w) # ws)"

section \<open>Regions\<close>

definition CHINA :: string where
  "CHINA = [CHR 0xE4, CHR 0xB8, CHR 0xAD, CHR 0xE5, CHR 0x9B, CHR 0xBD]"

definition INTERNAL_IP :: string where
  "INTERNAL_IP = [CHR 0xE5, CHR 0x86, CHR 0x85, CHR 0xE7, CHR 0xBD, CHR 0x91] @ ''IP''"

definition ZERO :: string where "ZERO = ''0''"

definition parse_region :: "string \<Rightarrow> string option" where
  "parse_region region =
     (case split_char (CHR ''|'') region of
        [country, _, province, city, _] \<Rightarrow>
          if country = CHINA \<and> (province = '''' \<or> province = ZERO) then Some CHINA
          else if country = CHINA then Some province
          else if country \<noteq> CHINA \<and> country \<noteq> ZERO then Some country
          else if city = INTERNAL_IP then Some INTERNAL_IP
          else None
      | _ \<Rightarrow> None)"

section \<open>Environment\<close>

record AuthClaims =
  ac_sub :: string
  ac_exp :: int
  ac_iat :: int

datatype ip_addr = V4 "32 word" | V6 "128 word"

record GitHubUser =
  gh_name :: string
  gh_avatar_url :: string

record GitHubEmail =
  ge_email :: string
  ge_primary :: bool

record user_api_env = api_env +
  ua_users :: user_env
  ua_init_max_seq :: int
  ua_time :: int
  ua_secret :: string
  ua_encode :: "string \<Rightarrow> AuthClaims \<Rightarrow> string + string"
  ua_decode :: "string \<Rightarrow> int \<Rightarrow> string \<Rightarrow> string + AuthClaims"
  ua_base64 :: "string \<Rightarrow> string + string"
  ua_ws :: "string option"
  ua_protocol :: string
  ua_search :: "32 word \<Rightarrow> string + string"
  ua_nanoid :: string
  ua_random :: nat
  ua_mail :: "string \<Rightarrow> string \<Rightarrow> string + unit"
  ua_exchange :: "string \<Rightarrow> string + string"
  ua_emails :: "string \<Rightarrow> GitHubEmail list res"
  ua_github_user :: "string \<Rightarrow> GitHubUser res"
  ua_download :: "string \<Rightarrow> string res"
  ua_guess :: "string \<Rightarrow> string list option"
  ua_upload :: "string \<Rightarrow> string \<Rightarrow> unit res"

type_synonym user_api = "user_db api_state"

text \<open>\<open>result.map_err(Error::internal)?\<close>.\<close>

definition or_internal :: "string + 'a \<Rightarrow> ('s, 'a) act" where
  "or_internal r = (case r of Inl e \<Rightarrow> fail (Failed (internal e)) | Inr a \<Rightarrow> ok a)"

definition ok_or :: "Error \<Rightarrow> 'a option \<Rightarrow> ('s, 'a) act" where
  "ok_or e r = (case r of None \<Rightarrow> fail (Failed e) | Some a \<Rightarrow> ok a)"

section \<open>Requests\<close>

record UserRegister =
  rg_avatar :: string
  rg_name :: string
  rg_password :: string
  rg_email :: string
  rg_code :: string

record Token =
  tk_user :: User
  tk_token :: string
  tk_refresh_token :: string
  tk_ws_addr :: string

record LoginRequest =
  lg_account :: string
  lg_password :: string

record ModifyPwdRequest =
  mp_user_id :: string
  mp_email :: string
  mp_pwd :: string
  mp_code :: string

definition from_utf8 :: "string \<Rightarrow> string + string" where
  "from_utf8 s = (if utf8_valid s then Inr s else Inl ''invalid utf-8 sequence'')"

definition decode_pwd :: "user_api_env \<Rightarrow> string \<Rightarrow> ('s, string) act" where
  "decode_pwd env p = and_then (or_internal (ua_base64 env p)) (\<lambda>pwd. or_internal (from_utf8 pwd))"

definition login_decode :: "user_api_env \<Rightarrow> LoginRequest \<Rightarrow> ('s, LoginRequest) act" where
  "login_decode env q =
     (if lg_account q = '''' \<or> lg_password q = '''' then fail (Failed (bad_request ''parameter is none''))
      else and_then (decode_pwd env (lg_password q)) (\<lambda>pwd. ok (q\<lparr>lg_password := pwd\<rparr>)))"

definition modify_pwd_decode :: "user_api_env \<Rightarrow> ModifyPwdRequest \<Rightarrow> ('s, ModifyPwdRequest) act" where
  "modify_pwd_decode env q =
     (if mp_user_id q = '''' \<or> mp_email q = '''' \<or> mp_pwd q = '''' \<or> mp_code q = ''''
      then fail (Failed (bad_request ''parameter is none''))
      else and_then (decode_pwd env (mp_pwd q)) (\<lambda>pwd. ok (q\<lparr>mp_pwd := pwd\<rparr>)))"

section \<open>Tokens\<close>

definition REFRESH_EXPIRES :: int where "REFRESH_EXPIRES = 24 * 60 * 60"
definition EXPIRES :: int where "EXPIRES = 60 * 60 * 4"

definition claims_new :: "int \<Rightarrow> string \<Rightarrow> AuthClaims" where
  "claims_new now s = \<lparr>ac_sub = s, ac_exp = now + EXPIRES, ac_iat = now\<rparr>"

definition extended :: "AuthClaims \<Rightarrow> AuthClaims" where
  "extended c = c\<lparr>ac_exp := ac_exp c + REFRESH_EXPIRES\<rparr>"

definition region_of :: "user_api_env \<Rightarrow> ip_addr \<Rightarrow> string option" where
  "region_of env addr =
     (case addr of
        V4 a \<Rightarrow> (case ua_search env a of Inr region \<Rightarrow> parse_region region | Inl e \<Rightarrow> None)
      | V6 _ \<Rightarrow> None)"

definition gen_token :: "user_api_env \<Rightarrow> User \<Rightarrow> ip_addr \<Rightarrow> (user_api, Token) act" where
  "gen_token env user addr =
     (let claims = claims_new (ua_time env) (us_id user); region = region_of env addr in
      and_then (or_internal (ua_encode env (ua_secret env) claims)) (\<lambda>token.
      and_then (or_internal (ua_encode env (ua_secret env) (extended claims))) (\<lambda>refresh.
      and_then (on_cache (user_login (ae_out env ALogin) (us_account user))) (\<lambda>_.
      and_then (ok_or (internal_with_details ''No websocket service available'')
        (map_option (\<lambda>a. ua_protocol env @ ''://'' @ a @ ''/ws'') (ua_ws env))) (\<lambda>ws_addr.
      and_then (case region of
          None \<Rightarrow> ok ()
        | Some rg \<Rightarrow> on_db (update_region (ua_users env) (us_id user) rg)) (\<lambda>_.
      ok \<lparr>tk_user = user\<lparr>us_region := region\<rparr>, tk_token = token, tk_refresh_token = refresh,
           tk_ws_addr = ws_addr\<rparr>))))))"

definition refresh_token :: "user_api_env \<Rightarrow> string \<Rightarrow> bool \<Rightarrow> (user_api, string) act" where
  "refresh_token env token is_refresh =
     (case ua_decode env (ua_secret env) (ua_time env) token of
        Inl e \<Rightarrow> fail (Failed (unauthorized e ''/refresh_token''))
      | Inr claim \<Rightarrow>
          (let claims = claims_new (ua_time env) (ac_sub claim) in
           or_internal (ua_encode env (ua_secret env) (if is_refresh then extended claims else claims))))"

section \<open>Handlers\<close>

definition user_default :: User where
  "user_default = \<lparr>us_id = '''', us_name = '''', us_account = '''', us_password = '''', us_avatar = '''',
     us_gender = '''', us_age = 0, us_phone = None, us_email = None, us_address = None,
     us_region = None, us_birthday = None, us_create_time = 0, us_update_time = 0, us_salt = '''',
     us_signature = '''', us_last_login_time = None, us_last_login_ip = None,
     us_two_factor_enabled = False, us_account_status = '''', us_status = '''',
     us_last_active_time = None, us_status_message = None, us_privacy_settings = '''',
     us_notification_settings = '''', us_language = '''', us_friend_requests_privacy = '''',
     us_profile_visibility = '''', us_theme = '''', us_timezone = '''', us_is_delete = False\<rparr>"

definition checked_code :: "user_api_env \<Rightarrow> string \<Rightarrow> string \<Rightarrow> string \<Rightarrow> string \<Rightarrow> (user_api, unit) act" where
  "checked_code env email code expired invalid =
     and_then (on_cache (get_register_code (ae_out env AGetCode) (ua_time env) email)) (\<lambda>stored.
     and_then (ok_or (code_expired expired) stored) (\<lambda>c.
     if c \<noteq> code then fail (Failed (code_invalid invalid)) else ok ()))"

definition api_create_user :: "user_api_env \<Rightarrow> UserRegister \<Rightarrow> (user_api, User) act" where
  "api_create_user env new_user =
     and_then (checked_code env (rg_email new_user) (rg_code new_user) ''in register'' ''in register'') (\<lambda>_.
     let salt = ue_new_salt (ua_users env) in
     and_then (lift_res (hash_password (ua_users env) (rg_password new_user) salt)) (\<lambda>password.
     and_then (on_db (create_user (ua_users env) (ua_init_max_seq env)
       (user_default\<lparr>us_id := ua_nanoid env, us_name := rg_name new_user, us_account := ua_nanoid env,
          us_password := password, us_salt := salt, us_email := Some (rg_email new_user),
          us_avatar := rg_avatar new_user\<rparr>))) (\<lambda>user.
     and_then (on_cache (del_register_code (ae_out env ADelCode) (rg_email new_user))) (\<lambda>_.
     ok user))))"

definition api_update_user :: "user_api_env \<Rightarrow> UserUpdate \<Rightarrow> (user_api, User) act" where
  "api_update_user env u = on_db (update_user (ua_users env) u)"

definition api_get_user_by_id :: "user_api_env \<Rightarrow> string \<Rightarrow> (user_api, User) act" where
  "api_get_user_by_id env i = and_then (on_db (get_user_by_id (ua_users env) i)) (\<lambda>r. ok_or not_found r)"

definition api_search_user :: "user_api_env \<Rightarrow> string \<Rightarrow> string \<Rightarrow> (user_api, UserWithMatchType option) act" where
  "api_search_user env user_id pattern =
     (if pattern = '''' \<or> 32 < char_count pattern
      then fail (Failed (bad_request ''keyword is empty or too long''))
      else on_db (search_user (ua_users env) user_id pattern))"

definition logout :: "user_api_env \<Rightarrow> string \<Rightarrow> (user_api, unit) act" where
  "logout env uuid = on_cache (user_logout (ae_out env ALogout) uuid)"

definition login :: "user_api_env \<Rightarrow> ip_addr \<Rightarrow> LoginRequest \<Rightarrow> (user_api, Token) act" where
  "login env addr q =
     and_then (login_decode env q) (\<lambda>q.
     and_then (on_db (verify_pwd (ua_users env) (lg_account q) (lg_password q))) (\<lambda>found.
     and_then (ok_or not_found found) (\<lambda>user.
     gen_token env user addr)))"

definition api_modify_pwd :: "user_api_env \<Rightarrow> ModifyPwdRequest \<Rightarrow> (user_api, unit) act" where
  "api_modify_pwd env q =
     and_then (modify_pwd_decode env q) (\<lambda>q.
     and_then (checked_code env (mp_email q) (mp_code q) ''code is expired'' ''code is invalid'') (\<lambda>_.
     on_db (modify_pwd (ua_users env) (mp_user_id q) (mp_pwd q))))"

text \<open>The template, the two addresses, the relay and the delivery come from the parameter; the code is
  stored by a spawned task that only logs a failure.\<close>

definition send_email :: "user_api_env \<Rightarrow> string \<Rightarrow> (user_api, unit) act" where
  "send_email env email =
     (if email = '''' then fail (Failed (bad_request ''parameter is none''))
      else and_then (or_internal (ua_mail env email (show_nat (ua_random env)))) (\<lambda>_ s.
        (Inr (), snd (on_cache (save_register_code (ae_out env ASaveCode) (ua_time env) email
           (show_nat (ua_random env))) s))))"

section \<open>OAuth2\<close>

definition download_avatar :: "user_api_env \<Rightarrow> string \<Rightarrow> (user_api, string) act" where
  "download_avatar env url =
     and_then (lift_res (ua_download env url)) (\<lambda>bytes.
     and_then (case ua_guess env bytes of
         None \<Rightarrow> ok (ua_nanoid env)
       | Some [] \<Rightarrow> fail (Panicked ''called `Option::unwrap()` on a `None` value'')
       | Some (ext # _) \<Rightarrow> ok (ua_nanoid env @ ''.'' @ ext)) (\<lambda>filename.
     and_then (lift_res (ua_upload env filename bytes)) (\<lambda>_. ok filename)))"

text \<open>The avatar's name and the user's id are two draws of \<open>nanoid!()\<close>; the second is the argument.\<close>

definition register_user :: "user_api_env \<Rightarrow> string \<Rightarrow> string \<Rightarrow> string \<Rightarrow> (user_api, User) act" where
  "register_user env i email access_token =
     and_then (lift_res (ua_github_user env access_token)) (\<lambda>user.
     and_then (download_avatar env (gh_avatar_url user)) (\<lambda>avatar.
     on_db (create_user (ua_users env) (ua_init_max_seq env)
       (user_default\<lparr>us_id := i, us_name := gh_name user, us_account := i, us_email := Some email,
          us_avatar := avatar\<rparr>))))"

definition github_callback :: "user_api_env \<Rightarrow> string \<Rightarrow> string \<Rightarrow> ip_addr \<Rightarrow> (user_api, Token) act" where
  "github_callback env i code addr =
     and_then (or_internal (ua_exchange env code)) (\<lambda>access_token.
     and_then (lift_res (ua_emails env access_token)) (\<lambda>emails.
     and_then (ok_or not_found (find ge_primary emails)) (\<lambda>email.
     and_then (on_db (get_user_by_email (ua_users env) (ge_email email))) (\<lambda>info.
     and_then (case info of None \<Rightarrow> register_user env i (ge_email email) access_token | Some u \<Rightarrow> ok u) (\<lambda>user.
     gen_token env user addr)))))"

text \<open>The redirects to a provider: a fresh state goes into the address and is kept nowhere. \<open>authorize\<close> is the
  address \<open>oauth2\<close> makes of a client, the state and the scopes.\<close>

record AuthResp =
  au_code :: string
  au_state :: string

definition get_auth_url :: "('c \<Rightarrow> string \<Rightarrow> string list \<Rightarrow> string) \<Rightarrow> 'c \<Rightarrow> string \<Rightarrow> string" where
  "get_auth_url authorize client csrf = authorize client csrf [''read:user'', ''user:email'']"

definition github_login :: "('c \<Rightarrow> string \<Rightarrow> string list \<Rightarrow> string) \<Rightarrow> 'c \<Rightarrow> string \<Rightarrow> string" where
  "github_login authorize github csrf = get_auth_url authorize github csrf"

definition google_login :: "('c \<Rightarrow> string \<Rightarrow> string list \<Rightarrow> string) \<Rightarrow> 'c \<Rightarrow> string \<Rightarrow> string" where
  "google_login authorize google csrf = get_auth_url authorize google csrf"

text \<open>The outcome of the exchange is only logged.\<close>

definition google_callback :: "user_api_env \<Rightarrow> AuthResp \<Rightarrow> (user_api, unit) act" where
  "google_callback env auth s = (case ua_exchange env (au_code auth) of Inl _ \<Rightarrow> (Inr (), s) | Inr _ \<Rightarrow> (Inr (), s))"

section \<open>Facts\<close>

lemma or_internal_simps [simp]: "or_internal (Inr a) = ok a" "or_internal (Inl e) = fail (Failed (internal e))"
  by (simp_all add: or_internal_def)

lemma ok_or_simps [simp]: "ok_or e (Some a) = ok a" "ok_or e None = fail (Failed e)"
  by (simp_all add: ok_or_def)

text \<open>The code a mail address has been sent and that has not run out.\<close>

definition live_code :: "redis \<Rightarrow> int \<Rightarrow> string \<Rightarrow> string option" where
  "live_code r now email =
     (case r_expire r REGISTER_CODE_KEY of
        Some t \<Rightarrow> if t \<le> now then None else r_text r REGISTER_CODE_KEY email
      | None \<Rightarrow> r_text r REGISTER_CODE_KEY email)"

lemma checked_code_up:
  assumes "ae_out env AGetCode = None"
  shows "checked_code env email code expired invalid s =
    (case live_code (as_redis s) (ua_time env) email of
       None \<Rightarrow> (Inl (Failed (code_expired expired)), s)
     | Some c \<Rightarrow> (if c = code then Inr () else Inl (Failed (code_invalid invalid)), s))"
  using assms
  by (auto simp: checked_code_def and_then_def on_part_def get_register_code_def live_code_def split: option.split)

lemma checked_code_InrD:
  assumes "checked_code env email code expired invalid s = (Inr x, t)"
  shows "t = s"
  using assms
  by (auto simp: checked_code_def get_register_code_def on_part_def ok_or_def elim!: and_then_eq_InrE remote_InrE
      split: prod.splits if_splits option.splits)

text \<open>What a successful registration has done: the user is stored under the new id with the hashed
  password, and the code is gone.\<close>

lemma api_create_user_Inr:
  assumes "api_create_user env q s = (Inr user, s1)"
  obtains h where "hash_password (ua_users env) (rg_password q) (ue_new_salt (ua_users env)) = Inr h"
    and "us_id user = ua_nanoid env" and "us_account user = ua_nanoid env" and "us_password user = h"
    and "us_email user = Some (rg_email q)"
    and "ud_users (as_db s1) = ud_users (as_db s) @ [user]"
    and "r_text (as_redis s1) REGISTER_CODE_KEY (rg_email q) = None"
proof -
  let ?salt = "ue_new_salt (ua_users env)"
  from assms obtain h s2 where h: "hash_password (ua_users env) (rg_password q) ?salt = Inr h"
    and c: "on_db (create_user (ua_users env) (ua_init_max_seq env)
       (user_default\<lparr>us_id := ua_nanoid env, us_name := rg_name q, us_account := ua_nanoid env,
          us_password := h, us_salt := ?salt, us_email := Some (rg_email q), us_avatar := rg_avatar q\<rparr>)) s = (Inr user, s2)"
    and d: "on_cache (del_register_code (ae_out env ADelCode) (rg_email q)) s2 = (Inr (), s1)"
    unfolding api_create_user_def Let_def
    by (auto elim!: and_then_eq_InrE simp: lift_res_def dest!: checked_code_InrD split: sum.splits)
  from c obtain db where "create_user (ua_users env) (ua_init_max_seq env)
       (user_default\<lparr>us_id := ua_nanoid env, us_name := rg_name q, us_account := ua_nanoid env,
          us_password := h, us_salt := ?salt, us_email := Some (rg_email q), us_avatar := rg_avatar q\<rparr>) (as_db s)
     = (Inr user, db)" "s2 = s\<lparr>as_db := db\<rparr>"
    by (auto simp: on_part_def split: prod.splits)
  note made = create_user_Inr [OF this(1)] this(2)
  from d have "as_db s1 = as_db s2" "r_text (as_redis s1) REGISTER_CODE_KEY (rg_email q) = None"
    by (auto simp: on_part_def del_register_code_def elim!: remote_InrE split: prod.splits)
  then show ?thesis using h made by (intro that) (simp_all add: new_user_row_def)
qed

lemma gen_token_up:
  assumes "ua_encode env (ua_secret env) (claims_new (ua_time env) (us_id user)) = Inr a"
    and "ua_encode env (ua_secret env) (extended (claims_new (ua_time env) (us_id user))) = Inr b"
    and "ae_out env ALogin = None" and "ua_ws env = Some w"
    and "ue_schema (ua_users env) = migrated" and "ue_stmt (ua_users env) 0 = None"
  shows "gen_token env user addr s =
    (Inr \<lparr>tk_user = user\<lparr>us_region := region_of env addr\<rparr>, tk_token = a, tk_refresh_token = b,
       tk_ws_addr = ua_protocol env @ ''://'' @ w @ ''/ws''\<rparr>,
     s\<lparr>as_redis := sadd USER_ONLINE_SET (us_account user) (as_redis s), as_db := (case region_of env addr of
        None \<Rightarrow> as_db s
      | Some rg \<Rightarrow> update_users (\<lambda>u. us_id u = us_id user) (us_region_update (\<lambda>_. Some rg)) (as_db s))\<rparr>)"
  using assms
  by (cases s; cases "region_of env addr")
     (simp_all add: gen_token_def Let_def and_then_def on_part_def user_login_def update_region_def)

lemma find_append_case: "find P (xs @ ys) = (case find P xs of None \<Rightarrow> find P ys | Some x \<Rightarrow> Some x)"
  by (induction xs) simp_all

section \<open>Tokens and their law\<close>

text \<open>What the code relies on of \<open>jsonwebtoken\<close>: claims encode, and decode to themselves with the same
  secret until 60 seconds (the default leeway) after they expire.\<close>

definition jwt_law :: "user_api_env \<Rightarrow> bool" where
  "jwt_law env \<longleftrightarrow> (\<forall>k c. \<exists>t. ua_encode env k c = Inr t \<and>
     (\<forall>now. ua_decode env k now t = (if ac_exp c + 60 < now then Inl ''ExpiredSignature'' else Inr c)))"

definition token_accepted :: "user_api_env \<Rightarrow> int \<Rightarrow> string \<Rightarrow> string \<Rightarrow> bool" where
  "token_accepted env now token u \<longleftrightarrow> (\<exists>c. ua_decode env (ua_secret env) now token = Inr c \<and> ac_sub c = u)"

lemma jwt_encoded:
  assumes "jwt_law env"
  obtains t where "ua_encode env (ua_secret env) c = Inr t"
    and "\<And>now u. token_accepted env now t u \<longleftrightarrow> now \<le> ac_exp c + 60 \<and> u = ac_sub c"
proof -
  from assms obtain t where t: "ua_encode env (ua_secret env) c = Inr t"
    "\<forall>now. ua_decode env (ua_secret env) now t = (if ac_exp c + 60 < now then Inl ''ExpiredSignature'' else Inr c)"
    unfolding jwt_law_def by blast
  then show ?thesis by (intro that [of t]) (auto simp: token_accepted_def)
qed

text \<open>The holder of a token renews it at the given times, asking for the longer lifetime.\<close>

fun renewed :: "user_api_env \<Rightarrow> string \<Rightarrow> int list \<Rightarrow> user_api \<Rightarrow> string option" where
  "renewed env token [] s = Some token"
| "renewed env token (t # ts) s =
     (case refresh_token (env\<lparr>ua_time := t\<rparr>) token True s of
        (Inr token', s') \<Rightarrow> renewed env token' ts s'
      | (Inl e, _) \<Rightarrow> None)"

fun gaps_within :: "int \<Rightarrow> int \<Rightarrow> int list \<Rightarrow> bool" where
  "gaps_within d t [] = True"
| "gaps_within d t (t' # ts) = (t' \<le> t + d \<and> gaps_within d t' ts)"

lemma refresh_accepted:
  assumes "jwt_law env" and "token_accepted env t token u"
  shows "\<exists>token'. refresh_token (env\<lparr>ua_time := t\<rparr>) token b s = (Inr token', s)
    \<and> (\<forall>now v. token_accepted env now token' v \<longleftrightarrow> now \<le> t + EXPIRES + (if b then REFRESH_EXPIRES else 0) + 60 \<and> v = u)"
proof -
  from assms(2) obtain c where c: "ua_decode env (ua_secret env) t token = Inr c" "ac_sub c = u"
    unfolding token_accepted_def by blast
  let ?c = "if b then extended (claims_new t u) else claims_new t u"
  obtain token' where "ua_encode env (ua_secret env) ?c = Inr token'"
    "\<And>now v. token_accepted env now token' v \<longleftrightarrow> now \<le> ac_exp ?c + 60 \<and> v = ac_sub ?c"
    using jwt_encoded [OF assms(1)] by blast
  with c show ?thesis
    by (intro exI [of _ token']) (cases b; simp add: refresh_token_def Let_def extended_def claims_new_def)
qed

section \<open>Properties\<close>

text \<open>
  C27. A registered user can log in, and a code registers once: after a successful registration,
  \<open>login\<close> with the new id and the registered password answers with a token that is accepted for
  this user for four hours and a refresh token accepted for twenty-eight (each with the leeway),
  and marks the user as online; a second registration with the same mail address is answered with
  an expired code. Of Argon2 and the token library only their documented laws are used.
\<close>

theorem registered_user_logs_in:
  assumes argon2: "\<forall>p s h. ue_argon2 (ua_users env) p s = Inr h \<longrightarrow>
      ue_parse_hash (ua_users env') h = None \<and> ue_verify (ua_users env') p h"
    and registered: "api_create_user env q s = (Inr user, s1)"
    and fresh: "\<forall>u \<in> set (ud_users (as_db s)). \<not> login_match (ua_nanoid env) u"
    and l: "lg_account l = ua_nanoid env" "ua_nanoid env \<noteq> ''''" "lg_password l \<noteq> ''''"
      "ua_base64 env' (lg_password l) = Inr (rg_password q)" "utf8_valid (rg_password q)"
    and env': "jwt_law env'" "ae_out env' ALogin = None" "ua_ws env' = Some w"
      "ue_schema (ua_users env') = migrated" "ue_stmt (ua_users env') 0 = None" "ae_out env' AGetCode = None"
  shows "\<exists>tk s2. login env' addr l s1 = (Inr tk, s2) \<and> us_id (tk_user tk) = ua_nanoid env
    \<and> us_password (tk_user tk) = '''' \<and> us_email (tk_user tk) = Some (rg_email q)
    \<and> (\<forall>now u. token_accepted env' now (tk_token tk) u \<longleftrightarrow> now \<le> ua_time env' + EXPIRES + 60 \<and> u = ua_nanoid env)
    \<and> (\<forall>now u. token_accepted env' now (tk_refresh_token tk) u \<longleftrightarrow>
         now \<le> ua_time env' + EXPIRES + REFRESH_EXPIRES + 60 \<and> u = ua_nanoid env)
    \<and> ua_nanoid env \<in> set (r_set (as_redis s2) USER_ONLINE_SET)
    \<and> (\<forall>q'. rg_email q' = rg_email q \<longrightarrow>
         api_create_user env' q' s1 = (Inl (Failed (code_expired ''in register'')), s1))"
proof -
  from registered obtain h where h: "hash_password (ua_users env) (rg_password q) (ue_new_salt (ua_users env)) = Inr h"
    and u: "us_id user = ua_nanoid env" "us_account user = ua_nanoid env" "us_password user = h"
      "us_email user = Some (rg_email q)" "ud_users (as_db s1) = ud_users (as_db s) @ [user]"
    and gone: "r_text (as_redis s1) REGISTER_CODE_KEY (rg_email q) = None"
    by (rule api_create_user_Inr)
  have hash: "ue_parse_hash (ua_users env') h = None" "ue_verify (ua_users env') (rg_password q) h"
    using argon2 h by (auto simp: hash_password_def split: if_splits sum.splits)
  have "find (login_match (ua_nanoid env)) (ud_users (as_db s)) = None"
    using fresh by (simp add: find_None_iff)
  then have "find (login_match (ua_nanoid env)) (ud_users (as_db s1)) = Some user"
    using u by (simp add: find_append_case login_match_def)
  note verified = verify_pwd_found [OF env'(4,5) this, of "rg_password q"]
  let ?v = "user\<lparr>us_password := ''''\<rparr>" and ?c = "claims_new (ua_time env') (ua_nanoid env)"
  obtain a b where a: "ua_encode env' (ua_secret env') ?c = Inr a"
      "\<And>now u. token_accepted env' now a u \<longleftrightarrow> now \<le> ac_exp ?c + 60 \<and> u = ac_sub ?c"
    and b: "ua_encode env' (ua_secret env') (extended ?c) = Inr b"
      "\<And>now u. token_accepted env' now b u \<longleftrightarrow> now \<le> ac_exp (extended ?c) + 60 \<and> u = ac_sub (extended ?c)"
    using jwt_encoded [OF env'(1)] by metis
  have "login env' addr l s1 = gen_token env' ?v addr s1"
    using l verified hash u
    by (simp add: login_def login_decode_def decode_pwd_def from_utf8_def and_then_def on_part_def)
  with gen_token_up [of env' ?v a b w addr s1] a(1) b(1) env' u
  have run: "login env' addr l s1 = (Inr \<lparr>tk_user = ?v\<lparr>us_region := region_of env' addr\<rparr>, tk_token = a,
      tk_refresh_token = b, tk_ws_addr = ua_protocol env' @ ''://'' @ w @ ''/ws''\<rparr>,
    s1\<lparr>as_redis := sadd USER_ONLINE_SET (ua_nanoid env) (as_redis s1), as_db := (case region_of env' addr of
        None \<Rightarrow> as_db s1
      | Some rg \<Rightarrow> update_users (\<lambda>u. us_id u = ua_nanoid env) (us_region_update (\<lambda>_. Some rg)) (as_db s1))\<rparr>)"
    by (simp cong: option.case_cong)
  have again: "api_create_user env' q' s1 = (Inl (Failed (code_expired ''in register'')), s1)"
    if "rg_email q' = rg_email q" for q'
    using gone that env'(6)
    by (simp add: api_create_user_def and_then_def checked_code_up live_code_def split: option.split)
  show ?thesis
    by (intro exI, intro conjI, rule run)
       (auto simp: u a(2) b(2) again sadd_def claims_new_def extended_def)
qed

text \<open>
  A code sent to one mail address changes the password of any account: \<open>modify_pwd\<close> checks the
  code against the address in the request and changes the password of the user id in the request;
  whether the address belongs to that user is not asked. The code stays valid.
\<close>

theorem code_changes_any_password:
  assumes "mp_user_id q \<noteq> ''''" "mp_email q \<noteq> ''''" "mp_pwd q \<noteq> ''''" "mp_code q \<noteq> ''''"
    and "ua_base64 env (mp_pwd q) = Inr p" and "utf8_valid p"
    and "ae_out env AGetCode = None" and "live_code (as_redis s) (ua_time env) (mp_email q) = Some (mp_code q)"
    and "modify_pwd (ua_users env) (mp_user_id q) p (as_db s) = (Inr (), db')"
  shows "api_modify_pwd env q s = (Inr (), s\<lparr>as_db := db'\<rparr>)
    \<and> live_code (as_redis (s\<lparr>as_db := db'\<rparr>)) (ua_time env) (mp_email q) = Some (mp_code q)"
  using assms
  by (simp add: api_modify_pwd_def modify_pwd_decode_def decode_pwd_def from_utf8_def and_then_def
      checked_code_up on_part_def)

text \<open>
  C34. Every token renews itself: \<open>refresh_token\<close> accepts an access token as well as a refresh token
  and lets the caller choose the lifetime, so whoever holds one token that is still accepted, however
  short its rest, keeps an accepted token of the same user for as long as it renews within
  twenty-eight hours each time.
\<close>

theorem any_token_renews_forever:
  assumes "jwt_law env" and "token_accepted env t token u"
    and "gaps_within (EXPIRES + REFRESH_EXPIRES + 60) t ts"
  shows "\<exists>token'. renewed env token (t # ts) s = Some token'
    \<and> (\<forall>now \<le> last (t # ts) + EXPIRES + REFRESH_EXPIRES + 60. token_accepted env now token' u)"
  using assms(2,3)
proof (induction ts arbitrary: t token s)
  case Nil
  from refresh_accepted [OF assms(1) Nil(1), of True s] show ?case by auto
next
  case (Cons t' ts)
  from refresh_accepted [OF assms(1) Cons.prems(1), of True s] obtain token' where
    r: "refresh_token (env\<lparr>ua_time := t\<rparr>) token True s = (Inr token', s)"
    and a: "\<forall>now v. token_accepted env now token' v \<longleftrightarrow> now \<le> t + EXPIRES + REFRESH_EXPIRES + 60 \<and> v = u"
    by auto
  from Cons.prems(2) a have "token_accepted env t' token' u" "gaps_within (EXPIRES + REFRESH_EXPIRES + 60) t' ts"
    by (simp_all add: add.assoc)
  from Cons.IH [OF this, of s] r show ?case by simp
qed

section \<open>Concrete instances\<close>

text \<open>A token that spells its claims: the two times in unary with the sign as parity, then the subject.\<close>

definition unary :: "int \<Rightarrow> string" where
  "unary n = replicate (nat (if 0 \<le> n then 2 * n else - 2 * n - 1)) (CHR ''e'') @ ''.''"

definition unary_end :: "string \<Rightarrow> int \<times> string" where
  "unary_end s =
     (let k = int (length (takeWhile (\<lambda>c. c = CHR ''e'') s)) in
      (if even k then k div 2 else - ((k + 1) div 2), drop 1 (dropWhile (\<lambda>c. c = CHR ''e'') s)))"

lemma unary_end_unary: "unary_end (unary n @ s) = (n, s)"
proof -
  have "takeWhile (\<lambda>c. c = CHR ''e'') (replicate k (CHR ''e'') @ CHR ''.'' # s) = replicate k (CHR ''e'')"
    "dropWhile (\<lambda>c. c = CHR ''e'') (replicate k (CHR ''e'') @ CHR ''.'' # s) = CHR ''.'' # s" for k
    by (induction k) simp_all
  then show ?thesis by (auto simp: unary_end_def unary_def Let_def)
qed

definition demo_user_api_env :: user_api_env where
  "demo_user_api_env = \<lparr>ae_step = 5, ae_out = (\<lambda>_. None), ae_rpc = None, ae_utf8 = utf8_valid, ae_json = content,
     ae_nid = ''n'', ae_clock = 2000, ae_kafka = None, ae_now = 1000,
     ua_users = demo_user_env, ua_init_max_seq = 100, ua_time = 10, ua_secret = ''k'',
     ua_encode = (\<lambda>k c. Inr (unary (ac_exp c) @ unary (ac_iat c) @ ac_sub c)),
     ua_decode = (\<lambda>k now t. case unary_end t of (e, r) \<Rightarrow>
       if e + 60 < now then Inl ''ExpiredSignature''
       else Inr \<lparr>ac_sub = snd (unary_end r), ac_exp = e, ac_iat = fst (unary_end r)\<rparr>),
     ua_base64 = Inr, ua_ws = Some ''10.0.0.1:80'', ua_protocol = ''ws'', ua_search = (\<lambda>_. Inl ''none''),
     ua_nanoid = ''c'', ua_random = 123456, ua_mail = (\<lambda>_ _. Inr ()), ua_exchange = Inr,
     ua_emails = (\<lambda>_. Inr []), ua_github_user = (\<lambda>_. Inr \<lparr>gh_name = ''g'', gh_avatar_url = ''u''\<rparr>),
     ua_download = Inr, ua_guess = (\<lambda>_. None), ua_upload = (\<lambda>_ _. Inr ())\<rparr>"

lemma demo_user_api_env_sel [simp]:
  "ae_out demo_user_api_env = (\<lambda>_. None)" "ua_users demo_user_api_env = demo_user_env"
  "ua_nanoid demo_user_api_env = ''c''" "ua_base64 demo_user_api_env = Inr" "ua_time demo_user_api_env = 10"
  "ua_ws demo_user_api_env = Some ''10.0.0.1:80''"
  by (simp_all add: demo_user_api_env_def)

lemma demo_jwt: "jwt_law demo_user_api_env"
  by (simp add: jwt_law_def demo_user_api_env_def unary_end_unary)

lemma demo_argon2:
  "\<forall>p s h. ue_argon2 demo_user_env p s = Inr h \<longrightarrow>
     ue_parse_hash demo_user_env h = None \<and> ue_verify demo_user_env p h"
  by (simp add: demo_user_env_def)

text \<open>The code 123456 has been sent to \<open>c@x\<close>.\<close>

definition demo_user_api :: user_api where
  "demo_user_api = snd (send_email demo_user_api_env ''c@x''
     \<lparr>as_redis = redis_empty, as_db = demo_user_db, as_queue = []\<rparr>)"

definition demo_register :: UserRegister where
  "demo_register = \<lparr>rg_avatar = '''', rg_name = ''C'', rg_password = ''secret'', rg_email = ''c@x'',
     rg_code = show_nat 123456\<rparr>"

lemma demo_user_api_sel [simp]:
  "live_code (as_redis demo_user_api) 10 ''c@x'' = Some (show_nat 123456)" "as_db demo_user_api = demo_user_db"
  by (simp_all add: demo_user_api_def send_email_def and_then_def on_part_def save_register_code_def live_code_def
      REGISTER_CODE_EXPIRE_def Let_def) (simp_all add: demo_user_api_env_def)

lemma demo_registered: "\<exists>user s1. api_create_user demo_user_api_env demo_register demo_user_api = (Inr user, s1)"
proof -
  have "hash_password demo_user_env ''secret'' (ue_new_salt demo_user_env) = Inr ''secret''"
    by (simp add: hash_password_def demo_user_env_def)
  moreover obtain a db where "create_user demo_user_env (ua_init_max_seq demo_user_api_env)
      (user_default\<lparr>us_id := ''c'', us_name := ''C'', us_account := ''c'', us_password := ''secret'',
         us_salt := ue_new_salt demo_user_env, us_email := Some ''c@x'', us_avatar := []\<rparr>) demo_user_db = (Inr a, db)"
    by (simp add: create_user_def transaction_def and_then_def insert_user_def fetch_one_def on_part_def
        insert_sequence_def Let_def demo_user_db_def user_default_def)
  ultimately show ?thesis
    by (simp add: api_create_user_def and_then_def checked_code_up demo_register_def on_part_def
        del_register_code_def Let_def)
qed

theorem registered_user_logs_in_witness:
  "\<exists>user s1 tk s2. api_create_user demo_user_api_env demo_register demo_user_api = (Inr user, s1)
    \<and> login demo_user_api_env (V6 0) \<lparr>lg_account = ''c'', lg_password = ''secret''\<rparr> s1 = (Inr tk, s2)
    \<and> us_id (tk_user tk) = ''c'' \<and> token_accepted demo_user_api_env 14470 (tk_token tk) ''c''
    \<and> \<not> token_accepted demo_user_api_env 14471 (tk_token tk) ''c''"
proof -
  from demo_registered obtain user s1 where
    r: "api_create_user demo_user_api_env demo_register demo_user_api = (Inr user, s1)" by blast
  have "utf8_valid ''secret''" by code_simp
  then show ?thesis
    using registered_user_logs_in [of demo_user_api_env demo_user_api_env demo_register demo_user_api user s1
        "\<lparr>lg_account = ''c'', lg_password = ''secret''\<rparr>" "''10.0.0.1:80''" "V6 0"]
      r demo_argon2 demo_jwt
    by (auto simp: demo_register_def demo_user_db_def login_match_def EXPIRES_def)
qed

theorem code_changes_any_password_witness:
  "\<exists>db'. api_modify_pwd demo_user_api_env \<lparr>mp_user_id = ''a'', mp_email = ''c@x'', mp_pwd = ''stolen'',
      mp_code = show_nat 123456\<rparr> demo_user_api = (Inr (), demo_user_api\<lparr>as_db := db'\<rparr>)"
proof -
  obtain db' where "modify_pwd demo_user_env ''a'' ''stolen'' demo_user_db = (Inr (), db')"
    by (simp add: modify_pwd_def and_then_def fetch_one_def select_users_def demo_user_db_def
        hash_password_def) (simp add: demo_user_env_def)
  moreover have "utf8_valid ''stolen''" by code_simp
  moreover have "show_nat 123456 \<noteq> ''''" by (subst show_nat.simps) simp
  ultimately show ?thesis
    using code_changes_any_password [of "\<lparr>mp_user_id = ''a'', mp_email = ''c@x'', mp_pwd = ''stolen'',
      mp_code = show_nat 123456\<rparr>" demo_user_api_env "''stolen''" demo_user_api db']
    by auto
qed

theorem any_token_renews_forever_witness:
  "\<exists>token'. renewed demo_user_api_env (unary 100 @ unary 0 @ ''c'') [160, 100000] demo_user_api = Some token'
    \<and> token_accepted demo_user_api_env 200000 token' ''c''"
proof -
  have "token_accepted demo_user_api_env 160 (unary 100 @ unary 0 @ ''c'') ''c''"
    by (simp add: token_accepted_def demo_user_api_env_def unary_end_unary)
  then show ?thesis
    using any_token_renews_forever [OF demo_jwt, of 160 "unary 100 @ unary 0 @ ''c''" "''c''" "[100000]" demo_user_api]
    by (auto simp: EXPIRES_def REFRESH_EXPIRES_def)
qed

end
