(* ===== verification/Api_Auth.thy ===== *)
theory Api_Auth
  imports Api_Users
begin

text \<open>
  How a request reaches a handler: the extractors of \<open>api/src/api_utils/custom_extract\<close> and the routing
  table of \<open>api/src/routes.rs\<close>. The rejections of \<open>axum\<close>'s own extractors and the token library are
  parameters.
\<close>

section \<open>Errors and requests\<close>

definition body_parsing :: "string \<Rightarrow> Error" where
  "body_parsing d = with_details BodyParsing d"

definition path_parsing :: "string \<Rightarrow> Error" where
  "path_parsing e = error_new PathParsing e e"

datatype path_rejection = FailedToDeserializePathParams string | MissingPathParams string | OtherRejection string

text \<open>A rejection is a status and an error; extraction may also panic.\<close>

type_synonym 'a extracted = "(string + StatusCode \<times> Error) + 'a"

abbreviation panics :: "string \<Rightarrow> 'a extracted" where
  "panics p \<equiv> Inl (Inl p)"

abbreviation rejects :: "StatusCode \<Rightarrow> Error \<Rightarrow> 'a extracted" where
  "rejects c e \<equiv> Inl (Inr (c, e))"

text \<open>The header's bytes, the matched path, what \<open>axum\<close> reads from body and path.\<close>

record 'a request =
  rq_authorization :: "string option"
  rq_matched :: "string option"
  rq_json :: "(StatusCode \<times> string) + 'a"
  rq_path :: "path_rejection + 'a"

definition BEARER :: string where "BEARER = ''Bearer''"

section \<open>Extractors\<close>

text \<open>\<open>HeaderValue::to_str\<close> accepts visible ASCII and tabs.\<close>

definition header_text :: "string \<Rightarrow> string" where
  "header_text h =
     (if list_all (\<lambda>c. (32 \<le> (of_char c :: nat) \<and> (of_char c :: nat) < 127) \<or> c = CHR 0x09) h then h else '''')"

text \<open>\<open>split_whitespace\<close> on such a text.\<close>

definition is_blank :: "char \<Rightarrow> bool" where
  "is_blank c \<longleftrightarrow> c = CHR '' '' \<or> c = CHR 0x09"

fun split_whitespace_acc :: "string \<Rightarrow> string \<Rightarrow> string list" where
  "split_whitespace_acc w [] = (if w = '''' then [] else [rev w])"
| "split_whitespace_acc w (c # cs) =
     (if is_blank c then (if w = '''' then split_whitespace_acc '''' cs else rev w # split_whitespace_acc '''' cs)
      else split_whitespace_acc (c # w) cs)"

definition split_whitespace :: "string \<Rightarrow> string list" where
  "split_whitespace s = split_whitespace_acc '''' s"

definition starts_with :: "string \<Rightarrow> string \<Rightarrow> bool" where
  "starts_with p s \<longleftrightarrow> take (length p) s = p"

definition matched_path :: "'a request \<Rightarrow> string" where
  "matched_path rq = (case rq_matched rq of None \<Rightarrow> '''' | Some p \<Rightarrow> p)"

definition json_rejection :: "StatusCode \<times> string \<Rightarrow> 'a extracted" where
  "json_rejection r = rejects (fst r) (body_parsing (snd r))"

definition reject_path :: "path_rejection \<Rightarrow> 'a extracted" where
  "reject_path r =
     (case r of
        FailedToDeserializePathParams e \<Rightarrow> rejects BAD_REQUEST (path_parsing e)
      | MissingPathParams e \<Rightarrow> rejects INTERNAL_SERVER_ERROR (path_parsing e)
      | OtherRejection e \<Rightarrow>
          rejects INTERNAL_SERVER_ERROR (internal_with_details (''Unhandled path rejection: '' @ e)))"

definition index_panic :: string where
  "index_panic = ''index out of bounds: the len is 1 but the index is 1''"

text \<open>The source writes the reading of the header twice, and so does the model; \<open>header[1]\<close> panics on a
  vector without a second element.\<close>

definition JsonWithAuthExtractor :: "user_api_env \<Rightarrow> 'a request \<Rightarrow> 'a extracted" where
  "JsonWithAuthExtractor env rq =
     (case rq_authorization rq of
        Some h \<Rightarrow>
          (let header = header_text h in
           if \<not> starts_with BEARER header then rejects UNAUTHORIZED (unauthorized_with_details (matched_path rq))
           else let header = split_whitespace header in
             if length header \<le> 1 then panics index_panic
             else case ua_decode env (ua_secret env) (ua_time env) (header ! 1) of
               Inl e \<Rightarrow> rejects INTERNAL_SERVER_ERROR (internal e)
             | Inr _ \<Rightarrow> (case rq_json rq of Inl r \<Rightarrow> json_rejection r | Inr v \<Rightarrow> Inr v))
      | None \<Rightarrow> rejects UNAUTHORIZED (unauthorized_with_details (matched_path rq)))"

definition PathWithAuthExtractor :: "user_api_env \<Rightarrow> 'a request \<Rightarrow> 'a extracted" where
  "PathWithAuthExtractor env rq =
     (case rq_authorization rq of
        Some h \<Rightarrow>
          (let header = header_text h in
           if \<not> starts_with BEARER header then rejects UNAUTHORIZED (unauthorized_with_details (matched_path rq))
           else let header = split_whitespace header in
             if length header \<le> 1 then panics index_panic
             else case ua_decode env (ua_secret env) (ua_time env) (header ! 1) of
               Inl e \<Rightarrow> rejects UNAUTHORIZED (unauthorized e (matched_path rq))
             | Inr _ \<Rightarrow> (case rq_path rq of Inl r \<Rightarrow> reject_path r | Inr v \<Rightarrow> Inr v))
      | None \<Rightarrow> rejects UNAUTHORIZED (unauthorized_with_details (matched_path rq)))"

definition JsonExtractor :: "'a request \<Rightarrow> 'a extracted" where
  "JsonExtractor rq = (case rq_json rq of Inl r \<Rightarrow> json_rejection r | Inr v \<Rightarrow> Inr v)"

definition PathExtractor :: "'a request \<Rightarrow> 'a extracted" where
  "PathExtractor rq = (case rq_path rq of Inl r \<Rightarrow> reject_path r | Inr v \<Rightarrow> Inr v)"

section \<open>Routes\<close>

datatype http_method = GET | POST | PUT | DELETE

record route =
  rt_method :: http_method
  rt_path :: string
  rt_handler :: string

definition on :: "http_method \<Rightarrow> string \<Rightarrow> string \<Rightarrow> route" where
  "on m p h = \<lparr>rt_method = m, rt_path = p, rt_handler = h\<rparr>"

definition friend_routes :: "route list" where
  "friend_routes =
     [on POST ''/'' ''create_friendship'',
      on GET ''/:id/:offline_time'' ''get_friends_list_by_user_id'',
      on GET ''/:id/apply'' ''get_apply_list_by_user_id'',
      on PUT ''/agree'' ''agree'',
      on DELETE ''/'' ''delete_friend'',
      on PUT ''/remark'' ''update_friend_remark'',
      on GET ''/query/:user_id'' ''query_friend_info'',
      on POST ''/groups'' ''create_friend_group'',
      on PUT ''/groups'' ''update_friend_group'',
      on DELETE ''/groups/:id'' ''delete_friend_group'',
      on GET ''/groups/:id'' ''get_friend_groups'',
      on POST ''/assign-group'' ''assign_friend_to_group'',
      on POST ''/tags'' ''create_friend_tag'',
      on DELETE ''/tags/:id'' ''delete_friend_tag'',
      on GET ''/tags/:id'' ''get_friend_tags'',
      on POST ''/manage-tags'' ''manage_friend_tags'',
      on POST ''/privacy'' ''update_friend_privacy'',
      on GET ''/privacy/:user_id/:friend_id'' ''get_friend_privacy'',
      on POST ''/interaction'' ''update_interaction_score'',
      on GET ''/interaction/:user_id/:friend_id'' ''get_interaction_stats'']"

definition user_routes :: "route list" where
  "user_routes =
     [on POST ''/'' ''create_user'',
      on PUT ''/'' ''update_user'',
      on PUT ''/pwd'' ''modify_pwd'',
      on GET ''/:id'' ''get_user_by_id'',
      on GET ''/refresh_token/:token/:is_refresh'' ''refresh_token'',
      on GET ''/:user_id/search/:pattern'' ''search_user'',
      on POST ''/login'' ''login'',
      on DELETE ''/logout/:uuid'' ''logout'',
      on POST ''/mail/send'' ''send_email'',
      on GET ''/auth/wechat'' ''google_login'',
      on GET ''/auth/wechat/callback'' ''google_callback'',
      on GET ''/auth/github'' ''github_login'',
      on GET ''/auth/github/callback'' ''github_callback'']"

definition group_routes :: "route list" where
  "group_routes =
     [on GET ''/:user_id/:group_id'' ''get_group'',
      on POST ''/:user_id'' ''create_group_handler'',
      on PUT ''/invite'' ''invite_new_members'',
      on DELETE ''/'' ''delete_group_handler'',
      on PUT ''/:user_id'' ''update_group_handler'',
      on GET ''/member/:user_id/:group_id'' ''get_group_and_members'',
      on POST ''/member'' ''get_group_members'',
      on DELETE ''/member'' ''remove_member'',
      on POST ''/settings'' ''update_group_settings'',
      on POST ''/member/settings'' ''update_member_settings'',
      on GET ''/categories'' ''get_group_categories'',
      on POST ''/category'' ''create_group_category'',
      on PUT ''/category'' ''update_group_category'',
      on DELETE ''/category/:id'' ''delete_group_category'',
      on GET ''/files/:group_id'' ''get_group_files'',
      on POST ''/file'' ''upload_group_file'',
      on DELETE ''/file'' ''delete_group_file'',
      on POST ''/file/pin'' ''update_file_pin_status'',
      on GET ''/polls/:group_id'' ''get_group_polls'',
      on GET ''/poll/:poll_id'' ''get_poll_details'',
      on POST ''/poll'' ''create_poll'',
      on POST ''/poll/vote'' ''vote_poll'',
      on POST ''/poll/close'' ''close_poll'',
      on GET ''/muted/:group_id'' ''get_group_muted_members'',
      on POST ''/mute'' ''mute_group_member'',
      on POST ''/unmute'' ''unmute_group_member'',
      on GET ''/announcements/:group_id'' ''get_group_announcements'',
      on POST ''/announcement'' ''create_announcement'',
      on DELETE ''/announcement'' ''delete_announcement'',
      on POST ''/announcement/pin'' ''pin_announcement'',
      on POST ''/member/role'' ''change_member_role'']"

definition file_routes :: "route list" where
  "file_routes =
     [on POST ''/upload'' ''upload'',
      on GET ''/get/:filename'' ''get_file_by_name'',
      on POST ''/avatar/upload'' ''upload_avatar'',
      on GET ''/avatar/get/:filename'' ''get_avatar_by_name'']"

definition msg_routes :: "route list" where
  "msg_routes =
     [on POST ''/'' ''pull_offline_messages'',
      on GET ''/seq/:user_id'' ''get_seq'',
      on DELETE ''/'' ''del_msg'']"

definition nest :: "string \<Rightarrow> route list \<Rightarrow> route list" where
  "nest prefix rs = map (\<lambda>r. r\<lparr>rt_path := prefix @ rt_path r\<rparr>) rs"

definition app_routes :: "route list" where
  "app_routes = nest ''/user'' user_routes @ nest ''/friend'' friend_routes @ nest ''/file'' file_routes
     @ nest ''/group'' group_routes @ nest ''/message'' msg_routes"

text \<open>The extractors in the handlers' signatures; a path extractor with the number of values it takes.\<close>

datatype extractor = JsonAuth | PathAuth nat | JsonOpen | PathOpen nat

definition friend_signatures :: "(string \<times> extractor list) list" where
  "friend_signatures =
     [(''create_friendship'', [JsonAuth]), (''get_friends_list_by_user_id'', [PathAuth 2]),
      (''get_apply_list_by_user_id'', [PathAuth 2]), (''agree'', [JsonAuth]), (''delete_friend'', [JsonAuth]),
      (''update_friend_remark'', [JsonAuth]), (''query_friend_info'', [PathAuth 1]),
      (''create_friend_group'', [JsonAuth]), (''update_friend_group'', [JsonAuth]),
      (''delete_friend_group'', [PathAuth 1]), (''get_friend_groups'', [PathAuth 1]),
      (''assign_friend_to_group'', [JsonAuth]), (''create_friend_tag'', [JsonAuth]),
      (''delete_friend_tag'', [PathAuth 1]), (''get_friend_tags'', [PathAuth 1]),
      (''manage_friend_tags'', [JsonAuth]), (''update_friend_privacy'', [JsonAuth]),
      (''get_friend_privacy'', [PathAuth 2]), (''update_interaction_score'', [JsonAuth]),
      (''get_interaction_stats'', [PathAuth 2])]"

definition user_signatures :: "(string \<times> extractor list) list" where
  "user_signatures =
     [(''create_user'', [JsonOpen]), (''update_user'', [JsonOpen]), (''modify_pwd'', [JsonOpen]),
      (''get_user_by_id'', [PathOpen 1]), (''refresh_token'', [PathOpen 2]), (''search_user'', [PathAuth 2]),
      (''login'', [JsonOpen]), (''logout'', [PathOpen 1]), (''send_email'', [JsonOpen]),
      (''google_login'', []), (''google_callback'', []), (''github_login'', []), (''github_callback'', [])]"

definition group_signatures :: "(string \<times> extractor list) list" where
  "group_signatures =
     [(''get_group'', [PathAuth 2]), (''create_group_handler'', [PathAuth 1, JsonAuth]),
      (''invite_new_members'', [JsonAuth]), (''delete_group_handler'', [JsonAuth]),
      (''update_group_handler'', [PathAuth 1, JsonAuth]), (''get_group_and_members'', [PathAuth 2]),
      (''get_group_members'', [JsonAuth]), (''remove_member'', [JsonAuth]),
      (''update_group_settings'', [JsonAuth]), (''update_member_settings'', [JsonAuth]),
      (''get_group_categories'', []), (''create_group_category'', [JsonAuth]),
      (''update_group_category'', [JsonAuth]), (''delete_group_category'', [PathAuth 1]),
      (''get_group_files'', [PathAuth 1]), (''upload_group_file'', [JsonAuth]),
      (''delete_group_file'', [JsonAuth]), (''update_file_pin_status'', [JsonAuth]),
      (''get_group_polls'', [PathAuth 1]), (''get_poll_details'', [PathAuth 1]), (''create_poll'', [JsonAuth]),
      (''vote_poll'', [JsonAuth]), (''close_poll'', [JsonAuth]), (''get_group_muted_members'', [PathAuth 1]),
      (''mute_group_member'', [JsonAuth]), (''unmute_group_member'', [JsonAuth]),
      (''get_group_announcements'', [PathAuth 1]), (''create_announcement'', [JsonAuth]),
      (''delete_announcement'', [JsonAuth]), (''pin_announcement'', [JsonAuth]),
      (''change_member_role'', [JsonAuth])]"

definition file_signatures :: "(string \<times> extractor list) list" where
  "file_signatures = [(''upload'', []), (''get_file_by_name'', [PathOpen 1]), (''upload_avatar'', []),
     (''get_avatar_by_name'', [PathOpen 1])]"

definition msg_signatures :: "(string \<times> extractor list) list" where
  "msg_signatures = [(''pull_offline_messages'', [JsonAuth]), (''get_seq'', [PathAuth 1]), (''del_msg'', [JsonAuth])]"

definition signature_of :: "string \<Rightarrow> extractor list option" where
  "signature_of h = map_of (user_signatures @ friend_signatures @ file_signatures @ group_signatures
     @ msg_signatures) h"

definition path_params :: "string \<Rightarrow> nat" where
  "path_params p = length (filter (\<lambda>seg. take 1 seg = '':'') (split_char (CHR ''/'') p))"

fun extractor_fits :: "nat \<Rightarrow> extractor \<Rightarrow> bool" where
  "extractor_fits n (PathAuth k) = (k = n)"
| "extractor_fits n (PathOpen k) = (k = n)"
| "extractor_fits n _ = True"

definition route_fits :: "route \<Rightarrow> bool" where
  "route_fits r = (case signature_of (rt_handler r) of
     None \<Rightarrow> False
   | Some es \<Rightarrow> list_all (extractor_fits (path_params (rt_path r))) es)"

fun needs_token :: "extractor \<Rightarrow> bool" where
  "needs_token JsonAuth = True"
| "needs_token (PathAuth _) = True"
| "needs_token _ = False"

definition route_open :: "route \<Rightarrow> bool" where
  "route_open r = (case signature_of (rt_handler r) of None \<Rightarrow> True | Some es \<Rightarrow> \<not> list_ex needs_token es)"

section \<open>Properties\<close>

text \<open>The form of a header, without the words it is split into: visible text that starts with \<open>Bearer\<close>, a first word,
  blanks, the token up to the next blank or the end; or nothing but a first word and blanks.\<close>

definition visible :: "string \<Rightarrow> bool" where
  "visible h \<longleftrightarrow> (\<forall>c \<in> set h. (32 \<le> (of_char c :: nat) \<and> (of_char c :: nat) < 127) \<or> c = CHR 0x09)"

definition a_word :: "string \<Rightarrow> bool" where
  "a_word w \<longleftrightarrow> w \<noteq> [] \<and> (\<forall>c \<in> set w. c \<noteq> CHR '' '' \<and> c \<noteq> CHR 0x09)"

definition blanks :: "string \<Rightarrow> bool" where
  "blanks b \<longleftrightarrow> (\<forall>c \<in> set b. c = CHR '' '' \<or> c = CHR 0x09)"

definition bears :: "string \<Rightarrow> string \<Rightarrow> bool" where
  "bears h t \<longleftrightarrow> visible h \<and> take 6 h = ''Bearer'' \<and>
     (\<exists>w b r. h = w @ b @ t @ r \<and> a_word w \<and> b \<noteq> [] \<and> blanks b \<and> a_word t \<and> (r = [] \<or> blanks [hd r]))"

definition bears_nothing :: "string \<Rightarrow> bool" where
  "bears_nothing h \<longleftrightarrow> visible h \<and> take 6 h = ''Bearer'' \<and> (\<exists>w b. h = w @ b \<and> a_word w \<and> blanks b)"

lemma header_text_visible: "header_text h = (if visible h then h else [])"
  by (simp add: header_text_def visible_def list_all_iff)

lemma split_word: "a_word xs \<Longrightarrow> split_whitespace_acc w (xs @ rest) = split_whitespace_acc (rev xs @ w) rest"
proof (induction xs arbitrary: w)
  case (Cons x xs)
  then show ?case by (cases "xs = []") (auto simp: a_word_def is_blank_def)
qed (simp add: a_word_def)

lemma split_blanks: "blanks b \<Longrightarrow> split_whitespace_acc [] (b @ rest) = split_whitespace_acc [] rest"
  by (induction b) (auto simp: blanks_def is_blank_def)

lemma split_word_end:
  "w \<noteq> [] \<Longrightarrow> r = [] \<or> blanks [hd r] \<Longrightarrow> split_whitespace_acc (rev w) r = w # split_whitespace_acc [] r"
  by (cases r) (auto simp: blanks_def is_blank_def)

lemma split_one:
  assumes "a_word w" and "blanks b"
  shows "split_whitespace (w @ b) = [w]"
proof -
  have "b = [] \<or> blanks [hd b]" using assms(2) by (cases b) (simp_all add: blanks_def)
  then have "split_whitespace_acc (rev w) b = w # split_whitespace_acc [] b"
    using assms(1) by (intro split_word_end) (simp_all add: a_word_def)
  with split_word [OF assms(1), of "[]" b] split_blanks [OF assms(2), of "[]"] show ?thesis
    by (simp add: split_whitespace_def)
qed

lemma split_second:
  assumes "a_word w" and "b \<noteq> []" and "blanks b" and "a_word t" and "r = [] \<or> blanks [hd r]"
  shows "\<exists>more. split_whitespace (w @ b @ t @ r) = w # t # more"
proof -
  have "blanks [hd (b @ t @ r)]" using assms(2,3) by (cases b) (simp_all add: blanks_def)
  then have "split_whitespace (w @ b @ t @ r) = w # split_whitespace_acc [] (b @ t @ r)"
    using split_word [OF assms(1), of "[]" "b @ t @ r"] split_word_end [of w "b @ t @ r"] assms(1)
    by (simp add: split_whitespace_def a_word_def)
  also have "split_whitespace_acc [] (b @ t @ r) = t # split_whitespace_acc [] r"
    using split_blanks [OF assms(3)] split_word [OF assms(4), of "[]" r] split_word_end [OF _ assms(5), of t] assms(4)
    by (simp add: a_word_def)
  finally show ?thesis by blast
qed

lemma header_forms:
  assumes "take 6 h = ''Bearer''"
  shows "(\<exists>w b. h = w @ b \<and> a_word w \<and> blanks b)
    \<or> (\<exists>w b t r. h = w @ b @ t @ r \<and> a_word w \<and> b \<noteq> [] \<and> blanks b \<and> a_word t \<and> (r = [] \<or> blanks [hd r]))"
proof -
  define ink where "ink c \<longleftrightarrow> c \<noteq> CHR '' '' \<and> c \<noteq> CHR 0x09" for c
  define w where "w = takeWhile ink h"
  define b where "b = takeWhile (\<lambda>c. \<not> ink c) (dropWhile ink h)"
  define rest where "rest = dropWhile (\<lambda>c. \<not> ink c) (dropWhile ink h)"
  have h: "h = w @ b @ rest" by (simp add: w_def b_def rest_def)
  obtain cs where "h = CHR ''B'' # cs" using assms by (cases h) auto
  then have "a_word w" by (auto simp: w_def a_word_def ink_def dest: set_takeWhileD)
  moreover have "blanks b" by (auto simp: b_def blanks_def ink_def dest: set_takeWhileD)
  moreover have "\<exists>t r. rest = t @ r \<and> a_word t \<and> b \<noteq> [] \<and> (r = [] \<or> blanks [hd r])" if "rest \<noteq> []"
  proof (intro exI conjI)
    show "rest = takeWhile ink rest @ dropWhile ink rest" by simp
    have "ink (hd rest)" using hd_dropWhile [of "\<lambda>c. \<not> ink c" "dropWhile ink h"] that by (simp add: rest_def)
    with that show "a_word (takeWhile ink rest)"
      by (cases rest) (auto simp: a_word_def ink_def dest: set_takeWhileD)
    show "dropWhile ink rest = [] \<or> blanks [hd (dropWhile ink rest)]"
      using hd_dropWhile [of ink rest] by (auto simp: blanks_def ink_def)
    show "b \<noteq> []"
    proof
      assume "b = []"
      have ne: "dropWhile ink h \<noteq> []" using that by (auto simp only: rest_def dropWhile.simps)
      from hd_dropWhile [OF this] \<open>b = []\<close> ne show False by (cases "dropWhile ink h") (simp_all add: b_def)
    qed
  qed
  ultimately show ?thesis using h by (cases "rest = []") auto
qed

text \<open>What the extractors compute of a header is its form.\<close>

lemma bears_split: "bears h t \<Longrightarrow> \<exists>w more. split_whitespace h = w # t # more"
  unfolding bears_def using split_second by metis

lemma bears_nothing_split: "bears_nothing h \<Longrightarrow> \<exists>w. split_whitespace h = [w]"
  unfolding bears_nothing_def using split_one by metis

lemma bears_total: "visible h \<Longrightarrow> take 6 h = ''Bearer'' \<Longrightarrow> bears_nothing h \<or> (\<exists>t. bears h t)"
  unfolding bears_def bears_nothing_def using header_forms [of h] by metis

lemma header_unlike: "bears_nothing h \<Longrightarrow> \<not> bears h t"
  using bears_split bears_nothing_split by fastforce

lemma starts_bearer: "starts_with BEARER (header_text h) \<longleftrightarrow> visible h \<and> take 6 h = ''Bearer''"
  by (simp add: starts_with_def BEARER_def header_text_visible eval_nat_numeral)

lemma header_read:
  assumes "starts_with BEARER (header_text h)"
  shows "length (split_whitespace (header_text h)) \<le> 1 \<longleftrightarrow> bears_nothing h"
    and "\<not> length (split_whitespace (header_text h)) \<le> 1 \<Longrightarrow> bears h t \<longleftrightarrow> t = split_whitespace (header_text h) ! 1"
proof -
  have h: "visible h" "take 6 h = ''Bearer''" "header_text h = h"
    using assms [unfolded starts_bearer] by (simp_all add: header_text_visible)
  consider "bears_nothing h" | t where "bears h t" using bears_total [OF h(1,2)] by blast
  then have "(length (split_whitespace (header_text h)) \<le> 1 \<longleftrightarrow> bears_nothing h)
    \<and> (\<not> length (split_whitespace (header_text h)) \<le> 1 \<longrightarrow> (bears h t \<longleftrightarrow> t = split_whitespace (header_text h) ! 1))"
  proof cases
    case 1
    then show ?thesis using bears_nothing_split [OF 1] by (auto simp: h(3))
  next
    case (2 t')
    then have "\<not> bears_nothing h" using header_unlike by blast
    moreover have "bears h t \<Longrightarrow> t = t'" using bears_split [OF 2] bears_split [of h t] by auto
    ultimately show ?thesis using bears_split [OF 2] 2 by (auto simp: h(3))
  qed
  then show "length (split_whitespace (header_text h)) \<le> 1 \<longleftrightarrow> bears_nothing h"
    "\<not> length (split_whitespace (header_text h)) \<le> 1 \<Longrightarrow> bears h t \<longleftrightarrow> t = split_whitespace (header_text h) ! 1"
    by auto
qed

text \<open>
  C35. Both authenticating extractors admit the same requests: exactly those whose \<open>Authorization\<close>
  header is visible text that starts with \<open>Bearer\<close> and whose second word, up to the next blank, decodes;
  of an admitted request they then take the body or the path, and the user the token was issued to plays no part. They
  panic on the same requests too: exactly those whose header is \<open>Bearer\<close> text of a single word. A
  token that does not decode is an internal error for the one and a missing authorization for the other.
\<close>

theorem extractors_admit_same_requests:
  "(JsonWithAuthExtractor env rq = Inr v \<longleftrightarrow>
      rq_json rq = Inr v \<and> (\<exists>h t c. rq_authorization rq = Some h \<and> bears h t \<and> ua_decode env (ua_secret env) (ua_time env) t = Inr c))
   \<and> (PathWithAuthExtractor env rq = Inr v \<longleftrightarrow>
      rq_path rq = Inr v \<and> (\<exists>h t c. rq_authorization rq = Some h \<and> bears h t \<and> ua_decode env (ua_secret env) (ua_time env) t = Inr c))
   \<and> ((\<exists>p. JsonWithAuthExtractor env rq = panics p) \<longleftrightarrow> (\<exists>h. rq_authorization rq = Some h \<and> bears_nothing h))
   \<and> ((\<exists>p. PathWithAuthExtractor env rq = panics p) \<longleftrightarrow> (\<exists>h. rq_authorization rq = Some h \<and> bears_nothing h))
   \<and> (\<forall>h t e. rq_authorization rq = Some h \<and> bears h t \<and> ua_decode env (ua_secret env) (ua_time env) t = Inl e \<longrightarrow>
        JsonWithAuthExtractor env rq = rejects INTERNAL_SERVER_ERROR (internal e)
        \<and> PathWithAuthExtractor env rq = rejects UNAUTHORIZED (unauthorized e (matched_path rq)))"
proof -
  let ?w = "\<lambda>h. split_whitespace (header_text h)"
  note defs = JsonWithAuthExtractor_def PathWithAuthExtractor_def json_rejection_def reject_path_def Let_def
  consider "rq_authorization rq = None"
    | h where "rq_authorization rq = Some h" "\<not> starts_with BEARER (header_text h)"
    | h where "rq_authorization rq = Some h" "starts_with BEARER (header_text h)" "length (?w h) \<le> 1"
    | h where "rq_authorization rq = Some h" "starts_with BEARER (header_text h)" "\<not> length (?w h) \<le> 1"
    by (cases "rq_authorization rq") auto
  then show ?thesis
  proof cases
    case 1
    then show ?thesis by (simp add: defs)
  next
    case (2 h)
    then show ?thesis by (auto simp: defs starts_bearer bears_def bears_nothing_def)
  next
    case (3 h)
    with header_read(1) [of h] header_unlike [of h] show ?thesis by (auto simp: defs)
  next
    case (4 h)
    with header_read [of h] show ?thesis
      by (auto simp: defs split: sum.splits path_rejection.splits)
  qed
qed

text \<open>
  The routes fit their handlers: on every route but one, each path extractor of the handler takes
  as many values as the path has parameters. The exception is the list of friend requests, whose
  path has one parameter and whose handler wants two, so that it is refused on every request.
\<close>

theorem routes_fit_handlers:
  "filter (\<lambda>r. \<not> route_fits r) app_routes = [on GET ''/friend/:id/apply'' ''get_apply_list_by_user_id'']"
  by code_simp

text \<open>
  The routes that need no token are exactly these; among them are the update of a user's profile
  and the handing out of a user's record.
\<close>

theorem open_routes_exact:
  "map (\<lambda>r. (rt_method r, rt_path r)) (filter route_open app_routes) =
     [(POST, ''/user/''), (PUT, ''/user/''), (PUT, ''/user/pwd''), (GET, ''/user/:id''),
      (GET, ''/user/refresh_token/:token/:is_refresh''), (POST, ''/user/login''), (DELETE, ''/user/logout/:uuid''),
      (POST, ''/user/mail/send''), (GET, ''/user/auth/wechat''), (GET, ''/user/auth/wechat/callback''),
      (GET, ''/user/auth/github''), (GET, ''/user/auth/github/callback''),
      (POST, ''/file/upload''), (GET, ''/file/get/:filename''), (POST, ''/file/avatar/upload''),
      (GET, ''/file/avatar/get/:filename''), (GET, ''/group/categories'')]"
  by code_simp

section \<open>Witness\<close>

definition demo_request :: "string \<Rightarrow> nat request" where
  "demo_request h = \<lparr>rq_authorization = Some h, rq_matched = Some ''/user/'', rq_json = Inr 7, rq_path = Inr 8\<rparr>"

definition demo_token_env :: user_api_env where
  "demo_token_env = demo_user_api_env\<lparr>ua_decode := (\<lambda>_ _ t. if t = ''ab'' then Inr \<lparr>ac_sub = ''u'', ac_exp = 9, ac_iat = 1\<rparr> else Inl ''bad'')\<rparr>"

lemma bears_form:
  "visible (w @ b @ t @ r) \<Longrightarrow> take 6 (w @ b @ t @ r) = ''Bearer'' \<Longrightarrow> a_word w \<Longrightarrow> b \<noteq> [] \<Longrightarrow> blanks b \<Longrightarrow> a_word t
   \<Longrightarrow> r = [] \<or> blanks [hd r] \<Longrightarrow> bears (w @ b @ t @ r) t"
  unfolding bears_def by blast

lemma bears_nothing_form:
  "visible (w @ b) \<Longrightarrow> take 6 (w @ b) = ''Bearer'' \<Longrightarrow> a_word w \<Longrightarrow> blanks b \<Longrightarrow> bears_nothing (w @ b)"
  unfolding bears_nothing_def by blast

lemma demo_bears: "bears ''Bearer ab'' ''ab''" "bears ''Bearer x y'' ''x''" "bears_nothing ''Bearer ''"
  using bears_form [of "''Bearer''" "'' ''" "''ab''" "[]"] bears_form [of "''Bearer''" "'' ''" "''x''" "'' y''"]
    bears_nothing_form [of "''Bearer''" "'' ''"]
  by (simp_all add: visible_def a_word_def blanks_def)

lemma demo_request_fields [simp]:
  "rq_authorization (demo_request h) = Some h" "rq_json (demo_request h) = Inr 7" "rq_path (demo_request h) = Inr 8"
  "matched_path (demo_request h) = ''/user/''"
  by (simp_all add: demo_request_def matched_path_def)

lemma demo_token_decode:
  "\<exists>c. ua_decode demo_token_env (ua_secret demo_token_env) (ua_time demo_token_env) ''ab'' = Inr c"
  "ua_decode demo_token_env (ua_secret demo_token_env) (ua_time demo_token_env) ''x'' = Inl ''bad''"
  by (simp_all add: demo_token_env_def)

theorem extractors_admit_same_requests_witness:
  "JsonWithAuthExtractor demo_token_env (demo_request ''Bearer ab'') = Inr 7
   \<and> PathWithAuthExtractor demo_token_env (demo_request ''Bearer ab'') = Inr 8
   \<and> PathWithAuthExtractor demo_token_env (demo_request ''Bearer x y'') = rejects UNAUTHORIZED (unauthorized ''bad'' ''/user/'')
   \<and> (\<exists>p. JsonWithAuthExtractor demo_token_env (demo_request ''Bearer '') = panics p)"
proof (intro conjI)
  note all = extractors_admit_same_requests [where env = demo_token_env]
  note admits = demo_request_fields demo_bears demo_token_decode
  show "JsonWithAuthExtractor demo_token_env (demo_request ''Bearer ab'') = Inr 7"
    unfolding all [where rq = "demo_request ''Bearer ab''" and v = 7, THEN conjunct1]
    using admits by metis
  show "PathWithAuthExtractor demo_token_env (demo_request ''Bearer ab'') = Inr 8"
    unfolding all [where rq = "demo_request ''Bearer ab''" and v = 8, THEN conjunct2, THEN conjunct1]
    using admits by metis
  show "PathWithAuthExtractor demo_token_env (demo_request ''Bearer x y'') = rejects UNAUTHORIZED (unauthorized ''bad'' ''/user/'')"
    using all [where rq = "demo_request ''Bearer x y''" and v = 8, THEN conjunct2, THEN conjunct2, THEN conjunct2, THEN conjunct2,
        rule_format, of "''Bearer x y''" "''x''" "''bad''"] demo_bears(2) demo_token_decode(2)
    by simp
  show "\<exists>p. JsonWithAuthExtractor demo_token_env (demo_request ''Bearer '') = panics p"
    unfolding all [where rq = "demo_request ''Bearer ''" and v = 7, THEN conjunct2, THEN conjunct2, THEN conjunct1]
    using demo_bears(3) by simp
qed

end
