(* ===== verification/Files.thy ===== *)
theory Files
  imports Errors
begin

text \<open>
  The object store (\<open>oss/src/lib.rs\<close>, \<open>oss/src/client.rs\<close>) and the file handlers of the API
  (\<open>api/src/handlers/files/file.rs\<close>). The store is what S3 documents of it: named buckets of keyed
  objects; every request may fail. The multipart reader, \<open>nanoid\<close> and the local files are
  parameters.
\<close>

section \<open>The store\<close>

type_synonym s3 = "string \<Rightarrow> (string \<rightharpoonup> string) option"

datatype s3_call = HeadBucket | CreateBucket | HeadObject | PutObject | GetObject | DeleteObject | ReadBody

text \<open>An \<open>SdkError\<close>: the service answered with a status, or the request did not get through.\<close>

datatype sdk_error = ServiceError int | OtherSdkError string

record s3_client =
  bucket :: string
  avatar_bucket :: string
  sc_out :: "s3_call \<Rightarrow> sdk_error option"
  sc_local :: "string \<Rightarrow> string option"

fun sdk_text :: "sdk_error \<Rightarrow> string" where
  "sdk_text (ServiceError n) = ''service error''"
| "sdk_text (OtherSdkError e) = e"

text \<open>\<open>From<SdkError>\<close>.\<close>

definition oss_error :: "sdk_error \<Rightarrow> failure" where
  "oss_error e = Failed (with_details OSSError (sdk_text e))"

definition s3_send :: "s3_client \<Rightarrow> s3_call \<Rightarrow> (s3 \<Rightarrow> (sdk_error + 'a) \<times> s3) \<Rightarrow> (s3 \<Rightarrow> (sdk_error + 'a) \<times> s3)" where
  "s3_send cl call m st = (case sc_out cl call of Some e \<Rightarrow> (Inl e, st) | None \<Rightarrow> m st)"

definition head_bucket :: "s3_client \<Rightarrow> string \<Rightarrow> s3 \<Rightarrow> (sdk_error + unit) \<times> s3" where
  "head_bucket cl b = s3_send cl HeadBucket
     (\<lambda>st. (if st b = None then Inl (ServiceError 404) else Inr (), st))"

definition create_bucket_req :: "s3_client \<Rightarrow> string \<Rightarrow> s3 \<Rightarrow> (sdk_error + unit) \<times> s3" where
  "create_bucket_req cl b = s3_send cl CreateBucket
     (\<lambda>st. if st b = None then (Inr (), st(b \<mapsto> Map.empty)) else (Inl (ServiceError 409), st))"

definition put_object :: "s3_client \<Rightarrow> string \<Rightarrow> string \<Rightarrow> string \<Rightarrow> s3 \<Rightarrow> (sdk_error + unit) \<times> s3" where
  "put_object cl b k v = s3_send cl PutObject
     (\<lambda>st. case st b of None \<Rightarrow> (Inl (ServiceError 404), st) | Some objs \<Rightarrow> (Inr (), st(b \<mapsto> objs(k \<mapsto> v))))"

definition find_object :: "s3_client \<Rightarrow> s3_call \<Rightarrow> string \<Rightarrow> string \<Rightarrow> s3 \<Rightarrow> (sdk_error + string) \<times> s3" where
  "find_object cl call b k = s3_send cl call
     (\<lambda>st. (case Option.bind (st b) (\<lambda>objs. objs k) of None \<Rightarrow> Inl (ServiceError 404) | Some v \<Rightarrow> Inr v, st))"

text \<open>Deleting an object that is not there succeeds.\<close>

definition delete_object :: "s3_client \<Rightarrow> string \<Rightarrow> string \<Rightarrow> s3 \<Rightarrow> (sdk_error + unit) \<times> s3" where
  "delete_object cl b k = s3_send cl DeleteObject
     (\<lambda>st. case st b of None \<Rightarrow> (Inl (ServiceError 404), st) | Some objs \<Rightarrow> (Inr (), st(b \<mapsto> objs(k := None))))"

text \<open>The \<open>?\<close> after a request.\<close>

definition sdk :: "(s3 \<Rightarrow> (sdk_error + 'a) \<times> s3) \<Rightarrow> (s3, 'a) act" where
  "sdk m st = (case m st of (Inl e, t) \<Rightarrow> (Inl (oss_error e), t) | (Inr a, t) \<Rightarrow> (Inr a, t))"

section \<open>The client\<close>

text \<open>\<open>check_bucket_exists\<close> and \<open>check_avatar_bucket_exits\<close> differ in the bucket they ask for.\<close>

definition bucket_exists :: "s3_client \<Rightarrow> string \<Rightarrow> (s3, bool) act" where
  "bucket_exists cl b st =
     (case head_bucket cl b st of
        (Inr _, t) \<Rightarrow> (Inr True, t)
      | (Inl (ServiceError n), t) \<Rightarrow>
          (if n = 404 then Inr False
           else Inl (Failed (internal_with_details ''check avatar_bucket exists error'')), t)
      | (Inl (OtherSdkError e), t) \<Rightarrow> (Inl (Failed (internal_with_details e)), t))"

definition check_bucket_exists :: "s3_client \<Rightarrow> (s3, bool) act" where
  "check_bucket_exists cl = bucket_exists cl (bucket cl)"

definition check_avatar_bucket_exits :: "s3_client \<Rightarrow> (s3, bool) act" where
  "check_avatar_bucket_exits cl = bucket_exists cl (avatar_bucket cl)"

definition create_bucket :: "s3_client \<Rightarrow> (s3, unit) act" where
  "create_bucket cl =
     and_then (check_bucket_exists cl) (\<lambda>is_exist.
     and_then (if \<not> is_exist then sdk (create_bucket_req cl (bucket cl)) else ok ()) (\<lambda>_.
     and_then (check_avatar_bucket_exits cl) (\<lambda>is_exist.
     if \<not> is_exist then sdk (create_bucket_req cl (avatar_bucket cl)) else ok ())))"

definition exists_by_name :: "s3_client \<Rightarrow> string \<Rightarrow> string \<Rightarrow> s3 \<Rightarrow> bool" where
  "exists_by_name cl b k st = (case find_object cl HeadObject b k st of (Inr _, _) \<Rightarrow> True | _ \<Rightarrow> False)"

definition oss_upload :: "s3_client \<Rightarrow> string \<Rightarrow> string \<Rightarrow> string \<Rightarrow> (s3, unit) act" where
  "oss_upload cl b k v = sdk (put_object cl b k v)"

definition oss_download :: "s3_client \<Rightarrow> string \<Rightarrow> string \<Rightarrow> (s3, string) act" where
  "oss_download cl b k =
     and_then (sdk (find_object cl GetObject b k)) (\<lambda>v.
     case sc_out cl ReadBody of Some e \<Rightarrow> fail (Failed (internal (sdk_text e))) | None \<Rightarrow> ok v)"

definition oss_delete :: "s3_client \<Rightarrow> string \<Rightarrow> string \<Rightarrow> (s3, unit) act" where
  "oss_delete cl b k = sdk (delete_object cl b k)"

definition file_exists :: "s3_client \<Rightarrow> string \<Rightarrow> string \<Rightarrow> (s3, bool) act" where
  "file_exists cl k local_md5 st = (Inr (exists_by_name cl (bucket cl) k st), st)"

definition upload_file :: "s3_client \<Rightarrow> string \<Rightarrow> string \<Rightarrow> (s3, unit) act" where
  "upload_file cl k v = oss_upload cl (bucket cl) k v"

definition download_file :: "s3_client \<Rightarrow> string \<Rightarrow> (s3, string) act" where
  "download_file cl k = oss_download cl (bucket cl) k"

definition delete_file :: "s3_client \<Rightarrow> string \<Rightarrow> (s3, unit) act" where
  "delete_file cl k = oss_delete cl (bucket cl) k"

definition oss_upload_avatar :: "s3_client \<Rightarrow> string \<Rightarrow> string \<Rightarrow> (s3, unit) act" where
  "oss_upload_avatar cl k v = oss_upload cl (avatar_bucket cl) k v"

definition oss_download_avatar :: "s3_client \<Rightarrow> string \<Rightarrow> (s3, string) act" where
  "oss_download_avatar cl k = oss_download cl (avatar_bucket cl) k"

definition delete_avatar :: "s3_client \<Rightarrow> string \<Rightarrow> (s3, unit) act" where
  "delete_avatar cl k = oss_delete cl (avatar_bucket cl) k"

definition default_avatars :: "(string \<times> string) list" where
  "default_avatars =
     [(''./oss/default_avatar/avatar1.png'', ''avatar1.png''),
      (''./oss/default_avatar/avatar2.png'', ''avatar2.png''),
      (''./oss/default_avatar/avatar3.png'', ''avatar3.png'')]"

text \<open>The loop runs over a \<open>HashMap\<close>: its order is the argument.\<close>

fun check_avatars :: "s3_client \<Rightarrow> (string \<times> string) list \<Rightarrow> (s3, unit) act" where
  "check_avatars cl [] = ok ()"
| "check_avatars cl ((path, name) # rest) = (\<lambda>st.
     and_then (if exists_by_name cl (avatar_bucket cl) name st then ok ()
               else case sc_local cl path of None \<Rightarrow> ok () | Some bytes \<Rightarrow> oss_upload_avatar cl name bytes)
       (\<lambda>_. check_avatars cl rest) st)"

definition unwrap_act :: "('s, 'a) act \<Rightarrow> ('s, 'a) act" where
  "unwrap_act m s = (case m s of
     (Inl (Failed e), t) \<Rightarrow> (Inl (Panicked (''called `Result::unwrap()` on an `Err` value: '' @ error_display e)), t)
   | r \<Rightarrow> r)"

definition s3_client_new :: "s3_client \<Rightarrow> (string \<times> string) list \<Rightarrow> (s3, unit) act" where
  "s3_client_new cl order = and_then (unwrap_act (create_bucket cl)) (\<lambda>_. unwrap_act (check_avatars cl order))"

section \<open>Handlers\<close>

fun split_slash :: "string \<Rightarrow> string list" where
  "split_slash [] = [[]]"
| "split_slash (c # cs) =
     (if c = CHR ''/'' then [] # split_slash cs
      else case split_slash cs of [] \<Rightarrow> [[c]] | w # ws \<Rightarrow> (c # w) # ws)"

text \<open>\<open>Path::file_name\<close>: the last component that is neither empty nor the current directory.\<close>

definition path_file_name :: "string \<Rightarrow> string option" where
  "path_file_name p =
     (case rev (filter (\<lambda>c. c \<noteq> '''' \<and> c \<noteq> ''.'') (split_slash p)) of
        [] \<Rightarrow> None
      | c # _ \<Rightarrow> if c = ''..'' then None else Some c)"

text \<open>\<open>Path::extension\<close>: what follows the last dot, unless that dot starts the name.\<close>

definition path_extension :: "string \<Rightarrow> string option" where
  "path_extension p =
     (case path_file_name p of
        None \<Rightarrow> None
      | Some f \<Rightarrow>
          (let after = rev (takeWhile (\<lambda>c. c \<noteq> CHR ''.'') (rev f));
               before = take (length f - length after - 1) f
           in if CHR ''.'' \<notin> set f \<or> before = '''' then None else Some after))"

definition saved_name :: "string \<Rightarrow> string \<Rightarrow> string" where
  "saved_name nid filename =
     (case path_extension filename of None \<Rightarrow> nid | Some e \<Rightarrow> nid @ ''.'' @ e)"

record part =
  pt_file_name :: "string option"
  pt_bytes :: "string + string"

text \<open>\<open>upload\<close> and \<open>upload_avatar\<close> differ in the store they put the bytes into.\<close>

definition save_part ::
  "(string \<Rightarrow> string \<Rightarrow> (s3, unit) act) \<Rightarrow> string \<Rightarrow> string + part option \<Rightarrow> (s3, string) act" where
  "save_part put nid multipart =
     (case multipart of
        Inl e \<Rightarrow> fail (Failed (internal e))
      | Inr None \<Rightarrow> ok ''''
      | Inr (Some field) \<Rightarrow>
          (let filename = saved_name nid (case pt_file_name field of None \<Rightarrow> '''' | Some n \<Rightarrow> n) in
           case pt_bytes field of
             Inl e \<Rightarrow> fail (Failed (internal e))
           | Inr bytes \<Rightarrow> and_then (put filename bytes) (\<lambda>_. ok filename)))"

definition upload :: "s3_client \<Rightarrow> string \<Rightarrow> string + part option \<Rightarrow> (s3, string) act" where
  "upload cl nid multipart = save_part (upload_file cl) nid multipart"

definition upload_avatar :: "s3_client \<Rightarrow> string \<Rightarrow> string + part option \<Rightarrow> (s3, string) act" where
  "upload_avatar cl nid multipart = save_part (oss_upload_avatar cl) nid multipart"

definition cache_headers :: "(string \<times> string) list" where
  "cache_headers = [(''Cache-Control'', ''private, max-age=31536000'')]"

definition get_file_by_name :: "s3_client \<Rightarrow> string \<Rightarrow> (s3, (string \<times> string) list \<times> string) act" where
  "get_file_by_name cl filename = and_then (download_file cl filename) (\<lambda>bytes. ok (cache_headers, bytes))"

definition get_avatar_by_name :: "s3_client \<Rightarrow> string \<Rightarrow> (s3, (string \<times> string) list \<times> string) act" where
  "get_avatar_by_name cl filename = and_then (oss_download_avatar cl filename) (\<lambda>bytes. ok (cache_headers, bytes))"

section \<open>What the handlers rely on\<close>

text \<open>Several uploads in a row, each with its own id.\<close>

fun save_all ::
  "(string \<Rightarrow> string \<Rightarrow> (s3, unit) act) \<Rightarrow> (string \<times> part) list \<Rightarrow> (s3, string list) act" where
  "save_all put [] = ok []"
| "save_all put ((nid, p) # ps) =
     and_then (save_part put nid (Inr (Some p))) (\<lambda>n. and_then (save_all put ps) (\<lambda>ns. ok (n # ns)))"

definition part_name :: "string \<times> part \<Rightarrow> string" where
  "part_name np = saved_name (fst np) (case pt_file_name (snd np) of None \<Rightarrow> [] | Some n \<Rightarrow> n)"

definition part_bytes :: "string \<times> part \<Rightarrow> string" where
  "part_bytes np = (case pt_bytes (snd np) of Inl _ \<Rightarrow> [] | Inr v \<Rightarrow> v)"

definition part_ok :: "string \<times> part \<Rightarrow> bool" where
  "part_ok np \<longleftrightarrow> (\<exists>v. pt_bytes (snd np) = Inr v)"

text \<open>The part of the \<open>Oss\<close> trait a handler sees: one kind of object, put and fetched by name.\<close>

locale object_store =
  fixes ready :: "s3 \<Rightarrow> bool"
    and put :: "string \<Rightarrow> string \<Rightarrow> (s3, unit) act"
    and fetch :: "string \<Rightarrow> (s3, string) act"
  assumes put_ready: "ready s \<Longrightarrow> \<exists>t. put k v s = (Inr (), t) \<and> ready t"
    and put_same: "ready s \<Longrightarrow> put k v s = (Inr (), t) \<Longrightarrow> fetch k t = (Inr v, t)"
    and put_other: "ready s \<Longrightarrow> put k v s = (Inr (), t) \<Longrightarrow> j \<noteq> k \<Longrightarrow> fst (fetch j t) = fst (fetch j s)"
    and fetch_reads: "snd (fetch k s) = s"
begin

lemma fetch_cong: "fst (fetch k s) = Inr v \<Longrightarrow> fetch k s = (Inr v, s)"
  using fetch_reads [of k s] by (cases "fetch k s") simp

lemma save_one:
  assumes "ready s" and "part_ok np"
  shows "\<exists>t. save_part put (fst np) (Inr (Some (snd np))) s = (Inr (part_name np), t) \<and> ready t
    \<and> fetch (part_name np) t = (Inr (part_bytes np), t)
    \<and> (\<forall>j. j \<noteq> part_name np \<longrightarrow> fst (fetch j t) = fst (fetch j s))"
proof -
  obtain t where t: "put (part_name np) (part_bytes np) s = (Inr (), t)" "ready t"
    using put_ready [OF assms(1)] by blast
  then have "save_part put (fst np) (Inr (Some (snd np))) s = (Inr (part_name np), t)"
    using assms(2) by (auto simp: save_part_def part_name_def part_bytes_def part_ok_def Let_def and_then_def)
  then show ?thesis
    using t put_same [OF assms(1) t(1)] put_other [OF assms(1) t(1)] by blast
qed

lemma saved_are_fetched:
  assumes "ready s" and "\<forall>np \<in> set ps. part_ok np" and "distinct (map part_name ps)"
  shows "\<exists>t. save_all put ps s = (Inr (map part_name ps), t) \<and> ready t
    \<and> (\<forall>np \<in> set ps. fetch (part_name np) t = (Inr (part_bytes np), t))
    \<and> (\<forall>j. j \<notin> part_name ` set ps \<longrightarrow> fst (fetch j t) = fst (fetch j s))"
  using assms
proof (induction ps arbitrary: s)
  case Nil
  then show ?case by simp
next
  case (Cons np ps)
  obtain t where t: "save_part put (fst np) (Inr (Some (snd np))) s = (Inr (part_name np), t)" "ready t"
    "fetch (part_name np) t = (Inr (part_bytes np), t)"
    "\<forall>j. j \<noteq> part_name np \<longrightarrow> fst (fetch j t) = fst (fetch j s)"
    using save_one [OF Cons.prems(1), of np] Cons.prems(2) by auto
  obtain t' where t': "save_all put ps t = (Inr (map part_name ps), t')" "ready t'"
    "\<forall>np \<in> set ps. fetch (part_name np) t' = (Inr (part_bytes np), t')"
    "\<forall>j. j \<notin> part_name ` set ps \<longrightarrow> fst (fetch j t') = fst (fetch j t)"
    using Cons.IH [OF t(2)] Cons.prems(2,3) by auto
  have "fst (fetch (part_name np) t') = Inr (part_bytes np)"
    using t'(4) Cons.prems(3) t(3) by auto
  then have "fetch (part_name np) t' = (Inr (part_bytes np), t')" by (rule fetch_cong)
  moreover have "save_all put (np # ps) s = (Inr (map part_name (np # ps)), t')"
    using t(1) t'(1) by (cases np) (simp add: and_then_def)
  ultimately show ?case using t'(2,3,4) t(4) by (intro exI [of _ t']) auto
qed

end

definition store_up :: "s3_client \<Rightarrow> bool" where
  "store_up cl \<longleftrightarrow> (\<forall>c. sc_out cl c = None)"

definition has_bucket :: "string \<Rightarrow> s3 \<Rightarrow> bool" where
  "has_bucket b st \<longleftrightarrow> st b \<noteq> None"

lemma s3_send_up [simp]: "store_up cl \<Longrightarrow> s3_send cl c m = m"
  by (simp add: s3_send_def store_up_def fun_eq_iff)

lemmas store_defs = oss_upload_def oss_download_def oss_delete_def sdk_def put_object_def find_object_def
  delete_object_def s3_send_def

interpretation files: object_store "\<lambda>st. store_up cl \<and> has_bucket (bucket cl) st" "upload_file cl" "download_file cl"
  for cl
  by unfold_locales
     (auto simp: upload_file_def download_file_def store_defs has_bucket_def store_up_def and_then_def
       split: option.splits sum.splits prod.splits)

interpretation avatars: object_store "\<lambda>st. store_up cl \<and> has_bucket (avatar_bucket cl) st"
    "oss_upload_avatar cl" "oss_download_avatar cl"
  for cl
  by unfold_locales
     (auto simp: oss_upload_avatar_def oss_download_avatar_def store_defs has_bucket_def store_up_def and_then_def
       split: option.splits sum.splits prod.splits)

section \<open>Names\<close>

text \<open>The alphabet of \<open>nanoid\<close> has no dot, so the id can be read off a stored name.\<close>

lemma saved_name_id: "CHR ''.'' \<notin> set nid \<Longrightarrow> takeWhile (\<lambda>c. c \<noteq> CHR ''.'') (saved_name nid f) = nid"
  by (auto simp: saved_name_def takeWhile_append split: option.split)

lemma distinct_part_names:
  assumes "distinct (map fst ps)" and "\<forall>np \<in> set ps. CHR ''.'' \<notin> set (fst np)"
  shows "distinct (map part_name ps)"
proof -
  have "map fst ps = map (takeWhile (\<lambda>c. c \<noteq> CHR ''.'')) (map part_name ps)"
    using assms(2) by (auto simp: part_name_def saved_name_id)
  then show ?thesis using assms(1) by (metis distinct_map)
qed

lemma save_part_frame: "b \<noteq> bucket cl \<Longrightarrow> snd (save_part (upload_file cl) nid f s) b = s b"
  by (auto simp: save_part_def upload_file_def oss_upload_def sdk_def put_object_def s3_send_def and_then_def Let_def
      split: sum.split option.split prod.split)

lemma save_all_frame: "b \<noteq> bucket cl \<Longrightarrow> snd (save_all (upload_file cl) ps s) b = s b"
proof (induction ps arbitrary: s)
  case (Cons np ps)
  obtain nid p where np: "np = (nid, p)" by fastforce
  show ?case
    using Cons save_part_frame [OF Cons.prems, of nid "Inr (Some p)" s]
    by (auto simp: np and_then_def split: prod.split sum.split) (metis snd_conv)+
qed simp

section \<open>Starting up\<close>

definition default_present :: "s3_client \<Rightarrow> s3 \<Rightarrow> bool" where
  "default_present cl st \<longleftrightarrow> (\<forall>(path, name) \<in> set default_avatars.
     sc_local cl path \<noteq> None \<longrightarrow> exists_by_name cl (avatar_bucket cl) name st)"

lemma create_bucket_up:
  assumes "store_up cl"
  shows "\<exists>t. create_bucket cl s = (Inr (), t) \<and> has_bucket (bucket cl) t \<and> has_bucket (avatar_bucket cl) t
    \<and> (\<forall>b. s b \<noteq> None \<longrightarrow> t b = s b)"
  using assms
  by (cases "s (bucket cl)"; cases "s (avatar_bucket cl)"; cases "avatar_bucket cl = bucket cl")
     (auto simp: create_bucket_def check_bucket_exists_def check_avatar_bucket_exits_def bucket_exists_def
       head_bucket_def create_bucket_req_def sdk_def and_then_def has_bucket_def)

lemma check_avatars_up:
  assumes "store_up cl" and "has_bucket (avatar_bucket cl) s"
  shows "\<exists>t. check_avatars cl order s = (Inr (), t) \<and> (\<forall>b. b \<noteq> avatar_bucket cl \<longrightarrow> t b = s b)
    \<and> (\<exists>old new. s (avatar_bucket cl) = Some old \<and> t (avatar_bucket cl) = Some new \<and> old \<subseteq>\<^sub>m new
        \<and> (\<forall>(path, name) \<in> set order. sc_local cl path \<noteq> None \<longrightarrow> new name \<noteq> None))"
  using assms(2)
proof (induction order arbitrary: s)
  case Nil
  then show ?case by (auto simp: has_bucket_def)
next
  case (Cons pn order)
  obtain path name where pn: "pn = (path, name)" by fastforce
  obtain old where old: "s (avatar_bucket cl) = Some old" using Cons.prems by (auto simp: has_bucket_def)
  define objs where "objs = (if old name \<noteq> None then old
      else case sc_local cl path of None \<Rightarrow> old | Some v \<Rightarrow> old(name \<mapsto> v))"
  let ?s = "s(avatar_bucket cl \<mapsto> objs)"
  have step: "check_avatars cl (pn # order) s = check_avatars cl order ?s"
    using assms(1) old
    by (auto simp: pn objs_def exists_by_name_def find_object_def oss_upload_avatar_def oss_upload_def
        put_object_def sdk_def and_then_def fun_upd_idem split: option.split)
  have le: "old \<subseteq>\<^sub>m objs" "sc_local cl path \<noteq> None \<Longrightarrow> objs name \<noteq> None"
    by (auto simp: objs_def map_le_def split: option.split)
  have "has_bucket (avatar_bucket cl) ?s" by (simp add: has_bucket_def)
  from Cons.IH [OF this] obtain t mid new where t: "check_avatars cl order ?s = (Inr (), t)"
    "\<forall>b. b \<noteq> avatar_bucket cl \<longrightarrow> t b = ?s b" "?s (avatar_bucket cl) = Some mid"
    "t (avatar_bucket cl) = Some new" "mid \<subseteq>\<^sub>m new"
    "\<forall>(path, name) \<in> set order. sc_local cl path \<noteq> None \<longrightarrow> new name \<noteq> None" by blast
  have "objs \<subseteq>\<^sub>m new" using t(3,5) by simp
  with le have "old \<subseteq>\<^sub>m new" "sc_local cl path \<noteq> None \<Longrightarrow> new name \<noteq> None"
    by (auto intro: map_le_trans) (metis map_le_def domI)
  moreover have "\<forall>b. b \<noteq> avatar_bucket cl \<longrightarrow> t b = s b" using t(2) by simp
  moreover from calculation have "\<forall>(path, name) \<in> set (pn # order). sc_local cl path \<noteq> None \<longrightarrow> new name \<noteq> None"
    using t(6) by (auto simp: pn)
  moreover have "check_avatars cl (pn # order) s = (Inr (), t)" by (simp only: step t(1))
  ultimately show ?case using old t(4) by blast
qed

section \<open>Properties\<close>

text \<open>
  C29. What is uploaded is served: any number of files, saved under fresh ids, come back byte for byte
  under the names the uploads answered with, each with its original extension, and with the cache
  header; files are never confused with each other, and the avatars are not touched.
\<close>

theorem uploaded_files_served:
  assumes "store_up cl" and "has_bucket (bucket cl) s" and "bucket cl \<noteq> avatar_bucket cl"
    and "\<forall>np \<in> set ps. part_ok np" and "distinct (map fst ps)" and "\<forall>np \<in> set ps. CHR ''.'' \<notin> set (fst np)"
  shows "\<exists>t. save_all (upload_file cl) ps s = (Inr (map part_name ps), t)
    \<and> (\<forall>np \<in> set ps. get_file_by_name cl (part_name np) t = (Inr (cache_headers, part_bytes np), t))
    \<and> (\<forall>k. k \<notin> part_name ` set ps \<longrightarrow> fst (download_file cl k t) = fst (download_file cl k s))
    \<and> t (avatar_bucket cl) = s (avatar_bucket cl)"
proof -
  obtain t where "save_all (upload_file cl) ps s = (Inr (map part_name ps), t)"
    "\<forall>np \<in> set ps. download_file cl (part_name np) t = (Inr (part_bytes np), t)"
    "\<forall>j. j \<notin> part_name ` set ps \<longrightarrow> fst (download_file cl j t) = fst (download_file cl j s)"
    using files.saved_are_fetched [of cl s ps] assms distinct_part_names [of ps] by blast
  moreover from this have "t (avatar_bucket cl) = s (avatar_bucket cl)"
    using save_all_frame [of "avatar_bucket cl" cl ps s] assms(3) by simp
  ultimately show ?thesis by (intro exI [of _ t]) (simp add: get_file_by_name_def and_then_def)
qed

text \<open>
  Starting up prepares the store and changes nothing that is there: with the store reachable
  both buckets exist afterwards, every default avatar whose file can be read is there, in whatever
  order the avatars are visited, and no object that was stored before is changed or lost.
\<close>

theorem startup_prepares_store:
  assumes "store_up cl" and "set order = set default_avatars"
  shows "\<exists>t. s3_client_new cl order s = (Inr (), t) \<and> has_bucket (bucket cl) t \<and> has_bucket (avatar_bucket cl) t
    \<and> default_present cl t \<and> (\<forall>b objs k v. s b = Some objs \<longrightarrow> objs k = Some v \<longrightarrow> Option.bind (t b) (\<lambda>os. os k) = Some v)"
proof -
  obtain u where u: "create_bucket cl s = (Inr (), u)" "has_bucket (bucket cl) u" "has_bucket (avatar_bucket cl) u"
    "\<forall>b. s b \<noteq> None \<longrightarrow> u b = s b"
    using create_bucket_up [OF assms(1)] by blast
  from check_avatars_up [OF assms(1) u(3), of order] obtain t old new where
    t: "check_avatars cl order u = (Inr (), t)" "\<forall>b. b \<noteq> avatar_bucket cl \<longrightarrow> t b = u b"
    "u (avatar_bucket cl) = Some old" "t (avatar_bucket cl) = Some new" "old \<subseteq>\<^sub>m new"
    "\<forall>(path, name) \<in> set order. sc_local cl path \<noteq> None \<longrightarrow> new name \<noteq> None" by blast
  have "s3_client_new cl order s = (Inr (), t)"
    using u(1) t(1) by (simp add: s3_client_new_def and_then_def unwrap_act_def)
  moreover have "has_bucket (bucket cl) t" "has_bucket (avatar_bucket cl) t"
    using u(2) t(2,4) by (cases "bucket cl = avatar_bucket cl"; auto simp: has_bucket_def)+
  moreover have "default_present cl t"
    using t(4,6) assms by (auto simp: default_present_def exists_by_name_def find_object_def split: option.splits)
  moreover have "Option.bind (t b) (\<lambda>os. os k) = Some v" if "s b = Some objs" "objs k = Some v" for b objs k v
    using that u(4) t(2-5) by (cases "b = avatar_bucket cl") (auto simp: map_le_def dom_def)
  ultimately show ?thesis by blast
qed

section \<open>Concrete instances\<close>

definition demo_s3 :: s3_client where
  "demo_s3 = \<lparr>bucket = ''files'', avatar_bucket = ''avatars'', sc_out = (\<lambda>_. None),
     sc_local = (\<lambda>p. if p = ''./oss/default_avatar/avatar1.png'' then Some ''png'' else None)\<rparr>"

lemma demo_s3_sel [simp]:
  "bucket demo_s3 = ''files''" "avatar_bucket demo_s3 = ''avatars''" "store_up demo_s3"
  by (simp_all add: demo_s3_def store_up_def)

theorem uploaded_files_served_witness:
  "\<exists>t. save_all (upload_file demo_s3) [(''n1'', \<lparr>pt_file_name = Some ''a/b.txt'', pt_bytes = Inr ''hi''\<rparr>)]
      [''files'' \<mapsto> Map.empty] = (Inr [''n1.txt''], t)
    \<and> get_file_by_name demo_s3 ''n1.txt'' t = (Inr (cache_headers, ''hi''), t)"
proof -
  let ?np = "(''n1'', \<lparr>pt_file_name = Some ''a/b.txt'', pt_bytes = Inr ''hi''\<rparr>)"
  have "part_name ?np = ''n1.txt''" "part_bytes ?np = ''hi''" by code_simp+
  then show ?thesis
    using uploaded_files_served [of demo_s3 "[''files'' \<mapsto> Map.empty]" "[?np]"]
    by (auto simp: has_bucket_def part_ok_def)
qed

theorem startup_prepares_store_witness:
  "\<exists>t. s3_client_new demo_s3 default_avatars [''files'' \<mapsto> [''k'' \<mapsto> ''v'']] = (Inr (), t)
    \<and> has_bucket ''avatars'' t \<and> Option.bind (t ''files'') (\<lambda>os. os ''k'') = Some ''v''"
  using startup_prepares_store [of demo_s3 default_avatars "[''files'' \<mapsto> [''k'' \<mapsto> ''v'']]"] by auto

end
