(* ===== verification/Group_Schema.thy ===== *)
theory Group_Schema
  imports Friend_Repo Api_Groups
begin

text \<open>
  The statements of the group repository (\<open>db/src/postgres/group.rs\<close>) against the tables of the
  migrations, and the reading of their rows (\<open>abi/src/types/group.rs\<close>). \<open>Group_Repo\<close> leaves open which
  statements fail and which rows the driver can decode; \<open>fitted\<close> fixes both for a schema. With the
  migrated tables no row of \<open>groups\<close> can be decoded, so no group is ever created.
\<close>

section \<open>Operations and their statements\<close>

datatype group_op =
    GetGroup | GetGroupAndMembers | GetMembers | CreateGroup | InviteNew | RemoveMember | GetGroupById
  | QueryMembersId | QueryMembers | UpdateGroup | ExitGroup | DeleteGroup | UpdateSettings | UpdateMemberSettings
  | CreateCategory | UpdateCategory | DeleteCategory | GetCategories | UploadFile | DeleteFile | GetFiles | PinFile
  | CreatePoll | VotePoll | ClosePoll | GetPolls | GetPoll | MuteMember | UnmuteMember | GetMuted
  | CreateAnnouncement | DeleteAnnouncement | GetAnnouncements | PinAnnouncement | ChangeRole

definition all_group_ops :: "group_op list" where
  "all_group_ops =
     [GetGroup, GetGroupAndMembers, GetMembers, CreateGroup, InviteNew, RemoveMember, GetGroupById,
      QueryMembersId, QueryMembers, UpdateGroup, ExitGroup, DeleteGroup, UpdateSettings, UpdateMemberSettings,
      CreateCategory, UpdateCategory, DeleteCategory, GetCategories, UploadFile, DeleteFile, GetFiles, PinFile,
      CreatePoll, VotePoll, ClosePoll, GetPolls, GetPoll, MuteMember, UnmuteMember, GetMuted,
      CreateAnnouncement, DeleteAnnouncement, GetAnnouncements, PinAnnouncement, ChangeRole]"

text \<open>\<open>BEGIN\<close> and \<open>COMMIT\<close> name no column.\<close>

definition bare :: statement where
  "bare = \<lparr>st_uses = [], st_inserts = None\<rparr>"

definition names :: "string list \<Rightarrow> (string \<times> col_use) list" where
  "names cs = map (\<lambda>c. (c, Named)) cs"

definition texts :: "string list \<Rightarrow> (string \<times> col_use) list" where
  "texts cs = map (\<lambda>c. (c, Bound SqlText)) cs"

definition joined :: "statement \<Rightarrow> statement \<Rightarrow> statement" where
  "joined a b = \<lparr>st_uses = st_uses a @ st_uses b, st_inserts = st_inserts a\<rparr>"

text \<open>The columns of a result: its name, the table and the column it comes from.\<close>

type_synonym result_columns = "(string \<times> string \<times> string) list"

definition returning_all :: "schema \<Rightarrow> string \<Rightarrow> result_columns" where
  "returning_all sch t = map (\<lambda>(c, _). (c, t, c)) (table_columns sch t)"

definition result_query :: "result_columns \<Rightarrow> statement" where
  "result_query cols = \<lparr>st_uses = map (\<lambda>(_, t, c). (t, c, Named)) cols, st_inserts = None\<rparr>"

definition result_type :: "schema \<Rightarrow> result_columns \<Rightarrow> string \<Rightarrow> sql_type option" where
  "result_type sch cols c = (case map_of cols c of None \<Rightarrow> None | Some (t, d) \<Rightarrow> column_type sch t d)"

text \<open>The select list of \<open>get_group_and_members\<close>, \<open>get_members\<close> and, from the inserted rows,
  \<open>create_group_with_members\<close>.\<close>

definition member_card :: result_columns where
  "member_card =
     [(''group_id'', ''group_members'', ''group_id''), (''role'', ''group_members'', ''role''),
      (''joined_at'', ''group_members'', ''joined_at''), (''user_id'', ''users'', ''id''),
      (''group_name'', ''users'', ''name''), (''avatar'', ''users'', ''avatar''), (''age'', ''users'', ''age''),
      (''region'', ''users'', ''region''), (''gender'', ''users'', ''gender''),
      (''signature'', ''users'', ''signature''), (''is_muted'', ''group_members'', ''is_muted''),
      (''notification_level'', ''group_members'', ''notification_level''),
      (''last_read_time'', ''group_members'', ''last_read_time''),
      (''display_order'', ''group_members'', ''display_order''), (''joined_by'', ''group_members'', ''joined_by'')]"

text \<open>The one of \<open>query_group_members_by_group_id\<close>.\<close>

definition member_list :: result_columns where
  "member_list =
     [(''group_id'', ''group_members'', ''group_id''), (''user_id'', ''group_members'', ''user_id''),
      (''group_name'', ''group_members'', ''group_name''), (''role'', ''group_members'', ''role''),
      (''joined_at'', ''group_members'', ''joined_at''), (''is_muted'', ''group_members'', ''is_muted''),
      (''notification_level'', ''group_members'', ''notification_level''),
      (''last_read_time'', ''group_members'', ''last_read_time''),
      (''display_order'', ''group_members'', ''display_order''), (''joined_by'', ''group_members'', ''joined_by''),
      (''avatar'', ''users'', ''avatar''), (''age'', ''users'', ''age''), (''gender'', ''users'', ''gender''),
      (''region'', ''users'', ''region''), (''signature'', ''users'', ''signature'')]"

definition is_member_stmt :: statement where
  "is_member_stmt = query_on ''group_members'' (texts [''group_id'', ''user_id''])"

definition is_manager_stmt :: statement where
  "is_manager_stmt = query_on ''group_members'' (texts [''group_id'', ''user_id''] @ names [''role''])"

definition member_insert :: "(string \<times> col_use) list" where
  "member_insert = texts [''user_id'', ''group_id'', ''joined_by''] @ names [''group_name'', ''role'', ''is_muted'',
     ''notification_level'', ''display_order''] @ [(''joined_at'', Bound SqlInt8), (''last_read_time'', Bound SqlInt8)]"

text \<open>The rights of a member over an item of the group: the owner and administrators, or whoever made it.\<close>

definition item_right_stmt :: "string \<Rightarrow> string \<Rightarrow> statement" where
  "item_right_stmt t maker = joined (query_on t ((''id'', Bound SqlText) # (maker, Bound SqlText) # names [''group_id'']))
     (query_on ''group_members'' (texts [''user_id''] @ names [''group_id'', ''role'']))"

definition id_stmt :: "string \<Rightarrow> statement" where
  "id_stmt t = query_on t (texts [''id''])"

fun op_stmts :: "group_op \<Rightarrow> statement list" where
  "op_stmts GetGroup = [joined (id_stmt ''groups'') is_member_stmt]"
| "op_stmts GetGroupAndMembers = [joined (id_stmt ''groups'') is_member_stmt,
     joined (result_query member_card) (query_on ''group_members'' (texts [''group_id'']))]"
| "op_stmts GetMembers = [is_member_stmt,
     joined (result_query member_card) (query_on ''group_members'' (texts [''group_id'', ''user_id'']))]"
| "op_stmts CreateGroup = [bare,
     insert_into ''groups'' (texts [''id'', ''owner'', ''name'', ''avatar''] @
       names [''description'', ''announcement'', ''max_members'', ''is_public'', ''join_approval_required'',
         ''mute_all'', ''only_admin_post''] @ [(''create_time'', Bound SqlInt8), (''update_time'', Bound SqlInt8)]),
     joined (insert_into ''group_members'' member_insert) (joined (id_stmt ''users'') (result_query member_card)), bare]"
| "op_stmts InviteNew = [joined (query_on ''groups'' ((''id'', Bound SqlText) # names [''invite_permission'']))
       (query_on ''group_members'' (texts [''user_id''] @ names [''group_id'', ''role''])),
     joined (insert_into ''group_members'' member_insert) (query_on ''users'' ((''id'', Bound SqlText) # names [''name'']))]"
| "op_stmts RemoveMember = [is_manager_stmt]"
| "op_stmts GetGroupById = [id_stmt ''groups'']"
| "op_stmts QueryMembersId = [query_on ''group_members'' (texts [''group_id''] @ names [''user_id''])]"
| "op_stmts QueryMembers = [joined (result_query member_list) (query_on ''group_members'' (texts [''group_id'']))]"
| "op_stmts UpdateGroup = [query_on ''groups'' (texts [''name'', ''avatar'', ''description'', ''announcement'', ''id''] @
     [(''update_time'', Bound SqlInt8)])]"
| "op_stmts ExitGroup = [is_manager_stmt, is_member_stmt]"
| "op_stmts DeleteGroup = [bare, query_on ''groups'' (texts [''id'', ''owner'']), bare]"
| "op_stmts UpdateSettings = [query_on ''groups''
     (texts [''name'', ''avatar'', ''description'', ''announcement'', ''category'', ''id''] @
      [(''join_approval_required'', Bound SqlBool), (''mute_all'', Bound SqlBool), (''only_admin_post'', Bound SqlBool),
       (''invite_permission'', BoundCast SqlInt4 SqlRole), (''tags'', Bound SqlTextArray), (''update_time'', Bound SqlInt8)])]"
| "op_stmts UpdateMemberSettings = [query_on ''group_members''
     (texts [''notification_level'', ''group_id'', ''user_id''] @ [(''display_order'', Bound SqlInt4)])]"
| "op_stmts CreateCategory = [insert_into ''group_categories'' (texts [''id'', ''name'', ''description''] @
     [(''display_order'', Bound SqlInt4), (''create_time'', Bound SqlInt8), (''update_time'', Bound SqlInt8)])]"
| "op_stmts UpdateCategory = [query_on ''group_categories'' (texts [''id'', ''name'', ''description''] @
     [(''display_order'', Bound SqlInt4), (''update_time'', Bound SqlInt8)])]"
| "op_stmts DeleteCategory = [bare, query_on ''groups'' (texts [''category'']), id_stmt ''group_categories'', bare]"
| "op_stmts GetCategories = [query_on ''group_categories'' (names [''display_order''])]"
| "op_stmts UploadFile = [insert_into ''group_files''
     (texts [''id'', ''group_id'', ''uploader_id'', ''file_name'', ''file_url'', ''file_type''] @
      [(''file_size'', Bound SqlInt8), (''upload_time'', Bound SqlInt8)])]"
| "op_stmts DeleteFile = [item_right_stmt ''group_files'' ''uploader_id'', id_stmt ''group_files'']"
| "op_stmts GetFiles = [query_on ''group_files'' (texts [''group_id''] @ names [''upload_time''])]"
| "op_stmts PinFile = [query_on ''group_files'' (texts [''id''] @ [(''is_pinned'', Bound SqlBool)])]"
| "op_stmts CreatePoll = [insert_into ''group_polls'' (texts [''id'', ''group_id'', ''creator_id'', ''title''] @
     [(''options'', Bound SqlJson), (''is_multiple'', Bound SqlBool), (''is_anonymous'', Bound SqlBool),
      (''created_at'', Bound SqlInt8), (''expires_at'', Bound SqlInt8)] @ names [''status''])]"
| "op_stmts VotePoll = [id_stmt ''group_polls'',
     query_on ''group_polls'' (texts [''options'', ''results'', ''id''])]"
| "op_stmts ClosePoll = [item_right_stmt ''group_polls'' ''creator_id'',
     query_on ''group_polls'' (texts [''id''] @ names [''status''])]"
| "op_stmts GetPolls = [query_on ''group_polls'' (texts [''group_id''] @ names [''created_at''])]"
| "op_stmts GetPoll = [id_stmt ''group_polls'']"
| "op_stmts MuteMember = [is_manager_stmt, is_manager_stmt, is_manager_stmt,
     insert_into ''group_mute_records'' (texts [''id'', ''group_id'', ''user_id'', ''operator_id'', ''reason''] @
       [(''mute_until'', Bound SqlInt8), (''created_at'', Bound SqlInt8)]),
     query_on ''group_members'' (texts [''group_id'', ''user_id''] @ names [''is_muted''])]"
| "op_stmts UnmuteMember = [is_manager_stmt,
     query_on ''group_mute_records'' (texts [''group_id'', ''user_id''] @ names [''mute_until'']),
     query_on ''group_members'' (texts [''group_id'', ''user_id''] @ names [''is_muted''])]"
| "op_stmts GetMuted = [query_on ''group_mute_records'' (texts [''group_id''] @ names [''mute_until'', ''created_at''])]"
| "op_stmts CreateAnnouncement = [is_manager_stmt,
     insert_into ''group_announcements'' (texts [''id'', ''group_id'', ''creator_id'', ''content''] @
       [(''created_at'', Bound SqlInt8), (''is_pinned'', Bound SqlBool)])]"
| "op_stmts DeleteAnnouncement = [item_right_stmt ''group_announcements'' ''creator_id'', id_stmt ''group_announcements'']"
| "op_stmts GetAnnouncements = [query_on ''group_announcements'' (texts [''group_id''] @ names [''is_pinned'', ''created_at''])]"
| "op_stmts PinAnnouncement = [query_on ''group_announcements'' (texts [''id''] @ [(''is_pinned'', Bound SqlBool)])]"
| "op_stmts ChangeRole = [is_manager_stmt,
     query_on ''group_members'' (texts [''group_id'', ''user_id''] @ [(''role'', BoundCast SqlText SqlRole)])]"

section \<open>Reading the rows\<close>

text \<open>The fields of \<open>GroupInfo\<close> and \<open>GroupMember\<close>, read with \<open>?\<close>; only \<open>region\<close> may be \<open>NULL\<close>.\<close>

definition group_info_fields :: "(string \<times> sql_type) list" where
  "group_info_fields =
     [(''id'', SqlText), (''name'', SqlText), (''owner'', SqlText), (''avatar'', SqlText), (''description'', SqlText),
      (''announcement'', SqlText), (''create_time'', SqlInt8), (''update_time'', SqlInt8), (''max_members'', SqlInt4),
      (''is_public'', SqlBool), (''join_approval_required'', SqlBool), (''category'', SqlText), (''tags'', SqlTextArray),
      (''mute_all'', SqlBool), (''only_admin_post'', SqlBool), (''invite_permission'', SqlInt4),
      (''pinned_messages'', SqlTextArray)]"

definition group_member_fields :: "(string \<times> sql_type) list" where
  "group_member_fields =
     [(''role'', SqlRole), (''user_id'', SqlText), (''group_id'', SqlText), (''avatar'', SqlText), (''gender'', SqlText),
      (''age'', SqlInt4), (''region'', SqlText), (''group_name'', SqlText), (''joined_at'', SqlInt8),
      (''signature'', SqlText), (''is_muted'', SqlBool), (''notification_level'', SqlText),
      (''last_read_time'', SqlInt8), (''display_order'', SqlInt4), (''joined_by'', SqlText)]"

definition fields_readable :: "schema \<Rightarrow> result_columns \<Rightarrow> (string \<times> sql_type) list \<Rightarrow> bool" where
  "fields_readable sch cols fs \<longleftrightarrow> list_all (\<lambda>(c, ty). result_type sch cols c = Some ty) fs"

text \<open>No statement ever sets \<open>pinned_messages\<close>, which has no default: where the column exists it is
  \<open>NULL\<close> in every row.\<close>

definition decode_group :: "schema \<Rightarrow> GroupRow \<Rightarrow> failure option" where
  "decode_group sch r =
     (if \<not> fields_readable sch (returning_all sch ''groups'') group_info_fields then Some unreadable
      else if gr_category r = None \<or> gr_tags r = None \<or> column_type sch ''groups'' ''pinned_messages'' \<noteq> None
      then Some null_column else None)"

text \<open>What the rows an operation reads as \<open>GroupMember\<close> are made of.\<close>

fun member_source :: "schema \<Rightarrow> group_op \<Rightarrow> result_columns" where
  "member_source sch QueryMembers = member_list"
| "member_source sch UpdateMemberSettings = returning_all sch ''group_members''"
| "member_source sch ChangeRole = returning_all sch ''group_members''"
| "member_source sch _ = member_card"

definition decode_member :: "schema \<Rightarrow> group_op \<Rightarrow> failure option" where
  "decode_member sch opn =
     (if fields_readable sch (member_source sch opn) group_member_fields then None else Some unreadable)"

text \<open>The other structs fall back to the default of a field that cannot be read. The options of a poll
  are read as text and parsed; the text of a missing value is empty, which is no JSON.\<close>

definition read_options :: "schema \<Rightarrow> PollOption list \<Rightarrow> PollOption list" where
  "read_options sch os = read_or sch ''group_polls'' ''options'' SqlText [] os"

definition read_poll :: "schema \<Rightarrow> PollRow \<Rightarrow> PollRow" where
  "read_poll sch r =
     (let t = ''group_polls'' in
      r\<lparr>pl_id := read_or sch t ''id'' SqlText '''' (pl_id r),
        pl_group_id := read_or sch t ''group_id'' SqlText '''' (pl_group_id r),
        pl_creator_id := read_or sch t ''creator_id'' SqlText '''' (pl_creator_id r),
        pl_title := read_or sch t ''title'' SqlText '''' (pl_title r),
        pl_options := read_options sch (pl_options r),
        pl_is_multiple := read_or sch t ''is_multiple'' SqlBool False (pl_is_multiple r),
        pl_is_anonymous := read_or sch t ''is_anonymous'' SqlBool False (pl_is_anonymous r),
        pl_created_at := read_or sch t ''created_at'' SqlInt8 0 (pl_created_at r),
        pl_expires_at := read_or sch t ''expires_at'' SqlInt8 0 (pl_expires_at r),
        pl_status := read_or sch t ''status'' SqlText '''' (pl_status r)\<rparr>)"

definition read_category :: "schema \<Rightarrow> CategoryRow \<Rightarrow> CategoryRow" where
  "read_category sch r =
     (let t = ''group_categories'' in
      \<lparr>ct_id = read_or sch t ''id'' SqlText '''' (ct_id r), ct_name = read_or sch t ''name'' SqlText '''' (ct_name r),
       ct_description = read_or sch t ''description'' SqlText '''' (ct_description r),
       ct_display_order = read_or sch t ''display_order'' SqlInt4 0 (ct_display_order r),
       ct_create_time = read_or sch t ''create_time'' SqlInt8 0 (ct_create_time r),
       ct_update_time = read_or sch t ''update_time'' SqlInt8 0 (ct_update_time r)\<rparr>)"

definition read_file :: "schema \<Rightarrow> FileRow \<Rightarrow> FileRow" where
  "read_file sch r =
     (let t = ''group_files'' in
      \<lparr>fl_id = read_or sch t ''id'' SqlText '''' (fl_id r),
       fl_group_id = read_or sch t ''group_id'' SqlText '''' (fl_group_id r),
       fl_uploader_id = read_or sch t ''uploader_id'' SqlText '''' (fl_uploader_id r),
       fl_file_name = read_or sch t ''file_name'' SqlText '''' (fl_file_name r),
       fl_file_url = read_or sch t ''file_url'' SqlText '''' (fl_file_url r),
       fl_file_size = read_or sch t ''file_size'' SqlInt8 0 (fl_file_size r),
       fl_file_type = read_or sch t ''file_type'' SqlText '''' (fl_file_type r),
       fl_upload_time = read_or sch t ''upload_time'' SqlInt8 0 (fl_upload_time r),
       fl_is_pinned = read_or sch t ''is_pinned'' SqlBool False (fl_is_pinned r)\<rparr>)"

definition read_mute :: "schema \<Rightarrow> MuteRow \<Rightarrow> MuteRow" where
  "read_mute sch r =
     (let t = ''group_mute_records'' in
      \<lparr>mt_id = read_or sch t ''id'' SqlText '''' (mt_id r),
       mt_group_id = read_or sch t ''group_id'' SqlText '''' (mt_group_id r),
       mt_user_id = read_or sch t ''user_id'' SqlText '''' (mt_user_id r),
       mt_operator_id = read_or sch t ''operator_id'' SqlText '''' (mt_operator_id r),
       mt_mute_until = read_or sch t ''mute_until'' SqlInt8 0 (mt_mute_until r),
       mt_reason = read_or sch t ''reason'' SqlText '''' (mt_reason r),
       mt_created_at = read_or sch t ''created_at'' SqlInt8 0 (mt_created_at r)\<rparr>)"

definition read_announcement :: "schema \<Rightarrow> AnnouncementRow \<Rightarrow> AnnouncementRow" where
  "read_announcement sch r =
     (let t = ''group_announcements'' in
      \<lparr>an_id = read_or sch t ''id'' SqlText '''' (an_id r),
       an_group_id = read_or sch t ''group_id'' SqlText '''' (an_group_id r),
       an_creator_id = read_or sch t ''creator_id'' SqlText '''' (an_creator_id r),
       an_content = read_or sch t ''content'' SqlText '''' (an_content r),
       an_created_at = read_or sch t ''created_at'' SqlInt8 0 (an_created_at r),
       an_is_pinned = read_or sch t ''is_pinned'' SqlBool False (an_is_pinned r)\<rparr>)"

section \<open>The environment a schema leaves\<close>

text \<open>What goes wrong besides comes from \<open>env\<close>.\<close>

definition or_else :: "'e option \<Rightarrow> 'e option \<Rightarrow> 'e option" where
  "or_else a b = (case a of None \<Rightarrow> b | Some e \<Rightarrow> Some e)"

definition fitted :: "schema \<Rightarrow> group_op \<Rightarrow> group_env \<Rightarrow> group_env" where
  "fitted sch opn env =
     env\<lparr>ge_stmt := (\<lambda>n. if n < length (op_stmts opn) \<and> \<not> stmt_accepted sch (op_stmts opn ! n)
            then Some refused else ge_stmt env n),
         ge_decode_group := (\<lambda>r. or_else (decode_group sch r) (ge_decode_group env r)),
         ge_decode_member := (\<lambda>m. or_else (decode_member sch opn) (ge_decode_member env m)),
         ge_read_options := (\<lambda>os. read_options sch (ge_read_options env os))\<rparr>"

section \<open>Against the migrated tables\<close>

lemma fitted_sel [simp]:
  "ge_decode_group (fitted sch opn env) = (\<lambda>r. or_else (decode_group sch r) (ge_decode_group env r))"
  "ge_decode_member (fitted sch opn env) = (\<lambda>m. or_else (decode_member sch opn) (ge_decode_member env m))"
  "ge_now (fitted sch opn env) = ge_now env" "ge_nanoid (fitted sch opn env) = ge_nanoid env"
  "ge_pg_now (fitted sch opn env) = ge_pg_now env" "ge_role_cast (fitted sch opn env) = ge_role_cast env"
  by (simp_all add: fitted_def)

lemma fitted_stmt [simp]:
  "ge_stmt (fitted sch opn env) n = (if n < length (op_stmts opn) \<and> \<not> stmt_accepted sch (op_stmts opn ! n)
            then Some refused else ge_stmt env n)"
  by (simp add: fitted_def)

lemma or_else_simps [simp]: "or_else (Some e) b = Some e" "or_else None b = b"
  by (simp_all add: or_else_def)

lemma groups_unreadable: "\<not> fields_readable migrated (returning_all migrated ''groups'') group_info_fields"
  by code_simp

lemma decode_group_migrated [simp]: "decode_group migrated r = Some unreadable"
  by (simp add: decode_group_def groups_unreadable)

lemma decode_member_returned:
  "decode_member migrated UpdateMemberSettings = Some unreadable" "decode_member migrated ChangeRole = Some unreadable"
  by code_simp+

lemma decode_member_selected:
  "opn \<notin> {UpdateMemberSettings, ChangeRole} \<Longrightarrow> decode_member migrated opn = None"
proof -
  have "fields_readable migrated member_list group_member_fields" by code_simp
  moreover have "fields_readable migrated member_card group_member_fields" by code_simp
  ultimately show "opn \<notin> {UpdateMemberSettings, ChangeRole} \<Longrightarrow> decode_member migrated opn = None"
    by (cases opn) (simp_all add: decode_member_def)
qed

lemma settings_stmt_refused: "\<not> stmt_accepted migrated (hd (op_stmts UpdateSettings))"
  by code_simp

lemma vote_stmt_refused: "\<not> stmt_accepted migrated (op_stmts VotePoll ! 1)"
  by code_simp

lemma read_options_migrated [simp]: "read_options migrated os = []"
proof -
  have "column_type migrated ''group_polls'' ''options'' \<noteq> Some SqlText" by code_simp
  then show ?thesis by (simp add: read_options_def read_or_def)
qed

lemma fetch_one_unreadable: "\<exists>e. fetch_one (\<lambda>r. Some (f r)) rows = Inl e"
  by (cases rows) (simp_all add: fetch_one_def)

text \<open>
  Only two statements of the whole group repository do not fit the migrated tables: the update of
  the settings, which casts a number to the enum of roles, and the recording of votes, which binds
  text to a JSON column. All the others name existing columns, bind values of their types and give
  every required column.
\<close>

theorem group_statements_fit:
  "filter (\<lambda>opn. \<not> list_all (stmt_accepted migrated) (op_stmts opn)) all_group_ops = [UpdateSettings, VotePoll]"
  by code_simp

lemma always_fails_remote [intro]: "always_fails m \<Longrightarrow> always_fails (remote outage m)"
  by (cases outage) (simp_all add: always_fails_def)

lemma always_fails_refused [simp]: "always_fails (remote (Some e) m)"
  by (simp add: always_fails_def)

lemma always_fails_transaction [intro]: "(\<And>s. \<exists>e t. m s = (Inl e, t)) \<Longrightarrow> always_fails (transaction m)"
  unfolding always_fails_def transaction_def by (metis old.prod.case old.sum.simps(5))

lemma always_fails_select_unreadable: "always_fails (select (\<lambda>db. fetch_one (\<lambda>r. Some (f r)) (q db)))"
  unfolding always_fails_def select_def using fetch_one_unreadable by metis

text \<open>A transaction fails when some statement does, whatever comes before and after it.\<close>

definition cannot_succeed :: "('s, 'a) act \<Rightarrow> bool" where
  "cannot_succeed m \<longleftrightarrow> (\<forall>s. \<exists>e t. m s = (Inl e, t))"

lemma cannot_succeed_and_then:
  "cannot_succeed m \<Longrightarrow> cannot_succeed (and_then m f)" "(\<And>a. cannot_succeed (f a)) \<Longrightarrow> cannot_succeed (and_then m f)"
  unfolding cannot_succeed_def
  by (metis and_then_Inl) (auto simp: and_then_def split: prod.split sum.split)

lemma cannot_succeed_remote: "cannot_succeed m \<Longrightarrow> cannot_succeed (remote outage m)"
  by (cases outage) (simp_all add: cannot_succeed_def)

lemma transaction_fails: "cannot_succeed m \<Longrightarrow> always_fails (transaction m)"
  unfolding cannot_succeed_def by (rule always_fails_transaction) blast

lemma insert_group_row_fails: "cannot_succeed (insert_group_row (fitted migrated opn env) c)"
  unfolding cannot_succeed_def insert_group_row_def by (auto simp: Let_def fetch_one_def)

lemma create_group_fails: "always_fails (create_group_with_members (fitted migrated opn env) c)"
  unfolding create_group_with_members_def
  by (intro transaction_fails cannot_succeed_and_then(2) cannot_succeed_and_then(1) [OF cannot_succeed_remote] insert_group_row_fails)

lemma delete_group_fails: "always_fails (delete_group (fitted migrated opn env) g u)"
proof -
  have "cannot_succeed (\<lambda>db. let rows = q db in (fetch_one (\<lambda>r. Some unreadable) rows, k rows db))"
    for q :: "group_db \<Rightarrow> GroupRow list" and k :: "GroupRow list \<Rightarrow> group_db \<Rightarrow> group_db"
    unfolding cannot_succeed_def Let_def using fetch_one_unreadable by fast
  then show ?thesis
    unfolding delete_group_def
    by (intro transaction_fails cannot_succeed_and_then(2) cannot_succeed_and_then(1) [OF cannot_succeed_remote]) simp
qed

lemma vote_poll_fails: "always_fails (vote_poll (fitted migrated VotePoll env) q)"
  unfolding always_fails_def
proof
  fix s
  have "ge_stmt (fitted migrated VotePoll env) 1 = Some refused"
    using vote_stmt_refused by simp
  then show "\<exists>e. vote_poll (fitted migrated VotePoll env) q s = (Inl e, s)"
    by (cases "ge_stmt (fitted migrated VotePoll env) 0")
       (auto simp: vote_poll_def select_poll_def select_def and_then_def unauthorized_act_def Let_def
         simp del: fitted_stmt split: sum.split)
qed

lemma always_fails_on_part: "always_fails m \<Longrightarrow> (\<And>w. put (get w) w = w) \<Longrightarrow> always_fails (on_part get put m)"
  unfolding always_fails_def on_part_def by (metis (no_types, lifting) old.prod.case)

lemma always_fails_on_db: "always_fails m \<Longrightarrow> always_fails (on_db m)"
  by (rule always_fails_on_part) simp_all

lemma update_group_stmt_ok: "stmt_accepted migrated (hd (op_stmts UpdateGroup))"
  by code_simp

lemma member_settings_stmt_ok: "stmt_accepted migrated (hd (op_stmts UpdateMemberSettings))"
  by code_simp

text \<open>
  No row of the table \<open>groups\<close> can be read: its enum column is read as a number, and its columns
  without a default as values that are never \<open>NULL\<close>. So no operation that answers with a group ever
  succeeds: groups cannot be created, looked up or deleted, and the handler that creates one fails,
  queues nothing and leaves cache and tables alone. Updates of a group and of a member take effect
  and answer with an error.
\<close>

theorem groups_never_readable:
  "always_fails (create_group_with_members (fitted migrated CreateGroup env) c)
   \<and> always_fails (get_group (fitted migrated GetGroup env) u g)
   \<and> always_fails (get_group_and_members (fitted migrated GetGroupAndMembers env) u g)
   \<and> always_fails (get_group_by_id (fitted migrated GetGroupById env) g)
   \<and> always_fails (delete_group (fitted migrated DeleteGroup env) g u)
   \<and> always_fails (update_group_settings (fitted migrated UpdateSettings env) q)
   \<and> always_fails (vote_poll (fitted migrated VotePoll env) vq)
   \<and> always_fails (create_group_handler (aenv\<lparr>ga_groups := fitted migrated CreateGroup env\<rparr>) u c)
   \<and> (\<exists>e. update_group (fitted migrated UpdateGroup env) v db = (Inl e,
        if ge_stmt env 0 = None then snd (update_group env v db) else db))
   \<and> (\<exists>e. update_member_settings (fitted migrated UpdateMemberSettings env) g u level order db = (Inl e,
        if ge_stmt env 0 = None then snd (update_member_settings env g u level order db) else db))
   \<and> (\<exists>e. fst (change_member_role (fitted migrated ChangeRole env) g u target role db) = Inl e)"
proof (intro conjI)
  show "always_fails (get_group (fitted migrated GetGroup env) u g)"
    unfolding get_group_def by (simp add: always_fails_remote always_fails_select_unreadable)
  show "always_fails (get_group_and_members (fitted migrated GetGroupAndMembers env) u g)"
    unfolding get_group_and_members_def get_group_def
    by (rule always_fails_and_then) (simp add: always_fails_remote always_fails_select_unreadable)
  show "always_fails (get_group_by_id (fitted migrated GetGroupById env) g)"
    unfolding get_group_by_id_def by (simp add: always_fails_remote always_fails_select_unreadable)
  show "always_fails (update_group_settings (fitted migrated UpdateSettings env) q)"
    using settings_stmt_refused by (simp add: update_group_settings_def)
  show "always_fails (create_group_handler (aenv\<lparr>ga_groups := fitted migrated CreateGroup env\<rparr>) u c)"
    unfolding create_group_handler_def Let_def
    by (rule always_fails_and_then) (simp add: always_fails_on_db create_group_fails)
  show "\<exists>e. update_group (fitted migrated UpdateGroup env) v db = (Inl e,
        if ge_stmt env 0 = None then snd (update_group env v db) else db)"
    using update_group_stmt_ok fetch_one_unreadable
    by (cases "ge_stmt env 0") (auto simp: update_group_def update_groups_def)
  show "\<exists>e. update_member_settings (fitted migrated UpdateMemberSettings env) g u level order db = (Inl e,
        if ge_stmt env 0 = None then snd (update_member_settings env g u level order db) else db)"
    using member_settings_stmt_ok fetch_one_unreadable decode_member_returned(1)
    by (cases "ge_stmt env 0") (auto simp: update_member_settings_def update_members_def)
  show "\<exists>e. fst (change_member_role (fitted migrated ChangeRole env) g u target role db) = Inl e"
    using fetch_one_unreadable
    by (cases "ge_stmt (fitted migrated ChangeRole env) 0"; cases "ge_stmt (fitted migrated ChangeRole env) 1")
       (auto simp: change_member_role_def select_role_def select_def and_then_def unauthorized_act_def
         update_members_def decode_member_returned(2) simp del: fitted_stmt split: sum.split option.split)
qed (rule create_group_fails delete_group_fails vote_poll_fails)+


section \<open>No group ever exists\<close>

text \<open>The writing operations on a database with a schema, any statement failing besides.\<close>

inductive fitted_step :: "schema \<Rightarrow> group_db \<Rightarrow> group_db \<Rightarrow> bool" for sch where
  "fitted_step sch db (snd (create_group_with_members (fitted sch CreateGroup env) c db))"
| "fitted_step sch db (snd (invite_new_members (fitted sch InviteNew env) i db))"
| "fitted_step sch db (snd (remove_member (fitted sch RemoveMember env) g u ids db))"
| "fitted_step sch db (snd (update_group (fitted sch UpdateGroup env) v db))"
| "fitted_step sch db (snd (exit_group (fitted sch ExitGroup env) u g db))"
| "fitted_step sch db (snd (delete_group (fitted sch DeleteGroup env) g u db))"
| "fitted_step sch db (snd (update_group_settings (fitted sch UpdateSettings env) s db))"
| "fitted_step sch db (snd (update_member_settings (fitted sch UpdateMemberSettings env) g u level order db))"
| "fitted_step sch db (snd (create_group_category (fitted sch CreateCategory env) cq db))"
| "fitted_step sch db (snd (update_group_category (fitted sch UpdateCategory env) ct db))"
| "fitted_step sch db (snd (delete_group_category (fitted sch DeleteCategory env) x db))"
| "fitted_step sch db (snd (upload_group_file (fitted sch UploadFile env) fq db))"
| "fitted_step sch db (snd (delete_group_file (fitted sch DeleteFile env) x u db))"
| "fitted_step sch db (snd (update_file_pin_status (fitted sch PinFile env) x b db))"
| "fitted_step sch db (snd (create_poll (fitted sch CreatePoll env) pq db))"
| "fitted_step sch db (snd (vote_poll (fitted sch VotePoll env) vq db))"
| "fitted_step sch db (snd (close_poll (fitted sch ClosePoll env) x u db))"
| "fitted_step sch db (snd (mute_group_member (fitted sch MuteMember env) mq db))"
| "fitted_step sch db (snd (unmute_group_member (fitted sch UnmuteMember env) g u v' db))"
| "fitted_step sch db (snd (create_announcement (fitted sch CreateAnnouncement env) aq db))"
| "fitted_step sch db (snd (delete_announcement (fitted sch DeleteAnnouncement env) x u db))"
| "fitted_step sch db (snd (pin_announcement (fitted sch PinAnnouncement env) x b db))"
| "fitted_step sch db (snd (change_member_role (fitted sch ChangeRole env) g u target role db))"

definition groupless :: "group_db \<Rightarrow> bool" where
  "groupless db \<longleftrightarrow> gd_groups db = [] \<and> gd_members db = [] \<and> gd_files db = [] \<and> gd_polls db = []
     \<and> gd_mutes db = [] \<and> gd_announcements db = []"

lemma always_fails_same: "always_fails m \<Longrightarrow> snd (m s) = s"
  unfolding always_fails_def by (metis snd_conv)

lemmas groupless_ops = remove_member_def update_group_def exit_group_def
  update_member_settings_def create_group_category_def update_group_category_def delete_group_category_def
  upload_group_file_def delete_group_file_def update_file_pin_status_def create_poll_def close_poll_def
  mute_group_member_def unmute_group_member_def create_announcement_def delete_announcement_def
  pin_announcement_def change_member_role_def

lemmas groupless_rows = groupless_def delete_members_def update_groups_def update_members_def update_polls_def Let_def

text \<open>Rows of the other tables refer to a group or a member, and an invitation asks for the group.\<close>

lemma groupless_preserved:
  "preserves groupless (remove_member env g u ids)" "preserves groupless (update_group env v)"
  "preserves groupless (exit_group env u g)" "preserves groupless (update_member_settings env g u level order)"
  "preserves groupless (create_group_category env cq)" "preserves groupless (update_group_category env ct)"
  "preserves groupless (delete_group_category env x)" "preserves groupless (upload_group_file env fq)"
  "preserves groupless (delete_group_file env x u)" "preserves groupless (update_file_pin_status env x b)"
  "preserves groupless (create_poll env pq)" "preserves groupless (close_poll env x u)"
  "preserves groupless (mute_group_member env mq)" "preserves groupless (unmute_group_member env g u v')"
  "preserves groupless (create_announcement env aq)" "preserves groupless (delete_announcement env x u)"
  "preserves groupless (pin_announcement env x b)" "preserves groupless (change_member_role env g u target role)"
  unfolding groupless_ops unauthorized_act_def select_role_def
  by ((rule preserves_remote preserves_and_then preserves_if preserves_transaction preserves_select preserves_ok
      preserves_fail | rule preservesI, force simp: groupless_rows split: option.split)+)

lemma invite_groupless: "preserves groupless (invite_new_members env i)"
  by (rule preservesI, cases "ge_stmt env 0")
     (auto simp: invite_new_members_def and_then_def select_def may_invite_def groupless_def unauthorized_act_def)

lemma no_group_step: "fitted_step migrated db db' \<Longrightarrow> groupless db \<Longrightarrow> groupless db'"
proof (induction rule: fitted_step.induct)
  case (7 env s db) then show ?case using settings_stmt_refused by (simp add: update_group_settings_def)
qed (simp_all add: always_fails_same [OF create_group_fails]
    always_fails_same [OF delete_group_fails] always_fails_same [OF vote_poll_fails]
    groupless_preserved [THEN preservesD] invite_groupless [THEN preservesD])

text \<open>
  C15. With the migrated tables no group ever exists: from a database without groups, over any sequence
  of calls of the writing operations of the group repository, with any statement failing besides,
  there is never a group, a member, a file, a poll, a mute record or an announcement; only users
  and categories are there.
\<close>

theorem no_group_ever_exists:
  assumes "(fitted_step migrated)\<^sup>*\<^sup>* db db'" and "groupless db"
  shows "groupless db'"
  using assms by (induction rule: rtranclp_induct) (auto intro: no_group_step)


theorem no_group_ever_exists_witness:
  "groupless (snd (create_group_with_members (fitted migrated CreateGroup demo_genv) demo_create empty_group_db))"
  by (rule no_group_ever_exists
      [OF r_into_rtranclp [where r = "fitted_step migrated", OF fitted_step.intros(1)]])
     (simp add: groupless_def empty_group_db_def)

text \<open>
  The remaining rows are read as they are stored, but a poll loses its options: the column is JSON and
  is read as text, which falls back to no options.
\<close>

theorem polls_read_without_options:
  "read_poll migrated p = p\<lparr>pl_options := []\<rparr> \<and> read_category migrated c = c \<and> read_file migrated f = f
   \<and> read_mute migrated m = m \<and> read_announcement migrated a = a"
proof -
  have "row_readable migrated ''group_polls'' [(''id'', SqlText), (''group_id'', SqlText), (''creator_id'', SqlText),
      (''title'', SqlText), (''is_multiple'', SqlBool), (''is_anonymous'', SqlBool), (''created_at'', SqlInt8),
      (''expires_at'', SqlInt8), (''status'', SqlText)]" by code_simp
  moreover have "row_readable migrated ''group_categories'' [(''id'', SqlText), (''name'', SqlText),
      (''description'', SqlText), (''display_order'', SqlInt4), (''create_time'', SqlInt8), (''update_time'', SqlInt8)]"
    by code_simp
  moreover have "row_readable migrated ''group_files'' [(''id'', SqlText), (''group_id'', SqlText),
      (''uploader_id'', SqlText), (''file_name'', SqlText), (''file_url'', SqlText), (''file_size'', SqlInt8),
      (''file_type'', SqlText), (''upload_time'', SqlInt8), (''is_pinned'', SqlBool)]" by code_simp
  moreover have "row_readable migrated ''group_mute_records'' [(''id'', SqlText), (''group_id'', SqlText),
      (''user_id'', SqlText), (''operator_id'', SqlText), (''mute_until'', SqlInt8), (''reason'', SqlText),
      (''created_at'', SqlInt8)]" by code_simp
  moreover have "row_readable migrated ''group_announcements'' [(''id'', SqlText), (''group_id'', SqlText),
      (''creator_id'', SqlText), (''content'', SqlText), (''created_at'', SqlInt8), (''is_pinned'', SqlBool)]" by code_simp
  ultimately show ?thesis
    by (simp add: row_readable_def read_poll_def read_category_def read_file_def read_mute_def read_announcement_def
        read_or_def Let_def)
qed

end
