(* ===== verification/Migrations.thy ===== *)
theory Migrations
  imports Group_Schema User_Repo
begin

text \<open>
  The migrations (\<open>migrations/*.up.sql\<close>) as \<open>sqlx migrate run\<close> applies them: in the order of their
  versions, each in a transaction of its own, until one fails. Of a file only the types and tables
  it creates matter here; creating one that exists is an error. \<open>Schema.migrated\<close> is what the files
  describe; this theory says how far a run gets.
\<close>

section \<open>Files and their objects\<close>

datatype ddl = CreateType string | CreateTable string "(string \<times> sql_type \<times> bool) list"

record catalog =
  cg_types :: "string list"
  cg_tables :: schema

definition empty_catalog :: catalog where
  "empty_catalog = \<lparr>cg_types = [], cg_tables = []\<rparr>"

fun apply_ddl :: "ddl \<Rightarrow> catalog \<Rightarrow> catalog option" where
  "apply_ddl (CreateType n) c = (if n \<in> set (cg_types c) then None else Some (c\<lparr>cg_types := cg_types c @ [n]\<rparr>))"
| "apply_ddl (CreateTable n cols) c =
     (if n \<in> fst ` set (cg_tables c) then None else Some (c\<lparr>cg_tables := cg_tables c @ [(n, cols)]\<rparr>))"

fun apply_file :: "ddl list \<Rightarrow> catalog \<Rightarrow> catalog option" where
  "apply_file [] c = Some c"
| "apply_file (d # ds) c = (case apply_ddl d c of None \<Rightarrow> None | Some c' \<Rightarrow> apply_file ds c')"

text \<open>The versions applied, the catalog, and the version that failed.\<close>

fun run_migrations :: "(string \<times> ddl list) list \<Rightarrow> catalog \<Rightarrow> string list \<times> catalog \<times> string option" where
  "run_migrations [] c = ([], c, None)"
| "run_migrations ((v, ds) # ms) c =
     (case apply_file ds c of
        None \<Rightarrow> ([], c, Some v)
      | Some c' \<Rightarrow> (case run_migrations ms c' of (vs, c'', failed) \<Rightarrow> (v # vs, c'', failed)))"

definition friend_notes_table :: "(string \<times> sql_type \<times> bool) list" where
  "friend_notes_table =
     [(''user_id'', SqlText, True), (''friend_id'', SqlText, True), (''content'', SqlText, True),
      (''create_time'', SqlInt8, True), (''update_time'', SqlInt8, True), (''is_pinned'', SqlBool, False)]"

definition messages_table :: "(string \<times> sql_type \<times> bool) list" where
  "messages_table =
     [(''sender_id'', SqlText, True), (''receiver_id'', SqlText, True), (''client_id'', SqlText, True),
      (''server_id'', SqlText, True), (''send_time'', SqlInt8, True), (''msg_type'', SqlInt2, False),
      (''content_type'', SqlInt2, False), (''group_id'', SqlText, False), (''platform'', SqlInt2, False),
      (''content'', SqlBytes, True)]"

definition group_invitations_table :: "(string \<times> sql_type \<times> bool) list" where
  "group_invitations_table =
     [(''id'', SqlText, True), (''group_id'', SqlText, True), (''inviter_id'', SqlText, True),
      (''invitee_id'', SqlText, True), (''status'', SqlText, False), (''created_at'', SqlInt8, True),
      (''expires_at'', SqlInt8, False)]"

text \<open>The table of the second file that creates the members.\<close>

definition old_group_members_table :: "(string \<times> sql_type \<times> bool) list" where
  "old_group_members_table =
     [(''group_id'', SqlText, True), (''user_id'', SqlText, True), (''group_name'', SqlText, False),
      (''group_remark'', SqlText, False), (''role'', SqlRole, False), (''joined_at'', SqlInt8, True)]"

definition migrations :: "(string \<times> ddl list) list" where
  "migrations =
     [(''20240322014338'', [CreateTable ''users'' users_table]),
      (''20240322014354'', [CreateType ''friend_request_status'', CreateTable ''friendships'' friendships_table,
        CreateTable ''friend_groups'' friend_groups_table, CreateTable ''friends'' friends_table,
        CreateTable ''friend_tags'' friend_tags_table, CreateTable ''friend_tag_relations'' friend_tag_relations_table,
        CreateTable ''friend_interactions'' friend_interactions_table,
        CreateTable ''friend_privacy_settings'' friend_privacy_settings_table,
        CreateTable ''friend_notes'' friend_notes_table]),
      (''20240322014403'', []),
      (''20240322014412'', [CreateTable ''messages'' messages_table]),
      (''20240322014422'', [CreateType ''group_role'', CreateTable ''groups'' groups_table,
        CreateTable ''group_members'' group_members_table, CreateTable ''group_categories'' group_categories_table,
        CreateTable ''group_files'' group_files_table, CreateTable ''group_polls'' group_polls_table,
        CreateTable ''group_mute_records'' group_mute_records_table,
        CreateTable ''group_invitations'' group_invitations_table,
        CreateTable ''group_announcements'' group_announcements_table]),
      (''20240322014431'', [CreateType ''group_role'', CreateTable ''group_members'' old_group_members_table]),
      (''20240602023816'', [CreateTable ''sequence'' sequence_table])]"

definition installed :: schema where
  "installed = cg_tables (fst (snd (run_migrations migrations empty_catalog)))"

section \<open>How far a run gets\<close>

lemma installed_no_sequence: "map_of installed ''sequence'' = None"
  by code_simp

lemma sequence_refused: "\<not> stmt_accepted installed insert_sequence_stmt"
  by code_simp

lemma create_user_needs_sequence:
  assumes "\<not> stmt_accepted (ue_schema env) insert_sequence_stmt"
  shows "always_fails (create_user env n u)"
  unfolding create_user_def
  by (intro transaction_fails cannot_succeed_and_then(2) cannot_succeed_and_then(1))
     (simp add: assms cannot_succeed_def)

text \<open>
  C18. The migrations do not run to the end: two files create the type of roles and the table of
  members, so a run on an empty database applies five versions and stops at the second of these
  files; the last file, which creates the table of sequences, is never reached, and no user can be
  created in the database it leaves. Without the repeated file the run succeeds and leaves exactly
  the tables the other properties assume.
\<close>

theorem migrations_stop_halfway:
  assumes "ue_schema env = installed"
  shows "fst (run_migrations migrations empty_catalog) =
      [''20240322014338'', ''20240322014354'', ''20240322014403'', ''20240322014412'', ''20240322014422'']
    \<and> snd (snd (run_migrations migrations empty_catalog)) = Some ''20240322014431''
    \<and> map_of installed ''sequence'' = None \<and> always_fails (create_user env n u)
    \<and> snd (snd (run_migrations (filter (\<lambda>m. fst m \<noteq> ''20240322014431'') migrations) empty_catalog)) = None
    \<and> list_all (\<lambda>(t, cols). map_of (cg_tables (fst (snd (run_migrations
          (filter (\<lambda>m. fst m \<noteq> ''20240322014431'') migrations) empty_catalog)))) t = Some cols) migrated"
proof (intro conjI)
  show "always_fails (create_user env n u)"
    by (rule create_user_needs_sequence) (simp add: assms sequence_refused)
qed (code_simp | rule installed_no_sequence)+

theorem migrations_stop_halfway_witness:
  "always_fails (create_user (demo_user_env\<lparr>ue_schema := installed\<rparr>) 0 (demo_user ''a''))"
  using migrations_stop_halfway [of "demo_user_env\<lparr>ue_schema := installed\<rparr>" 0 "demo_user ''a''"] by simp

end
