(* ===== verification/Config.thy ===== *)
theory Config
  imports Sharded_Box "HOL-Library.Word"
begin

text \<open>
  The configuration (\<open>abi/src/config.rs\<close>): its structures and the addresses it computes from them.
  Reading the file and YAML are parameters of \<open>config_load\<close>.
\<close>

section \<open>Structures\<close>

datatype Component = Api | MessageServer | MessageGateway | AllComponents

record LogConfig =
  log_level :: string
  log_output :: string

record MailConfig =
  mail_server :: string
  mail_account :: string
  mail_password :: string
  mail_temp_path :: string
  mail_temp_file :: string

record OssConfig =
  oss_endpoint :: string
  oss_access_key :: string
  oss_secret_key :: string
  oss_bucket :: string
  oss_avatar_bucket :: string
  oss_region :: string

record ServiceCenterConfig =
  sc_host :: string
  sc_port :: "16 word"
  sc_protocol :: string
  sc_timeout :: "64 word"

record PostgresConfig =
  pg_host :: string
  pg_port :: "16 word"
  pg_user :: string
  pg_password :: string
  pg_database :: string
  pg_max_connections :: "32 word"

record CleanReceiveBox =
  clean_period :: int
  clean_except_types :: "string list"

record MongoDbConfig =
  mg_host :: string
  mg_port :: "16 word"
  mg_user :: string
  mg_password :: string
  mg_database :: string
  mg_clean :: CleanReceiveBox
  mg_use_sharding :: "bool option"
  mg_user_shards :: "32 word option"

record DbConfig =
  db_postgres :: PostgresConfig
  db_mongodb :: MongoDbConfig
  db_xdb :: string

record GrpcHealthCheck =
  ghc_grpc_use_tls :: bool
  ghc_interval :: "16 word"

record RpcServerConfig =
  rs_protocol :: string
  rs_host :: string
  rs_port :: "16 word"
  rs_name :: string
  rs_tags :: "string list"
  rs_grpc_health_check :: GrpcHealthCheck

record RpcConfig =
  rpc_health_check :: bool
  rpc_ws :: RpcServerConfig
  rpc_chat :: RpcServerConfig
  rpc_db :: RpcServerConfig
  rpc_pusher :: RpcServerConfig

record HostPort =
  hp_host :: string
  hp_port :: "16 word"

type_synonym PusherRpcServerConfig = HostPort
type_synonym ChatRpcServerConfig = HostPort

record WsServerConfig =
  ws_protocol :: string
  ws_host :: string
  ws_port :: "16 word"
  ws_name :: string
  ws_tags :: "string list"

record RedisConfig =
  rd_host :: string
  rd_port :: "16 word"
  rd_seq_step :: int

record KafkaProducer =
  kp_timeout :: "16 word"
  kp_acks :: string
  kp_max_retry :: "8 word"
  kp_retry_interval :: "16 word"

record KafkaConsumer =
  kc_session_timeout :: "16 word"
  kc_auto_offset_reset :: string

record KafkaConfig =
  kf_hosts :: "string list"
  kf_topic :: string
  kf_connect_timeout :: "16 word"
  kf_group :: string
  kf_producer :: KafkaProducer
  kf_consumer :: KafkaConsumer

record OAuth2Item =
  oa_client_id :: string
  oa_client_secret :: string
  oa_redirect_url :: string
  oa_auth_url :: string
  oa_token_url :: string
  oa_user_info_url :: string
  oa_email_url :: string

record OAuth2 =
  oa_google :: OAuth2Item
  oa_github :: OAuth2Item

record ServerConfig =
  sv_host :: string
  sv_port :: "16 word"
  sv_jwt_secret :: string
  sv_ws_lb_strategy :: string
  sv_oauth2 :: OAuth2

record Config =
  cf_component :: Component
  cf_db :: DbConfig
  cf_server :: ServerConfig
  cf_kafka :: KafkaConfig
  cf_redis :: RedisConfig
  cf_rpc :: RpcConfig
  cf_websocket :: WsServerConfig
  cf_service_center :: ServiceCenterConfig
  cf_oss :: OssConfig
  cf_mail :: MailConfig
  cf_log :: LogConfig

section \<open>Functions\<close>

datatype Level = TRACE | DEBUG | INFO | WARN | ERROR

definition log_config_level :: "LogConfig \<Rightarrow> Level" where
  "log_config_level c =
     (if log_level c = ''trace'' then TRACE
      else if log_level c = ''debug'' then DEBUG
      else if log_level c = ''info'' then INFO
      else if log_level c = ''warn'' then WARN
      else if log_level c = ''error'' then ERROR
      else INFO)"

definition show_port :: "16 word \<Rightarrow> string" where
  "show_port p = show_nat (unat p)"

text \<open>\<open>format!("{}:{}", host, port)\<close>.\<close>

definition host_port :: "string \<Rightarrow> 16 word \<Rightarrow> string" where
  "host_port h p = h @ '':'' @ show_port p"

definition url :: "bool \<Rightarrow> string \<Rightarrow> 16 word \<Rightarrow> string" where
  "url https host port =
     (if https then ''https://'' @ host_port host port else ''http://'' @ host_port host port)"

definition ws_rpc_server_url :: "WsServerConfig \<Rightarrow> string" where
  "ws_rpc_server_url c = host_port (ws_host c) (ws_port c)"

definition ws_config_url :: "WsServerConfig \<Rightarrow> bool \<Rightarrow> string" where
  "ws_config_url c https = url https (ws_host c) (ws_port c)"

definition ws_url :: "WsServerConfig \<Rightarrow> bool \<Rightarrow> string" where
  "ws_url c https =
     (if https then ''wss://'' @ host_port (ws_host c) (ws_port c)
      else ''ws://'' @ host_port (ws_host c) (ws_port c))"

definition pusher_rpc_server_url :: "PusherRpcServerConfig \<Rightarrow> string" where
  "pusher_rpc_server_url c = host_port (hp_host c) (hp_port c)"

definition pusher_url :: "PusherRpcServerConfig \<Rightarrow> bool \<Rightarrow> string" where
  "pusher_url c https = url https (hp_host c) (hp_port c)"

definition rpc_server_url :: "RpcServerConfig \<Rightarrow> string" where
  "rpc_server_url c = host_port (rs_host c) (rs_port c)"

definition rpc_url :: "RpcServerConfig \<Rightarrow> bool \<Rightarrow> string" where
  "rpc_url c https = url https (rs_host c) (rs_port c)"

definition chat_rpc_server_url :: "ChatRpcServerConfig \<Rightarrow> string" where
  "chat_rpc_server_url c = host_port (hp_host c) (hp_port c)"

definition chat_url :: "ChatRpcServerConfig \<Rightarrow> bool \<Rightarrow> string" where
  "chat_url c https = url https (hp_host c) (hp_port c)"

definition redis_url :: "RedisConfig \<Rightarrow> string" where
  "redis_url c = ''redis://'' @ host_port (rd_host c) (rd_port c)"

definition default_conn :: "32 word" where
  "default_conn = 5"

definition pg_server_url :: "PostgresConfig \<Rightarrow> string" where
  "pg_server_url c =
     (if pg_password c = '''' then ''postgres://'' @ pg_user c @ ''@'' @ host_port (pg_host c) (pg_port c)
      else ''postgres://'' @ pg_user c @ '':'' @ pg_password c @ ''@'' @ host_port (pg_host c) (pg_port c))"

definition pg_url :: "PostgresConfig \<Rightarrow> string" where
  "pg_url c = pg_server_url c @ ''/'' @ pg_database c"

definition mg_server_url :: "MongoDbConfig \<Rightarrow> string" where
  "mg_server_url c =
     (if mg_user c = '''' then ''mongodb://'' @ host_port (mg_host c) (mg_port c)
      else if mg_password c = '''' then ''mongodb://'' @ mg_user c @ ''@'' @ host_port (mg_host c) (mg_port c)
      else ''mongodb://'' @ mg_user c @ '':'' @ mg_password c @ ''@'' @ host_port (mg_host c) (mg_port c))"

definition mg_url :: "MongoDbConfig \<Rightarrow> string" where
  "mg_url c = mg_server_url c @ ''/'' @ mg_database c"

definition server_url :: "ServerConfig \<Rightarrow> bool \<Rightarrow> string" where
  "server_url c https = url https (sv_host c) (sv_port c)"

definition server_server_url :: "ServerConfig \<Rightarrow> string" where
  "server_server_url c = host_port (sv_host c) (sv_port c)"

definition with_port :: "ServerConfig \<Rightarrow> 16 word \<Rightarrow> ServerConfig" where
  "with_port c port = \<lparr>sv_host = sv_host c, sv_port = port, sv_jwt_secret = sv_jwt_secret c,
     sv_ws_lb_strategy = sv_ws_lb_strategy c, sv_oauth2 = sv_oauth2 c\<rparr>"

definition config_load ::
  "(string \<Rightarrow> string + string) \<Rightarrow> (string \<Rightarrow> string + Config) \<Rightarrow> string \<Rightarrow> Config res" where
  "config_load read yaml filename =
     (case read filename of
        Inl e \<Rightarrow> Inl (Failed (error_new IOError e e))
      | Inr text \<Rightarrow>
          (case yaml text of
             Inl e \<Rightarrow> Inl (Failed (error_new ConfigParseError e e))
           | Inr c \<Rightarrow> Inr c))"

section \<open>Reading an address back\<close>

lemma cut_at:
  "x \<notin> set a \<Longrightarrow> x \<notin> set b \<Longrightarrow> a @ x # s = b @ x # t \<longleftrightarrow> a = b \<and> s = t"
  by (induction a arbitrary: b; case_tac b) auto

lemma show_nat_digits: "c \<in> set (show_nat n) \<Longrightarrow> 48 \<le> (of_char c :: nat) \<and> (of_char c :: nat) < 58"
proof (induction n rule: show_nat.induct)
  case (1 n)
  show ?case
  proof (cases "n < 10")
    case True
    with 1 show ?thesis by (subst (asm) show_nat.simps) simp
  next
    case False
    with 1 have "c \<in> set (show_nat (n div 10)) \<or> c = char_of (48 + n mod 10)"
      by (subst (asm) (2) show_nat.simps) auto
    with 1 False show ?thesis by auto
  qed
qed

lemma show_port_chars: "CHR ''/'' \<notin> set (show_port p)" "CHR ''@'' \<notin> set (show_port p)" "CHR '':'' \<notin> set (show_port p)"
  using show_nat_digits [of "CHR ''/''"] show_nat_digits [of "CHR ''@''"] show_nat_digits [of "CHR '':''"]
  by (auto simp: show_port_def)

lemma show_port_inj: "show_port p = show_port q \<longleftrightarrow> p = q"
  using show_nat_inj [of "unat p" "unat q"] by (auto simp: show_port_def unsigned_word_eqI)

text \<open>A text none of the separators of an address occurs in.\<close>

definition plain :: "string \<Rightarrow> bool" where
  "plain s \<longleftrightarrow> CHR '':'' \<notin> set s \<and> CHR ''@'' \<notin> set s \<and> CHR ''/'' \<notin> set s"

lemma host_port_cut:
  assumes "plain h" and "plain k"
  shows "host_port h p @ CHR ''/'' # s = host_port k q @ CHR ''/'' # t \<longleftrightarrow> h = k \<and> p = q \<and> s = t"
proof -
  have "host_port h p @ CHR ''/'' # s = h @ CHR '':'' # (show_port p @ CHR ''/'' # s)" for h p s
    by (simp add: host_port_def)
  then show ?thesis
    using assms by (simp add: cut_at plain_def show_port_chars show_port_inj)
qed

definition pg_plain :: "PostgresConfig \<Rightarrow> bool" where
  "pg_plain c \<longleftrightarrow> plain (pg_user c) \<and> plain (pg_password c) \<and> plain (pg_host c)"

text \<open>
  The database address identifies the database: as long as neither user, password nor host
  contain one of the separators, two configurations with the same address have the same user,
  password, host, port and database. Nothing is escaped, so without that condition the address is
  ambiguous: a user whose name contains the separator and an empty password give the address of
  another user with a password.
\<close>

theorem pg_url_identifies:
  assumes "pg_plain c" and "pg_plain d"
  shows "(pg_url c = pg_url d \<longleftrightarrow> pg_user c = pg_user d \<and> pg_password c = pg_password d
      \<and> pg_host c = pg_host d \<and> pg_port c = pg_port d \<and> pg_database c = pg_database d)
    \<and> (pg_password c \<noteq> '''' \<longrightarrow>
        pg_url c = pg_url (c\<lparr>pg_user := pg_user c @ '':'' @ pg_password c, pg_password := ''''\<rparr>))"
proof -
  have url: "pg_url c = ''postgres://'' @ (if pg_password c = '''' then pg_user c else pg_user c @ '':'' @ pg_password c)
      @ CHR ''@'' # host_port (pg_host c) (pg_port c) @ CHR ''/'' # pg_database c" for c
    by (simp add: pg_url_def pg_server_url_def)
  have cred: "(if p = '''' then u else u @ '':'' @ p) = (if p' = '''' then u' else u' @ '':'' @ p') \<longleftrightarrow> u = u' \<and> p = p'"
    if "plain u" "plain p" "plain u'" "plain p'" for u p u' p'
    using that cut_at [of "CHR '':''" u u'] by (auto simp: plain_def)
  have "CHR ''@'' \<notin> set (if pg_password c = '''' then pg_user c else pg_user c @ '':'' @ pg_password c)" if "pg_plain c" for c
    using that by (simp add: pg_plain_def plain_def)
  note at = cut_at [OF this this]
  have "pg_url c = pg_url d \<longleftrightarrow> pg_user c = pg_user d \<and> pg_password c = pg_password d
      \<and> pg_host c = pg_host d \<and> pg_port c = pg_port d \<and> pg_database c = pg_database d"
    unfolding url same_append_eq at [OF assms] using assms
    by (subst cred) (auto simp: pg_plain_def host_port_cut)
  then show ?thesis by (auto simp: url)
qed

theorem pg_url_identifies_witness:
  "let c = \<lparr>pg_host = ''db'', pg_port = 5432, pg_user = ''u'', pg_password = ''p'', pg_database = ''im'',
      pg_max_connections = default_conn\<rparr>
   in pg_url c \<noteq> pg_url (c\<lparr>pg_host := ''other''\<rparr>)
      \<and> pg_url c = pg_url (c\<lparr>pg_user := ''u:p'', pg_password := ''''\<rparr>)"
  using pg_url_identifies [of "\<lparr>pg_host = ''db'', pg_port = 5432, pg_user = ''u'', pg_password = ''p'',
      pg_database = ''im'', pg_max_connections = default_conn\<rparr>"
      "\<lparr>pg_host = ''other'', pg_port = 5432, pg_user = ''u'', pg_password = ''p'',
      pg_database = ''im'', pg_max_connections = default_conn\<rparr>"]
  by (auto simp: pg_plain_def plain_def)

end
