(* ===== verification/Migrate.thy ===== *)
theory Migrate
  imports Sharded_Box Config
begin

text \<open>
  Which receive box a configuration selects (\<open>db/src/lib.rs\<close>) and the command that moves the messages of
  the unsharded box into the sharded one (\<open>cmd/src/migrate.rs\<close>). The batches run as tasks of their own;
  they only append documents, and the model runs them one after the other.
\<close>

section \<open>Selecting a box\<close>

datatype box_choice = ShardedBox nat | LegacyBox

text \<open>\<open>user_shards.unwrap_or(10) as u8\<close> keeps the low eight bits.\<close>

definition shard_count :: "Config \<Rightarrow> nat" where
  "shard_count c = unat (ucast (unwrap_or 10 (mg_user_shards (db_mongodb (cf_db c)))) :: 8 word)"

definition msg_rec_box_repo :: "Config \<Rightarrow> box_choice" where
  "msg_rec_box_repo c =
     (case mg_use_sharding (db_mongodb (cf_db c)) of
        Some True \<Rightarrow> ShardedBox (shard_count c)
      | _ \<Rightarrow> LegacyBox)"

definition msg_rec_box_cleaner :: "Config \<Rightarrow> box_choice" where
  "msg_rec_box_cleaner c =
     (case mg_use_sharding (db_mongodb (cf_db c)) of
        Some True \<Rightarrow> ShardedBox (shard_count c)
      | _ \<Rightarrow> LegacyBox)"

text \<open>The arguments \<open>clean_receive_box\<close> starts the cleaner with; names of no message type are skipped.\<close>

definition clean_receive_box :: "Config \<Rightarrow> box_choice \<times> int \<times> int list" where
  "clean_receive_box c =
     (let clean = mg_clean (db_mongodb (cf_db c)) in
      (msg_rec_box_cleaner c, clean_period clean,
       map msg_type_code (List.map_filter from_str_name (clean_except_types clean))))"

section \<open>The migrator\<close>

text \<open>\<open>process_batch\<close>: a save that fails is logged, a panic ends the task.\<close>

fun process_batch :: "(Msg \<Rightarrow> ('s, unit) act) \<Rightarrow> Document list \<Rightarrow> ('s, unit) act" where
  "process_batch save [] = ok ()"
| "process_batch save (d # ds) = (\<lambda>s.
     case save (msg_of_doc d) s of
       (Inl (Panicked p), t) \<Rightarrow> (Inl (Panicked p), t)
     | (_, t) \<Rightarrow> process_batch save ds t)"

text \<open>The loop over the cursor: the full batches, and the batch that is still being filled.\<close>

fun fill :: "nat \<Rightarrow> Document list \<Rightarrow> Document list \<Rightarrow> Document list list \<times> Document list" where
  "fill n batch [] = ([], batch)"
| "fill n batch (d # ds) =
     (if n \<le> length (batch @ [d])
      then (case fill n [] ds of (full, rest) \<Rightarrow> ((batch @ [d]) # full, rest))
      else fill n (batch @ [d]) ds)"

text \<open>\<open>for task in tasks { task.await? .. }\<close>: every task runs, the first that panicked is the answer.\<close>

fun run_tasks :: "(Msg \<Rightarrow> ('s, unit) act) \<Rightarrow> Document list list \<Rightarrow> ('s, unit) act" where
  "run_tasks save [] = ok ()"
| "run_tasks save (b # bs) = (\<lambda>s.
     case process_batch save b s of
       (r, t) \<Rightarrow> (case run_tasks save bs t of
         (r', t') \<Rightarrow> (case r of Inl e \<Rightarrow> Inl e | Inr _ \<Rightarrow> r', t')))"

text \<open>The outcomes of counting and of opening the cursor; the documents the cursor yields, and the
  error it ends with. After such an error the tasks already started run on and the rest is dropped.\<close>

record cursor =
  cu_count :: "failure option"
  cu_find :: "failure option"
  cu_docs :: "Document list"
  cu_error :: "failure option"

definition migrate :: "(Msg \<Rightarrow> ('s, unit) act) \<Rightarrow> nat \<Rightarrow> cursor \<Rightarrow> ('s, unit) act" where
  "migrate save bsize cu =
     remote (cu_count cu) (remote (cu_find cu) (\<lambda>s.
       case fill bsize [] (cu_docs cu) of
         (full, rest) \<Rightarrow>
           (case cu_error cu of
              Some e \<Rightarrow> (Inl e, snd (run_tasks save full s))
            | None \<Rightarrow> run_tasks save (if rest = [] then full else full @ [rest]) s)))"

text \<open>\<open>run_migration\<close> fills in what the configuration leaves open.\<close>

definition sharding_config :: "Config \<Rightarrow> Config" where
  "sharding_config c =
     (let mg = db_mongodb (cf_db c);
          mg = (if mg_use_sharding mg = None then mg\<lparr>mg_use_sharding := Some True\<rparr> else mg);
          mg = (if mg_user_shards mg = None then mg\<lparr>mg_user_shards := Some 10\<rparr> else mg)
      in c\<lparr>cf_db := (cf_db c)\<lparr>db_mongodb := mg\<rparr>\<rparr>)"

record boxes =
  bx_legacy :: collection
  bx_sharded :: shard_box

text \<open>Making the sharded box initialises its collections; a failure is logged.\<close>

definition run_migration :: "shard_env \<Rightarrow> failure option \<Rightarrow> Config \<Rightarrow> cursor \<Rightarrow> (boxes, unit) act" where
  "run_migration env outage config cu =
     (case msg_rec_box_repo (sharding_config config) of
        ShardedBox n \<Rightarrow>
          (let e = env\<lparr>se_shards := n\<rparr> in
           on_part bx_sharded (\<lambda>b w. w\<lparr>bx_sharded := b\<rparr>) (\<lambda>b.
             migrate (shard_save_message e) 500 cu (snd (initialize_system e b))))
      | LegacyBox \<Rightarrow>
          on_part bx_legacy (\<lambda>b w. w\<lparr>bx_legacy := b\<rparr>) (migrate (box_save_message outage) 500 cu))"

section \<open>Batches\<close>

lemma fill_all: "fill n batch ds = (full, rest) \<Longrightarrow> concat full @ rest = batch @ ds"
  by (induction n batch ds arbitrary: full rest rule: fill.induct) (auto split: if_splits prod.splits)

lemma process_batch_append:
  "process_batch save (xs @ ys) = and_then (process_batch save xs) (\<lambda>_. process_batch save ys)"
  by (induction xs) (auto simp: fun_eq_iff and_then_def split: prod.splits sum.splits failure.splits)

definition no_panic :: "(Msg \<Rightarrow> ('s, unit) act) \<Rightarrow> bool" where
  "no_panic save \<longleftrightarrow> (\<forall>m s p. fst (save m s) \<noteq> Inl (Panicked p))"

lemma process_batch_no_panic: "no_panic save \<Longrightarrow> fst (process_batch save ds s) = Inr ()"
proof (induction ds arbitrary: s)
  case (Cons d ds)
  obtain r t where r: "save (msg_of_doc d) s = (r, t)" by force
  then have "r \<noteq> Inl (Panicked p)" for p
    using Cons.prems unfolding no_panic_def by (metis fst_conv)
  with Cons r show ?case by (auto split: sum.split failure.split)
qed simp

lemma run_tasks_concat:
  assumes "no_panic save"
  shows "run_tasks save bs s = process_batch save (concat bs) s"
proof (induction bs arbitrary: s)
  case (Cons b bs)
  then show ?case
    using process_batch_no_panic [OF assms, of b s]
    by (auto simp: process_batch_append and_then_def split: prod.split sum.split)
qed simp

text \<open>The batches do not matter: the migration saves the documents one by one.\<close>

lemma migrate_one_by_one:
  assumes "no_panic save" and "cu_count cu = None" and "cu_find cu = None" and "cu_error cu = None"
  shows "migrate save n cu s = process_batch save (cu_docs cu) s"
proof -
  obtain full rest where f: "fill n [] (cu_docs cu) = (full, rest)" by force
  with fill_all [OF f] assms show ?thesis
    by (auto simp: migrate_def run_tasks_concat)
qed

lemma no_panic_box: "(\<And>p. outage \<noteq> Some (Panicked p)) \<Longrightarrow> no_panic (box_save_message outage)"
  by (cases outage) (auto simp: no_panic_def box_save_message_def)

lemma no_panic_shard:
  assumes "se_shards env \<noteq> 0"
    and "\<And>c p. se_index env c \<noteq> Some (Panicked p)" and "\<And>c p. se_query env c \<noteq> Some (Panicked p)"
  shows "no_panic (shard_save_message env)"
  unfolding no_panic_def
proof (intro allI notI)
  fix m s p
  assume "fst (shard_save_message env m s) = Inl (Panicked p)"
  then show False
    using assms
    by (cases "se_index env (get_collection_name env (send_time m) (se_hash env (receiver_id m) mod se_shards env))";
        cases "se_query env (get_collection_name env (send_time m) (se_hash env (receiver_id m) mod se_shards env))")
       (auto simp: shard_save_message_def get_user_range_def Let_def and_then_def get_collection_def
          ensure_collection_indexed_def insert_one_def mongo_error_def split: if_splits prod.splits)
qed

section \<open>What arrives\<close>

lemma box_batch: "process_batch (box_save_message None) ds b = (Inr (), b @ map (\<lambda>d. to_doc (msg_of_doc d)) ds)"
  by (induction ds arbitrary: b) (simp_all add: box_save_message_def)

definition msg_key :: "Msg \<Rightarrow> string \<times> string" where
  "msg_key m = (server_id m, receiver_id m)"

definition shard_keys :: "shard_box \<Rightarrow> (string \<times> string) set" where
  "shard_keys s = msg_key ` set (msgs_of (map snd (sb_docs s)))"

lemma shard_batch:
  assumes "env_up env" and "se_shards env \<noteq> 0" and "shard_ok s"
    and "distinct (map msg_key (msgs_of ds))" and "msg_key ` set (msgs_of ds) \<inter> shard_keys s = {}"
  shows "\<exists>t. process_batch (shard_save_message env) ds s = (Inr (), t) \<and> shard_ok t
    \<and> sb_docs t = sb_docs s @ map (\<lambda>d. (get_collection_name env (send_time (msg_of_doc d))
        (se_hash env (receiver_id (msg_of_doc d)) mod se_shards env), to_doc (msg_of_doc d))) ds"
  using assms(3-)
proof (induction ds arbitrary: s)
  case (Cons d ds)
  define m where "m = msg_of_doc d"
  have range: "get_user_range env (receiver_id m) = Inr (se_hash env (receiver_id m) mod se_shards env)"
    using assms(2) by (simp add: get_user_range_def)
  have "(server_id m, receiver_id m) \<notin> (\<lambda>x. (server_id x, receiver_id x)) ` set (msgs_of (map snd (sb_docs s)))"
    using Cons.prems(3) by (auto simp: shard_keys_def msg_key_def [abs_def] msgs_of_def m_def)
  then obtain s1 where s1: "shard_save_message env m s = (Inr (), s1)"
      "sb_docs s1 = sb_docs s @ [(get_collection_name env (send_time m)
        (se_hash env (receiver_id m) mod se_shards env), to_doc m)]"
    using shard_save_message_fresh [OF assms(1) range Cons.prems(1)] by blast
  have "shard_ok s1" using Cons.prems(1) s1(2) by (simp add: shard_ok_def)
  moreover have "msg_key ` set (msgs_of ds) \<inter> shard_keys s1 = {}"
    using Cons.prems(2,3) s1(2) by (auto simp: shard_keys_def msgs_of_def m_def msg_key_def stored_view_def)
  ultimately obtain t where "process_batch (shard_save_message env) ds s1 = (Inr (), t)" "shard_ok t"
      "sb_docs t = sb_docs s1 @ map (\<lambda>d. (get_collection_name env (send_time (msg_of_doc d))
        (se_hash env (receiver_id (msg_of_doc d)) mod se_shards env), to_doc (msg_of_doc d))) ds"
    using Cons.IH [of s1] Cons.prems(2) by (auto simp: msgs_of_def)
  with s1 show ?case by (simp add: m_def)
qed simp

lemma initialize_docs [simp]: "sb_docs (snd (initialize_system env s)) = sb_docs s"
proof -
  have "sb_docs (snd (init_loop env cs s)) = sb_docs s" for cs
  proof (induction cs arbitrary: s)
    case (Cons a cs)
    then show ?case
      by (cases "se_index env a") (simp_all add: and_then_def ensure_collection_indexed_def)
  qed simp
  then show ?thesis by (simp add: initialize_system_def)
qed

lemma sharding_choice:
  "mg_use_sharding (db_mongodb (cf_db c)) \<noteq> Some False \<Longrightarrow>
     msg_rec_box_repo (sharding_config c) = ShardedBox (shard_count (sharding_config c))"
  by (auto simp: msg_rec_box_repo_def sharding_config_def Let_def shard_count_def split: option.split bool.split)

lemma legacy_choice:
  "mg_use_sharding (db_mongodb (cf_db c)) = Some False \<Longrightarrow> msg_rec_box_repo (sharding_config c) = LegacyBox"
  by (simp add: msg_rec_box_repo_def sharding_config_def Let_def)

definition whole_cursor :: "collection \<Rightarrow> cursor" where
  "whole_cursor ds = \<lparr>cu_count = None, cu_find = None, cu_docs = ds, cu_error = None\<rparr>"

lemma whole_cursor_sel [simp]:
  "cu_count (whole_cursor ds) = None" "cu_find (whole_cursor ds) = None" "cu_docs (whole_cursor ds) = ds"
  "cu_error (whole_cursor ds) = None"
  by (simp_all add: whole_cursor_def)

lemma env_up_shards [simp]: "env_up (env\<lparr>se_shards := n\<rparr>) = env_up env"
  by (simp add: env_up_def)

lemma no_panic_env_up: "env_up env \<Longrightarrow> se_shards env \<noteq> 0 \<Longrightarrow> no_panic (shard_save_message env)"
  by (rule no_panic_shard) (simp_all add: env_up_def)

text \<open>The migration into the sharded box, with everything up.\<close>

lemma map_map_snd: "map snd (map (\<lambda>d. (f d, g d)) ds) = map g ds"
  by simp

lemma sharded_migration:
  assumes "mg_use_sharding (db_mongodb (cf_db c)) \<noteq> Some False" and "shard_count (sharding_config c) \<noteq> 0"
    and "env_up env" and "shard_ok (bx_sharded w)" and "distinct (map msg_key (msgs_of (bx_legacy w)))"
    and "msg_key ` set (msgs_of (bx_legacy w)) \<inter> shard_keys (bx_sharded w) = {}"
    and e: "e = env\<lparr>se_shards := shard_count (sharding_config c)\<rparr>"
  shows "\<exists>t. run_migration env outage c (whole_cursor (bx_legacy w)) w = (Inr (), w\<lparr>bx_sharded := t\<rparr>)
    \<and> process_batch (shard_save_message e) (bx_legacy w) (snd (initialize_system e (bx_sharded w))) = (Inr (), t)
    \<and> shard_ok t \<and> sb_docs t = sb_docs (bx_sharded w) @ map (\<lambda>d. (get_collection_name e (send_time (msg_of_doc d))
        (se_hash e (receiver_id (msg_of_doc d)) mod se_shards e), to_doc (msg_of_doc d))) (bx_legacy w)"
proof -
  define b where "b = snd (initialize_system e (bx_sharded w))"
  have "shard_ok b" "shard_keys b = shard_keys (bx_sharded w)"
    using assms(4) by (simp_all add: b_def shard_ok_def shard_keys_def)
  moreover have "env_up e" "se_shards e \<noteq> 0" using assms(2,3) e by simp_all
  ultimately obtain t where t: "process_batch (shard_save_message e) (bx_legacy w) b = (Inr (), t)" "shard_ok t"
      "sb_docs t = sb_docs b @ map (\<lambda>d. (get_collection_name e (send_time (msg_of_doc d))
        (se_hash e (receiver_id (msg_of_doc d)) mod se_shards e), to_doc (msg_of_doc d))) (bx_legacy w)"
    using shard_batch [of e b "bx_legacy w"] assms(5,6) by auto
  then have "migrate (shard_save_message e) 500 (whole_cursor (bx_legacy w)) b = (Inr (), t)"
    using migrate_one_by_one [OF no_panic_env_up [OF \<open>env_up e\<close> \<open>se_shards e \<noteq> 0\<close>]] by simp
  with t show ?thesis
    by (auto simp: run_migration_def sharding_choice [OF assms(1)] on_part_def b_def e Let_def)
qed

section \<open>Properties\<close>

text \<open>
  C16. The migration copies every message when the configuration does not switch sharding off: with \<open>use_sharding\<close>
  unset or true, a shard count that is not a multiple of 256 (the count is taken modulo 256), the databases up, no
  server id twice for a receiver and none of these messages in the target already, each message of the unsharded box is
  added exactly once to the inbox of its receiver in the sharded box, whatever the batches, and the
  unsharded box stays as it is. With \<open>use_sharding\<close> false the command copies the box into itself instead
  (\<open>migration_into_itself_duplicates\<close>).
\<close>

theorem migration_copies_every_message:
  assumes "mg_use_sharding (db_mongodb (cf_db c)) \<noteq> Some False" and "shard_count (sharding_config c) \<noteq> 0"
    and "env_up env" and "shard_ok (bx_sharded w)" and "box_ok (bx_legacy w)"
    and "distinct (map msg_key (msgs_of (bx_legacy w)))"
    and "msg_key ` set (msgs_of (bx_legacy w)) \<inter> shard_keys (bx_sharded w) = {}"
  shows "\<exists>w'. run_migration env outage c (whole_cursor (bx_legacy w)) w = (Inr (), w') \<and> bx_legacy w' = bx_legacy w
    \<and> shard_ok (bx_sharded w')
    \<and> (\<forall>u. inbox_of u (shard_inbox (bx_sharded w')) =
           inbox_of u (shard_inbox (bx_sharded w)) + inbox_of u (mset (msgs_of (bx_legacy w))))"
proof -
  have same: "map (\<lambda>d. to_doc (msg_of_doc d)) (bx_legacy w) = bx_legacy w"
    using assms(5) by (auto simp: box_ok_def list_all_iff intro!: map_idI)
  obtain t e where t: "run_migration env outage c (whole_cursor (bx_legacy w)) w = (Inr (), w\<lparr>bx_sharded := t\<rparr>)"
      "shard_ok t" "sb_docs t = sb_docs (bx_sharded w) @ map (\<lambda>d. (get_collection_name e (send_time (msg_of_doc d))
        (se_hash e (receiver_id (msg_of_doc d)) mod se_shards e), to_doc (msg_of_doc d))) (bx_legacy w)"
    using sharded_migration [OF assms(1-4,6,7) refl] by blast
  have "map snd (sb_docs t) = map snd (sb_docs (bx_sharded w)) @ bx_legacy w"
    unfolding t(3) map_append map_map_snd same by (rule refl)
  with t(1,2) show ?thesis
    by (intro exI [of _ "w\<lparr>bx_sharded := t\<rparr>"]) (simp add: shard_inbox_def msgs_of_def)
qed

text \<open>
  C17. The migrated messages cannot be pulled: the producer stamps messages in milliseconds, so the
  collections they are migrated to are named after months in the far future. When all stamps lie in
  the year before the migration, no user's pull of the sharded box answers anything else than before.
\<close>

theorem migrated_messages_not_pulled:
  assumes "mg_use_sharding (db_mongodb (cf_db c)) \<noteq> Some False"
    and e: "e = env\<lparr>se_shards := shard_count (sharding_config c)\<rparr>" and "shard_count (sharding_config c) \<noteq> 0"
    and "env_up env" and "shard_ok (bx_sharded w)" and "distinct (map msg_key (msgs_of (bx_legacy w)))"
    and "msg_key ` set (msgs_of (bx_legacy w)) \<inter> shard_keys (bx_sharded w) = {}"
    and ym: "\<And>a b. 0 \<le> a \<Longrightarrow> 0 \<le> b \<Longrightarrow> se_ym env a = se_ym env b \<Longrightarrow> \<bar>a - b\<bar> < 31 * 86400"
    and sub: "\<And>k t. se_sub_months env k (se_now env) = Some t \<Longrightarrow>
        se_now env - int k * (31 * 86400) \<le> t \<and> t \<le> se_now env"
    and in_range: "\<And>a. 0 \<le> a \<Longrightarrow> a \<le> 7800000000000 \<Longrightarrow> se_in_range env a"
    and now: "100000000 \<le> se_now env" "se_now env \<le> 7800000000"
    and millis: "\<And>m. m \<in> set (msgs_of (bx_legacy w)) \<Longrightarrow>
        1000 * (se_now env - 31536000) \<le> send_time m \<and> send_time m \<le> 1000 * se_now env"
  shows "\<exists>t. run_migration env outage c (whole_cursor (bx_legacy w)) w = (Inr (), w\<lparr>bx_sharded := t\<rparr>)
    \<and> fst (shard_get_msgs e u send_start send_end rec_start rec_end t) =
      fst (shard_get_msgs e u send_start send_end rec_start rec_end (bx_sharded w))"
proof -
  obtain t where t: "run_migration env outage c (whole_cursor (bx_legacy w)) w = (Inr (), w\<lparr>bx_sharded := t\<rparr>)"
      "sb_docs t = sb_docs (bx_sharded w) @ map (\<lambda>d. (get_collection_name e (send_time (msg_of_doc d))
        (se_hash e (receiver_id (msg_of_doc d)) mod se_shards e), to_doc (msg_of_doc d))) (bx_legacy w)"
    using sharded_migration [OF assms(1,3-7) e] by blast
  have "fst (shard_get_msgs e u send_start send_end rec_start rec_end t) =
      fst (shard_get_msgs e u send_start send_end rec_start rec_end (bx_sharded w))"
  proof (rule shard_get_msgs_cong)
    show "env_up e" using assms(4) e by simp
  next
    fix j col
    assume j: "get_user_range e u = Inr j" "col \<in> set (recent_collections e 3 j)"
    have "get_collection_name e (send_time (msg_of_doc d)) i \<noteq> col" if "d \<in> set (bx_legacy w)" for d i
      using millis_elsewhere [of e "msg_of_doc d" "se_now e" i j] ym sub in_range now
        millis [of "msg_of_doc d"] that j(2) e by (auto simp: msgs_of_def)
    then show "docs_in col t = docs_in col (bx_sharded w)"
      using t(2) by (auto simp: docs_in_def filter_empty_conv)
  qed
  with t(1) show ?thesis by blast
qed

text \<open>
  With sharding explicitly switched off the migration writes into the box it reads from: instead of
  the forced sharded box it takes the unsharded one, stores every message a second time and reports
  success. The cursor is assumed to yield the documents that were there when it was opened.
\<close>

theorem migration_into_itself_duplicates:
  assumes "mg_use_sharding (db_mongodb (cf_db c)) = Some False" and "box_ok (bx_legacy w)"
  shows "run_migration env None c (whole_cursor (bx_legacy w)) w =
    (Inr (), w\<lparr>bx_legacy := bx_legacy w @ bx_legacy w\<rparr>)"
proof -
  have same: "map (\<lambda>d. to_doc (msg_of_doc d)) (bx_legacy w) = bx_legacy w"
    using assms(2) by (auto simp: box_ok_def list_all_iff intro!: map_idI)
  have "no_panic (box_save_message None)" by (rule no_panic_box) simp
  with same show ?thesis
    by (simp add: run_migration_def legacy_choice [OF assms(1)] on_part_def migrate_one_by_one box_batch)
qed

text \<open>
  Lost messages are not reported: whichever saves the database refuses, the migration answers with
  success as long as the source can be read; when it refuses all of them nothing has been copied.
\<close>

theorem migration_hides_failures:
  assumes "mg_use_sharding (db_mongodb (cf_db c)) \<noteq> Some False" and "shard_count (sharding_config c) \<noteq> 0"
    and "\<And>x p. se_index env x \<noteq> Some (Panicked p)" and "\<And>x p. se_query env x \<noteq> Some (Panicked p)"
  shows "fst (run_migration env outage c (whole_cursor (bx_legacy w)) w) = Inr ()
    \<and> ((\<forall>x. se_query env x \<noteq> None) \<longrightarrow>
        sb_docs (bx_sharded (snd (run_migration env outage c (whole_cursor (bx_legacy w)) w))) = sb_docs (bx_sharded w))"
proof -
  define e where "e = env\<lparr>se_shards := shard_count (sharding_config c)\<rparr>"
  have np: "no_panic (shard_save_message e)"
    by (rule no_panic_shard) (simp_all add: e_def assms)
  have keep: "sb_docs (snd (process_batch (shard_save_message e) ds b)) = sb_docs b"
    if down: "\<forall>x. se_query env x \<noteq> None" for ds b
  proof (induction ds arbitrary: b)
    case (Cons d ds)
    define m where "m = msg_of_doc d"
    define x where "x = get_collection_name e (send_time m) (se_hash e (receiver_id m) mod se_shards e)"
    obtain f where "se_query e x = Some f" using spec [OF down, of x] by (auto simp: e_def)
    then have "sb_docs (snd (shard_save_message e m b)) = sb_docs b"
      by (cases "se_shards e = 0")
         (auto simp: shard_save_message_def get_user_range_def Let_def and_then_def insert_one_def x_def
          split: sum.split prod.split dest: get_collection_docs)
    with Cons show ?case
      by (cases "shard_save_message e m b") (auto simp: m_def split: sum.split failure.split)
  qed simp
  show ?thesis
    using process_batch_no_panic [OF np] keep
    by (simp add: run_migration_def sharding_choice [OF assms(1)] on_part_def e_def [symmetric] Let_def
        migrate_one_by_one [OF np] split: prod.split)
       (metis fst_conv initialize_docs snd_conv)
qed


section \<open>Witnesses\<close>

definition demo_rpc :: "16 word \<Rightarrow> RpcServerConfig" where
  "demo_rpc p = \<lparr>rs_protocol = ''http'', rs_host = ''127.0.0.1'', rs_port = p, rs_name = ''rpc'', rs_tags = [],
     rs_grpc_health_check = \<lparr>ghc_grpc_use_tls = False, ghc_interval = 30000\<rparr>\<rparr>"

definition demo_oauth :: OAuth2Item where
  "demo_oauth = \<lparr>oa_client_id = ''id'', oa_client_secret = ''x'', oa_redirect_url = ''u'', oa_auth_url = ''u'',
     oa_token_url = ''u'', oa_user_info_url = ''u'', oa_email_url = ''u''\<rparr>"

definition demo_mongodb :: "bool option \<Rightarrow> 32 word option \<Rightarrow> MongoDbConfig" where
  "demo_mongodb sharding shards = \<lparr>mg_host = ''localhost'', mg_port = 27017, mg_user = '''', mg_password = '''',
     mg_database = ''im'', mg_clean = \<lparr>clean_period = 7, clean_except_types = []\<rparr>,
     mg_use_sharding = sharding, mg_user_shards = shards\<rparr>"

definition demo_config :: "bool option \<Rightarrow> 32 word option \<Rightarrow> Config" where
  "demo_config sharding shards = \<lparr>cf_component = AllComponents,
     cf_db = \<lparr>db_postgres = \<lparr>pg_host = ''localhost'', pg_port = 5432, pg_user = ''postgres'', pg_password = ''x'',
         pg_database = ''im'', pg_max_connections = 10\<rparr>,
       db_mongodb = demo_mongodb sharding shards, db_xdb = ''x''\<rparr>,
     cf_server = \<lparr>sv_host = ''127.0.0.1'', sv_port = 50001, sv_jwt_secret = ''x'', sv_ws_lb_strategy = ''RoundRobin'',
       sv_oauth2 = \<lparr>oa_google = demo_oauth, oa_github = demo_oauth\<rparr>\<rparr>,
     cf_kafka = \<lparr>kf_hosts = [''localhost''], kf_topic = ''sandcat-chat'', kf_connect_timeout = 5000, kf_group = ''chat'',
       kf_producer = \<lparr>kp_timeout = 3000, kp_acks = ''all'', kp_max_retry = 3, kp_retry_interval = 1000\<rparr>,
       kf_consumer = \<lparr>kc_session_timeout = 20000, kc_auto_offset_reset = ''earliest''\<rparr>\<rparr>,
     cf_redis = \<lparr>rd_host = ''127.0.0.1'', rd_port = 6379, rd_seq_step = 10000\<rparr>,
     cf_rpc = \<lparr>rpc_health_check = False, rpc_ws = demo_rpc 50002, rpc_chat = demo_rpc 50003, rpc_db = demo_rpc 50004,
       rpc_pusher = demo_rpc 50005\<rparr>,
     cf_websocket = \<lparr>ws_protocol = ''ws'', ws_host = ''127.0.0.1'', ws_port = 50000, ws_name = ''websocket'', ws_tags = []\<rparr>,
     cf_service_center = \<lparr>sc_host = ''localhost'', sc_port = 8500, sc_protocol = ''http'', sc_timeout = 5000\<rparr>,
     cf_oss = \<lparr>oss_endpoint = ''e'', oss_access_key = ''k'', oss_secret_key = ''x'', oss_bucket = ''b'',
       oss_avatar_bucket = ''a'', oss_region = ''r''\<rparr>,
     cf_mail = \<lparr>mail_server = ''m'', mail_account = ''a'', mail_password = ''x'', mail_temp_path = ''p'', mail_temp_file = ''f''\<rparr>,
     cf_log = \<lparr>log_level = ''info'', log_output = ''console''\<rparr>\<rparr>"

lemma demo_config_sel [simp]:
  "mg_use_sharding (db_mongodb (cf_db (demo_config sharding shards))) = sharding"
  "shard_count (sharding_config (demo_config sharding None)) = 10"
  by (simp_all add: demo_config_def demo_mongodb_def shard_count_def sharding_config_def Let_def)

definition millis_msg :: Msg where
  "millis_msg = demo_msg\<lparr>send_time := 1700000000000\<rparr>"

lemma millis_msg_sel [simp]:
  "send_time millis_msg = 1700000000000" "stored_view millis_msg = millis_msg"
  by (simp_all add: millis_msg_def stored_view_def) (simp add: demo_msg_def msg_example_def msg_default_def stored_view_def)

definition demo_boxes :: boxes where
  "demo_boxes = \<lparr>bx_legacy = [to_doc millis_msg], bx_sharded = shard_empty\<rparr>"

lemma demo_boxes_sel [simp]:
  "bx_legacy demo_boxes = [to_doc millis_msg]" "bx_sharded demo_boxes = shard_empty"
  "shard_keys shard_empty = {}" "msgs_of [to_doc millis_msg] = [millis_msg]"
  by (simp_all add: demo_boxes_def shard_keys_def msgs_of_def)

theorem migration_copies_every_message_witness:
  "\<exists>w'. run_migration demo_env None (demo_config None None) (whole_cursor [to_doc millis_msg]) demo_boxes = (Inr (), w')
    \<and> millis_msg \<in># shard_inbox (bx_sharded w')"
proof -
  obtain w' where w: "run_migration demo_env None (demo_config None None) (whole_cursor [to_doc millis_msg]) demo_boxes
      = (Inr (), w')"
      "inbox_of (receiver_id millis_msg) (shard_inbox (bx_sharded w')) =
         inbox_of (receiver_id millis_msg) (shard_inbox shard_empty) + inbox_of (receiver_id millis_msg) {#millis_msg#}"
    using migration_copies_every_message [of "demo_config None None" demo_env demo_boxes None] by auto
  then have "millis_msg \<in># inbox_of (receiver_id millis_msg) (shard_inbox (bx_sharded w'))"
    by (simp add: inbox_of_def)
  with w(1) show ?thesis by (auto simp: inbox_of_def)
qed

theorem migrated_messages_not_pulled_witness:
  "\<exists>t. run_migration demo_env None (demo_config None None) (whole_cursor [to_doc millis_msg]) demo_boxes
      = (Inr (), demo_boxes\<lparr>bx_sharded := t\<rparr>)
    \<and> fst (shard_get_msgs demo_env ''b'' 0 9 0 9 t) = fst (shard_get_msgs demo_env ''b'' 0 9 0 9 shard_empty)"
proof -
  have "demo_env = demo_env\<lparr>se_shards := shard_count (sharding_config (demo_config None None))\<rparr>"
    by (simp add: demo_env_def)
  from migrated_messages_not_pulled [OF _ this, of demo_boxes None "''b''" 0 9 0 9] demo_ym_close show ?thesis
    by auto
qed

theorem migration_into_itself_duplicates_witness:
  "run_migration demo_env None (demo_config (Some False) None) (whole_cursor [to_doc millis_msg]) demo_boxes =
    (Inr (), demo_boxes\<lparr>bx_legacy := [to_doc millis_msg, to_doc millis_msg]\<rparr>)"
  using migration_into_itself_duplicates [of "demo_config (Some False) None" demo_boxes demo_env] by simp

theorem migration_hides_failures_witness:
  "fst (run_migration (demo_env\<lparr>se_query := \<lambda>_. Some (mongo_error ''down'')\<rparr>) None (demo_config None None)
      (whole_cursor [to_doc millis_msg]) demo_boxes) = Inr ()
    \<and> sb_docs (bx_sharded (snd (run_migration (demo_env\<lparr>se_query := \<lambda>_. Some (mongo_error ''down'')\<rparr>) None
        (demo_config None None) (whole_cursor [to_doc millis_msg]) demo_boxes))) = []"
  using migration_hides_failures [of "demo_config None None" "demo_env\<lparr>se_query := \<lambda>_. Some (mongo_error ''down'')\<rparr>"
      None demo_boxes]
  by (simp add: demo_env_def mongo_error_def)

end
