(* ===== verification/Mailboxes.thy ===== *)
theory Mailboxes
  imports Consumer
begin

text \<open>
  A whole run of the consumer (\<open>msg_server/src/consumer.rs\<close>) against an abstract post office: for
  every user the last receive number and the letters from others. Handling a queued message of
  the numbered kinds is posting one letter to each of its recipients under that user's next number;
  the loop over the queue is posting one message after the other.
\<close>

section \<open>The post office\<close>

record office =
  of_last :: "string \<Rightarrow> int"
  of_mail :: "string \<Rightarrow> Msg multiset"

definition is_group_msg :: "Msg \<Rightarrow> bool" where
  "is_group_msg m \<longleftrightarrow>
     (case msg_type_of (msg_type m) of None \<Rightarrow> False | Some mt \<Rightarrow> fst (classify_msg_type mt) = Group)"

text \<open>Whom a message is for, given the members of every group.\<close>

definition addressees :: "(string \<Rightarrow> string list) \<Rightarrow> Msg \<Rightarrow> string list" where
  "addressees ros m =
     (if is_group_msg m then filter (\<lambda>u. u \<noteq> sender_id m) (ros (receiver_id m)) else [receiver_id m])"

definition recipients :: "(string \<Rightarrow> string list) \<Rightarrow> Msg \<Rightarrow> string set" where
  "recipients ros m = set (addressees ros m)"

lemma recipients_eq:
  "recipients ros m = (if is_group_msg m then set (ros (receiver_id m)) - {sender_id m} else {receiver_id m})"
  by (auto simp: recipients_def addressees_def)

definition letter :: "Msg \<Rightarrow> string \<Rightarrow> int \<Rightarrow> Msg" where
  "letter m u n = stored_view
     (if is_group_msg m then m\<lparr>seq := n, receiver_id := u, send_seq := 0\<rparr> else m\<lparr>seq := n\<rparr>)"

definition post :: "(string \<Rightarrow> string list) \<Rightarrow> Msg \<Rightarrow> office \<Rightarrow> office" where
  "post ros m s =
     \<lparr>of_last = (\<lambda>u. of_last s u + (if u \<in> recipients ros m then 1 else 0)),
      of_mail = (\<lambda>u. of_mail s u +
        (if u \<in> recipients ros m \<and> u \<noteq> sender_id m then {#letter m u (of_last s u + 1)#} else {#}))\<rparr>"

text \<open>The letters a run brings to one user: consecutive numbers in the order of the queue.\<close>

definition letters_for :: "(string \<Rightarrow> string list) \<Rightarrow> string \<Rightarrow> int \<Rightarrow> Msg list \<Rightarrow> Msg list" where
  "letters_for ros u n ms =
     (let ds = filter (\<lambda>m. u \<in> recipients ros m) ms in
      map (\<lambda>(i, m). letter m u (n + 1 + int i)) (enumerate 0 ds))"

definition from_others :: "string \<Rightarrow> Msg multiset \<Rightarrow> Msg multiset" where
  "from_others u M = filter_mset (\<lambda>x. sender_id x \<noteq> u) M"

lemma from_others_simps [simp]:
  "from_others u (A + B) = from_others u A + from_others u B" "from_others u {#} = {#}"
  "from_others u (add_mset x M) = (if sender_id x = u then from_others u M else add_mset x (from_others u M))"
  by (simp_all add: from_others_def)

lemma letter_sel [simp]:
  "sender_id (letter m u n) = sender_id m" "seq (letter m u n) = n"
  "u \<in> recipients ros m \<Longrightarrow> receiver_id (letter m u n) = u"
  by (auto simp: letter_def stored_view_def recipients_eq)

lemma letters_for_snoc:
  "letters_for ros u n (ms @ [m]) = letters_for ros u n ms @
     (if u \<in> recipients ros m
      then [letter m u (n + 1 + int (length (letters_for ros u n ms)))] else [])"
  by (simp add: letters_for_def enumerate_append_eq)

text \<open>Posting in closed form.\<close>

lemma fold_post:
  "of_last (fold (post ros) ms s) u = of_last s u + int (length (letters_for ros u (of_last s u) ms))
   \<and> of_mail (fold (post ros) ms s) u =
       of_mail s u + from_others u (mset (letters_for ros u (of_last s u) ms))"
proof (induction ms rule: rev_induct)
  case Nil
  then show ?case by (simp add: letters_for_def)
next
  case (snoc m ms)
  then show ?case by (auto simp: post_def letters_for_snoc add_ac)
qed

section \<open>What the consumer works with\<close>

text \<open>Messages that are numbered and stored: the numbered single ones, to a user, and the group
  messages other than the three that change the roster, to a group of users.\<close>

definition postable :: "string set \<Rightarrow> (string \<Rightarrow> string list) \<Rightarrow> Msg \<Rightarrow> bool" where
  "postable people ros m \<longleftrightarrow>
     (case msg_type_of (msg_type m) of
        None \<Rightarrow> False
      | Some mt \<Rightarrow>
          (case classify_msg_type mt of
             (Single, increase, _) \<Rightarrow> increase \<and> get_send_to_db_flag mt \<and> receiver_id m \<in> people
           | (Group, _, _) \<Rightarrow> mt \<notin> {GroupDismiss, GroupMemberExit, GroupRemoveMember}
               \<and> receiver_id m \<notin> people \<and> set (ros (receiver_id m)) \<subseteq> people \<and> distinct (ros (receiver_id m))))"

lemma postable_cases:
  assumes "postable people ros m"
  obtains (single) mt h where "msg_type_of (msg_type m) = Some mt" "classify_msg_type mt = (Single, True, h)"
      "get_send_to_db_flag mt" "receiver_id m \<in> people" "\<not> is_group_msg m"
    | (group) mt h where "msg_type_of (msg_type m) = Some mt" "classify_msg_type mt = (Group, False, h)"
      "mt \<notin> {GroupDismiss, GroupMemberExit, GroupRemoveMember}" "receiver_id m \<notin> people"
      "set (ros (receiver_id m)) \<subseteq> people" "distinct (ros (receiver_id m))" "is_group_msg m"
proof -
  obtain mt t i h where mt: "msg_type_of (msg_type m) = Some mt" and c: "classify_msg_type mt = (t, i, h)"
    using assms by (cases "msg_type_of (msg_type m)"; cases "classify_msg_type (the (msg_type_of (msg_type m)))")
      (auto simp: postable_def)
  have "t = Group \<Longrightarrow> \<not> i" using c by (cases mt) auto
  with assms mt c that show ?thesis by (cases t) (auto simp: postable_def is_group_msg_def)
qed

text \<open>Room for \<open>k\<close> more numbers of every user.\<close>

definition room_for :: "int \<Rightarrow> string set \<Rightarrow> nat \<Rightarrow> redis \<Rightarrow> bool" where
  "room_for step people k r \<longleftrightarrow>
     (\<forall>u\<in>people. 0 \<le> cur_of (seq_key u) r \<and> cur_of (seq_key u) r + int k + 2 * step < 2 ^ 63)"

lemma room_for_has_room:
  assumes "room_for step people (Suc k) r" and "seq_wf step r" and "u \<in> people"
  shows "has_room step u r"
proof -
  have "seq_window step (seq_key u) r" "0 < step" using assms(2) by (simp_all add: seq_wf_def)
  note seq_window_bounds [OF this]
  with assms(1,3) \<open>0 < step\<close> show ?thesis by (auto simp: room_for_def has_room_def i64_ok_def)
qed

text \<open>What the gateways are asked to send.\<close>

definition push_of :: "int \<Rightarrow> (string \<Rightarrow> string list) \<Rightarrow> redis \<Rightarrow> Msg \<Rightarrow> push_request" where
  "push_of step ros r m =
     (if is_group_msg m
      then PushGroup \<lparr>group_message = Some m, members = numbered step r (addressees ros m)\<rparr>
      else PushSingle \<lparr>message = Some (m\<lparr>seq := cur_of (seq_key (receiver_id m)) r + 1\<rparr>)\<rparr>)"

definition office_of :: "('b \<Rightarrow> Msg multiset) \<Rightarrow> string set \<Rightarrow> 'b world \<Rightarrow> office" where
  "office_of inbox people w =
     \<lparr>of_last = (\<lambda>u. cur_of (seq_key u) (w_redis w)),
      of_mail = (\<lambda>u. if u \<in> people then from_others u (inbox_of u (inbox (w_box w))) else {#})\<rparr>"

text \<open>The consumer is ready: the cache is well formed and in step with the table, every user has
  its row there, a gateway is connected and the rosters are as given.\<close>

definition ready :: "('b \<Rightarrow> bool) \<Rightarrow> int \<Rightarrow> string set \<Rightarrow> (string \<Rightarrow> string list) \<Rightarrow> 'b world \<Rightarrow> bool" where
  "ready box_fine step people ros w \<longleftrightarrow>
     seq_wf step (w_redis w) \<and> rec_synced step w \<and> seq_table_ok (w_seq w)
     \<and> people \<subseteq> set (map sq_user_id (w_seq w)) \<and> box_fine (w_box w) \<and> ps_clients (w_push w) \<noteq> []
     \<and> (\<forall>g. roster g w = ros g)"

lemma row_of_user: "u \<in> set (map sq_user_id tbl) \<Longrightarrow> rec_max_of tbl u \<noteq> None"
  by (auto simp: rec_max_of_def find_None_iff)

text \<open>The environment of a run: every call succeeds and every gateway answers.\<close>

definition services_up :: "'b consumer_env \<Rightarrow> bool" where
  "services_up env \<longleftrightarrow> calls_up env \<and> 0 < ce_step env \<and> (\<forall>a. pe_push (ce_push env) a = None)
     \<and> (\<forall>m b. fst (bo_save (ce_box env) m b) = Inr ())
     \<and> (\<forall>m gs b. fst (bo_save_group (ce_box env) m gs b) = Inr ())"

text \<open>Consecutive records of the topic, each committed.\<close>

fun records :: "nat \<Rightarrow> string list \<Rightarrow> kafka_event list" where
  "records k [] = []"
| "records k (p # ps) = Record k (Some p) False # records (Suc k) ps"

lemma ready_posted:
  assumes "ready box_fine (ce_step env) people ros w" and "posted env us w w'"
    and "seq_wf (ce_step env) (w_redis w')" and "rec_synced (ce_step env) w'" and "box_fine (w_box w')"
    and "\<forall>a. pe_push (ce_push env) a = None"
  shows "ready box_fine (ce_step env) people ros w'"
proof -
  have "set (map sq_user_id (w_seq w')) = set (map sq_user_id (w_seq w))"
    using assms(2) by (simp only: posted_def)
  with assms show ?thesis by (simp add: ready_def posted_def seq_table_ok_def)
qed

lemma room_posted:
  assumes "room_for step people (Suc k) (w_redis w)" and "posted env us w w'"
  shows "room_for step people k (w_redis w')"
  using assms by (auto simp: room_for_def posted_def)

text \<open>What handling one message does to the world of the consumer, for both kinds of message.\<close>

definition mailed :: "('b \<Rightarrow> Msg multiset) \<Rightarrow> ('b \<Rightarrow> bool) \<Rightarrow> 'b consumer_env \<Rightarrow> string set \<Rightarrow> (string \<Rightarrow> string list)
    \<Rightarrow> Msg \<Rightarrow> 'b world \<Rightarrow> 'b world \<Rightarrow> bool" where
  "mailed inbox box_fine env people ros m w w' \<longleftrightarrow>
     seq_wf (ce_step env) (w_redis w') \<and> rec_synced (ce_step env) w' \<and> box_fine (w_box w')
     \<and> posted env (recipients ros m) w w'
     \<and> pushed_to_all (ce_push env) (push_of (ce_step env) ros (w_redis w) m) (w_push w) (w_push w')
     \<and> (\<forall>u\<in>people. from_others u (inbox_of u (inbox (w_box w'))) = from_others u (inbox_of u (inbox (w_box w)))
          + (if u \<in> recipients ros m \<and> u \<noteq> sender_id m then {#letter m u (cur_of (seq_key u) (w_redis w) + 1)#} else {#}))"

lemma services_upD:
  assumes "services_up env"
  shows "calls_up env" "0 < ce_step env" "\<forall>a. pe_push (ce_push env) a = None"
    "fst (bo_save (ce_box env) m b) = Inr ()" "fst (bo_save_group (ce_box env) m gs b) = Inr ()"
  using assms by (simp_all add: services_up_def)

lemma readyD:
  assumes "ready box_fine step people ros w"
  shows "seq_wf step (w_redis w)" "rec_synced step w" "seq_table_ok (w_seq w)" "box_fine (w_box w)"
    "ps_clients (w_push w) \<noteq> []" "roster g w = ros g" "u \<in> people \<Longrightarrow> rec_max_of (w_seq w) u \<noteq> None"
  using assms row_of_user by (auto simp: ready_def)

context box_client
begin

text \<open>One message: handling it is posting it.\<close>

lemma single_mailed:
  assumes env: "ce_box env = ops" "services_up env" and world: "ready inv (ce_step env) people ros w"
    and "ce_decode_msg env p = Inr m" "msg_type_of (msg_type m) = Some mt" "classify_msg_type mt = (Single, True, h)"
      "get_send_to_db_flag mt" "receiver_id m \<in> people" "\<not> is_group_msg m" "has_room (ce_step env) (receiver_id m) (w_redis w)"
  shows "\<exists>w'. handle_msg env p w = (Inr (), w') \<and> mailed inbox inv env people ros m w w'"
proof -
  note up = services_upD [OF env(2), unfolded env(1)] and w = readyD [OF world]
  have box: "fst (bo_save ops (m\<lparr>seq := n\<rparr>) (w_box w)) = Inr ()" for n by (rule up(4))
  from single_posted [OF env(1) up(1,2) assms(4-7) w(1,2) w(7) [OF assms(8)] assms(10) w(4,5) refl box] obtain w' where
    "handle_msg env p w = (Inr (), w')"
    "\<forall>u. inbox_of u (inbox (w_box w')) = inbox_of u (inbox (w_box w)) + (if u = receiver_id m
       then {#stored_view (m\<lparr>seq := cur_of (seq_key (receiver_id m)) (w_redis w) + 1\<rparr>)#} else {#})"
    "seq_wf (ce_step env) (w_redis w')" "rec_synced (ce_step env) w'" "inv (w_box w')"
    "posted env {receiver_id m} w w'"
    "pushed_to_all (ce_push env) (PushSingle \<lparr>message = Some (m\<lparr>seq := cur_of (seq_key (receiver_id m)) (w_redis w) + 1\<rparr>)\<rparr>)
       (w_push w) (w_push w')"
    by blast
  with assms(9) show ?thesis
    by (intro exI [of _ w']) (auto simp: mailed_def recipients_eq letter_def stored_view_def push_of_def)
qed

lemma group_mailed:
  assumes env: "ce_box env = ops" "services_up env" and world: "ready inv (ce_step env) people ros w"
    and msg: "ce_decode_msg env p = Inr m" "msg_type_of (msg_type m) = Some mt" "classify_msg_type mt = (Group, False, h)"
      "mt \<notin> {GroupDismiss, GroupMemberExit, GroupRemoveMember}"
    and grp: "receiver_id m \<notin> people" "distinct (ros (receiver_id m))" "is_group_msg m"
    and room: "\<And>u. u \<in> set (ros (receiver_id m)) \<Longrightarrow> has_room (ce_step env) u (w_redis w)"
  shows "\<exists>w'. handle_msg env p w = (Inr (), w') \<and> mailed inbox inv env people ros m w w'"
proof -
  note up = services_upD [OF env(2), unfolded env(1)] and w = readyD [OF world]
  let ?gs = "numbered (ce_step env) (w_redis w) (filter (\<lambda>x. x \<noteq> sender_id m) (ros (receiver_id m)))"
  have box: "fst (bo_save_group ops m ?gs (w_box w)) = Inr ()" by (rule up(5))
  from group_posted [OF env(1) up(1,2) msg w(1-5), unfolded w(6), OF grp(2) room refl box] obtain w' N where w':
    "handle_msg env p w = (Inr (), w')"
    "\<forall>u. u \<noteq> sender_id m \<longrightarrow> u \<noteq> receiver_id m \<longrightarrow> inbox_of u (inbox (w_box w')) = inbox_of u (inbox (w_box w)) +
      (if u \<in> set (ros (receiver_id m))
       then {#stored_view (m\<lparr>seq := cur_of (seq_key u) (w_redis w) + 1, receiver_id := u, send_seq := 0\<rparr>)#} else {#})"
    "seq_wf (ce_step env) (w_redis w')" "rec_synced (ce_step env) w'" "inv (w_box w')"
    "posted env (set (ros (receiver_id m)) - {sender_id m}) w w'"
    "inbox (w_box w') = inbox (w_box w) + N" "\<forall>x\<in>#N. sender_id x = sender_id m"
    "pushed_to_all (ce_push env) (PushGroup \<lparr>group_message = Some m, members = ?gs\<rparr>) (w_push w) (w_push w')"
    by blast
  have "from_others (sender_id m) (inbox_of (sender_id m) N) = {#}"
    using w'(8) by (auto simp: from_others_def inbox_of_def filter_filter_mset filter_mset_eq_mempty_iff)
  then have "from_others u (inbox_of u (inbox (w_box w'))) = from_others u (inbox_of u (inbox (w_box w)))
      + (if u \<in> recipients ros m \<and> u \<noteq> sender_id m then {#letter m u (cur_of (seq_key u) (w_redis w) + 1)#} else {#})"
      if "u \<in> people" for u
    using w'(2,7) grp that by (cases "u = sender_id m") (auto simp: recipients_eq letter_def stored_view_def)
  with w' grp(3) show ?thesis
    by (intro exI [of _ w']) (auto simp: mailed_def recipients_eq push_of_def addressees_def)
qed

lemma handled:
  assumes env: "ce_box env = ops" "services_up env"
    and world: "ready inv (ce_step env) people ros w" "room_for (ce_step env) people (Suc k) (w_redis w)"
    and msg: "ce_decode_msg env p = Inr m" "postable people ros m"
  shows "\<exists>w'. handle_msg env p w = (Inr (), w') \<and> ready inv (ce_step env) people ros w'
    \<and> room_for (ce_step env) people k (w_redis w')
    \<and> office_of inbox people w' = post ros m (office_of inbox people w)
    \<and> pushed_to_all (ce_push env) (push_of (ce_step env) ros (w_redis w) m) (w_push w) (w_push w')"
proof -
  have room: "u \<in> people \<Longrightarrow> has_room (ce_step env) u (w_redis w)" for u
    using room_for_has_room [OF world(2) readyD(1) [OF world(1)]] .
  have "\<exists>w'. handle_msg env p w = (Inr (), w') \<and> mailed inbox inv env people ros m w w'"
    using msg(2)
  proof (cases rule: postable_cases)
    case (single mt h)
    show ?thesis by (rule single_mailed [OF env world(1) msg(1) single room [OF single(4)]])
  next
    case (group mt h)
    show ?thesis
      by (rule group_mailed [OF env world(1) msg(1) group(1-4,6,7)]) (use room group(5) in blast)
  qed
  then obtain w' where run: "handle_msg env p w = (Inr (), w')" and w': "mailed inbox inv env people ros m w w'"
    by blast
  have "recipients ros m \<subseteq> people"
    using msg(2) by (cases rule: postable_cases) (auto simp: recipients_eq)
  with w' have "office_of inbox people w' = post ros m (office_of inbox people w)"
    by (auto simp: mailed_def office_of_def post_def posted_def fun_eq_iff)
  moreover have "ready inv (ce_step env) people ros w'" "room_for (ce_step env) people k (w_redis w')"
    using w' ready_posted [OF world(1) _ _ _ _ services_upD(3) [OF env(2)]] room_posted [OF world(2)]
    unfolding mailed_def by blast+
  ultimately show ?thesis using run w' unfolding mailed_def by blast
qed

text \<open>A run: consuming records is posting their messages one after the other.\<close>

lemma consumed:
  assumes env: "ce_box env = ops" "services_up env"
    and "ready inv (ce_step env) people ros w" "room_for (ce_step env) people (length ps) (w_redis w)"
    and "list_all2 (\<lambda>p m. ce_decode_msg env p = Inr m \<and> postable people ros m) ps ms"
  shows "\<exists>w'. consume env (records k ps) \<lparr>cs_world = w, cs_committed = k\<rparr> =
      \<lparr>cs_world = w', cs_committed = k + length ps\<rparr> \<and> ready inv (ce_step env) people ros w'
    \<and> office_of inbox people w' = fold (post ros) ms (office_of inbox people w)"
  using assms(3-5)
proof (induction ps arbitrary: ms w k)
  case (Cons p ps)
  then obtain m ms' where m: "ms = m # ms'" "ce_decode_msg env p = Inr m" "postable people ros m"
      "list_all2 (\<lambda>p m. ce_decode_msg env p = Inr m \<and> postable people ros m) ps ms'"
    by (auto simp: list_all2_Cons1)
  obtain w1 where w1: "handle_msg env p w = (Inr (), w1)" "ready inv (ce_step env) people ros w1"
      "room_for (ce_step env) people (length ps) (w_redis w1)"
      "office_of inbox people w1 = post ros m (office_of inbox people w)"
    using handled [OF env Cons.prems(1) _ m(2,3), of "length ps"] Cons.prems(2) by auto
  with Cons.IH [OF w1(2,3) m(4), of "Suc k"] m(1) show ?case by simp
qed simp

end

section \<open>Properties\<close>

lemma services_up_legacy:
  "ce_box env = legacy_ops None \<Longrightarrow> calls_up env \<Longrightarrow> 0 < ce_step env \<Longrightarrow> \<forall>a. pe_push (ce_push env) a = None \<Longrightarrow>
   services_up env"
  by (simp add: services_up_def legacy_ops_def box_save_message_def box_save_group_msg_def)

abbreviation mail_office :: "string set \<Rightarrow> collection world \<Rightarrow> office" where
  "mail_office \<equiv> office_of (\<lambda>mb. mset (msgs_of mb))"

text \<open>
  C2. The consumer refines a post office: with all services up and the unsharded box, consuming any queue of
  stored messages (\<open>postable\<close>: the numbered single messages but the connecting of a call, which is numbered and
  not stored, and the group messages but the three that change a roster) is posting them one after the other. Every recipient gets each
  message exactly once under its next number, nobody else gets anything, no roster changes, and
  every record is committed.
\<close>

theorem consumer_refines_post_office:
  assumes "ce_box env = legacy_ops None" and "calls_up env" and "0 < ce_step env"
    and "\<forall>a. pe_push (ce_push env) a = None"
    and "ready box_ok (ce_step env) people ros w" and "room_for (ce_step env) people (length ps) (w_redis w)"
    and "list_all2 (\<lambda>p m. ce_decode_msg env p = Inr m \<and> postable people ros m) ps ms"
  shows "\<exists>w'. consume env (records k ps) \<lparr>cs_world = w, cs_committed = k\<rparr> =
      \<lparr>cs_world = w', cs_committed = k + length ps\<rparr> \<and> ready box_ok (ce_step env) people ros w'
    \<and> mail_office people w' = fold (post ros) ms (mail_office people w)"
  using assms by (intro legacy.consumed [where outage = None] services_up_legacy) simp_all

lemma others_own_seq: "filter (\<lambda>m. sender_id m \<noteq> u) (map (own_seq_zero u) xs) = filter (\<lambda>m. sender_id m \<noteq> u) xs"
  by (induction xs) (auto simp: own_seq_zero_def)

lemma wanted_others:
  "wanted u 0 0 n k m \<and> sender_id m \<noteq> u \<longleftrightarrow> receiver_id m = u \<and> sender_id m \<noteq> u \<and> n < seq m \<and> seq m \<le> k"
  by (auto simp: wanted_def)

text \<open>A pull over a range of receive numbers, as far as messages of others go: what the box holds for
  the user in that range.\<close>

lemma pulled_from_others:
  assumes "with_capacity cap (k - n) = Inr ()" and "box_ok mb"
  shows "\<exists>xs. box_get_msgs cap None u 0 0 n k mb = (Inr xs, mb)
    \<and> mset (filter (\<lambda>m. sender_id m \<noteq> u) xs) =
        filter_mset (\<lambda>m. n < seq m \<and> seq m \<le> k) (from_others u (inbox_of u (mset (msgs_of mb))))"
proof -
  have "with_capacity cap (0 - 0 + (k - n)) = Inr ()" using assms(1) by simp
  then have "box_get_msgs cap None u 0 0 n k mb = (Inr (map (own_seq_zero u)
      (sort_key (msg_sort_key u) (filter (wanted u 0 0 n k) (msgs_of mb)))), mb)" (is "_ = (Inr ?xs, _)")
    using box_get_msgs_eq assms(2) by simp
  moreover have "mset (filter (\<lambda>m. sender_id m \<noteq> u) ?xs) =
      filter_mset (\<lambda>m. n < seq m \<and> seq m \<le> k) (from_others u (inbox_of u (mset (msgs_of mb))))"
    by (simp add: others_own_seq mset_filter from_others_def inbox_of_def filter_filter_mset wanted_others)
  ultimately show ?thesis by blast
qed

lemma window_holds_new:
  assumes "\<And>m. m \<in># M \<Longrightarrow> seq m \<le> n" and "\<And>m. m \<in># N \<Longrightarrow> n < seq m \<and> seq m \<le> k"
  shows "filter_mset (\<lambda>m. n < seq m \<and> seq m \<le> k) (M + N) = N"
proof -
  have "filter_mset (\<lambda>m. n < seq m \<and> seq m \<le> k) M = {#}"
    using assms(1) by (fastforce simp: filter_mset_eq_mempty_iff)
  moreover have "filter_mset (\<lambda>m. n < seq m \<and> seq m \<le> k) N = N"
    using assms(2) by (simp add: filter_mset_eq_conv)
  ultimately show ?thesis by simp
qed

lemma letters_for_numbers:
  "length (letters_for ros u n ms) \<le> length ms"
  "x \<in> set (letters_for ros u n ms) \<Longrightarrow> n < seq x \<and> seq x \<le> n + int (length (letters_for ros u n ms))"
  unfolding letters_for_def Let_def by (simp, auto simp: in_set_enumerate_eq)

text \<open>A pull after the consumer has worked through a queue.\<close>

lemma pull_after_consume:
  assumes "ce_box env = legacy_ops None" and "calls_up env" and "0 < ce_step env"
    and "\<forall>a. pe_push (ce_push env) a = None"
    and "ready box_ok (ce_step env) people ros w" and "room_for (ce_step env) people (length ps) (w_redis w)"
    and "list_all2 (\<lambda>p m. ce_decode_msg env p = Inr m \<and> postable people ros m) ps ms"
    and u: "u \<in> people" and n: "n = cur_of (seq_key u) (w_redis w)"
    and known: "\<And>m. m \<in> set (msgs_of (w_box w)) \<Longrightarrow> receiver_id m = u \<Longrightarrow> sender_id m \<noteq> u \<Longrightarrow> seq m \<le> n"
    and cap: "int (length ps) \<le> cap" "cap < 2 ^ 63"
  shows "\<exists>w' xs. consume env (records k ps) \<lparr>cs_world = w, cs_committed = k\<rparr> =
      \<lparr>cs_world = w', cs_committed = k + length ps\<rparr>
    \<and> box_get_msgs cap None u 0 0 n (cur_of (seq_key u) (w_redis w')) (w_box w') = (Inr xs, w_box w')
    \<and> mset (filter (\<lambda>m. sender_id m \<noteq> u) xs) = mset (filter (\<lambda>m. sender_id m \<noteq> u) (letters_for ros u n ms))"
proof -
  define ls where "ls = letters_for ros u n ms"
  obtain w' where w': "consume env (records k ps) \<lparr>cs_world = w, cs_committed = k\<rparr> =
      \<lparr>cs_world = w', cs_committed = k + length ps\<rparr>" "ready box_ok (ce_step env) people ros w'"
      "mail_office people w' = fold (post ros) ms (mail_office people w)"
    using legacy.consumed [where outage = None, OF assms(1) services_up_legacy [OF assms(1-4)] assms(5-7)] by blast
  have "of_last (mail_office people w') u = n + int (length ls)"
      "of_mail (mail_office people w') u = of_mail (mail_office people w) u + from_others u (mset ls)"
    unfolding w'(3) using fold_post [of ros ms "mail_office people w" u] n by (simp_all add: office_of_def ls_def)
  then have last: "cur_of (seq_key u) (w_redis w') = n + int (length ls)" and mail:
      "from_others u (inbox_of u (mset (msgs_of (w_box w')))) =
         from_others u (inbox_of u (mset (msgs_of (w_box w)))) + from_others u (mset ls)"
    using u by (simp_all add: office_of_def)
  have "length ls \<le> length ps"
    using letters_for_numbers(1) [of ros u n ms] list_all2_lengthD [OF assms(7)] by (simp add: ls_def)
  then have "with_capacity cap (n + int (length ls) - n) = Inr ()"
    using cap by (intro with_capacity_small) simp_all
  from pulled_from_others [OF this, of "w_box w'" u] obtain xs where
    pull: "box_get_msgs cap None u 0 0 n (n + int (length ls)) (w_box w') = (Inr xs, w_box w')"
    and xs: "mset (filter (\<lambda>m. sender_id m \<noteq> u) xs) = filter_mset (\<lambda>m. n < seq m \<and> seq m \<le> n + int (length ls))
      (from_others u (inbox_of u (mset (msgs_of (w_box w)))) + from_others u (mset ls))"
    using w'(2) by (auto simp: ready_def mail)
  have "mset (filter (\<lambda>m. sender_id m \<noteq> u) xs) = from_others u (mset ls)"
    unfolding xs using known letters_for_numbers(2) [of _ ros u n ms]
    by (intro window_holds_new) (auto simp: from_others_def inbox_of_def ls_def)
  with w'(1) pull show ?thesis
    unfolding last by (intro exI [of _ w'] exI [of _ xs]) (simp add: last from_others_def ls_def mset_filter)
qed

text \<open>
  C3. With the unsharded box (\<open>use_sharding\<close> off), a user who was away catches up: after the consumer has worked
  through a queue of stored messages (\<open>postable\<close>, as in the refinement above) with all services up, the user who
  pulls from the last number it knows up to the newest gets of the messages from others exactly those
  addressed to it, alone or through a group, each once, under consecutive numbers in the order of the queue. The
  sharded box does not give this: messages stamped in milliseconds, as the producer
  stamps them, are never pulled from it (\<open>Sharded_Box\<close>).
\<close>

theorem user_catches_up:
  assumes "ce_box env = legacy_ops None" and "calls_up env" and "0 < ce_step env"
    and "\<forall>a. pe_push (ce_push env) a = None"
    and "ready box_ok (ce_step env) people ros w" and "room_for (ce_step env) people (length ps) (w_redis w)"
    and "list_all2 (\<lambda>p m. ce_decode_msg env p = Inr m \<and> postable people ros m) ps ms"
    and u: "u \<in> people" and n: "n = cur_of (seq_key u) (w_redis w)"
    and known: "\<And>m. m \<in> set (msgs_of (w_box w)) \<Longrightarrow> receiver_id m = u \<Longrightarrow> sender_id m \<noteq> u \<Longrightarrow> seq m \<le> n"
    and cap: "int (length ps) \<le> cap" "cap < 2 ^ 63"
  shows "\<exists>w' xs. consume env (records k ps) \<lparr>cs_world = w, cs_committed = k\<rparr> =
      \<lparr>cs_world = w', cs_committed = k + length ps\<rparr>
    \<and> box_get_msgs cap None u 0 0 n (cur_of (seq_key u) (w_redis w')) (w_box w') = (Inr xs, w_box w')
    \<and> mset (filter (\<lambda>m. sender_id m \<noteq> u) xs) = mset (filter (\<lambda>m. sender_id m \<noteq> u) (letters_for ros u n ms))"
  using assms by (intro pull_after_consume)


section \<open>Witnesses\<close>

definition office_env :: "collection consumer_env" where
  "office_env = (demo_cenv (legacy_ops None))\<lparr>ce_push := demo_penv\<lparr>pe_push := \<lambda>_. None\<rparr>\<rparr>"

definition office_world :: "collection world" where
  "office_world = (demo_world [''up''] [])\<lparr>w_seq := map (\<lambda>u. \<lparr>sq_user_id = u, send_max_seq = 5, rec_max_seq = 5\<rparr>)
     [''a'', ''b'', ''c'']\<rparr>"

abbreviation "office_people \<equiv> {''a'', ''b'', ''c''}"

definition office_ros :: "string \<Rightarrow> string list" where
  "office_ros g = roster g office_world"

definition office_queue :: "string list" where
  "office_queue = [''single'', ''group'', ''single'']"

definition office_msgs :: "Msg list" where
  "office_msgs = map (\<lambda>p. case demo_decode p of Inr m \<Rightarrow> m | Inl _ \<Rightarrow> msg_default) office_queue"

lemma office_facts:
  "ce_box office_env = legacy_ops None" "calls_up office_env" "ce_step office_env = 5"
  "\<forall>a. pe_push (ce_push office_env) a = None" "w_redis office_world = redis_empty" "w_box office_world = []"
  "length office_queue = 3"
  by (simp_all add: office_env_def calls_up_def office_world_def office_queue_def) (simp add: demo_cenv_def)

lemma office_ros_g: "office_ros ''g'' = [''a'', ''b'', ''c'']"
  by (simp add: office_ros_def office_world_def)

lemma office_ready: "ready box_ok 5 office_people office_ros office_world"
  by (auto simp: ready_def office_world_def office_ros_def seq_table_ok_def rec_synced_def rec_max_of_def
      redis_empty_wf split: if_splits)

lemma office_room: "room_for 5 office_people 3 redis_empty"
  by (simp add: room_for_def)

lemma office_decodes:
  "list_all2 (\<lambda>p m. ce_decode_msg office_env p = Inr m \<and> postable office_people office_ros m) office_queue office_msgs"
  by (simp add: office_queue_def office_msgs_def office_env_def demo_decode_def postable_def office_ros_g
      get_send_to_db_flag_def)

lemma office_letters:
  "map seq (letters_for office_ros ''b'' 0 office_msgs) = [1, 2, 3]"
  "filter (\<lambda>m. sender_id m \<noteq> ''b'') (letters_for office_ros ''b'' 0 office_msgs) = letters_for office_ros ''b'' 0 office_msgs"
  by (simp_all add: letters_for_def office_msgs_def office_queue_def demo_decode_def recipients_eq is_group_msg_def
      office_ros_g)

theorem consumer_refines_post_office_witness:
  "\<exists>w'. consume office_env (records 0 office_queue) \<lparr>cs_world = office_world, cs_committed = 0\<rparr> =
      \<lparr>cs_world = w', cs_committed = 3\<rparr>
    \<and> mail_office office_people w' = fold (post office_ros) office_msgs (mail_office office_people office_world)"
  using consumer_refines_post_office [of office_env office_people office_ros office_world office_queue office_msgs 0]
    office_ready office_room office_decodes
  by (auto simp: office_facts)

theorem user_catches_up_witness:
  "\<exists>w' xs. consume office_env (records 0 office_queue) \<lparr>cs_world = office_world, cs_committed = 0\<rparr> =
      \<lparr>cs_world = w', cs_committed = 3\<rparr>
    \<and> box_get_msgs 1000 None ''b'' 0 0 0 (cur_of (seq_key ''b'') (w_redis w')) (w_box w') = (Inr xs, w_box w')
    \<and> image_mset seq (mset (filter (\<lambda>m. sender_id m \<noteq> ''b'') xs)) = {#1, 2, 3#}"
proof -
  obtain w' xs where w': "consume office_env (records 0 office_queue) \<lparr>cs_world = office_world, cs_committed = 0\<rparr> =
      \<lparr>cs_world = w', cs_committed = 3\<rparr>"
    "box_get_msgs 1000 None ''b'' 0 0 0 (cur_of (seq_key ''b'') (w_redis w')) (w_box w') = (Inr xs, w_box w')"
    and xs: "mset (filter (\<lambda>m. sender_id m \<noteq> ''b'') xs) = mset (letters_for office_ros ''b'' 0 office_msgs)"
    using user_catches_up [of office_env office_people office_ros office_world office_queue office_msgs "''b''" 0 1000 0]
      office_ready office_room office_decodes
    by (auto simp: office_facts office_letters(2) msgs_of_def)
  have "image_mset seq (mset (letters_for office_ros ''b'' 0 office_msgs)) = {#1, 2, 3#}"
    using arg_cong [OF office_letters(1), of mset] by simp
  with w' xs show ?thesis by (intro exI [of _ w'] exI [of _ xs]) simp
qed

end
