(* ===== verification/Discovery.thy ===== *)
theory Discovery
  imports Config
begin

text \<open>
  Finding the other services: the load balancer of the API
  (\<open>api/src/api_utils/lb/mod.rs\<close>, \<open>lb/strategy.rs\<close>), the dynamic endpoints of the gRPC channels
  (\<open>utils/src/service_discovery/tonic_service_discovery.rs\<close>), the workers and helpers of
  \<open>utils/src/lib.rs\<close>, and the Consul client (\<open>utils/src/service_register_center\<close>).

  The registry's answers and events, the parsing of socket addresses and URLs and the HTTP client are
  parameters. A hash set is a list without duplicates in the order it is iterated.
\<close>

section \<open>Strategies\<close>

datatype LoadBalanceStrategyType = RoundRobin | Random

fun strategy_display :: "LoadBalanceStrategyType \<Rightarrow> string" where
  "strategy_display RoundRobin = ''RoundRobin''"
| "strategy_display Random = ''Random''"

definition strategy_from :: "string \<Rightarrow> LoadBalanceStrategyType" where
  "strategy_from v =
     (if v = ''RoundRobin'' then RoundRobin else if v = ''Random'' then Random else RoundRobin)"

text \<open>The counter of the round robin; \<open>fetch_add\<close> wraps. The random strategy has none: its draw from
  \<open>0..service_count\<close> is the argument.\<close>

record strategy =
  st_type :: LoadBalanceStrategyType
  st_counter :: "64 word"

definition get_strategy :: "LoadBalanceStrategyType \<Rightarrow> strategy" where
  "get_strategy t = \<lparr>st_type = t, st_counter = 0\<rparr>"

definition strategy_index :: "nat \<Rightarrow> nat \<Rightarrow> strategy \<Rightarrow> nat \<times> strategy" where
  "strategy_index draw service_count st =
     (case st_type st of
        RoundRobin \<Rightarrow> (unat (st_counter st) mod service_count, st\<lparr>st_counter := st_counter st + 1\<rparr>)
      | Random \<Rightarrow> (draw, st))"

definition strategy_reset :: "strategy \<Rightarrow> strategy" where
  "strategy_reset st = (case st_type st of RoundRobin \<Rightarrow> st\<lparr>st_counter := 0\<rparr> | Random \<Rightarrow> st)"

section \<open>The balancer\<close>

text \<open>A \<open>BTreeSet<String>\<close> is the list of its elements in byte order.\<close>

fun str_less :: "string \<Rightarrow> string \<Rightarrow> bool" where
  "str_less s [] = False"
| "str_less [] (b # bs) = True"
| "str_less (a # as) (b # bs) =
     ((of_char a :: nat) < of_char b \<or> (of_char a :: nat) = of_char b \<and> str_less as bs)"

fun bt_insert :: "string \<Rightarrow> string list \<Rightarrow> string list" where
  "bt_insert x [] = [x]"
| "bt_insert x (y # ys) = (if x = y then y # ys else if str_less x y then x # y # ys else y # bt_insert x ys)"

definition bt_remove :: "string \<Rightarrow> string list \<Rightarrow> string list" where
  "bt_remove x ys = filter (\<lambda>y. y \<noteq> x) ys"

record LoadBalancer =
  lb_service_name :: string
  lb_services :: "string list"
  lb_strategy :: strategy

definition load_balancer_new :: "string \<Rightarrow> string \<Rightarrow> LoadBalancer" where
  "load_balancer_new name lb_type =
     \<lparr>lb_service_name = name, lb_services = [], lb_strategy = get_strategy (strategy_from lb_type)\<rparr>"

definition get_service :: "nat \<Rightarrow> LoadBalancer \<Rightarrow> string option \<times> LoadBalancer" where
  "get_service draw lb =
     (let services_count = length (lb_services lb) in
      if services_count = 0 then (None, lb)
      else case strategy_index draw services_count (lb_strategy lb) of
        (counter, st) \<Rightarrow>
          (let index = counter mod services_count in
           (if index < services_count then Some (lb_services lb ! index) else None, lb\<lparr>lb_strategy := st\<rparr>)))"

text \<open>What the subscription of the registry yields.\<close>

record instance_event =
  se_address :: string
  se_port :: int
  se_active :: int
  se_scheme :: int

definition show_int :: "int \<Rightarrow> string" where
  "show_int n = (if n < 0 then ''-'' @ show_nat (nat (- n)) else show_nat (nat n))"

definition event_addr :: "instance_event \<Rightarrow> string" where
  "event_addr e = se_address e @ '':'' @ show_int (se_port e)"

text \<open>One turn of the worker \<open>update\<close> spawns; \<open>up_code\<close> is \<open>ServiceStatus::Up as i32\<close>.\<close>

definition balancer_event :: "int \<Rightarrow> instance_event \<Rightarrow> LoadBalancer \<Rightarrow> LoadBalancer" where
  "balancer_event up_code e lb =
     (if se_active e = up_code then lb\<lparr>lb_services := bt_insert (event_addr e) (lb_services lb)\<rparr>
      else lb\<lparr>lb_services := bt_remove (event_addr e) (lb_services lb)\<rparr>)"

definition balancer_update :: "int \<Rightarrow> string + instance_event list \<Rightarrow> LoadBalancer \<Rightarrow> LoadBalancer" where
  "balancer_update up_code subscription lb =
     (case subscription of Inl e \<Rightarrow> lb | Inr events \<Rightarrow> fold (balancer_event up_code) events lb)"

section \<open>Endpoints of a channel\<close>

datatype 'a endpoint_change = Insert 'a string | Remove 'a

fun apply_endpoint_change :: "'a endpoint_change \<Rightarrow> ('a \<rightharpoonup> string) \<Rightarrow> ('a \<rightharpoonup> string)" where
  "apply_endpoint_change (Insert a ep) m = m(a \<mapsto> ep)"
| "apply_endpoint_change (Remove a) m = m(a := None)"

definition endpoints_of :: "'a endpoint_change list \<Rightarrow> ('a \<rightharpoonup> string)" where
  "endpoints_of cs = fold apply_endpoint_change cs Map.empty"

text \<open>Parsing and printing of socket addresses, \<open>Endpoint::from_shared\<close> (whether it accepts the URL)
  and \<open>Scheme::from(u8)\<close>.\<close>

record 'a disc_env =
  de_parse :: "string \<Rightarrow> 'a option"
  de_ip :: "'a \<Rightarrow> string"
  de_port :: "'a \<Rightarrow> 16 word"
  de_accepts :: "string \<Rightarrow> bool"
  de_scheme :: "int \<Rightarrow> string"
  de_up :: int

text \<open>One turn of the worker of \<open>get_chan_\<close>: the change it sends, if any.\<close>

definition chan_change :: "'a disc_env \<Rightarrow> instance_event \<Rightarrow> 'a endpoint_change option" where
  "chan_change env e =
     (case de_parse env (event_addr e) of
        None \<Rightarrow> None
      | Some socket_addr \<Rightarrow>
          (let addr = de_scheme env (se_scheme e mod 256) @ ''://'' @ event_addr e in
           if se_active e = de_up env
           then (if de_accepts env addr then Some (Insert socket_addr addr) else None)
           else Some (Remove socket_addr)))"

text \<open>\<open>room\<close> is how many changes are taken before the receiving end is gone; the worker then ends.\<close>

fun chan_worker :: "'a disc_env \<Rightarrow> nat option \<Rightarrow> instance_event list \<Rightarrow> 'a endpoint_change list" where
  "chan_worker env room [] = []"
| "chan_worker env room (e # es) =
     (case chan_change env e of
        None \<Rightarrow> chan_worker env room es
      | Some c \<Rightarrow>
          (case room of
             Some 0 \<Rightarrow> []
           | Some (Suc n) \<Rightarrow> c # chan_worker env (Some n) es
           | None \<Rightarrow> c # chan_worker env None es))"

record 'a discovery =
  ds_services :: "'a list"
  ds_sent :: "'a endpoint_change list"
  ds_schema :: string

definition build_endpoint :: "'a disc_env \<Rightarrow> 'a discovery \<Rightarrow> 'a \<Rightarrow> string option" where
  "build_endpoint env d address =
     (let u = ds_schema d @ ''://'' @ de_ip env address @ '':'' @ show_port (de_port env address) in
      if de_accepts env u then Some u else None)"

definition change_set :: "'a disc_env \<Rightarrow> 'a discovery \<Rightarrow> 'a list \<Rightarrow> 'a endpoint_change list" where
  "change_set env d endpoints =
     List.map_filter (\<lambda>s. map_option (Insert s) (build_endpoint env d s))
       (filter (\<lambda>s. s \<notin> set (ds_services d)) endpoints)
     @ map Remove (filter (\<lambda>s. s \<notin> set endpoints) (ds_services d))"

definition send_changes :: "nat option \<Rightarrow> 'a endpoint_change list \<Rightarrow> ('a discovery, unit) act" where
  "send_changes room cs d =
     (case room of
        Some n \<Rightarrow>
          if length cs \<le> n then (Inr (), d\<lparr>ds_sent := ds_sent d @ cs\<rparr>)
          else (Inl (Failed (internal ''channel closed'')), d\<lparr>ds_sent := ds_sent d @ take n cs\<rparr>)
      | None \<Rightarrow> (Inr (), d\<lparr>ds_sent := ds_sent d @ cs\<rparr>))"

definition discovery_once :: "'a disc_env \<Rightarrow> nat option \<Rightarrow> 'a list res \<Rightarrow> ('a discovery, unit) act" where
  "discovery_once env room fetched d =
     (case fetched of
        Inl e \<Rightarrow> (Inl e, d)
      | Inr x \<Rightarrow> and_then (send_changes room (change_set env d x)) (\<lambda>_ d. (Inr (), d\<lparr>ds_services := x\<rparr>)) d)"

text \<open>\<open>run\<close>: one discovery per interval; an error is logged.\<close>

fun discovery_run :: "'a disc_env \<Rightarrow> 'a list res list \<Rightarrow> 'a discovery \<Rightarrow> 'a discovery" where
  "discovery_run env [] d = d"
| "discovery_run env (f # fs) d = discovery_run env fs (snd (discovery_once env None f d))"

section \<open>Consul\<close>

record ConsulService =
  svc_id :: string
  svc_service :: string
  svc_address :: string
  svc_port :: "16 word"
  svc_tags :: "string list"
  svc_datacenter :: string

type_synonym Services = "(string \<times> ConsulService) list"

record HealthCheckSpec =
  hc_name :: string
  hc_grpc :: string
  hc_grpc_use_tls :: bool
  hc_interval :: string

record Registration =
  rn_id :: string
  rn_name :: string
  rn_address :: string
  rn_port :: "16 word"
  rn_tags :: "string list"
  rn_check :: "HealthCheckSpec option"

record ConsulOptions =
  co_host :: string
  co_port :: "16 word"
  co_protocol :: string
  co_timeout :: "64 word"

definition consul_options :: "Config \<Rightarrow> ConsulOptions" where
  "consul_options c = \<lparr>co_host = sc_host (cf_service_center c), co_port = sc_port (cf_service_center c),
     co_protocol = sc_protocol (cf_service_center c), co_timeout = sc_timeout (cf_service_center c)\<rparr>"

definition consul_url :: "ConsulOptions \<Rightarrow> string \<Rightarrow> string \<Rightarrow> string" where
  "consul_url opts t name =
     co_protocol opts @ ''://'' @ host_port (co_host opts) (co_port opts) @ ''/v1/'' @ t @ ''/'' @ name"

definition api_url :: "ConsulOptions \<Rightarrow> string \<Rightarrow> string" where
  "api_url opts name = consul_url opts ''agent'' name"

text \<open>The HTTP client: a request fails, or answers with whether its status is a success and a text;
  the answers that are decoded as JSON come decoded.\<close>

record http_client =
  ht_put :: "string \<Rightarrow> Registration option \<Rightarrow> failure + bool \<times> string"
  ht_services :: "string \<Rightarrow> (string \<times> string) list \<Rightarrow> Services res"

definition put_checked :: "http_client \<Rightarrow> string \<Rightarrow> Registration option \<Rightarrow> unit res" where
  "put_checked h u body =
     (case ht_put h u body of
        Inl e \<Rightarrow> Inl e
      | Inr (success, text) \<Rightarrow> if success then Inr () else Inl (Failed (internal_with_details text)))"

definition consul_register :: "http_client \<Rightarrow> ConsulOptions \<Rightarrow> Registration \<Rightarrow> unit res" where
  "consul_register h opts registration = put_checked h (api_url opts ''service/register'') (Some registration)"

definition consul_discovery :: "http_client \<Rightarrow> ConsulOptions \<Rightarrow> Services res" where
  "consul_discovery h opts = ht_services h (api_url opts ''services'') []"

definition consul_deregister :: "http_client \<Rightarrow> ConsulOptions \<Rightarrow> string \<Rightarrow> unit res" where
  "consul_deregister h opts service_id = put_checked h (api_url opts (''service/deregister/'' @ service_id)) None"

definition filter_by_name :: "http_client \<Rightarrow> ConsulOptions \<Rightarrow> string \<Rightarrow> Services res" where
  "filter_by_name h opts name = ht_services h (api_url opts ''services'') [(''filter'', ''Service == '' @ name)]"

section \<open>Helpers\<close>

text \<open>\<open>ServiceResolver::fetch\<close>: the instances whose address parses, each address once.\<close>

definition resolver_fetch :: "'a disc_env \<Rightarrow> Services res \<Rightarrow> 'a list res" where
  "resolver_fetch env answer =
     (case answer of
        Inl e \<Rightarrow> Inl e
      | Inr services \<Rightarrow> Inr (remdups (List.map_filter
          (\<lambda>(_, v). de_parse env (svc_address v @ '':'' @ show_port (svc_port v))) services)))"

text \<open>\<open>get_rpc_channel_by_name\<close>: the answers of the successive calls of \<open>filter_by_name\<close> are the argument.
  The loop variable runs from 0 to 4.\<close>

fun retry_loop :: "string \<Rightarrow> nat list \<Rightarrow> (nat \<Rightarrow> Services res) \<Rightarrow> Services \<Rightarrow> Services res" where
  "retry_loop name [] answer service_list = Inr service_list"
| "retry_loop name (i # is) answer service_list =
     (case answer (Suc i) of
        Inl e \<Rightarrow> Inl e
      | Inr service_list \<Rightarrow>
          if service_list \<noteq> [] then Inr service_list
          else if i = 5 then Inl (Failed (service_not_found name))
          else retry_loop name is answer service_list)"

definition channel_endpoints :: "(string \<Rightarrow> bool) \<Rightarrow> string \<Rightarrow> Services \<Rightarrow> string list res" where
  "channel_endpoints accepts protocol services =
     (let urls = map (\<lambda>(_, v). protocol @ ''://'' @ host_port (svc_address v) (svc_port v)) services in
      if list_all accepts urls then Inr urls
      else Inl (Panicked ''called `Result::unwrap()` on an `Err` value: InvalidUri''))"

definition get_rpc_channel_by_name ::
  "(string \<Rightarrow> bool) \<Rightarrow> string \<Rightarrow> string \<Rightarrow> (nat \<Rightarrow> Services res) \<Rightarrow> string list res" where
  "get_rpc_channel_by_name accepts name protocol answer =
     (case answer 0 of
        Inl e \<Rightarrow> Inl e
      | Inr first \<Rightarrow>
          (case (if first = [] then retry_loop name [0..<5] answer first else Inr first) of
             Inl e \<Rightarrow> Inl e
           | Inr service_list \<Rightarrow> channel_endpoints accepts protocol service_list))"

text \<open>\<open>get_channel_with_config\<close> and \<open>get_channel_with_register\<close>: the first discovery must succeed.\<close>

definition get_channel :: "'a disc_env \<Rightarrow> string \<Rightarrow> 'a list res \<Rightarrow> 'a discovery res" where
  "get_channel env protocol fetched =
     (case discovery_once env None fetched \<lparr>ds_services = [], ds_sent = [], ds_schema = protocol\<rparr> of
        (Inl e, _) \<Rightarrow> Inl e
      | (Inr _, d) \<Rightarrow> Inr d)"

text \<open>\<open>get_host_name\<close>: what the system says, unless it is no Unicode.\<close>

definition get_host_name :: "string + string option \<Rightarrow> string res" where
  "get_host_name os =
     (case os of
        Inl e \<Rightarrow> Inl (Failed (error_of_library (IoError e)))
      | Inr None \<Rightarrow> Inl (Failed (internal_with_details ''get host name failed''))
      | Inr (Some h) \<Rightarrow> Inr h)"

record ServiceInstance =
  si_id :: string
  si_name :: string
  si_address :: string
  si_port :: int
  si_tags :: "string list"
  si_scheme :: int
  si_health_check :: bool

definition instance_of :: "(string \<Rightarrow> int) \<Rightarrow> bool \<Rightarrow> RpcServerConfig \<Rightarrow> string \<Rightarrow> ServiceInstance" where
  "instance_of scheme health_check c hostname =
     \<lparr>si_id = hostname @ ''-'' @ rs_name c, si_name = rs_name c, si_address = rs_host c,
      si_port = uint (rs_port c), si_tags = rs_tags c, si_scheme = scheme (rs_protocol c),
      si_health_check = health_check\<rparr>"

text \<open>\<open>connect\<close> is the outcome of building the endpoint and connecting, \<open>hostname\<close> of \<open>get_host_name\<close>,
  \<open>accept\<close> of the registry; the last is unwrapped.\<close>

definition register_service ::
  "(string \<Rightarrow> int) \<Rightarrow> (string \<Rightarrow> unit res) \<Rightarrow> string res \<Rightarrow> (ServiceInstance \<Rightarrow> bool) \<Rightarrow> Config \<Rightarrow> Component
     \<Rightarrow> ServiceInstance res" where
  "register_service scheme connect hostname accept config com =
     (let addr = sc_protocol (cf_service_center config) @ ''://'' @
        host_port (sc_host (cf_service_center config)) (sc_port (cf_service_center config)) in
      case connect addr of
        Inl e \<Rightarrow> Inl e
      | Inr _ \<Rightarrow>
          (let announce = (\<lambda>c. case hostname of
               Inl e \<Rightarrow> Inl e
             | Inr h \<Rightarrow>
                 (let service = instance_of scheme (rpc_health_check (cf_rpc config)) c h in
                  if accept service then Inr service
                  else Inl (Panicked ''called `Result::unwrap()` on an `Err` value'')))
           in case com of
             MessageServer \<Rightarrow> announce (rpc_chat (cf_rpc config))
           | Api \<Rightarrow> Inl (Panicked ''not yet implemented: consumer'')
           | MessageGateway \<Rightarrow> announce (rpc_ws (cf_rpc config))
           | AllComponents \<Rightarrow> Inl (Panicked ''not yet implemented: all'')))"

section \<open>Following the registry\<close>

text \<open>What the two workers share: each event decides about one key, the last event about a key
  counts.\<close>

locale registry_follower =
  fixes step :: "'e \<Rightarrow> 's \<Rightarrow> 's"
    and holds :: "'k \<Rightarrow> 's \<Rightarrow> bool"
    and key :: "'e \<Rightarrow> 'k option"
    and up :: "'e \<Rightarrow> bool"
  assumes step_key: "key e = Some k \<Longrightarrow> holds k (step e s) = up e"
    and step_other: "key e \<noteq> Some k \<Longrightarrow> holds k (step e s) = holds k s"
begin

lemma last_event_counts:
  "holds k (fold step es s) =
     (case find (\<lambda>e. key e = Some k) (rev es) of None \<Rightarrow> holds k s | Some e \<Rightarrow> up e)"
proof (induction es rule: rev_induct)
  case (snoc e es)
  then show ?case by (cases "key e = Some k") (simp_all add: step_key step_other)
qed simp

end

lemma set_bt_insert [simp]: "set (bt_insert x ys) = insert x (set ys)"
  by (induction ys) auto

lemma set_bt_remove [simp]: "set (bt_remove x ys) = set ys - {x}"
  by (auto simp: bt_remove_def)

interpretation balancer: registry_follower "balancer_event up_code" "\<lambda>a lb. a \<in> set (lb_services lb)"
    "\<lambda>e. Some (event_addr e)" "\<lambda>e. se_active e = up_code"
  for up_code
  by unfold_locales (auto simp: balancer_event_def)

definition chan_step :: "'a disc_env \<Rightarrow> instance_event \<Rightarrow> ('a \<rightharpoonup> string) \<Rightarrow> ('a \<rightharpoonup> string)" where
  "chan_step env e m = (case chan_change env e of None \<Rightarrow> m | Some c \<Rightarrow> apply_endpoint_change c m)"

definition chan_key :: "'a disc_env \<Rightarrow> instance_event \<Rightarrow> 'a option" where
  "chan_key env e = (case chan_change env e of
     None \<Rightarrow> None | Some (Insert a _) \<Rightarrow> Some a | Some (Remove a) \<Rightarrow> Some a)"

interpretation channel: registry_follower "chan_step env" "\<lambda>a m. m a \<noteq> None" "chan_key env"
    "\<lambda>e. se_active e = de_up env"
  for env :: "'a disc_env"
  by unfold_locales
     (auto simp: chan_step_def chan_key_def chan_change_def Let_def split: option.splits if_splits)

lemma chan_worker_endpoints: "fold apply_endpoint_change (chan_worker env None es) m = fold (chan_step env) es m"
  by (induction es arbitrary: m) (simp_all add: chan_step_def split: option.split)

section \<open>The balancer's set\<close>

lemma str_less_trans: "str_less a b \<Longrightarrow> str_less b c \<Longrightarrow> str_less a c"
proof (induction a b arbitrary: c rule: str_less.induct)
  case (3 a as b bs)
  then show ?case by (cases c) auto
qed (case_tac c; simp)+

lemma str_less_total: "\<not> str_less a b \<Longrightarrow> a \<noteq> b \<Longrightarrow> str_less b a"
  by (induction a b rule: str_less.induct) (auto simp: neq_Nil_conv)

lemma str_less_irrefl: "\<not> str_less a a"
  by (induction a) auto

lemma sorted_bt_insert: "sorted_wrt str_less ys \<Longrightarrow> sorted_wrt str_less (bt_insert x ys)"
  by (induction ys) (auto dest: str_less_trans intro: str_less_total)

lemma sorted_bt_distinct: "sorted_wrt str_less ys \<Longrightarrow> distinct ys"
  by (induction ys) (auto simp: str_less_irrefl)

lemma balancer_sorted:
  "sorted_wrt str_less (lb_services lb) \<Longrightarrow> sorted_wrt str_less (lb_services (fold (balancer_event up) es lb))"
  by (induction es arbitrary: lb)
     (simp_all add: balancer_event_def sorted_bt_insert bt_remove_def sorted_wrt_filter)

section \<open>Round robin\<close>

text \<open>The answers of \<open>m\<close> calls in a row.\<close>

fun served :: "nat \<Rightarrow> LoadBalancer \<Rightarrow> string option list" where
  "served 0 lb = []"
| "served (Suc m) lb = (case get_service 0 lb of (a, lb') \<Rightarrow> a # served m lb')"

lemma served_round_robin:
  assumes "st_type (lb_strategy lb) = RoundRobin" and "lb_services lb \<noteq> []"
    and "unat (st_counter (lb_strategy lb)) + m \<le> 2 ^ 64"
  shows "served m lb = map (\<lambda>i. Some (lb_services lb ! ((unat (st_counter (lb_strategy lb)) + i) mod length (lb_services lb)))) [0..<m]"
  using assms
proof (induction m arbitrary: lb)
  case (Suc m)
  let ?c = "st_counter (lb_strategy lb)" and ?n = "length (lb_services lb)"
  define lb' where "lb' = lb\<lparr>lb_strategy := (lb_strategy lb)\<lparr>st_counter := ?c + 1\<rparr>\<rparr>"
  have g: "get_service 0 lb = (Some (lb_services lb ! (unat ?c mod ?n)), lb')"
    using Suc.prems by (simp add: get_service_def strategy_index_def Let_def lb'_def)
  have l: "lb_services lb' = lb_services lb" "st_type (lb_strategy lb') = RoundRobin"
    "st_counter (lb_strategy lb') = ?c + 1"
    using Suc.prems by (simp_all add: lb'_def)
  show ?case
  proof (cases m)
    case 0
    with g show ?thesis by simp
  next
    case (Suc k)
    then have "unat ?c + 1 < 2 ^ 64" using Suc.prems(3) by simp
    then have u: "unat (?c + 1) = unat ?c + 1" by (simp add: unat_word_ariths)
    have "served m lb' = map (\<lambda>i. Some (lb_services lb ! ((unat ?c + 1 + i) mod ?n))) [0..<m]"
      using Suc.IH [of lb'] Suc.prems l u by simp
    then show ?thesis
      using g by (simp add: upt_conv_Cons map_Suc_upt [symmetric] o_def del: upt_Suc)
  qed
qed simp

lemma residues_of_block: "0 < n \<Longrightarrow> mset (map (\<lambda>i. (c + i) mod n) [0..<n]) = mset [0..<n]"
proof -
  assume n: "0 < n"
  have differ: "(c + i) mod n \<noteq> (c + j) mod n" if "i < j" "j < n" for i j
  proof
    assume "(c + i) mod n = (c + j) mod n"
    then have "n dvd (c + j) - (c + i)" using that mod_eq_dvd_iff_nat [of "c + i" "c + j" n] by simp
    then show False using that by (simp add: nat_dvd_not_less)
  qed
  have "inj_on (\<lambda>i. (c + i) mod n) {0..<n}"
    by (rule linorder_inj_onI') (use differ in auto)
  then have "distinct (map (\<lambda>i. (c + i) mod n) [0..<n])" by (simp add: distinct_map)
  moreover have "set (map (\<lambda>i. (c + i) mod n) [0..<n]) = {0..<n}"
    using \<open>inj_on _ _\<close> n by (simp add: endo_inj_surj image_subset_iff)
  ultimately show ?thesis
    using set_eq_iff_mset_eq_distinct [of "map (\<lambda>i. (c + i) mod n) [0..<n]" "[0..<n]"] by simp
qed

section \<open>Endpoints after a discovery\<close>

definition tracked :: "'a disc_env \<Rightarrow> 'a discovery \<Rightarrow> bool" where
  "tracked env d \<longleftrightarrow> (\<forall>a. endpoints_of (ds_sent d) a =
     (if a \<in> set (ds_services d) then build_endpoint env d a else None))"

lemma fold_inserts:
  "fold apply_endpoint_change (List.map_filter (\<lambda>s. map_option (Insert s) (f s)) xs) m a =
     (if a \<in> set xs \<and> f a \<noteq> None then f a else m a)"
  by (induction xs arbitrary: m) (auto simp: List.map_filter_simps split: option.split)

lemma fold_removes: "fold apply_endpoint_change (map Remove xs) m a = (if a \<in> set xs then None else m a)"
  by (induction xs arbitrary: m) auto

lemma discovery_once_up:
  "discovery_once env None (Inr x) d =
     (Inr (), d\<lparr>ds_sent := ds_sent d @ change_set env d x, ds_services := x\<rparr>)"
  by (simp add: discovery_once_def send_changes_def and_then_def)

lemma build_endpoint_cong [simp]:
  "build_endpoint env (d\<lparr>ds_sent := cs, ds_services := x\<rparr>) = build_endpoint env d"
  by (simp add: build_endpoint_def fun_eq_iff)

lemma tracked_once:
  assumes "tracked env d"
  shows "tracked env (snd (discovery_once env None f d))"
proof (cases f)
  case (Inl e)
  with assms show ?thesis by (simp add: discovery_once_def)
next
  case (Inr x)
  have "endpoints_of (ds_sent d @ change_set env d x) a = (if a \<in> set x then build_endpoint env d a else None)" for a
    using assms
    by (cases "build_endpoint env d a")
       (auto simp: endpoints_of_def change_set_def fold_inserts fold_removes tracked_def)
  then show ?thesis by (simp add: Inr discovery_once_up tracked_def)
qed

fun last_fetched :: "'a list \<Rightarrow> 'a list res list \<Rightarrow> 'a list" where
  "last_fetched x [] = x"
| "last_fetched x (f # fs) = last_fetched (case f of Inl _ \<Rightarrow> x | Inr y \<Rightarrow> y) fs"

lemma served_block:
  assumes "0 < n" and "length xs = n"
  shows "mset (map (\<lambda>i. Some (xs ! ((c + i) mod n))) [0..<k * n]) = repeat_mset k (mset (map Some xs))"
proof (induction k arbitrary: c)
  case (Suc k)
  have "[0..<Suc k * n] = [0..<n] @ map (\<lambda>i. i + n) [0..<k * n]"
    by (simp add: map_add_upt upt_add_eq_append [of 0 n] add.commute)
  moreover have "mset (map (\<lambda>i. Some (xs ! ((c + i) mod n))) [0..<n]) =
      image_mset (\<lambda>j. Some (xs ! j)) (mset (map (\<lambda>i. (c + i) mod n) [0..<n]))"
    by (simp add: multiset.map_comp o_def)
  moreover have "image_mset (\<lambda>j. Some (xs ! j)) (mset [0..<n]) = mset (map Some xs)"
    by (simp only: mset_map [symmetric]) (rule arg_cong [of _ _ mset], simp add: list_eq_iff_nth_eq assms(2))
  moreover have "mset (map (\<lambda>i. Some (xs ! ((c + (i + n)) mod n))) [0..<k * n]) = repeat_mset k (mset (map Some xs))"
    using Suc.IH [of c] by (simp add: add.assoc [symmetric])
  ultimately show ?case
    using residues_of_block [OF assms(1), of c] by (simp add: o_def del: upt_Suc)
qed simp

lemma retry_loop_empty:
  "\<forall>i \<in> set is. answer (Suc i) = Inr [] \<and> i \<noteq> 5 \<Longrightarrow> retry_loop name is answer [] = Inr []"
  by (induction "is") auto

lemma retry_loop_error:
  "retry_loop name is answer x = Inl e \<Longrightarrow> \<forall>i \<in> set is. i \<noteq> 5 \<Longrightarrow> \<exists>i \<in> set is. answer (Suc i) = Inl e"
  by (induction "is" arbitrary: x) (auto split: sum.splits if_splits)

section \<open>Properties\<close>

text \<open>
  Round robin is fair: as long as the counter does not wrap, any number of full rounds of
  \<open>get_service\<close> over an unchanged set of services, begun at any counter value, hands out every
  service exactly once per round.
\<close>

theorem round_robin_fair:
  assumes "st_type (lb_strategy lb) = RoundRobin" and "lb_services lb \<noteq> []"
    and "unat (st_counter (lb_strategy lb)) + k * length (lb_services lb) \<le> 2 ^ 64"
  shows "mset (served (k * length (lb_services lb)) lb) = repeat_mset k (mset (map Some (lb_services lb)))"
  using served_round_robin [OF assms(1-3)] served_block [of "length (lb_services lb)" "lb_services lb" _ k] assms(2)
  by simp

text \<open>
  The balancer follows the registry: after any events the set holds exactly the addresses whose
  last event said up, and those it held before and no event was about; the set stays in order and
  without duplicates, so that \<open>get_service\<close> answers with one of these addresses whenever there is
  one. The endpoints of a channel whose receiver listens follow the same way.
\<close>

theorem followers_follow_registry:
  "(a \<in> set (lb_services (balancer_update up_code (Inr events) lb)) \<longleftrightarrow>
      (case find (\<lambda>e. event_addr e = a) (rev events) of
         None \<Rightarrow> a \<in> set (lb_services lb) | Some e \<Rightarrow> se_active e = up_code))
   \<and> (sorted_wrt str_less (lb_services lb) \<longrightarrow>
        sorted_wrt str_less (lb_services (balancer_update up_code (Inr events) lb))
        \<and> distinct (lb_services (balancer_update up_code (Inr events) lb)))
   \<and> (endpoints_of (chan_worker env None events) s \<noteq> None \<longleftrightarrow>
      (case find (\<lambda>e. chan_key env e = Some s) (rev events) of
         None \<Rightarrow> False | Some e \<Rightarrow> se_active e = de_up env))"
proof (intro conjI impI)
  show "a \<in> set (lb_services (balancer_update up_code (Inr events) lb)) \<longleftrightarrow>
      (case find (\<lambda>e. event_addr e = a) (rev events) of
         None \<Rightarrow> a \<in> set (lb_services lb) | Some e \<Rightarrow> se_active e = up_code)"
    using balancer.last_event_counts [of a up_code events lb] by (simp add: balancer_update_def)
  show "endpoints_of (chan_worker env None events) s \<noteq> None \<longleftrightarrow>
      (case find (\<lambda>e. chan_key env e = Some s) (rev events) of
         None \<Rightarrow> False | Some e \<Rightarrow> se_active e = de_up env)"
    using channel.last_event_counts [of env events Map.empty s]
    by (simp add: endpoints_of_def chan_worker_endpoints split: option.split)
qed (simp_all add: balancer_update_def balancer_sorted sorted_bt_distinct)

text \<open>
  C28. Discovery converges: after any number of turns, some of whose fetches fail, the endpoints of the
  channel are exactly those of the last successful fetch (of its addresses for which an endpoint
  can be built), with the scheme of the channel.
\<close>

theorem discovery_tracks_registry:
  assumes "tracked env d"
  shows "tracked env (discovery_run env fs d) \<and> ds_services (discovery_run env fs d) = last_fetched (ds_services d) fs"
  using assms
proof (induction fs arbitrary: d)
  case (Cons f fs)
  have "ds_services (snd (discovery_once env None f d)) = (case f of Inl _ \<Rightarrow> ds_services d | Inr y \<Rightarrow> y)"
    by (cases f) (simp_all add: discovery_once_up, simp add: discovery_once_def)
  with Cons.IH [OF tracked_once [OF Cons.prems]] show ?case by simp
qed simp

text \<open>
  A service that is not there is not reported: when the registry keeps answering with no instance,
  \<open>get_rpc_channel_by_name\<close> asks six times and then returns a channel without endpoints; the error
  \<open>service_not_found\<close> the loop provides for is never returned, since its counter stops at four.
\<close>

theorem missing_service_not_reported:
  "((\<forall>i \<le> 5. answer i = Inr []) \<longrightarrow> get_rpc_channel_by_name accepts name protocol answer = Inr [])
   \<and> (get_rpc_channel_by_name accepts name protocol answer = Inl (Failed (service_not_found name)) \<longrightarrow>
        (\<exists>i \<le> 5. answer i = Inl (Failed (service_not_found name))))"
proof -
  have "channel_endpoints accepts protocol x \<noteq> Inl (Failed e)" for x e
    by (simp add: channel_endpoints_def Let_def)
  then show ?thesis
    using retry_loop_empty [of "[0..<5]" answer name] retry_loop_error [of name "[0..<5]" answer "[]"]
    by (auto simp: get_rpc_channel_by_name_def channel_endpoints_def split: sum.splits if_splits)
       (metis Suc_leI atLeastLessThan_iff)
qed

section \<open>Concrete instances\<close>

definition demo_lb :: LoadBalancer where
  "demo_lb = \<lparr>lb_service_name = ''ws'', lb_services = [''a:1'', ''b:1''],
     lb_strategy = \<lparr>st_type = RoundRobin, st_counter = 3\<rparr>\<rparr>"

theorem round_robin_fair_witness:
  "mset (served 4 demo_lb) = repeat_mset 2 {#Some ''a:1'', Some ''b:1''#}"
  using round_robin_fair [of demo_lb 2] by (simp add: demo_lb_def)

definition demo_disc_env :: "string disc_env" where
  "demo_disc_env = \<lparr>de_parse = Some, de_ip = id, de_port = (\<lambda>_. 80), de_accepts = (\<lambda>_. True),
     de_scheme = (\<lambda>_. ''http''), de_up = 0\<rparr>"

theorem followers_follow_registry_witness:
  "''h:80'' \<in> set (lb_services (balancer_update 0 (Inr [\<lparr>se_address = ''h'', se_port = 80, se_active = 0, se_scheme = 0\<rparr>]) demo_lb))
   \<and> distinct (lb_services (balancer_update 0 (Inr [\<lparr>se_address = ''h'', se_port = 80, se_active = 0, se_scheme = 0\<rparr>]) demo_lb))"
proof -
  have "event_addr \<lparr>se_address = ''h'', se_port = 80, se_active = 0, se_scheme = 0\<rparr> = ''h:80''"
    by (simp add: event_addr_def show_int_def show_nat.simps) code_simp
  moreover have "sorted_wrt str_less (lb_services demo_lb)" by code_simp
  ultimately show ?thesis
    using followers_follow_registry [of "''h:80''" 0
        "[\<lparr>se_address = ''h'', se_port = 80, se_active = 0, se_scheme = 0\<rparr>]" demo_lb demo_disc_env "''x''"]
    by simp
qed

theorem discovery_tracks_registry_witness:
  "ds_services (discovery_run demo_disc_env [Inr [''x'', ''y''], Inl (Panicked ''p''), Inr [''y'']]
     \<lparr>ds_services = [], ds_sent = [], ds_schema = ''http''\<rparr>) = [''y'']"
  using discovery_tracks_registry [of demo_disc_env "\<lparr>ds_services = [], ds_sent = [], ds_schema = ''http''\<rparr>"
      "[Inr [''x'', ''y''], Inl (Panicked ''p''), Inr [''y'']]"]
  by (simp add: tracked_def endpoints_of_def del: discovery_run.simps)

theorem missing_service_not_reported_witness:
  "get_rpc_channel_by_name (\<lambda>_. True) ''chat'' ''http'' (\<lambda>_. Inr []) = Inr []"
  using missing_service_not_reported [of "\<lambda>_. Inr []"] by simp

end
