(* ===== verification/Startup.thy ===== *)
theory Startup
  imports Migrate Mailboxes Discovery
begin

text \<open>
  The process (\<open>cmd/src/main.rs\<close>): reading the configuration, the migration command, the sequence loader, the
  servers a component starts (\<open>msg_server/src/lib.rs\<close>, \<open>WsServer::start\<close>) and when the process ends again; the
  producer's topic (\<open>msg_server/src/productor.rs\<close>) and the registration of a websocket server. Binding of
  sockets and the servers themselves are I/O; what they do with requests is in the other theories.
\<close>

section \<open>The topic\<close>

text \<open>\<open>create_topics\<close> fails as a whole, or reports for every topic whether it has been created; an error
  of the kind \<open>AdminOpCreation\<close> is told apart.\<close>

datatype kafka_error = AdminOpCreation string | OtherKafka string

type_synonym admin = "string \<Rightarrow> string list \<Rightarrow> (kafka_error + bool) \<times> string list"

definition ensure_topic_exists :: "kafka_error option \<Rightarrow> admin \<Rightarrow> string \<Rightarrow> string list \<Rightarrow> (kafka_error + unit) \<times> string list" where
  "ensure_topic_exists connect create topic topics =
     (case connect of
        Some e \<Rightarrow> (Inl e, topics)
      | None \<Rightarrow>
          (case create topic topics of
             (Inl e, ts) \<Rightarrow> (Inl e, ts)
           | (Inr _, ts) \<Rightarrow>
               (case create topic ts of
                  (Inr _, ts') \<Rightarrow> (Inr (), ts')
                | (Inl (AdminOpCreation _), ts') \<Rightarrow> (Inr (), ts')
                | (Inl e, ts') \<Rightarrow> (Inl e, ts'))))"

section \<open>Registration of a websocket server\<close>

text \<open>The scheme is that of the database's RPC server.\<close>

definition ws_instance :: "(string \<Rightarrow> int) \<Rightarrow> Config \<Rightarrow> string \<Rightarrow> ServiceInstance" where
  "ws_instance scheme config hostname =
     \<lparr>si_id = hostname @ ''-'' @ ws_name (cf_websocket config), si_name = ws_name (cf_websocket config),
      si_address = ws_host (cf_websocket config), si_port = uint (ws_port (cf_websocket config)),
      si_tags = ws_tags (cf_websocket config), si_scheme = scheme (rs_protocol (rpc_db (cf_rpc config))),
      si_health_check = False\<rparr>"

definition ws_register_service ::
  "(string \<Rightarrow> int) \<Rightarrow> (string \<Rightarrow> bool) \<Rightarrow> string res \<Rightarrow> (ServiceInstance \<Rightarrow> bool) \<Rightarrow> Config \<Rightarrow> ServiceInstance res" where
  "ws_register_service scheme connect hostname accept config =
     (let addr = sc_protocol (cf_service_center config) @ ''://'' @
        host_port (sc_host (cf_service_center config)) (sc_port (cf_service_center config)) in
      if \<not> connect addr then Inl (Panicked ''called `Result::unwrap()` on an `Err` value'')
      else (case hostname of
              Inl e \<Rightarrow> Inl e
            | Inr h \<Rightarrow>
                (let service = ws_instance scheme config h in
                 if accept service then Inr service
                 else Inl (Panicked ''called `Result::unwrap()` on an `Err` value''))))"

section \<open>The servers of a component\<close>

datatype server = ApiServer | WsHttp | WsRpc | Producer | ConsumerLoop | Cleaner "box_choice \<times> int \<times> int list"

definition ws_start :: "server list" where "ws_start = [WsHttp, WsRpc]"
definition msg_server_start :: "server list" where "msg_server_start = [Producer, ConsumerLoop]"

definition start_all :: "Config \<Rightarrow> server list" where
  "start_all config = ws_start @ [Cleaner (clean_receive_box config), ApiServer] @ msg_server_start"

definition start_component :: "Config \<Rightarrow> server list" where
  "start_component config =
     (case cf_component config of
        Api \<Rightarrow> [ApiServer]
      | MessageGateway \<Rightarrow> ws_start
      | MessageServer \<Rightarrow> msg_server_start
      | AllComponents \<Rightarrow> start_all config)"

section \<open>The process\<close>

record args =
  ar_configuration :: "string option"
  ar_migrate :: bool

definition DEFAULT_CONFIG_PATH :: string where
  "DEFAULT_CONFIG_PATH = ''./config.yml''"

text \<open>Stuck before anything is served, ended with an exit code, or serving.\<close>

datatype process = Stuck | Exited nat | Serving "server list"

text \<open>The databases a process starts with.\<close>

record start_world =
  sw_redis :: redis
  sw_seq :: "SeqRow list"
  sw_boxes :: boxes

record start_env =
  st_read :: "string \<Rightarrow> string + string"
  st_yaml :: "string \<Rightarrow> string + Config"
  st_load :: load_env
  st_shard :: shard_env
  st_box :: "failure option"
  st_cursor :: cursor

text \<open>An error of \<open>Config::load\<close> is unwrapped; a panic ends the process with code 101. \<open>Serving\<close> means that the tasks
  of the component have been spawned, not that each of its servers has come up: how a server starts is in \<open>Services\<close>, and
  what the end of a task does to the process in the next section.\<close>

definition main :: "start_env \<Rightarrow> args \<Rightarrow> start_world \<Rightarrow> process \<times> start_world" where
  "main env a w =
     (case config_load (st_read env) (st_yaml env) (unwrap_or DEFAULT_CONFIG_PATH (ar_configuration a)) of
        Inl _ \<Rightarrow> (Exited 101, w)
      | Inr config \<Rightarrow>
          if ar_migrate a
          then (case run_migration (st_shard env) (st_box env) config (st_cursor env) (sw_boxes w) of
                  (Inl _, b) \<Rightarrow> (Exited 1, w\<lparr>sw_boxes := b\<rparr>)
                | (Inr _, b) \<Rightarrow> (Exited 0, w\<lparr>sw_boxes := b\<rparr>))
          else (case load_seq (st_load env) (sw_seq w) (sw_redis w) of
                  None \<Rightarrow> (Stuck, w)
                | Some (Inl _, r) \<Rightarrow> (Exited 101, w\<lparr>sw_redis := r\<rparr>)
                | Some (Inr _, r) \<Rightarrow> (Serving (start_component config), w\<lparr>sw_redis := r\<rparr>)))"

section \<open>When the process ends\<close>

datatype task_end = Running | Returned | Crashed

text \<open>\<open>tokio::select!\<close> over the two tasks of the websocket server, \<open>tokio::try_join!\<close> over those of the message
  server (the first crash is unwrapped), and the select of \<open>start_all\<close>, which the cleaner is not part of.\<close>

definition ws_over :: "(server \<Rightarrow> task_end) \<Rightarrow> bool" where
  "ws_over st \<longleftrightarrow> st WsHttp \<noteq> Running \<or> st WsRpc \<noteq> Running"

definition msg_server_over :: "(server \<Rightarrow> task_end) \<Rightarrow> bool" where
  "msg_server_over st \<longleftrightarrow> st Producer = Crashed \<or> st ConsumerLoop = Crashed
     \<or> (st Producer = Returned \<and> st ConsumerLoop = Returned)"

definition process_over :: "Component \<Rightarrow> (server \<Rightarrow> task_end) \<Rightarrow> bool" where
  "process_over c st =
     (case c of
        Api \<Rightarrow> st ApiServer \<noteq> Running
      | MessageGateway \<Rightarrow> ws_over st
      | MessageServer \<Rightarrow> msg_server_over st
      | AllComponents \<Rightarrow> ws_over st \<or> st ApiServer \<noteq> Running \<or> msg_server_over st)"

section \<open>Properties\<close>

lemma load_seq_keeps_sets:
  assumes "load_seq all_up tbl redis_empty = Some (Inr (), t)"
  shows "r_set t = r_set redis_empty"
proof -
  have "r_set (fold set_seq_one xs r) = r_set r" for xs r
    by (induction xs arbitrary: r) (auto simp: set_seq_one_def hset_def split: prod.split)
  moreover have "r_str redis_empty IS_LOADED \<noteq> Some SEQ_NO_NEED_LOAD" by (simp add: redis_empty_def)
  ultimately show ?thesis
    using assms by (auto simp: load_seq_all_up set_seq_loaded_def split: if_splits)
qed

text \<open>
  C5. A start after a loss of the cache makes the consumer ready: with at most 1024 users the process
  reloads the numbers and serves, and whatever the tables of the groups and the receive box hold, the
  consumer then meets everything its guarantees rest on, for all users and with the rosters of the
  table. With more users the process never serves anything, whichever component it is.
\<close>

theorem startup_makes_consumer_ready:
  assumes conf: "config_load (st_read env) (st_yaml env) (unwrap_or DEFAULT_CONFIG_PATH (ar_configuration a)) = Inr config"
    and "\<not> ar_migrate a" and "st_load env = all_up" and "sw_redis w = redis_empty" and "seq_table_ok (sw_seq w)"
    and "0 < step" and "box_ok box" and "gates \<noteq> []"
  shows "if length (sw_seq w) \<le> 1024
    then \<exists>r. main env a w = (Serving (start_component config), w\<lparr>sw_redis := r\<rparr>)
      \<and> ready box_ok step (set (map sq_user_id (sw_seq w))) (\<lambda>g. member_ids g gdb)
          \<lparr>w_redis = r, w_seq = sw_seq w, w_audit = audit, w_groups = gdb, w_box = box,
           w_push = \<lparr>ps_clients = gates, ps_sent = []\<rparr>\<rparr>
    else main env a w = (Stuck, w)"
proof (cases "length (sw_seq w) \<le> 1024")
  case True
  obtain t where t: "load_seq all_up (sw_seq w) redis_empty = Some (Inr (), t)" "seq_wf step t"
    "\<forall>u m. rec_max_of (sw_seq w) u = Some m \<longrightarrow> cur_of (seq_key u) t = m \<and> lim_of step (seq_key u) t = m"
    using reload_facts [OF assms(5) True assms(6)] by blast
  have "r_set t k = []" for k using load_seq_keeps_sets [OF t(1)] by simp
  with t assms True show ?thesis
    by (intro exI [of _ t] if_P [THEN iffD2]) (auto simp: main_def ready_def rec_synced_def roster_def)
next
  case False
  have "r_str redis_empty IS_LOADED \<noteq> Some SEQ_NO_NEED_LOAD" by (simp add: redis_empty_def)
  with False assms show ?thesis by (simp add: main_def load_seq_all_up)
qed

text \<open>
  The servers of one process fall together: a process that runs all components is over as soon as its
  websocket server, its API server or the message server is, while three processes of one
  component each go on without the one that ended. Only the process of all components ever cleans the
  receive box.
\<close>

theorem components_separate:
  "process_over AllComponents st = (process_over MessageGateway st \<or> process_over Api st \<or> process_over MessageServer st)
   \<and> set (start_component (c\<lparr>cf_component := AllComponents\<rparr>)) =
       set (start_component (c\<lparr>cf_component := MessageGateway\<rparr>)) \<union> set (start_component (c\<lparr>cf_component := Api\<rparr>))
       \<union> set (start_component (c\<lparr>cf_component := MessageServer\<rparr>)) \<union> {Cleaner (clean_receive_box c)}
   \<and> (cf_component c \<noteq> AllComponents \<longrightarrow> Cleaner x \<notin> set (start_component c))"
proof -
  have "shard_count (c\<lparr>cf_component := k\<rparr>) = shard_count c" for k by (simp add: shard_count_def)
  then have "clean_receive_box (c\<lparr>cf_component := k\<rparr>) = clean_receive_box c" for k
    by (simp add: clean_receive_box_def msg_rec_box_cleaner_def cong: option.case_cong bool.case_cong)
  then show ?thesis
    by (auto simp: process_over_def start_component_def start_all_def ws_start_def msg_server_start_def
        split: Component.split)
qed

text \<open>
  A start does not depend on the topic having been made: as long as the broker answers both calls, whatever
  it reports about the topic, the producer goes on.
\<close>

theorem topic_report_ignored:
  assumes "create topic topics = (Inr made, ts)" and "create topic ts = (Inr made', ts')"
  shows "ensure_topic_exists None create topic topics = (Inr (), ts')"
  using assms by (simp add: ensure_topic_exists_def)

section \<open>Witnesses\<close>

definition demo_start_env :: start_env where
  "demo_start_env = \<lparr>st_read = (\<lambda>f. if f = DEFAULT_CONFIG_PATH then Inr ''yaml'' else Inl ''no file''),
     st_yaml = (\<lambda>_. Inr (demo_config None None)), st_load = all_up, st_shard = demo_env, st_box = None,
     st_cursor = whole_cursor []\<rparr>"

definition demo_start_world :: start_world where
  "demo_start_world = \<lparr>sw_redis = redis_empty, sw_seq = [\<lparr>sq_user_id = ''a'', send_max_seq = 5, rec_max_seq = 10\<rparr>],
     sw_boxes = demo_boxes\<rparr>"

theorem startup_makes_consumer_ready_witness:
  "\<exists>r. main demo_start_env \<lparr>ar_configuration = None, ar_migrate = False\<rparr> demo_start_world =
      (Serving (start_component (demo_config None None)), demo_start_world\<lparr>sw_redis := r\<rparr>)
    \<and> ready box_ok 5 {''a''} (\<lambda>g. member_ids g demo_group_db)
        \<lparr>w_redis = r, w_seq = sw_seq demo_start_world, w_audit = [], w_groups = demo_group_db, w_box = [],
         w_push = \<lparr>ps_clients = [''up''], ps_sent = []\<rparr>\<rparr>"
  using startup_makes_consumer_ready [of demo_start_env "\<lparr>ar_configuration = None, ar_migrate = False\<rparr>"
      "demo_config None None" demo_start_world 5 "[]" "[''up'']" demo_group_db "[]"]
  by (simp add: demo_start_env_def demo_start_world_def config_load_def seq_table_ok_def)

theorem components_separate_witness:
  "Cleaner (LegacyBox, 7, []) \<notin> set (start_component ((demo_config None None)\<lparr>cf_component := Api\<rparr>))"
  using components_separate [of "\<lambda>_. Running" "(demo_config None None)\<lparr>cf_component := Api\<rparr>" "(LegacyBox, 7, [])"]
  by simp

theorem topic_report_ignored_witness:
  "ensure_topic_exists None (\<lambda>_ ts. (Inr False, ts)) ''chat'' [] = (Inr (), [])"
  using topic_report_ignored [of "\<lambda>_ ts. (Inr False, ts)" "''chat''" "[]" False "[]" False "[]"] by simp

end
