(* ===== verification/Chat.thy ===== *)
theory Chat
  imports Hub Mailboxes
begin

text \<open>
  The path of a client's message through the whole system: the gateway the client is connected to
  (\<open>msg_gateway/src/manager.rs\<close>), the producer and its topic (\<open>msg_server/src/productor.rs\<close>), the consumer
  with numbers, receive box and pusher (\<open>msg_server/src/consumer.rs\<close>), and every gateway the pusher
  knows (\<open>msg_gateway/src/rpc.rs\<close>). The parts share Redis and the topic.
\<close>

section \<open>The system\<close>

record chat =
  ch_world :: "collection world"
  ch_gates :: "string \<Rightarrow> manager"
  ch_topic :: "string list"

text \<open>One turn of \<open>Manager::run\<close> of the gateway \<open>a\<close>: the message is handled and answered.\<close>

definition client_message :: "hub_env \<Rightarrow> string \<Rightarrow> Msg \<Rightarrow> chat \<Rightarrow> chat" where
  "client_message henv a m c =
     (let mg = run [(henv, m)] ((ch_gates c a)\<lparr>mg_redis := w_redis (ch_world c), mg_kafka := ch_topic c\<rparr>) in
      \<lparr>ch_world = (ch_world c)\<lparr>w_redis := mg_redis mg\<rparr>, ch_gates = (ch_gates c)(a := mg), ch_topic = mg_kafka mg\<rparr>)"

text \<open>A gateway serves a push.\<close>

definition serve :: "hub_env \<Rightarrow> string \<times> push_request \<Rightarrow> (string \<Rightarrow> manager) \<Rightarrow> string \<Rightarrow> manager" where
  "serve henv p gates =
     (case p of
        (a, PushSingle req) \<Rightarrow> gates(a := snd (send_msg_to_user henv req (gates a)))
      | (a, PushGroup req) \<Rightarrow> gates(a := snd (send_group_msg_to_user henv req (gates a))))"

text \<open>The consumer handles a record, and the gateways serve the pushes it has made.\<close>

definition consume_record :: "hub_env \<Rightarrow> collection consumer_env \<Rightarrow> string \<Rightarrow> chat \<Rightarrow> unit res \<times> chat" where
  "consume_record henv env payload c =
     (case handle_msg env payload (ch_world c) of
        (r, w) \<Rightarrow> (r, c\<lparr>ch_world := w, ch_gates :=
          fold (serve henv) (drop (length (ps_sent (w_push (ch_world c)))) (ps_sent (w_push w))) (ch_gates c)\<rparr>))"

section \<open>The gateway of the sender\<close>

text \<open>The receipt a client gets for a message that has been queued.\<close>

definition receipt_for :: "hub_env \<Rightarrow> int \<Rightarrow> Msg \<Rightarrow> Msg" where
  "receipt_for henv n m = (stamp (he_nanoid henv) (he_now henv) (m\<lparr>send_seq := n\<rparr>))
     \<lparr>content := '''', msg_type := msg_type_code MsgRecResp\<rparr>"

lemma process_message_up:
  assumes "he_seq henv = None" and "he_rpc henv = None" and "he_kafka henv = None"
    and "n = cur_of (send_seq_key (sender_id m)) (mg_redis mg) + 1" and "i64_ok n"
  shows "process_message henv m mg = (receipt_for henv n m,
    mg\<lparr>mg_redis := script_state (he_step henv) (send_seq_key (sender_id m)) (mg_redis mg),
       mg_kafka := mg_kafka mg @ [he_json henv (stamp (he_nanoid henv) (he_now henv) (m\<lparr>send_seq := n\<rparr>))]\<rparr>)"
proof -
  have "fst (script_result (he_step henv) (send_seq_key (sender_id m)) (mg_redis mg)) = n"
    by (simp add: script_result_def Let_def assms(4))
  then obtain x b where "script_result (he_step henv) (send_seq_key (sender_id m)) (mg_redis mg) = (n, x, b)"
    by (cases "script_result (he_step henv) (send_seq_key (sender_id m)) (mg_redis mg)") auto
  then show ?thesis
    using assms by (simp add: process_message_def incr_send_seq_def single_script_eq send_rpc_message_def
        send_msg_def receipt_for_def stamp_def Let_def)
qed

lemma receipt_sel [simp]:
  "sender_id (receipt_for henv n m) = sender_id m" "other_platform (receipt_for henv n m) = other_platform m"
  by (simp_all add: receipt_for_def stamp_def other_platform_def)

lemma send_keeps_rest [simp]:
  "mg_redis (send_msg_to_clients henv cs x g) = mg_redis g" "mg_kafka (send_msg_to_clients henv cs x g) = mg_kafka g"
  "mg_redis (send_to_self henv u x g) = mg_redis g" "mg_kafka (send_to_self henv u x g) = mg_kafka g"
  by (simp_all add: send_msg_to_clients_def send_to_self_def split: list.split option.split)

lemma send_single_msg_keeps [simp]:
  "mg_hub (send_single_msg henv u x g) = mg_hub g" "mg_redis (send_single_msg henv u x g) = mg_redis g"
  "mg_kafka (send_single_msg henv u x g) = mg_kafka g"
  by (simp_all add: send_single_msg_def split: option.split)

lemma run_one_up:
  assumes "hub_ok mg" and "he_seq henv = None" and "he_rpc henv = None" and "he_kafka henv = None"
    and n: "n = cur_of (send_seq_key (sender_id m)) (mg_redis mg) + 1" "i64_ok n"
    and b: "he_encode henv (receipt_for henv n m) = Some b"
  shows "\<exists>mg'. run [(henv, m)] mg = mg' \<and> mg_hub mg' = mg_hub mg
    \<and> mg_redis mg' = script_state (he_step henv) (send_seq_key (sender_id m)) (mg_redis mg)
    \<and> mg_kafka mg' = mg_kafka mg @ [he_json henv (stamp (he_nanoid henv) (he_now henv) (m\<lparr>send_seq := n\<rparr>))]
    \<and> mset (mg_sent mg') = mset (mg_sent mg) + frames henv b (sender_id m) mg
        + frame henv b (hub_look mg (sender_id m, other_platform m))"
proof -
  define mg1 where "mg1 = mg\<lparr>mg_redis := script_state (he_step henv) (send_seq_key (sender_id m)) (mg_redis mg),
       mg_kafka := mg_kafka mg @ [he_json henv (stamp (he_nanoid henv) (he_now henv) (m\<lparr>send_seq := n\<rparr>))]\<rparr>"
  have same: "mg_hub mg1 = mg_hub mg" "mg_sent mg1 = mg_sent mg" by (simp_all add: mg1_def)
  then have "hub_ok mg1" using assms(1) by (simp add: hub_ok_def)
  note sent = send_single_msg_sent [OF this b, of "sender_id m"]
  show ?thesis
    using process_message_up [OF assms(2-4) n] sent same hub_look_cong [OF same(1)]
    by (simp add: mg1_def [symmetric]) (simp add: mg1_def)
qed

section \<open>The gateways of the receivers\<close>

text \<open>What a recipient's clients get, and the frames a gateway sends for one message.\<close>

definition live_copy :: "Msg \<Rightarrow> int \<Rightarrow> Msg" where
  "live_copy m n = (if is_group_msg m then m\<lparr>send_seq := 0, seq := n\<rparr> else m\<lparr>seq := n\<rparr>)"

definition own_copy :: "Msg \<Rightarrow> int \<Rightarrow> Msg" where
  "own_copy m n = (if is_group_msg m then m else m\<lparr>seq := n\<rparr>)"

definition live_frames ::
  "hub_env \<Rightarrow> (Msg \<Rightarrow> string) \<Rightarrow> (string \<Rightarrow> string list) \<Rightarrow> (string \<Rightarrow> int) \<Rightarrow> Msg \<Rightarrow> manager \<Rightarrow> (nat \<times> string) multiset" where
  "live_frames henv e ros num m mg =
     (\<Sum>u\<in>#mset (addressees ros m). frames henv (e (live_copy m (num u))) u mg)
     + frame henv (e (own_copy m (num (receiver_id m)))) (hub_look mg (sender_id m, other_platform m))"

lemma serve_all:
  "distinct as \<Longrightarrow> fold (serve henv) (map (\<lambda>a. (a, req)) as) gates b =
     (if b \<in> set as then serve henv (b, req) gates b else gates b)"
proof (induction as arbitrary: gates)
  case (Cons a as)
  have "serve henv (b, req) (serve henv (a, req) gates) b = serve henv (b, req) gates b" if "a \<noteq> b"
    using that by (cases req) (simp_all add: serve_def)
  moreover have "serve henv (a, req) gates b = gates b" if "a \<noteq> b"
    using that by (cases req) (simp_all add: serve_def)
  ultimately show ?case using Cons by auto
qed simp

lemma serve_push:
  assumes "hub_ok (gates b)" and "\<And>x. he_encode henv x = Some (e x)"
    and "num = (\<lambda>u. cur_of (seq_key u) r + 1)"
  shows "mset (mg_sent (serve henv (b, push_of step ros r m) gates b)) =
    mset (mg_sent (gates b)) + live_frames henv e ros num m (gates b)"
proof (cases "is_group_msg m")
  case True
  define mg where "mg = send_to_self henv (sender_id m) m (gates b)"
  have hub: "mg_hub mg = mg_hub (gates b)" by (simp add: mg_def)
  then have "hub_ok mg" using assms(1) by (simp add: hub_ok_def)
  note sent = send_members_sent [OF this assms(2), of "m\<lparr>send_seq := 0\<rparr>"]
  have "image_mset (\<lambda>g. frames henv (e (m\<lparr>send_seq := 0, seq := cur_seq g\<rparr>)) (mem_id g) (gates b))
      (mset (numbered step r (addressees ros m))) =
    image_mset (\<lambda>u. frames henv (e (live_copy m (num u))) u (gates b)) (mset (addressees ros m))"
    using True assms(3) by (simp add: numbered_def live_copy_def image_mset.compositionality o_def)
  with True sent send_to_self_sent [OF assms(2) [of m], of "sender_id m" "gates b"] hub_look_cong [OF hub] show ?thesis
    by (simp add: serve_def push_of_def send_group_msg_to_user_def send_group_def mg_def [symmetric] live_frames_def
        own_copy_def ac_simps)
next
  case False
  then show ?thesis
    using send_single_msg_sent [OF assms(1,2), of "receiver_id m" "m\<lparr>seq := num (receiver_id m)\<rparr>"] assms(3)
    by (simp add: serve_def push_of_def send_msg_to_user_def live_frames_def addressees_def live_copy_def own_copy_def
        other_platform_def)
qed

section \<open>Properties\<close>

text \<open>The send number of a message moves no receive number.\<close>

lemma ready_after_send:
  assumes "ready box_ok step people ros w"
  shows "ready box_ok step people ros (w\<lparr>w_redis := script_state step (send_seq_key u) (w_redis w)\<rparr>)"
proof -
  have "roster g (w\<lparr>w_redis := script_state step (send_seq_key u) (w_redis w)\<rparr>) = roster g w" for g
    by (simp add: roster_def)
  with assms show ?thesis
    by (simp add: ready_def seq_wf_script_state rec_synced_def lim_of_script_state)
qed

text \<open>The gateway's half: the message is queued and acknowledged.\<close>

lemma client_message_up:
  assumes up: "he_seq henv = None" "he_rpc henv = None" "he_kafka henv = None" and hub: "hub_ok (ch_gates c a)"
    and number: "s = cur_of (send_seq_key (sender_id m)) (w_redis (ch_world c)) + 1" "i64_ok s"
    and enc: "he_encode henv (receipt_for henv s m) = Some b"
  shows "\<exists>mg. client_message henv a m c =
      \<lparr>ch_world = (ch_world c)\<lparr>w_redis := script_state (he_step henv) (send_seq_key (sender_id m)) (w_redis (ch_world c))\<rparr>,
       ch_gates = (ch_gates c)(a := mg),
       ch_topic = ch_topic c @ [he_json henv (stamp (he_nanoid henv) (he_now henv) (m\<lparr>send_seq := s\<rparr>))]\<rparr>
    \<and> mg_hub mg = mg_hub (ch_gates c a)
    \<and> mset (mg_sent mg) = mset (mg_sent (ch_gates c a)) + (frames henv b (sender_id m) (ch_gates c a)
        + frame henv b (hub_look (ch_gates c a) (sender_id m, other_platform m)))"
proof -
  define mg where "mg = (ch_gates c a)\<lparr>mg_redis := w_redis (ch_world c), mg_kafka := ch_topic c\<rparr>"
  have mg: "hub_ok mg" "mg_hub mg = mg_hub (ch_gates c a)" "mg_sent mg = mg_sent (ch_gates c a)"
    "mg_redis mg = w_redis (ch_world c)" "mg_kafka mg = ch_topic c"
    using hub by (simp_all add: mg_def hub_ok_def)
  have "s = cur_of (send_seq_key (sender_id m)) (mg_redis mg) + 1" using number(1) mg(4) by simp
  note one = run_one_up [OF mg(1) up this number(2) enc] hub_look_cong [OF mg(2)]
  show ?thesis
    unfolding client_message_def mg_def [symmetric] Let_def
    by (rule exI [of _ "run [(henv, m)] mg"]) (use one mg in \<open>simp del: run.simps add: add.assoc\<close>)
qed

text \<open>The other half: the record is handled and its pushes are served.\<close>

lemma consume_record_up:
  assumes up: "ce_box env = legacy_ops None" "calls_up env" "0 < ce_step env" "\<forall>a. pe_push (ce_push env) a = None"
    and hubs: "\<And>b. hub_ok (ch_gates c b)" and enc: "\<And>x. he_encode henv x = Some (e x)"
    and msg: "ce_decode_msg env p = Inr x" "postable people ros x"
    and world: "ready box_ok (ce_step env) people ros (ch_world c)"
      "room_for (ce_step env) people 1 (w_redis (ch_world c))" "distinct (ps_clients (w_push (ch_world c)))"
    and num: "num = (\<lambda>u. cur_of (seq_key u) (w_redis (ch_world c)) + 1)"
  shows "\<exists>c'. consume_record henv env p c = (Inr (), c')
    \<and> mail_office people (ch_world c') = post ros x (mail_office people (ch_world c))
    \<and> (\<forall>b. mset (mg_sent (ch_gates c' b)) = mset (mg_sent (ch_gates c b))
        + (if b \<in> set (ps_clients (w_push (ch_world c))) then live_frames henv e ros num x (ch_gates c b) else {#}))"
proof -
  define w where "w = ch_world c"
  define req where "req = push_of (ce_step env) ros (w_redis w) x"
  have "room_for (ce_step env) people (Suc 0) (w_redis (ch_world c))" using world(2) by simp
  then obtain w' where w': "handle_msg env p w = (Inr (), w')" "mail_office people w' = post ros x (mail_office people w)"
      "pushed_to_all (ce_push env) req (w_push w) (w_push w')"
    using legacy.handled [where outage = None, OF up(1) services_up_legacy [OF up] world(1) _ msg]
    unfolding w_def req_def by blast
  define gates where "gates = fold (serve henv) (map (\<lambda>b. (b, req)) (ps_clients (w_push w))) (ch_gates c)"
  have "consume_record henv env p c = (Inr (), c\<lparr>ch_world := w', ch_gates := gates\<rparr>)"
    using w'(1,3) up(4) by (simp add: consume_record_def pushed_to_all_def gates_def w_def)
  moreover have "mset (mg_sent (gates b)) = mset (mg_sent (ch_gates c b))
        + (if b \<in> set (ps_clients (w_push w)) then live_frames henv e ros num x (ch_gates c b) else {#})" for b
    using serve_push [of "ch_gates c" b, OF hubs [of b] enc num, of "ce_step env" ros x] world(3) unfolding gates_def
    by (subst serve_all) (simp_all add: w_def req_def)
  ultimately show ?thesis
    using w'(2) by (intro exI [of _ "c\<lparr>ch_world := w', ch_gates := gates\<rparr>"]) (simp add: w_def)
qed

text \<open>
  C1. A message sent by one client reaches the others: with every service up, the unsharded box and a message of a
  stored kind (\<open>postable\<close>), the client's message is queued with the sender's next number, the server's id and time and acknowledged to the sender; the
  consumer posts it to every recipient's box under the recipient's next number; and every client
  of every recipient, on whichever gateway the pusher knows, gets exactly one frame with that same
  number. The sender's other platform gets a copy, and no other client gets anything.
\<close>

theorem chat_message_reaches_everybody:
  assumes up: "he_seq henv = None" "he_rpc henv = None" "he_kafka henv = None" "he_step henv = ce_step env"
      "ce_box env = legacy_ops None" "calls_up env" "0 < ce_step env" "\<forall>a. pe_push (ce_push env) a = None"
    and hubs: "\<And>b. hub_ok (ch_gates c b)" and enc: "\<And>x. he_encode henv x = Some (e x)"
    and number: "s = cur_of (send_seq_key (sender_id m)) (w_redis (ch_world c)) + 1" "i64_ok s"
    and sent: "x = stamp (he_nanoid henv) (he_now henv) (m\<lparr>send_seq := s\<rparr>)"
      "ce_decode_msg env (he_json henv x) = Inr x" "postable people ros x"
    and world: "ready box_ok (ce_step env) people ros (ch_world c)"
      "room_for (ce_step env) people 1 (w_redis (ch_world c))" "distinct (ps_clients (w_push (ch_world c)))"
    and num: "num = (\<lambda>u. cur_of (seq_key u) (w_redis (ch_world c)) + 1)"
  shows "\<exists>c1 c2. client_message henv a m c = c1 \<and> ch_topic c1 = ch_topic c @ [he_json henv x]
    \<and> consume_record henv env (he_json henv x) c1 = (Inr (), c2)
    \<and> mail_office people (ch_world c2) = post ros x (mail_office people (ch_world c1))
    \<and> of_last (mail_office people (ch_world c1)) = of_last (mail_office people (ch_world c))
    \<and> of_mail (mail_office people (ch_world c1)) = of_mail (mail_office people (ch_world c))
    \<and> (\<forall>b. mset (mg_sent (ch_gates c2 b)) = mset (mg_sent (ch_gates c b))
        + (if b = a then frames henv (e (receipt_for henv s m)) (sender_id m) (ch_gates c a)
             + frame henv (e (receipt_for henv s m)) (hub_look (ch_gates c a) (sender_id m, other_platform m)) else {#})
        + (if b \<in> set (ps_clients (w_push (ch_world c))) then live_frames henv e ros num x (ch_gates c b) else {#}))"
proof -
  define w1 where "w1 = (ch_world c)\<lparr>w_redis := script_state (ce_step env) (send_seq_key (sender_id m)) (w_redis (ch_world c))\<rparr>"
  define acks where "acks = frames henv (e (receipt_for henv s m)) (sender_id m) (ch_gates c a)
        + frame henv (e (receipt_for henv s m)) (hub_look (ch_gates c a) (sender_id m, other_platform m))"
  obtain mg where c1: "client_message henv a m c =
      \<lparr>ch_world = w1, ch_gates = (ch_gates c)(a := mg), ch_topic = ch_topic c @ [he_json henv x]\<rparr>" (is "_ = ?c1")
    and mg: "mg_hub mg = mg_hub (ch_gates c a)" "mset (mg_sent mg) = mset (mg_sent (ch_gates c a)) + acks"
    using client_message_up [OF up(1-3) hubs number enc] unfolding up(4) sent(1) w1_def acks_def by blast
  have hub: "mg_hub (ch_gates ?c1 b) = mg_hub (ch_gates c b)" for b using mg(1) by simp
  have ok: "hub_ok (ch_gates ?c1 b)" for b using hubs [of b] unfolding hub_ok_def hub .
  have same: "cur_of (seq_key u) (w_redis w1) = cur_of (seq_key u) (w_redis (ch_world c))" for u
    by (simp add: w1_def cur_of_script_state)
  have ready: "ready box_ok (ce_step env) people ros (ch_world ?c1)"
      "room_for (ce_step env) people 1 (w_redis (ch_world ?c1))" "distinct (ps_clients (w_push (ch_world ?c1)))"
      "num = (\<lambda>u. cur_of (seq_key u) (w_redis (ch_world ?c1)) + 1)"
    using ready_after_send [OF world(1)] world(2,3) same num by (simp_all add: w1_def room_for_def)
  obtain c2 where c2: "consume_record henv env (he_json henv x) ?c1 = (Inr (), c2)"
      "mail_office people (ch_world c2) = post ros x (mail_office people (ch_world ?c1))"
      "\<And>b. mset (mg_sent (ch_gates c2 b)) = mset (mg_sent (ch_gates ?c1 b))
        + (if b \<in> set (ps_clients (w_push (ch_world ?c1))) then live_frames henv e ros num x (ch_gates ?c1 b) else {#})"
    using consume_record_up [OF up(5-8) ok enc sent(2,3) ready] by blast
  have "mset (mg_sent (ch_gates c2 b)) = mset (mg_sent (ch_gates c b)) + (if b = a then acks else {#})
        + (if b \<in> set (ps_clients (w_push (ch_world c))) then live_frames henv e ros num x (ch_gates c b) else {#})" for b
    unfolding c2(3) live_frames_def hub_look_cong [OF hub] using mg(2) by (simp add: w1_def)
  moreover have "of_last (mail_office people w1) = of_last (mail_office people (ch_world c))"
    "of_mail (mail_office people w1) = of_mail (mail_office people (ch_world c))"
    using same by (simp_all add: office_of_def w1_def cong: if_cong)
  ultimately show ?thesis
    using c1 c2(1,2) unfolding acks_def by - (rule exI [of _ ?c1], rule exI [of _ c2], simp only: chat.simps simp_thms)
qed

section \<open>Witnesses\<close>

text \<open>Two gateways; the sender is connected to the first, the receiver to both, by different platforms.\<close>

definition chat_msg :: Msg where
  "chat_msg = msg_example\<lparr>msg_type := 0\<rparr>"

definition chat_henv :: hub_env where
  "chat_henv = demo_henv\<lparr>he_encode := (\<lambda>m. Some (receiver_id m @ server_id m))\<rparr>"

definition chat_sent :: Msg where
  "chat_sent = stamp ''n1'' 77 (chat_msg\<lparr>send_seq := 1\<rparr>)"

definition chat_env :: "collection consumer_env" where
  "chat_env = office_env\<lparr>ce_decode_msg := \<lambda>p. if p = ''n1'' then Inr chat_sent else demo_decode p\<rparr>"

definition chat_start :: chat where
  "chat_start = \<lparr>ch_world = office_world\<lparr>w_push := \<lparr>ps_clients = [''one'', ''two''], ps_sent = []\<rparr>\<rparr>,
     ch_gates = (\<lambda>a. if a = ''one'' then demo_manager
       else if a = ''two'' then register ''b'' (demo_client 4 ''b'' Mobile) empty_manager else empty_manager),
     ch_topic = []\<rparr>"

lemma chat_facts:
  "he_seq chat_henv = None" "he_rpc chat_henv = None" "he_kafka chat_henv = None" "he_step chat_henv = ce_step chat_env"
  "ce_box chat_env = legacy_ops None" "calls_up chat_env" "ce_step chat_env = 5" "\<forall>a. pe_push (ce_push chat_env) a = None"
  "hub_ok (ch_gates chat_start b)" "he_encode chat_henv x = Some (receiver_id x @ server_id x)"
  "he_json chat_henv x = server_id x" "he_nanoid chat_henv = ''n1''" "he_now chat_henv = 77"
  "w_redis (ch_world chat_start) = redis_empty" "ps_clients (w_push (ch_world chat_start)) = [''one'', ''two'']"
  "ch_topic chat_start = []" "ch_gates chat_start ''one'' = demo_manager"
  "ch_gates chat_start ''two'' = register ''b'' (demo_client 4 ''b'' Mobile) empty_manager"
  using office_facts
  by (simp_all add: chat_henv_def chat_env_def chat_start_def demo_henv_def calls_up_def demo_manager_facts register_ok
      empty_manager_ok)

lemma chat_sent_sel [simp]:
  "sender_id chat_msg = ''a''" "server_id chat_sent = ''n1''" "receiver_id chat_sent = ''b''" "sender_id chat_sent = ''a''"
  "other_platform chat_msg = Mobile" "other_platform chat_sent = Mobile" "\<not> is_group_msg chat_sent"
  "ce_decode_msg chat_env ''n1'' = Inr chat_sent" "postable office_people office_ros chat_sent"
  by (simp_all add: chat_sent_def chat_msg_def stamp_def is_receipt_def chat_env_def postable_def get_send_to_db_flag_def
      is_group_msg_def other_platform_def)
     (simp_all add: msg_example_def msg_default_def)

lemma chat_ready: "ready box_ok 5 office_people office_ros (ch_world chat_start)"
  using office_ready by (simp add: ready_def chat_start_def rec_synced_def)

theorem chat_message_reaches_everybody_witness:
  "\<exists>c1 c2. client_message chat_henv ''one'' chat_msg chat_start = c1 \<and> ch_topic c1 = [''n1'']
    \<and> consume_record chat_henv chat_env ''n1'' c1 = (Inr (), c2)
    \<and> mset (mg_sent (ch_gates c2 ''two'')) = {#(4, ''bn1'')#}"
proof -
  have sent: "mg_sent (register ''b'' (demo_client 4 ''b'' Mobile) empty_manager) = []"
    "hub_look (register ''b'' (demo_client 4 ''b'' Mobile) empty_manager) (u, p) =
       (if u = ''b'' \<and> p = Mobile then Some (demo_client 4 ''b'' Mobile) else None)" for u p
    by (simp_all add: register_look empty_manager_ok demo_client_def) (simp add: register_def empty_manager_def)
  have "room_for 5 office_people 1 redis_empty" "i64_ok 1" by (simp_all add: room_for_def i64_ok_def)
  then obtain c2 where c2: "ch_topic (client_message chat_henv ''one'' chat_msg chat_start) = [''n1'']"
      "consume_record chat_henv chat_env ''n1'' (client_message chat_henv ''one'' chat_msg chat_start) = (Inr (), c2)"
      "mset (mg_sent (ch_gates c2 ''two'')) = live_frames chat_henv (\<lambda>x. receiver_id x @ server_id x) office_ros
         (\<lambda>u. 1) chat_sent (ch_gates chat_start ''two'')"
    using chat_message_reaches_everybody [OF chat_facts(1-6) _ chat_facts(8) chat_facts(9,10) refl _ refl, of chat_msg
        office_people office_ros "\<lambda>u. 1" "''one''"] chat_ready
    by (auto simp: chat_facts chat_sent_def [symmetric] sent)
  have "live_frames chat_henv (\<lambda>x. receiver_id x @ server_id x) office_ros (\<lambda>u. 1) chat_sent (ch_gates chat_start ''two'')
      = {#(4, ''bn1'')#}"
    by (simp add: live_frames_def addressees_def live_copy_def frame_def chat_facts sent)
       (simp add: demo_client_def chat_henv_def demo_henv_def)
  with c2 show ?thesis by auto
qed

end
