(* ===== verification/Grpc.thy ===== *)
theory Grpc
  imports Chat
begin

text \<open>
  The generated gRPC clients and servers (\<open>abi/src/pb/message.rs\<close>): the path every client method calls and
  the dispatch of the two servers on it. The transport, readiness of a channel and the codec
  (\<open>tonic\<close>, \<open>prost\<close>) come from outside: requests, responses and statuses are encoded to bytes and decoded
  again, and a body that does not decode is answered with a status.
\<close>

section \<open>Messages on the wire\<close>

text \<open>The codec of every message that crosses: the two requests, the two responses (\<open>SendMsgResponse\<close> has
  no field) and the trailers that carry a status.\<close>

record codec =
  co_enc_send :: "SendMsgRequest \<Rightarrow> string"
  co_dec_send :: "string \<Rightarrow> Status + SendMsgRequest"
  co_enc_group :: "SendGroupMsgRequest \<Rightarrow> string"
  co_dec_group :: "string \<Rightarrow> Status + SendGroupMsgRequest"
  co_enc_empty :: "unit \<Rightarrow> string"
  co_dec_empty :: "string \<Rightarrow> Status + unit"
  co_enc_response :: "MsgResponse \<Rightarrow> string"
  co_dec_response :: "string \<Rightarrow> Status + MsgResponse"
  co_enc_status :: "Status \<Rightarrow> string"
  co_dec_status :: "string \<Rightarrow> Status"

text \<open>What a server sends back: an encoded response, the trailers of a status, or the bare header
  \<open>grpc-status: 12\<close>.\<close>

datatype wire = Message string | Trailers string | Unimplemented

type_synonym 's server = "string \<Rightarrow> string \<Rightarrow> 's \<Rightarrow> wire \<times> 's"

text \<open>\<open>tonic::server::Grpc::unary\<close>: the body is decoded, the method runs, its answer is encoded.\<close>

definition unary ::
  "codec \<Rightarrow> (string \<Rightarrow> Status + 'q) \<Rightarrow> ('r \<Rightarrow> string) \<Rightarrow> ('q \<Rightarrow> 's \<Rightarrow> (Status + 'r) \<times> 's) \<Rightarrow> string \<Rightarrow> 's \<Rightarrow> wire \<times> 's" where
  "unary cd dec enc method body s =
     (case dec body of
        Inl st \<Rightarrow> (Trailers (co_enc_status cd st), s)
      | Inr req \<Rightarrow> (case method req s of
          (Inl st, t) \<Rightarrow> (Trailers (co_enc_status cd st), t)
        | (Inr r, t) \<Rightarrow> (Message (enc r), t)))"

section \<open>The servers\<close>

text \<open>A gateway: its connections and its channel of messages from clients.\<close>

record gateway =
  gw_manager :: manager
  gw_channel :: "Msg list"
  gw_closed :: bool

definition send_message_method :: "SendMsgRequest \<Rightarrow> gateway \<Rightarrow> (Status + unit) \<times> gateway" where
  "send_message_method req g =
     (case rpc_send_message (gw_closed g) req (gw_channel g) of (r, q) \<Rightarrow> (r, g\<lparr>gw_channel := q\<rparr>))"

definition send_msg_to_user_method :: "hub_env \<Rightarrow> SendMsgRequest \<Rightarrow> gateway \<Rightarrow> (Status + unit) \<times> gateway" where
  "send_msg_to_user_method henv req g =
     (case send_msg_to_user henv req (gw_manager g) of (r, mg) \<Rightarrow> (r, g\<lparr>gw_manager := mg\<rparr>))"

definition send_group_msg_to_user_method :: "hub_env \<Rightarrow> SendGroupMsgRequest \<Rightarrow> gateway \<Rightarrow> (Status + unit) \<times> gateway" where
  "send_group_msg_to_user_method henv req g =
     (case send_group_msg_to_user henv req (gw_manager g) of (r, mg) \<Rightarrow> (r, g\<lparr>gw_manager := mg\<rparr>))"

definition msg_service_call :: "codec \<Rightarrow> hub_env \<Rightarrow> gateway server" where
  "msg_service_call cd henv path body =
     (if path = ''/message.MsgService/SendMessage''
      then unary cd (co_dec_send cd) (co_enc_empty cd) send_message_method body
      else if path = ''/message.MsgService/SendMsgToUser''
      then unary cd (co_dec_send cd) (co_enc_empty cd) (send_msg_to_user_method henv) body
      else if path = ''/message.MsgService/SendGroupMsgToUser''
      then unary cd (co_dec_group cd) (co_enc_empty cd) (send_group_msg_to_user_method henv) body
      else Pair Unimplemented)"

text \<open>The chat service: the clock, the id and Kafka of one call, and the topic it writes to.\<close>

record producer_env =
  te_json :: "Msg \<Rightarrow> string"
  te_nanoid :: string
  te_now :: int
  te_kafka :: "string option"

definition chat_service_call :: "codec \<Rightarrow> producer_env \<Rightarrow> string list server" where
  "chat_service_call cd e path body =
     (if path = ''/message.ChatService/SendMsg''
      then unary cd (co_dec_send cd) (co_enc_response cd) (send_msg (te_json e) (te_nanoid e) (te_now e) (te_kafka e)) body
      else Pair Unimplemented)"

section \<open>The clients\<close>

text \<open>A method waits for the channel, calls its path and decodes what comes back; \<open>NotThere\<close> is the status
  the client makes of the bare header.\<close>

datatype 'r reply = Answer "Status + 'r" | NotThere

definition client_call ::
  "codec \<Rightarrow> string option \<Rightarrow> ('q \<Rightarrow> string) \<Rightarrow> (string \<Rightarrow> Status + 'r) \<Rightarrow> string \<Rightarrow> 's server \<Rightarrow> 'q \<Rightarrow> 's \<Rightarrow> 'r reply \<times> 's" where
  "client_call cd not_ready enc dec path server req s =
     (case not_ready of
        Some e \<Rightarrow> (Answer (Inl \<lparr>status_code = Unknown, status_message = ''Service was not ready: '' @ e,
                       status_details = ''''\<rparr>), s)
      | None \<Rightarrow> (case server path (enc req) s of
          (Message b, t) \<Rightarrow> (Answer (dec b), t)
        | (Trailers h, t) \<Rightarrow> (Answer (Inl (co_dec_status cd h)), t)
        | (Unimplemented, t) \<Rightarrow> (NotThere, t)))"

definition client_send_message :: "codec \<Rightarrow> string option \<Rightarrow> 's server \<Rightarrow> SendMsgRequest \<Rightarrow> 's \<Rightarrow> unit reply \<times> 's" where
  "client_send_message cd nr =
     client_call cd nr (co_enc_send cd) (co_dec_empty cd) ''/message.MsgService/SendMessage''"

definition client_send_msg_to_user :: "codec \<Rightarrow> string option \<Rightarrow> 's server \<Rightarrow> SendMsgRequest \<Rightarrow> 's \<Rightarrow> unit reply \<times> 's" where
  "client_send_msg_to_user cd nr =
     client_call cd nr (co_enc_send cd) (co_dec_empty cd) ''/message.MsgService/SendMsgToUser''"


definition client_send_msg :: "codec \<Rightarrow> string option \<Rightarrow> 's server \<Rightarrow> SendMsgRequest \<Rightarrow> 's \<Rightarrow> MsgResponse reply \<times> 's" where
  "client_send_msg cd nr =
     client_call cd nr (co_enc_send cd) (co_dec_response cd) ''/message.ChatService/SendMsg''"



section \<open>Calls arrive\<close>











text \<open>
  A call that does not arrive changes nothing: neither on a channel that is not ready, nor at
  the server of the other service, nor with a body that does not decode. A call that arrives and
  whose response does not decode is an error for the client and has been carried out all the same.
\<close>

theorem lost_call_changes_nothing:
  "snd (client_call cd (Some err) enc dec path server q s) = s
   \<and> client_send_msg cd None (msg_service_call cd henv) sq g = (NotThere, g)
   \<and> client_send_msg_to_user cd None (chat_service_call cd e) sq topic = (NotThere, topic)
   \<and> (co_dec_send cd body = Inl st \<longrightarrow> path \<noteq> ''/message.MsgService/SendGroupMsgToUser'' \<longrightarrow>
        snd (msg_service_call cd henv path body g) = g)
   \<and> (co_dec_send cd (co_enc_send cd sq) = Inr sq \<longrightarrow> send_message_method sq g = (Inr (), g') \<longrightarrow>
        co_dec_empty cd (co_enc_empty cd ()) = Inl st \<longrightarrow>
        client_send_message cd None (msg_service_call cd henv) sq g = (Answer (Inl st), g'))"
  by (simp add: client_call_def client_send_message_def client_send_msg_def client_send_msg_to_user_def msg_service_call_def
      chat_service_call_def unary_def)

section \<open>Witnesses\<close>

text \<open>A codec that knows every message: fields behind their length in unary.\<close>

fun pack :: "string list \<Rightarrow> string" where
  "pack [] = []"
| "pack (s # ss) = replicate (length s) (CHR ''1'') @ CHR ''0'' # s @ pack ss"

function unpack :: "string \<Rightarrow> string list" where
  "unpack s = (if s = [] then [] else
     let n = length (takeWhile (\<lambda>c. c = CHR ''1'') s); rest = drop (Suc n) s in take n rest # unpack (drop n rest))"
  by auto
termination by (relation "measure length") auto

declare unpack.simps [simp del]

lemma unpack_pack [simp]: "unpack (pack ss) = ss"
proof (induction ss)
  case (Cons s ss)
  have "takeWhile (\<lambda>c. c = CHR ''1'') (pack (s # ss)) = replicate (length s) (CHR ''1'')"
    by (simp add: takeWhile_append)
  with Cons show ?case by (subst unpack.simps) (simp add: Let_def)
qed (simp add: unpack.simps)

definition put_int :: "int \<Rightarrow> string" where
  "put_int i = (if i < 0 then CHR ''-'' else CHR ''+'') # replicate (nat \<bar>i\<bar>) (CHR ''1'')"

definition get_int :: "string \<Rightarrow> int" where
  "get_int s = (if hd s = CHR ''-'' then - int (length (tl s)) else int (length (tl s)))"

lemma get_put_int [simp]: "get_int (put_int i) = i"
  by (simp add: get_int_def put_int_def)

definition put_bool :: "bool \<Rightarrow> string" where
  "put_bool b = (if b then ''t'' else ''f'')"

lemma get_put_bool [simp]: "put_bool b = ''t'' \<longleftrightarrow> b"
  by (simp add: put_bool_def)

definition put_option :: "('a \<Rightarrow> string) \<Rightarrow> 'a option \<Rightarrow> string" where
  "put_option f x = (case x of None \<Rightarrow> pack [] | Some a \<Rightarrow> pack [f a])"

definition get_option :: "(string \<Rightarrow> 'a) \<Rightarrow> string \<Rightarrow> 'a option" where
  "get_option f s = (case unpack s of [] \<Rightarrow> None | a # _ \<Rightarrow> Some (f a))"

lemma get_put_option: "(\<And>a. g (f a) = a) \<Longrightarrow> get_option g (put_option f x) = x"
  by (cases x) (simp_all add: get_option_def put_option_def del: pack.simps)

definition put_msg :: "Msg \<Rightarrow> string" where
  "put_msg m = pack [sender_id m, receiver_id m, client_id m, server_id m, put_int (create_time m), put_int (send_time m),
     put_int (seq m), put_int (msg_type m), put_int (content_type m), content m, put_bool (is_read m), group_id m,
     put_int (platform m), avatar m, nickname m, put_option id (related_msg_id m), put_int (send_seq m)]"

definition get_msg :: "string \<Rightarrow> Msg" where
  "get_msg s = (let f = (\<lambda>i. unpack s ! i); n = (\<lambda>i. get_int (unpack s ! i)) in
     \<lparr>sender_id = f 0, receiver_id = f 1, client_id = f 2, server_id = f 3, create_time = n 4, send_time = n 5, seq = n 6,
      msg_type = n 7, content_type = n 8, content = f 9, is_read = (f 10 = ''t''), group_id = f 11, platform = n 12,
      avatar = f 13, nickname = f 14, related_msg_id = get_option id (f 15), send_seq = n 16\<rparr>)"

lemma get_put_msg [simp]: "get_msg (put_msg m) = m"
  by (simp add: get_msg_def put_msg_def Let_def get_put_option del: pack.simps)

definition put_seq :: "GroupMemSeq \<Rightarrow> string" where
  "put_seq g = pack [mem_id g, put_int (cur_seq g), put_int (max_seq g), put_bool (need_update g)]"

definition get_seq_entry :: "string \<Rightarrow> GroupMemSeq" where
  "get_seq_entry s = \<lparr>mem_id = unpack s ! 0, cur_seq = get_int (unpack s ! 1), max_seq = get_int (unpack s ! 2),
     need_update = (unpack s ! 3 = ''t'')\<rparr>"

lemma get_put_seq [simp]: "get_seq_entry (put_seq g) = g"
  by (simp add: get_seq_entry_def put_seq_def del: pack.simps)

definition put_code :: "Code \<Rightarrow> string" where
  "put_code c = (case c of Unknown \<Rightarrow> ''2'' | NotFoundCode \<Rightarrow> ''5'' | Unauthenticated \<Rightarrow> ''16'' | InvalidArgument \<Rightarrow> ''3''
     | Internal \<Rightarrow> ''13'')"

definition get_code :: "string \<Rightarrow> Code" where
  "get_code s = (if s = ''5'' then NotFoundCode else if s = ''16'' then Unauthenticated else if s = ''3'' then InvalidArgument
     else if s = ''13'' then Internal else Unknown)"

lemma get_put_code [simp]: "get_code (put_code c) = c"
  by (cases c) (simp_all add: get_code_def put_code_def)

definition demo_codec :: codec where
  "demo_codec = \<lparr>co_enc_send = (\<lambda>q. put_option put_msg (message q)),
     co_dec_send = (\<lambda>s. Inr \<lparr>message = get_option get_msg s\<rparr>),
     co_enc_group = (\<lambda>q. pack (put_option put_msg (group_message q) # map put_seq (members q))),
     co_dec_group = (\<lambda>s. Inr \<lparr>group_message = get_option get_msg (hd (unpack s)), members = map get_seq_entry (tl (unpack s))\<rparr>),
     co_enc_empty = (\<lambda>_. []), co_dec_empty = (\<lambda>_. Inr ()),
     co_enc_response = (\<lambda>r. pack [resp_client_id r, resp_server_id r, put_int (resp_send_time r), resp_err r]),
     co_dec_response = (\<lambda>s. Inr \<lparr>resp_client_id = unpack s ! 0, resp_server_id = unpack s ! 1,
        resp_send_time = get_int (unpack s ! 2), resp_err = unpack s ! 3\<rparr>),
     co_enc_status = (\<lambda>st. pack [put_code (status_code st), status_message st, status_details st]),
     co_dec_status = (\<lambda>s. \<lparr>status_code = get_code (unpack s ! 0), status_message = unpack s ! 1, status_details = unpack s ! 2\<rparr>)\<rparr>"




theorem lost_call_changes_nothing_witness:
  "client_send_msg demo_codec None (msg_service_call demo_codec demo_henv) \<lparr>message = None\<rparr>
      \<lparr>gw_manager = demo_manager, gw_channel = [], gw_closed = True\<rparr> =
    (NotThere, \<lparr>gw_manager = demo_manager, gw_channel = [], gw_closed = True\<rparr>)"
  by (rule lost_call_changes_nothing [THEN conjunct2, THEN conjunct1])

end
