(* ===== verification/Repos.thy ===== *)
theory Repos
  imports Friend_Graph Group_Repo Seq_Repo Config Consumer Files
begin

text \<open>
  The repository traits (\<open>db/src/{message,group,user,friend,seq}.rs\<close>) as records of
  operations, the objects the factories put behind them, and \<open>DbRepo\<close>, whose five repositories share one
  connection pool and so one database. A method takes what the outside world answers during the call
  (statements, clock, generated ids) as its first argument. A row of \<open>users\<close> is one row for all of them:
  what the user repository writes is what the friend and the group repository read.
\<close>

section \<open>The database behind the pool\<close>

text \<open>The tables; those of the friend and the group repository are kept without their view of \<open>users\<close>.\<close>

record pg =
  pg_users :: "User list"
  pg_sequence :: "SeqRow list"
  pg_friend :: friend_db
  pg_group :: group_db
  pg_messages :: "sql_row list"

definition user_card :: "User \<Rightarrow> UserCard" where
  "user_card u = \<lparr>uc_id = us_id u, uc_name = us_name u\<rparr>"

definition user_tables :: "pg \<Rightarrow> user_db" where
  "user_tables p = \<lparr>ud_users = pg_users p, ud_sequence = pg_sequence p\<rparr>"

definition friend_tables :: "pg \<Rightarrow> friend_db" where
  "friend_tables p = (pg_friend p)\<lparr>db_users := pg_users p\<rparr>"

definition group_tables :: "pg \<Rightarrow> group_db" where
  "group_tables p = (pg_group p)\<lparr>gd_users := map user_card (pg_users p)\<rparr>"

abbreviation on_users :: "(user_db, 'a) act \<Rightarrow> (pg, 'a) act" where
  "on_users m \<equiv> on_part user_tables (\<lambda>d p. p\<lparr>pg_users := ud_users d, pg_sequence := ud_sequence d\<rparr>) m"

abbreviation on_friends :: "(friend_db, 'a) act \<Rightarrow> (pg, 'a) act" where
  "on_friends m \<equiv> on_part friend_tables (\<lambda>d p. p\<lparr>pg_friend := d, pg_users := db_users d\<rparr>) m"

abbreviation on_groups :: "(group_db, 'a) act \<Rightarrow> (pg, 'a) act" where
  "on_groups m \<equiv> on_part group_tables (\<lambda>d p. p\<lparr>pg_group := d\<rparr>) m"

abbreviation on_sequence :: "(SeqRow list, 'a) act \<Rightarrow> (pg, 'a) act" where
  "on_sequence m \<equiv> on_part pg_sequence (\<lambda>d p. p\<lparr>pg_sequence := d\<rparr>) m"

abbreviation on_messages :: "(sql_row list, 'a) act \<Rightarrow> (pg, 'a) act" where
  "on_messages m \<equiv> on_part pg_messages (\<lambda>d p. p\<lparr>pg_messages := d\<rparr>) m"

section \<open>The traits\<close>

record 's MsgStoreRepo =
  ms_save_message :: "failure option \<Rightarrow> Msg \<Rightarrow> ('s, unit) act"

record 's SeqRepo =
  sr_save_send_max_seq :: "failure option \<Rightarrow> string \<Rightarrow> ('s, int) act"
  sr_save_max_seq :: "failure option \<Rightarrow> string \<Rightarrow> ('s, int) act"
  sr_save_max_seq_batch :: "failure option \<Rightarrow> string list \<Rightarrow> ('s, unit) act"
  sr_get_max_seq :: "failure option \<Rightarrow> 's \<Rightarrow> (string \<times> int \<times> int) list res option"

record 's UserRepo =
  ur_create_user :: "user_env \<Rightarrow> User \<Rightarrow> ('s, User) act"
  ur_get_user_by_id :: "user_env \<Rightarrow> string \<Rightarrow> ('s, User option) act"
  ur_get_user_by_email :: "user_env \<Rightarrow> string \<Rightarrow> ('s, User option) act"
  ur_search_user :: "user_env \<Rightarrow> string \<Rightarrow> string \<Rightarrow> ('s, UserWithMatchType option) act"
  ur_update_user :: "user_env \<Rightarrow> UserUpdate \<Rightarrow> ('s, User) act"
  ur_update_region :: "user_env \<Rightarrow> string \<Rightarrow> string \<Rightarrow> ('s, unit) act"
  ur_verify_pwd :: "user_env \<Rightarrow> string \<Rightarrow> string \<Rightarrow> ('s, User option) act"
  ur_modify_pwd :: "user_env \<Rightarrow> string \<Rightarrow> string \<Rightarrow> ('s, unit) act"
  ur_update_user_status :: "user_env \<Rightarrow> string \<Rightarrow> string \<Rightarrow> string option \<Rightarrow> ('s, unit) act"
  ur_update_login_info :: "user_env \<Rightarrow> string \<Rightarrow> string \<Rightarrow> ('s, unit) act"

record 's FriendRepo =
  frr_create_fs :: "friend_env \<Rightarrow> FsCreate \<Rightarrow> ('s, FriendshipWithUser \<times> FriendshipWithUser) act"
  frr_get_fs_list :: "friend_env \<Rightarrow> string \<Rightarrow> int \<Rightarrow> ('s, FriendshipWithUser list) act"
  frr_update_fs :: "friend_env \<Rightarrow> FsUpdate \<Rightarrow> ('s, FriendshipRow) act"
  frr_update_friend_remark :: "friend_env \<Rightarrow> string \<Rightarrow> string \<Rightarrow> string \<Rightarrow> ('s, FriendRow) act"
  frr_update_friend_status :: "friend_env \<Rightarrow> string \<Rightarrow> string \<Rightarrow> FriendshipStatus \<Rightarrow> ('s, FriendshipRow) act"
  frr_get_friend_list :: "friend_env \<Rightarrow> string \<Rightarrow> int \<Rightarrow> ('s, Friend list) act"
  frr_agree_friend_apply_request :: "friend_env \<Rightarrow> AgreeReply \<Rightarrow> ('s, Friend \<times> Friend) act"
  frr_delete_friend :: "friend_env \<Rightarrow> string \<Rightarrow> string \<Rightarrow> ('s, unit) act"
  frr_create_friend_group :: "friend_env \<Rightarrow> string \<Rightarrow> string \<Rightarrow> int \<Rightarrow> ('s, FriendGroup) act"
  frr_update_friend_group :: "friend_env \<Rightarrow> string \<Rightarrow> string \<Rightarrow> int \<Rightarrow> ('s, FriendGroup) act"
  frr_delete_friend_group :: "friend_env \<Rightarrow> string \<Rightarrow> ('s, unit) act"
  frr_get_friend_groups :: "friend_env \<Rightarrow> string \<Rightarrow> ('s, FriendGroup list) act"
  frr_assign_friend_to_group :: "friend_env \<Rightarrow> string \<Rightarrow> string \<Rightarrow> string \<Rightarrow> ('s, FriendRow) act"
  frr_create_friend_tag :: "friend_env \<Rightarrow> string \<Rightarrow> string \<Rightarrow> string \<Rightarrow> ('s, FriendTag) act"
  frr_delete_friend_tag :: "friend_env \<Rightarrow> string \<Rightarrow> ('s, unit) act"
  frr_get_friend_tags :: "friend_env \<Rightarrow> string \<Rightarrow> ('s, FriendTag list) act"
  frr_add_tags_to_friend :: "friend_env \<Rightarrow> string \<Rightarrow> string \<Rightarrow> string list \<Rightarrow> ('s, unit) act"
  frr_remove_tags_from_friend :: "friend_env \<Rightarrow> string \<Rightarrow> string \<Rightarrow> string list \<Rightarrow> ('s, unit) act"
  frr_update_friend_privacy :: "friend_env \<Rightarrow> string \<Rightarrow> string \<Rightarrow> FriendPrivacySettings \<Rightarrow> ('s, unit) act"
  frr_get_friend_privacy :: "friend_env \<Rightarrow> string \<Rightarrow> string \<Rightarrow> ('s, FriendPrivacySettings) act"
  frr_update_interaction_score :: "friend_env \<Rightarrow> string \<Rightarrow> string \<Rightarrow> f32 \<Rightarrow> ('s, f32) act"
  frr_get_interaction_stats :: "friend_env \<Rightarrow> string \<Rightarrow> string \<Rightarrow> ('s, f32 \<times> int \<times> int) act"

record 's GroupStoreRepo =
  gsr_get_group :: "group_env \<Rightarrow> string \<Rightarrow> string \<Rightarrow> ('s, GroupRow) act"
  gsr_get_group_and_members :: "group_env \<Rightarrow> string \<Rightarrow> string \<Rightarrow> ('s, GroupRow \<times> (MemberRow \<times> UserCard) list) act"
  gsr_get_members :: "group_env \<Rightarrow> string \<Rightarrow> string \<Rightarrow> string list \<Rightarrow> ('s, (MemberRow \<times> UserCard) list) act"
  gsr_create_group_with_members :: "group_env \<Rightarrow> GroupCreate \<Rightarrow> ('s, GroupRow \<times> MemberRow list) act"
  gsr_invite_new_members :: "group_env \<Rightarrow> GroupInviteNew \<Rightarrow> ('s, unit) act"
  gsr_remove_member :: "group_env \<Rightarrow> string \<Rightarrow> string \<Rightarrow> string list \<Rightarrow> ('s, unit) act"
  gsr_get_group_by_id :: "group_env \<Rightarrow> string \<Rightarrow> ('s, GroupRow) act"
  gsr_query_group_members_id :: "group_env \<Rightarrow> string \<Rightarrow> ('s, string list) act"
  gsr_query_group_members_by_group_id :: "group_env \<Rightarrow> string \<Rightarrow> ('s, (MemberRow \<times> UserCard) list) act"
  gsr_update_group :: "group_env \<Rightarrow> GroupUpdate \<Rightarrow> ('s, GroupRow) act"
  gsr_exit_group :: "group_env \<Rightarrow> string \<Rightarrow> string \<Rightarrow> ('s, unit) act"
  gsr_delete_group :: "group_env \<Rightarrow> string \<Rightarrow> string \<Rightarrow> ('s, GroupRow) act"
  gsr_update_group_settings :: "group_env \<Rightarrow> UpdateGroupRequest \<Rightarrow> ('s, GroupRow) act"
  gsr_update_member_settings :: "group_env \<Rightarrow> string \<Rightarrow> string \<Rightarrow> string \<Rightarrow> int \<Rightarrow> ('s, MemberRow) act"
  gsr_create_group_category :: "group_env \<Rightarrow> CreateGroupCategoryRequest \<Rightarrow> ('s, CategoryRow) act"
  gsr_update_group_category :: "group_env \<Rightarrow> CategoryRow \<Rightarrow> ('s, CategoryRow) act"
  gsr_delete_group_category :: "group_env \<Rightarrow> string \<Rightarrow> ('s, unit) act"
  gsr_get_group_categories :: "group_env \<Rightarrow> ('s, CategoryRow list) act"
  gsr_upload_group_file :: "group_env \<Rightarrow> GroupFileUploadRequest \<Rightarrow> ('s, FileRow) act"
  gsr_delete_group_file :: "group_env \<Rightarrow> string \<Rightarrow> string \<Rightarrow> ('s, unit) act"
  gsr_get_group_files :: "group_env \<Rightarrow> string \<Rightarrow> ('s, FileRow list) act"
  gsr_update_file_pin_status :: "group_env \<Rightarrow> string \<Rightarrow> bool \<Rightarrow> ('s, FileRow) act"
  gsr_create_poll :: "group_env \<Rightarrow> CreatePollRequest \<Rightarrow> ('s, PollRow) act"
  gsr_vote_poll :: "group_env \<Rightarrow> VotePollRequest \<Rightarrow> ('s, PollRow) act"
  gsr_close_poll :: "group_env \<Rightarrow> string \<Rightarrow> string \<Rightarrow> ('s, PollRow) act"
  gsr_get_group_polls :: "group_env \<Rightarrow> string \<Rightarrow> ('s, PollRow list) act"
  gsr_get_poll_details :: "group_env \<Rightarrow> string \<Rightarrow> ('s, PollRow) act"
  gsr_mute_group_member :: "group_env \<Rightarrow> MuteGroupMemberRequest \<Rightarrow> ('s, MuteRow) act"
  gsr_unmute_group_member :: "group_env \<Rightarrow> string \<Rightarrow> string \<Rightarrow> string \<Rightarrow> ('s, unit) act"
  gsr_get_group_muted_members :: "group_env \<Rightarrow> string \<Rightarrow> ('s, MuteRow list) act"
  gsr_create_announcement :: "group_env \<Rightarrow> CreateAnnouncementRequest \<Rightarrow> ('s, AnnouncementRow) act"
  gsr_delete_announcement :: "group_env \<Rightarrow> string \<Rightarrow> string \<Rightarrow> ('s, unit) act"
  gsr_get_group_announcements :: "group_env \<Rightarrow> string \<Rightarrow> ('s, AnnouncementRow list) act"
  gsr_pin_announcement :: "group_env \<Rightarrow> string \<Rightarrow> bool \<Rightarrow> ('s, AnnouncementRow) act"
  gsr_change_member_role :: "group_env \<Rightarrow> string \<Rightarrow> string \<Rightarrow> string \<Rightarrow> string \<Rightarrow> ('s, MemberRow) act"

section \<open>The Postgres repositories\<close>

definition PostgresMessage :: "pg MsgStoreRepo" where
  "PostgresMessage = \<lparr>ms_save_message = (\<lambda>out m. on_messages (save_message_pg out m))\<rparr>"

definition PostgresSeq :: "int \<Rightarrow> pg SeqRepo" where
  "PostgresSeq seq_step =
     \<lparr>sr_save_send_max_seq = (\<lambda>out u. on_sequence (save_send_max_seq seq_step out u)),
      sr_save_max_seq = (\<lambda>out u. on_sequence (save_max_seq seq_step out u)),
      sr_save_max_seq_batch = (\<lambda>out us. on_sequence (save_max_seq_batch seq_step out us)),
      sr_get_max_seq = (\<lambda>out p. get_max_seq out (pg_sequence p))\<rparr>"

definition PostgresUser :: "int \<Rightarrow> pg UserRepo" where
  "PostgresUser init_max_seq =
     \<lparr>ur_create_user = (\<lambda>env a. on_users (create_user env init_max_seq a)),
      ur_get_user_by_id = (\<lambda>env a. on_users (get_user_by_id env a)),
      ur_get_user_by_email = (\<lambda>env a. on_users (get_user_by_email env a)),
      ur_search_user = (\<lambda>env a b. on_users (search_user env a b)),
      ur_update_user = (\<lambda>env a. on_users (update_user env a)),
      ur_update_region = (\<lambda>env a b. on_users (update_region env a b)),
      ur_verify_pwd = (\<lambda>env a b. on_users (verify_pwd env a b)),
      ur_modify_pwd = (\<lambda>env a b. on_users (modify_pwd env a b)),
      ur_update_user_status = (\<lambda>env a b c. on_users (update_user_status env a b c)),
      ur_update_login_info = (\<lambda>env a b. on_users (update_login_info env a b))\<rparr>"

definition PostgresFriend :: "pg FriendRepo" where
  "PostgresFriend =
     \<lparr>frr_create_fs = (\<lambda>env a. on_friends (create_fs env a)),
      frr_get_fs_list = (\<lambda>env a b. on_friends (get_fs_list env a b)),
      frr_update_fs = (\<lambda>env a. on_friends (update_fs env a)),
      frr_update_friend_remark = (\<lambda>env a b c. on_friends (update_friend_remark env a b c)),
      frr_update_friend_status = (\<lambda>env a b c. on_friends (update_friend_status env a b c)),
      frr_get_friend_list = (\<lambda>env a b. on_friends (get_friend_list env a b)),
      frr_agree_friend_apply_request = (\<lambda>env a. on_friends (agree_friend_apply_request env a)),
      frr_delete_friend = (\<lambda>env a b. on_friends (delete_friend env a b)),
      frr_create_friend_group = (\<lambda>env a b c. on_friends (create_friend_group env a b c)),
      frr_update_friend_group = (\<lambda>env a b c. on_friends (update_friend_group env a b c)),
      frr_delete_friend_group = (\<lambda>env a. on_friends (delete_friend_group env a)),
      frr_get_friend_groups = (\<lambda>env a. on_friends (get_friend_groups env a)),
      frr_assign_friend_to_group = (\<lambda>env a b c. on_friends (assign_friend_to_group env a b c)),
      frr_create_friend_tag = (\<lambda>env a b c. on_friends (create_friend_tag env a b c)),
      frr_delete_friend_tag = (\<lambda>env a. on_friends (delete_friend_tag env a)),
      frr_get_friend_tags = (\<lambda>env a. on_friends (get_friend_tags env a)),
      frr_add_tags_to_friend = (\<lambda>env a b c. on_friends (add_tags_to_friend env a b c)),
      frr_remove_tags_from_friend = (\<lambda>env a b c. on_friends (remove_tags_from_friend env a b c)),
      frr_update_friend_privacy = (\<lambda>env a b c. on_friends (update_friend_privacy env a b c)),
      frr_get_friend_privacy = (\<lambda>env a b. on_friends (get_friend_privacy env a b)),
      frr_update_interaction_score = (\<lambda>env a b c. on_friends (update_interaction_score env a b c)),
      frr_get_interaction_stats = (\<lambda>env a b. on_friends (get_interaction_stats env a b))\<rparr>"

definition PostgresGroup :: "pg GroupStoreRepo" where
  "PostgresGroup =
     \<lparr>gsr_get_group = (\<lambda>env a b. on_groups (get_group env a b)),
      gsr_get_group_and_members = (\<lambda>env a b. on_groups (get_group_and_members env a b)),
      gsr_get_members = (\<lambda>env a b c. on_groups (get_members env a b c)),
      gsr_create_group_with_members = (\<lambda>env a. on_groups (create_group_with_members env a)),
      gsr_invite_new_members = (\<lambda>env a. on_groups (invite_new_members env a)),
      gsr_remove_member = (\<lambda>env a b c. on_groups (remove_member env a b c)),
      gsr_get_group_by_id = (\<lambda>env a. on_groups (get_group_by_id env a)),
      gsr_query_group_members_id = (\<lambda>env a. on_groups (query_group_members_id_db env a)),
      gsr_query_group_members_by_group_id = (\<lambda>env a. on_groups (query_group_members_by_group_id env a)),
      gsr_update_group = (\<lambda>env a. on_groups (update_group env a)),
      gsr_exit_group = (\<lambda>env a b. on_groups (exit_group env a b)),
      gsr_delete_group = (\<lambda>env a b. on_groups (delete_group env a b)),
      gsr_update_group_settings = (\<lambda>env a. on_groups (update_group_settings env a)),
      gsr_update_member_settings = (\<lambda>env a b c d. on_groups (update_member_settings env a b c d)),
      gsr_create_group_category = (\<lambda>env a. on_groups (create_group_category env a)),
      gsr_update_group_category = (\<lambda>env a. on_groups (update_group_category env a)),
      gsr_delete_group_category = (\<lambda>env a. on_groups (delete_group_category env a)),
      gsr_get_group_categories = (\<lambda>env. on_groups (get_group_categories env)),
      gsr_upload_group_file = (\<lambda>env a. on_groups (upload_group_file env a)),
      gsr_delete_group_file = (\<lambda>env a b. on_groups (delete_group_file env a b)),
      gsr_get_group_files = (\<lambda>env a. on_groups (get_group_files env a)),
      gsr_update_file_pin_status = (\<lambda>env a b. on_groups (update_file_pin_status env a b)),
      gsr_create_poll = (\<lambda>env a. on_groups (create_poll env a)),
      gsr_vote_poll = (\<lambda>env a. on_groups (vote_poll env a)),
      gsr_close_poll = (\<lambda>env a b. on_groups (close_poll env a b)),
      gsr_get_group_polls = (\<lambda>env a. on_groups (get_group_polls env a)),
      gsr_get_poll_details = (\<lambda>env a. on_groups (get_poll_details env a)),
      gsr_mute_group_member = (\<lambda>env a. on_groups (mute_group_member env a)),
      gsr_unmute_group_member = (\<lambda>env a b c. on_groups (unmute_group_member env a b c)),
      gsr_get_group_muted_members = (\<lambda>env a. on_groups (get_group_muted_members env a)),
      gsr_create_announcement = (\<lambda>env a. on_groups (create_announcement env a)),
      gsr_delete_announcement = (\<lambda>env a b. on_groups (delete_announcement env a b)),
      gsr_get_group_announcements = (\<lambda>env a. on_groups (get_group_announcements env a)),
      gsr_pin_announcement = (\<lambda>env a b. on_groups (pin_announcement env a b)),
      gsr_change_member_role = (\<lambda>env a b c d. on_groups (change_member_role env a b c d))\<rparr>"

section \<open>All repositories\<close>

record DbRepo =
  dr_msg :: "pg MsgStoreRepo"
  dr_group :: "pg GroupStoreRepo"
  dr_user :: "pg UserRepo"
  dr_friend :: "pg FriendRepo"
  dr_seq :: "pg SeqRepo"

text \<open>\<open>DbRepo::new\<close>: without a connection it panics; the users and the sequences take the step as configured.\<close>

definition DbRepo_new :: "(string \<Rightarrow> bool) \<Rightarrow> Config \<Rightarrow> DbRepo res" where
  "DbRepo_new connect config =
     (if \<not> connect (pg_url (db_postgres (cf_db config))) then Inl unwrapped
      else let seq_step = rd_seq_step (cf_redis config) in
        Inr \<lparr>dr_msg = PostgresMessage, dr_group = PostgresGroup, dr_user = PostgresUser seq_step,
             dr_friend = PostgresFriend, dr_seq = PostgresSeq seq_step\<rparr>)"

end
