(* ===== verification/Newcomers.thy ===== *)
theory Newcomers
  imports Repos Mailboxes Migrate
begin

text \<open>
  How the repositories behind one \<open>DbRepo\<close> and the cache work together for a new user: the rows
  \<open>create_user\<close> writes are those the consumer and the friend repository rely on, as long as all of them use
  the same step; and what happens with a configured step of 0, for which the cache, but not the
  repositories, puts a default.
\<close>

section \<open>Registration and the consumer\<close>

lemma DbRepo_new_Inr:
  assumes "DbRepo_new connect config = Inr repo"
  shows "dr_user repo = PostgresUser (rd_seq_step (cf_redis config))"
    "dr_seq repo = PostgresSeq (rd_seq_step (cf_redis config))"
    "dr_friend repo = PostgresFriend" "dr_group repo = PostgresGroup" "dr_msg repo = PostgresMessage"
  using assms by (auto simp: DbRepo_new_def Let_def split: if_splits)

lemma register_Inr:
  assumes "ur_create_user (PostgresUser n) env x p = (Inr a, p')"
  shows "us_id x \<notin> us_id ` set (pg_users p)" and "us_id x \<notin> sq_user_id ` set (pg_sequence p)"
    and "a = new_user_row (ue_now env) x"
    and "p' = p\<lparr>pg_users := pg_users p @ [a],
       pg_sequence := pg_sequence p @ [\<lparr>sq_user_id = us_id x, send_max_seq = n, rec_max_seq = n\<rparr>]\<rparr>"
proof -
  from assms obtain d where d: "create_user env n x (user_tables p) = (Inr a, d)"
      "p' = p\<lparr>pg_users := ud_users d, pg_sequence := ud_sequence d\<rparr>"
    by (auto simp: PostgresUser_def on_part_def split: prod.splits)
  note c = create_user_Inr [OF d(1)]
  show "us_id x \<notin> us_id ` set (pg_users p)" "us_id x \<notin> sq_user_id ` set (pg_sequence p)"
    "a = new_user_row (ue_now env) x"
    using c(1-3) by (simp_all add: user_tables_def)
  show "p' = p\<lparr>pg_users := pg_users p @ [a],
      pg_sequence := pg_sequence p @ [\<lparr>sq_user_id = us_id x, send_max_seq = n, rec_max_seq = n\<rparr>]\<rparr>"
    using c(3,4) d(2) by (simp add: user_tables_def)
qed

text \<open>A user nobody has written to has no numbers in the cache yet.\<close>

definition unnumbered :: "string \<Rightarrow> redis \<Rightarrow> bool" where
  "unnumbered u r \<longleftrightarrow> r_hash r (seq_key u) = Map.empty"

lemma unnumbered_numbers: "unnumbered u r \<Longrightarrow> cur_of (seq_key u) r = 0 \<and> lim_of step (seq_key u) r = step"
  by (simp add: unnumbered_def cur_of_def lim_of_def hget_def)

lemma rec_max_of_new:
  "u \<notin> sq_user_id ` set tbl \<Longrightarrow> rec_max_of (tbl @ [\<lparr>sq_user_id = u, send_max_seq = s, rec_max_seq = n\<rparr>]) v =
     (if v = u then Some n else rec_max_of tbl v)"
  by (induction tbl) (auto simp: rec_max_of_def)

lemma ready_newcomer:
  assumes "ready box_fine step people ros w" and "u \<notin> sq_user_id ` set (w_seq w)" and "unnumbered u (w_redis w)"
  shows "ready box_fine step (insert u people) ros
    (w\<lparr>w_seq := w_seq w @ [\<lparr>sq_user_id = u, send_max_seq = step, rec_max_seq = step\<rparr>]\<rparr>)"
  using assms unnumbered_numbers [OF assms(3), of step]
  by (auto simp: ready_def rec_synced_def rec_max_of_new seq_table_ok_def split: if_splits)

text \<open>
  C4. With the unsharded box (\<open>use_sharding\<close> off) a new user can be written to at once: whoever is registered through
  \<open>DbRepo\<close> while the consumer works with the configured step is one more user the consumer is ready for. After any
  queue of stored messages (\<open>postable\<close>: the numbered and stored single kinds and the group kinds that change no
  roster) consumed with all services up, the new user pulls, of those from others, exactly the ones addressed to it,
  alone or through a group, each once and numbered from 1. The sharded box does not give this, see
  \<open>Sharded_Box\<close>.
\<close>

theorem newcomer_gets_mail:
  assumes repo: "DbRepo_new connect config = Inr repo" "ur_create_user (dr_user repo) uenv x p = (Inr a, p')"
    and env: "ce_box env = legacy_ops None" "calls_up env" "\<forall>g. pe_push (ce_push env) g = None"
      "ce_step env = rd_seq_step (cf_redis config)" "0 < ce_step env"
    and w: "ready box_ok (ce_step env) people ros w" "w_seq w = pg_sequence p" "unnumbered (us_id x) (w_redis w)"
      "\<And>m. m \<in> set (msgs_of (w_box w)) \<Longrightarrow> receiver_id m \<noteq> us_id x"
    and queue: "room_for (ce_step env) (insert (us_id x) people) (length ps) (w_redis w)"
      "list_all2 (\<lambda>p m. ce_decode_msg env p = Inr m \<and> postable (insert (us_id x) people) ros m) ps ms"
    and cap: "int (length ps) \<le> cap" "cap < 2 ^ 63"
  shows "\<exists>w' xs. consume env (records k ps) \<lparr>cs_world = w\<lparr>w_seq := pg_sequence p'\<rparr>, cs_committed = k\<rparr> =
      \<lparr>cs_world = w', cs_committed = k + length ps\<rparr>
    \<and> box_get_msgs cap None (us_id x) 0 0 0 (cur_of (seq_key (us_id x)) (w_redis w')) (w_box w') = (Inr xs, w_box w')
    \<and> mset (filter (\<lambda>m. sender_id m \<noteq> us_id x) xs) =
        mset (filter (\<lambda>m. sender_id m \<noteq> us_id x) (letters_for ros (us_id x) 0 ms))"
proof -
  note reg = register_Inr [OF repo(2) [unfolded DbRepo_new_Inr [OF repo(1)]]]
  have seq: "pg_sequence p' = w_seq w @ [\<lparr>sq_user_id = us_id x, send_max_seq = ce_step env, rec_max_seq = ce_step env\<rparr>]"
    using reg(4) w(2) env(4) by simp
  have "us_id x \<notin> sq_user_id ` set (w_seq w)" using reg(2) w(2) by simp
  from ready_newcomer [OF w(1) this w(3)]
  have "ready box_ok (ce_step env) (insert (us_id x) people) ros (w\<lparr>w_seq := pg_sequence p'\<rparr>)" by (simp add: seq)
  then show ?thesis
    using env queue cap w(4) unnumbered_numbers [OF w(3)] by (intro pull_after_consume) auto
qed

section \<open>A configured step of 0\<close>

lemma zero_step_keeps_table:
  "preserves (\<lambda>tbl. tbl = tbl0) (save_max_seq 0 outage u)" "preserves (\<lambda>tbl. tbl = tbl0) (save_max_seq_batch 0 outage us)"
  by (rule preservesI, auto simp: save_max_seq_cases intro!: map_idI split: option.split)
     (rule preservesI, cases outage; auto simp: save_max_seq_batch_def intro!: map_idI)

lemma zero_step_handle_msg: "ce_step env = 0 \<Longrightarrow> w_seq (snd (handle_msg env payload w)) = w_seq w"
  using preservesD [OF handle_msg_preserves_seq [where J = "\<lambda>tbl. tbl = w_seq w" and env = env and payload = payload], of w]
    zero_step_keeps_table by simp

lemma zero_step_consume: "ce_step env = 0 \<Longrightarrow> w_seq (cs_world (consume env es s)) = w_seq (cs_world s)"
proof (induction es arbitrary: s)
  case (Cons e es)
  have "w_seq (cs_world (consume_event env e s)) = w_seq (cs_world s)"
  proof (cases e)
    case (Record off payload fails)
    then show ?thesis
      using zero_step_handle_msg [OF Cons.prems, of _ "cs_world s"]
      by (cases payload) (auto split: prod.splits sum.splits dest: arg_cong [where f = "\<lambda>x. w_seq (snd x)"])
  qed simp
  with Cons show ?case by simp
qed simp

text \<open>
  C12. A configured step of 0 makes receive numbers repeat. The cache puts its default of 5000, so
  messages are numbered as usual, but the repositories add the configured 0: however many messages the
  consumer handles and whichever calls fail, the table of maxima stays as it is. When the cache is lost
  after that and reloaded, every user's first number is the one it got first after the previous load.
\<close>

theorem zero_step_repeats_numbers:
  fixes s :: "'b consumer_state"
  assumes "ce_step env = 0" and "calls_up env" and "seq_table_ok (w_seq (cs_world s))" and "length (w_seq (cs_world s)) \<le> 1024"
    and "rec_max_of (w_seq (cs_world s)) u = Some m" and "i64_ok (m + 1)" and "i64_ok m"
  shows "w_seq (cs_world (consume env es s)) = w_seq (cs_world s)
    \<and> (\<exists>r. load_seq all_up (w_seq (cs_world (consume env es s))) redis_empty = Some (Inr (), r)
         \<and> (\<forall>w :: 'b world. w_redis w = r \<and> w_seq w = w_seq (cs_world (consume env es s))
              \<longrightarrow> fst (increase_message_seq env u w) = Inr (m + 1)))"
proof -
  note same = zero_step_consume [OF assms(1), of es s]
  obtain r where r: "load_seq all_up (w_seq (cs_world s)) redis_empty = Some (Inr (), r)"
    "cur_of (seq_key u) r = m" "lim_of 5000 (seq_key u) r = m"
    using reload_facts [OF assms(3,4), of 5000] assms(5) by auto
  have "fst (increase_message_seq env u w) = Inr (m + 1)"
    if "w_redis w = r" "w_seq w = w_seq (cs_world s)" for w :: "'b world"
    using that r(2,3) assms calls_upD(1) [OF assms(2)]
    by (simp add: increase_message_seq_def and_then_def on_part_eq increase_seq_def single_script_eq cache_step_def
        cache_seq_step_def DEFAULT_SEQ_STEP_def script_result_def Let_def save_max_seq_cases)
  with same r(1) show ?thesis by auto
qed

text \<open>A step other than 0 is the same everywhere: in the cache, in the rows of new users and in the
  windows the repository adds.\<close>

lemma steps_agree:
  assumes "DbRepo_new connect config = Inr repo" and "rd_seq_step (cf_redis config) \<noteq> 0"
    and "ur_create_user (dr_user repo) env x p = (Inr a, p')"
  shows "rec_max_of (pg_sequence p') (us_id x) = Some (cache_seq_step (rd_seq_step (cf_redis config)))"
    and "sr_save_max_seq (dr_seq repo) out u = on_sequence (save_max_seq (cache_seq_step (rd_seq_step (cf_redis config))) out u)"
  using register_Inr [OF assms(3) [unfolded DbRepo_new_Inr [OF assms(1)]]] assms(2)
  by (simp_all add: DbRepo_new_Inr [OF assms(1)] PostgresSeq_def cache_seq_step_def rec_max_of_new)

section \<open>Registration and friends\<close>

lemma friend_on_pg:
  assumes "m (friend_tables p) = (Inr a, d)" and "db_users d = pg_users p"
  shows "\<exists>p'. on_friends m p = (Inr a, p') \<and> friend_tables p' = d \<and> pg_users p' = pg_users p \<and> pg_sequence p' = pg_sequence p"
  using assms by (auto simp: on_part_def friend_tables_def)

text \<open>
  C24. Two newly registered users can become friends: after two registrations through \<open>DbRepo\<close> the
  friend repository of the same \<open>DbRepo\<close> stores the request of the first, accepts the answer of the
  second, and then lists each of them exactly once for the other; the sequence rows of both are still there.
\<close>

theorem registered_users_befriend:
  assumes repo: "DbRepo_new connect config = Inr repo"
    and reg: "ur_create_user (dr_user repo) uenv x p = (Inr x', p1)" "ur_create_user (dr_user repo) uenv' y p1 = (Inr y', p2)"
    and p: "users_sound (user_tables p)" "us_is_delete x' = False" "us_is_delete y' = False"
    and env: "fe_schema env = migrated" "\<And>n. fe_stmt env n = None" "fe_schema env' = migrated" "\<And>n. fe_stmt env' n = None"
      "t < fe_now env'"
    and c: "fc_user_id c = us_id x" "fc_friend_id c = us_id y" "ar_fs_id a = fe_nanoid env"
    and fresh: "find (same_pair (us_id x) (us_id y)) (db_friendships (pg_friend p)) = None"
      "fe_nanoid env \<notin> fp_id ` set (db_friendships (pg_friend p))"
      "\<not> list_ex (is_friend_row (us_id x) (us_id y)) (db_friends (pg_friend p))"
      "\<not> list_ex (is_friend_row (us_id y) (us_id x)) (db_friends (pg_friend p))"
  shows "\<exists>fs p3 fr p4 xs ys. frr_create_fs (dr_friend repo) env c p2 = (Inr fs, p3)
    \<and> frr_agree_friend_apply_request (dr_friend repo) env' a p3 = (Inr fr, p4)
    \<and> fst (frr_get_friend_list (dr_friend repo) env' (us_id x) t p4) = Inr xs \<and> length (filter (\<lambda>z. fd_friend_id z = us_id y) xs) = 1
    \<and> fst (frr_get_friend_list (dr_friend repo) env' (us_id y) t p4) = Inr ys \<and> length (filter (\<lambda>z. fd_friend_id z = us_id x) ys) = 1
    \<and> {us_id x, us_id y} \<subseteq> sq_user_id ` set (pg_sequence p4)"
proof -
  note r1 = register_Inr [OF reg(1) [unfolded DbRepo_new_Inr [OF repo]]]
  note r2 = register_Inr [OF reg(2) [unfolded DbRepo_new_Inr [OF repo]]]
  have ids: "us_id x' = us_id x" "us_id y' = us_id y" using r1(3) r2(3) by simp_all
  have users: "pg_users p2 = pg_users p @ [x', y']" "pg_friend p2 = pg_friend p"
    "{us_id x, us_id y} \<subseteq> sq_user_id ` set (pg_sequence p2)"
    using r1(4) r2(4) by auto
  have known: "distinct (map us_id (db_users (friend_tables p2)))" "x' \<in> set (db_users (friend_tables p2))"
      "y' \<in> set (db_users (friend_tables p2))" "us_id x' \<noteq> us_id y'"
    using p(1) r1(1,4) r2(1) ids users by (auto simp: friend_tables_def users_sound_def user_tables_def)
  have tabs: "db_friendships (friend_tables p2) = db_friendships (pg_friend p)" "db_friends (friend_tables p2) = db_friends (pg_friend p)"
    using users by (simp_all add: friend_tables_def)
  obtain fs where fs: "create_fs env c (friend_tables p2) = (Inr fs, requested env c (friend_tables p2))"
    using request_stored [OF env(1,2) known, of c] c fresh(1,2) by (auto simp: ids tabs)
  then obtain p3 where p3: "frr_create_fs (dr_friend repo) env c p2 = (Inr fs, p3)"
      "friend_tables p3 = requested env c (friend_tables p2)" "pg_users p3 = pg_users p2" "pg_sequence p3 = pg_sequence p2"
    using friend_on_pg [of "create_fs env c" p2, OF fs] by (auto simp: DbRepo_new_Inr [OF repo] PostgresFriend_def friend_tables_def)
  let ?r = "accepted_row (fe_now env') a (new_request env c)"
  obtain fr where fr: "agree_friend_apply_request env' a (friend_tables p3) = (Inr fr, befriended env' ?r (friend_tables p3))"
    using request_accepted [OF env(3,4) known, of c a env] c fresh(2) by (auto simp: ids tabs p3(2))
  then obtain p4 where p4: "frr_agree_friend_apply_request (dr_friend repo) env' a p3 = (Inr fr, p4)"
      "friend_tables p4 = befriended env' ?r (friend_tables p3)" "pg_sequence p4 = pg_sequence p3"
    using friend_on_pg [of "agree_friend_apply_request env' a" p3, OF fr] by (auto simp: DbRepo_new_Inr [OF repo] PostgresFriend_def friend_tables_def)
  have "fp_user_id ?r = us_id x'" "fp_friend_id ?r = us_id y'" by (simp_all add: c ids)
  note listed = befriended_listed [OF env(3,4,5), of "requested env c (friend_tables p2)", unfolded requested_sel tabs,
      OF known _ _ this, unfolded ids, OF _ _ fresh(3,4)]
  from listed(1) listed(2) p(2,3) obtain xs ys where
    "fst (frr_get_friend_list (dr_friend repo) env' (us_id x) t p4) = Inr xs" "length (filter (\<lambda>z. fd_friend_id z = us_id y) xs) = 1"
    "fst (frr_get_friend_list (dr_friend repo) env' (us_id y) t p4) = Inr ys" "length (filter (\<lambda>z. fd_friend_id z = us_id x) ys) = 1"
    by (auto simp: DbRepo_new_Inr [OF repo] PostgresFriend_def on_part_eq p4(2) p3(2))
  moreover have "{us_id x, us_id y} \<subseteq> sq_user_id ` set (pg_sequence p4)" using users(3) p3(4) p4(3) by simp
  ultimately show ?thesis using p3(1) p4(1) by blast
qed

section \<open>Witnesses\<close>

definition step_config :: "int \<Rightarrow> Config" where
  "step_config n = (demo_config None None)\<lparr>cf_redis := \<lparr>rd_host = ''127.0.0.1'', rd_port = 6379, rd_seq_step = n\<rparr>\<rparr>"

lemma step_config_repo [simp]:
  "DbRepo_new (\<lambda>_. True) (step_config n) = Inr \<lparr>dr_msg = PostgresMessage, dr_group = PostgresGroup,
     dr_user = PostgresUser n, dr_friend = PostgresFriend, dr_seq = PostgresSeq n\<rparr>"
  "rd_seq_step (cf_redis (step_config n)) = n"
  by (simp_all add: DbRepo_new_def step_config_def)

definition demo_pg :: "string list \<Rightarrow> pg" where
  "demo_pg us = \<lparr>pg_users = map demo_user us,
     pg_sequence = map (\<lambda>u. \<lparr>sq_user_id = u, send_max_seq = 5, rec_max_seq = 5\<rparr>) us,
     pg_friend = demo_friend_db\<lparr>db_users := []\<rparr>, pg_group = demo_group_db, pg_messages = []\<rparr>"

lemma demo_registers:
  "u \<notin> set us \<Longrightarrow> ur_create_user (PostgresUser 5) demo_user_env (demo_user u) (demo_pg us) =
     (Inr (new_user_row 7 (demo_user u)), (demo_pg us)\<lparr>pg_users := pg_users (demo_pg us) @ [new_user_row 7 (demo_user u)],
        pg_sequence := pg_sequence (demo_pg us) @ [\<lparr>sq_user_id = u, send_max_seq = 5, rec_max_seq = 5\<rparr>]\<rparr>)"
  by (auto simp: PostgresUser_def on_part_def user_tables_def demo_pg_def create_user_def transaction_def and_then_def
      insert_user_def fetch_one_def insert_sequence_def Let_def)

lemma newcomer_ready_before:
  "ready box_ok 5 {''a'', ''c''} office_ros (office_world\<lparr>w_seq := pg_sequence (demo_pg [''a'', ''c''])\<rparr>)"
proof -
  have "roster g (office_world\<lparr>w_seq := tbl\<rparr>) = office_ros g" for g tbl by (simp add: office_ros_def)
  moreover have "seq_wf 5 redis_empty" by (simp add: redis_empty_wf)
  ultimately show ?thesis
    by (simp add: ready_def seq_table_ok_def rec_synced_def rec_max_of_def demo_pg_def office_facts box_ok_def)
       (simp add: office_world_def)
qed

lemma unnumbered_empty: "unnumbered u redis_empty"
  by (simp add: unnumbered_def redis_empty_def)

theorem newcomer_gets_mail_witness:
  "\<exists>p' w' xs. ur_create_user (PostgresUser 5) demo_user_env (demo_user ''b'') (demo_pg [''a'', ''c'']) =
      (Inr (new_user_row 7 (demo_user ''b'')), p')
    \<and> consume office_env (records 0 office_queue) \<lparr>cs_world = office_world\<lparr>w_seq := pg_sequence p'\<rparr>, cs_committed = 0\<rparr> =
      \<lparr>cs_world = w', cs_committed = 3\<rparr>
    \<and> box_get_msgs 1000 None ''b'' 0 0 0 (cur_of (seq_key ''b'') (w_redis w')) (w_box w') = (Inr xs, w_box w')
    \<and> image_mset seq (mset (filter (\<lambda>m. sender_id m \<noteq> ''b'') xs)) = {#1, 2, 3#}"
proof -
  have ids: "insert ''b'' {''a'', ''c''} = office_people" by auto
  define p' where "p' = snd (ur_create_user (PostgresUser 5) demo_user_env (demo_user ''b'') (demo_pg [''a'', ''c'']))"
  have reg: "ur_create_user (PostgresUser 5) demo_user_env (demo_user ''b'') (demo_pg [''a'', ''c'']) =
      (Inr (new_user_row 7 (demo_user ''b'')), p')" by (simp add: p'_def demo_registers)
  obtain w' xs where w': "consume office_env (records 0 office_queue)
        \<lparr>cs_world = office_world\<lparr>w_seq := pg_sequence p'\<rparr>, cs_committed = 0\<rparr> = \<lparr>cs_world = w', cs_committed = 3\<rparr>"
    "box_get_msgs 1000 None ''b'' 0 0 0 (cur_of (seq_key ''b'') (w_redis w')) (w_box w') = (Inr xs, w_box w')"
    and xs: "mset (filter (\<lambda>m. sender_id m \<noteq> ''b'') xs) = mset (letters_for office_ros ''b'' 0 office_msgs)"
    using newcomer_gets_mail [OF step_config_repo(1) [of 5], of demo_user_env "demo_user ''b''" "demo_pg [''a'', ''c'']"
        "new_user_row 7 (demo_user ''b'')" p' office_env "{''a'', ''c''}" office_ros
        "office_world\<lparr>w_seq := pg_sequence (demo_pg [''a'', ''c''])\<rparr>" office_queue office_msgs 1000 0]
      reg newcomer_ready_before office_room office_decodes
    by (auto simp: office_facts office_letters(2) msgs_of_def ids unnumbered_empty)
  have "image_mset seq (mset (letters_for office_ros ''b'' 0 office_msgs)) = {#1, 2, 3#}"
    using arg_cong [OF office_letters(1), of mset] by simp
  with w' xs reg show ?thesis by (intro exI [of _ p'] exI [of _ w'] exI [of _ xs]) simp
qed

theorem zero_step_repeats_numbers_witness:
  "\<exists>r. load_seq all_up (w_seq (cs_world (consume (office_env\<lparr>ce_step := 0\<rparr>) (records 0 office_queue)
       \<lparr>cs_world = office_world, cs_committed = 0\<rparr>))) redis_empty = Some (Inr (), r)
    \<and> fst (increase_message_seq (office_env\<lparr>ce_step := 0\<rparr>) ''b'' (office_world\<lparr>w_redis := r\<rparr>)) = Inr 6"
  using zero_step_repeats_numbers [of "office_env\<lparr>ce_step := 0\<rparr>" "\<lparr>cs_world = office_world, cs_committed = 0\<rparr>" "''b''" 5
      "records 0 office_queue"] office_facts(2)
  by (auto simp: calls_up_def office_world_def seq_table_ok_def rec_max_of_def i64_ok_def)

theorem registered_users_befriend_witness:
  "\<exists>fs p3 fr p4 xs. frr_create_fs PostgresFriend demo_friend_env demo_request
       (snd (ur_create_user (PostgresUser 5) demo_user_env (demo_user ''a'')
         (snd (ur_create_user (PostgresUser 5) demo_user_env (demo_user ''b'') (demo_pg []))))) = (Inr fs, p3)
    \<and> frr_agree_friend_apply_request PostgresFriend demo_friend_env (demo_reply ''fs1'') p3 = (Inr fr, p4)
    \<and> fst (frr_get_friend_list PostgresFriend demo_friend_env ''b'' 0 p4) = Inr xs
    \<and> length (filter (\<lambda>z. fd_friend_id z = ''a'') xs) = 1"
proof -
  let ?p1 = "snd (ur_create_user (PostgresUser 5) demo_user_env (demo_user ''b'') (demo_pg []))"
  let ?p2 = "snd (ur_create_user (PostgresUser 5) demo_user_env (demo_user ''a'') ?p1)"
  have "ur_create_user (PostgresUser 5) demo_user_env (demo_user ''b'') (demo_pg []) = (Inr (new_user_row 7 (demo_user ''b'')), ?p1)"
    by (simp add: demo_registers)
  moreover have "ur_create_user (PostgresUser 5) demo_user_env (demo_user ''a'') ?p1 = (Inr (new_user_row 7 (demo_user ''a'')), ?p2)"
    by (simp add: demo_registers demo_pg_def) (simp add: PostgresUser_def on_part_def user_tables_def create_user_def
        transaction_def and_then_def insert_user_def fetch_one_def insert_sequence_def Let_def)
  moreover have "users_sound (user_tables (demo_pg []))" by (simp add: users_sound_def user_tables_def demo_pg_def)
  ultimately show ?thesis
    using registered_users_befriend [OF step_config_repo(1) [of 5], of demo_user_env "demo_user ''b''" "demo_pg []"
        "new_user_row 7 (demo_user ''b'')" ?p1 demo_user_env "demo_user ''a''" "new_user_row 7 (demo_user ''a'')" ?p2
        demo_friend_env demo_friend_env 0 demo_request "demo_reply ''fs1''"]
    by (auto simp: demo_pg_def new_user_row_def)
qed

end
