(* ===== verification/Services.thy ===== *)
theory Services
  imports Repos Startup
begin

text \<open>
  How the servers come up: the Kafka clients and their settings, \<open>ConsumerService::new\<close>, \<open>ChatRpcService::start\<close>
  (\<open>msg_server\<close>), \<open>PusherService::new\<close>, \<open>MsgRpcService::start\<close>, \<open>Manager::new\<close> and \<open>WsServer::start\<close>
  (\<open>msg_gateway\<close>), \<open>AppState::new\<close> and \<open>start\<close> (\<open>api/src/lib.rs\<close>), and the channels they are given
  (\<open>utils/src/lib.rs\<close>). What the outside world answers is one record; what a start leaves behind is the
  registry, the bound sockets, the topics, the receive boxes and the object store. A server that serves has
  returned the address it listens on.
\<close>

section \<open>The outside world\<close>

text \<open>\<open>ox_xdb\<close> says of a file whether the region library \<open>xdb\<close> loads it; its \<open>searcher_init\<close> panics when it cannot.\<close>

record outside =
  ox_xdb :: "string \<Rightarrow> bool"
  ox_pg :: "string \<Rightarrow> bool"
  ox_redis :: "string \<Rightarrow> bool"
  ox_mongo :: "string \<Rightarrow> bool"
  ox_index :: bool
  ox_shard :: shard_env
  ox_center :: "string \<Rightarrow> 16 word \<Rightarrow> string + unit"
  ox_scheme :: "string \<Rightarrow> int"
  ox_connect :: "string \<Rightarrow> unit res"
  ox_hostname :: "string res"
  ox_accept :: "ServiceInstance \<Rightarrow> bool"
  ox_producer :: "(string \<times> string) list \<Rightarrow> bool"
  ox_consumer :: "(string \<times> string) list \<Rightarrow> bool"
  ox_subscribe :: "string \<Rightarrow> bool"
  ox_admin_connect :: "kafka_error option"
  ox_admin :: admin
  ox_s3 :: s3_client
  ox_avatar_order :: "(string \<times> string) list"
  ox_url :: "string \<Rightarrow> bool"
  ox_addr :: "string \<Rightarrow> bool"
  ox_bind :: "string \<Rightarrow> bool"

record system =
  sy_registry :: "ServiceInstance list"
  sy_bound :: "string list"
  sy_topics :: "string list"
  sy_boxes :: boxes
  sy_s3 :: s3

text \<open>\<open>unwrap\<close> and \<open>expect\<close> on something that has no error worth keeping.\<close>

definition must :: "string \<Rightarrow> bool \<Rightarrow> (system, unit) act" where
  "must p b = (if b then ok () else fail (Panicked p))"

definition expect :: "string \<Rightarrow> (system, 'a) act \<Rightarrow> (system, 'a) act" where
  "expect p m s = (case m s of (Inl (Failed e), t) \<Rightarrow> (Inl (Panicked p), t) | r \<Rightarrow> r)"

text \<open>A socket is bound once; a second server on the same address fails.\<close>

definition bind_socket :: "outside \<Rightarrow> string \<Rightarrow> (system, unit) act" where
  "bind_socket env a w =
     (if ox_bind env a \<and> a \<notin> set (sy_bound w) then (Inr (), w\<lparr>sy_bound := a # sy_bound w\<rparr>) else (Inl unwrapped, w))"

text \<open>\<open>Server::builder().serve(addr.parse().unwrap()).await.unwrap()\<close>.\<close>

definition serve_at :: "outside \<Rightarrow> string \<Rightarrow> (system, string) act" where
  "serve_at env a =
     and_then (must ''called Result::unwrap() on an Err value'' (ox_addr env a)) (\<lambda>_.
     and_then (bind_socket env a) (\<lambda>_. ok a))"

definition announce :: "outside \<Rightarrow> Config \<Rightarrow> Component \<Rightarrow> (system, unit) act" where
  "announce env config com w =
     (case register_service (ox_scheme env) (ox_connect env) (ox_hostname env) (ox_accept env) config com of
        Inl e \<Rightarrow> (Inl e, w)
      | Inr s \<Rightarrow> (Inr (), w\<lparr>sy_registry := sy_registry w @ [s]\<rparr>))"

section \<open>Channels\<close>

text \<open>\<open>get_chan_\<close> needs the registry only to be built; the subscription runs on its own.\<close>

definition get_chan :: "outside \<Rightarrow> Config \<Rightarrow> string \<Rightarrow> (system, string) act" where
  "get_chan env config name =
     (case ox_center env (sc_host (cf_service_center config)) (sc_port (cf_service_center config)) of
        Inl e \<Rightarrow> fail (Failed (internal_with_details e))
      | Inr _ \<Rightarrow> ok name)"

text \<open>\<open>get_rpc_client\<close>: a client is its channel, whichever \<open>ClientFactory\<close> makes it.\<close>

definition get_rpc_client :: "outside \<Rightarrow> Config \<Rightarrow> string \<Rightarrow> (system, string) act" where
  "get_rpc_client env config service_name = and_then (get_chan env config service_name) (\<lambda>channel. ok channel)"

definition center_client :: "outside \<Rightarrow> Config \<Rightarrow> bool" where
  "center_client env config \<longleftrightarrow>
     \<not> isl (ox_center env (sc_host (cf_service_center config)) (sc_port (cf_service_center config)))"

text \<open>\<open>start_register_center\<close>.\<close>

definition start_register_center :: "outside \<Rightarrow> Config \<Rightarrow> (system, string) act" where
  "start_register_center env config =
     serve_at env (host_port (sc_host (cf_service_center config)) (sc_port (cf_service_center config)))"

section \<open>The Kafka clients\<close>

fun join_comma :: "string list \<Rightarrow> string" where
  "join_comma [] = []"
| "join_comma [h] = h"
| "join_comma (h # hs) = h @ '','' @ join_comma hs"

definition producer_settings :: "Config \<Rightarrow> (string \<times> string) list" where
  "producer_settings config =
     (let k = cf_kafka config; p = kf_producer k in
      [(''bootstrap.servers'', join_comma (kf_hosts k)),
       (''message.timeout.ms'', show_nat (unat (kp_timeout p))),
       (''socket.timeout.ms'', show_nat (unat (kf_connect_timeout k))),
       (''acks'', kp_acks p),
       (''enable.idempotence'', ''true''),
       (''retries'', show_nat (unat (kp_max_retry p))),
       (''retry.backoff.ms'', show_nat (unat (kp_retry_interval p)))])"

definition consumer_settings :: "Config \<Rightarrow> (string \<times> string) list" where
  "consumer_settings config =
     (let k = cf_kafka config; c = kf_consumer k in
      [(''group.id'', kf_group k),
       (''bootstrap.servers'', join_comma (kf_hosts k)),
       (''enable.auto.commit'', ''false''),
       (''session.timeout.ms'', show_nat (unat (kc_session_timeout c))),
       (''socket.timeout.ms'', show_nat (unat (kf_connect_timeout k))),
       (''enable.partition.eof'', ''false''),
       (''auto.offset.reset'', kc_auto_offset_reset c)])"

definition ensure_topic :: "outside \<Rightarrow> Config \<Rightarrow> (system, unit) act" where
  "ensure_topic env config w =
     (case ensure_topic_exists (ox_admin_connect env) (ox_admin env) (kf_topic (cf_kafka config)) (sy_topics w) of
        (Inl _, ts) \<Rightarrow> (Inl (Panicked ''Topic creation error''), w\<lparr>sy_topics := ts\<rparr>)
      | (Inr _, ts) \<Rightarrow> (Inr (), w\<lparr>sy_topics := ts\<rparr>))"

text \<open>\<open>ChatRpcService::start\<close>: announced to the registry before the socket is bound.\<close>

definition chat_server_start :: "outside \<Rightarrow> Config \<Rightarrow> (system, string) act" where
  "chat_server_start env config =
     and_then (must ''Producer creation error'' (ox_producer env (producer_settings config))) (\<lambda>_.
     and_then (ensure_topic env config) (\<lambda>_.
     and_then (expect ''Service register error'' (announce env config MessageServer)) (\<lambda>_.
     serve_at env (rpc_server_url (rpc_chat (cf_rpc config))))))"

section \<open>Repositories, cache and boxes\<close>

definition open_db :: "outside \<Rightarrow> Config \<Rightarrow> (system, DbRepo) act" where
  "open_db env config w = (DbRepo_new (ox_pg env) config, w)"

text \<open>\<open>cache::cache\<close>: the step the scripts are called with.\<close>

definition open_cache :: "outside \<Rightarrow> Config \<Rightarrow> (system, int) act" where
  "open_cache env config =
     and_then (must ''called Result::unwrap() on an Err value'' (ox_redis env (redis_url (cf_redis config))))
       (\<lambda>_. ok (cache_seq_step (rd_seq_step (cf_redis config))))"

text \<open>\<open>HybridShardedMsgBox::from_config\<close> logs what goes wrong with its collections, \<open>MsgBox::from_config\<close> unwraps
  its indexes.\<close>

definition open_box :: "outside \<Rightarrow> Config \<Rightarrow> (system, box_choice) act" where
  "open_box env config =
     and_then (must ''called Result::unwrap() on an Err value'' (ox_mongo env (mg_url (db_mongodb (cf_db config))))) (\<lambda>_.
     case msg_rec_box_repo config of
       ShardedBox n \<Rightarrow> (\<lambda>w. (Inr (ShardedBox n), w\<lparr>sy_boxes := (sy_boxes w)\<lparr>bx_sharded :=
           snd (initialize_system ((ox_shard env)\<lparr>se_shards := n\<rparr>) (bx_sharded (sy_boxes w)))\<rparr>\<rparr>))
     | LegacyBox \<Rightarrow>
         and_then (must ''called Result::unwrap() on an Err value'' (ox_index env)) (\<lambda>_. ok LegacyBox))"

text \<open>\<open>PusherService::new\<close>.\<close>

definition push_service :: "outside \<Rightarrow> Config \<Rightarrow> (system, string) act" where
  "push_service env config =
     and_then (unwrap_act (get_chan env config (rs_name (rpc_ws (cf_rpc config))))) (\<lambda>name.
     and_then (must ''called Result::unwrap() on an Err value'' (center_client env config)) (\<lambda>_. ok name))"

record ConsumerService =
  co_topic :: string
  co_db :: DbRepo
  co_box :: box_choice
  co_pusher :: string
  co_cache_step :: int
  co_seq_step :: int

definition consumer_new :: "outside \<Rightarrow> Config \<Rightarrow> (system, ConsumerService) act" where
  "consumer_new env config =
     and_then (must ''Consumer creation failed'' (ox_consumer env (consumer_settings config))) (\<lambda>_.
     and_then (must ''Can't subscribe to specified topic'' (ox_subscribe env (kf_topic (cf_kafka config)))) (\<lambda>_.
     and_then (push_service env config) (\<lambda>pusher.
     and_then (open_db env config) (\<lambda>db.
     and_then (open_cache env config) (\<lambda>cache_step.
     and_then (open_box env config) (\<lambda>box.
       ok \<lparr>co_topic = kf_topic (cf_kafka config), co_db = db, co_box = box, co_pusher = pusher,
           co_cache_step = cache_step, co_seq_step = rd_seq_step (cf_redis config)\<rparr>))))))"

section \<open>The gateway\<close>

definition msg_rpc_start :: "outside \<Rightarrow> Config \<Rightarrow> (system, string) act" where
  "msg_rpc_start env config =
     and_then (announce env config MessageGateway) (\<lambda>_. serve_at env (rpc_server_url (rpc_ws (cf_rpc config))))"

definition manager_new :: "outside \<Rightarrow> Config \<Rightarrow> (system, int \<times> string) act" where
  "manager_new env config =
     and_then (open_cache env config) (\<lambda>cache_step.
     and_then (expect ''chat rpc can't open'' (get_rpc_client env config (rs_name (rpc_chat (cf_rpc config)))))
       (\<lambda>chat_rpc. ok (cache_step, chat_rpc)))"

definition ws_register :: "outside \<Rightarrow> Config \<Rightarrow> (system, unit) act" where
  "ws_register env config w =
     (case ws_register_service (ox_scheme env) (\<lambda>a. ox_connect env a = Inr ()) (ox_hostname env) (ox_accept env) config of
        Inl e \<Rightarrow> (Inl e, w)
      | Inr s \<Rightarrow> (Inr (), w\<lparr>sy_registry := sy_registry w @ [s]\<rparr>))"

text \<open>\<open>WsServer::start\<close> up to the \<open>select!\<close>: the websocket server is bound before it is announced; the RPC server
  runs as a task of its own.\<close>

definition ws_server_start :: "outside \<Rightarrow> Config \<Rightarrow> (system, string \<times> string) act" where
  "ws_server_start env config =
     and_then (manager_new env config) (\<lambda>_.
     let addr = host_port (ws_host (cf_websocket config)) (ws_port (cf_websocket config)) in
     and_then (bind_socket env addr) (\<lambda>_.
     and_then (unwrap_act (ws_register env config)) (\<lambda>_.
     and_then (unwrap_act (msg_rpc_start env config)) (\<lambda>rpc. ok (addr, rpc)))))"

section \<open>The API server\<close>

record BasicClient =
  bc_client_id :: string
  bc_client_secret :: "string option"
  bc_auth_url :: string
  bc_token_url :: "string option"
  bc_redirect_url :: "string option"

record OAuth2Clients =
  oc_github :: BasicClient
  oc_google :: BasicClient

definition init_oauth2_client :: "outside \<Rightarrow> OAuth2Item \<Rightarrow> (system, BasicClient) act" where
  "init_oauth2_client env c =
     and_then (must ''called Result::unwrap() on an Err value'' (ox_url env (oa_auth_url c))) (\<lambda>_.
     and_then (must ''called Result::unwrap() on an Err value'' (ox_url env (oa_token_url c))) (\<lambda>_.
     and_then (must ''called Result::unwrap() on an Err value'' (ox_url env (oa_redirect_url c))) (\<lambda>_.
       ok \<lparr>bc_client_id = oa_client_id c, bc_client_secret = Some (oa_client_secret c), bc_auth_url = oa_auth_url c,
           bc_token_url = Some (oa_token_url c), bc_redirect_url = Some (oa_redirect_url c)\<rparr>)))"

definition init_oauth2 :: "outside \<Rightarrow> Config \<Rightarrow> (system, OAuth2Clients) act" where
  "init_oauth2 env config =
     and_then (init_oauth2_client env (oa_google (sv_oauth2 (cf_server config)))) (\<lambda>google.
     and_then (init_oauth2_client env (oa_github (sv_oauth2 (cf_server config)))) (\<lambda>github.
       ok \<lparr>oc_github = github, oc_google = google\<rparr>))"

record AppState =
  ap_db :: DbRepo
  ap_msg_box :: box_choice
  ap_chat_rpc :: string
  ap_cache_step :: int
  ap_ws_lb :: LoadBalancer
  ap_ws_config :: WsServerConfig
  ap_mail_config :: MailConfig
  ap_jwt_secret :: string
  ap_oauth2_config :: OAuth2
  ap_oauth2_clients :: OAuth2Clients

text \<open>\<open>oss::oss\<close>; the default avatars come in the order in which the hash map yields them.\<close>

definition open_oss :: "outside \<Rightarrow> (system, unit) act" where
  "open_oss env = on_part sy_s3 (\<lambda>b w. w\<lparr>sy_s3 := b\<rparr>) (s3_client_new (ox_s3 env) (ox_avatar_order env))"

definition app_state_new :: "outside \<Rightarrow> Config \<Rightarrow> (system, AppState) act" where
  "app_state_new env config =
     and_then (open_db env config) (\<lambda>db.
     and_then (open_box env config) (\<lambda>msg_box.
     and_then (unwrap_act (get_rpc_client env config (rs_name (rpc_chat (cf_rpc config))))) (\<lambda>chat_rpc.
     and_then (open_cache env config) (\<lambda>cache_step.
     and_then (open_oss env) (\<lambda>_.
     and_then (must ''build service client failed'' (center_client env config)) (\<lambda>_.
     let ws_lb = load_balancer_new (ws_name (cf_websocket config)) (sv_ws_lb_strategy (cf_server config)) in
     and_then (init_oauth2 env config) (\<lambda>oauth2_clients.
       ok \<lparr>ap_db = db, ap_msg_box = msg_box, ap_chat_rpc = chat_rpc, ap_cache_step = cache_step, ap_ws_lb = ws_lb,
           ap_ws_config = cf_websocket config, ap_mail_config = cf_mail config,
           ap_jwt_secret = sv_jwt_secret (cf_server config), ap_oauth2_config = sv_oauth2 (cf_server config),
           ap_oauth2_clients = oauth2_clients\<rparr>)))))))"

definition api_start :: "outside \<Rightarrow> Config \<Rightarrow> (system, AppState \<times> string) act" where
  "api_start env config =
     and_then (must ''xdb file not loaded'' (ox_xdb env (db_xdb (cf_db config)))) (\<lambda>_.
     and_then (app_state_new env config) (\<lambda>state.
     let addr = server_server_url (cf_server config) in
     and_then (bind_socket env addr) (\<lambda>_. ok (state, addr))))"

section \<open>Announcing and listening\<close>

lemma must_Inr [simp]: "must p b w = (Inr u, w') \<longleftrightarrow> b \<and> w' = w"
  by (auto simp: must_def)

lemma must_state [simp]: "snd (must p b w) = w"
  by (simp add: must_def)

text \<open>What a start needs to have succeeded, step by step.\<close>

definition succeeds :: "('s, 'a) act \<Rightarrow> 's \<Rightarrow> bool" where
  "succeeds m s \<longleftrightarrow> \<not> isl (fst (m s))"

lemma succeeds_and_then:
  "succeeds (and_then m f) s \<longleftrightarrow> succeeds m s \<and> succeeds (f (projr (fst (m s)))) (snd (m s))"
  by (auto simp: succeeds_def and_then_def split: prod.split sum.split)

lemma succeeds_simps [simp]:
  "succeeds (ok a) s" "\<not> succeeds (fail e) s" "succeeds (must p b) w = b"
  by (simp_all add: succeeds_def must_def)

lemma unwrap_act_succeeds [simp]: "succeeds (unwrap_act m) s = succeeds m s"
  by (auto simp: succeeds_def unwrap_act_def split: prod.split sum.split failure.split)

lemma expect_succeeds [simp]: "succeeds (expect p m) w = succeeds m w"
  by (auto simp: succeeds_def expect_def split: prod.split sum.split failure.split)

lemma expect_Inr: "m w = (Inr a, w') \<Longrightarrow> expect p m w = (Inr a, w')"
  by (simp add: expect_def)

lemma ensure_topic_keeps [simp]:
  "sy_registry (snd (ensure_topic env c w)) = sy_registry w" "sy_bound (snd (ensure_topic env c w)) = sy_bound w"
  by (auto simp: ensure_topic_def split: prod.split sum.split)

lemma serve_eq:
  "serve_at env a w = (if ox_addr env a \<and> ox_bind env a \<and> a \<notin> set (sy_bound w)
     then (Inr a, w\<lparr>sy_bound := a # sy_bound w\<rparr>) else (Inl unwrapped, w))"
  by (simp add: serve_at_def and_then_def must_def bind_socket_def unwrapped_def)

lemma register_accepted:
  assumes "register_service (ox_scheme env) (ox_connect env) (ox_hostname env) (ox_accept env) c com = Inr s"
  shows "announce env c com w = (Inr (), w\<lparr>sy_registry := sy_registry w @ [s]\<rparr>)"
  using assms by (simp add: announce_def)

lemma chat_start_announced:
  assumes "ox_producer env (producer_settings c)" and "ensure_topic env c w = (Inr (), w1)"
    and "register_service (ox_scheme env) (ox_connect env) (ox_hostname env) (ox_accept env) c MessageServer = Inr s"
  shows "chat_server_start env c w = serve_at env (rpc_server_url (rpc_chat (cf_rpc c))) (w1\<lparr>sy_registry := sy_registry w1 @ [s]\<rparr>)"
  using assms by (simp add: chat_server_start_def and_then_def must_def expect_Inr [OF register_accepted])

text \<open>
  C7. The chat server and the RPC server of the gateway are announced before they listen: once the registry
  accepts it, the instance is in the registry whether or not the socket can be bound, and when it
  cannot, the server has crashed and nothing of it listens at the address the other services are given.
\<close>

theorem announced_before_listening:
  assumes "ox_producer env (producer_settings c)" and "ensure_topic env c w = (Inr (), w1)"
    and s: "register_service (ox_scheme env) (ox_connect env) (ox_hostname env) (ox_accept env) c MessageServer = Inr s"
    and g: "register_service (ox_scheme env) (ox_connect env) (ox_hostname env) (ox_accept env) c MessageGateway = Inr g"
    and "a = rpc_server_url (rpc_chat (cf_rpc c))" "b = rpc_server_url (rpc_ws (cf_rpc c))" "{a, b} \<inter> set (sy_bound w) = {}"
  shows "s \<in> set (sy_registry (snd (chat_server_start env c w)))
    \<and> (if ox_addr env a \<and> ox_bind env a then fst (chat_server_start env c w) = Inr a \<and> a \<in> set (sy_bound (snd (chat_server_start env c w)))
       else fst (chat_server_start env c w) = Inl unwrapped \<and> a \<notin> set (sy_bound (snd (chat_server_start env c w))))
    \<and> g \<in> set (sy_registry (snd (msg_rpc_start env c w)))
    \<and> (if ox_addr env b \<and> ox_bind env b then fst (msg_rpc_start env c w) = Inr b \<and> b \<in> set (sy_bound (snd (msg_rpc_start env c w)))
       else fst (msg_rpc_start env c w) = Inl unwrapped \<and> b \<notin> set (sy_bound (snd (msg_rpc_start env c w))))"
proof -
  have "sy_bound w1 = sy_bound w" using ensure_topic_keeps(2) [of env c w] assms(2) by simp
  moreover have "msg_rpc_start env c w = serve_at env b (w\<lparr>sy_registry := sy_registry w @ [g]\<rparr>)"
    by (simp add: msg_rpc_start_def and_then_def register_accepted [OF g] assms(6))
  ultimately show ?thesis
    using chat_start_announced [OF assms(1,2) s] assms(5,7) by (simp add: serve_eq)
qed

text \<open>The websocket server does it the other way round: whatever goes wrong, its own instance is only
  added once its address is bound.\<close>

lemma preserves_bound:
  "preserves (\<lambda>v. a \<in> set (sy_bound v)) (announce env c com)" "preserves (\<lambda>v. a \<in> set (sy_bound v)) (ws_register env c)"
  "preserves (\<lambda>v. a \<in> set (sy_bound v)) (serve_at env b)"
  by (auto simp: preserves_def announce_def ws_register_def serve_eq split: sum.split)

lemma preserves_unwrap: "preserves I m \<Longrightarrow> preserves I (unwrap_act m)"
  by (auto simp: preserves_def unwrap_act_def split: prod.split sum.split failure.split)

lemma manager_new_state: "snd (manager_new env c w) = w"
  by (auto simp: manager_new_def and_then_def open_cache_def must_def get_rpc_client_def get_chan_def expect_def
      split: prod.splits sum.splits if_splits)

theorem ws_announced_when_listening:
  assumes "ws_server_start env c w = (r, w')" and "sy_registry w' \<noteq> sy_registry w"
  shows "host_port (ws_host (cf_websocket c)) (ws_port (cf_websocket c)) \<in> set (sy_bound w')"
proof -
  let ?a = "host_port (ws_host (cf_websocket c)) (ws_port (cf_websocket c))"
  let ?rest = "and_then (unwrap_act (ws_register env c)) (\<lambda>_. and_then (unwrap_act (msg_rpc_start env c)) (\<lambda>rpc. ok (?a, rpc)))"
  have rest: "preserves (\<lambda>v. ?a \<in> set (sy_bound v)) ?rest"
    unfolding msg_rpc_start_def by (intro preserves_and_then preserves_unwrap preserves_bound preserves_ok)
  obtain x where m: "manager_new env c w = (x, w)" using manager_new_state [of env c w] by (cases "manager_new env c w") auto
  have "ws_server_start env c w = (case x of Inl e \<Rightarrow> (Inl e, w) | Inr _ \<Rightarrow> and_then (bind_socket env ?a) (\<lambda>_. ?rest) w)"
    unfolding ws_server_start_def Let_def and_then_def [of "manager_new env c"] by (simp add: m split: sum.split)
  then show ?thesis
    using assms preservesD [OF rest, of "w\<lparr>sy_bound := ?a # sy_bound w\<rparr>"]
    by (auto simp: and_then_def bind_socket_def split: sum.splits if_splits prod.splits)
qed

section \<open>The API server comes up\<close>

lemma open_box_succeeds:
  "succeeds (open_box env c) w \<longleftrightarrow> ox_mongo env (mg_url (db_mongodb (cf_db c))) \<and> (msg_rec_box_repo c = LegacyBox \<longrightarrow> ox_index env)"
  by (auto simp: open_box_def succeeds_and_then succeeds_def [of "\<lambda>w. (_, _ w)"] split: box_choice.split)

lemma open_box_keeps:
  "sy_s3 (snd (open_box env c w)) = sy_s3 w" "sy_bound (snd (open_box env c w)) = sy_bound w"
  by (auto simp: open_box_def and_then_def must_def split: box_choice.split)

definition urls_parse :: "outside \<Rightarrow> OAuth2Item \<Rightarrow> bool" where
  "urls_parse env i \<longleftrightarrow> ox_url env (oa_auth_url i) \<and> ox_url env (oa_token_url i) \<and> ox_url env (oa_redirect_url i)"

lemma init_oauth2_item:
  "init_oauth2_client env i w = (if urls_parse env i
     then (Inr \<lparr>bc_client_id = oa_client_id i, bc_client_secret = Some (oa_client_secret i), bc_auth_url = oa_auth_url i,
           bc_token_url = Some (oa_token_url i), bc_redirect_url = Some (oa_redirect_url i)\<rparr>, w) else (Inl unwrapped, w))"
  by (simp add: init_oauth2_client_def urls_parse_def and_then_def must_def unwrapped_def)

lemma init_oauth2_effect:
  "succeeds (init_oauth2 env c) w \<longleftrightarrow>
     urls_parse env (oa_google (sv_oauth2 (cf_server c))) \<and> urls_parse env (oa_github (sv_oauth2 (cf_server c)))"
  "snd (init_oauth2 env c w) = w"
  by (simp_all add: init_oauth2_def and_then_def init_oauth2_item succeeds_def)

text \<open>What the API server needs of the outside world, in the order it asks for it.\<close>

definition api_needs :: "outside \<Rightarrow> Config \<Rightarrow> system \<Rightarrow> bool" where
  "api_needs env c w \<longleftrightarrow>
     ox_xdb env (db_xdb (cf_db c)) \<and> ox_pg env (pg_url (db_postgres (cf_db c)))
     \<and> ox_mongo env (mg_url (db_mongodb (cf_db c))) \<and> (msg_rec_box_repo c = LegacyBox \<longrightarrow> ox_index env)
     \<and> center_client env c \<and> ox_redis env (redis_url (cf_redis c))
     \<and> succeeds (s3_client_new (ox_s3 env) (ox_avatar_order env)) (sy_s3 w)
     \<and> urls_parse env (oa_google (sv_oauth2 (cf_server c))) \<and> urls_parse env (oa_github (sv_oauth2 (cf_server c)))
     \<and> ox_bind env (server_server_url (cf_server c)) \<and> server_server_url (cf_server c) \<notin> set (sy_bound w)"

lemma get_rpc_client_effect: "succeeds (get_rpc_client env c n) w = center_client env c" "snd (get_rpc_client env c n w) = w"
  by (auto simp: get_rpc_client_def get_chan_def center_client_def and_then_def succeeds_def split: sum.split)

lemma unwrap_act_state [simp]: "snd (unwrap_act m s) = snd (m s)"
  by (auto simp: unwrap_act_def split: prod.split sum.split failure.split)

lemma open_oss_effect:
  "succeeds (open_oss env) w = succeeds (s3_client_new (ox_s3 env) (ox_avatar_order env)) (sy_s3 w)"
  "sy_bound (snd (open_oss env w)) = sy_bound w"
  by (simp_all add: open_oss_def on_part_eq succeeds_def)

lemma open_rest:
  "succeeds (open_db env c) w = ox_pg env (pg_url (db_postgres (cf_db c)))" "snd (open_db env c w) = w"
  "succeeds (open_cache env c) w = ox_redis env (redis_url (cf_redis c))" "snd (open_cache env c w) = w"
  by (simp_all add: open_db_def open_cache_def DbRepo_new_def Let_def succeeds_def and_then_def must_def)

lemma app_state_new_bound: "preserves (\<lambda>v. sy_bound v = B) (app_state_new env c)"
proof -
  have "preserves (\<lambda>v. sy_bound v = B) (unwrap_act (get_rpc_client env c n))" for n
    by (rule preservesI) (simp add: get_rpc_client_effect)
  moreover have "preserves (\<lambda>v. sy_bound v = B) (init_oauth2 env c)" "preserves (\<lambda>v. sy_bound v = B) (open_db env c)"
      "preserves (\<lambda>v. sy_bound v = B) (open_cache env c)" "preserves (\<lambda>v. sy_bound v = B) (open_box env c)"
      "preserves (\<lambda>v. sy_bound v = B) (open_oss env)" "preserves (\<lambda>v. sy_bound v = B) (must p b)" for p b
    by (simp_all add: preserves_def init_oauth2_effect open_rest open_box_keeps open_oss_effect)
  ultimately show ?thesis unfolding app_state_new_def Let_def by (intro preserves_and_then preserves_ok)
qed

lemma app_state_new_succeeds:
  "api_needs env c w \<longleftrightarrow> ox_xdb env (db_xdb (cf_db c)) \<and> succeeds (app_state_new env c) w \<and> ox_bind env (server_server_url (cf_server c))
     \<and> server_server_url (cf_server c) \<notin> set (sy_bound w)"
  by (auto simp: app_state_new_def Let_def succeeds_and_then api_needs_def open_box_succeeds open_box_keeps
      init_oauth2_effect get_rpc_client_effect open_oss_effect open_rest)

lemma open_box_Inr: "open_box env c w = (Inr b, t) \<Longrightarrow> b = msg_rec_box_repo c"
  by (auto simp: open_box_def and_then_def must_def split: box_choice.splits if_splits)

lemma open_cache_Inr: "open_cache env c w = (Inr n, t) \<Longrightarrow> n = cache_seq_step (rd_seq_step (cf_redis c))"
  by (auto simp: open_cache_def and_then_def must_def split: if_splits)

lemma open_db_Inr: "open_db env c w = (Inr db, t) \<Longrightarrow> DbRepo_new (\<lambda>_. True) c = Inr db"
  by (auto simp: open_db_def DbRepo_new_def Let_def split: if_splits)

lemmas opened = open_box_Inr open_cache_Inr open_db_Inr

lemma app_state_new_Inr:
  assumes "app_state_new env c w = (Inr ap, t)"
  shows "ap_msg_box ap = msg_rec_box_repo c" "ap_cache_step ap = cache_seq_step (rd_seq_step (cf_redis c))"
    "DbRepo_new (\<lambda>_. True) c = Inr (ap_db ap)"
  using assms unfolding app_state_new_def Let_def by (auto elim!: and_then_eq_InrE dest!: opened)

lemma consumer_new_Inr:
  assumes "consumer_new env c w = (Inr co, t)"
  shows "co_box co = msg_rec_box_repo c" "co_cache_step co = cache_seq_step (rd_seq_step (cf_redis c))"
    "DbRepo_new (\<lambda>_. True) c = Inr (co_db co)"
  using assms unfolding consumer_new_def by (auto elim!: and_then_eq_InrE dest!: opened)

text \<open>
  C6. The API server comes up exactly when everything it needs is there: the file of address regions, both databases,
  the cache, the registry, a usable object store, six addresses that parse and a free socket. It then listens, and its receive
  box, its cache and its repositories are those any consumer gets from the same configuration; otherwise it
  crashes without having bound anything.
\<close>

theorem api_comes_up:
  "if api_needs env c w
    then \<exists>ap t. api_start env c w = (Inr (ap, server_server_url (cf_server c)), t)
      \<and> sy_bound t = server_server_url (cf_server c) # sy_bound w
      \<and> (\<forall>env' w' co t'. consumer_new env' c w' = (Inr co, t') \<longrightarrow>
           co_box co = ap_msg_box ap \<and> co_cache_step co = ap_cache_step ap \<and> co_db co = ap_db ap)
    else \<exists>e t. api_start env c w = (Inl e, t) \<and> sy_bound t = sy_bound w"
proof -
  let ?a = "server_server_url (cf_server c)"
  obtain r t where r: "app_state_new env c w = (r, t)" by force
  have t: "sy_bound t = sy_bound w" using preservesD [OF app_state_new_bound [of "sy_bound w" env c], of w] r by simp
  show ?thesis
  proof (cases r)
    case (Inl e)
    with r t app_state_new_succeeds [of env c w] show ?thesis
      by (simp add: api_start_def and_then_def succeeds_def must_def)
  next
    case (Inr ap)
    have "api_needs env c w \<longleftrightarrow> ox_xdb env (db_xdb (cf_db c)) \<and> ox_bind env ?a \<and> ?a \<notin> set (sy_bound t)"
      using app_state_new_succeeds [of env c w] r Inr t by (simp add: succeeds_def)
    moreover have "co_box co = ap_msg_box ap \<and> co_cache_step co = ap_cache_step ap \<and> co_db co = ap_db ap"
      if "consumer_new env' c w' = (Inr co, t')" for env' w' co t'
      using consumer_new_Inr [OF that] app_state_new_Inr [of env c w ap t] r Inr by simp
    ultimately show ?thesis
      using r Inr t by (simp add: api_start_def and_then_def bind_socket_def must_def Let_def)
  qed
qed

section \<open>Witnesses\<close>

definition demo_outside :: "bool \<Rightarrow> outside" where
  "demo_outside free = \<lparr>ox_xdb = (\<lambda>_. True), ox_pg = (\<lambda>_. True), ox_redis = (\<lambda>_. True), ox_mongo = (\<lambda>_. True), ox_index = True, ox_shard = demo_env,
     ox_center = (\<lambda>_ _. Inr ()), ox_scheme = (\<lambda>_. 0), ox_connect = (\<lambda>_. Inr ()), ox_hostname = Inr ''h'',
     ox_accept = (\<lambda>_. True), ox_producer = (\<lambda>_. True), ox_consumer = (\<lambda>_. True), ox_subscribe = (\<lambda>_. True),
     ox_admin_connect = None, ox_admin = (\<lambda>_ ts. (Inr True, ts)), ox_s3 = demo_s3, ox_avatar_order = default_avatars, ox_url = (\<lambda>_. True),
     ox_addr = (\<lambda>_. True), ox_bind = (\<lambda>_. free)\<rparr>"

definition demo_system :: system where
  "demo_system = \<lparr>sy_registry = [], sy_bound = [], sy_topics = [], sy_boxes = demo_boxes, sy_s3 = Map.empty\<rparr>"

theorem announced_before_listening_witness:
  "\<exists>s. s \<in> set (sy_registry (snd (chat_server_start (demo_outside False) (demo_config None None) demo_system)))
     \<and> fst (chat_server_start (demo_outside False) (demo_config None None) demo_system) = Inl unwrapped"
proof -
  obtain s g where "register_service (\<lambda>_. 0) (\<lambda>_. Inr ()) (Inr ''h'') (\<lambda>_. True) (demo_config None None) MessageServer = Inr s"
    "register_service (\<lambda>_. 0) (\<lambda>_. Inr ()) (Inr ''h'') (\<lambda>_. True) (demo_config None None) MessageGateway = Inr g"
    by (simp add: register_service_def Let_def)
  moreover have "ensure_topic (demo_outside False) (demo_config None None) demo_system = (Inr (), demo_system)"
    by (simp add: ensure_topic_def ensure_topic_exists_def demo_outside_def demo_system_def)
  ultimately show ?thesis
    using announced_before_listening [of "demo_outside False" "demo_config None None" demo_system demo_system s g]
    by (auto simp: demo_outside_def demo_system_def)
qed

theorem api_comes_up_witness:
  "\<exists>ap t co t'. api_start (demo_outside True) (demo_config None None) demo_system =
       (Inr (ap, server_server_url (cf_server (demo_config None None))), t)
     \<and> consumer_new (demo_outside True) (demo_config None None) demo_system = (Inr co, t')
     \<and> co_box co = ap_msg_box ap"
proof -
  have "succeeds (s3_client_new demo_s3 default_avatars) Map.empty"
    by (simp add: succeeds_def s3_client_new_def and_then_def unwrap_act_def default_avatars_def demo_s3_def
        create_bucket_def check_bucket_exists_def check_avatar_bucket_exits_def bucket_exists_def head_bucket_def
        create_bucket_req_def s3_send_def sdk_def exists_by_name_def put_object_def oss_upload_avatar_def oss_upload_def)
  then have "api_needs (demo_outside True) (demo_config None None) demo_system"
    by (simp add: api_needs_def demo_outside_def demo_system_def center_client_def urls_parse_def)
  moreover have "\<exists>co t'. consumer_new (demo_outside True) (demo_config None None) demo_system = (Inr co, t')"
    by (simp add: consumer_new_def and_then_def must_def push_service_def unwrap_act_def get_chan_def center_client_def
        open_db_def open_cache_def open_box_def DbRepo_new_def demo_outside_def msg_rec_box_repo_def Let_def)
  ultimately show ?thesis using api_comes_up [of "demo_outside True" "demo_config None None" demo_system] by simp blast
qed

end
