(* ===== verification/Protocol.thy ===== *)
theory Protocol
  imports Prelude
begin

text \<open>
  The wire protocol as the repository keeps it: the declarations of \<open>abi/protos/{common,client_messages,server_messages}.proto\<close>,
  the structs and enums of the generated file \<open>abi/src/pb/message.rs\<close> that is checked in, and the build script
  \<open>abi/build.rs\<close> that decides which attributes the generated types carry. What is generated
  is the work of \<open>tonic-build\<close> and \<open>cargo fmt\<close>, and is not modelled: the generated file is data, compared with the
  declarations and, in which types are serialised, with the settings of the script.
\<close>

section \<open>Declarations\<close>

datatype ptype = TString | TBytes | TBool | TInt32 | TInt64 | TFloat | TEnum string | TMsg string
datatype label = Singular | Optional | Repeated

datatype proto_field = PField (pf_label: label) (pf_type: ptype) (pf_name: string) (pf_tag: nat)
datatype proto_message = PMessage (pm_name: string) (pm_fields: "proto_field list")

section \<open>Generated types\<close>

text \<open>An attribute, a list of derived traits or any other; the \<open>prost\<close> attribute of a field; its Rust type.\<close>

datatype attr = Derive "string list" | Attr string
datatype prost = PrString | PrBytes | PrBool | PrInt32 | PrInt64 | PrFloat | PrEnum string | PrMessage
datatype rust_type = RString | RBytes | RBool | RI32 | RI64 | RF32 | ROption rust_type | RVec rust_type | RStruct string

datatype rust_field = RField (rf_name: string) (rf_attrs: "attr list") (rf_prost: prost) (rf_label: label) (rf_tag: nat)
  (rf_type: rust_type)
datatype rust_struct = RStructDef (rs_struct: string) (rs_attrs: "attr list") (rs_fields: "rust_field list")
datatype rust_enum = REnumDef (re_enum: string) (re_attrs: "attr list") (re_values: "(string \<times> nat) list")

definition SERDE_DERIVE :: attr where
  "SERDE_DERIVE = Derive [''serde::Serialize'', ''serde::Deserialize'', ''bincode::Encode'', ''bincode::Decode'']"
definition SERDE_CAMEL :: attr where
  "SERDE_CAMEL = Attr ''#[serde(rename_all = \"camelCase\")]''"
definition SQLX_TYPE :: attr where
  "SQLX_TYPE = Derive [''sqlx::Type'']"
definition SKIP_SERIALIZING :: attr where
  "SKIP_SERIALIZING = Attr ''#[serde(skip_serializing)]''"
definition DERIVE_BUILDER :: attr where
  "DERIVE_BUILDER = Derive [''derive_builder::Builder'']"
definition BUILDER_INTO :: attr where
  "BUILDER_INTO = Attr ''#[builder(setter(into), default)]''"
definition BUILDER_OPTION :: attr where
  "BUILDER_OPTION = Attr ''#[builder(setter(strip_option, into), default)]''"

text \<open>The attributes every generated struct and enum has.\<close>

definition ALLOW_CLIPPY :: attr where
  "ALLOW_CLIPPY = Attr ''#[allow(clippy::derive_partial_eq_without_eq)]''"
definition DERIVE_MESSAGE :: attr where
  "DERIVE_MESSAGE = Derive [''Clone'', ''PartialEq'', ''::prost::Message'']"
definition DERIVE_ENUM :: attr where
  "DERIVE_ENUM = Derive [''Clone'', ''Copy'', ''Debug'', ''PartialEq'', ''Eq'', ''Hash'', ''PartialOrd'', ''Ord'', ''::prost::Enumeration'']"
definition REPR_I32 :: attr where
  "REPR_I32 = Attr ''#[repr(i32)]''"

definition pb_Msg :: rust_struct where
  "pb_Msg = RStructDef ''Msg'' [SERDE_DERIVE, SERDE_CAMEL, ALLOW_CLIPPY, DERIVE_MESSAGE]
     [RField ''sender_id'' [] PrString Singular 1 (RString),
      RField ''receiver_id'' [] PrString Singular 2 (RString),
      RField ''client_id'' [] PrString Singular 3 (RString),
      RField ''server_id'' [] PrString Singular 4 (RString),
      RField ''create_time'' [] PrInt64 Singular 5 (RI64),
      RField ''send_time'' [] PrInt64 Singular 6 (RI64),
      RField ''seq'' [] PrInt64 Singular 7 (RI64),
      RField ''msg_type'' [] (PrEnum ''MsgType'') Singular 8 (RI32),
      RField ''content_type'' [] (PrEnum ''ContentType'') Singular 9 (RI32),
      RField ''content'' [] PrBytes Singular 10 (RBytes),
      RField ''is_read'' [] PrBool Singular 11 (RBool),
      RField ''group_id'' [] PrString Singular 12 (RString),
      RField ''platform'' [] (PrEnum ''PlatformType'') Singular 13 (RI32),
      RField ''avatar'' [] PrString Singular 14 (RString),
      RField ''nickname'' [] PrString Singular 15 (RString),
      RField ''related_msg_id'' [] PrString Optional 16 (ROption (RString)),
      RField ''send_seq'' [] PrInt64 Singular 17 (RI64)]"

definition pb_MsgContent :: rust_struct where
  "pb_MsgContent = RStructDef ''MsgContent'' [SERDE_DERIVE, SERDE_CAMEL, ALLOW_CLIPPY, DERIVE_MESSAGE]
     [RField ''content'' [] PrString Singular 1 (RString),
      RField ''mention'' [] PrMessage Optional 2 (ROption (RStruct ''Mention''))]"

definition pb_Mention :: rust_struct where
  "pb_Mention = RStructDef ''Mention'' [SERDE_DERIVE, SERDE_CAMEL, ALLOW_CLIPPY, DERIVE_MESSAGE]
     [RField ''all'' [] PrBool Singular 1 (RBool),
      RField ''user_ids'' [] PrString Repeated 2 (RVec (RString))]"

definition pb_MsgRead :: rust_struct where
  "pb_MsgRead = RStructDef ''MsgRead'' [SERDE_DERIVE, SERDE_CAMEL, ALLOW_CLIPPY, DERIVE_MESSAGE]
     [RField ''msg_seq'' [] PrInt64 Repeated 1 (RVec (RI64)),
      RField ''user_id'' [] PrString Singular 2 (RString)]"

definition pb_Candidate :: rust_struct where
  "pb_Candidate = RStructDef ''Candidate'' [SERDE_DERIVE, SERDE_CAMEL, ALLOW_CLIPPY, DERIVE_MESSAGE]
     [RField ''candidate'' [] PrString Singular 1 (RString),
      RField ''sdp_mid'' [] PrString Optional 2 (ROption (RString)),
      RField ''sdp_m_index'' [] PrInt32 Optional 3 (ROption (RI32))]"

definition pb_AgreeSingleCall :: rust_struct where
  "pb_AgreeSingleCall = RStructDef ''AgreeSingleCall'' [SERDE_DERIVE, SERDE_CAMEL, ALLOW_CLIPPY, DERIVE_MESSAGE]
     [RField ''sdp'' [] PrString Singular 1 (RString)]"

definition pb_SingleCallInvite :: rust_struct where
  "pb_SingleCallInvite = RStructDef ''SingleCallInvite'' [SERDE_DERIVE, SERDE_CAMEL, ALLOW_CLIPPY, DERIVE_MESSAGE]
     [RField ''invite_type'' [] (PrEnum ''SingleCallInviteType'') Singular 1 (RI32)]"

definition pb_SingleCallInviteAnswer :: rust_struct where
  "pb_SingleCallInviteAnswer = RStructDef ''SingleCallInviteAnswer'' [SERDE_DERIVE, SERDE_CAMEL, ALLOW_CLIPPY, DERIVE_MESSAGE]
     [RField ''agree'' [] PrBool Singular 1 (RBool),
      RField ''invite_type'' [] (PrEnum ''SingleCallInviteType'') Singular 2 (RI32)]"

definition pb_SingleCallInviteNotAnswer :: rust_struct where
  "pb_SingleCallInviteNotAnswer = RStructDef ''SingleCallInviteNotAnswer'' [SERDE_DERIVE, SERDE_CAMEL, ALLOW_CLIPPY, DERIVE_MESSAGE]
     [RField ''invite_type'' [] (PrEnum ''SingleCallInviteType'') Singular 1 (RI32)]"

definition pb_SingleCallInviteCancel :: rust_struct where
  "pb_SingleCallInviteCancel = RStructDef ''SingleCallInviteCancel'' [SERDE_DERIVE, SERDE_CAMEL, ALLOW_CLIPPY, DERIVE_MESSAGE]
     [RField ''invite_type'' [] (PrEnum ''SingleCallInviteType'') Singular 2 (RI32)]"

definition pb_SingleCallOffer :: rust_struct where
  "pb_SingleCallOffer = RStructDef ''SingleCallOffer'' [SERDE_DERIVE, SERDE_CAMEL, ALLOW_CLIPPY, DERIVE_MESSAGE]
     [RField ''sdp'' [] PrString Singular 1 (RString)]"

definition pb_Hangup :: rust_struct where
  "pb_Hangup = RStructDef ''Hangup'' [SERDE_DERIVE, SERDE_CAMEL, ALLOW_CLIPPY, DERIVE_MESSAGE]
     [RField ''invite_type'' [] (PrEnum ''SingleCallInviteType'') Singular 1 (RI32),
      RField ''sustain'' [] PrInt64 Singular 2 (RI64)]"

definition pb_Single :: rust_struct where
  "pb_Single = RStructDef ''Single'' [SERDE_DERIVE, SERDE_CAMEL, ALLOW_CLIPPY, DERIVE_MESSAGE]
     [RField ''content'' [] PrString Singular 2 (RString),
      RField ''content_type'' [] (PrEnum ''ContentType'') Singular 3 (RI32)]"

definition pb_MsgResponse :: rust_struct where
  "pb_MsgResponse = RStructDef ''MsgResponse'' [SERDE_DERIVE, SERDE_CAMEL, ALLOW_CLIPPY, DERIVE_MESSAGE]
     [RField ''client_id'' [] PrString Singular 1 (RString),
      RField ''server_id'' [] PrString Singular 2 (RString),
      RField ''send_time'' [] PrInt64 Singular 3 (RI64),
      RField ''err'' [] PrString Singular 4 (RString)]"

definition pb_GroupInfo :: rust_struct where
  "pb_GroupInfo = RStructDef ''GroupInfo'' [SERDE_DERIVE, SERDE_CAMEL, ALLOW_CLIPPY, DERIVE_MESSAGE]
     [RField ''id'' [] PrString Singular 1 (RString),
      RField ''owner'' [] PrString Singular 2 (RString),
      RField ''name'' [] PrString Singular 3 (RString),
      RField ''avatar'' [] PrString Singular 4 (RString),
      RField ''description'' [] PrString Singular 5 (RString),
      RField ''announcement'' [] PrString Singular 6 (RString),
      RField ''create_time'' [] PrInt64 Singular 7 (RI64),
      RField ''update_time'' [] PrInt64 Singular 8 (RI64),
      RField ''max_members'' [] PrInt32 Singular 9 (RI32),
      RField ''is_public'' [] PrBool Singular 10 (RBool),
      RField ''join_approval_required'' [] PrBool Singular 11 (RBool),
      RField ''category'' [] PrString Singular 12 (RString),
      RField ''tags'' [] PrString Repeated 13 (RVec (RString)),
      RField ''mute_all'' [] PrBool Singular 14 (RBool),
      RField ''only_admin_post'' [] PrBool Singular 15 (RBool),
      RField ''invite_permission'' [] (PrEnum ''GroupMemberRole'') Singular 16 (RI32),
      RField ''pinned_messages'' [] PrString Repeated 17 (RVec (RString))]"

definition pb_GroupMember :: rust_struct where
  "pb_GroupMember = RStructDef ''GroupMember'' [SERDE_DERIVE, SERDE_CAMEL, ALLOW_CLIPPY, DERIVE_MESSAGE]
     [RField ''age'' [] PrInt32 Singular 1 (RI32),
      RField ''group_id'' [] PrString Singular 2 (RString),
      RField ''user_id'' [] PrString Singular 3 (RString),
      RField ''group_name'' [] PrString Singular 4 (RString),
      RField ''avatar'' [] PrString Singular 5 (RString),
      RField ''joined_at'' [] PrInt64 Singular 6 (RI64),
      RField ''region'' [] PrString Optional 7 (ROption (RString)),
      RField ''gender'' [] PrString Singular 8 (RString),
      RField ''remark'' [] PrString Optional 9 (ROption (RString)),
      RField ''signature'' [] PrString Singular 10 (RString),
      RField ''role'' [] (PrEnum ''GroupMemberRole'') Singular 11 (RI32),
      RField ''is_muted'' [] PrBool Singular 12 (RBool),
      RField ''notification_level'' [] PrString Singular 13 (RString),
      RField ''last_read_time'' [] PrInt64 Singular 14 (RI64),
      RField ''display_order'' [] PrInt32 Singular 15 (RI32),
      RField ''joined_by'' [] PrString Singular 16 (RString)]"

definition pb_GroupInvitation :: rust_struct where
  "pb_GroupInvitation = RStructDef ''GroupInvitation'' [SERDE_DERIVE, SERDE_CAMEL, ALLOW_CLIPPY, DERIVE_MESSAGE]
     [RField ''info'' [] PrMessage Optional 1 (ROption (RStruct ''GroupInfo'')),
      RField ''members'' [] PrMessage Repeated 2 (RVec (RStruct ''GroupMember''))]"

definition pb_GroupInviteNew :: rust_struct where
  "pb_GroupInviteNew = RStructDef ''GroupInviteNew'' [SERDE_DERIVE, SERDE_CAMEL, ALLOW_CLIPPY, DERIVE_MESSAGE]
     [RField ''user_id'' [] PrString Singular 1 (RString),
      RField ''group_id'' [] PrString Singular 2 (RString),
      RField ''members'' [] PrString Repeated 3 (RVec (RString))]"

definition pb_GroupUpdate :: rust_struct where
  "pb_GroupUpdate = RStructDef ''GroupUpdate'' [SERDE_DERIVE, SERDE_CAMEL, ALLOW_CLIPPY, DERIVE_MESSAGE]
     [RField ''id'' [] PrString Singular 1 (RString),
      RField ''name'' [] PrString Singular 2 (RString),
      RField ''avatar'' [] PrString Singular 3 (RString),
      RField ''description'' [] PrString Singular 4 (RString),
      RField ''announcement'' [] PrString Singular 5 (RString),
      RField ''update_time'' [] PrInt64 Singular 6 (RI64)]"

definition pb_User :: rust_struct where
  "pb_User = RStructDef ''User'' [SERDE_DERIVE, SERDE_CAMEL, ALLOW_CLIPPY, DERIVE_MESSAGE]
     [RField ''id'' [] PrString Singular 1 (RString),
      RField ''name'' [] PrString Singular 2 (RString),
      RField ''account'' [] PrString Singular 3 (RString),
      RField ''password'' [SKIP_SERIALIZING] PrString Singular 4 (RString),
      RField ''avatar'' [] PrString Singular 5 (RString),
      RField ''gender'' [] PrString Singular 6 (RString),
      RField ''age'' [] PrInt32 Singular 7 (RI32),
      RField ''phone'' [] PrString Optional 8 (ROption (RString)),
      RField ''email'' [] PrString Optional 9 (ROption (RString)),
      RField ''address'' [] PrString Optional 10 (ROption (RString)),
      RField ''region'' [] PrString Optional 11 (ROption (RString)),
      RField ''birthday'' [] PrInt64 Optional 12 (ROption (RI64)),
      RField ''create_time'' [] PrInt64 Singular 13 (RI64),
      RField ''update_time'' [] PrInt64 Singular 14 (RI64),
      RField ''salt'' [SKIP_SERIALIZING] PrString Singular 15 (RString),
      RField ''signature'' [] PrString Singular 16 (RString),
      RField ''last_login_time'' [] PrInt64 Optional 17 (ROption (RI64)),
      RField ''last_login_ip'' [] PrString Optional 18 (ROption (RString)),
      RField ''two_factor_enabled'' [] PrBool Singular 19 (RBool),
      RField ''account_status'' [] PrString Singular 20 (RString),
      RField ''status'' [] PrString Singular 21 (RString),
      RField ''last_active_time'' [] PrInt64 Optional 22 (ROption (RI64)),
      RField ''status_message'' [] PrString Optional 23 (ROption (RString)),
      RField ''privacy_settings'' [] PrString Singular 24 (RString),
      RField ''notification_settings'' [] PrString Singular 25 (RString),
      RField ''language'' [] PrString Singular 26 (RString),
      RField ''friend_requests_privacy'' [] PrString Singular 27 (RString),
      RField ''profile_visibility'' [] PrString Singular 28 (RString),
      RField ''theme'' [] PrString Singular 29 (RString),
      RField ''timezone'' [] PrString Singular 30 (RString),
      RField ''is_delete'' [] PrBool Singular 31 (RBool)]"

definition pb_UserWithMatchType :: rust_struct where
  "pb_UserWithMatchType = RStructDef ''UserWithMatchType'' [SERDE_DERIVE, SERDE_CAMEL, ALLOW_CLIPPY, DERIVE_MESSAGE]
     [RField ''id'' [] PrString Singular 1 (RString),
      RField ''name'' [] PrString Singular 2 (RString),
      RField ''account'' [] PrString Singular 3 (RString),
      RField ''avatar'' [] PrString Singular 4 (RString),
      RField ''gender'' [] PrString Singular 5 (RString),
      RField ''age'' [] PrInt32 Singular 6 (RI32),
      RField ''email'' [] PrString Optional 7 (ROption (RString)),
      RField ''region'' [] PrString Optional 8 (ROption (RString)),
      RField ''birthday'' [] PrInt64 Optional 9 (ROption (RI64)),
      RField ''match_type'' [] PrString Optional 10 (ROption (RString)),
      RField ''signature'' [] PrString Singular 11 (RString),
      RField ''is_friend'' [] PrBool Singular 12 (RBool)]"

definition pb_Friendship :: rust_struct where
  "pb_Friendship = RStructDef ''Friendship'' [SERDE_DERIVE, SERDE_CAMEL, ALLOW_CLIPPY, DERIVE_MESSAGE]
     [RField ''id'' [] PrString Singular 1 (RString),
      RField ''user_id'' [] PrString Singular 2 (RString),
      RField ''friend_id'' [] PrString Singular 3 (RString),
      RField ''status'' [] (PrEnum ''FriendshipStatus'') Singular 4 (RI32),
      RField ''apply_msg'' [] PrString Optional 5 (ROption (RString)),
      RField ''req_remark'' [] PrString Optional 6 (ROption (RString)),
      RField ''resp_msg'' [] PrString Optional 7 (ROption (RString)),
      RField ''resp_remark'' [] PrString Optional 8 (ROption (RString)),
      RField ''source'' [] PrString Singular 9 (RString),
      RField ''create_time'' [] PrInt64 Singular 10 (RI64),
      RField ''update_time'' [] PrInt64 Singular 11 (RI64)]"

definition pb_FriendshipWithUser :: rust_struct where
  "pb_FriendshipWithUser = RStructDef ''FriendshipWithUser'' [SERDE_DERIVE, SERDE_CAMEL, ALLOW_CLIPPY, DERIVE_MESSAGE]
     [RField ''fs_id'' [] PrString Singular 1 (RString),
      RField ''user_id'' [] PrString Singular 2 (RString),
      RField ''name'' [] PrString Singular 3 (RString),
      RField ''avatar'' [] PrString Singular 4 (RString),
      RField ''gender'' [] PrString Singular 5 (RString),
      RField ''age'' [] PrInt32 Singular 6 (RI32),
      RField ''region'' [] PrString Optional 7 (ROption (RString)),
      RField ''status'' [] (PrEnum ''FriendshipStatus'') Singular 8 (RI32),
      RField ''apply_msg'' [] PrString Optional 9 (ROption (RString)),
      RField ''source'' [] PrString Singular 10 (RString),
      RField ''create_time'' [] PrInt64 Singular 11 (RI64),
      RField ''account'' [] PrString Singular 12 (RString),
      RField ''remark'' [] PrString Optional 13 (ROption (RString)),
      RField ''email'' [] PrString Optional 14 (ROption (RString))]"

definition pb_Friend :: rust_struct where
  "pb_Friend = RStructDef ''Friend'' [SERDE_DERIVE, SERDE_CAMEL, ALLOW_CLIPPY, DERIVE_MESSAGE]
     [RField ''fs_id'' [] PrString Singular 1 (RString),
      RField ''friend_id'' [] PrString Singular 2 (RString),
      RField ''account'' [] PrString Singular 3 (RString),
      RField ''name'' [] PrString Singular 4 (RString),
      RField ''avatar'' [] PrString Singular 5 (RString),
      RField ''gender'' [] PrString Singular 6 (RString),
      RField ''age'' [] PrInt32 Singular 7 (RI32),
      RField ''region'' [] PrString Optional 8 (ROption (RString)),
      RField ''status'' [] (PrEnum ''FriendshipStatus'') Singular 9 (RI32),
      RField ''remark'' [] PrString Optional 10 (ROption (RString)),
      RField ''email'' [] PrString Optional 11 (ROption (RString)),
      RField ''source'' [] PrString Singular 12 (RString),
      RField ''signature'' [] PrString Singular 13 (RString),
      RField ''create_time'' [] PrInt64 Singular 14 (RI64),
      RField ''update_time'' [] PrInt64 Singular 15 (RI64),
      RField ''interaction_score'' [] PrFloat Singular 16 (RF32),
      RField ''tags'' [] PrString Repeated 17 (RVec (RString)),
      RField ''group_name'' [] PrString Singular 18 (RString),
      RField ''privacy_level'' [] PrString Singular 19 (RString),
      RField ''notifications_enabled'' [] PrBool Singular 20 (RBool),
      RField ''last_interaction'' [] PrInt64 Singular 21 (RI64)]"

definition pb_FriendInfo :: rust_struct where
  "pb_FriendInfo = RStructDef ''FriendInfo'' [SERDE_DERIVE, SERDE_CAMEL, ALLOW_CLIPPY, DERIVE_MESSAGE]
     [RField ''id'' [] PrString Singular 1 (RString),
      RField ''name'' [] PrString Singular 2 (RString),
      RField ''avatar'' [] PrString Singular 3 (RString),
      RField ''gender'' [] PrString Singular 4 (RString),
      RField ''age'' [] PrInt32 Singular 5 (RI32),
      RField ''region'' [] PrString Optional 6 (ROption (RString)),
      RField ''account'' [] PrString Singular 7 (RString),
      RField ''signature'' [] PrString Singular 8 (RString),
      RField ''email'' [] PrString Optional 9 (ROption (RString))]"

definition pb_FsCreate :: rust_struct where
  "pb_FsCreate = RStructDef ''FsCreate'' [SERDE_DERIVE, SERDE_CAMEL, ALLOW_CLIPPY, DERIVE_MESSAGE]
     [RField ''user_id'' [] PrString Singular 1 (RString),
      RField ''friend_id'' [] PrString Singular 2 (RString),
      RField ''apply_msg'' [] PrString Optional 3 (ROption (RString)),
      RField ''req_remark'' [] PrString Optional 4 (ROption (RString)),
      RField ''source'' [] PrString Singular 5 (RString)]"

definition pb_AgreeReply :: rust_struct where
  "pb_AgreeReply = RStructDef ''AgreeReply'' [SERDE_DERIVE, SERDE_CAMEL, ALLOW_CLIPPY, DERIVE_MESSAGE]
     [RField ''fs_id'' [] PrString Singular 1 (RString),
      RField ''resp_msg'' [] PrString Optional 2 (ROption (RString)),
      RField ''resp_remark'' [] PrString Optional 3 (ROption (RString))]"

definition pb_FsUpdate :: rust_struct where
  "pb_FsUpdate = RStructDef ''FsUpdate'' [SERDE_DERIVE, SERDE_CAMEL, ALLOW_CLIPPY, DERIVE_MESSAGE]
     [RField ''id'' [] PrString Singular 1 (RString),
      RField ''apply_msg'' [] PrString Singular 2 (RString),
      RField ''req_remark'' [] PrString Singular 3 (RString)]"

definition pb_GetGroupAndMembersResp :: rust_struct where
  "pb_GetGroupAndMembersResp = RStructDef ''GetGroupAndMembersResp'' [SERDE_DERIVE, SERDE_CAMEL, ALLOW_CLIPPY, DERIVE_MESSAGE]
     [RField ''group'' [] PrMessage Optional 1 (ROption (RStruct ''GroupInfo'')),
      RField ''members'' [] PrMessage Repeated 2 (RVec (RStruct ''GroupMember''))]"

definition pb_PullOfflineRequest :: rust_struct where
  "pb_PullOfflineRequest = RStructDef ''PullOfflineRequest'' [SERDE_DERIVE, SERDE_CAMEL, ALLOW_CLIPPY, DERIVE_MESSAGE]
     [RField ''user_id'' [] PrString Singular 1 (RString),
      RField ''send_start'' [] PrInt64 Singular 2 (RI64),
      RField ''send_end'' [] PrInt64 Singular 3 (RI64),
      RField ''rec_start'' [] PrInt64 Singular 4 (RI64),
      RField ''rec_end'' [] PrInt64 Singular 5 (RI64)]"

definition pb_PullOfflineResponse :: rust_struct where
  "pb_PullOfflineResponse = RStructDef ''PullOfflineResponse'' [SERDE_DERIVE, SERDE_CAMEL, ALLOW_CLIPPY, DERIVE_MESSAGE]
     [RField ''messages'' [] PrMessage Repeated 1 (RVec (RStruct ''Msg''))]"

definition pb_FriendDb :: rust_struct where
  "pb_FriendDb = RStructDef ''FriendDb'' [ALLOW_CLIPPY, DERIVE_MESSAGE]
     [RField ''id'' [] PrInt64 Singular 1 (RI64),
      RField ''fs_id'' [] PrString Singular 2 (RString),
      RField ''user_id'' [] PrString Singular 3 (RString),
      RField ''friend_id'' [] PrString Singular 4 (RString),
      RField ''status'' [] (PrEnum ''FriendshipStatus'') Singular 5 (RI32),
      RField ''remark'' [] PrString Optional 6 (ROption (RString)),
      RField ''source'' [] PrString Singular 7 (RString),
      RField ''create_time'' [] PrInt64 Singular 8 (RI64),
      RField ''update_time'' [] PrInt64 Singular 9 (RI64),
      RField ''deleted_time'' [] PrInt64 Singular 10 (RI64),
      RField ''is_starred'' [] PrBool Singular 11 (RBool),
      RField ''group_id'' [] PrString Singular 12 (RString),
      RField ''interaction_score'' [] PrFloat Singular 13 (RF32),
      RField ''interaction_count'' [] PrInt32 Singular 14 (RI32),
      RField ''last_interaction'' [] PrInt64 Singular 15 (RI64),
      RField ''tags'' [] PrString Repeated 16 (RVec (RString)),
      RField ''privacy_level'' [] PrString Singular 17 (RString),
      RField ''notifications_enabled'' [] PrBool Singular 18 (RBool)]"

definition pb_MsgReadReq :: rust_struct where
  "pb_MsgReadReq = RStructDef ''MsgReadReq'' [SERDE_DERIVE, SERDE_CAMEL, ALLOW_CLIPPY, DERIVE_MESSAGE]
     [RField ''msg_read'' [] PrMessage Optional 1 (ROption (RStruct ''MsgRead''))]"

definition pb_MsgReadResp :: rust_struct where
  "pb_MsgReadResp = RStructDef ''MsgReadResp'' [SERDE_DERIVE, SERDE_CAMEL, ALLOW_CLIPPY, DERIVE_MESSAGE]
     []"

definition pb_UserAndGroupId :: rust_struct where
  "pb_UserAndGroupId = RStructDef ''UserAndGroupId'' [SERDE_DERIVE, SERDE_CAMEL, ALLOW_CLIPPY, DERIVE_MESSAGE]
     [RField ''user_id'' [] PrString Singular 1 (RString),
      RField ''group_id'' [] PrString Singular 2 (RString)]"

definition pb_GroupCategory :: rust_struct where
  "pb_GroupCategory = RStructDef ''GroupCategory'' [SERDE_DERIVE, SERDE_CAMEL, ALLOW_CLIPPY, DERIVE_MESSAGE]
     [RField ''id'' [] PrString Singular 1 (RString),
      RField ''name'' [] PrString Singular 2 (RString),
      RField ''description'' [] PrString Singular 3 (RString),
      RField ''display_order'' [] PrInt32 Singular 4 (RI32),
      RField ''create_time'' [] PrInt64 Singular 5 (RI64),
      RField ''update_time'' [] PrInt64 Singular 6 (RI64)]"

definition pb_GroupFile :: rust_struct where
  "pb_GroupFile = RStructDef ''GroupFile'' [SERDE_DERIVE, SERDE_CAMEL, ALLOW_CLIPPY, DERIVE_MESSAGE]
     [RField ''id'' [] PrString Singular 1 (RString),
      RField ''group_id'' [] PrString Singular 2 (RString),
      RField ''uploader_id'' [] PrString Singular 3 (RString),
      RField ''file_name'' [] PrString Singular 4 (RString),
      RField ''file_url'' [] PrString Singular 5 (RString),
      RField ''file_size'' [] PrInt64 Singular 6 (RI64),
      RField ''file_type'' [] PrString Singular 7 (RString),
      RField ''upload_time'' [] PrInt64 Singular 8 (RI64),
      RField ''is_pinned'' [] PrBool Singular 9 (RBool),
      RField ''download_count'' [] PrInt32 Singular 10 (RI32),
      RField ''thumbnail_url'' [] PrString Singular 11 (RString)]"

definition pb_PollOption :: rust_struct where
  "pb_PollOption = RStructDef ''PollOption'' [SERDE_DERIVE, SERDE_CAMEL, ALLOW_CLIPPY, DERIVE_MESSAGE]
     [RField ''id'' [] PrString Singular 1 (RString),
      RField ''text'' [] PrString Singular 2 (RString),
      RField ''voter_ids'' [] PrString Repeated 3 (RVec (RString)),
      RField ''vote_count'' [] PrInt32 Singular 4 (RI32)]"

definition pb_GroupPoll :: rust_struct where
  "pb_GroupPoll = RStructDef ''GroupPoll'' [SERDE_DERIVE, SERDE_CAMEL, ALLOW_CLIPPY, DERIVE_MESSAGE]
     [RField ''id'' [] PrString Singular 1 (RString),
      RField ''group_id'' [] PrString Singular 2 (RString),
      RField ''creator_id'' [] PrString Singular 3 (RString),
      RField ''title'' [] PrString Singular 4 (RString),
      RField ''options'' [] PrMessage Repeated 5 (RVec (RStruct ''PollOption'')),
      RField ''is_multiple'' [] PrBool Singular 6 (RBool),
      RField ''is_anonymous'' [] PrBool Singular 7 (RBool),
      RField ''created_at'' [] PrInt64 Singular 8 (RI64),
      RField ''expires_at'' [] PrInt64 Singular 9 (RI64),
      RField ''status'' [] PrString Singular 10 (RString)]"

definition pb_GroupMuteRecord :: rust_struct where
  "pb_GroupMuteRecord = RStructDef ''GroupMuteRecord'' [SERDE_DERIVE, SERDE_CAMEL, ALLOW_CLIPPY, DERIVE_MESSAGE]
     [RField ''id'' [] PrString Singular 1 (RString),
      RField ''group_id'' [] PrString Singular 2 (RString),
      RField ''user_id'' [] PrString Singular 3 (RString),
      RField ''operator_id'' [] PrString Singular 4 (RString),
      RField ''mute_until'' [] PrInt64 Singular 5 (RI64),
      RField ''reason'' [] PrString Singular 6 (RString),
      RField ''created_at'' [] PrInt64 Singular 7 (RI64)]"

definition pb_GroupAnnouncement :: rust_struct where
  "pb_GroupAnnouncement = RStructDef ''GroupAnnouncement'' [SERDE_DERIVE, SERDE_CAMEL, ALLOW_CLIPPY, DERIVE_MESSAGE]
     [RField ''id'' [] PrString Singular 1 (RString),
      RField ''group_id'' [] PrString Singular 2 (RString),
      RField ''creator_id'' [] PrString Singular 3 (RString),
      RField ''content'' [] PrString Singular 4 (RString),
      RField ''created_at'' [] PrInt64 Singular 5 (RI64),
      RField ''is_pinned'' [] PrBool Singular 6 (RBool)]"

definition pb_CreateGroupCategoryRequest :: rust_struct where
  "pb_CreateGroupCategoryRequest = RStructDef ''CreateGroupCategoryRequest'' [SERDE_DERIVE, SERDE_CAMEL, ALLOW_CLIPPY, DERIVE_MESSAGE]
     [RField ''name'' [] PrString Singular 1 (RString),
      RField ''description'' [] PrString Singular 2 (RString),
      RField ''display_order'' [] PrInt32 Singular 3 (RI32)]"

definition pb_UpdateGroupRequest :: rust_struct where
  "pb_UpdateGroupRequest = RStructDef ''UpdateGroupRequest'' [SERDE_DERIVE, SERDE_CAMEL, ALLOW_CLIPPY, DERIVE_MESSAGE]
     [RField ''group_id'' [] PrString Singular 1 (RString),
      RField ''user_id'' [] PrString Singular 2 (RString),
      RField ''name'' [] PrString Singular 3 (RString),
      RField ''avatar'' [] PrString Singular 4 (RString),
      RField ''description'' [] PrString Singular 5 (RString),
      RField ''announcement'' [] PrString Singular 6 (RString),
      RField ''join_approval_required'' [] PrBool Singular 7 (RBool),
      RField ''mute_all'' [] PrBool Singular 8 (RBool),
      RField ''only_admin_post'' [] PrBool Singular 9 (RBool),
      RField ''invite_permission'' [] (PrEnum ''GroupMemberRole'') Singular 10 (RI32),
      RField ''category'' [] PrString Singular 11 (RString),
      RField ''tags'' [] PrString Repeated 12 (RVec (RString))]"

definition pb_GroupFileUploadRequest :: rust_struct where
  "pb_GroupFileUploadRequest = RStructDef ''GroupFileUploadRequest'' [SERDE_DERIVE, SERDE_CAMEL, ALLOW_CLIPPY, DERIVE_MESSAGE]
     [RField ''group_id'' [] PrString Singular 1 (RString),
      RField ''uploader_id'' [] PrString Singular 2 (RString),
      RField ''file_name'' [] PrString Singular 3 (RString),
      RField ''file_data'' [] PrBytes Singular 4 (RBytes),
      RField ''file_type'' [] PrString Singular 5 (RString),
      RField ''file_size'' [] PrInt64 Singular 6 (RI64),
      RField ''file_url'' [] PrString Singular 7 (RString)]"

definition pb_CreatePollRequest :: rust_struct where
  "pb_CreatePollRequest = RStructDef ''CreatePollRequest'' [SERDE_DERIVE, SERDE_CAMEL, ALLOW_CLIPPY, DERIVE_MESSAGE]
     [RField ''group_id'' [] PrString Singular 1 (RString),
      RField ''creator_id'' [] PrString Singular 2 (RString),
      RField ''title'' [] PrString Singular 3 (RString),
      RField ''options'' [] PrString Repeated 4 (RVec (RString)),
      RField ''is_multiple'' [] PrBool Singular 5 (RBool),
      RField ''is_anonymous'' [] PrBool Singular 6 (RBool),
      RField ''expires_at'' [] PrInt64 Singular 7 (RI64)]"

definition pb_VotePollRequest :: rust_struct where
  "pb_VotePollRequest = RStructDef ''VotePollRequest'' [SERDE_DERIVE, SERDE_CAMEL, ALLOW_CLIPPY, DERIVE_MESSAGE]
     [RField ''poll_id'' [] PrString Singular 1 (RString),
      RField ''user_id'' [] PrString Singular 2 (RString),
      RField ''option_ids'' [] PrString Repeated 3 (RVec (RString))]"

definition pb_MuteGroupMemberRequest :: rust_struct where
  "pb_MuteGroupMemberRequest = RStructDef ''MuteGroupMemberRequest'' [SERDE_DERIVE, SERDE_CAMEL, ALLOW_CLIPPY, DERIVE_MESSAGE]
     [RField ''group_id'' [] PrString Singular 1 (RString),
      RField ''user_id'' [] PrString Singular 2 (RString),
      RField ''operator_id'' [] PrString Singular 3 (RString),
      RField ''mute_until'' [] PrInt64 Singular 4 (RI64),
      RField ''reason'' [] PrString Singular 5 (RString)]"

definition pb_CreateAnnouncementRequest :: rust_struct where
  "pb_CreateAnnouncementRequest = RStructDef ''CreateAnnouncementRequest'' [SERDE_DERIVE, SERDE_CAMEL, ALLOW_CLIPPY, DERIVE_MESSAGE]
     [RField ''group_id'' [] PrString Singular 1 (RString),
      RField ''creator_id'' [] PrString Singular 2 (RString),
      RField ''content'' [] PrString Singular 3 (RString),
      RField ''is_pinned'' [] PrBool Singular 4 (RBool)]"

definition pb_GroupCreate :: rust_struct where
  "pb_GroupCreate = RStructDef ''GroupCreate'' [SERDE_DERIVE, SERDE_CAMEL, ALLOW_CLIPPY, DERIVE_MESSAGE]
     [RField ''id'' [] PrString Singular 1 (RString),
      RField ''owner'' [] PrString Singular 2 (RString),
      RField ''avatar'' [] PrString Singular 3 (RString),
      RField ''group_name'' [] PrString Singular 4 (RString),
      RField ''members_id'' [] PrString Repeated 5 (RVec (RString))]"

definition pb_FriendGroup :: rust_struct where
  "pb_FriendGroup = RStructDef ''FriendGroup'' [SERDE_DERIVE, SERDE_CAMEL, ALLOW_CLIPPY, DERIVE_MESSAGE]
     [RField ''id'' [] PrString Singular 1 (RString),
      RField ''user_id'' [] PrString Singular 2 (RString),
      RField ''name'' [] PrString Singular 3 (RString),
      RField ''display_order'' [] PrInt32 Singular 4 (RI32),
      RField ''create_time'' [] PrInt64 Singular 5 (RI64),
      RField ''update_time'' [] PrInt64 Singular 6 (RI64)]"

definition pb_UpdateFriendGroupRequest :: rust_struct where
  "pb_UpdateFriendGroupRequest = RStructDef ''UpdateFriendGroupRequest'' [SERDE_DERIVE, SERDE_CAMEL, ALLOW_CLIPPY, DERIVE_MESSAGE]
     [RField ''user_id'' [] PrString Singular 1 (RString),
      RField ''friend_id'' [] PrString Singular 2 (RString),
      RField ''group_id'' [] PrString Singular 3 (RString)]"

definition pb_FriendTag :: rust_struct where
  "pb_FriendTag = RStructDef ''FriendTag'' [SERDE_DERIVE, SERDE_CAMEL, ALLOW_CLIPPY, DERIVE_MESSAGE]
     [RField ''id'' [] PrString Singular 1 (RString),
      RField ''user_id'' [] PrString Singular 2 (RString),
      RField ''tag_name'' [] PrString Singular 3 (RString),
      RField ''tag_color'' [] PrString Singular 4 (RString),
      RField ''create_time'' [] PrInt64 Singular 5 (RI64)]"

definition pb_ManageFriendTagRequest :: rust_struct where
  "pb_ManageFriendTagRequest = RStructDef ''ManageFriendTagRequest'' [SERDE_DERIVE, SERDE_CAMEL, ALLOW_CLIPPY, DERIVE_MESSAGE]
     [RField ''user_id'' [] PrString Singular 1 (RString),
      RField ''friend_id'' [] PrString Singular 2 (RString),
      RField ''tag_ids'' [] PrString Repeated 3 (RVec (RString)),
      RField ''is_add'' [] PrBool Singular 4 (RBool)]"

definition pb_FriendPrivacySettings :: rust_struct where
  "pb_FriendPrivacySettings = RStructDef ''FriendPrivacySettings'' [SERDE_DERIVE, SERDE_CAMEL, ALLOW_CLIPPY, DERIVE_MESSAGE]
     [RField ''user_id'' [] PrString Singular 1 (RString),
      RField ''friend_id'' [] PrString Singular 2 (RString),
      RField ''privacy_level'' [] PrString Singular 3 (RString),
      RField ''share_timeline'' [] PrBool Singular 4 (RBool),
      RField ''share_location'' [] PrBool Singular 5 (RBool),
      RField ''share_status'' [] PrBool Singular 6 (RBool)]"

definition pb_UpdateFriendPrivacyRequest :: rust_struct where
  "pb_UpdateFriendPrivacyRequest = RStructDef ''UpdateFriendPrivacyRequest'' [SERDE_DERIVE, SERDE_CAMEL, ALLOW_CLIPPY, DERIVE_MESSAGE]
     [RField ''settings'' [] PrMessage Optional 1 (ROption (RStruct ''FriendPrivacySettings''))]"

definition pb_UpdateRemarkRequest :: rust_struct where
  "pb_UpdateRemarkRequest = RStructDef ''UpdateRemarkRequest'' [SERDE_DERIVE, SERDE_CAMEL, ALLOW_CLIPPY, DERIVE_MESSAGE]
     [RField ''user_id'' [] PrString Singular 1 (RString),
      RField ''friend_id'' [] PrString Singular 2 (RString),
      RField ''remark'' [] PrString Singular 3 (RString)]"

definition pb_DeleteFriendRequest :: rust_struct where
  "pb_DeleteFriendRequest = RStructDef ''DeleteFriendRequest'' [SERDE_DERIVE, SERDE_CAMEL, ALLOW_CLIPPY, DERIVE_MESSAGE]
     [RField ''user_id'' [] PrString Singular 1 (RString),
      RField ''friend_id'' [] PrString Singular 2 (RString),
      RField ''fs_id'' [] PrString Singular 3 (RString)]"

definition pb_RemoveMemberRequest :: rust_struct where
  "pb_RemoveMemberRequest = RStructDef ''RemoveMemberRequest'' [SERDE_DERIVE, SERDE_CAMEL, ALLOW_CLIPPY, DERIVE_MESSAGE]
     [RField ''user_id'' [] PrString Singular 1 (RString),
      RField ''group_id'' [] PrString Singular 2 (RString),
      RField ''mem_id'' [] PrString Repeated 3 (RVec (RString))]"

definition pb_GroupMembersIdRequest :: rust_struct where
  "pb_GroupMembersIdRequest = RStructDef ''GroupMembersIdRequest'' [SERDE_DERIVE, SERDE_CAMEL, ALLOW_CLIPPY, DERIVE_MESSAGE]
     [RField ''group_id'' [] PrString Singular 1 (RString)]"

definition pb_SendMsgRequest :: rust_struct where
  "pb_SendMsgRequest = RStructDef ''SendMsgRequest'' [SERDE_DERIVE, SERDE_CAMEL, ALLOW_CLIPPY, DERIVE_MESSAGE]
     [RField ''message'' [] PrMessage Optional 1 (ROption (RStruct ''Msg''))]"

definition pb_SendGroupMsgRequest :: rust_struct where
  "pb_SendGroupMsgRequest = RStructDef ''SendGroupMsgRequest'' [SERDE_DERIVE, SERDE_CAMEL, ALLOW_CLIPPY, DERIVE_MESSAGE]
     [RField ''message'' [] PrMessage Optional 1 (ROption (RStruct ''Msg'')),
      RField ''members'' [] PrMessage Repeated 2 (RVec (RStruct ''GroupMemSeq''))]"

definition pb_SendMsgResponse :: rust_struct where
  "pb_SendMsgResponse = RStructDef ''SendMsgResponse'' [SERDE_DERIVE, SERDE_CAMEL, ALLOW_CLIPPY, DERIVE_MESSAGE]
     []"

definition pb_SaveMessageRequest :: rust_struct where
  "pb_SaveMessageRequest = RStructDef ''SaveMessageRequest'' [SERDE_DERIVE, SERDE_CAMEL, ALLOW_CLIPPY, DERIVE_MESSAGE]
     [RField ''message'' [] PrMessage Optional 1 (ROption (RStruct ''Msg'')),
      RField ''need_to_history'' [] PrBool Singular 2 (RBool)]"

definition pb_SaveGroupMsgRequest :: rust_struct where
  "pb_SaveGroupMsgRequest = RStructDef ''SaveGroupMsgRequest'' [SERDE_DERIVE, SERDE_CAMEL, ALLOW_CLIPPY, DERIVE_MESSAGE]
     [RField ''message'' [] PrMessage Optional 1 (ROption (RStruct ''Msg'')),
      RField ''need_to_history'' [] PrBool Singular 2 (RBool),
      RField ''members'' [] PrMessage Repeated 3 (RVec (RStruct ''GroupMemSeq''))]"

definition pb_GroupMemSeq :: rust_struct where
  "pb_GroupMemSeq = RStructDef ''GroupMemSeq'' [SERDE_DERIVE, SERDE_CAMEL, ALLOW_CLIPPY, DERIVE_MESSAGE]
     [RField ''mem_id'' [] PrString Singular 1 (RString),
      RField ''cur_seq'' [] PrInt64 Singular 2 (RI64),
      RField ''max_seq'' [] PrInt64 Singular 3 (RI64),
      RField ''need_update'' [] PrBool Singular 4 (RBool)]"

definition pb_GetDbMsgRequest :: rust_struct where
  "pb_GetDbMsgRequest = RStructDef ''GetDbMsgRequest'' [SERDE_DERIVE, SERDE_CAMEL, ALLOW_CLIPPY, DERIVE_MESSAGE]
     [RField ''user_id'' [] PrString Singular 1 (RString),
      RField ''start'' [] PrInt64 Singular 2 (RI64),
      RField ''end'' [] PrInt64 Singular 3 (RI64)]"

definition pb_GetDbMessagesRequest :: rust_struct where
  "pb_GetDbMessagesRequest = RStructDef ''GetDbMessagesRequest'' [SERDE_DERIVE, SERDE_CAMEL, ALLOW_CLIPPY, DERIVE_MESSAGE]
     [RField ''user_id'' [] PrString Singular 1 (RString),
      RField ''send_start'' [] PrInt64 Singular 2 (RI64),
      RField ''send_end'' [] PrInt64 Singular 3 (RI64),
      RField ''start'' [] PrInt64 Singular 4 (RI64),
      RField ''end'' [] PrInt64 Singular 5 (RI64)]"

definition pb_DelMsgRequest :: rust_struct where
  "pb_DelMsgRequest = RStructDef ''DelMsgRequest'' [SERDE_DERIVE, SERDE_CAMEL, ALLOW_CLIPPY, DERIVE_MESSAGE]
     [RField ''user_id'' [] PrString Singular 1 (RString),
      RField ''msg_id'' [] PrInt64 Repeated 2 (RVec (RI64))]"

definition pb_GetMemberReq :: rust_struct where
  "pb_GetMemberReq = RStructDef ''GetMemberReq'' [SERDE_DERIVE, SERDE_CAMEL, ALLOW_CLIPPY, DERIVE_MESSAGE]
     [RField ''user_id'' [] PrString Singular 1 (RString),
      RField ''group_id'' [] PrString Singular 2 (RString),
      RField ''mem_ids'' [] PrString Repeated 3 (RVec (RString))]"

definition pb_GroupInviteNewRequest :: rust_struct where
  "pb_GroupInviteNewRequest = RStructDef ''GroupInviteNewRequest'' [SERDE_DERIVE, SERDE_CAMEL, ALLOW_CLIPPY, DERIVE_MESSAGE]
     [RField ''group_invite'' [] PrMessage Optional 1 (ROption (RStruct ''GroupInviteNew''))]"

definition pb_RemoveMemberResp :: rust_struct where
  "pb_RemoveMemberResp = RStructDef ''RemoveMemberResp'' [SERDE_DERIVE, SERDE_CAMEL, ALLOW_CLIPPY, DERIVE_MESSAGE]
     []"

definition pb_GroupInviteNewResp :: rust_struct where
  "pb_GroupInviteNewResp = RStructDef ''GroupInviteNewResp'' [SERDE_DERIVE, SERDE_CAMEL, ALLOW_CLIPPY, DERIVE_MESSAGE]
     [RField ''members'' [] PrMessage Repeated 1 (RVec (RStruct ''GroupMember''))]"

definition pb_GroupUpdateRequest :: rust_struct where
  "pb_GroupUpdateRequest = RStructDef ''GroupUpdateRequest'' [SERDE_DERIVE, SERDE_CAMEL, ALLOW_CLIPPY, DERIVE_MESSAGE]
     [RField ''group'' [] PrMessage Optional 1 (ROption (RStruct ''GroupUpdate''))]"

definition pb_GroupUpdateResponse :: rust_struct where
  "pb_GroupUpdateResponse = RStructDef ''GroupUpdateResponse'' [SERDE_DERIVE, SERDE_CAMEL, ALLOW_CLIPPY, DERIVE_MESSAGE]
     [RField ''group'' [] PrMessage Optional 1 (ROption (RStruct ''GroupInfo''))]"

definition pb_GroupDeleteRequest :: rust_struct where
  "pb_GroupDeleteRequest = RStructDef ''GroupDeleteRequest'' [SERDE_DERIVE, SERDE_CAMEL, ALLOW_CLIPPY, DERIVE_MESSAGE]
     [RField ''group_id'' [] PrString Singular 1 (RString),
      RField ''user_id'' [] PrString Singular 2 (RString)]"

definition pb_GroupDeleteResponse :: rust_struct where
  "pb_GroupDeleteResponse = RStructDef ''GroupDeleteResponse'' [SERDE_DERIVE, SERDE_CAMEL, ALLOW_CLIPPY, DERIVE_MESSAGE]
     [RField ''group'' [] PrMessage Optional 1 (ROption (RStruct ''GroupInfo''))]"

definition pb_GroupMemberExitResponse :: rust_struct where
  "pb_GroupMemberExitResponse = RStructDef ''GroupMemberExitResponse'' [SERDE_DERIVE, SERDE_CAMEL, ALLOW_CLIPPY, DERIVE_MESSAGE]
     []"

definition pb_GroupMembersIdResponse :: rust_struct where
  "pb_GroupMembersIdResponse = RStructDef ''GroupMembersIdResponse'' [SERDE_DERIVE, SERDE_CAMEL, ALLOW_CLIPPY, DERIVE_MESSAGE]
     [RField ''members_id'' [] PrString Repeated 1 (RVec (RString))]"

definition pb_CreateUserRequest :: rust_struct where
  "pb_CreateUserRequest = RStructDef ''CreateUserRequest'' [SERDE_DERIVE, SERDE_CAMEL, ALLOW_CLIPPY, DERIVE_MESSAGE]
     [RField ''user'' [] PrMessage Optional 1 (ROption (RStruct ''User''))]"

definition pb_CreateUserResponse :: rust_struct where
  "pb_CreateUserResponse = RStructDef ''CreateUserResponse'' [SERDE_DERIVE, SERDE_CAMEL, ALLOW_CLIPPY, DERIVE_MESSAGE]
     [RField ''user'' [] PrMessage Optional 1 (ROption (RStruct ''User''))]"

definition pb_GetUserRequest :: rust_struct where
  "pb_GetUserRequest = RStructDef ''GetUserRequest'' [SERDE_DERIVE, SERDE_CAMEL, ALLOW_CLIPPY, DERIVE_MESSAGE]
     [RField ''user_id'' [] PrString Singular 1 (RString)]"

definition pb_GetUserByEmailRequest :: rust_struct where
  "pb_GetUserByEmailRequest = RStructDef ''GetUserByEmailRequest'' [SERDE_DERIVE, SERDE_CAMEL, ALLOW_CLIPPY, DERIVE_MESSAGE]
     [RField ''email'' [] PrString Singular 1 (RString)]"

definition pb_GetUserResponse :: rust_struct where
  "pb_GetUserResponse = RStructDef ''GetUserResponse'' [SERDE_DERIVE, SERDE_CAMEL, ALLOW_CLIPPY, DERIVE_MESSAGE]
     [RField ''user'' [] PrMessage Optional 1 (ROption (RStruct ''User''))]"

definition pb_UpdateUserRequest :: rust_struct where
  "pb_UpdateUserRequest = RStructDef ''UpdateUserRequest'' [SERDE_DERIVE, SERDE_CAMEL, ALLOW_CLIPPY, DERIVE_MESSAGE]
     [RField ''user'' [] PrMessage Optional 1 (ROption (RStruct ''UserUpdate''))]"

definition pb_UpdateUserResponse :: rust_struct where
  "pb_UpdateUserResponse = RStructDef ''UpdateUserResponse'' [SERDE_DERIVE, SERDE_CAMEL, ALLOW_CLIPPY, DERIVE_MESSAGE]
     [RField ''user'' [] PrMessage Optional 1 (ROption (RStruct ''User''))]"

definition pb_UpdateRegionRequest :: rust_struct where
  "pb_UpdateRegionRequest = RStructDef ''UpdateRegionRequest'' [SERDE_DERIVE, SERDE_CAMEL, ALLOW_CLIPPY, DERIVE_MESSAGE]
     [RField ''user_id'' [] PrString Singular 1 (RString),
      RField ''region'' [] PrString Singular 2 (RString)]"

definition pb_UpdateRegionResponse :: rust_struct where
  "pb_UpdateRegionResponse = RStructDef ''UpdateRegionResponse'' [SERDE_DERIVE, SERDE_CAMEL, ALLOW_CLIPPY, DERIVE_MESSAGE]
     []"

definition pb_SearchUserRequest :: rust_struct where
  "pb_SearchUserRequest = RStructDef ''SearchUserRequest'' [SERDE_DERIVE, SERDE_CAMEL, ALLOW_CLIPPY, DERIVE_MESSAGE]
     [RField ''user_id'' [] PrString Singular 1 (RString),
      RField ''pattern'' [] PrString Singular 2 (RString)]"

definition pb_SearchUserResponse :: rust_struct where
  "pb_SearchUserResponse = RStructDef ''SearchUserResponse'' [SERDE_DERIVE, SERDE_CAMEL, ALLOW_CLIPPY, DERIVE_MESSAGE]
     [RField ''user'' [] PrMessage Optional 1 (ROption (RStruct ''UserWithMatchType''))]"

definition pb_FsCreateRequest :: rust_struct where
  "pb_FsCreateRequest = RStructDef ''FsCreateRequest'' [SERDE_DERIVE, SERDE_CAMEL, ALLOW_CLIPPY, DERIVE_MESSAGE]
     [RField ''fs_create'' [] PrMessage Optional 1 (ROption (RStruct ''FsCreate''))]"

definition pb_FsCreateResponse :: rust_struct where
  "pb_FsCreateResponse = RStructDef ''FsCreateResponse'' [SERDE_DERIVE, SERDE_CAMEL, ALLOW_CLIPPY, DERIVE_MESSAGE]
     [RField ''fs_req'' [] PrMessage Optional 1 (ROption (RStruct ''FriendshipWithUser'')),
      RField ''fs_send'' [] PrMessage Optional 2 (ROption (RStruct ''FriendshipWithUser''))]"

definition pb_FsAgreeRequest :: rust_struct where
  "pb_FsAgreeRequest = RStructDef ''FsAgreeRequest'' [SERDE_DERIVE, SERDE_CAMEL, ALLOW_CLIPPY, DERIVE_MESSAGE]
     [RField ''fs_reply'' [] PrMessage Optional 1 (ROption (RStruct ''AgreeReply''))]"

definition pb_FsAgreeResponse :: rust_struct where
  "pb_FsAgreeResponse = RStructDef ''FsAgreeResponse'' [SERDE_DERIVE, SERDE_CAMEL, ALLOW_CLIPPY, DERIVE_MESSAGE]
     [RField ''req'' [] PrMessage Optional 1 (ROption (RStruct ''Friend'')),
      RField ''send'' [] PrMessage Optional 2 (ROption (RStruct ''Friend''))]"

definition pb_UpdateRemarkResponse :: rust_struct where
  "pb_UpdateRemarkResponse = RStructDef ''UpdateRemarkResponse'' [SERDE_DERIVE, SERDE_CAMEL, ALLOW_CLIPPY, DERIVE_MESSAGE]
     []"

definition pb_DeleteFriendResponse :: rust_struct where
  "pb_DeleteFriendResponse = RStructDef ''DeleteFriendResponse'' [SERDE_DERIVE, SERDE_CAMEL, ALLOW_CLIPPY, DERIVE_MESSAGE]
     []"

definition pb_FsUpdateRequest :: rust_struct where
  "pb_FsUpdateRequest = RStructDef ''FsUpdateRequest'' [SERDE_DERIVE, SERDE_CAMEL, ALLOW_CLIPPY, DERIVE_MESSAGE]
     [RField ''fs_update'' [] PrMessage Optional 1 (ROption (RStruct ''FsUpdate''))]"

definition pb_FriendListRequest :: rust_struct where
  "pb_FriendListRequest = RStructDef ''FriendListRequest'' [SERDE_DERIVE, SERDE_CAMEL, ALLOW_CLIPPY, DERIVE_MESSAGE]
     [RField ''user_id'' [] PrString Singular 1 (RString),
      RField ''offline_time'' [] PrInt64 Singular 2 (RI64)]"

definition pb_FsListResponse :: rust_struct where
  "pb_FsListResponse = RStructDef ''FsListResponse'' [SERDE_DERIVE, SERDE_CAMEL, ALLOW_CLIPPY, DERIVE_MESSAGE]
     [RField ''friendships'' [] PrMessage Repeated 1 (RVec (RStruct ''FriendshipWithUser''))]"

definition pb_FriendListResponse :: rust_struct where
  "pb_FriendListResponse = RStructDef ''FriendListResponse'' [SERDE_DERIVE, SERDE_CAMEL, ALLOW_CLIPPY, DERIVE_MESSAGE]
     [RField ''friends'' [] PrMessage Repeated 1 (RVec (RStruct ''Friend''))]"

definition pb_ClosePollRequest :: rust_struct where
  "pb_ClosePollRequest = RStructDef ''ClosePollRequest'' [SERDE_DERIVE, SERDE_CAMEL, ALLOW_CLIPPY, DERIVE_MESSAGE]
     [RField ''poll_id'' [] PrString Singular 1 (RString),
      RField ''user_id'' [] PrString Singular 2 (RString)]"

definition pb_UpdateFilePinRequest :: rust_struct where
  "pb_UpdateFilePinRequest = RStructDef ''UpdateFilePinRequest'' [SERDE_DERIVE, SERDE_CAMEL, ALLOW_CLIPPY, DERIVE_MESSAGE]
     [RField ''file_id'' [] PrString Singular 1 (RString),
      RField ''user_id'' [] PrString Singular 2 (RString),
      RField ''is_pinned'' [] PrBool Singular 3 (RBool)]"

definition pb_UnmuteRequest :: rust_struct where
  "pb_UnmuteRequest = RStructDef ''UnmuteRequest'' [SERDE_DERIVE, SERDE_CAMEL, ALLOW_CLIPPY, DERIVE_MESSAGE]
     [RField ''group_id'' [] PrString Singular 1 (RString),
      RField ''user_id'' [] PrString Singular 2 (RString),
      RField ''operator_id'' [] PrString Singular 3 (RString)]"

definition pb_UserUpdate :: rust_struct where
  "pb_UserUpdate = RStructDef ''UserUpdate'' [SERDE_DERIVE, SERDE_CAMEL, ALLOW_CLIPPY, DERIVE_MESSAGE]
     [RField ''id'' [] PrString Singular 1 (RString),
      RField ''name'' [] PrString Singular 2 (RString),
      RField ''avatar'' [] PrString Singular 3 (RString),
      RField ''gender'' [] PrString Singular 4 (RString),
      RField ''phone'' [] PrString Singular 5 (RString),
      RField ''email'' [] PrString Singular 6 (RString),
      RField ''address'' [] PrString Singular 7 (RString),
      RField ''region'' [] PrString Singular 8 (RString),
      RField ''birthday'' [] PrInt64 Singular 9 (RI64),
      RField ''signature'' [] PrString Singular 10 (RString),
      RField ''status'' [] PrString Singular 11 (RString),
      RField ''status_message'' [] PrString Singular 12 (RString),
      RField ''privacy_settings'' [] PrString Singular 13 (RString),
      RField ''notification_settings'' [] PrString Singular 14 (RString),
      RField ''language'' [] PrString Singular 15 (RString),
      RField ''friend_requests_privacy'' [] PrString Singular 16 (RString),
      RField ''profile_visibility'' [] PrString Singular 17 (RString),
      RField ''theme'' [] PrString Singular 18 (RString),
      RField ''timezone'' [] PrString Singular 19 (RString)]"

definition pb_PlatformType :: rust_enum where
  "pb_PlatformType = REnumDef ''PlatformType'' [SERDE_DERIVE, SERDE_CAMEL, DERIVE_ENUM, REPR_I32]
     [(''Desktop'', 0), (''Mobile'', 1)]"

definition pb_ContentType :: rust_enum where
  "pb_ContentType = REnumDef ''ContentType'' [SERDE_DERIVE, SERDE_CAMEL, DERIVE_ENUM, REPR_I32]
     [(''Default'', 0), (''Text'', 1), (''Image'', 2), (''Video'', 3), (''Audio'', 4), (''File'', 5), (''Emoji'', 6), (''VideoCall'', 7), (''AudioCall'', 8), (''Error'', 9)]"

definition pb_FriendshipStatus :: rust_enum where
  "pb_FriendshipStatus = REnumDef ''FriendshipStatus'' [SERDE_DERIVE, SERDE_CAMEL, Derive [''sqlx::Type'', ''Clone'', ''Copy'', ''Debug'', ''PartialEq'', ''Eq'', ''Hash'', ''PartialOrd'', ''Ord'', ''::prost::Enumeration''], REPR_I32]
     [(''Pending'', 0), (''Accepted'', 1), (''Rejected'', 2), (''Blacked'', 3), (''Deleted'', 4), (''Muted'', 5), (''Hidden'', 6)]"

definition pb_MsgType :: rust_enum where
  "pb_MsgType = REnumDef ''MsgType'' [SERDE_DERIVE, SERDE_CAMEL, DERIVE_ENUM, REPR_I32]
     [(''SingleMsg'', 0), (''GroupMsg'', 1), (''GroupInvitation'', 2), (''GroupInviteNew'', 3), (''GroupMemberExit'', 4), (''GroupRemoveMember'', 5), (''GroupDismiss'', 6), (''GroupDismissOrExitReceived'', 7), (''GroupInvitationReceived'', 8), (''GroupUpdate'', 9), (''GroupFile'', 10), (''GroupPoll'', 11), (''GroupMute'', 12), (''GroupAnnouncement'', 13), (''FriendApplyReq'', 14), (''FriendApplyResp'', 15), (''FriendBlack'', 16), (''FriendDelete'', 17), (''SingleCallInvite'', 18), (''RejectSingleCall'', 19), (''AgreeSingleCall'', 20), (''SingleCallInviteNotAnswer'', 21), (''SingleCallInviteCancel'', 22), (''SingleCallOffer'', 23), (''Hangup'', 24), (''ConnectSingleCall'', 25), (''Candidate'', 26), (''Read'', 27), (''MsgRecResp'', 28), (''Notification'', 29), (''Service'', 30), (''FriendshipReceived'', 31)]"

definition pb_SingleCallInviteType :: rust_enum where
  "pb_SingleCallInviteType = REnumDef ''SingleCallInviteType'' [SERDE_DERIVE, SERDE_CAMEL, DERIVE_ENUM, REPR_I32]
     [(''SingleAudio'', 0), (''SingleVideo'', 1)]"

definition pb_GroupMemberRole :: rust_enum where
  "pb_GroupMemberRole = REnumDef ''GroupMemberRole'' [SERDE_DERIVE, SERDE_CAMEL, Derive [''sqlx::Type'', ''Clone'', ''Copy'', ''Debug'', ''PartialEq'', ''Eq'', ''Hash'', ''PartialOrd'', ''Ord'', ''::prost::Enumeration''], REPR_I32]
     [(''Owner'', 0), (''Admin'', 1), (''Member'', 2)]"

definition pb_structs :: "rust_struct list" where
  "pb_structs =
     [pb_Msg, pb_MsgContent, pb_Mention, pb_MsgRead, pb_Candidate, pb_AgreeSingleCall,
      pb_SingleCallInvite, pb_SingleCallInviteAnswer, pb_SingleCallInviteNotAnswer, pb_SingleCallInviteCancel, pb_SingleCallOffer, pb_Hangup,
      pb_Single, pb_MsgResponse, pb_GroupInfo, pb_GroupMember, pb_GroupInvitation, pb_GroupInviteNew,
      pb_GroupUpdate, pb_User, pb_UserWithMatchType, pb_Friendship, pb_FriendshipWithUser, pb_Friend,
      pb_FriendInfo, pb_FsCreate, pb_AgreeReply, pb_FsUpdate, pb_GetGroupAndMembersResp, pb_PullOfflineRequest,
      pb_PullOfflineResponse, pb_FriendDb, pb_MsgReadReq, pb_MsgReadResp, pb_UserAndGroupId, pb_GroupCategory,
      pb_GroupFile, pb_PollOption, pb_GroupPoll, pb_GroupMuteRecord, pb_GroupAnnouncement, pb_CreateGroupCategoryRequest,
      pb_UpdateGroupRequest, pb_GroupFileUploadRequest, pb_CreatePollRequest, pb_VotePollRequest, pb_MuteGroupMemberRequest, pb_CreateAnnouncementRequest,
      pb_GroupCreate, pb_FriendGroup, pb_UpdateFriendGroupRequest, pb_FriendTag, pb_ManageFriendTagRequest, pb_FriendPrivacySettings,
      pb_UpdateFriendPrivacyRequest, pb_UpdateRemarkRequest, pb_DeleteFriendRequest, pb_RemoveMemberRequest, pb_GroupMembersIdRequest, pb_SendMsgRequest,
      pb_SendGroupMsgRequest, pb_SendMsgResponse, pb_SaveMessageRequest, pb_SaveGroupMsgRequest, pb_GroupMemSeq, pb_GetDbMsgRequest,
      pb_GetDbMessagesRequest, pb_DelMsgRequest, pb_GetMemberReq, pb_GroupInviteNewRequest, pb_RemoveMemberResp, pb_GroupInviteNewResp,
      pb_GroupUpdateRequest, pb_GroupUpdateResponse, pb_GroupDeleteRequest, pb_GroupDeleteResponse, pb_GroupMemberExitResponse, pb_GroupMembersIdResponse,
      pb_CreateUserRequest, pb_CreateUserResponse, pb_GetUserRequest, pb_GetUserByEmailRequest, pb_GetUserResponse, pb_UpdateUserRequest,
      pb_UpdateUserResponse, pb_UpdateRegionRequest, pb_UpdateRegionResponse, pb_SearchUserRequest, pb_SearchUserResponse, pb_FsCreateRequest,
      pb_FsCreateResponse, pb_FsAgreeRequest, pb_FsAgreeResponse, pb_UpdateRemarkResponse, pb_DeleteFriendResponse, pb_FsUpdateRequest,
      pb_FriendListRequest, pb_FsListResponse, pb_FriendListResponse, pb_ClosePollRequest, pb_UpdateFilePinRequest, pb_UnmuteRequest,
      pb_UserUpdate]"

definition pb_enums :: "rust_enum list" where
  "pb_enums = [pb_PlatformType, pb_ContentType, pb_FriendshipStatus, pb_MsgType, pb_SingleCallInviteType, pb_GroupMemberRole]"

section \<open>The declarations\<close>

definition common_proto :: "proto_message list" where
  "common_proto =
     [PMessage ''Msg''
        [PField Singular TString ''sender_id'' 1,
         PField Singular TString ''receiver_id'' 2,
         PField Singular TString ''client_id'' 3,
         PField Singular TString ''server_id'' 4,
         PField Singular TInt64 ''create_time'' 5,
         PField Singular TInt64 ''send_time'' 6,
         PField Singular TInt64 ''seq'' 7,
         PField Singular (TEnum ''MsgType'') ''msg_type'' 8,
         PField Singular (TEnum ''ContentType'') ''content_type'' 9,
         PField Singular TBytes ''content'' 10,
         PField Singular TBool ''is_read'' 11,
         PField Singular TString ''group_id'' 12,
         PField Singular (TEnum ''PlatformType'') ''platform'' 13,
         PField Singular TString ''avatar'' 14,
         PField Singular TString ''nickname'' 15,
         PField Optional TString ''related_msg_id'' 16,
         PField Singular TInt64 ''send_seq'' 17],
      PMessage ''MsgContent''
        [PField Singular TString ''content'' 1,
         PField Optional (TMsg ''Mention'') ''mention'' 2],
      PMessage ''Mention''
        [PField Singular TBool ''all'' 1,
         PField Repeated TString ''user_ids'' 2],
      PMessage ''MsgRead''
        [PField Repeated TInt64 ''msg_seq'' 1,
         PField Singular TString ''user_id'' 2],
      PMessage ''Candidate''
        [PField Singular TString ''candidate'' 1,
         PField Optional TString ''sdp_mid'' 2,
         PField Optional TInt32 ''sdp_m_index'' 3],
      PMessage ''AgreeSingleCall''
        [PField Singular TString ''sdp'' 1],
      PMessage ''SingleCallInvite''
        [PField Singular (TEnum ''SingleCallInviteType'') ''invite_type'' 1],
      PMessage ''SingleCallInviteAnswer''
        [PField Singular TBool ''agree'' 1,
         PField Singular (TEnum ''SingleCallInviteType'') ''invite_type'' 2],
      PMessage ''SingleCallInviteNotAnswer''
        [PField Singular (TEnum ''SingleCallInviteType'') ''invite_type'' 1],
      PMessage ''SingleCallInviteCancel''
        [PField Singular (TEnum ''SingleCallInviteType'') ''invite_type'' 2],
      PMessage ''SingleCallOffer''
        [PField Singular TString ''sdp'' 1],
      PMessage ''Hangup''
        [PField Singular (TEnum ''SingleCallInviteType'') ''invite_type'' 1,
         PField Singular TInt64 ''sustain'' 2],
      PMessage ''Single''
        [PField Singular TString ''content'' 2,
         PField Singular (TEnum ''ContentType'') ''content_type'' 3],
      PMessage ''MsgResponse''
        [PField Singular TString ''client_id'' 1,
         PField Singular TString ''server_id'' 2,
         PField Singular TInt64 ''send_time'' 3,
         PField Singular TString ''err'' 4]]"

definition client_messages_proto :: "proto_message list" where
  "client_messages_proto =
     [PMessage ''GroupInfo''
        [PField Singular TString ''id'' 1,
         PField Singular TString ''owner'' 2,
         PField Singular TString ''name'' 3,
         PField Singular TString ''avatar'' 4,
         PField Singular TString ''description'' 5,
         PField Singular TString ''announcement'' 6,
         PField Singular TInt64 ''create_time'' 7,
         PField Singular TInt64 ''update_time'' 8,
         PField Singular TInt32 ''max_members'' 9,
         PField Singular TBool ''is_public'' 10,
         PField Singular TBool ''join_approval_required'' 11,
         PField Singular TString ''category'' 12,
         PField Repeated TString ''tags'' 13,
         PField Singular TBool ''mute_all'' 14,
         PField Singular TBool ''only_admin_post'' 15,
         PField Singular (TEnum ''GroupMemberRole'') ''invite_permission'' 16,
         PField Repeated TString ''pinned_messages'' 17],
      PMessage ''GroupMember''
        [PField Singular TInt32 ''age'' 1,
         PField Singular TString ''group_id'' 2,
         PField Singular TString ''user_id'' 3,
         PField Singular TString ''group_name'' 4,
         PField Singular TString ''avatar'' 5,
         PField Singular TInt64 ''joined_at'' 6,
         PField Optional TString ''region'' 7,
         PField Singular TString ''gender'' 8,
         PField Optional TString ''remark'' 9,
         PField Singular TString ''signature'' 10,
         PField Singular (TEnum ''GroupMemberRole'') ''role'' 11,
         PField Singular TBool ''is_muted'' 12,
         PField Singular TString ''notification_level'' 13,
         PField Singular TInt64 ''last_read_time'' 14,
         PField Singular TInt32 ''display_order'' 15,
         PField Singular TString ''joined_by'' 16],
      PMessage ''GroupInvitation''
        [PField Singular (TMsg ''GroupInfo'') ''info'' 1,
         PField Repeated (TMsg ''GroupMember'') ''members'' 2],
      PMessage ''GroupInviteNew''
        [PField Singular TString ''user_id'' 1,
         PField Singular TString ''group_id'' 2,
         PField Repeated TString ''members'' 3],
      PMessage ''GroupUpdate''
        [PField Singular TString ''id'' 1,
         PField Singular TString ''name'' 2,
         PField Singular TString ''avatar'' 3,
         PField Singular TString ''description'' 4,
         PField Singular TString ''announcement'' 5,
         PField Singular TInt64 ''update_time'' 6],
      PMessage ''User''
        [PField Singular TString ''id'' 1,
         PField Singular TString ''name'' 2,
         PField Singular TString ''account'' 3,
         PField Singular TString ''password'' 4,
         PField Singular TString ''avatar'' 5,
         PField Singular TString ''gender'' 6,
         PField Singular TInt32 ''age'' 7,
         PField Optional TString ''phone'' 8,
         PField Optional TString ''email'' 9,
         PField Optional TString ''address'' 10,
         PField Optional TString ''region'' 11,
         PField Optional TInt64 ''birthday'' 12,
         PField Singular TInt64 ''create_time'' 13,
         PField Singular TInt64 ''update_time'' 14,
         PField Singular TString ''salt'' 15,
         PField Singular TString ''signature'' 16,
         PField Optional TInt64 ''last_login_time'' 17,
         PField Optional TString ''last_login_ip'' 18,
         PField Singular TBool ''two_factor_enabled'' 19,
         PField Singular TString ''account_status'' 20,
         PField Singular TString ''status'' 21,
         PField Optional TInt64 ''last_active_time'' 22,
         PField Optional TString ''status_message'' 23,
         PField Singular TString ''privacy_settings'' 24,
         PField Singular TString ''notification_settings'' 25,
         PField Singular TString ''language'' 26,
         PField Singular TString ''friend_requests_privacy'' 27,
         PField Singular TString ''profile_visibility'' 28,
         PField Singular TString ''theme'' 29,
         PField Singular TString ''timezone'' 30,
         PField Singular TBool ''is_delete'' 31],
      PMessage ''UserWithMatchType''
        [PField Singular TString ''id'' 1,
         PField Singular TString ''name'' 2,
         PField Singular TString ''account'' 3,
         PField Singular TString ''avatar'' 4,
         PField Singular TString ''gender'' 5,
         PField Singular TInt32 ''age'' 6,
         PField Optional TString ''email'' 7,
         PField Optional TString ''region'' 8,
         PField Optional TInt64 ''birthday'' 9,
         PField Optional TString ''match_type'' 10,
         PField Singular TString ''signature'' 11,
         PField Singular TBool ''is_friend'' 12],
      PMessage ''Friendship''
        [PField Singular TString ''id'' 1,
         PField Singular TString ''user_id'' 2,
         PField Singular TString ''friend_id'' 3,
         PField Singular (TEnum ''FriendshipStatus'') ''status'' 4,
         PField Optional TString ''apply_msg'' 5,
         PField Optional TString ''req_remark'' 6,
         PField Optional TString ''resp_msg'' 7,
         PField Optional TString ''resp_remark'' 8,
         PField Singular TString ''source'' 9,
         PField Singular TInt64 ''create_time'' 10,
         PField Singular TInt64 ''update_time'' 11],
      PMessage ''FriendshipWithUser''
        [PField Singular TString ''fs_id'' 1,
         PField Singular TString ''user_id'' 2,
         PField Singular TString ''name'' 3,
         PField Singular TString ''avatar'' 4,
         PField Singular TString ''gender'' 5,
         PField Singular TInt32 ''age'' 6,
         PField Optional TString ''region'' 7,
         PField Singular (TEnum ''FriendshipStatus'') ''status'' 8,
         PField Optional TString ''apply_msg'' 9,
         PField Singular TString ''source'' 10,
         PField Singular TInt64 ''create_time'' 11,
         PField Singular TString ''account'' 12,
         PField Optional TString ''remark'' 13,
         PField Optional TString ''email'' 14],
      PMessage ''Friend''
        [PField Singular TString ''fs_id'' 1,
         PField Singular TString ''friend_id'' 2,
         PField Singular TString ''account'' 3,
         PField Singular TString ''name'' 4,
         PField Singular TString ''avatar'' 5,
         PField Singular TString ''gender'' 6,
         PField Singular TInt32 ''age'' 7,
         PField Optional TString ''region'' 8,
         PField Singular (TEnum ''FriendshipStatus'') ''status'' 9,
         PField Optional TString ''remark'' 10,
         PField Optional TString ''email'' 11,
         PField Singular TString ''source'' 12,
         PField Singular TString ''signature'' 13,
         PField Singular TInt64 ''create_time'' 14,
         PField Singular TInt64 ''update_time'' 15,
         PField Singular TFloat ''interaction_score'' 16,
         PField Repeated TString ''tags'' 17,
         PField Singular TString ''group_name'' 18,
         PField Singular TString ''privacy_level'' 19,
         PField Singular TBool ''notifications_enabled'' 20,
         PField Singular TInt64 ''last_interaction'' 21],
      PMessage ''FriendInfo''
        [PField Singular TString ''id'' 1,
         PField Singular TString ''name'' 2,
         PField Singular TString ''avatar'' 3,
         PField Singular TString ''gender'' 4,
         PField Singular TInt32 ''age'' 5,
         PField Optional TString ''region'' 6,
         PField Singular TString ''account'' 7,
         PField Singular TString ''signature'' 8,
         PField Optional TString ''email'' 9],
      PMessage ''FsCreate''
        [PField Singular TString ''user_id'' 1,
         PField Singular TString ''friend_id'' 2,
         PField Optional TString ''apply_msg'' 3,
         PField Optional TString ''req_remark'' 4,
         PField Singular TString ''source'' 5],
      PMessage ''AgreeReply''
        [PField Singular TString ''fs_id'' 1,
         PField Optional TString ''resp_msg'' 2,
         PField Optional TString ''resp_remark'' 3],
      PMessage ''FsUpdate''
        [PField Singular TString ''id'' 1,
         PField Singular TString ''apply_msg'' 2,
         PField Singular TString ''req_remark'' 3],
      PMessage ''GetGroupAndMembersResp''
        [PField Singular (TMsg ''GroupInfo'') ''group'' 1,
         PField Repeated (TMsg ''GroupMember'') ''members'' 2],
      PMessage ''PullOfflineRequest''
        [PField Singular TString ''user_id'' 1,
         PField Singular TInt64 ''send_start'' 2,
         PField Singular TInt64 ''send_end'' 3,
         PField Singular TInt64 ''rec_start'' 4,
         PField Singular TInt64 ''rec_end'' 5],
      PMessage ''PullOfflineResponse''
        [PField Repeated (TMsg ''Msg'') ''messages'' 1]]"

definition server_messages_proto :: "proto_message list" where
  "server_messages_proto =
     [PMessage ''FriendDb''
        [PField Singular TInt64 ''id'' 1,
         PField Singular TString ''fs_id'' 2,
         PField Singular TString ''user_id'' 3,
         PField Singular TString ''friend_id'' 4,
         PField Singular (TEnum ''FriendshipStatus'') ''status'' 5,
         PField Optional TString ''remark'' 6,
         PField Singular TString ''source'' 7,
         PField Singular TInt64 ''create_time'' 8,
         PField Singular TInt64 ''update_time'' 9,
         PField Singular TInt64 ''deleted_time'' 10,
         PField Singular TBool ''is_starred'' 11,
         PField Singular TString ''group_id'' 12,
         PField Singular TFloat ''interaction_score'' 13,
         PField Singular TInt32 ''interaction_count'' 14,
         PField Singular TInt64 ''last_interaction'' 15,
         PField Repeated TString ''tags'' 16,
         PField Singular TString ''privacy_level'' 17,
         PField Singular TBool ''notifications_enabled'' 18],
      PMessage ''MsgReadReq''
        [PField Singular (TMsg ''MsgRead'') ''msg_read'' 1],
      PMessage ''MsgReadResp''
        [],
      PMessage ''UserAndGroupId''
        [PField Singular TString ''user_id'' 1,
         PField Singular TString ''group_id'' 2],
      PMessage ''GroupCategory''
        [PField Singular TString ''id'' 1,
         PField Singular TString ''name'' 2,
         PField Singular TString ''description'' 3,
         PField Singular TInt32 ''display_order'' 4,
         PField Singular TInt64 ''create_time'' 5,
         PField Singular TInt64 ''update_time'' 6],
      PMessage ''GroupFile''
        [PField Singular TString ''id'' 1,
         PField Singular TString ''group_id'' 2,
         PField Singular TString ''uploader_id'' 3,
         PField Singular TString ''file_name'' 4,
         PField Singular TString ''file_url'' 5,
         PField Singular TInt64 ''file_size'' 6,
         PField Singular TString ''file_type'' 7,
         PField Singular TInt64 ''upload_time'' 8,
         PField Singular TBool ''is_pinned'' 9,
         PField Singular TInt32 ''download_count'' 10,
         PField Singular TString ''thumbnail_url'' 11],
      PMessage ''PollOption''
        [PField Singular TString ''id'' 1,
         PField Singular TString ''text'' 2,
         PField Repeated TString ''voter_ids'' 3,
         PField Singular TInt32 ''vote_count'' 4],
      PMessage ''GroupPoll''
        [PField Singular TString ''id'' 1,
         PField Singular TString ''group_id'' 2,
         PField Singular TString ''creator_id'' 3,
         PField Singular TString ''title'' 4,
         PField Repeated (TMsg ''PollOption'') ''options'' 5,
         PField Singular TBool ''is_multiple'' 6,
         PField Singular TBool ''is_anonymous'' 7,
         PField Singular TInt64 ''created_at'' 8,
         PField Singular TInt64 ''expires_at'' 9,
         PField Singular TString ''status'' 10],
      PMessage ''GroupMuteRecord''
        [PField Singular TString ''id'' 1,
         PField Singular TString ''group_id'' 2,
         PField Singular TString ''user_id'' 3,
         PField Singular TString ''operator_id'' 4,
         PField Singular TInt64 ''mute_until'' 5,
         PField Singular TString ''reason'' 6,
         PField Singular TInt64 ''created_at'' 7],
      PMessage ''GroupAnnouncement''
        [PField Singular TString ''id'' 1,
         PField Singular TString ''group_id'' 2,
         PField Singular TString ''creator_id'' 3,
         PField Singular TString ''content'' 4,
         PField Singular TInt64 ''created_at'' 5,
         PField Singular TBool ''is_pinned'' 6],
      PMessage ''CreateGroupCategoryRequest''
        [PField Singular TString ''name'' 1,
         PField Singular TString ''description'' 2,
         PField Singular TInt32 ''display_order'' 3],
      PMessage ''UpdateGroupRequest''
        [PField Singular TString ''group_id'' 1,
         PField Singular TString ''user_id'' 2,
         PField Singular TString ''name'' 3,
         PField Singular TString ''avatar'' 4,
         PField Singular TString ''description'' 5,
         PField Singular TString ''announcement'' 6,
         PField Singular TBool ''join_approval_required'' 7,
         PField Singular TBool ''mute_all'' 8,
         PField Singular TBool ''only_admin_post'' 9,
         PField Singular (TEnum ''GroupMemberRole'') ''invite_permission'' 10,
         PField Singular TString ''category'' 11,
         PField Repeated TString ''tags'' 12],
      PMessage ''GroupFileUploadRequest''
        [PField Singular TString ''group_id'' 1,
         PField Singular TString ''uploader_id'' 2,
         PField Singular TString ''file_name'' 3,
         PField Singular TBytes ''file_data'' 4,
         PField Singular TString ''file_type'' 5,
         PField Singular TInt64 ''file_size'' 6,
         PField Singular TString ''file_url'' 7],
      PMessage ''CreatePollRequest''
        [PField Singular TString ''group_id'' 1,
         PField Singular TString ''creator_id'' 2,
         PField Singular TString ''title'' 3,
         PField Repeated TString ''options'' 4,
         PField Singular TBool ''is_multiple'' 5,
         PField Singular TBool ''is_anonymous'' 6,
         PField Singular TInt64 ''expires_at'' 7],
      PMessage ''VotePollRequest''
        [PField Singular TString ''poll_id'' 1,
         PField Singular TString ''user_id'' 2,
         PField Repeated TString ''option_ids'' 3],
      PMessage ''MuteGroupMemberRequest''
        [PField Singular TString ''group_id'' 1,
         PField Singular TString ''user_id'' 2,
         PField Singular TString ''operator_id'' 3,
         PField Singular TInt64 ''mute_until'' 4,
         PField Singular TString ''reason'' 5],
      PMessage ''CreateAnnouncementRequest''
        [PField Singular TString ''group_id'' 1,
         PField Singular TString ''creator_id'' 2,
         PField Singular TString ''content'' 3,
         PField Singular TBool ''is_pinned'' 4],
      PMessage ''GroupCreate''
        [PField Singular TString ''id'' 1,
         PField Singular TString ''owner'' 2,
         PField Singular TString ''avatar'' 3,
         PField Singular TString ''group_name'' 4,
         PField Repeated TString ''members_id'' 5],
      PMessage ''FriendGroup''
        [PField Singular TString ''id'' 1,
         PField Singular TString ''user_id'' 2,
         PField Singular TString ''name'' 3,
         PField Singular TInt32 ''display_order'' 4,
         PField Singular TInt64 ''create_time'' 5,
         PField Singular TInt64 ''update_time'' 6],
      PMessage ''UpdateFriendGroupRequest''
        [PField Singular TString ''user_id'' 1,
         PField Singular TString ''friend_id'' 2,
         PField Singular TString ''group_id'' 3],
      PMessage ''FriendTag''
        [PField Singular TString ''id'' 1,
         PField Singular TString ''user_id'' 2,
         PField Singular TString ''tag_name'' 3,
         PField Singular TString ''tag_color'' 4,
         PField Singular TInt64 ''create_time'' 5],
      PMessage ''ManageFriendTagRequest''
        [PField Singular TString ''user_id'' 1,
         PField Singular TString ''friend_id'' 2,
         PField Repeated TString ''tag_ids'' 3,
         PField Singular TBool ''is_add'' 4],
      PMessage ''FriendPrivacySettings''
        [PField Singular TString ''user_id'' 1,
         PField Singular TString ''friend_id'' 2,
         PField Singular TString ''privacy_level'' 3,
         PField Singular TBool ''share_timeline'' 4,
         PField Singular TBool ''share_location'' 5,
         PField Singular TBool ''share_status'' 6],
      PMessage ''UpdateFriendPrivacyRequest''
        [PField Singular (TMsg ''FriendPrivacySettings'') ''settings'' 1],
      PMessage ''UpdateRemarkRequest''
        [PField Singular TString ''user_id'' 1,
         PField Singular TString ''friend_id'' 2,
         PField Singular TString ''remark'' 3],
      PMessage ''DeleteFriendRequest''
        [PField Singular TString ''user_id'' 1,
         PField Singular TString ''friend_id'' 2,
         PField Singular TString ''fs_id'' 3],
      PMessage ''RemoveMemberRequest''
        [PField Singular TString ''user_id'' 1,
         PField Singular TString ''group_id'' 2,
         PField Repeated TString ''mem_id'' 3],
      PMessage ''GroupMembersIdRequest''
        [PField Singular TString ''group_id'' 1],
      PMessage ''SendMsgRequest''
        [PField Singular (TMsg ''Msg'') ''message'' 1],
      PMessage ''SendGroupMsgRequest''
        [PField Singular (TMsg ''Msg'') ''message'' 1,
         PField Repeated (TMsg ''GroupMemSeq'') ''members'' 2],
      PMessage ''SendMsgResponse''
        [],
      PMessage ''SaveMessageRequest''
        [PField Singular (TMsg ''Msg'') ''message'' 1,
         PField Singular TBool ''need_to_history'' 2],
      PMessage ''SaveGroupMsgRequest''
        [PField Singular (TMsg ''Msg'') ''message'' 1,
         PField Singular TBool ''need_to_history'' 2,
         PField Repeated (TMsg ''GroupMemSeq'') ''members'' 3],
      PMessage ''GroupMemSeq''
        [PField Singular TString ''mem_id'' 1,
         PField Singular TInt64 ''cur_seq'' 2,
         PField Singular TInt64 ''max_seq'' 3,
         PField Singular TBool ''need_update'' 4],
      PMessage ''GetDbMsgRequest''
        [PField Singular TString ''user_id'' 1,
         PField Singular TInt64 ''start'' 2,
         PField Singular TInt64 ''end'' 3],
      PMessage ''GetDbMessagesRequest''
        [PField Singular TString ''user_id'' 1,
         PField Singular TInt64 ''send_start'' 2,
         PField Singular TInt64 ''send_end'' 3,
         PField Singular TInt64 ''start'' 4,
         PField Singular TInt64 ''end'' 5],
      PMessage ''DelMsgRequest''
        [PField Singular TString ''user_id'' 1,
         PField Repeated TInt64 ''msg_id'' 2],
      PMessage ''GetMemberReq''
        [PField Singular TString ''user_id'' 1,
         PField Singular TString ''group_id'' 2,
         PField Repeated TString ''mem_ids'' 3],
      PMessage ''GroupInviteNewRequest''
        [PField Singular (TMsg ''GroupInviteNew'') ''group_invite'' 1],
      PMessage ''RemoveMemberResp''
        [],
      PMessage ''GroupInviteNewResp''
        [PField Repeated (TMsg ''GroupMember'') ''members'' 1],
      PMessage ''GroupUpdateRequest''
        [PField Singular (TMsg ''GroupUpdate'') ''group'' 1],
      PMessage ''GroupUpdateResponse''
        [PField Singular (TMsg ''GroupInfo'') ''group'' 1],
      PMessage ''GroupDeleteRequest''
        [PField Singular TString ''group_id'' 1,
         PField Singular TString ''user_id'' 2],
      PMessage ''GroupDeleteResponse''
        [PField Singular (TMsg ''GroupInfo'') ''group'' 1],
      PMessage ''GroupMemberExitResponse''
        [],
      PMessage ''GroupMembersIdResponse''
        [PField Repeated TString ''members_id'' 1],
      PMessage ''CreateUserRequest''
        [PField Singular (TMsg ''User'') ''user'' 1],
      PMessage ''CreateUserResponse''
        [PField Singular (TMsg ''User'') ''user'' 1],
      PMessage ''GetUserRequest''
        [PField Singular TString ''user_id'' 1],
      PMessage ''GetUserByEmailRequest''
        [PField Singular TString ''email'' 1],
      PMessage ''GetUserResponse''
        [PField Singular (TMsg ''User'') ''user'' 1],
      PMessage ''UpdateUserRequest''
        [PField Singular (TMsg ''UserUpdate'') ''user'' 1],
      PMessage ''UpdateUserResponse''
        [PField Singular (TMsg ''User'') ''user'' 1],
      PMessage ''UpdateRegionRequest''
        [PField Singular TString ''user_id'' 1,
         PField Singular TString ''region'' 2],
      PMessage ''UpdateRegionResponse''
        [],
      PMessage ''SearchUserRequest''
        [PField Singular TString ''user_id'' 1,
         PField Singular TString ''pattern'' 2],
      PMessage ''SearchUserResponse''
        [PField Singular (TMsg ''UserWithMatchType'') ''user'' 1],
      PMessage ''FsCreateRequest''
        [PField Singular (TMsg ''FsCreate'') ''fs_create'' 1],
      PMessage ''FsCreateResponse''
        [PField Singular (TMsg ''FriendshipWithUser'') ''fs_req'' 1,
         PField Singular (TMsg ''FriendshipWithUser'') ''fs_send'' 2],
      PMessage ''FsAgreeRequest''
        [PField Singular (TMsg ''AgreeReply'') ''fs_reply'' 1],
      PMessage ''FsAgreeResponse''
        [PField Singular (TMsg ''Friend'') ''req'' 1,
         PField Singular (TMsg ''Friend'') ''send'' 2],
      PMessage ''UpdateRemarkResponse''
        [],
      PMessage ''DeleteFriendResponse''
        [],
      PMessage ''FsUpdateRequest''
        [PField Singular (TMsg ''FsUpdate'') ''fs_update'' 1],
      PMessage ''FriendListRequest''
        [PField Singular TString ''user_id'' 1,
         PField Singular TInt64 ''offline_time'' 2],
      PMessage ''FsListResponse''
        [PField Repeated (TMsg ''FriendshipWithUser'') ''friendships'' 1],
      PMessage ''FriendListResponse''
        [PField Repeated (TMsg ''Friend'') ''friends'' 1],
      PMessage ''ClosePollRequest''
        [PField Singular TString ''poll_id'' 1,
         PField Singular TString ''user_id'' 2],
      PMessage ''UpdateFilePinRequest''
        [PField Singular TString ''file_id'' 1,
         PField Singular TString ''user_id'' 2,
         PField Singular TBool ''is_pinned'' 3],
      PMessage ''UnmuteRequest''
        [PField Singular TString ''group_id'' 1,
         PField Singular TString ''user_id'' 2,
         PField Singular TString ''operator_id'' 3],
      PMessage ''UserUpdate''
        [PField Singular TString ''id'' 1,
         PField Singular TString ''name'' 2,
         PField Singular TString ''avatar'' 3,
         PField Singular TString ''gender'' 4,
         PField Singular TString ''phone'' 5,
         PField Singular TString ''email'' 6,
         PField Singular TString ''address'' 7,
         PField Singular TString ''region'' 8,
         PField Singular TInt64 ''birthday'' 9,
         PField Singular TString ''signature'' 10,
         PField Singular TString ''status'' 11,
         PField Singular TString ''status_message'' 12,
         PField Singular TString ''privacy_settings'' 13,
         PField Singular TString ''notification_settings'' 14,
         PField Singular TString ''language'' 15,
         PField Singular TString ''friend_requests_privacy'' 16,
         PField Singular TString ''profile_visibility'' 17,
         PField Singular TString ''theme'' 18,
         PField Singular TString ''timezone'' 19]]"

definition proto_enums :: "(string \<times> (string \<times> nat) list) list" where
  "proto_enums =
     [(''PlatformType'', [(''Desktop'', 0), (''Mobile'', 1)]),
      (''ContentType'', [(''Default'', 0), (''Text'', 1), (''Image'', 2), (''Video'', 3), (''Audio'', 4), (''File'', 5), (''Emoji'', 6), (''VideoCall'', 7), (''AudioCall'', 8), (''Error'', 9)]),
      (''FriendshipStatus'', [(''Pending'', 0), (''Accepted'', 1), (''Rejected'', 2), (''Blacked'', 3), (''Deleted'', 4), (''Muted'', 5), (''Hidden'', 6)]),
      (''MsgType'', [(''MsgTypeSingleMsg'', 0), (''MsgTypeGroupMsg'', 1), (''MsgTypeGroupInvitation'', 2), (''MsgTypeGroupInviteNew'', 3), (''MsgTypeGroupMemberExit'', 4), (''MsgTypeGroupRemoveMember'', 5), (''MsgTypeGroupDismiss'', 6), (''MsgTypeGroupDismissOrExitReceived'', 7), (''MsgTypeGroupInvitationReceived'', 8), (''MsgTypeGroupUpdate'', 9), (''MsgTypeGroupFile'', 10), (''MsgTypeGroupPoll'', 11), (''MsgTypeGroupMute'', 12), (''MsgTypeGroupAnnouncement'', 13), (''MsgTypeFriendApplyReq'', 14), (''MsgTypeFriendApplyResp'', 15), (''MsgTypeFriendBlack'', 16), (''MsgTypeFriendDelete'', 17), (''MsgTypeSingleCallInvite'', 18), (''MsgTypeRejectSingleCall'', 19), (''MsgTypeAgreeSingleCall'', 20), (''MsgTypeSingleCallInviteNotAnswer'', 21), (''MsgTypeSingleCallInviteCancel'', 22), (''MsgTypeSingleCallOffer'', 23), (''MsgTypeHangup'', 24), (''MsgTypeConnectSingleCall'', 25), (''MsgTypeCandidate'', 26), (''MsgTypeRead'', 27), (''MsgTypeMsgRecResp'', 28), (''MsgTypeNotification'', 29), (''MsgTypeService'', 30), (''MsgTypeFriendshipReceived'', 31)]),
      (''SingleCallInviteType'', [(''SingleAudio'', 0), (''SingleVideo'', 1)]),
      (''GroupMemberRole'', [(''GroupMemberRoleOwner'', 0), (''GroupMemberRoleAdmin'', 1), (''GroupMemberRoleMember'', 2)])]"

definition proto_services :: "(string \<times> (string \<times> string \<times> string) list) list" where
  "proto_services =
     [(''MsgService'', [(''SendMessage'', ''SendMsgRequest'', ''SendMsgResponse''), (''SendMsgToUser'', ''SendMsgRequest'', ''SendMsgResponse''), (''SendGroupMsgToUser'', ''SendGroupMsgRequest'', ''SendMsgResponse'')]),
      (''ChatService'', [(''SendMsg'', ''SendMsgRequest'', ''MsgResponse'')])]"

section \<open>The build script\<close>

text \<open>What \<open>tonic_build::Builder\<close> is told, in the order it is told.\<close>

record builder =
  bu_out_dir :: "string option"
  bu_types :: "(string \<times> attr) list"
  bu_fields :: "(string \<times> attr) list"

definition configure :: builder where
  "configure = \<lparr>bu_out_dir = None, bu_types = [], bu_fields = []\<rparr>"

definition out_dir :: "string \<Rightarrow> builder \<Rightarrow> builder" where
  "out_dir d b = b\<lparr>bu_out_dir := Some d\<rparr>"

definition type_attribute :: "string \<Rightarrow> attr \<Rightarrow> builder \<Rightarrow> builder" where
  "type_attribute path a b = b\<lparr>bu_types := bu_types b @ [(path, a)]\<rparr>"

definition field_attribute :: "string \<Rightarrow> attr \<Rightarrow> builder \<Rightarrow> builder" where
  "field_attribute path a b = b\<lparr>bu_fields := bu_fields b @ [(path, a)]\<rparr>"

text \<open>The trait \<open>BuilderExt\<close>; its builder-pattern methods are not used by \<open>main\<close>.\<close>

definition with_sqlx_type :: "string list \<Rightarrow> builder \<Rightarrow> builder" where
  "with_sqlx_type paths b = fold (\<lambda>path acc. type_attribute path SQLX_TYPE acc) paths b"

definition with_derive_builder :: "string list \<Rightarrow> builder \<Rightarrow> builder" where
  "with_derive_builder paths b = fold (\<lambda>path acc. type_attribute path DERIVE_BUILDER acc) paths b"

definition with_derive_builder_into :: "string \<Rightarrow> string list \<Rightarrow> builder \<Rightarrow> builder" where
  "with_derive_builder_into path flds b =
     fold (\<lambda>field acc. field_attribute (path @ ''.'' @ field) BUILDER_INTO acc) flds b"

definition with_derive_builder_option :: "string \<Rightarrow> string list \<Rightarrow> builder \<Rightarrow> builder" where
  "with_derive_builder_option path flds b =
     fold (\<lambda>field acc. field_attribute (path @ ''.'' @ field) BUILDER_OPTION acc) flds b"

definition with_serde :: "string list \<Rightarrow> builder \<Rightarrow> builder" where
  "with_serde paths b =
     fold (\<lambda>path acc. type_attribute path SERDE_CAMEL (type_attribute path SERDE_DERIVE acc)) paths b"

definition serde_types :: "string list" where
  "serde_types =
     [''PlatformType'', ''ContentType'', ''FriendshipStatus'', ''MsgType'', ''SingleCallInviteType'',
      ''GroupMemberRole'', ''Msg'', ''MsgContent'', ''Mention'', ''MsgRead'',
      ''Candidate'', ''AgreeSingleCall'', ''SingleCallInvite'', ''SingleCallInviteAnswer'', ''SingleCallInviteNotAnswer'',
      ''SingleCallInviteCancel'', ''SingleCallOffer'', ''Hangup'', ''Single'', ''MsgResponse'',
      ''GroupInfo'', ''GroupMember'', ''GroupInvitation'', ''GroupInviteNew'', ''GroupUpdate'',
      ''User'', ''UserWithMatchType'', ''Friendship'', ''FriendshipWithUser'', ''Friend'',
      ''FriendInfo'', ''FsCreate'', ''AgreeReply'', ''FsUpdate'', ''GetGroupAndMembersResp'',
      ''PullOfflineRequest'', ''PullOfflineResponse'', ''UserAndGroupId'', ''GroupCategory'', ''GroupFile'',
      ''PollOption'', ''GroupPoll'', ''GroupMuteRecord'', ''GroupAnnouncement'', ''CreateGroupCategoryRequest'',
      ''UpdateGroupRequest'', ''GroupFileUploadRequest'', ''CreatePollRequest'', ''VotePollRequest'', ''MuteGroupMemberRequest'',
      ''CreateAnnouncementRequest'', ''GroupCreate'', ''FriendGroup'', ''UpdateFriendGroupRequest'', ''FriendTag'',
      ''ManageFriendTagRequest'', ''FriendPrivacySettings'', ''UpdateFriendPrivacyRequest'', ''UpdateRemarkRequest'', ''DeleteFriendRequest'',
      ''RemoveMemberRequest'', ''GroupMembersIdRequest'', ''SendMsgRequest'', ''SendGroupMsgRequest'', ''SaveMessageRequest'',
      ''SaveGroupMsgRequest'', ''GroupMemSeq'', ''GetDbMsgRequest'', ''GetDbMessagesRequest'', ''DelMsgRequest'',
      ''GetMemberReq'', ''MsgReadReq'', ''MsgReadResp'', ''GroupInviteNewRequest'', ''RemoveMemberResp'',
      ''GroupInviteNewResp'', ''GroupUpdateRequest'', ''GroupUpdateResponse'', ''GroupDeleteRequest'', ''GroupDeleteResponse'',
      ''GroupMemberExitResponse'', ''GroupMembersIdResponse'', ''CreateUserRequest'', ''CreateUserResponse'', ''GetUserRequest'',
      ''GetUserByEmailRequest'', ''GetUserResponse'', ''UpdateUserRequest'', ''UpdateUserResponse'', ''UpdateRegionRequest'',
      ''UpdateRegionResponse'', ''SearchUserRequest'', ''SearchUserResponse'', ''FsCreateRequest'', ''FsCreateResponse'',
      ''FsAgreeRequest'', ''FsAgreeResponse'', ''UpdateRemarkResponse'', ''DeleteFriendResponse'', ''FsUpdateRequest'',
      ''FriendListRequest'', ''FsListResponse'', ''FriendListResponse'', ''ClosePollRequest'', ''UpdateFilePinRequest'',
      ''UnmuteRequest'', ''UserUpdate'', ''SendMsgResponse'']"

definition build_main :: builder where
  "build_main =
     with_sqlx_type [''FriendshipStatus'', ''GroupMemberRole'']
       (with_serde serde_types
         (field_attribute ''User.salt'' SKIP_SERIALIZING
           (field_attribute ''User.password'' SKIP_SERIALIZING
             (out_dir ''src/pb'' configure))))"

section \<open>The generated file and the declarations\<close>

text \<open>The declaration a generated field comes from; the message a field holds is named by its Rust type.\<close>

fun struct_of :: "rust_type \<Rightarrow> string" where
  "struct_of (RStruct s) = s"
| "struct_of (ROption t) = struct_of t"
| "struct_of (RVec t) = struct_of t"
| "struct_of _ = ''''"

fun wire_type :: "prost \<Rightarrow> rust_type \<Rightarrow> ptype" where
  "wire_type PrString t = TString"
| "wire_type PrBytes t = TBytes"
| "wire_type PrBool t = TBool"
| "wire_type PrInt32 t = TInt32"
| "wire_type PrInt64 t = TInt64"
| "wire_type PrFloat t = TFloat"
| "wire_type (PrEnum e) t = TEnum e"
| "wire_type PrMessage t = TMsg (struct_of t)"

definition declared_as :: "rust_field \<Rightarrow> proto_field" where
  "declared_as f = PField (rf_label f) (wire_type (rf_prost f) (rf_type f)) (rf_name f) (rf_tag f)"

definition message_of :: "rust_struct \<Rightarrow> proto_message" where
  "message_of s = PMessage (rs_struct s) (map declared_as (rs_fields s))"

text \<open>A message inside a message may always be missing.\<close>

fun presence :: "proto_field \<Rightarrow> proto_field" where
  "presence (PField Singular (TMsg m) n t) = PField Optional (TMsg m) n t"
| "presence f = f"

definition with_presence :: "proto_message \<Rightarrow> proto_message" where
  "with_presence m = PMessage (pm_name m) (map presence (pm_fields m))"

lemmas generated_defs = message_of_def declared_as_def with_presence_def

lemmas pb_struct_defs =
  pb_Msg_def pb_MsgContent_def pb_Mention_def pb_MsgRead_def pb_Candidate_def pb_AgreeSingleCall_def
  pb_SingleCallInvite_def pb_SingleCallInviteAnswer_def pb_SingleCallInviteNotAnswer_def
  pb_SingleCallInviteCancel_def pb_SingleCallOffer_def pb_Hangup_def pb_Single_def pb_MsgResponse_def
  pb_GroupInfo_def pb_GroupMember_def pb_GroupInvitation_def pb_GroupInviteNew_def pb_GroupUpdate_def pb_User_def
  pb_UserWithMatchType_def pb_Friendship_def pb_FriendshipWithUser_def pb_Friend_def pb_FriendInfo_def
  pb_FsCreate_def pb_AgreeReply_def pb_FsUpdate_def pb_GetGroupAndMembersResp_def pb_PullOfflineRequest_def
  pb_PullOfflineResponse_def pb_FriendDb_def pb_MsgReadReq_def pb_MsgReadResp_def pb_UserAndGroupId_def
  pb_GroupCategory_def pb_GroupFile_def pb_PollOption_def pb_GroupPoll_def pb_GroupMuteRecord_def
  pb_GroupAnnouncement_def pb_CreateGroupCategoryRequest_def pb_UpdateGroupRequest_def
  pb_GroupFileUploadRequest_def pb_CreatePollRequest_def pb_VotePollRequest_def pb_MuteGroupMemberRequest_def
  pb_CreateAnnouncementRequest_def pb_GroupCreate_def pb_FriendGroup_def pb_UpdateFriendGroupRequest_def
  pb_FriendTag_def pb_ManageFriendTagRequest_def pb_FriendPrivacySettings_def pb_UpdateFriendPrivacyRequest_def
  pb_UpdateRemarkRequest_def pb_DeleteFriendRequest_def pb_RemoveMemberRequest_def pb_GroupMembersIdRequest_def
  pb_SendMsgRequest_def pb_SendGroupMsgRequest_def pb_SendMsgResponse_def pb_SaveMessageRequest_def
  pb_SaveGroupMsgRequest_def pb_GroupMemSeq_def pb_GetDbMsgRequest_def pb_GetDbMessagesRequest_def
  pb_DelMsgRequest_def pb_GetMemberReq_def pb_GroupInviteNewRequest_def pb_RemoveMemberResp_def
  pb_GroupInviteNewResp_def pb_GroupUpdateRequest_def pb_GroupUpdateResponse_def pb_GroupDeleteRequest_def
  pb_GroupDeleteResponse_def pb_GroupMemberExitResponse_def pb_GroupMembersIdResponse_def pb_CreateUserRequest_def
  pb_CreateUserResponse_def pb_GetUserRequest_def pb_GetUserByEmailRequest_def pb_GetUserResponse_def
  pb_UpdateUserRequest_def pb_UpdateUserResponse_def pb_UpdateRegionRequest_def pb_UpdateRegionResponse_def
  pb_SearchUserRequest_def pb_SearchUserResponse_def pb_FsCreateRequest_def pb_FsCreateResponse_def
  pb_FsAgreeRequest_def pb_FsAgreeResponse_def pb_UpdateRemarkResponse_def pb_DeleteFriendResponse_def
  pb_FsUpdateRequest_def pb_FriendListRequest_def pb_FsListResponse_def pb_FriendListResponse_def
  pb_ClosePollRequest_def pb_UpdateFilePinRequest_def pb_UnmuteRequest_def pb_UserUpdate_def

lemmas pb_enum_defs =
  pb_PlatformType_def pb_ContentType_def pb_FriendshipStatus_def pb_MsgType_def pb_SingleCallInviteType_def
  pb_GroupMemberRole_def

lemma generated_messages:
  "map message_of pb_structs = map with_presence (common_proto @ client_messages_proto @ server_messages_proto)"
  unfolding pb_structs_def common_proto_def client_messages_proto_def server_messages_proto_def
  by (simp add: pb_struct_defs generated_defs)

section \<open>The generated file and the build script\<close>

lemma with_serde_types:
  "bu_types (with_serde paths b) = bu_types b @ concat (map (\<lambda>p. [(p, SERDE_DERIVE), (p, SERDE_CAMEL)]) paths)"
  "bu_fields (with_serde paths b) = bu_fields b"
  unfolding with_serde_def by (induction paths arbitrary: b) (simp_all add: type_attribute_def)

lemma with_sqlx_types:
  "bu_types (with_sqlx_type paths b) = bu_types b @ map (\<lambda>p. (p, SQLX_TYPE)) paths"
  "bu_fields (with_sqlx_type paths b) = bu_fields b"
  unfolding with_sqlx_type_def by (induction paths arbitrary: b) (simp_all add: type_attribute_def)

lemma serde_types_distinct: "distinct serde_types"
  unfolding serde_types_def by simp

lemma build_settings:
  "bu_types build_main = concat (map (\<lambda>p. [(p, SERDE_DERIVE), (p, SERDE_CAMEL)]) serde_types)
     @ [(''FriendshipStatus'', SQLX_TYPE), (''GroupMemberRole'', SQLX_TYPE)]"
  "bu_fields build_main = [(''User.password'', SKIP_SERIALIZING), (''User.salt'', SKIP_SERIALIZING)]"
  by (simp_all add: build_main_def with_serde_types with_sqlx_types field_attribute_def out_dir_def configure_def)

lemmas attr_defs = SERDE_DERIVE_def SERDE_CAMEL_def SQLX_TYPE_def ALLOW_CLIPPY_def DERIVE_MESSAGE_def DERIVE_ENUM_def REPR_I32_def

text \<open>All generated structs but one are serialised.\<close>

lemma struct_names:
  "map rs_struct pb_structs = map pm_name (common_proto @ client_messages_proto @ server_messages_proto)"
  using arg_cong [OF generated_messages, of "map pm_name"]
  by (simp add: o_def message_of_def with_presence_def del: map_append)

text \<open>Where the names of the generated types stand in the list of the script: those before and after \<open>FriendDb\<close>,
  which is not in it.\<close>

definition listed_before :: "nat list" where
  "listed_before = [6, 7, 8, 9, 10, 11, 12, 13, 14, 15, 16, 17, 18, 19, 20, 21, 22, 23, 24, 25, 26, 27, 28, 29, 30, 31, 32, 33, 34, 35, 36]"
definition listed_after :: "nat list" where
  "listed_after = [71, 72, 37, 38, 39, 40, 41, 42, 43, 44, 45, 46, 47, 48, 49, 50, 51, 52, 53, 54, 55, 56, 57, 58, 59, 60, 61, 62, 63, 107, 64, 65, 66, 67, 68, 69, 70, 73, 74, 75, 76, 77, 78, 79, 80, 81, 82, 83, 84, 85, 86, 87, 88, 89, 90, 91, 92, 93, 94, 95, 96, 97, 98, 99, 100, 101, 102, 103, 104, 105, 106]"

lemma struct_attrs_listed:
  "map (\<lambda>s. (rs_struct s, rs_attrs s)) pb_structs =
     map (\<lambda>k. (serde_types ! k, [SERDE_DERIVE, SERDE_CAMEL, ALLOW_CLIPPY, DERIVE_MESSAGE])) listed_before
     @ [(''FriendDb'', [ALLOW_CLIPPY, DERIVE_MESSAGE])]
     @ map (\<lambda>k. (serde_types ! k, [SERDE_DERIVE, SERDE_CAMEL, ALLOW_CLIPPY, DERIVE_MESSAGE])) listed_after"
  unfolding pb_structs_def listed_before_def listed_after_def serde_types_def by (simp add: pb_struct_defs)

lemma listed_in_range:
  "length serde_types = 108" "list_all (\<lambda>k. k < 108) (listed_before @ listed_after)"
  unfolding serde_types_def listed_before_def listed_after_def by simp_all

lemma FriendDb_not_listed: "''FriendDb'' \<notin> set serde_types"
  unfolding serde_types_def by simp

text \<open>
  The checked-in file agrees with the build script on what is serialised: the types it derives serialisation for are
  those for which the script asks for it, each once, all but \<open>FriendDb\<close>, and the fields it leaves out are those the script
  names.
\<close>

theorem serialised_types:
  assumes "s \<in> set pb_structs"
  shows "SERDE_DERIVE \<in> set (rs_attrs s) \<longleftrightarrow> (rs_struct s, SERDE_DERIVE) \<in> set (bu_types build_main)"
    and "SERDE_DERIVE \<in> set (rs_attrs s) \<longleftrightarrow> rs_struct s \<noteq> ''FriendDb''"
    and "\<And>f. f \<in> set (rs_fields s) \<Longrightarrow> SKIP_SERIALIZING \<in> set (rf_attrs f)
      \<longleftrightarrow> (rs_struct s @ ''.'' @ rf_name f, SKIP_SERIALIZING) \<in> set (bu_fields build_main)"
proof -
  have "(rs_struct s, rs_attrs s) \<in> set (map (\<lambda>s. (rs_struct s, rs_attrs s)) pb_structs)" using assms by simp
  then have "rs_struct s \<in> set serde_types \<and> rs_attrs s = [SERDE_DERIVE, SERDE_CAMEL, ALLOW_CLIPPY, DERIVE_MESSAGE]
      \<or> rs_struct s = ''FriendDb'' \<and> rs_attrs s = [ALLOW_CLIPPY, DERIVE_MESSAGE]"
    unfolding struct_attrs_listed using listed_in_range by (auto simp: list_all_iff)
  then show "SERDE_DERIVE \<in> set (rs_attrs s) \<longleftrightarrow> rs_struct s \<noteq> ''FriendDb''"
    "SERDE_DERIVE \<in> set (rs_attrs s) \<longleftrightarrow> (rs_struct s, SERDE_DERIVE) \<in> set (bu_types build_main)"
    using FriendDb_not_listed by (auto simp: build_settings attr_defs)
  have "list_all (\<lambda>s. list_all (\<lambda>f. SKIP_SERIALIZING \<in> set (rf_attrs f)
      \<longleftrightarrow> rs_struct s @ ''.'' @ rf_name f \<in> {''User.password'', ''User.salt''}) (rs_fields s)) pb_structs"
    unfolding pb_structs_def by (simp add: pb_struct_defs)
  with assms show "SKIP_SERIALIZING \<in> set (rf_attrs f)
      \<longleftrightarrow> (rs_struct s @ ''.'' @ rf_name f, SKIP_SERIALIZING) \<in> set (bu_fields build_main)" if "f \<in> set (rs_fields s)" for f
    using that by (auto simp: build_settings list_all_iff)
qed

section \<open>The declarations are well-formed\<close>

text \<open>Field numbers and names are unique in a message, numbers are positive and below the reserved range.\<close>

definition message_ok :: "proto_message \<Rightarrow> bool" where
  "message_ok m \<longleftrightarrow> distinct (map pf_tag (pm_fields m)) \<and> distinct (map pf_name (pm_fields m))
     \<and> list_all (\<lambda>f. 0 < pf_tag f \<and> pf_tag f < 19000) (pm_fields m)"

text \<open>The Rust type the \<open>prost\<close> attribute and the label ask for.\<close>

fun plain_type :: "prost \<Rightarrow> string \<Rightarrow> rust_type" where
  "plain_type PrString _ = RString"
| "plain_type PrBytes _ = RBytes"
| "plain_type PrBool _ = RBool"
| "plain_type PrInt32 _ = RI32"
| "plain_type PrInt64 _ = RI64"
| "plain_type PrFloat _ = RF32"
| "plain_type (PrEnum _) _ = RI32"
| "plain_type PrMessage s = RStruct s"

definition type_fits :: "rust_field \<Rightarrow> bool" where
  "type_fits f \<longleftrightarrow> rf_type f =
     (let t = plain_type (rf_prost f) (struct_of (rf_type f)) in
      case rf_label f of Singular \<Rightarrow> t | Optional \<Rightarrow> ROption t | Repeated \<Rightarrow> RVec t)"

lemma types_fit: "list_all (\<lambda>s. list_all type_fits (rs_fields s)) pb_structs"
  unfolding pb_structs_def by (simp add: pb_struct_defs type_fits_def)

lemma messages_ok: "list_all message_ok (common_proto @ client_messages_proto @ server_messages_proto)"
  unfolding common_proto_def client_messages_proto_def server_messages_proto_def by (simp add: message_ok_def)

end
