(* ===== verification/Names.thy ===== *)
theory Names
  imports Protocol Friend_Repo Group_Repo Grpc
begin

text \<open>
  The names of the protocol's enums (\<open>as_str_name\<close> and \<open>from_str_name\<close> of \<open>abi/src/pb/message.rs\<close>), their numbers
  and the declarations they come from, and the paths of the declared services. The enums of the other
  theories are used as they are there.
\<close>

section \<open>Names\<close>

fun platform_as_str_name :: "PlatformType \<Rightarrow> string" where
  "platform_as_str_name Desktop = ''Desktop''"
| "platform_as_str_name Mobile = ''Mobile''"

definition platform_from_str_name :: "string \<Rightarrow> PlatformType option" where
  "platform_from_str_name s = (if s = ''Desktop'' then Some Desktop else if s = ''Mobile'' then Some Mobile else None)"

fun content_as_str_name :: "ContentType \<Rightarrow> string" where
  "content_as_str_name DefaultContent = ''Default''"
| "content_as_str_name Text = ''Text''"
| "content_as_str_name Image = ''Image''"
| "content_as_str_name Video = ''Video''"
| "content_as_str_name Audio = ''Audio''"
| "content_as_str_name File = ''File''"
| "content_as_str_name Emoji = ''Emoji''"
| "content_as_str_name VideoCall = ''VideoCall''"
| "content_as_str_name AudioCall = ''AudioCall''"
| "content_as_str_name ErrorContent = ''Error''"

definition content_from_str_name :: "string \<Rightarrow> ContentType option" where
  "content_from_str_name s =
     (if s = ''Default'' then Some DefaultContent
      else if s = ''Text'' then Some Text
      else if s = ''Image'' then Some Image
      else if s = ''Video'' then Some Video
      else if s = ''Audio'' then Some Audio
      else if s = ''File'' then Some File
      else if s = ''Emoji'' then Some Emoji
      else if s = ''VideoCall'' then Some VideoCall
      else if s = ''AudioCall'' then Some AudioCall
      else if s = ''Error'' then Some ErrorContent
      else None)"

datatype SingleCallInviteType = SingleAudio | SingleVideo

fun invite_code :: "SingleCallInviteType \<Rightarrow> int" where
  "invite_code SingleAudio = 0"
| "invite_code SingleVideo = 1"

fun invite_as_str_name :: "SingleCallInviteType \<Rightarrow> string" where
  "invite_as_str_name SingleAudio = ''SingleAudio''"
| "invite_as_str_name SingleVideo = ''SingleVideo''"

definition invite_from_str_name :: "string \<Rightarrow> SingleCallInviteType option" where
  "invite_from_str_name s =
     (if s = ''SingleAudio'' then Some SingleAudio else if s = ''SingleVideo'' then Some SingleVideo else None)"

text \<open>The role on the wire; \<open>Role\<close> is the one of the database (\<open>abi/src/types/group.rs\<close>).\<close>

datatype GroupMemberRole = RoleOwner | RoleAdmin | RoleMember

fun role_code :: "GroupMemberRole \<Rightarrow> int" where
  "role_code RoleOwner = 0"
| "role_code RoleAdmin = 1"
| "role_code RoleMember = 2"

fun role_as_str_name :: "GroupMemberRole \<Rightarrow> string" where
  "role_as_str_name RoleOwner = ''GroupMemberRoleOwner''"
| "role_as_str_name RoleAdmin = ''GroupMemberRoleAdmin''"
| "role_as_str_name RoleMember = ''GroupMemberRoleMember''"

definition role_from_str_name :: "string \<Rightarrow> GroupMemberRole option" where
  "role_from_str_name s =
     (if s = ''GroupMemberRoleOwner'' then Some RoleOwner
      else if s = ''GroupMemberRoleAdmin'' then Some RoleAdmin
      else if s = ''GroupMemberRoleMember'' then Some RoleMember
      else None)"

fun member_role_from :: "Role \<Rightarrow> GroupMemberRole" where
  "member_role_from Owner = RoleOwner"
| "member_role_from Admin = RoleAdmin"
| "member_role_from Member = RoleMember"

section \<open>A declared enum\<close>

text \<open>What the two functions and the numbers of an enum promise.\<close>

locale declared_enum =
  fixes as_str :: "'e \<Rightarrow> string" and from_str :: "string \<Rightarrow> 'e option" and code :: "'e \<Rightarrow> int"
    and declared :: "(string \<times> nat) list"
  assumes from_as: "from_str (as_str x) = Some x"
    and from_only: "from_str s = Some x \<Longrightarrow> s = as_str x"
    and numbered: "(as_str x, nat (code x)) \<in> set declared"
    and covered: "(s, n) \<in> set declared \<Longrightarrow> from_str s \<noteq> None"
    and once: "distinct (map fst declared)" "distinct (map snd declared)"
begin

lemma names_differ: "as_str x = as_str y \<longleftrightarrow> x = y"
  using from_as by (metis option.inject)

lemma known_names: "from_str s \<noteq> None \<longleftrightarrow> s \<in> set (map fst declared)"
  using from_only numbered covered by force

lemma number_of_name: "map_of declared s = map_option (\<lambda>x. nat (code x)) (from_str s)"
proof (cases "from_str s")
  case None
  then show ?thesis using covered [of s] by (force simp: map_of_eq_None_iff)
next
  case (Some x)
  then show ?thesis using from_only [OF Some] numbered [of x] once(1) by simp
qed

lemma numbers_differ: "nat (code x) = nat (code y) \<Longrightarrow> x = y"
  using numbered [of x] numbered [of y] once(2) names_differ
  by (metis distinct_map inj_onD snd_conv Pair_inject)

end

abbreviation declared_values :: "string \<Rightarrow> (string \<times> nat) list" where
  "declared_values e \<equiv> the (map_of proto_enums e)"

interpretation platform: declared_enum platform_as_str_name platform_from_str_name platform_code "declared_values ''PlatformType''"
proof unfold_locales
  fix x show "(platform_as_str_name x, nat (platform_code x)) \<in> set (declared_values ''PlatformType'')"
    by (cases x) (simp_all add: proto_enums_def)
  fix x show "platform_from_str_name (platform_as_str_name x) = Some x"
    by (cases x) (simp_all add: platform_from_str_name_def)
qed (auto simp: proto_enums_def platform_from_str_name_def split: if_splits)

interpretation content: declared_enum content_as_str_name content_from_str_name content_type_code "declared_values ''ContentType''"
proof unfold_locales
  fix x show "(content_as_str_name x, nat (content_type_code x)) \<in> set (declared_values ''ContentType'')"
    by (cases x) (simp_all add: proto_enums_def)
  fix x show "content_from_str_name (content_as_str_name x) = Some x"
    by (cases x) (simp_all add: content_from_str_name_def)
qed (auto simp: proto_enums_def content_from_str_name_def split: if_splits)

interpretation invite: declared_enum invite_as_str_name invite_from_str_name invite_code "declared_values ''SingleCallInviteType''"
proof unfold_locales
  fix x show "(invite_as_str_name x, nat (invite_code x)) \<in> set (declared_values ''SingleCallInviteType'')"
    by (cases x) (simp_all add: proto_enums_def)
  fix x show "invite_from_str_name (invite_as_str_name x) = Some x"
    by (cases x) (simp_all add: invite_from_str_name_def)
qed (auto simp: proto_enums_def invite_from_str_name_def split: if_splits)

interpretation role: declared_enum role_as_str_name role_from_str_name role_code "declared_values ''GroupMemberRole''"
proof unfold_locales
  fix x show "(role_as_str_name x, nat (role_code x)) \<in> set (declared_values ''GroupMemberRole'')"
    by (cases x) (simp_all add: proto_enums_def)
  fix x show "role_from_str_name (role_as_str_name x) = Some x"
    by (cases x) (simp_all add: role_from_str_name_def)
qed (auto simp: proto_enums_def role_from_str_name_def split: if_splits)

interpretation status: declared_enum status_as_str_name status_from_str_name status_i32 "declared_values ''FriendshipStatus''"
proof unfold_locales
  fix x show "(status_as_str_name x, nat (status_i32 x)) \<in> set (declared_values ''FriendshipStatus'')"
    by (cases x) (simp_all add: proto_enums_def)
  fix x show "status_from_str_name (status_as_str_name x) = Some x"
    by (cases x) (simp_all add: status_from_str_name_def)
qed (auto simp: proto_enums_def status_from_str_name_def split: if_splits)

interpretation msg_types: declared_enum as_str_name from_str_name msg_type_code "declared_values ''MsgType''"
proof unfold_locales
  fix x show "(as_str_name x, nat (msg_type_code x)) \<in> set (declared_values ''MsgType'')"
    by (cases x) (simp_all add: proto_enums_def)
  fix x show "from_str_name (as_str_name x) = Some x" by simp
  fix s x show "from_str_name s = Some x \<Longrightarrow> s = as_str_name x" by (rule from_str_name_Some)
  fix s n show "(s, n) \<in> set (declared_values ''MsgType'') \<Longrightarrow> from_str_name s \<noteq> None"
    by (auto simp: proto_enums_def from_str_name_def)
qed (simp_all add: proto_enums_def)

section \<open>Paths\<close>

definition paths_of :: "string \<Rightarrow> string list" where
  "paths_of svc = map (\<lambda>(m, _, _). ''/message.'' @ svc @ ''/'' @ m) (the (map_of proto_services svc))"

lemma paths_of_services:
  "paths_of ''MsgService'' = [''/message.MsgService/SendMessage'', ''/message.MsgService/SendMsgToUser'',
     ''/message.MsgService/SendGroupMsgToUser'']"
  "paths_of ''ChatService'' = [''/message.ChatService/SendMsg'']"
  by (simp_all add: paths_of_def proto_services_def)

lemma unary_answers: "fst (unary cd dec enc method body s) \<noteq> Unimplemented"
  by (simp add: unary_def split: sum.split prod.split)

text \<open>
  C20. The checked-in Rust file is that of the declarations: its structs are the declared messages in their order,
  with the declared fields, numbers, labels and types, and Rust types that fit them; its enums have the declared
  numbers; field numbers and names never clash. The names of a message type are the declared ones and
  lead back to the type and its number, and the two servers answer exactly the declared paths.
\<close>

theorem protocol_in_sync:
  "map message_of pb_structs = map with_presence (common_proto @ client_messages_proto @ server_messages_proto)
   \<and> map (\<lambda>e. (re_enum e, map snd (re_values e))) pb_enums = map (\<lambda>(e, vs). (e, map snd vs)) proto_enums
   \<and> list_all (\<lambda>s. list_all type_fits (rs_fields s)) pb_structs
   \<and> list_all message_ok (common_proto @ client_messages_proto @ server_messages_proto)
   \<and> map_of (declared_values ''MsgType'') v = map_option (\<lambda>x. nat (msg_type_code x)) (from_str_name v)
   \<and> (fst (msg_service_call cd henv path body g) \<noteq> Unimplemented \<longleftrightarrow> path \<in> set (paths_of ''MsgService''))
   \<and> (fst (chat_service_call cd e path body q) \<noteq> Unimplemented \<longleftrightarrow> path \<in> set (paths_of ''ChatService''))"
proof (intro conjI)
  show "map (\<lambda>e. (re_enum e, map snd (re_values e))) pb_enums = map (\<lambda>(e, vs). (e, map snd vs)) proto_enums"
    unfolding pb_enums_def proto_enums_def by (simp add: pb_enum_defs)
  show "fst (msg_service_call cd henv path body g) \<noteq> Unimplemented \<longleftrightarrow> path \<in> set (paths_of ''MsgService'')"
    by (auto simp: msg_service_call_def paths_of_services unary_answers)
  show "fst (chat_service_call cd e path body q) \<noteq> Unimplemented \<longleftrightarrow> path \<in> set (paths_of ''ChatService'')"
    by (auto simp: chat_service_call_def paths_of_services unary_answers)
qed (rule generated_messages types_fit messages_ok msg_types.number_of_name)+

text \<open>Every enum of the protocol reads back its own names and no others.\<close>

theorem enum_names_roundtrip:
  "(platform_from_str_name s = Some p \<longleftrightarrow> s = platform_as_str_name p)
   \<and> (content_from_str_name s = Some c \<longleftrightarrow> s = content_as_str_name c)
   \<and> (invite_from_str_name s = Some i \<longleftrightarrow> s = invite_as_str_name i)
   \<and> (role_from_str_name s = Some r \<longleftrightarrow> s = role_as_str_name r)
   \<and> (status_from_str_name s = Some f \<longleftrightarrow> s = status_as_str_name f)
   \<and> (from_str_name s = Some t \<longleftrightarrow> s = as_str_name t)"
  using platform.from_as platform.from_only content.from_as content.from_only invite.from_as invite.from_only
    role.from_as role.from_only status.from_as status.from_only msg_types.from_as msg_types.from_only by blast

end
