(* ===== verification/Ports.thy ===== *)
theory Ports
  imports Repos Migrate
begin

text \<open>
  The remaining trait objects, as records of operations with the object the factory puts behind each:
  \<open>Cache\<close> (\<open>cache/src/lib.rs\<close>), \<open>Oss\<close> (\<open>oss/src/lib.rs\<close>), \<open>Pusher\<close> (\<open>msg_server/src/pusher/mod.rs\<close>) and
  \<open>MsgRecBoxRepo\<close> (\<open>db/src/message.rs\<close>) with its two implementations. The consumer sees four operations of
  the last (\<open>box_ops\<close>); the lemmas at the end say that what \<open>msg_rec_box_repo\<close> selects is what the theorems
  about the consumer are instantiated with.
\<close>

section \<open>The cache\<close>

text \<open>A method takes what the connection answers, and the ones about codes the clock of the server;
  \<open>check_seq_loaded\<close> and \<open>get_seq\<close> also how the client library parses the stored value.\<close>

record 's Cache =
  ca_check_seq_loaded :: "failure option \<Rightarrow> bool \<Rightarrow> ('s, bool) act"
  ca_set_seq_loaded :: "failure option \<Rightarrow> ('s, unit) act"
  ca_set_seq :: "failure option \<Rightarrow> (string \<times> int \<times> int) list \<Rightarrow> ('s, unit) act"
  ca_set_send_seq :: "failure option \<Rightarrow> (string \<times> int) list \<Rightarrow> ('s, unit) act"
  ca_get_seq :: "failure option \<Rightarrow> bool \<Rightarrow> string \<Rightarrow> ('s, int) act"
  ca_get_cur_seq :: "failure option \<Rightarrow> string \<Rightarrow> ('s, int \<times> int) act"
  ca_get_send_seq :: "failure option \<Rightarrow> string \<Rightarrow> ('s, int \<times> int) act"
  ca_increase_seq :: "failure option \<Rightarrow> string \<Rightarrow> ('s, int \<times> int \<times> bool) act"
  ca_incr_send_seq :: "failure option \<Rightarrow> string \<Rightarrow> ('s, int \<times> int \<times> bool) act"
  ca_incr_group_seq :: "failure option \<Rightarrow> string list \<Rightarrow> ('s, GroupMemSeq list) act"
  ca_query_group_members_id :: "failure option \<Rightarrow> string \<Rightarrow> ('s, string list) act"
  ca_save_group_members_id :: "failure option \<Rightarrow> string \<Rightarrow> string list \<Rightarrow> ('s, unit) act"
  ca_add_group_member_id :: "failure option \<Rightarrow> string \<Rightarrow> string \<Rightarrow> ('s, unit) act"
  ca_remove_group_member_id :: "failure option \<Rightarrow> string \<Rightarrow> string \<Rightarrow> ('s, unit) act"
  ca_remove_group_member_batch :: "failure option \<Rightarrow> string \<Rightarrow> string list \<Rightarrow> ('s, unit) act"
  ca_del_group_members :: "failure option \<Rightarrow> string \<Rightarrow> ('s, unit) act"
  ca_save_register_code :: "failure option \<Rightarrow> int \<Rightarrow> string \<Rightarrow> string \<Rightarrow> ('s, unit) act"
  ca_get_register_code :: "failure option \<Rightarrow> int \<Rightarrow> string \<Rightarrow> ('s, string option) act"
  ca_del_register_code :: "failure option \<Rightarrow> string \<Rightarrow> ('s, unit) act"
  ca_user_login :: "failure option \<Rightarrow> string \<Rightarrow> ('s, unit) act"
  ca_user_logout :: "failure option \<Rightarrow> string \<Rightarrow> ('s, unit) act"
  ca_online_count :: "failure option \<Rightarrow> ('s, int) act"

definition RedisCache :: "int \<Rightarrow> redis Cache" where
  "RedisCache step =
     \<lparr>ca_check_seq_loaded = check_seq_loaded, ca_set_seq_loaded = set_seq_loaded, ca_set_seq = set_seq,
      ca_set_send_seq = set_send_seq, ca_get_seq = get_seq, ca_get_cur_seq = get_cur_seq, ca_get_send_seq = get_send_seq,
      ca_increase_seq = increase_seq step, ca_incr_send_seq = incr_send_seq step, ca_incr_group_seq = incr_group_seq step,
      ca_query_group_members_id = query_group_members_id_cache, ca_save_group_members_id = save_group_members_id,
      ca_add_group_member_id = add_group_member_id, ca_remove_group_member_id = remove_group_member_id,
      ca_remove_group_member_batch = remove_group_member_batch, ca_del_group_members = del_group_members,
      ca_save_register_code = save_register_code, ca_get_register_code = get_register_code,
      ca_del_register_code = del_register_code, ca_user_login = user_login, ca_user_logout = user_logout,
      ca_online_count = online_count\<rparr>"

definition RedisCache_new :: "redis Cache" where
  "RedisCache_new = RedisCache DEFAULT_SEQ_STEP"

definition cache :: "Config \<Rightarrow> redis Cache" where
  "cache c = RedisCache (cache_seq_step (rd_seq_step (cf_redis c)))"

section \<open>The object store\<close>

record 's Oss =
  os_file_exists :: "string \<Rightarrow> string \<Rightarrow> ('s, bool) act"
  os_upload_file :: "string \<Rightarrow> string \<Rightarrow> ('s, unit) act"
  os_download_file :: "string \<Rightarrow> ('s, string) act"
  os_delete_file :: "string \<Rightarrow> ('s, unit) act"
  os_upload_avatar :: "string \<Rightarrow> string \<Rightarrow> ('s, unit) act"
  os_download_avatar :: "string \<Rightarrow> ('s, string) act"
  os_delete_avatar :: "string \<Rightarrow> ('s, unit) act"

definition S3Client :: "s3_client \<Rightarrow> s3 Oss" where
  "S3Client cl =
     \<lparr>os_file_exists = file_exists cl, os_upload_file = upload_file cl, os_download_file = download_file cl,
      os_delete_file = delete_file cl, os_upload_avatar = oss_upload_avatar cl,
      os_download_avatar = oss_download_avatar cl, os_delete_avatar = delete_avatar cl\<rparr>"

text \<open>\<open>oss\<close>: making the client creates the buckets and uploads the default avatars, in the order in which
  the hash map yields them.\<close>

definition oss :: "s3_client \<Rightarrow> (string \<times> string) list \<Rightarrow> (s3, s3 Oss) act" where
  "oss cl order = and_then (s3_client_new cl order) (\<lambda>_. ok (S3Client cl))"

section \<open>The pusher\<close>

record 's Pusher =
  pu_push_single_msg :: "Msg \<Rightarrow> ('s, unit) act"
  pu_push_group_msg :: "Msg \<Rightarrow> GroupMemSeq list \<Rightarrow> ('s, unit) act"

definition PusherService :: "push_env \<Rightarrow> pusher Pusher" where
  "PusherService env = \<lparr>pu_push_single_msg = push_single_msg env, pu_push_group_msg = push_group_msg env\<rparr>"

section \<open>The receive boxes\<close>

text \<open>A stream is the messages its receiver delivers; \<open>None\<close> is a call that never returns.\<close>

record 's MsgRecBoxRepo =
  mb_save_message :: "Msg \<Rightarrow> ('s, unit) act"
  mb_save_group_msg :: "Msg \<Rightarrow> GroupMemSeq list \<Rightarrow> ('s, unit) act"
  mb_delete_message :: "string \<Rightarrow> ('s, unit) act"
  mb_delete_messages :: "string \<Rightarrow> int list \<Rightarrow> ('s, unit) act"
  mb_get_message :: "string \<Rightarrow> ('s, Msg option) act"
  mb_get_messages_stream :: "string \<Rightarrow> int \<Rightarrow> int \<Rightarrow> 's \<Rightarrow> (Msg list res \<times> 's) option"
  mb_get_messages :: "string \<Rightarrow> int \<Rightarrow> int \<Rightarrow> ('s, Msg list) act"
  mb_get_msgs :: "string \<Rightarrow> int \<Rightarrow> int \<Rightarrow> int \<Rightarrow> int \<Rightarrow> ('s, Msg list) act"
  mb_msg_read :: "string \<Rightarrow> int list \<Rightarrow> ('s, unit) act"

definition MsgBox :: "int \<Rightarrow> failure option \<Rightarrow> collection MsgRecBoxRepo" where
  "MsgBox cap outage =
     \<lparr>mb_save_message = box_save_message outage, mb_save_group_msg = box_save_group_msg outage,
      mb_delete_message = box_delete_message outage, mb_delete_messages = box_delete_messages outage,
      mb_get_message = box_get_message outage,
      mb_get_messages_stream = (\<lambda>u a b s. map_option (\<lambda>r. (r, s)) (box_get_messages_stream outage u a b s)),
      mb_get_messages = box_get_messages cap outage, mb_get_msgs = box_get_msgs cap outage,
      mb_msg_read = box_msg_read outage\<rparr>"

definition HybridShardedMsgBox :: "shard_env \<Rightarrow> shard_box MsgRecBoxRepo" where
  "HybridShardedMsgBox env =
     \<lparr>mb_save_message = shard_save_message env, mb_save_group_msg = shard_save_group_msg env,
      mb_delete_message = shard_delete_message env, mb_delete_messages = shard_delete_messages env,
      mb_get_message = shard_get_message env,
      mb_get_messages_stream = (\<lambda>u a b s. Some (shard_get_messages_stream env u a b s)),
      mb_get_messages = shard_get_messages env, mb_get_msgs = shard_get_msgs env, mb_msg_read = shard_msg_read env\<rparr>"

definition consumer_ops :: "'s MsgRecBoxRepo \<Rightarrow> 's box_ops" where
  "consumer_ops b = \<lparr>bo_save = mb_save_message b, bo_save_group = mb_save_group_msg b, bo_delete = mb_delete_message b,
     bo_read = mb_msg_read b\<rparr>"

lemma consumer_ops_boxes:
  "consumer_ops (MsgBox cap outage) = legacy_ops outage" "consumer_ops (HybridShardedMsgBox env) = sharded_ops env"
  by (simp_all add: consumer_ops_def MsgBox_def HybridShardedMsgBox_def legacy_ops_def sharded_ops_def)

end
