(* ===== verification/Testing.thy ===== *)
theory Testing
  imports Migrations Migrate
begin

text \<open>
  The test support: the throw-away databases of \<open>utils/src/sqlx_tester\<close> and \<open>utils/src/mongodb_tester\<close>,
  with what their destructors do, and the benchmark of the sharded receive box
  (\<open>db/src/benchmarks/benchmark_sharding.rs\<close>). A database server is a map from the names of its databases
  to their contents. Ids, clocks and which statement fails are arguments.
\<close>

section \<open>A throw-away PostgreSQL database\<close>

record TestDb =
  td_host :: string
  td_port :: "16 word"
  td_user :: string
  td_password :: string
  td_dbname :: string

definition td_server_url :: "TestDb \<Rightarrow> string" where
  "td_server_url d =
     (if td_password d = [] then ''postgres://'' @ td_user d @ ''@'' @ host_port (td_host d) (td_port d)
      else ''postgres://'' @ td_user d @ '':'' @ td_password d @ ''@'' @ host_port (td_host d) (td_port d))"

definition td_url :: "TestDb \<Rightarrow> string" where
  "td_url d = td_server_url d @ ''/'' @ td_dbname d"

text \<open>Which address answers, whether the account may create databases and end connections, and what the
  directory of migrations holds (\<open>None\<close> if it cannot be read).\<close>

record pg_server_env =
  pe_connect :: "string \<Rightarrow> bool"
  pe_create :: bool
  pe_terminate :: bool
  pe_migrations :: "string \<Rightarrow> (string \<times> ddl list) list option"

type_synonym pg_server = "string \<rightharpoonup> catalog"

definition require_that :: "string \<Rightarrow> bool \<Rightarrow> (pg_server, unit) act" where
  "require_that what b = (if b then ok () else fail (Panicked what))"

definition create_database :: "pg_server_env \<Rightarrow> string \<Rightarrow> (pg_server, unit) act" where
  "create_database env n s =
     (if pe_create env \<and> s n = None then (Inr (), s(n \<mapsto> empty_catalog)) else (Inl (Panicked ''CREATE DATABASE''), s))"

definition run_migrator :: "(string \<times> ddl list) list \<Rightarrow> string \<Rightarrow> (pg_server, unit) act" where
  "run_migrator ms n s =
     (case s n of
        None \<Rightarrow> (Inl (Panicked ''connect''), s)
      | Some c \<Rightarrow> (case run_migrations ms c of
          (_, c', None) \<Rightarrow> (Inr (), s(n \<mapsto> c')) | (_, c', Some v) \<Rightarrow> (Inl (Panicked v), s(n \<mapsto> c'))))"

definition drop_database :: "string \<Rightarrow> (pg_server, unit) act" where
  "drop_database n s = (if s n = None then (Inl (Panicked ''DROP DATABASE''), s) else (Inr (), s(n := None)))"

definition td_drop :: "pg_server_env \<Rightarrow> TestDb \<Rightarrow> (pg_server, unit) act" where
  "td_drop env d =
     and_then (require_that ''connect'' (pe_connect env (td_server_url d))) (\<lambda>_.
     and_then (require_that ''pg_terminate_backend'' (pe_terminate env)) (\<lambda>_.
     drop_database (td_dbname d)))"

text \<open>The work of the thread \<open>TestDb::new\<close> waits for.\<close>

definition td_prepare :: "pg_server_env \<Rightarrow> string \<Rightarrow> TestDb \<Rightarrow> (pg_server, unit) act" where
  "td_prepare env dir d =
     and_then (require_that ''connect'' (pe_connect env (td_server_url d))) (\<lambda>_.
     and_then (create_database env (td_dbname d)) (\<lambda>_.
     and_then (require_that ''connect'' (pe_connect env (td_url d))) (\<lambda>_.
       (case pe_migrations env dir of
          None \<Rightarrow> fail (Panicked ''Migrator::new'') | Some ms \<Rightarrow> run_migrator ms (td_dbname d)))))"

text \<open>The value is built before the thread runs: when the thread panics, unwinding drops it, and a second
  panic in the destructor aborts the process.\<close>

definition TestDb_new ::
  "pg_server_env \<Rightarrow> string \<Rightarrow> string \<Rightarrow> 16 word \<Rightarrow> string \<Rightarrow> string \<Rightarrow> string \<Rightarrow> (pg_server, TestDb) act" where
  "TestDb_new env uuid host port user password dir =
     (let d = \<lparr>td_host = host, td_port = port, td_user = user, td_password = password, td_dbname = ''test_'' @ uuid\<rparr>
      in (\<lambda>s. case td_prepare env dir d s of
           (Inr _, t) \<Rightarrow> (Inr d, t)
         | (Inl e, t) \<Rightarrow> (case td_drop env d t of
             (Inr _, u) \<Rightarrow> (Inl e, u) | (Inl _, u) \<Rightarrow> (Inl (Panicked ''panic in a destructor during cleanup''), u))))"

text \<open>A test that owns such a database: the destructor runs at its end, also when it panics.\<close>

definition with_test_db ::
  "(pg_server, TestDb) act \<Rightarrow> pg_server_env \<Rightarrow> (TestDb \<Rightarrow> (pg_server, unit) act) \<Rightarrow> (pg_server, unit) act" where
  "with_test_db new env body =
     and_then new (\<lambda>d s. case body d s of
        (r, t) \<Rightarrow> (case td_drop env d t of
          (Inr _, u) \<Rightarrow> (r, u)
        | (Inl e, u) \<Rightarrow> (Inl (case r of Inr _ \<Rightarrow> e | Inl _ \<Rightarrow> Panicked ''panic in a destructor during cleanup''), u)))"

section \<open>A throw-away MongoDB database\<close>

text \<open>Naming a database does not create it; dropping one that does not exist succeeds.\<close>

record MongoDbTester =
  mt_host :: string
  mt_port :: "16 word"
  mt_user :: string
  mt_password :: string
  mt_dbname :: string

definition mt_server_url :: "MongoDbTester \<Rightarrow> string" where
  "mt_server_url d =
     (case (mt_user d = [], mt_password d = []) of
        (True, _) \<Rightarrow> ''mongodb://'' @ host_port (mt_host d) (mt_port d)
      | (False, True) \<Rightarrow> ''mongodb://'' @ mt_user d @ ''@'' @ host_port (mt_host d) (mt_port d)
      | (False, False) \<Rightarrow> ''mongodb://'' @ mt_user d @ '':'' @ mt_password d @ ''@'' @ host_port (mt_host d) (mt_port d))"

definition mt_url :: "MongoDbTester \<Rightarrow> string" where
  "mt_url d = mt_server_url d @ ''/'' @ mt_dbname d"

definition MongoDbTester_new ::
  "(string \<Rightarrow> bool) \<Rightarrow> string \<Rightarrow> string \<Rightarrow> 16 word \<Rightarrow> string \<Rightarrow> string \<Rightarrow> ('s, MongoDbTester) act" where
  "MongoDbTester_new uri_ok uuid host port user password =
     (let d = \<lparr>mt_host = host, mt_port = port, mt_user = user, mt_password = password, mt_dbname = ''test_'' @ uuid\<rparr>
      in if uri_ok (mt_server_url d) then ok d else fail (Panicked ''with_uri_str''))"

definition mt_database :: "(string \<Rightarrow> bool) \<Rightarrow> MongoDbTester \<Rightarrow> ('s, string) act" where
  "mt_database uri_ok d = (if uri_ok (mt_url d) then ok (mt_dbname d) else fail (Panicked ''with_uri_str''))"

definition mt_drop :: "(string \<Rightarrow> bool) \<Rightarrow> bool \<Rightarrow> MongoDbTester \<Rightarrow> (string \<rightharpoonup> 'b, unit) act" where
  "mt_drop uri_ok up d s =
     (if \<not> uri_ok (mt_server_url d) then (Inl (Panicked ''with_uri_str''), s)
      else if up then (Inr (), s(mt_dbname d := None)) else (Inr (), s))"

section \<open>The benchmark of the sharded box\<close>

datatype TestMode = TestSingle | TestGroup | TestMixed

record Args =
  ar_mode :: TestMode
  ar_count :: "64 word"
  ar_shards :: "8 word"

definition args_default :: Args where
  "args_default = \<lparr>ar_mode = TestMixed, ar_count = 10000, ar_shards = 10\<rparr>"

definition generate_user_ids :: "nat \<Rightarrow> string \<Rightarrow> string list" where
  "generate_user_ids n pre = map (\<lambda>i. pre @ ''_'' @ show_nat i) [0..<n]"

definition generate_group_ids :: "nat \<Rightarrow> string list" where
  "generate_group_ids n = map (\<lambda>i. ''group_'' @ show_nat i) [0..<n]"

definition create_test_message :: "string \<Rightarrow> string \<Rightarrow> string \<Rightarrow> int \<Rightarrow> int \<Rightarrow> MsgType \<Rightarrow> Msg" where
  "create_test_message i sender receiver time n ty =
     \<lparr>sender_id = sender, receiver_id = receiver, client_id = ''client_'' @ i, server_id = ''server_'' @ i,
      create_time = time - 1, send_time = time, seq = n, msg_type = msg_type_code ty, content_type = 0,
      content = ''Test content for message '' @ i, is_read = False,
      group_id = (if ty = GroupMsg then ''group_'' @ i else ''''), platform = platform_code Mobile,
      avatar = '''', nickname = '''', related_msg_id = None, send_seq = n + 1000\<rparr>"

text \<open>A \<open>for\<close> loop whose body ends in \<open>?\<close>.\<close>

fun for_each :: "('i \<Rightarrow> ('s, unit) act) \<Rightarrow> 'i list \<Rightarrow> ('s, unit) act" where
  "for_each f [] = ok ()"
| "for_each f (i # is) = and_then (f i) (\<lambda>_. for_each f is)"

definition single_message :: "int \<Rightarrow> nat \<Rightarrow> Msg" where
  "single_message t0 i =
     (let receivers = generate_user_ids 20 ''recv'' in
      create_test_message (''s_'' @ show_nat i) (''sender_'' @ show_nat (i mod 10))
        (receivers ! (i mod length receivers)) (t0 + int i) (int i) SingleMsg)"

definition group_message :: "int \<Rightarrow> nat \<Rightarrow> Msg" where
  "group_message t0 i =
     create_test_message (''g_'' @ show_nat i) (''sender_'' @ show_nat (i mod 10)) ''group''
       (t0 + int i) (int i) GroupMsg"

definition bench_members :: "nat \<Rightarrow> GroupMemSeq list" where
  "bench_members i =
     (let group_index = i mod length (generate_group_ids 5) in
      map (\<lambda>j. \<lparr>mem_id = ''mem_'' @ show_nat group_index @ ''_'' @ show_nat j, cur_seq = 1000 + int j,
                max_seq = 1000 + int j, need_update = False\<rparr>) [0..<10])"

definition benchmark_single_messages :: "(Msg \<Rightarrow> ('s, unit) act) \<Rightarrow> int \<Rightarrow> 64 word \<Rightarrow> ('s, unit) act" where
  "benchmark_single_messages save t0 n = for_each (\<lambda>i. save (single_message t0 i)) [0..<unat n]"

definition benchmark_group_messages ::
  "(Msg \<Rightarrow> GroupMemSeq list \<Rightarrow> ('s, unit) act) \<Rightarrow> int \<Rightarrow> 64 word \<Rightarrow> ('s, unit) act" where
  "benchmark_group_messages save_group t0 n =
     for_each (\<lambda>i. save_group (group_message t0 i) (bench_members i)) [0..<unat n]"

definition single_count :: "64 word \<Rightarrow> 64 word" where
  "single_count n = n * 7 div 10"

text \<open>Each part reads the clock when it starts.\<close>

definition benchmark_mixed_messages ::
  "(Msg \<Rightarrow> ('s, unit) act) \<Rightarrow> (Msg \<Rightarrow> GroupMemSeq list \<Rightarrow> ('s, unit) act) \<Rightarrow> int \<Rightarrow> int \<Rightarrow> 64 word \<Rightarrow> ('s, unit) act" where
  "benchmark_mixed_messages save save_group t0 t1 n =
     and_then (benchmark_single_messages save t0 (single_count n)) (\<lambda>_.
       benchmark_group_messages save_group t1 (n - single_count n))"

text \<open>The program: the file of the configuration, the clocks, whether the driver accepts the address (the one of
  the box differs only in the name of the database),
  and the answer to dropping the database.\<close>

record bench_env =
  be_config :: "Config res"
  be_millis :: nat
  be_base :: int
  be_base_group :: int
  be_connect :: "failure option"
  be_drop :: bool

definition bench_config :: "string \<Rightarrow> 8 word \<Rightarrow> Config \<Rightarrow> Config" where
  "bench_config name shards c =
     c\<lparr>cf_db := (cf_db c)\<lparr>db_mongodb := (db_mongodb (cf_db c))
       \<lparr>mg_database := name, mg_use_sharding := Some True, mg_user_shards := Some (ucast shards)\<rparr>\<rparr>\<rparr>"

definition test_db_name :: "bench_env \<Rightarrow> string" where
  "test_db_name e = ''bench_test_'' @ show_nat (be_millis e)"

definition run_mode :: "bench_env \<Rightarrow> Args \<Rightarrow> shard_env \<Rightarrow> (shard_box, unit) act" where
  "run_mode e args env =
     (case ar_mode args of
        TestSingle \<Rightarrow> benchmark_single_messages (shard_save_message env) (be_base e) (ar_count args)
      | TestGroup \<Rightarrow> benchmark_group_messages (shard_save_group_msg env) (be_base_group e) (ar_count args)
      | TestMixed \<Rightarrow> benchmark_mixed_messages (shard_save_message env) (shard_save_group_msg env)
          (be_base e) (be_base_group e) (ar_count args))"

text \<open>A panic skips the removal of the test database; an error does not.\<close>

definition benchmark_main :: "shard_env \<Rightarrow> bench_env \<Rightarrow> Args \<Rightarrow> (string \<rightharpoonup> shard_box, unit) act" where
  "benchmark_main senv e args dbs =
     (case be_config e of
        Inl x \<Rightarrow> (Inl x, dbs)
      | Inr config \<Rightarrow>
          (case be_connect e of
             Some x \<Rightarrow> (Inl x, dbs)
           | None \<Rightarrow>
               (let name = test_db_name e;
                    start = (case dbs name of None \<Rightarrow> \<lparr>sb_docs = [], sb_active = [], sb_cache = []\<rparr> | Some b \<Rightarrow> b);
                    env = senv\<lparr>se_shards := shard_count (bench_config name (ar_shards args) config)\<rparr>
                in case run_mode e args env (snd (initialize_system env start)) of
                     (Inl (Panicked x), b) \<Rightarrow> (Inl (Panicked x), dbs(name \<mapsto> b))
                   | (result, b) \<Rightarrow> (result, if be_drop e then dbs(name := None) else dbs(name \<mapsto> b)))))"

section \<open>What the benchmark writes\<close>

context msg_rec_box
begin

lemma for_each_save:
  "inv s \<Longrightarrow> for_each (\<lambda>i. save (f i)) is s = (Inr (), t) \<Longrightarrow>
   inv t \<and> inbox t = inbox s + mset (map (\<lambda>i. stored_view (f i)) is)"
proof (induction "is" arbitrary: s)
  case (Cons i "is")
  from Cons.prems(2) obtain s1 where "save (f i) s = (Inr (), s1)" "for_each (\<lambda>i. save (f i)) is s1 = (Inr (), t)"
    by (auto elim!: and_then_eq_InrE)
  with save_ok [OF Cons.prems(1)] Cons.IH [of s1] show ?case by simp
qed simp

lemma for_each_save_group:
  "inv s \<Longrightarrow> for_each (\<lambda>i. save_group (f i) (g i)) is s = (Inr (), t) \<Longrightarrow>
   inv t \<and> size (inbox t) = size (inbox s) + sum_list (map (\<lambda>i. 1 + length (g i)) is)
     \<and> (\<forall>u. u \<notin> (\<lambda>i. sender_id (f i)) ` set is \<union> (\<lambda>i. receiver_id (f i)) ` set is
           \<union> (\<Union>i\<in>set is. mem_id ` set (g i)) \<longrightarrow> inbox_of u (inbox t) = inbox_of u (inbox s))"
proof (induction "is" arbitrary: s)
  case (Cons i "is")
  from Cons.prems(2) obtain s1 where s1: "save_group (f i) (g i) s = (Inr (), s1)"
      "for_each (\<lambda>i. save_group (f i) (g i)) is s1 = (Inr (), t)"
    by (auto elim!: and_then_eq_InrE)
  from save_group_ok [OF Cons.prems(1) s1(1)] obtain c where c: "inv s1"
      "receiver_id c = receiver_id (f i) \<or> receiver_id c = sender_id (f i)"
      "inbox s1 = inbox s + {#c#} + fanned_out (f i) (g i)" by blast
  have "size (inbox s1) = size (inbox s) + (1 + length (g i))" by (simp add: c(3) fanned_out_def)
  moreover have "inbox_of u (inbox s1) = inbox_of u (inbox s)"
    if "u \<noteq> sender_id (f i)" "u \<noteq> receiver_id (f i)" "u \<notin> mem_id ` set (g i)" for u
    using that c(2) inbox_of_fanned_out_other [OF that(3)] by (auto simp: c(3))
  ultimately show ?case using Cons.IH [OF c(1) s1(2)] by auto
qed simp

end

lemma for_each_fresh:
  assumes step: "\<And>i s. i \<in> set is \<Longrightarrow> J s \<Longrightarrow> key i \<notin> K s \<Longrightarrow> \<exists>t. f i s = (Inr (), t) \<and> J t \<and> K t = insert (key i) (K s)"
    and "J s" and "distinct (map key is)" and "key ` set is \<inter> K s = {}"
  shows "\<exists>t. for_each f is s = (Inr (), t) \<and> J t \<and> K t = K s \<union> key ` set is"
  using assms
proof (induction "is" arbitrary: s)
  case (Cons i "is")
  obtain s1 where s1: "f i s = (Inr (), s1)" "J s1" "K s1 = insert (key i) (K s)"
    using Cons.prems(1) [of i s] Cons.prems(2,4) by auto
  have "\<exists>t. for_each f is s1 = (Inr (), t) \<and> J t \<and> K t = K s1 \<union> key ` set is"
    using Cons.prems s1 by (intro Cons.IH) auto
  with s1 show ?case by (auto simp: and_then_def)
qed simp

definition shard_ids :: "shard_box \<Rightarrow> string set" where
  "shard_ids s = server_id ` set (msgs_of (map snd (sb_docs s)))"

lemma server_id_stored_view [simp]: "server_id (stored_view m) = server_id m"
  by (simp add: stored_view_def)

lemma insert_all_fresh:
  assumes "env_up env" and "distinct (map (\<lambda>x. doc_key (snd x)) xs)"
    and "(\<lambda>x. doc_key (snd x)) ` set xs \<inter> (\<lambda>x. doc_key (snd x)) ` set (sb_docs s) = {}"
  shows "\<exists>t. insert_all env xs s = (Inr (), t)"
  using assms(2,3)
proof (induction xs arbitrary: s)
  case (Cons x xs)
  obtain c d where x: "x = (c, d)" by fastforce
  have "doc_key d \<notin> doc_key ` set (docs_in c s)" using Cons.prems(2) x by (force simp: docs_in_def)
  then have one: "insert_one env c d s = (Inr (), s\<lparr>sb_docs := sb_docs s @ [(c, d)]\<rparr>)"
    using assms(1) by (simp add: insert_one_def env_up_def)
  have "\<exists>t. insert_all env xs (s\<lparr>sb_docs := sb_docs s @ [(c, d)]\<rparr>) = (Inr (), t)"
    using Cons.prems x by (intro Cons.IH) auto
  with one x show ?case by auto
qed simp

lemma group_targets_up:
  assumes "env_up env" and "se_shards env \<noteq> 0"
  shows "\<exists>xs t. group_targets env m gs s = (Inr xs, t)"
proof (induction gs arbitrary: m s)
  case (Cons g gs)
  define m' where "m' = m\<lparr>seq := cur_seq g, receiver_id := mem_id g\<rparr>"
  define c where "c = get_collection_name env (send_time m') (se_hash env (mem_id g) mod se_shards env)"
  have "se_index env c = None" using assms(1) by (simp add: env_up_def)
  then obtain s1 where "get_collection env c s = (Inr (), s1)" by (rule get_collection_upE)
  with Cons.IH [of m' s1] show ?case
    by (auto simp: Let_def m'_def [symmetric] get_user_range_def assms(2) c_def [symmetric] and_then_def)
qed simp

lemma doc_key_in_box:
  assumes "shard_ok s" and "x \<in> set (sb_docs s)" and "doc_key (snd x) = doc_key (to_doc m)"
  shows "server_id m \<in> shard_ids s"
proof -
  have "snd x = to_doc (msg_of_doc (snd x))"
    using assms(1,2) by (auto simp: shard_ok_def box_ok_def list_all_iff)
  with assms(3) have "server_id (msg_of_doc (snd x)) = server_id m"
    by (metis doc_key_to_doc Pair_inject option.inject Bson.inject(1))
  moreover have "msg_of_doc (snd x) \<in> set (msgs_of (map snd (sb_docs s)))"
    using assms(2) unfolding msgs_of_def by simp
  ultimately show ?thesis unfolding shard_ids_def by (metis imageI)
qed

lemma shard_group_fresh:
  assumes "env_up env" and "se_shards env \<noteq> 0" and "shard_ok s" and "server_id m \<notin> shard_ids s"
    and "distinct (sender_id m # map mem_id gs)"
  shows "\<exists>t. shard_save_group_msg env m gs s = (Inr (), t) \<and> shard_ok t \<and> shard_ids t = insert (server_id m) (shard_ids s)"
proof -
  define c where "c = get_collection_name env (send_time m) (se_hash env (sender_id m) mod se_shards env)"
  have "se_index env c = None" using assms(1) by (simp add: env_up_def)
  then obtain s1 where s1: "get_collection env c s = (Inr (), s1)" "sb_docs s1 = sb_docs s"
    by (rule get_collection_upE)
  obtain xs s2 where s2: "group_targets env (m\<lparr>send_seq := 0\<rparr>) gs s1 = (Inr xs, s2)"
    using group_targets_up [OF assms(1,2)] by blast
  have docs: "sb_docs s2 = sb_docs s" "map snd xs = map (\<lambda>g. to_doc (member_copy (m\<lparr>send_seq := 0\<rparr>) g)) gs"
    using group_targets_Inr [OF _ s2] s1(2) by auto
  define all where "all = (c, to_doc (m\<lparr>receiver_id := sender_id m\<rparr>)) # xs"
  have keys: "map (\<lambda>x. doc_key (snd x)) all =
      map (\<lambda>u. (Some (BString (server_id m)), Some (BString u))) (sender_id m # map mem_id gs)"
    using arg_cong [OF docs(2), of "map doc_key"] by (simp add: all_def doc_key_to_doc o_def member_copy_def)
  have apart: "distinct (map (\<lambda>x. doc_key (snd x)) all)"
    unfolding keys distinct_map using assms(5) by (auto simp: inj_on_def)
  have fresh: "doc_key (snd x) \<notin> set (map (\<lambda>x. doc_key (snd x)) all)" if "x \<in> set (sb_docs s2)" for x
  proof
    assume "doc_key (snd x) \<in> set (map (\<lambda>x. doc_key (snd x)) all)"
    then obtain u where "doc_key (snd x) = doc_key (to_doc (m\<lparr>receiver_id := u\<rparr>))"
      unfolding keys by (auto simp: doc_key_to_doc)
    with doc_key_in_box [OF assms(3) _ this] that docs(1) assms(4) show False by simp
  qed
  have "(\<lambda>x. doc_key (snd x)) ` set all \<inter> (\<lambda>x. doc_key (snd x)) ` set (sb_docs s2) = {}"
  proof (rule equals0I)
    fix k assume "k \<in> (\<lambda>x. doc_key (snd x)) ` set all \<inter> (\<lambda>x. doc_key (snd x)) ` set (sb_docs s2)"
    then obtain x where "x \<in> set (sb_docs s2)" "doc_key (snd x) \<in> set (map (\<lambda>x. doc_key (snd x)) all)"
      unfolding set_map by (elim IntE imageE) (simp only: image_eqI)
    with fresh show False by blast
  qed
  from insert_all_fresh [OF assms(1) apart this] obtain t where "insert_all env all s2 = (Inr (), t)" ..
  then have saved: "shard_save_group_msg env m gs s = (Inr (), t)"
    using s1(1) s2 assms(2)
    by (simp add: shard_save_group_msg_def get_user_range_def c_def [symmetric] Let_def and_then_def all_def del: insert_all.simps)
  moreover have "shard_ids t = insert (server_id m) (shard_ids s)"
    using shard_save_group_Inr [OF saved] by (auto simp: shard_ids_def member_copy_def image_image)
  ultimately show ?thesis using sbox.save_group_ok [OF assms(3)] by blast
qed

lemma shard_single_fresh:
  assumes "env_up env" and "se_shards env \<noteq> 0" and "shard_ok s" and "server_id m \<notin> shard_ids s"
  shows "\<exists>t. shard_save_message env m s = (Inr (), t) \<and> shard_ok t \<and> shard_ids t = insert (server_id m) (shard_ids s)"
proof -
  have "get_user_range env (receiver_id m) = Inr (se_hash env (receiver_id m) mod se_shards env)"
    using assms(2) by (simp add: get_user_range_def)
  from shard_save_message_fresh [OF assms(1) this assms(3)] assms(4) obtain t where
    t: "shard_save_message env m s = (Inr (), t)"
      "sb_docs t = sb_docs s @ [(get_collection_name env (send_time m) (se_hash env (receiver_id m) mod se_shards env), to_doc m)]"
    by (fastforce simp: shard_ids_def)
  have "shard_ids t = insert (server_id m) (shard_ids s)" by (auto simp: shard_ids_def t(2))
  with t(1) sbox.save_ok [OF assms(3)] show ?thesis by blast
qed

lemma server_ids:
  "server_id (single_message t0 i) = ''server_s_'' @ show_nat i"
  "server_id (group_message t0 i) = ''server_g_'' @ show_nat i"
  by (simp_all add: single_message_def group_message_def create_test_message_def Let_def)

lemma receivers:
  "sender_id (group_message t0 i) = ''sender_'' @ show_nat (i mod 10)" "receiver_id (group_message t0 i) = ''group''"
  "receiver_id (single_message t0 i) = ''recv_'' @ show_nat (i mod 20)"
  by (simp_all add: single_message_def group_message_def create_test_message_def generate_user_ids_def Let_def)

lemma bench_members_ids:
  "map mem_id (bench_members i) = map (\<lambda>j. ''mem_'' @ show_nat (i mod 5) @ ''_'' @ show_nat j) [0..<10]"
  "length (bench_members i) = 10"
  by (simp_all add: bench_members_def generate_group_ids_def Let_def)

lemma mem_id_in: "u \<in> mem_id ` set (bench_members i) \<Longrightarrow> hd u = CHR ''m''"
  using bench_members_ids(1) [of i] by (metis (no_types, lifting) append_Cons imageE image_set list.sel(1) list.set_map)

lemma distinct_receivers: "distinct (sender_id (group_message t0 i) # map mem_id (bench_members i))"
  by (auto simp: receivers bench_members_ids distinct_map inj_on_def dest: show_nat_inj)

lemma distinct_server_ids:
  "distinct (map (\<lambda>i. server_id (single_message t0 i)) [0..<n])"
  "distinct (map (\<lambda>i. server_id (group_message t0 i)) [0..<n])"
  by (auto simp: server_ids distinct_map inj_on_def dest: show_nat_inj)

lemma benchmark_single_fresh:
  assumes "env_up env" and "se_shards env \<noteq> 0" and "shard_ok s"
    and "(\<lambda>i. server_id (single_message t0 i)) ` {..<unat n} \<inter> shard_ids s = {}"
  shows "\<exists>t. benchmark_single_messages (shard_save_message env) t0 n s = (Inr (), t) \<and> shard_ok t
    \<and> shard_ids t = shard_ids s \<union> (\<lambda>i. server_id (single_message t0 i)) ` {..<unat n}"
  using for_each_fresh [of "[0..<unat n]" shard_ok "\<lambda>i. server_id (single_message t0 i)" shard_ids
      "\<lambda>i. shard_save_message env (single_message t0 i)" s] assms(3,4) shard_single_fresh [OF assms(1,2)]
  by (auto simp: benchmark_single_messages_def distinct_server_ids atLeast_upt [symmetric] lessThan_atLeast0)

lemma benchmark_group_fresh:
  assumes "env_up env" and "se_shards env \<noteq> 0" and "shard_ok s"
    and "(\<lambda>i. server_id (group_message t0 i)) ` {..<unat n} \<inter> shard_ids s = {}"
  shows "\<exists>t. benchmark_group_messages (shard_save_group_msg env) t0 n s = (Inr (), t) \<and> shard_ok t"
  using for_each_fresh [of "[0..<unat n]" shard_ok "\<lambda>i. server_id (group_message t0 i)" shard_ids
      "\<lambda>i. shard_save_group_msg env (group_message t0 i) (bench_members i)" s] assms(3,4)
    shard_group_fresh [OF assms(1,2) _ _ distinct_receivers]
  by (auto simp: benchmark_group_messages_def distinct_server_ids atLeast_upt [symmetric] lessThan_atLeast0)

lemma bench_shards: "shard_count (bench_config name n c) = unat n"
proof -
  have "(ucast (ucast n :: 32 word) :: 8 word) = n" by transfer simp
  then show ?thesis by (simp add: shard_count_def bench_config_def unwrap_or_def)
qed

lemma single_count_nat:
  assumes "unat n * 7 < 2 ^ 64"
  shows "unat (single_count n) = unat n * 7 div 10" "unat (n - single_count n) = unat n - unat n * 7 div 10"
proof -
  have "unat (n * 7) = unat n * 7" using assms by (simp add: unat_word_ariths)
  then show sc: "unat (single_count n) = unat n * 7 div 10" by (simp add: single_count_def unat_div)
  have "single_count n \<le> n" unfolding word_le_nat_alt sc by (rule div_le_mono [of "unat n * 7" "unat n * 10" 10, simplified]) 
  then show "unat (n - single_count n) = unat n - unat n * 7 div 10" by (simp add: unat_sub sc)
qed

lemma dealt:
  "inbox_of (''recv_'' @ show_nat k) (mset (map (\<lambda>i. stored_view (single_message t0 i)) is)) =
     mset (map (\<lambda>i. stored_view (single_message t0 i)) (filter (\<lambda>i. i mod 20 = k) is))"
  by (induction "is") (auto simp: receivers stored_view_def dest: show_nat_inj)

lemma recv_no_member: "''recv_'' @ show_nat k \<notin> mem_id ` set (bench_members i)"
  using mem_id_in [of "''recv_'' @ show_nat k" i] by auto

lemma benchmark_mixed_up:
  assumes "env_up env" and "se_shards env \<noteq> 0" and "shard_ok s" and "shard_ids s = {}" and "unat n * 7 < 2 ^ 64"
  shows "\<exists>t. benchmark_mixed_messages (shard_save_message env) (shard_save_group_msg env) t0 t1 n s = (Inr (), t)
    \<and> size (shard_inbox t) = size (shard_inbox s) + unat n * 7 div 10 + 11 * (unat n - unat n * 7 div 10)
    \<and> (\<forall>k. inbox_of (''recv_'' @ show_nat k) (shard_inbox t) = inbox_of (''recv_'' @ show_nat k) (shard_inbox s)
        + mset (map (\<lambda>i. stored_view (single_message t0 i)) (filter (\<lambda>i. i mod 20 = k) [0..<unat n * 7 div 10])))"
proof -
  let ?m = "unat n * 7 div 10"
  have cnt: "unat (single_count n) = ?m" "unat (n - single_count n) = unat n - ?m"
    using single_count_nat [OF assms(5)] by simp_all
  obtain s1 where s1: "benchmark_single_messages (shard_save_message env) t0 (single_count n) s = (Inr (), s1)"
      "shard_ok s1" "shard_ids s1 = (\<lambda>i. server_id (single_message t0 i)) ` {..<?m}"
    using benchmark_single_fresh [OF assms(1-3), of t0 "single_count n"] assms(4) cnt(1) by auto
  obtain t where t: "benchmark_group_messages (shard_save_group_msg env) t1 (n - single_count n) s1 = (Inr (), t)"
    using benchmark_group_fresh [OF assms(1,2) s1(2), of t1 "n - single_count n"] s1(3) by (auto simp: server_ids)
  have one: "shard_inbox s1 = shard_inbox s + mset (map (\<lambda>i. stored_view (single_message t0 i)) [0..<?m])"
    using sbox.for_each_save [OF assms(3) s1(1) [unfolded benchmark_single_messages_def]] cnt(1) by simp
  note grouped = sbox.for_each_save_group [OF s1(2) t [unfolded benchmark_group_messages_def]]
  have "sum_list (map (\<lambda>i. 1 + length (bench_members i)) [0..<k]) = 11 * k" for k
    by (simp add: bench_members_ids(2) sum_list_triv)
  with grouped have size: "size (shard_inbox t) = size (shard_inbox s1) + 11 * (unat n - ?m)"
    by (simp only: cnt(2))
  have two: "inbox_of (''recv_'' @ show_nat k) (shard_inbox t) = inbox_of (''recv_'' @ show_nat k) (shard_inbox s1)" for k
  proof -
    have "''recv_'' @ show_nat k \<notin> (\<lambda>i. sender_id (group_message t1 i)) ` A \<union> (\<lambda>i. receiver_id (group_message t1 i)) ` A
        \<union> (\<Union>i\<in>A. mem_id ` set (bench_members i))" for A
      using recv_no_member by (auto simp: receivers)
    with grouped show ?thesis by blast
  qed
  have "inbox_of (''recv_'' @ show_nat k) (shard_inbox t) = inbox_of (''recv_'' @ show_nat k) (shard_inbox s)
      + mset (map (\<lambda>i. stored_view (single_message t0 i)) (filter (\<lambda>i. i mod 20 = k) [0..<?m]))" for k
    unfolding two one inbox_of_simps dealt ..
  moreover have "size (shard_inbox t) = size (shard_inbox s) + ?m + 11 * (unat n - ?m)"
    by (simp add: size one)
  moreover have "benchmark_mixed_messages (shard_save_message env) (shard_save_group_msg env) t0 t1 n s = (Inr (), t)"
    using s1(1) t by (simp add: benchmark_mixed_messages_def and_then_def)
  ultimately show ?thesis by blast
qed

lemma benchmark_zero_shards:
  assumes "se_shards env = 0" and "unat n \<noteq> 0"
  shows "\<exists>x. benchmark_single_messages (shard_save_message env) t0 n s = (Inl (Panicked x), s)"
    and "\<exists>x. benchmark_group_messages (shard_save_group_msg env) t0 n s = (Inl (Panicked x), s)"
proof -
  have "[0..<unat n] = 0 # [1..<unat n]" using assms(2) by (simp add: upt_rec)
  then show "\<exists>x. benchmark_single_messages (shard_save_message env) t0 n s = (Inl (Panicked x), s)"
    "\<exists>x. benchmark_group_messages (shard_save_group_msg env) t0 n s = (Inl (Panicked x), s)"
    using assms(1)
    by (simp_all add: benchmark_single_messages_def benchmark_group_messages_def shard_save_message_def
        shard_save_group_msg_def get_user_range_def and_then_def)
qed

lemma initialize_ok [simp]:
  "shard_ok (snd (initialize_system env s)) = shard_ok s" "shard_ids (snd (initialize_system env s)) = shard_ids s"
  "shard_inbox (snd (initialize_system env s)) = shard_inbox s"
  by (simp_all add: shard_ok_def shard_ids_def shard_inbox_def)

text \<open>
  The benchmark measures what it prints and cleans up after itself, unless it is asked for no shards.
  With the database up, a mixed run of \<open>n\<close> messages writes seven tenths of them as single messages, each once
  to the inbox of one of twenty receivers in turn, and the rest as group messages of eleven copies each, succeeds,
  and leaves the server without its database. Run with \<open>--shards 0\<close> the first save panics, and the database the
  comment promises to delete whatever happens stays behind.
\<close>

theorem benchmark_cleans_up:
  assumes "env_up senv" and "be_config e = Inr config" and "be_connect e = None" and "be_drop e"
    and "dbs (test_db_name e) = None" and "ar_mode args = TestMixed" and "unat (ar_count args) * 7 < 2 ^ 64"
    and "env = senv\<lparr>se_shards := unat (ar_shards args)\<rparr>" and "m = unat (ar_count args) * 7 div 10"
    and "start = \<lparr>sb_docs = [], sb_active = [], sb_cache = []\<rparr>"
  shows "ar_shards args \<noteq> 0 \<Longrightarrow> benchmark_main senv e args dbs = (Inr (), dbs)
      \<and> (\<exists>b. run_mode e args env (snd (initialize_system env start)) = (Inr (), b)
        \<and> size (shard_inbox b) = m + 11 * (unat (ar_count args) - m)
        \<and> (\<forall>k. inbox_of (''recv_'' @ show_nat k) (shard_inbox b) =
             mset (map (\<lambda>i. stored_view (single_message (be_base e) i)) (filter (\<lambda>i. i mod 20 = k) [0..<m]))))"
    and "ar_shards args = 0 \<Longrightarrow> 1 < unat (ar_count args) \<Longrightarrow> (\<exists>x dbs'. benchmark_main senv e args dbs = (Inl (Panicked x), dbs')
      \<and> dbs' (test_db_name e) \<noteq> None)"
proof -
  let ?s = "snd (initialize_system env start)"
  have env: "env = senv\<lparr>se_shards := shard_count (bench_config (test_db_name e) (ar_shards args) config)\<rparr>"
    by (simp add: assms(8) bench_shards)
  have s: "shard_ok ?s" "shard_ids ?s = {}" "shard_inbox ?s = {#}"
    by (simp_all add: assms(10)) (simp_all add: shard_ok_def shard_ids_def shard_inbox_def)
  have main: "benchmark_main senv e args dbs =
      (case run_mode e args env ?s of
         (Inl (Panicked x), b) \<Rightarrow> (Inl (Panicked x), dbs(test_db_name e \<mapsto> b))
       | (result, b) \<Rightarrow> (result, dbs(test_db_name e := None)))"
    using assms(2-5,10) by (simp add: benchmark_main_def Let_def env split: prod.split sum.split failure.split)
  { assume "ar_shards args \<noteq> 0"
    then have "se_shards env \<noteq> 0" "env_up env" using assms(1,8) by (simp_all add: unat_eq_zero)
    from benchmark_mixed_up [OF this(2,1) s(1,2) assms(7), of "be_base e" "be_base_group e"] main s(3)
    show "benchmark_main senv e args dbs = (Inr (), dbs)
      \<and> (\<exists>b. run_mode e args env ?s = (Inr (), b) \<and> size (shard_inbox b) = m + 11 * (unat (ar_count args) - m)
        \<and> (\<forall>k. inbox_of (''recv_'' @ show_nat k) (shard_inbox b) =
             mset (map (\<lambda>i. stored_view (single_message (be_base e) i)) (filter (\<lambda>i. i mod 20 = k) [0..<m]))))"
      using assms(5,6,9) by (auto simp: run_mode_def fun_upd_idem) }
  { assume "ar_shards args = 0" and "1 < unat (ar_count args)"
    then have "se_shards env = 0" "unat (single_count (ar_count args)) \<noteq> 0"
      using assms(8) single_count_nat [OF assms(7)] by auto
    from benchmark_zero_shards(1) [OF this, of "be_base e" ?s]
    show "\<exists>x dbs'. benchmark_main senv e args dbs = (Inl (Panicked x), dbs') \<and> dbs' (test_db_name e) \<noteq> None"
      by (auto simp: main run_mode_def assms(6) benchmark_mixed_messages_def and_then_def) }
qed

section \<open>Throw-away databases\<close>

text \<open>The testers reach the servers the configuration names: their addresses are those of the configured
  databases with the generated name in place of the configured one.\<close>

lemma tester_urls:
  "td_url \<lparr>td_host = pg_host c, td_port = pg_port c, td_user = pg_user c, td_password = pg_password c, td_dbname = n\<rparr> =
     pg_url (c\<lparr>pg_database := n\<rparr>)"
  "mt_url \<lparr>mt_host = mg_host m, mt_port = mg_port m, mt_user = mg_user m, mt_password = mg_password m, mt_dbname = n\<rparr> =
     mg_url (m\<lparr>mg_database := n\<rparr>)"
  by (simp_all add: td_url_def td_server_url_def pg_url_def pg_server_url_def mt_url_def mt_server_url_def
      mg_url_def mg_server_url_def split: bool.split)

text \<open>The destructor removes what the test wrote and nothing else; an error of the removal is only printed.\<close>

lemma mongo_tester_cleans:
  assumes "MongoDbTester_new uri_ok uuid host port user password s = (Inr d, s1)" and "\<forall>n. n \<noteq> mt_dbname d \<longrightarrow> t n = s1 n"
    and "s (mt_dbname d) = None"
  shows "mt_drop uri_ok True d t = (Inr (), s)" and "mt_drop uri_ok False d t = (Inr (), t)"
  using assms by (auto simp: MongoDbTester_new_def mt_drop_def Let_def fun_eq_iff split: if_splits)

lemma repository_migrations_fail:
  "run_migrations migrations empty_catalog =
     (fst (run_migrations migrations empty_catalog), fst (snd (run_migrations migrations empty_catalog)), Some ''20240322014431'')"
proof -
  have "snd (snd (run_migrations migrations empty_catalog)) = Some ''20240322014431''" by code_simp
  then show ?thesis by (simp add: prod_eq_iff)
qed

lemma td_drop_up:
  "pe_connect env (td_server_url d) \<Longrightarrow> pe_terminate env \<Longrightarrow> s (td_dbname d) \<noteq> None \<Longrightarrow>
   td_drop env d s = (Inr (), s(td_dbname d := None))"
  by (simp add: td_drop_def require_that_def drop_database_def)

text \<open>
  A throw-away database lives exactly as long as its test. With the server up, a fresh name and migrations
  that run to their end, the test gets a database with the migrated tables, and whatever it does, also when it
  panics, the database is gone afterwards and the test's verdict is kept. With the repository's own migrations no
  test gets that far: \<open>TestDb::new\<close> panics at the file that creates the roles a second time, and the half-built
  database is removed while the panic unwinds.
\<close>

theorem test_db_lives_for_its_test:
  assumes up: "\<forall>u. pe_connect env u" "pe_create env" "pe_terminate env" and "s (''test_'' @ uuid) = None"
    and d: "d = \<lparr>td_host = host, td_port = port, td_user = user, td_password = password, td_dbname = ''test_'' @ uuid\<rparr>"
  shows "pe_migrations env dir = Some migrations \<Longrightarrow>
      TestDb_new env uuid host port user password dir s = (Inl (Panicked ''20240322014431''), s)"
    and "pe_migrations env dir = Some ms \<Longrightarrow> run_migrations ms empty_catalog = (vs, c, None) \<Longrightarrow>
      body d (s(''test_'' @ uuid \<mapsto> c)) = (r, t) \<Longrightarrow> t (''test_'' @ uuid) \<noteq> None \<Longrightarrow>
      TestDb_new env uuid host port user password dir s = (Inr d, s(''test_'' @ uuid \<mapsto> c))
      \<and> with_test_db (TestDb_new env uuid host port user password dir) env body s = (r, t(''test_'' @ uuid := None))"
proof -
  have prepare: "td_prepare env dir d s = run_migrator ms (''test_'' @ uuid) (s(''test_'' @ uuid \<mapsto> empty_catalog))"
    if "pe_migrations env dir = Some ms" for ms
    using up assms(4) that by (simp add: td_prepare_def require_that_def create_database_def and_then_def d)
  have drop: "td_drop env d t = (Inr (), t(''test_'' @ uuid := None))" if "t (''test_'' @ uuid) \<noteq> None" for t
    using td_drop_up [of env d t] up that by (simp add: d)
  have made: "TestDb_new env uuid host port user password dir s =
      (case td_prepare env dir d s of
         (Inr _, t) \<Rightarrow> (Inr d, t)
       | (Inl e, t) \<Rightarrow> (case td_drop env d t of
           (Inr _, u) \<Rightarrow> (Inl e, u) | (Inl _, u) \<Rightarrow> (Inl (Panicked ''panic in a destructor during cleanup''), u)))"
    unfolding d TestDb_new_def Let_def ..
  show "TestDb_new env uuid host port user password dir s = (Inl (Panicked ''20240322014431''), s)"
    if "pe_migrations env dir = Some migrations"
  proof -
    obtain vs c where "run_migrations migrations empty_catalog = (vs, c, Some ''20240322014431'')"
      using repository_migrations_fail by blast
    then have "td_prepare env dir d s = (Inl (Panicked ''20240322014431''), s(''test_'' @ uuid \<mapsto> c))"
      using prepare [OF that] by (simp add: run_migrator_def)
    with drop [of "s(''test_'' @ uuid \<mapsto> c)"] assms(4) show ?thesis by (simp add: made fun_upd_idem)
  qed
  assume "pe_migrations env dir = Some ms" and run: "run_migrations ms empty_catalog = (vs, c, None)"
    and body: "body d (s(''test_'' @ uuid \<mapsto> c)) = (r, t)" "t (''test_'' @ uuid) \<noteq> None"
  from prepare [OF this(1)] run have
    new: "TestDb_new env uuid host port user password dir s = (Inr d, s(''test_'' @ uuid \<mapsto> c))"
    by (simp add: made run_migrator_def)
  with body drop [of t, OF body(2)] show "TestDb_new env uuid host port user password dir s = (Inr d, s(''test_'' @ uuid \<mapsto> c))
      \<and> with_test_db (TestDb_new env uuid host port user password dir) env body s = (r, t(''test_'' @ uuid := None))"
    by (simp add: with_test_db_def and_then_def)
qed

section \<open>Witnesses\<close>

definition demo_bench :: bench_env where
  "demo_bench = \<lparr>be_config = Inr (demo_config None None), be_millis = 5, be_base = 1700000000, be_base_group = 1700000000,
     be_connect = None, be_drop = True\<rparr>"

theorem benchmark_cleans_up_witness:
  "benchmark_main demo_env demo_bench args_default Map.empty = (Inr (), Map.empty)
   \<and> (\<exists>x dbs'. benchmark_main demo_env demo_bench (args_default\<lparr>ar_shards := 0\<rparr>) Map.empty = (Inl (Panicked x), dbs')
      \<and> dbs' (test_db_name demo_bench) \<noteq> None)"
proof -
  have up: "env_up demo_env" by (simp add: env_up_def demo_env_def)
  show ?thesis
    using benchmark_cleans_up(1) [OF up, of demo_bench "demo_config None None" Map.empty args_default _ _, OF _ _ _ _ _ _ refl refl refl]
      benchmark_cleans_up(2) [OF up, of demo_bench "demo_config None None" Map.empty "args_default\<lparr>ar_shards := 0\<rparr>" _ _, OF _ _ _ _ _ _ refl refl refl]
    by (simp add: demo_bench_def args_default_def)
qed

definition demo_pg_server :: pg_server_env where
  "demo_pg_server = \<lparr>pe_connect = \<lambda>_. True, pe_create = True, pe_terminate = True,
     pe_migrations = (\<lambda>dir. if dir = ''./migrations'' then Some migrations else Some [])\<rparr>"

theorem test_db_lives_for_its_test_witness:
  "TestDb_new demo_pg_server ''1'' ''localhost'' 5432 ''postgres'' ''postgres'' ''./migrations'' Map.empty =
     (Inl (Panicked ''20240322014431''), Map.empty)
   \<and> with_test_db (TestDb_new demo_pg_server ''1'' ''localhost'' 5432 ''postgres'' ''postgres'' ''empty'') demo_pg_server
       (\<lambda>_. fail (Panicked ''assertion'')) Map.empty = (Inl (Panicked ''assertion''), Map.empty)"
proof -
  have up: "\<forall>u. pe_connect demo_pg_server u" "pe_create demo_pg_server" "pe_terminate demo_pg_server"
    "Map.empty (''test_'' @ ''1'') = None"
    by (simp_all add: demo_pg_server_def)
  show ?thesis
    using test_db_lives_for_its_test(1) [OF up refl, where dir = "''./migrations''" and host = "''localhost''"
        and port = 5432 and user = "''postgres''" and password = "''postgres''"]
      test_db_lives_for_its_test(2) [OF up refl, where dir = "''empty''" and ms = "[]" and vs = "[]" and c = empty_catalog
        and body = "\<lambda>_. fail (Panicked ''assertion'')" and host = "''localhost''"
        and port = 5432 and user = "''postgres''" and password = "''postgres''"]
    by (simp add: demo_pg_server_def fun_upd_idem)
qed

end
