(* ===== verification/Unit_Tests.thy ===== *)
theory Unit_Tests
  imports Testing Files Sequences
begin

text \<open>
  The unit tests of the repository that exercise modelled code, run on the model: those of the cache
  (\<open>cache/src/redis/mod.rs\<close>), of the unsharded box (\<open>db/src/mongodb/message.rs\<close>) and of the sharded box
  (\<open>db/src/mongodb/sharded_message.rs\<close>). A test is an action that panics where an \<open>unwrap\<close> or an assertion
  fails; it passes on a fixture if it ends without a panic. The clock a test reads is an argument.
\<close>

section \<open>Running tests\<close>

definition assert_that :: "bool \<Rightarrow> ('s, unit) act" where
  "assert_that b = (if b then ok () else fail (Panicked ''assertion failed''))"

definition passes :: "('s, unit) act \<Rightarrow> 's \<Rightarrow> bool" where
  "passes t s \<longleftrightarrow> fst (t s) = Inr ()"

fun sequentially :: "('s, unit) act list \<Rightarrow> ('s, unit) act" where
  "sequentially [] = ok ()"
| "sequentially (t # ts) = and_then t (\<lambda>_. sequentially ts)"

section \<open>The cache\<close>

text \<open>\<open>TestRedis\<close> opens a database of its own and flushes it when the test is over.\<close>

definition test_increase_seq :: "(redis, unit) act" where
  "test_increase_seq =
     and_then (unwrap_act (increase_seq DEFAULT_SEQ_STEP None ''test'')) (\<lambda>r.
       assert_that (r = (1, DEFAULT_SEQ_STEP, False)))"

definition test_save_group_members_id :: "(redis, unit) act" where
  "test_save_group_members_id = unwrap_act (save_group_members_id None ''test'' [''1'', ''2''])"

definition test_query_group_members_id :: "(redis, unit) act" where
  "test_query_group_members_id =
     and_then (unwrap_act (save_group_members_id None ''test'' [''1'', ''2''])) (\<lambda>_.
     and_then (unwrap_act (query_group_members_id_cache None ''test'')) (\<lambda>r.
       assert_that (length r = 2 \<and> ''1'' \<in> set r \<and> ''2'' \<in> set r)))"

definition test_add_group_member_id :: "(redis, unit) act" where
  "test_add_group_member_id = unwrap_act (add_group_member_id None ''1'' ''test'')"

definition test_remove_group_member_id :: "(redis, unit) act" where
  "test_remove_group_member_id =
     and_then (unwrap_act (add_group_member_id None ''1'' ''test'')) (\<lambda>_.
       unwrap_act (remove_group_member_id None ''test'' ''1''))"

definition test_del_group_members :: "(redis, unit) act" where
  "test_del_group_members =
     and_then (unwrap_act (save_group_members_id None ''test'' [''1'', ''2''])) (\<lambda>_.
       unwrap_act (del_group_members None ''test''))"

section \<open>The unsharded box\<close>

definition get_test_msg :: "int \<Rightarrow> string \<Rightarrow> Msg" where
  "get_test_msg now i =
     \<lparr>sender_id = ''123'', receiver_id = ''111'', client_id = ''123'', server_id = i, create_time = 0,
      send_time = now, seq = 0, msg_type = msg_type_code SingleMsg, content_type = 0, content = ''test'',
      is_read = False, group_id = '''', platform = platform_code Mobile, avatar = '''', nickname = '''',
      related_msg_id = None, send_seq = 0\<rparr>"

definition mongodb_insert_and_get_works :: "int \<Rightarrow> (collection, unit) act" where
  "mongodb_insert_and_get_works now =
     and_then (unwrap_act (box_save_message None (get_test_msg now ''123''))) (\<lambda>_.
     and_then (unwrap_act (box_get_message None ''123'')) (\<lambda>m.
       assert_that (case m of None \<Rightarrow> False | Some x \<Rightarrow> server_id x = ''123'')))"

definition mongodb_insert_and_delete_and_get_works :: "int \<Rightarrow> (collection, unit) act" where
  "mongodb_insert_and_delete_and_get_works now =
     and_then (unwrap_act (box_save_message None (get_test_msg now ''123''))) (\<lambda>_.
     and_then (unwrap_act (box_delete_message None ''123'')) (\<lambda>_.
     and_then (unwrap_act (box_get_message None ''123'')) (\<lambda>m. assert_that (m = None))))"

text \<open>The first message is saved with the number the helper gives it, not with the first of the list.\<close>

definition mongodb_insert_and_batch_delete_and_get_should_works :: "int \<Rightarrow> (collection, unit) act" where
  "mongodb_insert_and_batch_delete_and_get_should_works now =
     (let msg_seq = [12, 123, 1234]; msg = get_test_msg now ''123'' in
      sequentially
        ([unwrap_act (box_save_message None msg),
          unwrap_act (box_save_message None (msg\<lparr>server_id := ''124'', seq := msg_seq ! 1\<rparr>)),
          unwrap_act (box_save_message None (msg\<lparr>server_id := ''125'', seq := msg_seq ! 2\<rparr>)),
          unwrap_act (box_delete_messages None ''111'' msg_seq)]
         @ map (\<lambda>i. and_then (unwrap_act (box_get_message None i)) (\<lambda>m. assert_that (m = None))) [''123'', ''124'', ''125'']))"

section \<open>The sharded box\<close>

text \<open>\<open>ms\<close> is the clock in milliseconds.\<close>

definition get_sharded_test_msg :: "int \<Rightarrow> nat \<Rightarrow> string \<Rightarrow> Msg" where
  "get_sharded_test_msg now ms i =
     \<lparr>sender_id = ''sender_'' @ show_nat ms, receiver_id = ''receiver_'' @ show_nat ms,
      client_id = ''client_'' @ show_nat ms, server_id = i, create_time = 0,
      send_time = now, seq = 0, msg_type = msg_type_code SingleMsg, content_type = 0, content = ''test content'',
      is_read = False, group_id = '''', platform = platform_code Mobile, avatar = '''', nickname = '''',
      related_msg_id = None, send_seq = 0\<rparr>"

definition sharded_insert_and_get_works :: "shard_env \<Rightarrow> nat \<Rightarrow> (shard_box, unit) act" where
  "sharded_insert_and_get_works env ms =
     (let msg_id = ''test_'' @ show_nat ms in
      and_then (unwrap_act (shard_save_message env (get_sharded_test_msg (se_now env) ms msg_id))) (\<lambda>_.
      and_then (unwrap_act (shard_get_message env msg_id)) (\<lambda>m.
        assert_that (case m of None \<Rightarrow> False | Some x \<Rightarrow> server_id x = msg_id))))"

definition sharded_insert_and_delete_works :: "shard_env \<Rightarrow> nat \<Rightarrow> (shard_box, unit) act" where
  "sharded_insert_and_delete_works env ms =
     (let msg_id = ''test_'' @ show_nat ms in
      and_then (unwrap_act (shard_save_message env (get_sharded_test_msg (se_now env) ms msg_id))) (\<lambda>_.
      and_then (unwrap_act (shard_delete_message env msg_id)) (\<lambda>_.
      and_then (unwrap_act (shard_get_message env msg_id)) (\<lambda>m. assert_that (m = None)))))"

definition sharded_query_messages_works :: "shard_env \<Rightarrow> nat \<Rightarrow> (shard_box, unit) act" where
  "sharded_query_messages_works env ms =
     (let user_id = ''user_'' @ show_nat ms in
      and_then (for_each (\<lambda>i. unwrap_act (shard_save_message env
          ((get_sharded_test_msg (se_now env) ms (''test_msg_'' @ user_id @ ''_'' @ show_nat i))
            \<lparr>receiver_id := user_id, seq := int i, send_time := se_now env + int i\<rparr>))) [0..<10]) (\<lambda>_.
      and_then (unwrap_act (shard_get_msgs env user_id 0 0 3 7)) (\<lambda>messages.
        sequentially [assert_that (messages \<noteq> []),
          assert_that (map seq (sort_key seq (filter (\<lambda>m. 3 \<le> seq m \<and> seq m \<le> 7) messages)) = [3, 4, 5, 6, 7])])))"

definition check_member :: "shard_env \<Rightarrow> GroupMemSeq \<Rightarrow> (shard_box, unit) act" where
  "check_member env g =
     and_then (unwrap_act (shard_get_msgs env (mem_id g) 0 0 (cur_seq g - 1) (cur_seq g + 1))) (\<lambda>messages.
       assert_that (messages \<noteq> [] \<and> seq (hd messages) = cur_seq g))"

definition sharded_group_message_works :: "shard_env \<Rightarrow> nat \<Rightarrow> (shard_box, unit) act" where
  "sharded_group_message_works env ms =
     (let base_id = ''group_test_'' @ show_nat ms;
          sender = ''sender_'' @ base_id;
          msg = (get_sharded_test_msg (se_now env) ms (''group_msg_'' @ base_id))
            \<lparr>sender_id := sender, group_id := ''group_'' @ base_id, msg_type := msg_type_code GroupMsg, send_seq := 100\<rparr>;
          member = (\<lambda>i n. \<lparr>mem_id = ''member_'' @ i @ ''_'' @ base_id, cur_seq = n, max_seq = n, need_update = False\<rparr>)
      in sequentially
        [unwrap_act (shard_save_group_msg env msg [member ''1'' 1001, member ''2'' 2001]),
         and_then (unwrap_act (shard_get_msgs env sender 0 1000 0 0)) (\<lambda>messages. assert_that (messages \<noteq> [])),
         check_member env (member ''1'' 1001), check_member env (member ''2'' 2001)])"

definition sharded_message_read_status_works :: "shard_env \<Rightarrow> nat \<Rightarrow> (shard_box, unit) act" where
  "sharded_message_read_status_works env ms =
     (let user_id = ''read_test_'' @ show_nat ms in
      and_then (for_each (\<lambda>i. unwrap_act (shard_save_message env
          ((get_sharded_test_msg (se_now env) ms (''read_msg_'' @ user_id @ ''_'' @ show_nat i))
            \<lparr>receiver_id := user_id, seq := 100 + int i\<rparr>))) [0..<5]) (\<lambda>_.
      and_then (unwrap_act (shard_msg_read env user_id [100, 101, 102])) (\<lambda>_.
      and_then (unwrap_act (shard_get_msgs env user_id 0 0 100 104)) (\<lambda>messages.
        (let read_status = map (\<lambda>m. (seq m, is_read m)) (filter (\<lambda>m. 100 \<le> seq m \<and> seq m \<le> 104) messages) in
         sequentially [assert_that (length (remdups (map fst read_status)) = 5),
           assert_that (list_all (\<lambda>n. map_of (rev read_status) n = Some True) [100, 101, 102]),
           assert_that (list_all (\<lambda>n. map_of (rev read_status) n = Some False) [103, 104])])))))"

definition fresh_box :: "shard_env \<Rightarrow> shard_box" where
  "fresh_box env = snd (initialize_system env shard_empty)"

section \<open>Boxes of one month\<close>

text \<open>The clock of a test: it stays within a month, and the calendar tells this month from the two before.\<close>

definition steady_clock :: "shard_env \<Rightarrow> bool" where
  "steady_clock env \<longleftrightarrow>
     (\<forall>k < 10. se_in_range env (se_now env + int k) \<and> se_ym env (se_now env + int k) = se_ym env (se_now env))
     \<and> (\<forall>k \<in> {1, 2}. se_in_range env (months_ago env k) \<and> se_ym env (months_ago env k) \<noteq> se_ym env (se_now env))
     \<and> se_add_months env 0 (se_now env) = Some (se_now env)"

definition home :: "shard_env \<Rightarrow> string \<Rightarrow> string" where
  "home env u = get_collection_name env (se_now env) (se_hash env u mod se_shards env)"

definition of_this_month :: "shard_env \<Rightarrow> shard_box \<Rightarrow> bool" where
  "of_this_month env s \<longleftrightarrow> fst ` set (sb_docs s) \<subseteq> range (get_collection_name env (se_now env))"

lemma steady_now: "steady_clock env \<Longrightarrow> se_in_range env (se_now env)"
  by (auto simp: steady_clock_def dest: spec [of _ 0])

lemma steady_name:
  assumes "steady_clock env" and "k < 10"
  shows "get_collection_name env (se_now env + int k) i = get_collection_name env (se_now env) i"
  using assms steady_now [OF assms(1)] by (auto simp: steady_clock_def get_collection_name_def)

lemma earlier_apart:
  assumes "steady_clock env" and "k \<in> {1, 2}"
  shows "get_collection_name env (months_ago env k) i \<noteq> get_collection_name env (se_now env) j"
  using assms steady_now [OF assms(1)] collection_name_ym [of env "months_ago env k" i env "se_now env" j]
  by (auto simp: steady_clock_def)

lemma earlier_empty:
  assumes "steady_clock env" and "of_this_month env s" and "k \<in> {1, 2}"
  shows "docs_in (get_collection_name env (months_ago env k) i) s = []"
  using assms(2) earlier_apart [OF assms(1,3)]
  by (force simp: docs_in_def of_this_month_def filter_empty_conv)

lemma pull_this_month:
  assumes "env_up env" and "se_shards env \<noteq> 0" and "steady_clock env" and "of_this_month env s"
    and "with_capacity (se_cap env) (b - a + (y - x)) = Inr ()"
  shows "fst (shard_get_msgs env u a b x y s) = Inr (sort_key (msg_sort_key u)
    (map (\<lambda>d. own_seq_zero u (msg_of_doc d)) (sort_msgs u (filter (shard_match_msgs u a b x y) (docs_in (home env u) s)))))"
proof -
  have range: "get_user_range env u = Inr (se_hash env u mod se_shards env)"
    using assms(2) by (simp add: get_user_range_def)
  have "recent_collections env 3 (se_hash env u mod se_shards env) =
      [home env u, get_collection_name env (months_ago env 1) (se_hash env u mod se_shards env),
       get_collection_name env (months_ago env 2) (se_hash env u mod se_shards env)]"
    by (simp add: recent_collections_def home_def upt_rec numeral_2_eq_2)
  then show ?thesis
    using earlier_empty [OF assms(3,4)] by (simp add: shard_get_msgs_up [OF assms(1) range assms(5)] sort_msgs_def)
qed

lemma save_home:
  assumes "env_up env" and "se_shards env \<noteq> 0" and "steady_clock env" and "k < 10" and "shard_ok s"
    and "server_id m \<notin> shard_ids s" and "send_time m = se_now env + int k"
  shows "\<exists>t. unwrap_act (shard_save_message env m) s = (Inr (), t)
    \<and> sb_docs t = sb_docs s @ [(home env (receiver_id m), to_doc m)] \<and> sb_active t = sb_active s"
proof -
  have range: "get_user_range env (receiver_id m) = Inr (se_hash env (receiver_id m) mod se_shards env)"
    using assms(2) by (simp add: get_user_range_def)
  obtain t where t: "shard_save_message env m s = (Inr (), t)"
    using shard_single_fresh [OF assms(1,2,5,6)] by blast
  from t have "sb_docs t = sb_docs s @ [(home env (receiver_id m), to_doc m)]"
    by (rule shard_save_message_Inr) (simp add: range home_def assms(7) steady_name [OF assms(3,4)])
  moreover have "sb_active t = sb_active s"
    using t range assms(1) by (auto simp: shard_save_message_def Let_def insert_one_def env_up_def
        elim!: and_then_eq_InrE dest!: get_collection_docs split: if_splits)
  ultimately show ?thesis using t by (auto simp: unwrap_act_def)
qed

lemma save_each_home:
  assumes "env_up env" and "se_shards env \<noteq> 0" and "steady_clock env"
    and "\<And>i. i \<in> set is \<Longrightarrow> \<exists>k < 10. send_time (f i) = se_now env + int k"
    and "distinct (map (\<lambda>i. server_id (f i)) is)" and "shard_ok s" and "(\<lambda>i. server_id (f i)) ` set is \<inter> shard_ids s = {}"
  shows "\<exists>t. for_each (\<lambda>i. unwrap_act (shard_save_message env (f i))) is s = (Inr (), t)
    \<and> sb_docs t = sb_docs s @ map (\<lambda>i. (home env (receiver_id (f i)), to_doc (f i))) is"
  using assms(4-)
proof (induction "is" arbitrary: s)
  case (Cons i "is")
  obtain k where "k < 10" "send_time (f i) = se_now env + int k" using Cons.prems(1) [of i] by auto
  then obtain s1 where s1: "unwrap_act (shard_save_message env (f i)) s = (Inr (), s1)"
      "sb_docs s1 = sb_docs s @ [(home env (receiver_id (f i)), to_doc (f i))]"
    using save_home [OF assms(1-3) _ Cons.prems(3), of k "f i"] Cons.prems(4) by auto
  have "shard_ok s1" "shard_ids s1 = insert (server_id (f i)) (shard_ids s)"
    using Cons.prems(3) s1(2) by (auto simp: shard_ok_def shard_ids_def)
  then have "\<exists>t. for_each (\<lambda>i. unwrap_act (shard_save_message env (f i))) is s1 = (Inr (), t)
      \<and> sb_docs t = sb_docs s1 @ map (\<lambda>i. (home env (receiver_id (f i)), to_doc (f i))) is"
    using Cons.prems by (intro Cons.IH) auto
  with s1 show ?case by (auto simp: and_then_def)
qed simp

lemma unwrap_Inr: "fst (m s) = Inr a \<Longrightarrow> unwrap_act m s = (Inr a, snd (m s))"
  by (cases "m s") (simp add: unwrap_act_def)

lemma home_of_month: "fst ` set (sb_docs s) \<subseteq> range (home env) \<Longrightarrow> of_this_month env s"
  by (auto simp: of_this_month_def home_def)

lemma docs_in_one: "sb_docs s = map (\<lambda>i. (c, g i)) is \<Longrightarrow> docs_in c s = map g is"
  by (simp add: docs_in_def filter_map o_def)

lemma fresh_box_sel [simp]: "sb_docs (fresh_box env) = []" "shard_ok (fresh_box env)" "shard_ids (fresh_box env) = {}"
  by (simp_all add: fresh_box_def shard_ids_def shard_ok_def)

text \<open>What a user pulls who received the messages \<open>f i\<close> this month and sent none of them.\<close>

lemma pull_received:
  assumes "env_up env" and "se_shards env \<noteq> 0" and "steady_clock env"
    and "sb_docs s = map (\<lambda>i. (home env u, to_doc (f i))) is" and "\<And>i. i \<in> set is \<Longrightarrow> receiver_id (f i) = u \<and> sender_id (f i) \<noteq> u"
    and "with_capacity (se_cap env) (0 - 0 + (y - x)) = Inr ()"
  shows "\<exists>ms t. unwrap_act (shard_get_msgs env u 0 0 x y) s = (Inr ms, t)
    \<and> mset ms = mset (map (\<lambda>i. stored_view (f i)) (filter (\<lambda>i. x \<le> seq (f i) \<and> seq (f i) \<le> y) is))"
proof -
  have "of_this_month env s" by (rule home_of_month) (auto simp: assms(4))
  note pull = pull_this_month [OF assms(1-3) this assms(6), of u]
  have "filter (shard_match_msgs u 0 0 x y) (docs_in (home env u) s) =
      map (\<lambda>i. to_doc (f i)) (filter (\<lambda>i. x \<le> seq (f i) \<and> seq (f i) \<le> y) is)"
    unfolding docs_in_one [OF assms(4)] filter_map o_def
    using assms(5) by (auto simp: shard_match_msgs_def gte_lte_def intro!: arg_cong [of _ _ "map _"] filter_cong)
  moreover have "own_seq_zero u (msg_of_doc (to_doc (f i))) = stored_view (f i)" if "i \<in> set is" for i
    using assms(5) [OF that] by (auto simp: own_seq_zero_def stored_view_def)
  ultimately show ?thesis
    using unwrap_Inr [of "shard_get_msgs env u 0 0 x y" s, OF pull] by (auto simp: sort_msgs_def image_mset.compositionality o_def intro!: image_mset_cong)
qed

lemma sorted_numbers:
  assumes "mset (map seq ms) = mset ns" and "sorted ns"
  shows "map seq (sort_key seq ms) = ns"
  using properties_for_sort [of "map seq (sort_key seq ms)" ns] assms by (simp add: sorted_sort_id)

lemma map_of_graph: "\<forall>(a, b) \<in> set rs. b = g a \<Longrightarrow> a \<in> fst ` set rs \<Longrightarrow> map_of rs a = Some (g a)"
  by (induction rs) auto

section \<open>The tests\<close>

lemma cache_tests:
  "passes test_increase_seq redis_empty" "passes test_save_group_members_id redis_empty"
  "passes test_query_group_members_id redis_empty" "passes test_add_group_member_id redis_empty"
  "passes test_remove_group_member_id redis_empty" "passes test_del_group_members redis_empty"
  by code_simp+

lemmas box_tests_defs = passes_def assert_that_def unwrap_act_def and_then_def get_test_msg_def
  box_save_message_def box_get_message_def box_delete_message_def box_delete_messages_def

lemma box_tests:
  "passes (mongodb_insert_and_get_works now) []" "passes (mongodb_insert_and_delete_and_get_works now) []"
  "\<not> passes (mongodb_insert_and_batch_delete_and_get_should_works now) []"
  by (simp_all add: mongodb_insert_and_get_works_def mongodb_insert_and_delete_and_get_works_def
      mongodb_insert_and_batch_delete_and_get_should_works_def box_tests_defs num_in_def stored_view_def)

lemma query_test:
  assumes "env_up env" and "se_shards env \<noteq> 0" and "steady_clock env" and "with_capacity (se_cap env) 4 = Inr ()"
  shows "passes (sharded_query_messages_works env ms) (fresh_box env)"
proof -
  define u where "u = ''user_'' @ show_nat ms"
  define f where "f i = (get_sharded_test_msg (se_now env) ms (''test_msg_'' @ u @ ''_'' @ show_nat i))
    \<lparr>receiver_id := u, seq := int i, send_time := se_now env + int i\<rparr>" for i
  have sel: "receiver_id (f i) = u" "sender_id (f i) \<noteq> u" "seq (f i) = int i" "send_time (f i) = se_now env + int i"
    "server_id (f i) = ''test_msg_'' @ u @ ''_'' @ show_nat i" for i
    by (simp_all add: f_def get_sharded_test_msg_def u_def)
  obtain t where t: "for_each (\<lambda>i. unwrap_act (shard_save_message env (f i))) [0..<10] (fresh_box env) = (Inr (), t)"
      "sb_docs t = map (\<lambda>i. (home env u, to_doc (f i))) [0..<10]"
    using save_each_home [OF assms(1-3), of "[0..<10]" f "fresh_box env"]
    by (auto simp: sel distinct_map inj_on_def dest: show_nat_inj)
  obtain xs t' where xs: "unwrap_act (shard_get_msgs env u 0 0 3 7) t = (Inr xs, t')"
      "mset xs = mset (map (\<lambda>i. stored_view (f i)) (filter (\<lambda>i. 3 \<le> seq (f i) \<and> seq (f i) \<le> 7) [0..<10]))"
    using pull_received [OF assms(1-3) t(2), of 7 3] sel(1,2) assms(4) by auto
  have "filter (\<lambda>i. 3 \<le> seq (f i) \<and> seq (f i) \<le> 7) [0..<10] = [3, 4, 5, 6, 7]"
    by (simp add: sel upt_rec)
  with xs(2) have all: "mset xs = mset (map (\<lambda>i. stored_view (f i)) [3, 4, 5, 6, 7])" by simp
  have "mset (map seq (filter (\<lambda>m. 3 \<le> seq m \<and> seq m \<le> 7) xs)) =
      image_mset seq (filter_mset (\<lambda>m. 3 \<le> seq m \<and> seq m \<le> 7) (mset xs))" by simp
  also have "\<dots> = mset [3, 4, 5, 6, 7]" unfolding all by (simp add: sel stored_view_def)
  finally have "map seq (sort_key seq (filter (\<lambda>m. 3 \<le> seq m \<and> seq m \<le> 7) xs)) = [3, 4, 5, 6, 7]"
    by (rule sorted_numbers) simp
  moreover have "xs \<noteq> []" using all by auto
  moreover have "sharded_query_messages_works env ms =
      and_then (for_each (\<lambda>i. unwrap_act (shard_save_message env (f i))) [0..<10]) (\<lambda>_.
      and_then (unwrap_act (shard_get_msgs env u 0 0 3 7)) (\<lambda>messages.
        sequentially [assert_that (messages \<noteq> []),
          assert_that (map seq (sort_key seq (filter (\<lambda>m. 3 \<le> seq m \<and> seq m \<le> 7) messages)) = [3, 4, 5, 6, 7])]))"
    unfolding sharded_query_messages_works_def Let_def u_def f_def ..
  ultimately show ?thesis
    using t(1) xs(1) by (simp add: passes_def and_then_def assert_that_def)
qed

text \<open>Looking a message up by its id goes through the active collections.\<close>

lemma lookup_one:
  assumes "env_up env" and "sb_docs s = [(c, to_doc m)]"
  shows "c \<in> set cs \<Longrightarrow> fst (lookup_loop env (server_id m) cs s) = Inr (Some (stored_view m))"
  using assms(2)
proof (induction cs arbitrary: s)
  case (Cons a cs)
  have "se_index env a = None" "se_query env a = None" using assms(1) by (simp_all add: env_up_def)
  moreover from this(1) obtain s1 where "get_collection env a s = (Inr (), s1)" "sb_docs s1 = sb_docs s"
    by (rule get_collection_upE)
  ultimately show ?case using Cons by (auto simp: and_then_def docs_in_def)
qed simp

lemma lookup_none:
  assumes "env_up env" and "sb_docs s = []"
  shows "fst (lookup_loop env mid cs s) = Inr None"
  using assms(2)
proof (induction cs arbitrary: s)
  case (Cons a cs)
  have "se_index env a = None" "se_query env a = None" using assms(1) by (simp_all add: env_up_def)
  moreover from this(1) obtain s1 where "get_collection env a s = (Inr (), s1)" "sb_docs s1 = sb_docs s"
    by (rule get_collection_upE)
  ultimately show ?case using Cons by (simp add: and_then_def docs_in_def)
qed simp

lemma delete_one:
  assumes "env_up env" and "sb_docs s = [(c, to_doc m)]"
  shows "c \<in> set cs \<Longrightarrow> \<exists>t. delete_loop env (server_id m) cs s = (Inr (), t) \<and> sb_docs t = []"
  using assms(2)
proof (induction cs arbitrary: s)
  case (Cons a cs)
  have "se_index env a = None" "se_query env a = None" using assms(1) by (simp_all add: env_up_def)
  moreover from this(1) obtain s1 where "get_collection env a s = (Inr (), s1)" "sb_docs s1 = sb_docs s"
    by (rule get_collection_upE)
  ultimately show ?case using Cons by (auto simp: and_then_def docs_in_def)
qed simp

lemma home_active:
  assumes "env_up env" and "se_shards env \<noteq> 0" and "steady_clock env"
  shows "home env u \<in> set (sb_active (fresh_box env))"
proof -
  have "months_ahead env 0 = se_now env" using assms(3) by (simp add: steady_clock_def months_ahead_def unwrap_or_def)
  then have "home env u \<in> set (init_names env)"
    using assms(2) by (auto simp: init_names_def home_def)
  then show ?thesis using init_loop_active [OF assms(1)] by (simp add: fresh_box_def initialize_system_def)
qed

lemma saved_one:
  assumes "env_up env" and "se_shards env \<noteq> 0" and "steady_clock env" and "send_time m = se_now env"
  obtains t where "unwrap_act (shard_save_message env m) (fresh_box env) = (Inr (), t)"
    "sb_docs t = [(home env (receiver_id m), to_doc m)]" "home env (receiver_id m) \<in> set (sb_active t)"
  using save_home [OF assms(1-3), of 0 "fresh_box env" m] assms(4) home_active [OF assms(1-3), of "receiver_id m"] by auto

lemma get_test:
  assumes "env_up env" and "se_shards env \<noteq> 0" and "steady_clock env"
  shows "passes (sharded_insert_and_get_works env ms) (fresh_box env)"
proof -
  define m where "m = get_sharded_test_msg (se_now env) ms (''test_'' @ show_nat ms)"
  have m: "server_id m = ''test_'' @ show_nat ms" "send_time m = se_now env"
    by (simp_all add: m_def get_sharded_test_msg_def)
  obtain t where t: "unwrap_act (shard_save_message env m) (fresh_box env) = (Inr (), t)"
      "sb_docs t = [(home env (receiver_id m), to_doc m)]" "home env (receiver_id m) \<in> set (sb_active t)"
    using saved_one [OF assms m(2)] by blast
  have "fst (shard_get_message env (server_id m) t) = Inr (Some (stored_view m))"
    unfolding shard_get_message_def by (rule lookup_one [OF assms(1) t(2,3)])
  note got = unwrap_Inr [of "shard_get_message env (server_id m)", OF this]
  have "sharded_insert_and_get_works env ms =
      and_then (unwrap_act (shard_save_message env m)) (\<lambda>_. and_then (unwrap_act (shard_get_message env (server_id m)))
        (\<lambda>x. assert_that (case x of None \<Rightarrow> False | Some x \<Rightarrow> server_id x = server_id m)))"
    unfolding sharded_insert_and_get_works_def Let_def m(1) unfolding m_def ..
  with got t(1) show ?thesis by (simp add: passes_def and_then_def assert_that_def)
qed

lemma delete_test:
  assumes "env_up env" and "se_shards env \<noteq> 0" and "steady_clock env"
  shows "passes (sharded_insert_and_delete_works env ms) (fresh_box env)"
proof -
  define m where "m = get_sharded_test_msg (se_now env) ms (''test_'' @ show_nat ms)"
  have m: "server_id m = ''test_'' @ show_nat ms" "send_time m = se_now env"
    by (simp_all add: m_def get_sharded_test_msg_def)
  obtain t where t: "unwrap_act (shard_save_message env m) (fresh_box env) = (Inr (), t)"
      "sb_docs t = [(home env (receiver_id m), to_doc m)]" "home env (receiver_id m) \<in> set (sb_active t)"
    using saved_one [OF assms m(2)] by blast
  obtain t' where t': "shard_delete_message env (server_id m) t = (Inr (), t')" "sb_docs t' = []"
    unfolding shard_delete_message_def using delete_one [OF assms(1) t(2,3)] by blast
  have "fst (shard_get_message env (server_id m) t') = Inr None"
    unfolding shard_get_message_def by (rule lookup_none [OF assms(1) t'(2)])
  note got = unwrap_Inr [of "shard_get_message env (server_id m)", OF this]
  have "sharded_insert_and_delete_works env ms =
      and_then (unwrap_act (shard_save_message env m)) (\<lambda>_. and_then (unwrap_act (shard_delete_message env (server_id m)))
        (\<lambda>_. and_then (unwrap_act (shard_get_message env (server_id m))) (\<lambda>x. assert_that (x = None))))"
    unfolding sharded_insert_and_delete_works_def Let_def m(1) unfolding m_def ..
  moreover have "unwrap_act (shard_delete_message env (server_id m)) t = (Inr (), t')"
    using t'(1) by (simp add: unwrap_act_def)
  ultimately show ?thesis using got t(1) by (simp add: passes_def and_then_def assert_that_def)
qed

lemma read_loop:
  assumes "env_up env" and "se_shards env \<noteq> 0" and "steady_clock env"
    and "sb_docs s = map (\<lambda>i. (home env u, to_doc (f i))) is" and "seqs \<noteq> []" and "\<And>i. receiver_id (f i) = u"
  shows "\<exists>t. unwrap_act (shard_msg_read env u seqs) s = (Inr (), t)
    \<and> sb_docs t = map (\<lambda>i. (home env u, to_doc (if seq (f i) \<in> set seqs then (f i)\<lparr>is_read := True\<rparr> else f i))) is"
proof -
  define g where "g d = (if str_is ''receiver_id'' u d \<and> num_in ''seq'' seqs d then set_field ''is_read'' (BBool True) d else d)" for d
  define c where "c = get_collection_name env (months_ago env 1) (se_hash env u mod se_shards env)"
  have up: "se_index env x = None" "se_query env x = None" for x using assms(1) by (simp_all add: env_up_def)
  obtain s1 where s1: "get_collection env (home env u) s = (Inr (), s1)" "sb_docs s1 = sb_docs s"
    using get_collection_upE [OF up(1)] by metis
  define s2 where "s2 = s1\<lparr>sb_docs := map (\<lambda>i. (home env u, g (to_doc (f i)))) is\<rparr>"
  have s2: "s1\<lparr>sb_docs := List.map_filter (\<lambda>(c', d). if c' = home env u then map_option (Pair (home env u)) (Some (g d))
      else Some (c', d)) (sb_docs s1)\<rparr> = s2"
    by (simp add: s1(2) assms(4) s2_def List.map_filter_def o_def filter_map)
  obtain s3 where s3: "get_collection env c s2 = (Inr (), s3)" "sb_docs s3 = sb_docs s2"
    using get_collection_upE [OF up(1)] by metis
  have "home env u \<noteq> c"
    using earlier_apart [OF assms(3), of 1] by (metis home_def c_def insertI1)
  then have "List.map_filter (\<lambda>(c', d). if c' = c then map_option (Pair c) (Some (g d)) else Some (c', d)) (sb_docs s3) = sb_docs s2"
    by (simp add: s3(2) s2_def List.map_filter_def o_def filter_map)
  moreover have "recent_collections env 2 (se_hash env u mod se_shards env) = [home env u, c]"
    by (simp add: recent_collections_def home_def c_def upt_rec numeral_2_eq_2)
  ultimately have "shard_msg_read env u seqs s = (Inr (), s3\<lparr>sb_docs := sb_docs s2\<rparr>)"
    using assms(2,5) s1(1) s2 s3(1) by (simp add: shard_msg_read_def get_user_range_def up g_def [symmetric])
  moreover have "g (to_doc (f i)) = to_doc (if seq (f i) \<in> set seqs then (f i)\<lparr>is_read := True\<rparr> else f i)" for i
    by (simp add: g_def assms(6) num_in_def)
  ultimately show ?thesis by (simp add: unwrap_act_def s2_def)
qed

lemma read_test:
  assumes "env_up env" and "se_shards env \<noteq> 0" and "steady_clock env" and "with_capacity (se_cap env) 4 = Inr ()"
  shows "passes (sharded_message_read_status_works env ms) (fresh_box env)"
proof -
  define u where "u = ''read_test_'' @ show_nat ms"
  define f where "f i = (get_sharded_test_msg (se_now env) ms (''read_msg_'' @ u @ ''_'' @ show_nat i))
    \<lparr>receiver_id := u, seq := 100 + int i\<rparr>" for i
  define h where "h i = (if seq (f i) \<in> set [100, 101, 102] then (f i)\<lparr>is_read := True\<rparr> else f i)" for i
  have sel: "receiver_id (f i) = u" "sender_id (f i) \<noteq> u" "seq (f i) = 100 + int i" "send_time (f i) = se_now env"
    "server_id (f i) = ''read_msg_'' @ u @ ''_'' @ show_nat i" "is_read (f i) = False" for i
    by (simp_all add: f_def get_sharded_test_msg_def u_def)
  obtain t where t: "for_each (\<lambda>i. unwrap_act (shard_save_message env (f i))) [0..<5] (fresh_box env) = (Inr (), t)"
      "sb_docs t = map (\<lambda>i. (home env u, to_doc (f i))) [0..<5]"
    using save_each_home [OF assms(1-3), of "[0..<5]" f "fresh_box env"]
    by (auto simp: sel distinct_map inj_on_def intro: exI [of _ 0] dest: show_nat_inj)
  obtain t1 where t1: "unwrap_act (shard_msg_read env u [100, 101, 102]) t = (Inr (), t1)"
      "sb_docs t1 = map (\<lambda>i. (home env u, to_doc (h i))) [0..<5]"
    using read_loop [OF assms(1-3) t(2), of "[100, 101, 102]"] sel(1) by (auto simp: h_def)
  obtain xs t2 where xs: "unwrap_act (shard_get_msgs env u 0 0 100 104) t1 = (Inr xs, t2)"
      "mset xs = mset (map (\<lambda>i. stored_view (h i)) (filter (\<lambda>i. 100 \<le> seq (h i) \<and> seq (h i) \<le> 104) [0..<5]))"
  proof -
    have "receiver_id (h i) = u \<and> sender_id (h i) \<noteq> u" for i using sel(1,2) by (simp add: h_def)
    from pull_received [OF assms(1-3) t1(2), of 104 100, OF this] assms(4) that show thesis by auto
  qed
  have "filter (\<lambda>i. 100 \<le> seq (h i) \<and> seq (h i) \<le> 104) [0..<5] = [0, 1, 2, 3, 4]"
    by (simp add: h_def sel upt_rec)
  with xs(2) have "set xs = set (map (\<lambda>i. stored_view (h i)) [0, 1, 2, 3, 4])" by (metis mset_eq_setD)
  then have status: "set (map (\<lambda>m. (seq m, is_read m)) (filter (\<lambda>m. 100 \<le> seq m \<and> seq m \<le> 104) xs)) =
      {(100, True), (101, True), (102, True), (103, False), (104, False)}"
    by (simp add: Collect_disj_eq h_def sel stored_view_def conj_disj_distribR Collect_conv_if image_Un)
  define rs where "rs = map (\<lambda>m. (seq m, is_read m)) (filter (\<lambda>m. 100 \<le> seq m \<and> seq m \<le> 104) xs)"
  have "fst ` set rs = {100, 101, 102, 103, 104}" using status by (simp add: rs_def)
  moreover have "length (remdups (map fst rs)) = card (fst ` set rs)" by (simp add: length_remdups_card_conv)
  moreover have "map_of (rev rs) n = Some (n \<le> 102)" if "n \<in> {100, 101, 102, 103, 104}" for n
    using map_of_graph [of "rev rs" "\<lambda>n. n \<le> 102" n] status that by (auto simp: rs_def [symmetric])
  ultimately show ?thesis
    using t(1) t1(1) xs(1)
    unfolding passes_def sharded_message_read_status_works_def Let_def u_def [symmetric] f_def [symmetric]
    by (simp add: and_then_def assert_that_def rs_def [symmetric] del: map_map)
qed

lemma group_targets_home:
  assumes "env_up env" and "se_shards env \<noteq> 0"
  shows "send_time m = se_now env \<Longrightarrow> send_seq m = 0 \<Longrightarrow>
    \<exists>t. group_targets env m gs s = (Inr (map (\<lambda>g. (home env (mem_id g), to_doc (member_copy m g))) gs), t) \<and> sb_docs t = sb_docs s"
proof (induction gs arbitrary: m s)
  case (Cons g gs)
  define m' where "m' = m\<lparr>seq := cur_seq g, receiver_id := mem_id g\<rparr>"
  have "se_index env (home env (mem_id g)) = None" using assms(1) by (simp add: env_up_def)
  then obtain s1 where s1: "get_collection env (home env (mem_id g)) s = (Inr (), s1)" "sb_docs s1 = sb_docs s"
    by (rule get_collection_upE)
  have copy: "member_copy m' = member_copy m" "to_doc m' = to_doc (member_copy m g)" "send_time m' = se_now env" "send_seq m' = 0"
    using Cons.prems by (auto simp: m'_def member_copy_def fun_eq_iff to_doc_def)
  from Cons.IH [OF copy(3,4), of s1] s1 show ?case
    by (auto simp: Let_def m'_def [symmetric] get_user_range_def assms(2) copy home_def and_then_def)
qed simp

lemma shard_group_home:
  assumes "env_up env" and "se_shards env \<noteq> 0" and "send_time m = se_now env"
    and "distinct (sender_id m # map mem_id gs)" and "sb_docs s = []"
  shows "\<exists>t. unwrap_act (shard_save_group_msg env m gs) s = (Inr (), t)
    \<and> sb_docs t = (home env (sender_id m), to_doc (m\<lparr>receiver_id := sender_id m\<rparr>))
        # map (\<lambda>g. (home env (mem_id g), to_doc (member_copy m g))) gs"
proof -
  have "shard_ok s" "server_id m \<notin> shard_ids s" using assms(5) by (simp_all add: shard_ok_def shard_ids_def)
  then obtain t where t: "shard_save_group_msg env m gs s = (Inr (), t)"
    using shard_group_fresh [OF assms(1,2) _ _ assms(4)] by blast
  have "member_copy (m\<lparr>send_seq := 0\<rparr>) = member_copy m" by (simp add: member_copy_def fun_eq_iff)
  then have targets: "\<exists>s1. group_targets env (m\<lparr>send_seq := 0\<rparr>) gs s0 =
      (Inr (map (\<lambda>g. (home env (mem_id g), to_doc (member_copy m g))) gs), s1) \<and> sb_docs s1 = sb_docs s0" for s0
    using group_targets_home [OF assms(1,2), of "m\<lparr>send_seq := 0\<rparr>" gs s0] assms(3) by simp
  from t obtain s0 s1 rest where "get_collection env (home env (sender_id m)) s = (Inr (), s0)"
      "group_targets env (m\<lparr>send_seq := 0\<rparr>) gs s0 = (Inr rest, s1)"
      "insert_all env ((home env (sender_id m), to_doc (m\<lparr>receiver_id := sender_id m\<rparr>)) # rest) s1 = (Inr (), t)"
    using assms(2,3)
    by (auto simp: shard_save_group_msg_def get_user_range_def home_def Let_def simp del: insert_all.simps
        elim!: and_then_eq_InrE)
  with targets [of s0] have "sb_docs t = (home env (sender_id m), to_doc (m\<lparr>receiver_id := sender_id m\<rparr>))
        # map (\<lambda>g. (home env (mem_id g), to_doc (member_copy m g))) gs"
    using assms(5) by (auto simp del: insert_all.simps dest!: insert_all_Inr get_collection_docs)
  with t show ?thesis by (simp add: unwrap_act_def)
qed

lemma pull_keeps:
  assumes "env_up env"
  shows "sb_docs (snd (unwrap_act (shard_get_msgs env u a b x y) s)) = sb_docs s"
proof -
  have "sb_docs (snd (collect_loop env q cs acc s)) = sb_docs s" for q cs acc
    using collect_loop_up [OF assms, of q cs acc s] by auto
  then have "sb_docs (snd (shard_get_msgs env u a b x y s)) = sb_docs s"
    by (auto simp: shard_get_msgs_def and_then_def split: sum.split prod.split) (metis snd_conv)+
  then show ?thesis by (auto simp: unwrap_act_def split: prod.split sum.split failure.split)
qed

text \<open>A query followed by an assertion that holds of its answer goes on with the same documents.\<close>

lemma query_step:
  assumes "env_up env" and "fst (unwrap_act (shard_get_msgs env u a b x y) s) = Inr xs" and "P xs"
  shows "\<exists>t. and_then (unwrap_act (shard_get_msgs env u a b x y)) (\<lambda>xs. assert_that (P xs)) s = (Inr (), t) \<and> sb_docs t = sb_docs s"
  using assms(2,3) pull_keeps [OF assms(1), of u a b x y s]
  by (cases "unwrap_act (shard_get_msgs env u a b x y) s") (simp add: and_then_def assert_that_def)

lemma filter_member: "distinct (map mem_id gs) \<Longrightarrow> h \<in> set gs \<Longrightarrow> filter (\<lambda>g. mem_id g = mem_id h) gs = [h]"
  by (induction gs) (auto simp: filter_empty_conv image_iff)

text \<open>A member finds its copy, and only this, around its own number.\<close>

lemma pull_member:
  assumes "env_up env" and "se_shards env \<noteq> 0" and "steady_clock env" and "with_capacity (se_cap env) 2 = Inr ()"
    and docs: "sb_docs s = (home env (sender_id m), to_doc (m\<lparr>receiver_id := sender_id m\<rparr>))
        # map (\<lambda>g. (home env (mem_id g), to_doc (member_copy m g))) gs"
    and "distinct (sender_id m # map mem_id gs)" and "h \<in> set gs"
  shows "fst (unwrap_act (shard_get_msgs env (mem_id h) 0 0 (cur_seq h - 1) (cur_seq h + 1)) s) =
    Inr [stored_view (member_copy m h)]"
proof -
  let ?P = "shard_match_msgs (mem_id h) 0 0 (cur_seq h - 1) (cur_seq h + 1)"
  have ne: "sender_id m \<noteq> mem_id h" using assms(6,7) by auto
  have same: "g = h" if "g \<in> set gs" "mem_id g = mem_id h" for g
    using assms(6,7) that by (auto simp: distinct_map inj_on_def)
  have "filter (\<lambda>g. home env (mem_id g) = home env (mem_id h) \<and> ?P (to_doc (member_copy m g))) gs = filter (\<lambda>g. mem_id g = mem_id h) gs"
    using ne by (intro filter_cong) (auto simp: shard_match_msgs_def gte_lte_def member_copy_def dest: same)
  also have "\<dots> = [h]" using filter_member [of gs h] assms(6,7) by simp
  finally have "filter ?P (docs_in (home env (mem_id h)) s) = [to_doc (member_copy m h)]"
    using ne by (simp add: docs_in_def docs filter_map o_def shard_match_msgs_def [of _ _ _ _ _ "to_doc (m\<lparr>receiver_id := sender_id m\<rparr>)"] conj_commute)
  moreover have "of_this_month env s" by (rule home_of_month) (auto simp: docs)
  ultimately show ?thesis
    using unwrap_Inr [of "shard_get_msgs env (mem_id h) 0 0 (cur_seq h - 1) (cur_seq h + 1)" s,
        OF pull_this_month [OF assms(1-3)]] assms(4) ne
    by (auto simp: sort_msgs_def own_seq_zero_def stored_view_def member_copy_def)
qed

lemma member_checked:
  assumes "env_up env" and "se_shards env \<noteq> 0" and "steady_clock env" and "with_capacity (se_cap env) 2 = Inr ()"
    and "sb_docs s = (home env (sender_id m), to_doc (m\<lparr>receiver_id := sender_id m\<rparr>))
        # map (\<lambda>g. (home env (mem_id g), to_doc (member_copy m g))) gs"
    and "distinct (sender_id m # map mem_id gs)" and "h \<in> set gs"
  shows "\<exists>t. check_member env h s = (Inr (), t) \<and> sb_docs t = sb_docs s"
  unfolding check_member_def using pull_member [OF assms]
  by (intro query_step [OF assms(1)]) (auto simp: stored_view_def member_copy_def)

lemma pull_sender:
  assumes "env_up env" and "se_shards env \<noteq> 0" and "steady_clock env" and "with_capacity (se_cap env) 1000 = Inr ()"
    and docs: "sb_docs s = (home env (sender_id m), to_doc (m\<lparr>receiver_id := sender_id m\<rparr>))
        # map (\<lambda>g. (home env (mem_id g), to_doc (member_copy m g))) gs"
    and "0 \<le> send_seq m" and "send_seq m \<le> 1000"
  shows "\<exists>t. and_then (unwrap_act (shard_get_msgs env (sender_id m) 0 1000 0 0)) (\<lambda>xs. assert_that (xs \<noteq> [])) s = (Inr (), t)
    \<and> sb_docs t = sb_docs s"
proof -
  have "to_doc (m\<lparr>receiver_id := sender_id m\<rparr>) \<in>
      set (filter (shard_match_msgs (sender_id m) 0 1000 0 0) (docs_in (home env (sender_id m)) s))"
    using assms(6,7) by (simp add: docs_in_def docs shard_match_msgs_def gte_lte_def)
  moreover have "of_this_month env s" by (rule home_of_month) (auto simp: docs)
  then have "\<exists>xs. fst (unwrap_act (shard_get_msgs env (sender_id m) 0 1000 0 0) s) = Inr xs
      \<and> set xs = (\<lambda>d. own_seq_zero (sender_id m) (msg_of_doc d)) `
        set (filter (shard_match_msgs (sender_id m) 0 1000 0 0) (docs_in (home env (sender_id m)) s))"
    using unwrap_Inr [of "shard_get_msgs env (sender_id m) 0 1000 0 0" s, OF pull_this_month [OF assms(1-3)]] assms(4)
    by (simp add: sort_msgs_def)
  ultimately obtain xs where "fst (unwrap_act (shard_get_msgs env (sender_id m) 0 1000 0 0) s) = Inr xs" "xs \<noteq> []"
    by (metis empty_iff imageI list.set(1))
  then show ?thesis using query_step [OF assms(1), of "sender_id m" 0 1000 0 0 s xs "\<lambda>xs. xs \<noteq> []"] by simp
qed

lemma group_test:
  assumes "env_up env" and "se_shards env \<noteq> 0" and "steady_clock env"
    and "with_capacity (se_cap env) 2 = Inr ()" and "with_capacity (se_cap env) 1000 = Inr ()"
  shows "passes (sharded_group_message_works env ms) (fresh_box env)"
proof -
  define b where "b = ''group_test_'' @ show_nat ms"
  define m where "m = (get_sharded_test_msg (se_now env) ms (''group_msg_'' @ b))
    \<lparr>sender_id := ''sender_'' @ b, group_id := ''group_'' @ b, msg_type := msg_type_code GroupMsg, send_seq := 100\<rparr>"
  define g where "g i n = \<lparr>mem_id = ''member_'' @ i @ ''_'' @ b, cur_seq = n, max_seq = n, need_update = False\<rparr>"
    for i :: string and n :: int
  let ?gs = "[g ''1'' 1001, g ''2'' 2001]"
  have sel: "sender_id m = ''sender_'' @ b" "send_time m = se_now env" "send_seq m = 100"
    by (simp_all add: m_def get_sharded_test_msg_def)
  have apart: "distinct (sender_id m # map mem_id ?gs)" by (simp add: sel g_def)
  obtain t where t: "unwrap_act (shard_save_group_msg env m ?gs) (fresh_box env) = (Inr (), t)"
      "sb_docs t = (home env (sender_id m), to_doc (m\<lparr>receiver_id := sender_id m\<rparr>))
        # map (\<lambda>g. (home env (mem_id g), to_doc (member_copy m g))) ?gs"
    using shard_group_home [OF assms(1,2) sel(2) apart fresh_box_sel(1)] by blast
  obtain t1 where t1: "and_then (unwrap_act (shard_get_msgs env (sender_id m) 0 1000 0 0)) (\<lambda>xs. assert_that (xs \<noteq> [])) t = (Inr (), t1)"
      "sb_docs t1 = sb_docs t"
    using pull_sender [OF assms(1-3,5) t(2)] sel(3) by auto
  obtain t2 where t2: "check_member env (g ''1'' 1001) t1 = (Inr (), t2)" "sb_docs t2 = sb_docs t1"
    using member_checked [OF assms(1-4) t(2) [folded t1(2)] apart, of "g ''1'' 1001"] by auto
  obtain t3 where t3: "check_member env (g ''2'' 2001) t2 = (Inr (), t3)"
    using member_checked [OF assms(1-4) t(2) [folded t1(2), folded t2(2)] apart, of "g ''2'' 2001"] by auto
  have "sharded_group_message_works env ms = sequentially
      [unwrap_act (shard_save_group_msg env m ?gs),
       and_then (unwrap_act (shard_get_msgs env (sender_id m) 0 1000 0 0)) (\<lambda>xs. assert_that (xs \<noteq> [])),
       check_member env (g ''1'' 1001), check_member env (g ''2'' 2001)]"
    unfolding sharded_group_message_works_def Let_def sel(1) unfolding m_def g_def b_def ..
  then show ?thesis using t(1) t1(1) t2(1) t3 by (simp add: passes_def and_then_def)
qed

lemma with_capacity_fits: "0 \<le> n \<Longrightarrow> n \<le> 1000 \<Longrightarrow> 1000 \<le> cap \<Longrightarrow> with_capacity cap n = Inr ()"
  by (simp add: with_capacity_def wrap64_def)

text \<open>
  C37. The repository's own tests agree with the model on all but one: on a fresh database, with the services up
  and a clock that stays within a month, the six tests of the cache, two of the unsharded box and the five of the
  sharded box pass. The test of the batch deletion in the unsharded box must fail whatever the clock says: it saves
  its first message with number 0, deletes the numbers 12, 123 and 1234, and expects all three messages to be gone.
\<close>

theorem repository_tests_verdict:
  assumes "env_up env" and "se_shards env = 10" and "steady_clock env" and "1000 \<le> se_cap env"
  shows "list_all (\<lambda>t. passes t redis_empty)
      [test_increase_seq, test_save_group_members_id, test_query_group_members_id, test_add_group_member_id,
       test_remove_group_member_id, test_del_group_members]
    \<and> passes (mongodb_insert_and_get_works now) [] \<and> passes (mongodb_insert_and_delete_and_get_works now) []
    \<and> \<not> passes (mongodb_insert_and_batch_delete_and_get_should_works now) []
    \<and> list_all (\<lambda>t. passes (t env ms) (fresh_box env))
      [sharded_insert_and_get_works, sharded_insert_and_delete_works, sharded_query_messages_works,
       sharded_group_message_works, sharded_message_read_status_works]"
  using cache_tests box_tests get_test delete_test query_test group_test read_test
    with_capacity_fits [OF _ _ assms(4)] assms(1-3) by simp

lemma demo_ym_apart: "demo_ym 1697408000 \<noteq> demo_ym 1700000000" "demo_ym 1694816000 \<noteq> demo_ym 1700000000"
  "k < 10 \<Longrightarrow> demo_ym (1700000000 + int k) = demo_ym 1700000000"
proof -
  have ym: "demo_ym 1697408000 = ''54_6''" "demo_ym 1694816000 = ''54_5''" "demo_ym 1700000000 = ''54_7''"
    by (simp_all add: demo_ym_def show_nat.simps char_of_def bit_Suc_0_iff)
  then show "demo_ym 1697408000 \<noteq> demo_ym 1700000000" "demo_ym 1694816000 \<noteq> demo_ym 1700000000" by simp_all
  assume "k < 10"
  then have "(1700000000 + int k) div 2592000 = 655" by simp
  then show "demo_ym (1700000000 + int k) = demo_ym 1700000000" by (simp add: demo_ym_def)
qed

theorem repository_tests_verdict_witness:
  "passes (sharded_group_message_works demo_env 7) (fresh_box demo_env)
   \<and> \<not> passes (mongodb_insert_and_batch_delete_and_get_should_works 1700000000) []"
proof -
  have "steady_clock demo_env"
    using demo_ym_apart by (auto simp: steady_clock_def months_ago_def unwrap_or_def)
  then show ?thesis
    using repository_tests_verdict [of demo_env 1700000000 7] by simp
qed

end
