(* ===== verification/Spec2Isabelle.thy ===== *)
theory Spec2Isabelle
  imports Ws_Server Delivery Api_Auth Files Migrations Startup Grpc Newcomers Services Names Ports Unit_Tests
begin

text \<open>
  Verification of the sandcat instant-messaging backend (Rust). This theory imports the whole
  development and describes it.

  \<^bold>\<open>The program.\<close> A client holds a websocket to a gateway (\<open>msg_gateway\<close>). A message it sends gets a
  send number from Redis and goes over gRPC to the chat service (\<open>msg_server/src/productor.rs\<close>),
  which stamps it and puts it on a Kafka topic. The consumer (\<open>msg_server/src/consumer.rs\<close>) takes it
  off, gives every receiver the next receive number (\<open>cache\<close>, \<open>db/src/postgres/seq.rs\<close>), stores one
  copy per receiver in a MongoDB box (\<open>db/src/mongodb\<close>) and pushes it to all gateways
  (\<open>msg_server/src/pusher\<close>), which send it to the connected clients. A client that was offline
  pulls the numbers it lacks from the box. The group tables (\<open>db/src/postgres/group.rs\<close>) say who
  belongs to a group, the friend tables who is a friend of whom. \<open>cmd/src/load_seq.rs\<close> refills an empty
  cache from PostgreSQL at start-up. The HTTP API (\<open>api\<close>) registers and authenticates users, changes
  friends and groups in PostgreSQL and tells the others by system messages through the chat service,
  hands out stored messages and files (\<open>oss\<close>), and finds the other services through a registry
  (\<open>utils\<close>, \<open>api/src/api_utils/lb\<close>).

  \<^bold>\<open>Conventions\<close> (\<open>Prelude\<close>). A fallible function is a function into \<open>'e + 'a\<close>; one that changes the
  state of a service returns the new state too, so that what was written before an error stays
  written. \<open>failure\<close> is an \<open>Error\<close> of \<open>abi/src/errors\<close> or a panic. Every remote call takes the
  outage it meets as a parameter, so the theorems cover every pattern of failures they do not
  exclude. A call that fails has changed nothing at the service; a call that takes effect and whose answer is then
  lost is not among the failures, except in \<open>Grpc\<close>, where responses cross the wire. A call that never returns is the value \<open>None\<close>. Integers are mathematical integers with
  the 64-bit range written out where the code or a service checks or overflows it.

  \<^bold>\<open>Theories, in the order of their imports.\<close>
  \<^item> \<open>Prelude\<close>: results with state, invariants of operations, bounded channels, lists.
  \<^item> \<open>Errors\<close> (\<open>abi/src/errors/mod.rs\<close>): kinds, constructors, conversions from the libraries' errors, to
    gRPC and to HTTP; an error keeps its kind and the details it has over a gRPC hop, a plain status loses its
    message.
  \<^item> \<open>Messages\<close> (\<open>abi/src/pb/message.rs\<close>, \<open>abi/src/types\<close>, \<open>db/src/mongodb/utils.rs\<close>): message data, codecs,
    system messages, validation, the document form and its round trip.
  \<^item> \<open>Cache\<close> (\<open>cache/src/redis/mod.rs\<close>): the keyspace, both Lua scripts, every operation.
  \<^item> \<open>Sequences\<close>: what the scripts guarantee, as the locale \<open>seq_issuer\<close> with one interpretation for
    receive and one for send numbers: numbers are consecutive and unique, lie in the reserved
    window, and the batch script equals single calls.
  \<^item> \<open>Seq_Repo\<close> (\<open>db/src/postgres/seq.rs\<close>, \<open>message.rs\<close>, \<open>cmd/src/load_seq.rs\<close>): the persisted maxima, the
    audit table, and the reload of the cache.
  \<^item> \<open>Msg_Box\<close> and \<open>Sharded_Box\<close> (\<open>db/src/mongodb/message.rs\<close>, \<open>sharded_message.rs\<close>): the two receive boxes.
    The locale \<open>msg_rec_box\<close> is the contract of the trait \<open>MsgRecBoxRepo\<close> the consumer relies on; both
    boxes interpret it. The theories also show what a pull returns and where the boxes differ: from the sharded box,
    which the shipped \<open>config.yml\<close> selects, messages stamped in milliseconds are never pulled. What is said of pulls in
    \<open>Mailboxes\<close>, \<open>Newcomers\<close> and \<open>Delivery\<close> is therefore said of the unsharded box.
  \<^item> \<open>Group_Repo\<close> (\<open>db/src/postgres/group.rs\<close>): all operations on the group tables; the integrity of the
    tables is an invariant of the step relation \<open>group_step\<close>, and strangers to a group do not change who is in it, in
    which role, and who is muted (\<open>call_by\<close>).
  \<^item> \<open>Pusher\<close> (\<open>msg_server/src/pusher/service.rs\<close>, \<open>productor.rs\<close>): fan-out to the gateways, the producer.
  \<^item> \<open>Consumer\<close> (\<open>msg_server/src/consumer.rs\<close>): the handler over the whole world of cache, tables, box and
    pusher. The locale \<open>box_client\<close> extends \<open>msg_rec_box\<close> and proves delivery once for both boxes. The
    invariant \<open>rec_synced\<close> keeps persisted and cached maxima in step, which makes receive numbers
    survive a loss of the cache; send numbers do not.
  \<^item> \<open>Hub\<close> (\<open>msg_gateway/src/manager.rs\<close>, \<open>client.rs\<close>, \<open>rpc.rs\<close>): registration, delivery to clients and messages
    from clients. The locale \<open>client_directory\<close> is what the sessions rely on.
  \<^item> \<open>Ws_Server\<close> (\<open>msg_gateway/src/ws_server.rs\<close>): rate limit, token check, the tasks of a connection, and
    all connections of a gateway as the step relation \<open>session_step\<close> with its invariants.
  \<^item> \<open>Mailboxes\<close>: whole runs of the consumer. The abstract specification is a post office (\<open>office\<close>, \<open>post\<close>): the last
    number and the letters of every user. The lemmas of \<open>box_client\<close> are extended to the refinement of
    one handled message and of a consumed queue; \<open>ready\<close> is what a run needs and keeps.
  \<^item> \<open>Chat\<close>: a client's message from its gateway through producer, topic, consumer and pusher to the clients of all
    recipients on all gateways.
  \<^item> \<open>Grpc\<close> (\<open>abi/src/pb/message.rs\<close>): the paths of the generated clients and the dispatch of the generated servers; a
    remote call is the local one, requests and answers passing through a codec, and a push to many gateways is the local
    delivery at those that can be reached.

  \<^item> \<open>Schema\<close> (\<open>migrations\<close>): the columns of the tables and what the server checks of a statement before it
    runs it: names, types, casts, required columns.
  \<^item> \<open>User_Repo\<close> (\<open>db/src/postgres/user.rs\<close>, \<open>abi/src/types/user.rs\<close>): all operations on users; ids stay unique and
    every user keeps a sequence row; a changed password verifies.
  \<^item> \<open>Friend_Repo\<close> and \<open>Friend_Graph\<close> (\<open>db/src/postgres/friend.rs\<close>, \<open>abi/src/types/friend.rs\<close>): all operations on the
    friend tables, each guarded by the schema, and their refinement of \<open>friend_book\<close>, a book of requests
    and symmetric edges; friendship is mutual; which operations the schema refuses.
  \<^item> \<open>Api_Base\<close>: what the HTTP handlers share, the numbered notice in particular.
  \<^item> \<open>Api_Groups\<close> and \<open>Api_Friends\<close> (\<open>api/src/handlers/groups\<close>, \<open>friends\<close>, \<open>messages\<close>): all handlers; who is told of a
    change, and who is not.
  \<^item> \<open>Group_Schema\<close> (\<open>db/src/postgres/group.rs\<close>, \<open>abi/src/types/group.rs\<close>): the statements and the row decoding of the
    group repository against the migrated tables. \<open>Group_Repo\<close> and \<open>Api_Groups\<close> leave open which statements the
    server refuses and which rows can be decoded, so that what they show holds for every schema; with the
    migrated one no row of \<open>groups\<close> is readable and no group ever exists.
  \<^item> \<open>Migrations\<close> (\<open>migrations\<close>): the files in the order in which they are applied; the run stops before its end, so
    the tables of \<open>Schema\<close> are those of a database in which the repeated file has been skipped.
  \<^item> \<open>Delivery\<close>: the path of a friend request from the API through the queue, the consumer and the box to
    the pull of the friend.
  \<^item> \<open>Api_Users\<close> (\<open>api/src/handlers/users\<close>, \<open>api/src/api_utils/ip_region\<close>): registration, login, tokens, password
    change, OAuth2; UTF-8 and the region text are written out.
  \<^item> \<open>Api_Auth\<close> (\<open>api/src/api_utils/custom_extract\<close>, \<open>api/src/routes.rs\<close>): the extractors, the route table with the
    signatures of the handlers; which headers the two authenticating extractors admit, reject or panic on, which
    routes ask for a token and which handlers fit their routes.
  \<^item> \<open>Files\<close> (\<open>oss/src\<close>, \<open>api/src/handlers/files\<close>): the object store, its start-up and the file handlers. The locale
    \<open>object_store\<close> is interpreted for the bucket of files and for the bucket of avatars.
  \<^item> \<open>Config\<close> (\<open>abi/src/config.rs\<close>): the configuration records and the addresses made of them.
  \<^item> \<open>Discovery\<close> (\<open>api/src/api_utils/lb\<close>, \<open>utils/src\<close>): load balancing, the followers of the registry, dynamic discovery
    and the Consul client. The locale \<open>registry_follower\<close> is interpreted for the balancer and for a channel.
  \<^item> \<open>Migrate\<close> (\<open>db/src/lib.rs\<close>, \<open>cmd/src/migrate.rs\<close>): which box a configuration selects, and the command that copies the
    unsharded box into the sharded one, in batches.
  \<^item> \<open>Startup\<close> (\<open>cmd/src/main.rs\<close>, \<open>msg_server/src/lib.rs\<close>): the process from its arguments to the servers it runs and to
    its end; a start establishes \<open>ready\<close>, or never serves. There a process serves once its servers are spawned; whether
    each of them comes up is in \<open>Services\<close>.
  \<^item> \<open>Repos\<close> and \<open>Ports\<close> (\<open>db/src/{user,friend,group,message,seq,lib}.rs\<close>, \<open>cache/src/lib.rs\<close>, \<open>oss/src/lib.rs\<close>,
    \<open>msg_server/src/pusher/mod.rs\<close>): the traits as records of operations with the objects the factories put behind
    them. \<open>DbRepo\<close> joins the five repositories over one database \<open>pg\<close>; what one writes the others read.
  \<^item> \<open>Newcomers\<close>: what \<open>DbRepo\<close> and the consumer do together: a new user is one more user the consumer is ready for, two
    new users can become friends, and what a configured step of 0 does.
  \<^item> \<open>Services\<close> (\<open>api/src/lib.rs\<close>, \<open>msg_server/src\<close>, \<open>msg_gateway/src\<close>, \<open>utils/src/lib.rs\<close>): the constructors of the services and
    their start up to listening, on the state \<open>system\<close> of registry, sockets, topics, boxes and object store; when the API
    server comes up, and in which order servers are announced and listen.
  \<^item> \<open>Protocol\<close> and \<open>Names\<close> (\<open>abi/protos\<close>, \<open>abi/src/pb/message.rs\<close>, \<open>abi/build.rs\<close>): the declarations, the generated structs and
    enums as descriptors, and the build script as the attributes it configures. The generated file is in step with the
    declarations, and serialises what the script asks for; the locale \<open>declared_enum\<close> is interpreted for the names of all six enums.
  \<^item> \<open>Testing\<close> and \<open>Unit_Tests\<close> (\<open>utils/src/sqlx_tester\<close>, \<open>mongodb_tester\<close>, \<open>db/src/benchmarks\<close>, the test modules of \<open>cache\<close> and
    \<open>db/src/mongodb\<close>): throw-away databases, the benchmark, for which the contract \<open>msg_rec_box\<close> is extended by loops of
    saves, and the repository's own tests run on the model, with the one that cannot pass.

  \<^bold>\<open>Parameters.\<close> Code outside the repository is a parameter: serialisation (\<open>serde_json\<close>, \<open>bincode\<close>),
  token coding, Argon2, base64, mail and the GitHub API, the region library \<open>xdb\<close>, what \<open>axum\<close> reads from a request, the row
  decoding of the database driver, parsing of socket addresses and URLs, calendar arithmetic and formatting of
  \<open>chrono\<close>, the hash of a user id, clocks, generated ids, the service center, the order in which
  spawned pushes answer. The commands of Redis, MongoDB, PostgreSQL and S3 the code uses are modelled as
  documented; texts of their errors are representative and no property depends on them.

  \<^bold>\<open>Bounds.\<close> No definition uses fuel: all loops run over finite data (rows, frames, records, attempts)
  and are structurally recursive. The counter of
  the round robin is a 64-bit word and wraps. The capacities 1024 and 100 of the two channels that are filled
  before anything receives are part of the model, and the properties say exactly when the calls
  return. Lua numbers are doubles; the exact integers of the model agree with them up to \<open>2 ^ 53\<close>.

  \<^bold>\<open>Concurrency.\<close> Tasks spawned by one handler run one after the other in the model; they touch
  disjoint parts of the world, so their order does not matter (\<open>on_part_commute\<close> in \<open>Consumer\<close>). The batches of
  the migration only append. The
  connections of a gateway interleave freely in \<open>session_step\<close>.

  \<^bold>\<open>Not modelled:\<close> the HTTP and gRPC servers, database drivers and brokers themselves (libraries; whether they
  connect, bind or accept is a parameter), the bytes of protocol buffers (a codec with its law), compression and size
  limits of gRPC and the builder methods of the generated code that set them, which nothing calls, the constructors and
  validators of the requests of the former database service, which nothing uses either, the running of \<open>protoc\<close>
  and \<open>cargo fmt\<close> by the build script, log formatting, the layers of the HTTP router, what the benchmark prints, and the
  tests whose subject is a library (templates, password hashing) or that are commented out.
\<close>

end
